(* ===== verification/Prelude.thy ===== *)
theory Prelude
  imports Complex_Main
begin

text \<open>
  Shared vocabulary of the development: the fixed-width integers of Go, the shape of a
  fallible operation that also changes state, the error values of the program, and the
  generic lemmas the component theories share.

  A Go function \<open>func (x *T) f(args) (R, error)\<close> that reads or writes a store of type
  \<open>'s\<close> becomes a HOL function \<open>args \<Rightarrow> 's \<Rightarrow> (err + 'r) \<times> 's\<close>: the left summand is a
  non-nil \<^verbatim>\<open>error\<close> result, and the state is returned in both cases because Go has no
  rollback on an error return.
\<close>

named_theorems go_simps \<open>unfolding rules of small Go library functions\<close>
named_theorems repo_simps \<open>unfolding rules of the repository operations\<close>
named_theorems frame_simps \<open>what an operation leaves unchanged\<close>

section \<open>Integers of fixed width\<close>

text \<open>Go's \<^verbatim>\<open>int\<close> and \<^verbatim>\<open>int64\<close> are 64-bit two's complement on the targets of the program.
  A value is an \<^typ>\<open>int\<close>; \<open>wrap64\<close> is applied wherever Go arithmetic may leave the range.\<close>

definition min_int64 :: int where
  "min_int64 = - (2 ^ 63)"

definition max_int64 :: int where
  "max_int64 = 2 ^ 63 - 1"

definition wrap64 :: "int \<Rightarrow> int" where
  "wrap64 n = (n + 2 ^ 63) mod 2 ^ 64 - 2 ^ 63"

definition in_int64 :: "int \<Rightarrow> bool" where
  "in_int64 n \<longleftrightarrow> min_int64 \<le> n \<and> n \<le> max_int64"

lemma wrap64_in_range: "in_int64 (wrap64 n)"
proof -
  have "0 \<le> (n + 2 ^ 63) mod (2 ^ 64 :: int)" by simp
  moreover have "(n + 2 ^ 63) mod (2 ^ 64 :: int) < 2 ^ 64" by simp
  ultimately show ?thesis
    by (simp add: in_int64_def wrap64_def min_int64_def max_int64_def)
qed

lemma wrap64_id [simp]: "in_int64 n \<Longrightarrow> wrap64 n = n"
  by (simp add: in_int64_def wrap64_def min_int64_def max_int64_def)

lemma in_int64_small [intro]: "- (2 ^ 62) \<le> n \<Longrightarrow> n \<le> 2 ^ 62 \<Longrightarrow> in_int64 n"
  by (simp add: in_int64_def min_int64_def max_int64_def)

lemma wrap64_uminus: "in_int64 n \<Longrightarrow> n \<noteq> min_int64 \<Longrightarrow> wrap64 (- n) = - n"
  by (rule wrap64_id) (auto simp: in_int64_def min_int64_def max_int64_def)

lemma wrap64_uminus_min: "wrap64 (- min_int64) = min_int64"
  by (simp add: wrap64_def min_int64_def)

section \<open>Errors\<close>

text \<open>
  The error values the program distinguishes. The first four are the typed errors of
  \<^verbatim>\<open>ent/ent.go\<close>; \<open>EDriver\<close> is an error handed up by the SQL layer, classified the way its
  own predicates (\<^verbatim>\<open>sqlgraph.IsConstraintError\<close>, \<^verbatim>\<open>*sqlgraph.NotFoundError\<close>) classify it;
  \<open>EMsg\<close> is an error built from a format string that keeps no chain (\<^verbatim>\<open>%v\<close>), \<open>EWrap\<close> one that
  keeps it (\<^verbatim>\<open>%w\<close>); \<open>ECanceled\<close> is \<^verbatim>\<open>ctx.Err()\<close>; \<open>EPanic\<close> is a run-time panic of the
  goroutine. The formatted arguments of a message are not represented, only the format.
\<close>

datatype sql_err = SqlConstraint string | SqlNotFound string | SqlOther string

datatype err =
    EValidation string string
  | ENotFound string
  | ENotSingular string
  | EConstraint sql_err
  | EDriver sql_err
  | EMsg string
  | EWrap string err
  | ECanceled
  | EPanic string

type_synonym ('s, 'a) io = "'s \<Rightarrow> (err + 'a) \<times> 's"

section \<open>Generic lemmas\<close>

lemma map_nth_upt_eq: "map (\<lambda>i. f (xs ! i)) [0..<length xs] = map f xs"
  by (rule nth_equalityI) simp_all

lemma filter_id_conv': "(\<And>x. x \<in> set xs \<Longrightarrow> P x) \<Longrightarrow> filter P xs = xs"
  by (induction xs) auto

lemma distinct_map_filter: "distinct (map f xs) \<Longrightarrow> distinct (map f (filter P xs))"
  by (induction xs) auto

lemma sum_list_map_filter_split:
  fixes f :: "'a \<Rightarrow> 'b::comm_monoid_add"
  shows "sum_list (map f xs) =
    sum_list (map f (filter P xs)) + sum_list (map f (filter (\<lambda>x. \<not> P x) xs))"
  by (induction xs) (auto simp: ac_simps)

end
