(* ===== verification/Go_Float.thy ===== *)
theory Go_Float
  imports Prelude
begin

text \<open>
  The \<^verbatim>\<open>float64\<close> of Go: IEEE 754 binary64 with rounding to nearest, ties to even. Balances,
  transfer amounts and gas figures of the program are of this type, and the program moves
  between \<^verbatim>\<open>int64\<close> and \<^verbatim>\<open>float64\<close> at its borders (\<^verbatim>\<open>float64(amount)\<close> in the repository,
  \<^verbatim>\<open>int64(account.Amount)\<close> in the REST controller). A finite value is the rational it denotes;
  the sign of a zero is not represented (nothing in the program reads it).
\<close>

datatype float64 = F64 rat | F64_PInf | F64_NInf | F64_NaN

text \<open>\<open>pow2 e\<close> is two to a possibly negative exponent; \<open>ilog2 q\<close> is the binary exponent of a
  positive rational.\<close>

definition pow2 :: "int \<Rightarrow> rat" where
  "pow2 e = (if 0 \<le> e then 2 ^ nat e else 1 / 2 ^ nat (- e))"

fun nbits :: "nat \<Rightarrow> nat" where
  "nbits n = (if n = 0 then 0 else Suc (nbits (n div 2)))"

declare nbits.simps [simp del]

definition ilog2 :: "rat \<Rightarrow> int" where
  "ilog2 q = (let (a, b) = quotient_of q;
                  k = int (nbits (nat a)) - int (nbits (nat b))
              in if pow2 k \<le> q then k else k - 1)"

definition round_half_even :: "rat \<Rightarrow> int" where
  "round_half_even q =
     (let f = \<lfloor>q\<rfloor>; r = q - of_int f
      in if r < 1 / 2 then f else if 1 / 2 < r then f + 1
         else if even f then f else f + 1)"

definition f64_round :: "rat \<Rightarrow> float64" where
  "f64_round q =
     (if q = 0 then F64 0
      else let e = max (-1074) (ilog2 \<bar>q\<bar> - 52);
               v = of_int (round_half_even (q / pow2 e)) * pow2 e
           in if pow2 1024 \<le> \<bar>v\<bar> then (if 0 < q then F64_PInf else F64_NInf) else F64 v)"

text \<open>The conversions and the addition the program performs.\<close>

definition f64_of_int :: "int \<Rightarrow> float64" where
  "f64_of_int n = f64_round (of_int n)"

fun f64_add :: "float64 \<Rightarrow> float64 \<Rightarrow> float64" where
  "f64_add (F64 a) (F64 b) = f64_round (a + b)"
| "f64_add F64_NaN _ = F64_NaN"
| "f64_add _ F64_NaN = F64_NaN"
| "f64_add F64_PInf F64_NInf = F64_NaN"
| "f64_add F64_NInf F64_PInf = F64_NaN"
| "f64_add F64_PInf _ = F64_PInf"
| "f64_add _ F64_PInf = F64_PInf"
| "f64_add F64_NInf _ = F64_NInf"
| "f64_add _ F64_NInf = F64_NInf"

definition rat_trunc :: "rat \<Rightarrow> int" where
  "rat_trunc q = (if 0 \<le> q then \<lfloor>q\<rfloor> else - \<lfloor>- q\<rfloor>)"

text \<open>\<^verbatim>\<open>int64(f)\<close>: truncation towards zero; outside the range (and for NaN) the Go
  specification leaves the result to the implementation; this is the value amd64 gives.\<close>

definition f64_to_int64 :: "float64 \<Rightarrow> int" where
  "f64_to_int64 f =
     (case f of F64 q \<Rightarrow> (if in_int64 (rat_trunc q) then rat_trunc q else min_int64)
      | _ \<Rightarrow> min_int64)"

section \<open>Exactness on integers up to 2 to the 53\<close>

lemma pow2_nonneg_exp: "0 \<le> e \<Longrightarrow> pow2 e = 2 ^ nat e"
  by (simp add: pow2_def)

lemma pow2_neg_exp: "e \<le> 0 \<Longrightarrow> pow2 e = 1 / 2 ^ nat (- e)"
  by (auto simp: pow2_def)

lemma pow2_pos [simp]: "0 < pow2 e"
  by (simp add: pow2_def)

lemma round_half_even_of_int [simp]: "round_half_even (of_int n) = n"
  by (simp add: round_half_even_def Let_def)

lemma nbits_le: "n < 2 ^ k \<Longrightarrow> nbits n \<le> k"
proof (induction k arbitrary: n)
  case 0
  then show ?case by (simp add: nbits.simps)
next
  case (Suc k)
  then have "n div 2 < 2 ^ k" by simp
  then have "nbits (n div 2) \<le> k" by (rule Suc.IH)
  then show ?case by (subst nbits.simps) simp
qed

lemma nbits_1: "nbits (Suc 0) = Suc 0"
  by (subst nbits.simps) (simp add: nbits.simps)

lemma ilog2_of_int_le:
  assumes "0 < n" "n < 2 ^ k"
  shows "ilog2 (of_int n) \<le> int k - 1"
proof -
  have "nbits (nat n) \<le> k" using assms by (intro nbits_le) (simp add: nat_less_iff)
  then show ?thesis by (simp add: ilog2_def quotient_of_int nbits_1 Let_def)
qed

lemma exact_scale:
  assumes "e \<le> 0"
  shows "of_int (round_half_even (of_int n / pow2 e)) * pow2 e = (of_int n :: rat)"
proof -
  have "of_int n / pow2 e = (of_int (n * 2 ^ nat (- e)) :: rat)"
    using assms by (simp add: pow2_neg_exp)
  then have "round_half_even (of_int n / pow2 e) = n * 2 ^ nat (- e)"
    by (simp only: round_half_even_of_int)
  then show ?thesis using assms by (simp add: pow2_neg_exp)
qed

lemma pow2_1024_big:
  assumes "\<bar>n\<bar> \<le> 2 ^ 53"
  shows "\<not> pow2 1024 \<le> \<bar>of_int n :: rat\<bar>"
proof -
  have "\<bar>of_int n :: rat\<bar> = of_int \<bar>n\<bar>" by simp
  also have "\<dots> \<le> of_int (2 ^ 53)" using assms by (rule of_int_le_iff [THEN iffD2])
  also have "\<dots> < pow2 1024" by (simp add: pow2_def)
  finally show ?thesis by simp
qed

lemma f64_round_exact_small:
  assumes "\<bar>n\<bar> < 2 ^ 53"
  shows "f64_round (of_int n) = F64 (of_int n)"
proof (cases "n = 0")
  case True
  then show ?thesis by (simp add: f64_round_def)
next
  case False
  let ?e = "max (-1074) (ilog2 \<bar>of_int n :: rat\<bar> - 52)"
  have "\<bar>of_int n :: rat\<bar> = of_int \<bar>n\<bar>" by simp
  then have "ilog2 \<bar>of_int n :: rat\<bar> \<le> int 53 - 1"
    using False assms ilog2_of_int_le [of "\<bar>n\<bar>" 53] by simp
  then have "?e \<le> 0" by simp
  then have "of_int (round_half_even (of_int n / pow2 ?e)) * pow2 ?e = (of_int n :: rat)"
    by (rule exact_scale)
  then show ?thesis using False assms pow2_1024_big [of n]
    by (simp add: f64_round_def Let_def)
qed

lemma f64_of_int_exact: "\<bar>n\<bar> < 2 ^ 53 \<Longrightarrow> f64_of_int n = F64 (of_int n)"
  by (simp add: f64_of_int_def f64_round_exact_small)

lemma f64_add_exact:
  "\<bar>m + n\<bar> < 2 ^ 53 \<Longrightarrow> f64_add (F64 (of_int m)) (F64 (of_int n)) = F64 (of_int (m + n))"
  using f64_round_exact_small [of "m + n"] by simp

lemma f64_to_int64_of_int: "in_int64 n \<Longrightarrow> f64_to_int64 (F64 (of_int n)) = n"
  by (simp add: f64_to_int64_def rat_trunc_def)

lemma f64_round_trip: "\<bar>n\<bar> < 2 ^ 53 \<Longrightarrow> f64_to_int64 (f64_of_int n) = n"
  by (subst f64_of_int_exact, simp, rule f64_to_int64_of_int)
    (auto simp: in_int64_def min_int64_def max_int64_def abs_if split: if_splits)

section \<open>Rounding of larger integers\<close>

lemma nbits_ge: "0 < n \<Longrightarrow> 2 ^ (nbits n - 1) \<le> n"
proof (induction n rule: nbits.induct)
  case (1 n)
  show ?case
  proof (cases "n = 1")
    case True
    then show ?thesis by (simp add: nbits_1)
  next
    case False
    then have "0 < n div 2" using 1 by simp
    then have IH: "2 ^ (nbits (n div 2) - 1) \<le> n div 2" using 1 by simp
    have "0 < nbits (n div 2)" using \<open>0 < n div 2\<close> by (subst nbits.simps) simp
    then have "(2::nat) ^ (nbits n - 1) = 2 * 2 ^ (nbits (n div 2) - 1)"
      using 1 by (subst nbits.simps) (simp flip: power_Suc)
    then show ?thesis using IH by linarith
  qed
qed

lemma pow2_ilog2_of_int: "0 < n \<Longrightarrow> pow2 (ilog2 (of_int n)) \<le> of_int n"
proof -
  assume n: "0 < n"
  let ?m = "nat n"
  have "nbits ?m = Suc (nbits (?m div 2))" using n by (simp add: nbits.simps [of ?m])
  then have "0 < nbits ?m" by simp
  have "(2::rat) ^ (nbits ?m - 1) = of_nat (2 ^ (nbits ?m - 1))" by simp
  also have "\<dots> \<le> of_nat ?m" unfolding of_nat_le_iff using n by (intro nbits_ge) simp
  also have "\<dots> = of_int n" using n by simp
  finally have "pow2 (int (nbits ?m) - 1) \<le> of_int n"
    using \<open>0 < nbits ?m\<close> by (simp add: pow2_nonneg_exp nat_diff_distrib)
  then show ?thesis by (simp add: ilog2_def quotient_of_int nbits_1 Let_def)
qed

lemma pow2_mono: "0 \<le> e \<Longrightarrow> e \<le> f \<Longrightarrow> pow2 e \<le> pow2 f"
  by (simp add: pow2_nonneg_exp power_increasing)

lemma round_half_even_floor: "\<lfloor>q\<rfloor> \<le> round_half_even q"
  by (auto simp: round_half_even_def Let_def)

lemma round_half_even_ge: "of_int k \<le> q \<Longrightarrow> k \<le> round_half_even q"
  using round_half_even_floor [of q] by (simp add: le_floor_iff [symmetric])

lemma round_half_even_le: "round_half_even q \<le> \<lfloor>q\<rfloor> + 1"
  by (auto simp: round_half_even_def Let_def)

lemma round_half_even_nonpos: "q \<le> 0 \<Longrightarrow> round_half_even q \<le> 0"
proof -
  assume q: "q \<le> 0"
  show ?thesis
  proof (cases "q = of_int \<lfloor>q\<rfloor>")
    case True
    then show ?thesis using q by (metis floor_le_zero of_int_0 round_half_even_of_int of_int_le_iff)
  next
    case False
    then have "\<lfloor>q\<rfloor> < 0" using q by (metis floor_less_zero less_le of_int_0 floor_of_int)
    then show ?thesis using round_half_even_le [of q] by linarith
  qed
qed

text \<open>The rounding of any \<^verbatim>\<open>int64\<close> is a finite integer value of the same sign.\<close>

lemma f64_of_int_sign:
  assumes "in_int64 n"
  shows "\<exists>m. f64_of_int n = F64 (of_int m) \<and> (1 \<le> m \<longleftrightarrow> 1 \<le> n)"
proof (cases "\<bar>n\<bar> < 2 ^ 53")
  case True
  then show ?thesis using f64_of_int_exact by blast
next
  case False
  let ?q = "of_int n :: rat"
  define e where "e = max (-1074) (ilog2 \<bar>?q\<bar> - 52)"
  define k where "k = round_half_even (?q / pow2 e)"
  have abs: "\<bar>?q\<bar> = of_int \<bar>n\<bar>" by simp
  have le: "pow2 (ilog2 \<bar>?q\<bar>) \<le> \<bar>?q\<bar>"
    unfolding abs by (rule pow2_ilog2_of_int) (use False in auto)
  have big: "\<bar>?q\<bar> \<le> of_int (2 ^ 63)"
    unfolding abs of_int_le_iff using assms by (auto simp: in_int64_def min_int64_def max_int64_def)
  have huge: "of_int (2 ^ 65) < pow2 1024" by (simp add: pow2_def)
  have "n \<noteq> 0" using False by auto
  have val: "f64_of_int n = (if pow2 1024 \<le> \<bar>of_int k * pow2 e\<bar>
      then (if 0 < ?q then F64_PInf else F64_NInf) else F64 (of_int k * pow2 e))"
    using \<open>n \<noteq> 0\<close> by (simp add: f64_of_int_def f64_round_def Let_def e_def k_def)
  show ?thesis
  proof (cases "e \<le> 0")
    case True
    have "of_int k * pow2 e = ?q" unfolding k_def by (rule exact_scale [OF True])
    then show ?thesis using val big huge by auto
  next
    case False
    then have "0 \<le> e" "e \<le> ilog2 \<bar>?q\<bar>" by (auto simp: e_def)
    then have p: "pow2 e \<le> \<bar>?q\<bar>" "0 < pow2 e" "pow2 e = of_int (2 ^ nat e)"
      using order_trans [OF pow2_mono le, of e] by (simp_all add: pow2_nonneg_exp)
    have "?q / pow2 e - 1 \<le> of_int k" "of_int k \<le> ?q / pow2 e + 1"
      using round_half_even_floor [of "?q / pow2 e"] round_half_even_le [of "?q / pow2 e"]
      unfolding k_def by linarith+
    then have "?q - pow2 e \<le> of_int k * pow2 e" "of_int k * pow2 e \<le> ?q + pow2 e"
      using p(2) by (simp_all add: field_simps)
    then have "\<bar>of_int k * pow2 e\<bar> \<le> 2 * \<bar>?q\<bar>" using p(1) by linarith
    then have "\<not> pow2 1024 \<le> \<bar>of_int k * pow2 e\<bar>" using big huge by simp
    then have "f64_of_int n = F64 (of_int (k * 2 ^ nat e))" using val p(3) by simp
    moreover have "1 \<le> k * 2 ^ nat e \<longleftrightarrow> 1 \<le> n"
    proof (cases "1 \<le> n")
      case True
      then have "of_int 1 \<le> ?q / pow2 e" using p by simp
      then have "1 \<le> k" unfolding k_def by (rule round_half_even_ge)
      then show ?thesis using True by (simp add: mult_pos_pos int_one_le_iff_zero_less)
    next
      case False
      then have "?q / pow2 e \<le> 0" using p(2) by (simp add: divide_nonpos_pos)
      then have "k \<le> 0" unfolding k_def by (rule round_half_even_nonpos)
      then have "k * 2 ^ nat e \<le> 0" by (simp add: mult_nonpos_nonneg)
      then show ?thesis using False by linarith
    qed
    ultimately show ?thesis by blast
  qed
qed

end
