(* ===== verification/Model.thy ===== *)
theory Model
  imports Go_Float
begin

text \<open>
  The data of the indexer: \<^verbatim>\<open>model/model.go\<close> (what the services pass around), the JSON-typed
  column values of \<^verbatim>\<open>ent/schema/transaction.go\<close> (what the database stores), and the four
  conversions between them at the end of \<^verbatim>\<open>repository/repository_ent.go\<close>.

  Record fields carry a short prefix per type because HOL records share one name space. A
  \<^verbatim>\<open>time.Time\<close> is the number of nanoseconds since Go's zero time. A nil slice and an empty
  slice are both the empty list: the program only takes lengths and ranges over them.
\<close>

type_synonym go_time = int

definition zero_time :: go_time where
  "zero_time = 0"

text \<open>The dynamic values \<^verbatim>\<open>encoding/json\<close> puts into an \<^verbatim>\<open>any\<close>. A \<^verbatim>\<open>map[string]any\<close> is an
  association list read with \<open>map_of\<close>.\<close>

datatype any =
    ANil
  | ABool bool
  | ANum float64
  | AInt int
  | AStr string
  | AArr "any list"
  | AMap "(string \<times> any) list"

section \<open>\<^verbatim>\<open>model/model.go\<close>\<close>

record block =
  b_Hash :: string
  b_Height :: int
  b_Time :: go_time
  b_TotalTxs :: int
  b_NumTxs :: int

record gas_fee =
  gf_Amount :: float64
  gf_Denom :: string

record message =
  ms_Route :: string
  ms_TypeUrl :: string
  ms_Value :: "(string \<times> any) list"

record attr =
  at_Key :: string
  at_Value :: string

record event =
  ev_Type :: string
  ev_Func :: string
  ev_PkgPath :: string
  ev_Attrs :: "attr list"

record response =
  rs_Log :: string
  rs_Info :: string
  rs_Error :: string
  rs_Data :: string
  rs_Events :: "event list"

record transaction =
  tx_Index :: int
  tx_Hash :: string
  tx_Success :: bool
  tx_BlockHeight :: int
  tx_GasWanted :: float64
  tx_GasUsed :: float64
  tx_Memo :: string
  tx_GasFee :: gas_fee
  tx_Messages :: "message list"
  tx_Response :: response

record account =
  ac_Address :: string
  ac_Token :: string
  ac_Amount :: float64
  ac_CreatedAt :: go_time

record token_balance =
  tb_Token :: string
  tb_Amount :: float64

record transfer =
  tr_Func :: string
  tr_FromAddress :: string
  tr_ToAddress :: string
  tr_Token :: string
  tr_Amount :: float64
  tr_Denom :: string
  tr_CreatedAt :: go_time

section \<open>\<^verbatim>\<open>ent/schema/transaction.go\<close>\<close>

record schema_gas_fee =
  sgf_Amount :: float64
  sgf_Denom :: string

record schema_message =
  sms_Route :: string
  sms_TypeUrl :: string
  sms_Value :: "(string \<times> any) list"

record schema_event =
  sev_Type :: string
  sev_Func :: string
  sev_PkgPath :: string
  sev_Attrs :: "attr list"

record schema_response =
  srs_Log :: string
  srs_Info :: string
  srs_Error :: string
  srs_Data :: string
  srs_Events :: "schema_event list"

section \<open>Conversions\<close>

text \<open>\<^verbatim>\<open>schema.GasFee(tx.GasFee)\<close> and \<^verbatim>\<open>model.GasFee(entTx.GasFee)\<close> are plain struct conversions.\<close>

definition gas_fee_to_schema :: "gas_fee \<Rightarrow> schema_gas_fee" where
  "gas_fee_to_schema g = \<lparr>sgf_Amount = gf_Amount g, sgf_Denom = gf_Denom g\<rparr>"

definition schema_gas_fee_to_model :: "schema_gas_fee \<Rightarrow> gas_fee" where
  "schema_gas_fee_to_model g = \<lparr>gf_Amount = sgf_Amount g, gf_Denom = sgf_Denom g\<rparr>"

definition convertMessagesToSchema :: "message list \<Rightarrow> schema_message list" where
  "convertMessagesToSchema modelMessages = map (\<lambda>msg.
     \<lparr>sms_Route = ms_Route msg, sms_TypeUrl = ms_TypeUrl msg, sms_Value = ms_Value msg\<rparr>)
     modelMessages"

definition convertResponseToSchema :: "response \<Rightarrow> schema_response" where
  "convertResponseToSchema r =
     \<lparr>srs_Log = rs_Log r, srs_Info = rs_Info r, srs_Error = rs_Error r, srs_Data = rs_Data r,
      srs_Events = map (\<lambda>e. \<lparr>sev_Type = ev_Type e, sev_Func = ev_Func e,
        sev_PkgPath = ev_PkgPath e, sev_Attrs = ev_Attrs e\<rparr>) (rs_Events r)\<rparr>"

definition convertSchemaMessagesToModel :: "schema_message list \<Rightarrow> message list" where
  "convertSchemaMessagesToModel schemaMessages = map (\<lambda>msg.
     \<lparr>ms_Route = sms_Route msg, ms_TypeUrl = sms_TypeUrl msg, ms_Value = sms_Value msg\<rparr>)
     schemaMessages"

definition convertSchemaResponseToModel :: "schema_response \<Rightarrow> response" where
  "convertSchemaResponseToModel r =
     \<lparr>rs_Log = srs_Log r, rs_Info = srs_Info r, rs_Error = srs_Error r, rs_Data = srs_Data r,
      rs_Events = map (\<lambda>e. \<lparr>ev_Type = sev_Type e, ev_Func = sev_Func e,
        ev_PkgPath = sev_PkgPath e, ev_Attrs = sev_Attrs e\<rparr>) (srs_Events r)\<rparr>"

lemma gas_fee_round_trip [simp]: "schema_gas_fee_to_model (gas_fee_to_schema g) = g"
  by (simp add: gas_fee_to_schema_def schema_gas_fee_to_model_def)

lemma messages_round_trip [simp]:
  "convertSchemaMessagesToModel (convertMessagesToSchema ms) = ms"
  by (induction ms) (auto simp: convertSchemaMessagesToModel_def convertMessagesToSchema_def)

lemma response_round_trip [simp]:
  "convertSchemaResponseToModel (convertResponseToSchema r) = r"
proof -
  have "map (\<lambda>e. \<lparr>ev_Type = ev_Type e, ev_Func = ev_Func e, ev_PkgPath = ev_PkgPath e,
      ev_Attrs = ev_Attrs e\<rparr>) es = es" for es :: "event list"
    by (induction es) auto
  then show ?thesis
    by (simp add: convertSchemaResponseToModel_def convertResponseToSchema_def comp_def)
qed

end
