(* ===== verification/Go_Strings.thy ===== *)
theory Go_Strings
  imports Prelude "HOL-Library.Sublist"
begin

text \<open>
  The parts of Go's packages \<^verbatim>\<open>strings\<close> and \<^verbatim>\<open>strconv\<close> the program calls. A Go string is the
  list of its bytes. \<^verbatim>\<open>strings.ToLower\<close> folds ASCII text byte by byte and hands any other text
  to the Unicode tables of the runtime; those tables are the parameter \<open>uni\<close>.
\<close>

section \<open>Case folding\<close>

definition is_ascii :: "char \<Rightarrow> bool" where
  "is_ascii c \<longleftrightarrow> (of_char c :: nat) < 128"

definition ascii_lower :: "char \<Rightarrow> char" where
  "ascii_lower c = (if 65 \<le> (of_char c :: nat) \<and> (of_char c :: nat) \<le> 90
     then char_of ((of_char c :: nat) + 32) else c)"

definition to_lower :: "(string \<Rightarrow> string) \<Rightarrow> string \<Rightarrow> string" where
  "to_lower uni s = (if list_all is_ascii s then map ascii_lower s else uni s)"

lemma of_char_ascii_lower:
  "(of_char (ascii_lower c) :: nat) =
     (if 65 \<le> (of_char c :: nat) \<and> (of_char c :: nat) \<le> 90 then of_char c + 32 else of_char c)"
  by (simp add: ascii_lower_def)

lemma ascii_lower_idem [simp]: "ascii_lower (ascii_lower c) = ascii_lower c"
proof -
  have "\<not> (65 \<le> (of_char (ascii_lower c) :: nat) \<and> (of_char (ascii_lower c) :: nat) \<le> 90)"
    by (simp add: of_char_ascii_lower)
  then show ?thesis by (simp only: ascii_lower_def [of "ascii_lower c"] if_False)
qed

lemma is_ascii_lower: "is_ascii c \<Longrightarrow> is_ascii (ascii_lower c)"
  by (simp add: is_ascii_def of_char_ascii_lower)

lemma to_lower_idem: "list_all is_ascii s \<Longrightarrow> to_lower uni (to_lower uni s) = to_lower uni s"
  by (simp add: to_lower_def list_all_iff is_ascii_lower)

section \<open>Prefixes and suffixes\<close>

definition has_prefix :: "string \<Rightarrow> string \<Rightarrow> bool" where
  "has_prefix s p \<longleftrightarrow> length p \<le> length s \<and> take (length p) s = p"

definition has_suffix :: "string \<Rightarrow> string \<Rightarrow> bool" where
  "has_suffix s p \<longleftrightarrow> length p \<le> length s \<and> drop (length s - length p) s = p"

definition trim_prefix :: "string \<Rightarrow> string \<Rightarrow> string" where
  "trim_prefix s p = (if has_prefix s p then drop (length p) s else s)"

definition trim_suffix :: "string \<Rightarrow> string \<Rightarrow> string" where
  "trim_suffix s p = (if has_suffix s p then take (length s - length p) s else s)"

lemma has_prefix_append [simp]: "has_prefix (p @ s) p"
  by (simp add: has_prefix_def)

lemma has_suffix_append [simp]: "has_suffix (s @ p) p"
  by (simp add: has_suffix_def)

lemma trim_prefix_append [simp]: "trim_prefix (p @ s) p = s"
  by (simp add: trim_prefix_def)

lemma trim_suffix_append [simp]: "trim_suffix (s @ p) p = s"
  by (simp add: trim_suffix_def)

lemma has_suffix_obtain:
  assumes "has_suffix s p"
  obtains r where "s = r @ p"
  using assms by (metis append_take_drop_id has_suffix_def)

section \<open>\<^verbatim>\<open>strconv.ParseInt(s, 10, 64)\<close>\<close>

datatype num_err = ErrSyntax | ErrRange

definition digit_of :: "char \<Rightarrow> int option" where
  "digit_of c = (let n = (of_char c :: nat)
     in if 48 \<le> n \<and> n \<le> 57 then Some (int n - 48) else None)"

text \<open>The digit loop of \<^verbatim>\<open>ParseUint\<close>: the first character that is no digit is a syntax error,
  the first digit that would leave the 64 bits is a range error.\<close>

fun parse_digits :: "string \<Rightarrow> int \<Rightarrow> num_err + int" where
  "parse_digits [] n = Inr n"
| "parse_digits (c # cs) n =
     (case digit_of c of None \<Rightarrow> Inl ErrSyntax
      | Some d \<Rightarrow>
          if 2 ^ 64 \<le> n * 10 + d then Inl ErrRange
          else parse_digits cs (n * 10 + d))"

definition parse_uint :: "string \<Rightarrow> num_err + int" where
  "parse_uint s = (if s = [] then Inl ErrSyntax else parse_digits s 0)"

definition parse_int :: "string \<Rightarrow> num_err + int" where
  "parse_int s =
     (case s of [] \<Rightarrow> Inl ErrSyntax
      | c # cs \<Rightarrow>
          let neg = (c = CHR ''-'');
              body = (if c = CHR ''+'' \<or> c = CHR ''-'' then cs else s)
          in case parse_uint body of Inl e \<Rightarrow> Inl e
             | Inr un \<Rightarrow>
                 if \<not> neg \<and> 2 ^ 63 \<le> un then Inl ErrRange
                 else if neg \<and> 2 ^ 63 < un then Inl ErrRange
                 else Inr (if neg then - un else un))"

text \<open>Decimal printing (\<^verbatim>\<open>%d\<close>), the inverse of the parser.\<close>

definition digit_char :: "nat \<Rightarrow> char" where
  "digit_char d = char_of (48 + d)"

fun show_nat_acc :: "nat \<Rightarrow> string \<Rightarrow> string" where
  "show_nat_acc n acc =
     (if n < 10 then digit_char n # acc
      else show_nat_acc (n div 10) (digit_char (n mod 10) # acc))"

declare show_nat_acc.simps [simp del]

definition show_int :: "int \<Rightarrow> string" where
  "show_int n = (if n < 0 then CHR ''-'' # show_nat_acc (nat (- n)) []
                 else show_nat_acc (nat n) [])"

lemma digit_of_digit_char [simp]: "d < 10 \<Longrightarrow> digit_of (digit_char d) = Some (int d)"
  by (simp add: digit_of_def digit_char_def Let_def)

lemma digit_char_no_sign: "d < 10 \<Longrightarrow> digit_char d \<noteq> CHR ''-'' \<and> digit_char d \<noteq> CHR ''+''"
proof -
  assume "d < 10"
  then have "digit_of (digit_char d) \<noteq> None" by simp
  moreover have "digit_of CHR ''-'' = None" "digit_of CHR ''+'' = None"
    by (simp_all add: digit_of_def)
  ultimately show ?thesis by metis
qed

lemma parse_digits_nonneg:
  "parse_digits cs n = Inr m \<Longrightarrow> 0 \<le> n \<Longrightarrow> 0 \<le> m"
proof (induction cs n rule: parse_digits.induct)
  case (1 n)
  then show ?case by simp
next
  case (2 c cs n)
  then show ?case
    by (auto simp: digit_of_def Let_def split: option.splits if_splits)
qed

lemma parse_uint_nonneg: "parse_uint s = Inr n \<Longrightarrow> 0 \<le> n"
  by (auto simp: parse_uint_def simp del: parse_digits.simps dest: parse_digits_nonneg
      split: if_splits)

lemma parse_int_range: "parse_int s = Inr n \<Longrightarrow> in_int64 n"
  by (auto simp: parse_int_def Let_def in_int64_def min_int64_def max_int64_def
      split: list.splits sum.splits if_splits dest!: parse_uint_nonneg)

lemma parse_digits_show_acc:
  assumes "int n < 2 ^ 64"
  shows "parse_digits (show_nat_acc n acc) 0 = parse_digits acc (int n)"
  using assms
proof (induction n acc rule: show_nat_acc.induct)
  case (1 n acc)
  show ?case
  proof (cases "n < 10")
    case True
    then show ?thesis by (simp add: show_nat_acc.simps [of n])
  next
    case False
    then have "parse_digits (show_nat_acc n acc) 0
        = parse_digits (digit_char (n mod 10) # acc) (int (n div 10))"
      using 1 by (simp add: show_nat_acc.simps [of n])
    moreover have "int (n div 10) * 10 + int (n mod 10) = int n"
      by (simp add: zdiv_int zmod_int)
    ultimately show ?thesis using 1 by simp
  qed
qed

lemma show_nat_acc_Cons:
  "\<exists>d cs. show_nat_acc n acc = digit_char d # cs \<and> d < 10"
proof (induction n acc rule: show_nat_acc.induct)
  case (1 n acc)
  then show ?case by (cases "n < 10") (auto simp: show_nat_acc.simps [of n])
qed

lemma parse_uint_show: "int n < 2 ^ 64 \<Longrightarrow> parse_uint (show_nat_acc n []) = Inr (int n)"
  using show_nat_acc_Cons [of n "[]"] by (auto simp: parse_uint_def parse_digits_show_acc)

lemma parse_show_int:
  assumes "in_int64 n"
  shows "parse_int (show_int n) = Inr n"
proof (cases "n < 0")
  case True
  then have "parse_uint (show_nat_acc (nat (- n)) []) = Inr (- n)"
    using assms by (simp add: parse_uint_show in_int64_def min_int64_def)
  then show ?thesis using True assms
    by (simp add: parse_int_def show_int_def in_int64_def min_int64_def)
next
  case False
  then have u: "parse_uint (show_nat_acc (nat n) []) = Inr n"
    using assms by (simp add: parse_uint_show in_int64_def max_int64_def)
  obtain d cs where c: "show_nat_acc (nat n) [] = digit_char d # cs" "d < 10"
    using show_nat_acc_Cons by blast
  show ?thesis using False assms u c digit_char_no_sign [of d]
    by (simp add: parse_int_def show_int_def in_int64_def max_int64_def Let_def)
qed

end
