(* ===== verification/Ent_Core.thy ===== *)
theory Ent_Core
  imports Model Go_Strings
begin

text \<open>
  The parts of the generated database client (\<^verbatim>\<open>ent/\<close>) that its five entities share, and its
  border to the code it calls outside the repository.

  \<^item> The typed errors of \<^verbatim>\<open>ent/ent.go\<close> and their predicates.
  \<^item> The specifications handed to \<^verbatim>\<open>entgo.io/ent/dialect/sql/sqlgraph\<close>: create, batch create,
    update and query specs, with the predicates and orderings as syntax (in Go they are
    closures over a selector that \<^verbatim>\<open>sqlgraph\<close> builds the SQL from).
  \<^item> The record \<open>ent_client\<close>: what the repository relies on outside \<^verbatim>\<open>src/\<close>. Its fields are
    parameters of the model: the four \<^verbatim>\<open>sqlgraph\<close> calls and the grouped query over a database
    state \<open>'s\<close>, the two validators the schemas ask of the library (\<^verbatim>\<open>NotEmpty\<close>,
    \<^verbatim>\<open>Positive\<close>), the clock, and the Unicode case tables.
  \<^item> The query builder, generated five times with the entity name substituted, is defined
    once over an \<open>ent_meta\<close> record that holds what differs.
\<close>

section \<open>Errors (\<^verbatim>\<open>ent/ent.go\<close>)\<close>

fun IsValidationError :: "err \<Rightarrow> bool" where
  "IsValidationError (EValidation n m) = True"
| "IsValidationError (EWrap m e) = IsValidationError e"
| "IsValidationError e = False"

fun IsNotFound :: "err \<Rightarrow> bool" where
  "IsNotFound (ENotFound l) = True"
| "IsNotFound (EWrap m e) = IsNotFound e"
| "IsNotFound e = False"

definition MaskNotFound :: "err option \<Rightarrow> err option" where
  "MaskNotFound err = (case err of None \<Rightarrow> None
     | Some e \<Rightarrow> if IsNotFound e then None else Some e)"

fun IsNotSingular :: "err \<Rightarrow> bool" where
  "IsNotSingular (ENotSingular l) = True"
| "IsNotSingular (EWrap m e) = IsNotSingular e"
| "IsNotSingular e = False"

fun IsConstraintError :: "err \<Rightarrow> bool" where
  "IsConstraintError (EConstraint e) = True"
| "IsConstraintError (EWrap m e) = IsConstraintError e"
| "IsConstraintError e = False"

text \<open>The wrapping every \<^verbatim>\<open>sqlSave\<close> applies to the error of a \<^verbatim>\<open>sqlgraph\<close> call.\<close>

definition wrap_create_err :: "sql_err \<Rightarrow> err" where
  "wrap_create_err e = (case e of SqlConstraint m \<Rightarrow> EConstraint e | _ \<Rightarrow> EDriver e)"

section \<open>Values, fields and specs\<close>

text \<open>The values Go carries in an \<^verbatim>\<open>any\<close>. \<open>VInt\<close> is an \<^verbatim>\<open>int\<close>, \<open>VInt64\<close> an \<^verbatim>\<open>int64\<close>: the keys the
  driver generates come back as \<^verbatim>\<open>int64\<close>, and the builders assert that type.\<close>

datatype ent_value =
    VNull
  | VInt int
  | VInt64 int
  | VString string
  | VBool bool
  | VFloat float64
  | VTime go_time
  | VGasFee schema_gas_fee
  | VMessages "schema_message list"
  | VResponse schema_response

datatype ftype = TypeInt | TypeString | TypeBool | TypeFloat64 | TypeTime | TypeJSON

datatype edge_rel = O2M | M2O

text \<open>A step along an edge (\<^verbatim>\<open>sqlgraph.NewStep\<close>): the table and column it starts from, those it leads to,
  and the foreign key that carries it.\<close>

record graph_step =
  gst_From :: "string \<times> string"
  gst_To :: "(string \<times> string) option"
  gst_Rel :: edge_rel
  gst_Inverse :: bool
  gst_Table :: string
  gst_Column :: string

datatype pred =
    FieldEQ string ent_value
  | FieldNEQ string ent_value
  | FieldIn string "ent_value list"
  | FieldNotIn string "ent_value list"
  | FieldGT string ent_value
  | FieldGTE string ent_value
  | FieldLT string ent_value
  | FieldLTE string ent_value
  | FieldContains string string
  | FieldHasPrefix string string
  | FieldHasSuffix string string
  | FieldEqualFold string string
  | FieldContainsFold string string
  | FieldIsNull string
  | FieldNotNull string
  | HasNeighbors graph_step
  | HasNeighborsWith graph_step "pred list"
  | AndPredicates "pred list"
  | OrPredicates "pred list"
  | NotPredicates pred

datatype order_term = OrdAsc string | OrdDesc string

text \<open>The assignments of an upsert (\<^verbatim>\<open>sql.UpdateSet\<close>) and the options of its conflict clause. The
  functions of \<^verbatim>\<open>ResolveWith\<close> run when the statement is built: \<open>IgnoreGiven\<close> is the one that leaves the
  columns of its list alone which the insert has a value for by then.\<close>

datatype update_set =
    SetExcluded string
  | SetValue string ent_value
  | AddValue string ent_value
  | SetNull string
  | SetIgnore string

datatype conflict_opt =
    ConflictColumns "string list"
  | ResolveWith "update_set list"
  | ResolveWithNewValues
  | ResolveWithIgnore
  | DoNothing
  | IgnoreGiven "string list"

record edge_spec =
  es_Rel :: edge_rel
  es_Inverse :: bool
  es_Table :: string
  es_Columns :: "string list"
  es_Bidi :: bool
  es_IDSpec :: "string \<times> ftype"
  es_Nodes :: "int list"

record create_spec =
  cs_Table :: string
  cs_IDSpec :: "string \<times> ftype"
  cs_ID :: "ent_value option"
  cs_Fields :: "(string \<times> ftype \<times> ent_value) list"
  cs_Edges :: "edge_spec list"
  cs_OnConflict :: "conflict_opt list"

record batch_spec =
  bs_Nodes :: "create_spec list"
  bs_OnConflict :: "conflict_opt list"

record update_spec =
  us_Table :: string
  us_Columns :: "string list"
  us_IDSpec :: "string \<times> ftype"
  us_Predicate :: "pred list"
  us_Set :: "(string \<times> ftype \<times> ent_value) list"
  us_Add :: "(string \<times> ftype \<times> ent_value) list"
  us_Clear :: "(string \<times> ftype) list"
  us_Append :: "(string \<times> ent_value) list"
  us_ClearEdges :: "edge_spec list"
  us_AddEdges :: "edge_spec list"

record query_spec =
  qs_Table :: string
  qs_Columns :: "string list"
  qs_IDSpec :: "string \<times> ftype"
  qs_Unique :: bool
  qs_Predicate :: "pred list"
  qs_Limit :: int
  qs_Offset :: int
  qs_Order :: "order_term list"

record group_spec =
  gs_Table :: string
  gs_Predicate :: "pred list"
  gs_Group :: "string list"
  gs_Sum :: "(string \<times> string) list"

definition NewCreateSpec :: "string \<Rightarrow> string \<times> ftype \<Rightarrow> create_spec" where
  "NewCreateSpec table ids = \<lparr>cs_Table = table, cs_IDSpec = ids, cs_ID = None, cs_Fields = [],
     cs_Edges = [], cs_OnConflict = []\<rparr>"

definition SetField :: "string \<Rightarrow> ftype \<Rightarrow> ('a \<Rightarrow> ent_value) \<Rightarrow> 'a option \<Rightarrow> create_spec
    \<Rightarrow> create_spec" where
  "SetField col ty mk v spec = (case v of None \<Rightarrow> spec
     | Some x \<Rightarrow> spec\<lparr>cs_Fields := cs_Fields spec @ [(col, ty, mk x)]\<rparr>)"

type_synonym row = "(string \<times> ent_value) list"

record 's ent_client =
  CreateNode :: "create_spec \<Rightarrow> 's \<Rightarrow> (sql_err + ent_value option) \<times> 's"
  BatchCreate :: "batch_spec \<Rightarrow> 's \<Rightarrow> (sql_err + ent_value option list) \<times> 's"
  UpdateNodes :: "update_spec \<Rightarrow> 's \<Rightarrow> (sql_err + int) \<times> 's"
  QueryNodes :: "query_spec \<Rightarrow> 's \<Rightarrow> (sql_err + row list) \<times> 's"
  QueryGroups :: "group_spec \<Rightarrow> 's \<Rightarrow> (sql_err + row list) \<times> 's"
  NotEmpty :: "string \<Rightarrow> bool"
  Positive :: "float64 \<Rightarrow> bool"
  Now :: "nat \<Rightarrow> 's \<Rightarrow> go_time"
  InitTime :: go_time
  UniLower :: "string \<Rightarrow> string"

section \<open>Scanning a row into an entity\<close>

text \<open>\<^verbatim>\<open>database/sql\<close> scans each column into the holder \<^verbatim>\<open>scanValues\<close> chose for it; a JSON column
  arrives as bytes and is decoded by \<^verbatim>\<open>assignValues\<close>, so its value here is the decoded one.\<close>

datatype holder = NullString | NullInt64 | NullFloat64 | NullBool | NullTime | RawBytes
  | UnknownType

fun scan_into :: "holder \<Rightarrow> ent_value \<Rightarrow> bool" where
  "scan_into UnknownType v = True"
| "scan_into h VNull = True"
| "scan_into NullString (VString s) = True"
| "scan_into NullInt64 (VInt n) = True"
| "scan_into NullFloat64 (VFloat f) = True"
| "scan_into NullBool (VBool b) = True"
| "scan_into NullTime (VTime t) = True"
| "scan_into RawBytes (VGasFee g) = True"
| "scan_into RawBytes (VMessages ms) = True"
| "scan_into RawBytes (VResponse r) = True"
| "scan_into h v = False"

fun assign_row :: "(string \<Rightarrow> holder) \<Rightarrow> (string \<Rightarrow> ent_value \<Rightarrow> 'n \<Rightarrow> err + 'n) \<Rightarrow> row \<Rightarrow> 'n
    \<Rightarrow> err + 'n" where
  "assign_row sc asg [] node = Inr node"
| "assign_row sc asg ((col, v) # cvs) node =
     (if scan_into (sc col) v
      then case asg col v node of Inl e \<Rightarrow> Inl e | Inr node' \<Rightarrow> assign_row sc asg cvs node'
      else Inl (EDriver (SqlOther ''sql: Scan error on column'')))"

fun assign_rows :: "(row \<Rightarrow> err + 'n) \<Rightarrow> row list \<Rightarrow> err + 'n list" where
  "assign_rows f [] = Inr []"
| "assign_rows f (r # rs) =
     (case f r of Inl e \<Rightarrow> Inl e
      | Inr n \<Rightarrow> (case assign_rows f rs of Inl e \<Rightarrow> Inl e | Inr ns \<Rightarrow> Inr (n # ns)))"

section \<open>The query builder\<close>

record 'n ent_meta =
  em_Label :: string
  em_Table :: string
  em_IDSpec :: "string \<times> ftype"
  em_Columns :: "string list"
  em_ValidColumn :: "string \<Rightarrow> bool"
  em_Assign :: "row \<Rightarrow> err + 'n"

record ent_query =
  qy_Limit :: "int option"
  qy_Offset :: "int option"
  qy_Unique :: "bool option"
  qy_Fields :: "string list"
  qy_order :: "order_term list"
  qy_predicates :: "pred list"

definition Query :: ent_query where
  "Query = \<lparr>qy_Limit = None, qy_Offset = None, qy_Unique = None, qy_Fields = [], qy_order = [],
     qy_predicates = []\<rparr>"

definition Where :: "pred list \<Rightarrow> ent_query \<Rightarrow> ent_query" where
  "Where ps q = q\<lparr>qy_predicates := qy_predicates q @ ps\<rparr>"

definition Limit :: "int \<Rightarrow> ent_query \<Rightarrow> ent_query" where
  "Limit n q = q\<lparr>qy_Limit := Some n\<rparr>"

definition Offset :: "int \<Rightarrow> ent_query \<Rightarrow> ent_query" where
  "Offset n q = q\<lparr>qy_Offset := Some n\<rparr>"

definition Order :: "order_term list \<Rightarrow> ent_query \<Rightarrow> ent_query" where
  "Order os q = q\<lparr>qy_order := qy_order q @ os\<rparr>"

text \<open>\<^verbatim>\<open>ent.Asc\<close> and \<^verbatim>\<open>ent.Desc\<close> check the column when the selector is built; an unknown column is
  a validation error of the query.\<close>

definition ent_Asc :: "string list \<Rightarrow> order_term list" where
  "ent_Asc cols = map OrdAsc cols"

definition ent_Desc :: "string list \<Rightarrow> order_term list" where
  "ent_Desc cols = map OrdDesc cols"

fun order_column :: "order_term \<Rightarrow> string" where
  "order_column (OrdAsc c) = c"
| "order_column (OrdDesc c) = c"

definition checkColumn :: "'n ent_meta \<Rightarrow> string \<Rightarrow> err option" where
  "checkColumn m c = (if em_ValidColumn m c then None
     else Some (EValidation c ''ent: unknown column''))"

definition selector_err :: "'n ent_meta \<Rightarrow> ent_query \<Rightarrow> err option" where
  "selector_err m q = (case List.map_filter (\<lambda>t. checkColumn m (order_column t)) (qy_order q)
     of [] \<Rightarrow> None | e # _ \<Rightarrow> Some e)"

definition prepareQuery :: "'n ent_meta \<Rightarrow> ent_query \<Rightarrow> err option" where
  "prepareQuery m q =
     (case filter (\<lambda>f. \<not> em_ValidColumn m f) (qy_Fields q) of [] \<Rightarrow> None
      | f # _ \<Rightarrow> Some (EValidation f ''ent: invalid field for query''))"

definition querySpec :: "'n ent_meta \<Rightarrow> ent_query \<Rightarrow> query_spec" where
  "querySpec m q =
     \<lparr>qs_Table = em_Table m,
      qs_Columns = (if qy_Fields q = [] then em_Columns m
        else fst (em_IDSpec m) # filter (\<lambda>f. f \<noteq> fst (em_IDSpec m)) (qy_Fields q)),
      qs_IDSpec = em_IDSpec m,
      qs_Unique = (case qy_Unique q of None \<Rightarrow> False | Some u \<Rightarrow> u),
      qs_Predicate = qy_predicates q,
      qs_Limit = (case qy_Limit q of None \<Rightarrow> 0 | Some l \<Rightarrow> l),
      qs_Offset = (case qy_Offset q of None \<Rightarrow> 0 | Some k \<Rightarrow> k),
      qs_Order = qy_order q\<rparr>"

definition sqlAll :: "'n ent_meta \<Rightarrow> 's ent_client \<Rightarrow> ent_query \<Rightarrow> ('s, 'n list) io" where
  "sqlAll m cl q s =
     (case selector_err m q of Some e \<Rightarrow> (Inl e, s)
      | None \<Rightarrow>
        (case QueryNodes cl (querySpec m q) s of
           (Inl e, s') \<Rightarrow> (Inl (EDriver e), s')
         | (Inr rows, s') \<Rightarrow> (assign_rows (em_Assign m) rows, s')))"

definition All :: "'n ent_meta \<Rightarrow> 's ent_client \<Rightarrow> ent_query \<Rightarrow> ('s, 'n list) io" where
  "All m cl q s = (case prepareQuery m q of Some e \<Rightarrow> (Inl e, s) | None \<Rightarrow> sqlAll m cl q s)"

definition First :: "'n ent_meta \<Rightarrow> 's ent_client \<Rightarrow> ent_query \<Rightarrow> ('s, 'n) io" where
  "First m cl q s =
     (case All m cl (Limit 1 q) s of
        (Inl e, s') \<Rightarrow> (Inl e, s')
      | (Inr nodes, s') \<Rightarrow>
          (case nodes of [] \<Rightarrow> (Inl (ENotFound (em_Label m)), s') | n # _ \<Rightarrow> (Inr n, s')))"

definition Only :: "'n ent_meta \<Rightarrow> 's ent_client \<Rightarrow> ent_query \<Rightarrow> ('s, 'n) io" where
  "Only m cl q s =
     (case All m cl (Limit 2 q) s of
        (Inl e, s') \<Rightarrow> (Inl e, s')
      | (Inr nodes, s') \<Rightarrow>
          (case nodes of [n] \<Rightarrow> (Inr n, s')
           | [] \<Rightarrow> (Inl (ENotFound (em_Label m)), s')
           | _ \<Rightarrow> (Inl (ENotSingular (em_Label m)), s')))"

section \<open>Mutations\<close>

datatype ent_op = OpCreate | OpUpdate | OpUpdateOne | OpDelete | OpDeleteOne

text \<open>The id set of an edge: a Go map used as a set, nil before the first insertion.\<close>

definition ids_of :: "int list option \<Rightarrow> int list" where
  "ids_of ids = (case ids of None \<Rightarrow> [] | Some xs \<Rightarrow> xs)"

definition add_ids :: "int list \<Rightarrow> int list option \<Rightarrow> int list" where
  "add_ids new ids = fold (\<lambda>i xs. if i \<in> set xs then xs else xs @ [i]) new (ids_of ids)"

text \<open>The keys of a bulk insert are copied into its nodes one by one.\<close>

fun bulk_ids :: "('n \<Rightarrow> ent_value option \<Rightarrow> err + 'n) \<Rightarrow> 'n list \<Rightarrow> ent_value option list
    \<Rightarrow> err + 'n list" where
  "bulk_ids f (n # ns) (v # vs) =
     (case f n v of Inl e \<Rightarrow> Inl e
      | Inr n' \<Rightarrow> (case bulk_ids f ns vs of Inl e \<Rightarrow> Inl e | Inr ns' \<Rightarrow> Inr (n' # ns')))"
| "bulk_ids f ns vs = Inr ns"

section \<open>Validators (\<^verbatim>\<open>ent/runtime.go\<close>)\<close>

text \<open>A required field that is missing, and a field its validator rejects, are validation
  errors that carry the field's name.\<close>

definition require_field :: "string \<Rightarrow> 'a option \<Rightarrow> err option" where
  "require_field name v =
     (case v of None \<Rightarrow> Some (EValidation name ''ent: missing required field'') | Some _ \<Rightarrow> None)"

definition validate_field :: "string \<Rightarrow> ('a \<Rightarrow> bool) \<Rightarrow> 'a option \<Rightarrow> err option" where
  "validate_field name ok v =
     (case v of None \<Rightarrow> None
      | Some x \<Rightarrow> if ok x then None
          else Some (EValidation name ''ent: validator failed for field''))"

fun first_err :: "err option list \<Rightarrow> err option" where
  "first_err [] = None"
| "first_err (None # es) = first_err es"
| "first_err (Some e # es) = Some e"

lemma require_field_simps [simp]:
  "require_field n None = Some (EValidation n ''ent: missing required field'')"
  "require_field n (Some x) = None"
  by (simp_all add: require_field_def)

lemma validate_field_simps [simp]:
  "validate_field n ok None = None"
  "validate_field n ok (Some x) = (if ok x then None
     else Some (EValidation n ''ent: validator failed for field''))"
  by (simp_all add: validate_field_def)

lemma first_err_None: "first_err es = None \<longleftrightarrow> (\<forall>e \<in> set es. e = None)"
proof (induction es)
  case Nil
  then show ?case by simp
next
  case (Cons e es)
  then show ?case by (cases e) auto
qed

lemma SetField_simps [simp]:
  "SetField col ty mk None spec = spec"
  "SetField col ty mk (Some x) spec = spec\<lparr>cs_Fields := cs_Fields spec @ [(col, ty, mk x)]\<rparr>"
  by (simp_all add: SetField_def)

lemma assign_rows_Inr:
  "(\<And>r. r \<in> set rs \<Longrightarrow> f r = Inr (g r)) \<Longrightarrow> assign_rows f rs = Inr (map g rs)"
  by (induction rs) auto

end
