(* ===== verification/Ent_Account.thy ===== *)
theory Ent_Account
  imports Ent_Core
begin

text \<open>
  The entity \<^verbatim>\<open>Account\<close>: one row per account, keyed by its address alone (\<^verbatim>\<open>ent/account/account.go\<close>,
  \<^verbatim>\<open>ent/account.go\<close>, the account part of \<^verbatim>\<open>ent/mutation.go\<close>, \<^verbatim>\<open>ent/account_create.go\<close>,
  \<^verbatim>\<open>ent/account_update.go\<close>, \<^verbatim>\<open>ent/account_query.go\<close>).

  A mutation collects what a builder was told; a pointer field of the Go struct is an option,
  \<^verbatim>\<open>clearedFields\<close> the list of its keys, and an id set of an edge the list of its keys in one of
  the orders Go may iterate them. No hook or interceptor is registered anywhere in the program,
  so \<^verbatim>\<open>withHooks\<close> and \<^verbatim>\<open>withInterceptors\<close> call the operation directly.
\<close>

section \<open>Names and columns\<close>

definition account_Label :: string where
  "account_Label = ''account''"

definition account_Table :: string where
  "account_Table = ''accounts''"

definition account_FieldID :: string where
  "account_FieldID = ''address''"

definition account_FieldToken :: string where
  "account_FieldToken = ''token''"

definition account_FieldAmount :: string where
  "account_FieldAmount = ''amount''"

definition account_EdgeTransfersTo :: string where
  "account_EdgeTransfersTo = ''transfers_to''"

definition account_EdgeTransfersFrom :: string where
  "account_EdgeTransfersFrom = ''transfers_from''"

definition account_Columns :: "string list" where
  "account_Columns = [account_FieldID,
     account_FieldToken,
     account_FieldAmount]"

definition account_ValidColumn :: "string \<Rightarrow> bool" where
  "account_ValidColumn column \<longleftrightarrow> List.member account_Columns column"

lemmas account_names = account_Label_def
  account_Table_def
  account_FieldID_def
  account_FieldToken_def
  account_FieldAmount_def
  account_EdgeTransfersTo_def
  account_EdgeTransfersFrom_def

section \<open>The entity and the scanning of its rows\<close>

record ent_account =
  ea_ID :: string
  ea_Token :: string
  ea_Amount :: float64

definition zero_account :: ent_account where
  "zero_account = \<lparr>ea_ID = '''',
     ea_Token = '''',
     ea_Amount = F64 0\<rparr>"

definition Account_scanValues :: "string \<Rightarrow> holder" where
  "Account_scanValues column =
     (if column = account_FieldID \<or> column = account_FieldToken then NullString
      else if column = account_FieldAmount then NullFloat64
      else UnknownType)"

definition Account_assignValues :: 
    "string \<Rightarrow> ent_value \<Rightarrow> ent_account \<Rightarrow> err + ent_account" where
  "Account_assignValues column v m =
     (if column = account_FieldID then
        (case v of VString x \<Rightarrow> Inr (m\<lparr>ea_ID := x\<rparr>) | VNull \<Rightarrow> Inr m
          | _ \<Rightarrow> Inl (EMsg ''unexpected type for field address''))
      else if column = account_FieldToken then
        (case v of VString x \<Rightarrow> Inr (m\<lparr>ea_Token := x\<rparr>) | VNull \<Rightarrow> Inr m
          | _ \<Rightarrow> Inl (EMsg ''unexpected type for field token''))
      else if column = account_FieldAmount then
        (case v of VFloat x \<Rightarrow> Inr (m\<lparr>ea_Amount := x\<rparr>) | VNull \<Rightarrow> Inr m
          | _ \<Rightarrow> Inl (EMsg ''unexpected type for field amount''))
      else Inr m)"

definition account_meta :: "ent_account ent_meta" where
  "account_meta = \<lparr>em_Label = account_Label, em_Table = account_Table, em_IDSpec = (account_FieldID, TypeString),
     em_Columns = account_Columns, em_ValidColumn = account_ValidColumn,
     em_Assign = (\<lambda>row. assign_row Account_scanValues Account_assignValues row zero_account)\<rparr>"

definition AccountQuery_First :: 
    "'s ent_client \<Rightarrow> ent_query \<Rightarrow> ('s, ent_account) io" where
  "AccountQuery_First = First account_meta"

definition AccountQuery_Only :: 
    "'s ent_client \<Rightarrow> ent_query \<Rightarrow> ('s, ent_account) io" where
  "AccountQuery_Only = Only account_meta"

definition AccountQuery_All :: 
    "'s ent_client \<Rightarrow> ent_query \<Rightarrow> ('s, ent_account list) io" where
  "AccountQuery_All = All account_meta"

definition AccountQuery_querySpec :: "ent_query \<Rightarrow> query_spec" where
  "AccountQuery_querySpec = querySpec account_meta"

section \<open>The mutation\<close>

record account_mutation =
  am_op :: ent_op
  am_id :: "string option"
  am_token :: "string option"
  am_amount :: "float64 option"
  am_addamount :: "float64 option"
  am_clearedFields :: "string list"
  am_transfers_to :: "int list option"
  am_removedtransfers_to :: "int list option"
  am_clearedtransfers_to :: bool
  am_transfers_from :: "int list option"
  am_removedtransfers_from :: "int list option"
  am_clearedtransfers_from :: bool
  am_done :: bool
  am_predicates :: "pred list"

definition newAccountMutation :: "ent_op \<Rightarrow> account_mutation" where
  "newAccountMutation op = \<lparr>am_op = op,
     am_id = None,
     am_token = None,
     am_amount = None,
     am_addamount = None,
     am_clearedFields = [],
     am_transfers_to = None,
     am_removedtransfers_to = None,
     am_clearedtransfers_to = False,
     am_transfers_from = None,
     am_removedtransfers_from = None,
     am_clearedtransfers_from = False,
     am_done = False,
     am_predicates = []\<rparr>"

definition AccountMutation_SetID :: 
    "string \<Rightarrow> account_mutation \<Rightarrow> account_mutation" where
  "AccountMutation_SetID v m = m\<lparr>am_id := Some v\<rparr>"

definition AccountMutation_ID :: "account_mutation \<Rightarrow> string option" where
  "AccountMutation_ID m = am_id m"

definition AccountMutation_SetToken :: 
    "string \<Rightarrow> account_mutation \<Rightarrow> account_mutation" where
  "AccountMutation_SetToken v m = m\<lparr>am_token := Some v\<rparr>"

definition AccountMutation_Token :: "account_mutation \<Rightarrow> string option" where
  "AccountMutation_Token m = am_token m"

definition AccountMutation_ResetToken :: "account_mutation \<Rightarrow> account_mutation" where
  "AccountMutation_ResetToken m = m\<lparr>am_token := None\<rparr>"

definition AccountMutation_SetAmount :: 
    "float64 \<Rightarrow> account_mutation \<Rightarrow> account_mutation" where
  "AccountMutation_SetAmount v m = m\<lparr>am_amount := Some v, am_addamount := None\<rparr>"

definition AccountMutation_Amount :: "account_mutation \<Rightarrow> float64 option" where
  "AccountMutation_Amount m = am_amount m"

definition AccountMutation_AddAmount :: 
    "float64 \<Rightarrow> account_mutation \<Rightarrow> account_mutation" where
  "AccountMutation_AddAmount v m = 
     (case am_addamount m of Some a \<Rightarrow> m\<lparr>am_addamount := Some (f64_add a v)\<rparr>
      | None \<Rightarrow> m\<lparr>am_addamount := Some v\<rparr>)"

definition AccountMutation_AddedAmount :: "account_mutation \<Rightarrow> float64 option" where
  "AccountMutation_AddedAmount m = am_addamount m"

definition AccountMutation_ResetAmount :: "account_mutation \<Rightarrow> account_mutation" where
  "AccountMutation_ResetAmount m = m\<lparr>am_amount := None, am_addamount := None\<rparr>"

definition AccountMutation_AddTransfersToIDs :: 
    "int list \<Rightarrow> account_mutation \<Rightarrow> account_mutation" where
  "AccountMutation_AddTransfersToIDs ids m = m\<lparr>am_transfers_to := Some (add_ids ids (am_transfers_to m))\<rparr>"

definition AccountMutation_ClearTransfersTo :: 
    "account_mutation \<Rightarrow> account_mutation" where
  "AccountMutation_ClearTransfersTo m = m\<lparr>am_clearedtransfers_to := True\<rparr>"

definition AccountMutation_TransfersToCleared :: "account_mutation \<Rightarrow> bool" where
  "AccountMutation_TransfersToCleared m = am_clearedtransfers_to m"

definition AccountMutation_RemoveTransfersToIDs :: 
    "int list \<Rightarrow> account_mutation \<Rightarrow> account_mutation" where
  "AccountMutation_RemoveTransfersToIDs ids m = m\<lparr>am_removedtransfers_to := Some (add_ids ids (am_removedtransfers_to m)),
     am_transfers_to := map_option (filter (\<lambda>i. i \<notin> set ids)) (am_transfers_to m)\<rparr>"

definition AccountMutation_RemovedTransfersToIDs :: "account_mutation \<Rightarrow> int list" where
  "AccountMutation_RemovedTransfersToIDs m = ids_of (am_removedtransfers_to m)"

definition AccountMutation_TransfersToIDs :: "account_mutation \<Rightarrow> int list" where
  "AccountMutation_TransfersToIDs m = ids_of (am_transfers_to m)"

definition AccountMutation_ResetTransfersTo :: 
    "account_mutation \<Rightarrow> account_mutation" where
  "AccountMutation_ResetTransfersTo m = m\<lparr>am_transfers_to := None, am_clearedtransfers_to := False, am_removedtransfers_to := None\<rparr>"

definition AccountMutation_AddTransfersFromIDs :: 
    "int list \<Rightarrow> account_mutation \<Rightarrow> account_mutation" where
  "AccountMutation_AddTransfersFromIDs ids m = m\<lparr>am_transfers_from := Some (add_ids ids (am_transfers_from m))\<rparr>"

definition AccountMutation_ClearTransfersFrom :: 
    "account_mutation \<Rightarrow> account_mutation" where
  "AccountMutation_ClearTransfersFrom m = m\<lparr>am_clearedtransfers_from := True\<rparr>"

definition AccountMutation_TransfersFromCleared :: "account_mutation \<Rightarrow> bool" where
  "AccountMutation_TransfersFromCleared m = am_clearedtransfers_from m"

definition AccountMutation_RemoveTransfersFromIDs :: 
    "int list \<Rightarrow> account_mutation \<Rightarrow> account_mutation" where
  "AccountMutation_RemoveTransfersFromIDs ids m = m\<lparr>am_removedtransfers_from := Some (add_ids ids (am_removedtransfers_from m)),
     am_transfers_from := map_option (filter (\<lambda>i. i \<notin> set ids)) (am_transfers_from m)\<rparr>"

definition AccountMutation_RemovedTransfersFromIDs :: 
    "account_mutation \<Rightarrow> int list" where
  "AccountMutation_RemovedTransfersFromIDs m = ids_of (am_removedtransfers_from m)"

definition AccountMutation_TransfersFromIDs :: "account_mutation \<Rightarrow> int list" where
  "AccountMutation_TransfersFromIDs m = ids_of (am_transfers_from m)"

definition AccountMutation_ResetTransfersFrom :: 
    "account_mutation \<Rightarrow> account_mutation" where
  "AccountMutation_ResetTransfersFrom m = m\<lparr>am_transfers_from := None, am_clearedtransfers_from := False, am_removedtransfers_from := None\<rparr>"

definition AccountMutation_Where :: 
    "pred list \<Rightarrow> account_mutation \<Rightarrow> account_mutation" where
  "AccountMutation_Where ps m = m\<lparr>am_predicates := am_predicates m @ ps\<rparr>"

lemmas account_mutation_defs = AccountMutation_SetID_def
  AccountMutation_ID_def
  AccountMutation_SetToken_def
  AccountMutation_Token_def
  AccountMutation_ResetToken_def
  AccountMutation_SetAmount_def
  AccountMutation_Amount_def
  AccountMutation_AddAmount_def
  AccountMutation_AddedAmount_def
  AccountMutation_ResetAmount_def
  AccountMutation_AddTransfersToIDs_def
  AccountMutation_ClearTransfersTo_def
  AccountMutation_TransfersToCleared_def
  AccountMutation_RemoveTransfersToIDs_def
  AccountMutation_RemovedTransfersToIDs_def
  AccountMutation_TransfersToIDs_def
  AccountMutation_ResetTransfersTo_def
  AccountMutation_AddTransfersFromIDs_def
  AccountMutation_ClearTransfersFrom_def
  AccountMutation_TransfersFromCleared_def
  AccountMutation_RemoveTransfersFromIDs_def
  AccountMutation_RemovedTransfersFromIDs_def
  AccountMutation_TransfersFromIDs_def
  AccountMutation_ResetTransfersFrom_def
  AccountMutation_Where_def

subsection \<open>Access by field name\<close>

definition AccountMutation_Fields :: "account_mutation \<Rightarrow> string list" where
  "AccountMutation_Fields m = 
     (if am_token m \<noteq> None then [account_FieldToken] else []) @
     (if am_amount m \<noteq> None then [account_FieldAmount] else [])"

definition AccountMutation_Field :: 
    "string \<Rightarrow> account_mutation \<Rightarrow> ent_value option" where
  "AccountMutation_Field name m =
     (if name = account_FieldToken then map_option VString (AccountMutation_Token m)
      else if name = account_FieldAmount then map_option VFloat (AccountMutation_Amount m)
      else None)"

definition AccountMutation_SetField :: 
    "string \<Rightarrow> ent_value \<Rightarrow> account_mutation \<Rightarrow> err + account_mutation" where
  "AccountMutation_SetField name value m =
     (if name = account_FieldToken then (case value of VString v \<Rightarrow> Inr (AccountMutation_SetToken v m) |
          _ \<Rightarrow> Inl (EMsg ''unexpected type for field''))
      else if name = account_FieldAmount then (case value of VFloat v \<Rightarrow> Inr (AccountMutation_SetAmount v m) |
          _ \<Rightarrow> Inl (EMsg ''unexpected type for field''))
      else Inl (EMsg ''unknown Account field''))"

definition AccountMutation_AddedFields :: "account_mutation \<Rightarrow> string list" where
  "AccountMutation_AddedFields m = 
     (if am_addamount m \<noteq> None then [account_FieldAmount] else [])"

definition AccountMutation_AddedField :: 
    "string \<Rightarrow> account_mutation \<Rightarrow> ent_value option" where
  "AccountMutation_AddedField name m =
     (if name = account_FieldAmount then map_option VFloat (AccountMutation_AddedAmount m)
      else None)"

definition AccountMutation_AddField :: 
    "string \<Rightarrow> ent_value \<Rightarrow> account_mutation \<Rightarrow> err + account_mutation" where
  "AccountMutation_AddField name value m =
     (if name = account_FieldAmount then (case value of VFloat v \<Rightarrow> Inr (AccountMutation_AddAmount v m) |
          _ \<Rightarrow> Inl (EMsg ''unexpected type for field''))
      else Inl (EMsg ''unknown Account numeric field''))"

definition AccountMutation_FieldCleared :: 
    "string \<Rightarrow> account_mutation \<Rightarrow> bool" where
  "AccountMutation_FieldCleared name m \<longleftrightarrow> List.member (am_clearedFields m) name"

definition AccountMutation_ClearedFields :: "account_mutation \<Rightarrow> string list" where
  "AccountMutation_ClearedFields m = []"

definition AccountMutation_ClearField :: 
    "string \<Rightarrow> account_mutation \<Rightarrow> err + account_mutation" where
  "AccountMutation_ClearField name m =
     (Inl (EMsg ''unknown Account nullable field''))"

definition AccountMutation_ResetField :: 
    "string \<Rightarrow> account_mutation \<Rightarrow> err + account_mutation" where
  "AccountMutation_ResetField name m =
     (if name = account_FieldToken then Inr (AccountMutation_ResetToken m)
      else if name = account_FieldAmount then Inr (AccountMutation_ResetAmount m)
      else Inl (EMsg ''unknown Account field''))"

lemmas account_reflect_defs = AccountMutation_Fields_def
  AccountMutation_Field_def
  AccountMutation_SetField_def
  AccountMutation_AddedFields_def
  AccountMutation_AddedField_def
  AccountMutation_AddField_def
  AccountMutation_FieldCleared_def
  AccountMutation_ClearedFields_def
  AccountMutation_ClearField_def
  AccountMutation_ResetField_def

lemma account_field_neq [simp]:
  "account_FieldToken \<noteq> account_FieldAmount"
  "account_FieldAmount \<noteq> account_FieldToken"
  by (simp_all add: account_names)

lemma account_SetField_Field:
  "AccountMutation_SetField name v m = Inr m' \<Longrightarrow> AccountMutation_Field name m' = Some v"
  by (auto simp: AccountMutation_SetField_def AccountMutation_Field_def account_mutation_defs
      split: if_split_asm ent_value.split_asm)

lemma account_SetField_other:
  "AccountMutation_SetField name v m = Inr m' \<Longrightarrow> other \<noteq> name \<Longrightarrow>
    AccountMutation_Field other m' = AccountMutation_Field other m"
  by (auto simp: AccountMutation_SetField_def AccountMutation_Field_def account_mutation_defs
      split: if_split_asm ent_value.split_asm split del: if_split cong: if_cong)

lemma account_ResetField_Field:
  "AccountMutation_ResetField name m = Inr m' \<Longrightarrow>
    AccountMutation_Field name m' = None \<and> AccountMutation_AddedField name m' = None"
  by (auto simp: AccountMutation_ResetField_def AccountMutation_Field_def AccountMutation_AddedField_def account_mutation_defs
      split: if_split_asm)

lemma account_Fields_iff: "name \<in> set (AccountMutation_Fields m) \<longleftrightarrow> AccountMutation_Field name m \<noteq> None"
  by (auto simp: AccountMutation_Fields_def AccountMutation_Field_def account_mutation_defs split: if_split_asm)

section \<open>The create builder\<close>

record account_create =
  acb_mutation :: account_mutation
  acb_conflict :: "conflict_opt list"

definition AccountClient_Create :: account_create where
  "AccountClient_Create = \<lparr>acb_mutation = newAccountMutation OpCreate, acb_conflict = []\<rparr>"

definition AccountCreate_SetToken :: 
    "string \<Rightarrow> account_create \<Rightarrow> account_create" where
  "AccountCreate_SetToken v c =
     c\<lparr>acb_mutation := AccountMutation_SetToken v (acb_mutation c)\<rparr>"

definition AccountCreate_SetAmount :: 
    "float64 \<Rightarrow> account_create \<Rightarrow> account_create" where
  "AccountCreate_SetAmount v c =
     c\<lparr>acb_mutation := AccountMutation_SetAmount v (acb_mutation c)\<rparr>"

definition AccountCreate_SetID :: 
    "string \<Rightarrow> account_create \<Rightarrow> account_create" where
  "AccountCreate_SetID v c =
     c\<lparr>acb_mutation := AccountMutation_SetID v (acb_mutation c)\<rparr>"

definition AccountCreate_AddTransfersToIDs :: 
    "int list \<Rightarrow> account_create \<Rightarrow> account_create" where
  "AccountCreate_AddTransfersToIDs ids c =
     c\<lparr>acb_mutation := AccountMutation_AddTransfersToIDs ids (acb_mutation c)\<rparr>"

definition AccountCreate_AddTransfersFromIDs :: 
    "int list \<Rightarrow> account_create \<Rightarrow> account_create" where
  "AccountCreate_AddTransfersFromIDs ids c =
     c\<lparr>acb_mutation := AccountMutation_AddTransfersFromIDs ids (acb_mutation c)\<rparr>"

definition AccountCreate_check :: 
    "'s ent_client \<Rightarrow> account_create \<Rightarrow> err option" where
  "AccountCreate_check cl c = first_err [
     require_field ''token'' (AccountMutation_Token (acb_mutation c)),
     validate_field ''token'' (NotEmpty cl) (AccountMutation_Token (acb_mutation c)),
     require_field ''amount'' (AccountMutation_Amount (acb_mutation c)),
     validate_field ''id'' (NotEmpty cl) (AccountMutation_ID (acb_mutation c))]"

definition AccountCreate_createSpec :: 
    "account_create \<Rightarrow> ent_account \<times> create_spec" where
  "AccountCreate_createSpec c =
     (let m = acb_mutation c;
      node = zero_account\<lparr>ea_ID := (case AccountMutation_ID m of Some i \<Rightarrow> i | None \<Rightarrow> ''''),
        ea_Token := (case AccountMutation_Token m of Some v \<Rightarrow> v | None \<Rightarrow> ea_Token zero_account),
        ea_Amount := (case AccountMutation_Amount m of Some v \<Rightarrow> v | None \<Rightarrow> ea_Amount zero_account)\<rparr>;
      spec0 = (NewCreateSpec account_Table (account_FieldID, TypeString))\<lparr>cs_OnConflict := acb_conflict c,
        cs_ID := map_option VString (AccountMutation_ID m)\<rparr>;
      spec1 = SetField account_FieldToken TypeString VString (AccountMutation_Token m) spec0;
      spec2 = SetField account_FieldAmount TypeFloat64 VFloat (AccountMutation_Amount m) spec1;
      edge1 = \<lparr>es_Rel = O2M, es_Inverse = False, es_Table = ''transfers'', es_Columns = [''to_address''],
        es_Bidi = False, es_IDSpec = (''id'', TypeInt), es_Nodes = AccountMutation_TransfersToIDs m\<rparr>;
      specE1 = (if AccountMutation_TransfersToIDs m = [] then spec2 else spec2\<lparr>cs_Edges := cs_Edges spec2 @ [edge1]\<rparr>);
      edge2 = \<lparr>es_Rel = O2M, es_Inverse = False, es_Table = ''transfers'', es_Columns = [''from_address''],
        es_Bidi = False, es_IDSpec = (''id'', TypeInt), es_Nodes = AccountMutation_TransfersFromIDs m\<rparr>;
      specE2 = (if AccountMutation_TransfersFromIDs m = [] then specE1 else specE1\<lparr>cs_Edges := cs_Edges specE1 @ [edge2]\<rparr>)
      in (node, specE2))"

definition AccountCreate_sqlSave :: 
    "'s ent_client \<Rightarrow> account_create \<Rightarrow> ('s, ent_account) io" where
  "AccountCreate_sqlSave cl c s =
     (case AccountCreate_check cl c of Some e \<Rightarrow> (Inl e, s)
      | None \<Rightarrow>
        (let (node, spec) = AccountCreate_createSpec c in
         case CreateNode cl spec s of
           (Inl e, s') \<Rightarrow> (Inl (wrap_create_err e), s')
         | (Inr idv, s') \<Rightarrow>
             (case idv of None \<Rightarrow> (Inr node, s')
              | Some (VString i) \<Rightarrow> (Inr (node\<lparr>ea_ID := i\<rparr>), s')
              | Some _ \<Rightarrow> (Inl (EMsg ''unexpected Account.ID type''), s'))))"

definition AccountCreate_Save :: 
    "'s ent_client \<Rightarrow> account_create \<Rightarrow> ('s, ent_account) io" where
  "AccountCreate_Save cl c s = AccountCreate_sqlSave cl c s"

lemmas account_create_defs = AccountClient_Create_def
  AccountCreate_SetToken_def
  AccountCreate_SetAmount_def
  AccountCreate_SetID_def
  AccountCreate_AddTransfersToIDs_def
  AccountCreate_AddTransfersFromIDs_def
  AccountCreate_check_def
  AccountCreate_createSpec_def
  AccountCreate_sqlSave_def
  AccountCreate_Save_def

text \<open>The bulk builder: defaults of every builder first, then the chain of mutators, which checks
  the builders in order and calls the driver once, after the last check.\<close>

record account_create_bulk =
  abk_err :: "err option"
  abk_builders :: "account_create list"
  abk_conflict :: "conflict_opt list"

definition AccountClient_CreateBulk :: "account_create list \<Rightarrow> account_create_bulk" where
  "AccountClient_CreateBulk builders =
     \<lparr>abk_err = None, abk_builders = builders, abk_conflict = []\<rparr>"

definition AccountCreateBulk_Save :: 
    "'s ent_client \<Rightarrow> account_create_bulk \<Rightarrow> ('s, ent_account list) io" where
  "AccountCreateBulk_Save cl b s =
     (case abk_err b of Some e \<Rightarrow> (Inl e, s)
      | None \<Rightarrow>
        (let bs = abk_builders b in
         if bs = [] then (Inr [], s)
         else case first_err (map (AccountCreate_check cl) bs) of Some e \<Rightarrow> (Inl e, s)
         | None \<Rightarrow>
           (case BatchCreate cl \<lparr>bs_Nodes = map (\<lambda>b. snd (AccountCreate_createSpec b)) bs, bs_OnConflict = abk_conflict b\<rparr> s of
              (Inl e, s') \<Rightarrow> (Inl (wrap_create_err e), s')
            | (Inr ids, s') \<Rightarrow> (Inr (map (\<lambda>b. fst (AccountCreate_createSpec b)) bs), s'))))"

lemma AccountCreateBulk_plain:
  "AccountCreateBulk_Save cl (AccountClient_CreateBulk builders) s =
     (let bs = builders in
      if bs = [] then (Inr [], s)
      else case first_err (map (AccountCreate_check cl) bs) of Some e \<Rightarrow> (Inl e, s)
      | None \<Rightarrow>
        (case BatchCreate cl \<lparr>bs_Nodes = map (\<lambda>b. snd (AccountCreate_createSpec b)) bs, bs_OnConflict = []\<rparr> s of
           (Inl e, s') \<Rightarrow> (Inl (wrap_create_err e), s')
         | (Inr ids, s') \<Rightarrow> (Inr (map (\<lambda>b. fst (AccountCreate_createSpec b)) bs), s')))"
  unfolding AccountCreateBulk_Save_def AccountClient_CreateBulk_def account_create_bulk.select_convs option.case
  by (rule refl)

section \<open>Predicates, update and aggregation\<close>

definition account_IDEQ :: "string \<Rightarrow> pred" where
  "account_IDEQ v = FieldEQ account_FieldID (VString v)"

definition account_TokenEQ :: "string \<Rightarrow> pred" where
  "account_TokenEQ v = FieldEQ account_FieldToken (VString v)"

record account_update =
  aub_mutation :: account_mutation

definition AccountClient_Update :: account_update where
  "AccountClient_Update = \<lparr>aub_mutation = newAccountMutation OpUpdate\<rparr>"

definition AccountUpdate_Where :: 
    "pred list \<Rightarrow> account_update \<Rightarrow> account_update" where
  "AccountUpdate_Where ps u = u\<lparr>aub_mutation := AccountMutation_Where ps (aub_mutation u)\<rparr>"

definition AccountUpdate_SetToken :: 
    "string \<Rightarrow> account_update \<Rightarrow> account_update" where
  "AccountUpdate_SetToken v u = u\<lparr>aub_mutation := AccountMutation_SetToken v (aub_mutation u)\<rparr>"

definition AccountUpdate_SetAmount :: 
    "float64 \<Rightarrow> account_update \<Rightarrow> account_update" where
  "AccountUpdate_SetAmount v u = u\<lparr>aub_mutation :=
     AccountMutation_SetAmount v (AccountMutation_ResetAmount (aub_mutation u))\<rparr>"

definition AccountUpdate_AddAmount :: 
    "float64 \<Rightarrow> account_update \<Rightarrow> account_update" where
  "AccountUpdate_AddAmount v u = u\<lparr>aub_mutation := AccountMutation_AddAmount v (aub_mutation u)\<rparr>"

definition AccountUpdate_check :: 
    "'s ent_client \<Rightarrow> account_update \<Rightarrow> err option" where
  "AccountUpdate_check cl u =
     validate_field ''token'' (NotEmpty cl) (AccountMutation_Token (aub_mutation u))"

text \<open>The edge specs of an update: cleared wholly, cleared for the removed ids unless the edge is
  cleared wholly, added for the added ids.\<close>

definition account_edge :: "string \<Rightarrow> int list \<Rightarrow> edge_spec" where
  "account_edge column nodes = \<lparr>es_Rel = O2M, es_Inverse = False, es_Table = ''transfers'',
     es_Columns = [column], es_Bidi = False, es_IDSpec = (''id'', TypeInt), es_Nodes = nodes\<rparr>"

definition AccountUpdate_spec :: "account_update \<Rightarrow> update_spec" where
  "AccountUpdate_spec u =
     (let m = aub_mutation u in
      \<lparr>us_Table = account_Table, us_Columns = account_Columns,
       us_IDSpec = (account_FieldID, TypeString),
       us_Predicate = am_predicates m,
       us_Set =
         (case AccountMutation_Token m of None \<Rightarrow> []
          | Some v \<Rightarrow> [(account_FieldToken, TypeString, VString v)]) @
         (case AccountMutation_Amount m of None \<Rightarrow> []
          | Some v \<Rightarrow> [(account_FieldAmount, TypeFloat64, VFloat v)]),
       us_Add =
         (case AccountMutation_AddedAmount m of None \<Rightarrow> []
          | Some v \<Rightarrow> [(account_FieldAmount, TypeFloat64, VFloat v)]),
       us_Clear = [], us_Append = [],
       us_ClearEdges =
         (if AccountMutation_TransfersToCleared m then [account_edge ''to_address'' []] else []) @
         (if AccountMutation_RemovedTransfersToIDs m \<noteq> [] \<and> \<not> AccountMutation_TransfersToCleared m
          then [account_edge ''to_address'' (AccountMutation_RemovedTransfersToIDs m)] else []) @
         (if AccountMutation_TransfersFromCleared m then [account_edge ''from_address'' []] else []) @
         (if AccountMutation_RemovedTransfersFromIDs m \<noteq> [] \<and> \<not> AccountMutation_TransfersFromCleared m
          then [account_edge ''from_address'' (AccountMutation_RemovedTransfersFromIDs m)] else []),
       us_AddEdges =
         (if AccountMutation_TransfersToIDs m \<noteq> []
          then [account_edge ''to_address'' (AccountMutation_TransfersToIDs m)] else []) @
         (if AccountMutation_TransfersFromIDs m \<noteq> []
          then [account_edge ''from_address'' (AccountMutation_TransfersFromIDs m)] else [])\<rparr>)"

definition AccountUpdate_sqlSave :: 
    "'s ent_client \<Rightarrow> account_update \<Rightarrow> ('s, int) io" where
  "AccountUpdate_sqlSave cl u s =
     (case AccountUpdate_check cl u of Some e \<Rightarrow> (Inl e, s)
      | None \<Rightarrow>
        (case UpdateNodes cl (AccountUpdate_spec u) s of
           (Inl e, s') \<Rightarrow>
             (Inl (case e of SqlNotFound m \<Rightarrow> ENotFound account_Label
                   | SqlConstraint m \<Rightarrow> EConstraint e | SqlOther m \<Rightarrow> EDriver e), s')
         | (Inr n, s') \<Rightarrow> (Inr n, s')))"

definition AccountUpdate_Save :: 
    "'s ent_client \<Rightarrow> account_update \<Rightarrow> ('s, int) io" where
  "AccountUpdate_Save = AccountUpdate_sqlSave"

lemmas account_update_defs = AccountClient_Update_def AccountUpdate_Where_def
  AccountUpdate_SetToken_def AccountUpdate_SetAmount_def AccountUpdate_AddAmount_def
  AccountUpdate_check_def AccountUpdate_spec_def AccountUpdate_sqlSave_def
  AccountUpdate_Save_def

text \<open>\<^verbatim>\<open>GroupBy(field)\<close> with \<^verbatim>\<open>Aggregate(ent.As(ent.Sum(f), name))\<close>: a column \<open>f\<close> the table does not have
  is an error of the selector, found before the query runs.\<close>

record account_group_by =
  agb_build :: ent_query
  agb_flds :: "string list"
  agb_fns :: "(string \<times> string) list"

definition AccountQuery_GroupBy :: 
    "string \<Rightarrow> string list \<Rightarrow> ent_query \<Rightarrow> account_group_by" where
  "AccountQuery_GroupBy f fs q =
     \<lparr>agb_build = q\<lparr>qy_Fields := f # fs\<rparr>, agb_flds = f # fs, agb_fns = []\<rparr>"

definition ent_As_Sum :: "string \<Rightarrow> string \<Rightarrow> string \<times> string" where
  "ent_As_Sum field as_name = (field, as_name)"

definition AccountGroupBy_Aggregate :: "(string \<times> string) list \<Rightarrow> account_group_by
    \<Rightarrow> account_group_by" where
  "AccountGroupBy_Aggregate fns g = g\<lparr>agb_fns := agb_fns g @ fns\<rparr>"

definition AccountGroupBy_Scan :: 
    "'s ent_client \<Rightarrow> account_group_by \<Rightarrow> ('s, row list) io" where
  "AccountGroupBy_Scan cl g s =
     (case prepareQuery account_meta (agb_build g) of Some e \<Rightarrow> (Inl e, s)
      | None \<Rightarrow>
        (case List.map_filter (\<lambda>(f, n). checkColumn account_meta f) (agb_fns g) of
           e # _ \<Rightarrow> (Inl e, s)
         | [] \<Rightarrow>
           (case QueryGroups cl \<lparr>gs_Table = account_Table,
                gs_Predicate = qy_predicates (agb_build g), gs_Group = agb_flds g,
                gs_Sum = agb_fns g\<rparr> s of
              (Inl e, s') \<Rightarrow> (Inl (EDriver e), s')
            | (Inr rows, s') \<Rightarrow> (Inr rows, s'))))"

end
