(* ===== verification/Ent_Block.thy ===== *)
theory Ent_Block
  imports Ent_Core
begin

text \<open>
  The entity \<^verbatim>\<open>Block\<close>, keyed by its height (\<^verbatim>\<open>ent/block/block.go\<close>, \<^verbatim>\<open>ent/block.go\<close>, the block
  part of \<^verbatim>\<open>ent/mutation.go\<close>, \<^verbatim>\<open>ent/block_create.go\<close>, \<^verbatim>\<open>ent/block_query.go\<close>).

  A mutation collects what a builder was told; a pointer field of the Go struct is an option,
  \<^verbatim>\<open>clearedFields\<close> the list of its keys, and an id set of an edge the list of its keys in one of
  the orders Go may iterate them. No hook or interceptor is registered anywhere in the program,
  so \<^verbatim>\<open>withHooks\<close> and \<^verbatim>\<open>withInterceptors\<close> call the operation directly.
\<close>

section \<open>Names and columns\<close>

definition block_Label :: string where
  "block_Label = ''block''"

definition block_Table :: string where
  "block_Table = ''blocks''"

definition block_FieldID :: string where
  "block_FieldID = ''height''"

definition block_FieldHash :: string where
  "block_FieldHash = ''hash''"

definition block_FieldTime :: string where
  "block_FieldTime = ''time''"

definition block_FieldTotalTxs :: string where
  "block_FieldTotalTxs = ''total_txs''"

definition block_FieldNumTxs :: string where
  "block_FieldNumTxs = ''num_txs''"

definition block_FieldCreatedAt :: string where
  "block_FieldCreatedAt = ''created_at''"

definition block_EdgeTransactions :: string where
  "block_EdgeTransactions = ''transactions''"

definition block_Columns :: "string list" where
  "block_Columns = [block_FieldID,
     block_FieldHash,
     block_FieldTime,
     block_FieldTotalTxs,
     block_FieldNumTxs,
     block_FieldCreatedAt]"

definition block_ValidColumn :: "string \<Rightarrow> bool" where
  "block_ValidColumn column \<longleftrightarrow> List.member block_Columns column"

lemmas block_names = block_Label_def
  block_Table_def
  block_FieldID_def
  block_FieldHash_def
  block_FieldTime_def
  block_FieldTotalTxs_def
  block_FieldNumTxs_def
  block_FieldCreatedAt_def
  block_EdgeTransactions_def

section \<open>The entity and the scanning of its rows\<close>

record ent_block =
  eb_ID :: int
  eb_Hash :: string
  eb_Time :: go_time
  eb_TotalTxs :: int
  eb_NumTxs :: int
  eb_CreatedAt :: go_time

definition zero_block :: ent_block where
  "zero_block = \<lparr>eb_ID = 0,
     eb_Hash = '''',
     eb_Time = zero_time,
     eb_TotalTxs = 0,
     eb_NumTxs = 0,
     eb_CreatedAt = zero_time\<rparr>"

definition Block_scanValues :: "string \<Rightarrow> holder" where
  "Block_scanValues column =
     (if column = block_FieldID \<or> column = block_FieldTotalTxs \<or> column = block_FieldNumTxs then NullInt64
      else if column = block_FieldHash then NullString
      else if column = block_FieldTime \<or> column = block_FieldCreatedAt then NullTime
      else UnknownType)"

definition Block_assignValues :: 
    "string \<Rightarrow> ent_value \<Rightarrow> ent_block \<Rightarrow> err + ent_block" where
  "Block_assignValues column v m =
     (if column = block_FieldID then
        (case v of VInt n \<Rightarrow> Inr (m\<lparr>eb_ID := n\<rparr>) | VNull \<Rightarrow> Inr (m\<lparr>eb_ID := 0\<rparr>)
          | _ \<Rightarrow> Inl (EMsg ''unexpected type for field id''))
      else if column = block_FieldHash then
        (case v of VString x \<Rightarrow> Inr (m\<lparr>eb_Hash := x\<rparr>) | VNull \<Rightarrow> Inr m
          | _ \<Rightarrow> Inl (EMsg ''unexpected type for field hash''))
      else if column = block_FieldTime then
        (case v of VTime x \<Rightarrow> Inr (m\<lparr>eb_Time := x\<rparr>) | VNull \<Rightarrow> Inr m
          | _ \<Rightarrow> Inl (EMsg ''unexpected type for field time''))
      else if column = block_FieldTotalTxs then
        (case v of VInt x \<Rightarrow> Inr (m\<lparr>eb_TotalTxs := x\<rparr>) | VNull \<Rightarrow> Inr m
          | _ \<Rightarrow> Inl (EMsg ''unexpected type for field total_txs''))
      else if column = block_FieldNumTxs then
        (case v of VInt x \<Rightarrow> Inr (m\<lparr>eb_NumTxs := x\<rparr>) | VNull \<Rightarrow> Inr m
          | _ \<Rightarrow> Inl (EMsg ''unexpected type for field num_txs''))
      else if column = block_FieldCreatedAt then
        (case v of VTime x \<Rightarrow> Inr (m\<lparr>eb_CreatedAt := x\<rparr>) | VNull \<Rightarrow> Inr m
          | _ \<Rightarrow> Inl (EMsg ''unexpected type for field created_at''))
      else Inr m)"

definition block_meta :: "ent_block ent_meta" where
  "block_meta = \<lparr>em_Label = block_Label, em_Table = block_Table, em_IDSpec = (block_FieldID, TypeInt),
     em_Columns = block_Columns, em_ValidColumn = block_ValidColumn,
     em_Assign = (\<lambda>row. assign_row Block_scanValues Block_assignValues row zero_block)\<rparr>"

definition BlockQuery_First :: 
    "'s ent_client \<Rightarrow> ent_query \<Rightarrow> ('s, ent_block) io" where
  "BlockQuery_First = First block_meta"

definition BlockQuery_Only :: 
    "'s ent_client \<Rightarrow> ent_query \<Rightarrow> ('s, ent_block) io" where
  "BlockQuery_Only = Only block_meta"

definition BlockQuery_All :: 
    "'s ent_client \<Rightarrow> ent_query \<Rightarrow> ('s, ent_block list) io" where
  "BlockQuery_All = All block_meta"

definition BlockQuery_querySpec :: "ent_query \<Rightarrow> query_spec" where
  "BlockQuery_querySpec = querySpec block_meta"

section \<open>The mutation\<close>

record block_mutation =
  bm_op :: ent_op
  bm_id :: "int option"
  bm_hash :: "string option"
  bm_time :: "go_time option"
  bm_total_txs :: "int option"
  bm_addtotal_txs :: "int option"
  bm_num_txs :: "int option"
  bm_addnum_txs :: "int option"
  bm_created_at :: "go_time option"
  bm_clearedFields :: "string list"
  bm_transactions :: "int list option"
  bm_removedtransactions :: "int list option"
  bm_clearedtransactions :: bool
  bm_done :: bool
  bm_predicates :: "pred list"

definition newBlockMutation :: "ent_op \<Rightarrow> block_mutation" where
  "newBlockMutation op = \<lparr>bm_op = op,
     bm_id = None,
     bm_hash = None,
     bm_time = None,
     bm_total_txs = None,
     bm_addtotal_txs = None,
     bm_num_txs = None,
     bm_addnum_txs = None,
     bm_created_at = None,
     bm_clearedFields = [],
     bm_transactions = None,
     bm_removedtransactions = None,
     bm_clearedtransactions = False,
     bm_done = False,
     bm_predicates = []\<rparr>"

definition BlockMutation_SetID :: 
    "int \<Rightarrow> block_mutation \<Rightarrow> block_mutation" where
  "BlockMutation_SetID v m = m\<lparr>bm_id := Some v\<rparr>"

definition BlockMutation_ID :: "block_mutation \<Rightarrow> int option" where
  "BlockMutation_ID m = bm_id m"

definition BlockMutation_SetHash :: 
    "string \<Rightarrow> block_mutation \<Rightarrow> block_mutation" where
  "BlockMutation_SetHash v m = m\<lparr>bm_hash := Some v\<rparr>"

definition BlockMutation_Hash :: "block_mutation \<Rightarrow> string option" where
  "BlockMutation_Hash m = bm_hash m"

definition BlockMutation_ResetHash :: "block_mutation \<Rightarrow> block_mutation" where
  "BlockMutation_ResetHash m = m\<lparr>bm_hash := None\<rparr>"

definition BlockMutation_SetTime :: 
    "go_time \<Rightarrow> block_mutation \<Rightarrow> block_mutation" where
  "BlockMutation_SetTime v m = m\<lparr>bm_time := Some v\<rparr>"

definition BlockMutation_Time :: "block_mutation \<Rightarrow> go_time option" where
  "BlockMutation_Time m = bm_time m"

definition BlockMutation_ResetTime :: "block_mutation \<Rightarrow> block_mutation" where
  "BlockMutation_ResetTime m = m\<lparr>bm_time := None\<rparr>"

definition BlockMutation_SetTotalTxs :: 
    "int \<Rightarrow> block_mutation \<Rightarrow> block_mutation" where
  "BlockMutation_SetTotalTxs v m = m\<lparr>bm_total_txs := Some v, bm_addtotal_txs := None\<rparr>"

definition BlockMutation_TotalTxs :: "block_mutation \<Rightarrow> int option" where
  "BlockMutation_TotalTxs m = bm_total_txs m"

definition BlockMutation_AddTotalTxs :: 
    "int \<Rightarrow> block_mutation \<Rightarrow> block_mutation" where
  "BlockMutation_AddTotalTxs v m = 
     (case bm_addtotal_txs m of Some a \<Rightarrow> m\<lparr>bm_addtotal_txs := Some (wrap64 (a + v))\<rparr>
      | None \<Rightarrow> m\<lparr>bm_addtotal_txs := Some v\<rparr>)"

definition BlockMutation_AddedTotalTxs :: "block_mutation \<Rightarrow> int option" where
  "BlockMutation_AddedTotalTxs m = bm_addtotal_txs m"

definition BlockMutation_ResetTotalTxs :: "block_mutation \<Rightarrow> block_mutation" where
  "BlockMutation_ResetTotalTxs m = m\<lparr>bm_total_txs := None, bm_addtotal_txs := None\<rparr>"

definition BlockMutation_SetNumTxs :: 
    "int \<Rightarrow> block_mutation \<Rightarrow> block_mutation" where
  "BlockMutation_SetNumTxs v m = m\<lparr>bm_num_txs := Some v, bm_addnum_txs := None\<rparr>"

definition BlockMutation_NumTxs :: "block_mutation \<Rightarrow> int option" where
  "BlockMutation_NumTxs m = bm_num_txs m"

definition BlockMutation_AddNumTxs :: 
    "int \<Rightarrow> block_mutation \<Rightarrow> block_mutation" where
  "BlockMutation_AddNumTxs v m = 
     (case bm_addnum_txs m of Some a \<Rightarrow> m\<lparr>bm_addnum_txs := Some (wrap64 (a + v))\<rparr>
      | None \<Rightarrow> m\<lparr>bm_addnum_txs := Some v\<rparr>)"

definition BlockMutation_AddedNumTxs :: "block_mutation \<Rightarrow> int option" where
  "BlockMutation_AddedNumTxs m = bm_addnum_txs m"

definition BlockMutation_ResetNumTxs :: "block_mutation \<Rightarrow> block_mutation" where
  "BlockMutation_ResetNumTxs m = m\<lparr>bm_num_txs := None, bm_addnum_txs := None\<rparr>"

definition BlockMutation_SetCreatedAt :: 
    "go_time \<Rightarrow> block_mutation \<Rightarrow> block_mutation" where
  "BlockMutation_SetCreatedAt v m = m\<lparr>bm_created_at := Some v\<rparr>"

definition BlockMutation_CreatedAt :: "block_mutation \<Rightarrow> go_time option" where
  "BlockMutation_CreatedAt m = bm_created_at m"

definition BlockMutation_ResetCreatedAt :: "block_mutation \<Rightarrow> block_mutation" where
  "BlockMutation_ResetCreatedAt m = m\<lparr>bm_created_at := None\<rparr>"

definition BlockMutation_AddTransactionIDs :: 
    "int list \<Rightarrow> block_mutation \<Rightarrow> block_mutation" where
  "BlockMutation_AddTransactionIDs ids m = m\<lparr>bm_transactions := Some (add_ids ids (bm_transactions m))\<rparr>"

definition BlockMutation_ClearTransactions :: "block_mutation \<Rightarrow> block_mutation" where
  "BlockMutation_ClearTransactions m = m\<lparr>bm_clearedtransactions := True\<rparr>"

definition BlockMutation_TransactionsCleared :: "block_mutation \<Rightarrow> bool" where
  "BlockMutation_TransactionsCleared m = bm_clearedtransactions m"

definition BlockMutation_RemoveTransactionIDs :: 
    "int list \<Rightarrow> block_mutation \<Rightarrow> block_mutation" where
  "BlockMutation_RemoveTransactionIDs ids m = m\<lparr>bm_removedtransactions := Some (add_ids ids (bm_removedtransactions m)),
     bm_transactions := map_option (filter (\<lambda>i. i \<notin> set ids)) (bm_transactions m)\<rparr>"

definition BlockMutation_RemovedTransactionsIDs :: "block_mutation \<Rightarrow> int list" where
  "BlockMutation_RemovedTransactionsIDs m = ids_of (bm_removedtransactions m)"

definition BlockMutation_TransactionsIDs :: "block_mutation \<Rightarrow> int list" where
  "BlockMutation_TransactionsIDs m = ids_of (bm_transactions m)"

definition BlockMutation_ResetTransactions :: "block_mutation \<Rightarrow> block_mutation" where
  "BlockMutation_ResetTransactions m = m\<lparr>bm_transactions := None, bm_clearedtransactions := False, bm_removedtransactions := None\<rparr>"

definition BlockMutation_Where :: 
    "pred list \<Rightarrow> block_mutation \<Rightarrow> block_mutation" where
  "BlockMutation_Where ps m = m\<lparr>bm_predicates := bm_predicates m @ ps\<rparr>"

lemmas block_mutation_defs = BlockMutation_SetID_def
  BlockMutation_ID_def
  BlockMutation_SetHash_def
  BlockMutation_Hash_def
  BlockMutation_ResetHash_def
  BlockMutation_SetTime_def
  BlockMutation_Time_def
  BlockMutation_ResetTime_def
  BlockMutation_SetTotalTxs_def
  BlockMutation_TotalTxs_def
  BlockMutation_AddTotalTxs_def
  BlockMutation_AddedTotalTxs_def
  BlockMutation_ResetTotalTxs_def
  BlockMutation_SetNumTxs_def
  BlockMutation_NumTxs_def
  BlockMutation_AddNumTxs_def
  BlockMutation_AddedNumTxs_def
  BlockMutation_ResetNumTxs_def
  BlockMutation_SetCreatedAt_def
  BlockMutation_CreatedAt_def
  BlockMutation_ResetCreatedAt_def
  BlockMutation_AddTransactionIDs_def
  BlockMutation_ClearTransactions_def
  BlockMutation_TransactionsCleared_def
  BlockMutation_RemoveTransactionIDs_def
  BlockMutation_RemovedTransactionsIDs_def
  BlockMutation_TransactionsIDs_def
  BlockMutation_ResetTransactions_def
  BlockMutation_Where_def

subsection \<open>Access by field name\<close>

definition BlockMutation_Fields :: "block_mutation \<Rightarrow> string list" where
  "BlockMutation_Fields m = 
     (if bm_hash m \<noteq> None then [block_FieldHash] else []) @
     (if bm_time m \<noteq> None then [block_FieldTime] else []) @
     (if bm_total_txs m \<noteq> None then [block_FieldTotalTxs] else []) @
     (if bm_num_txs m \<noteq> None then [block_FieldNumTxs] else []) @
     (if bm_created_at m \<noteq> None then [block_FieldCreatedAt] else [])"

definition BlockMutation_Field :: 
    "string \<Rightarrow> block_mutation \<Rightarrow> ent_value option" where
  "BlockMutation_Field name m =
     (if name = block_FieldHash then map_option VString (BlockMutation_Hash m)
      else if name = block_FieldTime then map_option VTime (BlockMutation_Time m)
      else if name = block_FieldTotalTxs then map_option VInt (BlockMutation_TotalTxs m)
      else if name = block_FieldNumTxs then map_option VInt (BlockMutation_NumTxs m)
      else if name = block_FieldCreatedAt then map_option VTime (BlockMutation_CreatedAt m)
      else None)"

definition BlockMutation_SetField :: 
    "string \<Rightarrow> ent_value \<Rightarrow> block_mutation \<Rightarrow> err + block_mutation" where
  "BlockMutation_SetField name value m =
     (if name = block_FieldHash then (case value of VString v \<Rightarrow> Inr (BlockMutation_SetHash v m) |
          _ \<Rightarrow> Inl (EMsg ''unexpected type for field''))
      else if name = block_FieldTime then (case value of VTime v \<Rightarrow> Inr (BlockMutation_SetTime v m) |
          _ \<Rightarrow> Inl (EMsg ''unexpected type for field''))
      else if name = block_FieldTotalTxs then (case value of VInt v \<Rightarrow> Inr (BlockMutation_SetTotalTxs v m) |
          _ \<Rightarrow> Inl (EMsg ''unexpected type for field''))
      else if name = block_FieldNumTxs then (case value of VInt v \<Rightarrow> Inr (BlockMutation_SetNumTxs v m) |
          _ \<Rightarrow> Inl (EMsg ''unexpected type for field''))
      else if name = block_FieldCreatedAt then (case value of VTime v \<Rightarrow> Inr (BlockMutation_SetCreatedAt v m) |
          _ \<Rightarrow> Inl (EMsg ''unexpected type for field''))
      else Inl (EMsg ''unknown Block field''))"

definition BlockMutation_AddedFields :: "block_mutation \<Rightarrow> string list" where
  "BlockMutation_AddedFields m = 
     (if bm_addtotal_txs m \<noteq> None then [block_FieldTotalTxs] else []) @
     (if bm_addnum_txs m \<noteq> None then [block_FieldNumTxs] else [])"

definition BlockMutation_AddedField :: 
    "string \<Rightarrow> block_mutation \<Rightarrow> ent_value option" where
  "BlockMutation_AddedField name m =
     (if name = block_FieldTotalTxs then map_option VInt (BlockMutation_AddedTotalTxs m)
      else if name = block_FieldNumTxs then map_option VInt (BlockMutation_AddedNumTxs m)
      else None)"

definition BlockMutation_AddField :: 
    "string \<Rightarrow> ent_value \<Rightarrow> block_mutation \<Rightarrow> err + block_mutation" where
  "BlockMutation_AddField name value m =
     (if name = block_FieldTotalTxs then (case value of VInt v \<Rightarrow> Inr (BlockMutation_AddTotalTxs v m) |
          _ \<Rightarrow> Inl (EMsg ''unexpected type for field''))
      else if name = block_FieldNumTxs then (case value of VInt v \<Rightarrow> Inr (BlockMutation_AddNumTxs v m) |
          _ \<Rightarrow> Inl (EMsg ''unexpected type for field''))
      else Inl (EMsg ''unknown Block numeric field''))"

definition BlockMutation_FieldCleared :: 
    "string \<Rightarrow> block_mutation \<Rightarrow> bool" where
  "BlockMutation_FieldCleared name m \<longleftrightarrow> List.member (bm_clearedFields m) name"

definition BlockMutation_ClearedFields :: "block_mutation \<Rightarrow> string list" where
  "BlockMutation_ClearedFields m = []"

definition BlockMutation_ClearField :: 
    "string \<Rightarrow> block_mutation \<Rightarrow> err + block_mutation" where
  "BlockMutation_ClearField name m =
     (Inl (EMsg ''unknown Block nullable field''))"

definition BlockMutation_ResetField :: 
    "string \<Rightarrow> block_mutation \<Rightarrow> err + block_mutation" where
  "BlockMutation_ResetField name m =
     (if name = block_FieldHash then Inr (BlockMutation_ResetHash m)
      else if name = block_FieldTime then Inr (BlockMutation_ResetTime m)
      else if name = block_FieldTotalTxs then Inr (BlockMutation_ResetTotalTxs m)
      else if name = block_FieldNumTxs then Inr (BlockMutation_ResetNumTxs m)
      else if name = block_FieldCreatedAt then Inr (BlockMutation_ResetCreatedAt m)
      else Inl (EMsg ''unknown Block field''))"

lemmas block_reflect_defs = BlockMutation_Fields_def
  BlockMutation_Field_def
  BlockMutation_SetField_def
  BlockMutation_AddedFields_def
  BlockMutation_AddedField_def
  BlockMutation_AddField_def
  BlockMutation_FieldCleared_def
  BlockMutation_ClearedFields_def
  BlockMutation_ClearField_def
  BlockMutation_ResetField_def

lemma block_field_neq [simp]:
  "block_FieldHash \<noteq> block_FieldTime"
  "block_FieldHash \<noteq> block_FieldTotalTxs"
  "block_FieldHash \<noteq> block_FieldNumTxs"
  "block_FieldHash \<noteq> block_FieldCreatedAt"
  "block_FieldTime \<noteq> block_FieldHash"
  "block_FieldTime \<noteq> block_FieldTotalTxs"
  "block_FieldTime \<noteq> block_FieldNumTxs"
  "block_FieldTime \<noteq> block_FieldCreatedAt"
  "block_FieldTotalTxs \<noteq> block_FieldHash"
  "block_FieldTotalTxs \<noteq> block_FieldTime"
  "block_FieldTotalTxs \<noteq> block_FieldNumTxs"
  "block_FieldTotalTxs \<noteq> block_FieldCreatedAt"
  "block_FieldNumTxs \<noteq> block_FieldHash"
  "block_FieldNumTxs \<noteq> block_FieldTime"
  "block_FieldNumTxs \<noteq> block_FieldTotalTxs"
  "block_FieldNumTxs \<noteq> block_FieldCreatedAt"
  "block_FieldCreatedAt \<noteq> block_FieldHash"
  "block_FieldCreatedAt \<noteq> block_FieldTime"
  "block_FieldCreatedAt \<noteq> block_FieldTotalTxs"
  "block_FieldCreatedAt \<noteq> block_FieldNumTxs"
  by (simp_all add: block_names)

lemma block_SetField_Field:
  "BlockMutation_SetField name v m = Inr m' \<Longrightarrow> BlockMutation_Field name m' = Some v"
  by (auto simp: BlockMutation_SetField_def BlockMutation_Field_def block_mutation_defs
      split: if_split_asm ent_value.split_asm)

lemma block_SetField_other:
  "BlockMutation_SetField name v m = Inr m' \<Longrightarrow> other \<noteq> name \<Longrightarrow>
    BlockMutation_Field other m' = BlockMutation_Field other m"
  by (auto simp: BlockMutation_SetField_def BlockMutation_Field_def block_mutation_defs
      split: if_split_asm ent_value.split_asm split del: if_split cong: if_cong)

lemma block_ResetField_Field:
  "BlockMutation_ResetField name m = Inr m' \<Longrightarrow>
    BlockMutation_Field name m' = None \<and> BlockMutation_AddedField name m' = None"
  by (auto simp: BlockMutation_ResetField_def BlockMutation_Field_def BlockMutation_AddedField_def block_mutation_defs
      split: if_split_asm)

lemma block_Fields_iff: "name \<in> set (BlockMutation_Fields m) \<longleftrightarrow> BlockMutation_Field name m \<noteq> None"
  by (auto simp: BlockMutation_Fields_def BlockMutation_Field_def block_mutation_defs split: if_split_asm)

section \<open>The create builder\<close>

record block_create =
  bcb_mutation :: block_mutation
  bcb_conflict :: "conflict_opt list"

definition BlockClient_Create :: block_create where
  "BlockClient_Create = \<lparr>bcb_mutation = newBlockMutation OpCreate, bcb_conflict = []\<rparr>"

definition BlockCreate_SetHash :: 
    "string \<Rightarrow> block_create \<Rightarrow> block_create" where
  "BlockCreate_SetHash v c =
     c\<lparr>bcb_mutation := BlockMutation_SetHash v (bcb_mutation c)\<rparr>"

definition BlockCreate_SetTime :: 
    "go_time \<Rightarrow> block_create \<Rightarrow> block_create" where
  "BlockCreate_SetTime v c =
     c\<lparr>bcb_mutation := BlockMutation_SetTime v (bcb_mutation c)\<rparr>"

definition BlockCreate_SetTotalTxs :: 
    "int \<Rightarrow> block_create \<Rightarrow> block_create" where
  "BlockCreate_SetTotalTxs v c =
     c\<lparr>bcb_mutation := BlockMutation_SetTotalTxs v (bcb_mutation c)\<rparr>"

definition BlockCreate_SetNumTxs :: 
    "int \<Rightarrow> block_create \<Rightarrow> block_create" where
  "BlockCreate_SetNumTxs v c =
     c\<lparr>bcb_mutation := BlockMutation_SetNumTxs v (bcb_mutation c)\<rparr>"

definition BlockCreate_SetCreatedAt :: 
    "go_time \<Rightarrow> block_create \<Rightarrow> block_create" where
  "BlockCreate_SetCreatedAt v c =
     c\<lparr>bcb_mutation := BlockMutation_SetCreatedAt v (bcb_mutation c)\<rparr>"

definition BlockCreate_SetID :: "int \<Rightarrow> block_create \<Rightarrow> block_create" where
  "BlockCreate_SetID v c =
     c\<lparr>bcb_mutation := BlockMutation_SetID v (bcb_mutation c)\<rparr>"

definition BlockCreate_AddTransactionIDs :: 
    "int list \<Rightarrow> block_create \<Rightarrow> block_create" where
  "BlockCreate_AddTransactionIDs ids c =
     c\<lparr>bcb_mutation := BlockMutation_AddTransactionIDs ids (bcb_mutation c)\<rparr>"

definition BlockCreate_defaults :: 
    "'s ent_client \<Rightarrow> go_time \<Rightarrow> block_create \<Rightarrow> block_create" where
  "BlockCreate_defaults cl now c =
     (let c1 = (case BlockMutation_CreatedAt (bcb_mutation c) of Some _ \<Rightarrow> c
        | None \<Rightarrow> BlockCreate_SetCreatedAt now c) in c1)"

definition BlockCreate_check :: 
    "'s ent_client \<Rightarrow> block_create \<Rightarrow> err option" where
  "BlockCreate_check cl c = first_err [
     require_field ''hash'' (BlockMutation_Hash (bcb_mutation c)),
     validate_field ''hash'' (NotEmpty cl) (BlockMutation_Hash (bcb_mutation c)),
     require_field ''time'' (BlockMutation_Time (bcb_mutation c)),
     require_field ''total_txs'' (BlockMutation_TotalTxs (bcb_mutation c)),
     require_field ''num_txs'' (BlockMutation_NumTxs (bcb_mutation c)),
     require_field ''created_at'' (BlockMutation_CreatedAt (bcb_mutation c))]"

definition BlockCreate_createSpec :: 
    "block_create \<Rightarrow> ent_block \<times> create_spec" where
  "BlockCreate_createSpec c =
     (let m = bcb_mutation c;
      node = zero_block\<lparr>eb_ID := (case BlockMutation_ID m of Some i \<Rightarrow> i | None \<Rightarrow> 0),
        eb_Hash := (case BlockMutation_Hash m of Some v \<Rightarrow> v | None \<Rightarrow> eb_Hash zero_block),
        eb_Time := (case BlockMutation_Time m of Some v \<Rightarrow> v | None \<Rightarrow> eb_Time zero_block),
        eb_TotalTxs := (case BlockMutation_TotalTxs m of Some v \<Rightarrow> v | None \<Rightarrow> eb_TotalTxs zero_block),
        eb_NumTxs := (case BlockMutation_NumTxs m of Some v \<Rightarrow> v | None \<Rightarrow> eb_NumTxs zero_block),
        eb_CreatedAt := (case BlockMutation_CreatedAt m of Some v \<Rightarrow> v | None \<Rightarrow> eb_CreatedAt zero_block)\<rparr>;
      spec0 = (NewCreateSpec block_Table (block_FieldID, TypeInt))\<lparr>cs_OnConflict := bcb_conflict c,
        cs_ID := map_option VInt (BlockMutation_ID m)\<rparr>;
      spec1 = SetField block_FieldHash TypeString VString (BlockMutation_Hash m) spec0;
      spec2 = SetField block_FieldTime TypeTime VTime (BlockMutation_Time m) spec1;
      spec3 = SetField block_FieldTotalTxs TypeInt VInt (BlockMutation_TotalTxs m) spec2;
      spec4 = SetField block_FieldNumTxs TypeInt VInt (BlockMutation_NumTxs m) spec3;
      spec5 = SetField block_FieldCreatedAt TypeTime VTime (BlockMutation_CreatedAt m) spec4;
      edge1 = \<lparr>es_Rel = O2M, es_Inverse = False, es_Table = ''transactions'', es_Columns = [''block_transactions''],
        es_Bidi = False, es_IDSpec = (''id'', TypeInt), es_Nodes = BlockMutation_TransactionsIDs m\<rparr>;
      specE1 = (if BlockMutation_TransactionsIDs m = [] then spec5 else spec5\<lparr>cs_Edges := cs_Edges spec5 @ [edge1]\<rparr>)
      in (node, specE1))"

definition BlockCreate_sqlSave :: 
    "'s ent_client \<Rightarrow> block_create \<Rightarrow> ('s, ent_block) io" where
  "BlockCreate_sqlSave cl c s =
     (case BlockCreate_check cl c of Some e \<Rightarrow> (Inl e, s)
      | None \<Rightarrow>
        (let (node, spec) = BlockCreate_createSpec c in
         case CreateNode cl spec s of
           (Inl e, s') \<Rightarrow> (Inl (wrap_create_err e), s')
         | (Inr idv, s') \<Rightarrow>
             if idv = Some (VInt (eb_ID node)) then (Inr node, s')
             else (case idv of Some (VInt64 i) \<Rightarrow> (Inr (node\<lparr>eb_ID := i\<rparr>), s')
              | _ \<Rightarrow> (Inl (EPanic ''interface conversion: not an int64''), s'))))"

definition BlockCreate_Save :: 
    "'s ent_client \<Rightarrow> block_create \<Rightarrow> ('s, ent_block) io" where
  "BlockCreate_Save cl c s = BlockCreate_sqlSave cl (BlockCreate_defaults cl (Now cl 0 s) c) s"

lemmas block_create_defs = BlockClient_Create_def
  BlockCreate_SetHash_def
  BlockCreate_SetTime_def
  BlockCreate_SetTotalTxs_def
  BlockCreate_SetNumTxs_def
  BlockCreate_SetCreatedAt_def
  BlockCreate_SetID_def
  BlockCreate_AddTransactionIDs_def
  BlockCreate_defaults_def
  BlockCreate_check_def
  BlockCreate_createSpec_def
  BlockCreate_sqlSave_def
  BlockCreate_Save_def

text \<open>The bulk builder: defaults of every builder first, then the chain of mutators, which checks
  the builders in order and calls the driver once, after the last check.\<close>

record block_create_bulk =
  bbk_err :: "err option"
  bbk_builders :: "block_create list"
  bbk_conflict :: "conflict_opt list"

definition BlockClient_CreateBulk :: "block_create list \<Rightarrow> block_create_bulk" where
  "BlockClient_CreateBulk builders =
     \<lparr>bbk_err = None, bbk_builders = builders, bbk_conflict = []\<rparr>"

definition BlockCreateBulk_Save :: 
    "'s ent_client \<Rightarrow> block_create_bulk \<Rightarrow> ('s, ent_block list) io" where
  "BlockCreateBulk_Save cl b s =
     (case bbk_err b of Some e \<Rightarrow> (Inl e, s)
      | None \<Rightarrow>
        (let bs = map (\<lambda>i. BlockCreate_defaults cl (Now cl i s) (bbk_builders b ! i)) [0..<length (bbk_builders b)] in
         if bs = [] then (Inr [], s)
         else case first_err (map (BlockCreate_check cl) bs) of Some e \<Rightarrow> (Inl e, s)
         | None \<Rightarrow>
           (case BatchCreate cl \<lparr>bs_Nodes = map (\<lambda>b. snd (BlockCreate_createSpec b)) bs, bs_OnConflict = bbk_conflict b\<rparr> s of
              (Inl e, s') \<Rightarrow> (Inl (wrap_create_err e), s')
            | (Inr ids, s') \<Rightarrow> (bulk_ids (\<lambda>n v. if v = None \<or> eb_ID n \<noteq> 0 then Inr n
                else case v of Some (VInt64 i) \<Rightarrow> Inr (n\<lparr>eb_ID := i\<rparr>)
                | _ \<Rightarrow> Inl (EPanic ''interface conversion: not an int64''))
                (map (\<lambda>b. fst (BlockCreate_createSpec b)) bs) ids, s'))))"

lemma BlockCreateBulk_plain:
  "BlockCreateBulk_Save cl (BlockClient_CreateBulk builders) s =
     (let bs = map (\<lambda>i. BlockCreate_defaults cl (Now cl i s) (builders ! i)) [0..<length builders] in
      if bs = [] then (Inr [], s)
      else case first_err (map (BlockCreate_check cl) bs) of Some e \<Rightarrow> (Inl e, s)
      | None \<Rightarrow>
        (case BatchCreate cl \<lparr>bs_Nodes = map (\<lambda>b. snd (BlockCreate_createSpec b)) bs, bs_OnConflict = []\<rparr> s of
           (Inl e, s') \<Rightarrow> (Inl (wrap_create_err e), s')
         | (Inr ids, s') \<Rightarrow> (bulk_ids (\<lambda>n v. if v = None \<or> eb_ID n \<noteq> 0 then Inr n
                else case v of Some (VInt64 i) \<Rightarrow> Inr (n\<lparr>eb_ID := i\<rparr>)
                | _ \<Rightarrow> Inl (EPanic ''interface conversion: not an int64''))
                (map (\<lambda>b. fst (BlockCreate_createSpec b)) bs) ids, s')))"
  unfolding BlockCreateBulk_Save_def BlockClient_CreateBulk_def block_create_bulk.select_convs option.case
  by (rule refl)

section \<open>Predicates\<close>

definition block_IDEQ :: "int \<Rightarrow> pred" where
  "block_IDEQ v = FieldEQ block_FieldID (VInt v)"

end
