(* ===== verification/Ent_RestoreHistory.thy ===== *)
theory Ent_RestoreHistory
  imports Ent_Core
begin

text \<open>
  The entity \<^verbatim>\<open>RestoreHistory\<close>: the checkpoint of the block restorer
  (\<^verbatim>\<open>ent/restorehistory/restorehistory.go\<close>, \<^verbatim>\<open>ent/restorehistory.go\<close>, its part of
  \<^verbatim>\<open>ent/mutation.go\<close>, \<^verbatim>\<open>ent/restorehistory_create.go\<close>, \<^verbatim>\<open>ent/restorehistory_query.go\<close>).

  A mutation collects what a builder was told; a pointer field of the Go struct is an option,
  \<^verbatim>\<open>clearedFields\<close> the list of its keys, and an id set of an edge the list of its keys in one of
  the orders Go may iterate them. No hook or interceptor is registered anywhere in the program,
  so \<^verbatim>\<open>withHooks\<close> and \<^verbatim>\<open>withInterceptors\<close> call the operation directly.
\<close>

section \<open>Names and columns\<close>

definition restorehistory_Label :: string where
  "restorehistory_Label = ''restore_history''"

definition restorehistory_Table :: string where
  "restorehistory_Table = ''restore_histories''"

definition restorehistory_FieldID :: string where
  "restorehistory_FieldID = ''id''"

definition restorehistory_FieldRestoreRangeStart :: string where
  "restorehistory_FieldRestoreRangeStart = ''restore_range_start''"

definition restorehistory_FieldRestoreRangeEnd :: string where
  "restorehistory_FieldRestoreRangeEnd = ''restore_range_end''"

definition restorehistory_FieldBeingBlock :: string where
  "restorehistory_FieldBeingBlock = ''being_block''"

definition restorehistory_Columns :: "string list" where
  "restorehistory_Columns = [restorehistory_FieldID,
     restorehistory_FieldRestoreRangeStart,
     restorehistory_FieldRestoreRangeEnd,
     restorehistory_FieldBeingBlock]"

definition restorehistory_ValidColumn :: "string \<Rightarrow> bool" where
  "restorehistory_ValidColumn column \<longleftrightarrow> List.member restorehistory_Columns column"

lemmas restorehistory_names = restorehistory_Label_def
  restorehistory_Table_def
  restorehistory_FieldID_def
  restorehistory_FieldRestoreRangeStart_def
  restorehistory_FieldRestoreRangeEnd_def
  restorehistory_FieldBeingBlock_def

section \<open>The entity and the scanning of its rows\<close>

record ent_restorehistory =
  eh_ID :: int
  eh_RestoreRangeStart :: int
  eh_RestoreRangeEnd :: int
  eh_BeingBlock :: int

definition zero_restorehistory :: ent_restorehistory where
  "zero_restorehistory = \<lparr>eh_ID = 0,
     eh_RestoreRangeStart = 0,
     eh_RestoreRangeEnd = 0,
     eh_BeingBlock = 0\<rparr>"

definition RestoreHistory_scanValues :: "string \<Rightarrow> holder" where
  "RestoreHistory_scanValues column =
     (if column = restorehistory_FieldID \<or> column = restorehistory_FieldRestoreRangeStart \<or> column = restorehistory_FieldRestoreRangeEnd \<or> column = restorehistory_FieldBeingBlock then NullInt64
      else UnknownType)"

definition RestoreHistory_assignValues :: 
    "string \<Rightarrow> ent_value \<Rightarrow> ent_restorehistory \<Rightarrow> err + ent_restorehistory" where
  "RestoreHistory_assignValues column v m =
     (if column = restorehistory_FieldID then
        (case v of VInt n \<Rightarrow> Inr (m\<lparr>eh_ID := n\<rparr>) | VNull \<Rightarrow> Inr (m\<lparr>eh_ID := 0\<rparr>)
          | _ \<Rightarrow> Inl (EMsg ''unexpected type for field id''))
      else if column = restorehistory_FieldRestoreRangeStart then
        (case v of VInt x \<Rightarrow> Inr (m\<lparr>eh_RestoreRangeStart := x\<rparr>) | VNull \<Rightarrow> Inr m
          | _ \<Rightarrow> Inl (EMsg ''unexpected type for field restore_range_start''))
      else if column = restorehistory_FieldRestoreRangeEnd then
        (case v of VInt x \<Rightarrow> Inr (m\<lparr>eh_RestoreRangeEnd := x\<rparr>) | VNull \<Rightarrow> Inr m
          | _ \<Rightarrow> Inl (EMsg ''unexpected type for field restore_range_end''))
      else if column = restorehistory_FieldBeingBlock then
        (case v of VInt x \<Rightarrow> Inr (m\<lparr>eh_BeingBlock := x\<rparr>) | VNull \<Rightarrow> Inr m
          | _ \<Rightarrow> Inl (EMsg ''unexpected type for field being_block''))
      else Inr m)"

definition restorehistory_meta :: "ent_restorehistory ent_meta" where
  "restorehistory_meta = \<lparr>em_Label = restorehistory_Label, em_Table = restorehistory_Table, em_IDSpec = (restorehistory_FieldID, TypeInt),
     em_Columns = restorehistory_Columns, em_ValidColumn = restorehistory_ValidColumn,
     em_Assign = (\<lambda>row. assign_row RestoreHistory_scanValues RestoreHistory_assignValues row zero_restorehistory)\<rparr>"

definition RestoreHistoryQuery_First :: 
    "'s ent_client \<Rightarrow> ent_query \<Rightarrow> ('s, ent_restorehistory) io" where
  "RestoreHistoryQuery_First = First restorehistory_meta"

definition RestoreHistoryQuery_Only :: 
    "'s ent_client \<Rightarrow> ent_query \<Rightarrow> ('s, ent_restorehistory) io" where
  "RestoreHistoryQuery_Only = Only restorehistory_meta"

definition RestoreHistoryQuery_All :: 
    "'s ent_client \<Rightarrow> ent_query \<Rightarrow> ('s, ent_restorehistory list) io" where
  "RestoreHistoryQuery_All = All restorehistory_meta"

definition RestoreHistoryQuery_querySpec :: "ent_query \<Rightarrow> query_spec" where
  "RestoreHistoryQuery_querySpec = querySpec restorehistory_meta"

section \<open>The mutation\<close>

record restorehistory_mutation =
  hm_op :: ent_op
  hm_id :: "int option"
  hm_restore_range_start :: "int option"
  hm_addrestore_range_start :: "int option"
  hm_restore_range_end :: "int option"
  hm_addrestore_range_end :: "int option"
  hm_being_block :: "int option"
  hm_addbeing_block :: "int option"
  hm_clearedFields :: "string list"
  hm_done :: bool
  hm_predicates :: "pred list"

definition newRestoreHistoryMutation :: "ent_op \<Rightarrow> restorehistory_mutation" where
  "newRestoreHistoryMutation op = \<lparr>hm_op = op,
     hm_id = None,
     hm_restore_range_start = None,
     hm_addrestore_range_start = None,
     hm_restore_range_end = None,
     hm_addrestore_range_end = None,
     hm_being_block = None,
     hm_addbeing_block = None,
     hm_clearedFields = [],
     hm_done = False,
     hm_predicates = []\<rparr>"

definition RestoreHistoryMutation_SetID :: 
    "int \<Rightarrow> restorehistory_mutation \<Rightarrow> restorehistory_mutation" where
  "RestoreHistoryMutation_SetID v m = m\<lparr>hm_id := Some v\<rparr>"

definition RestoreHistoryMutation_ID :: "restorehistory_mutation \<Rightarrow> int option" where
  "RestoreHistoryMutation_ID m = hm_id m"

definition RestoreHistoryMutation_SetRestoreRangeStart :: 
    "int \<Rightarrow> restorehistory_mutation \<Rightarrow> restorehistory_mutation" where
  "RestoreHistoryMutation_SetRestoreRangeStart v m = m\<lparr>hm_restore_range_start := Some v, hm_addrestore_range_start := None\<rparr>"

definition RestoreHistoryMutation_RestoreRangeStart :: 
    "restorehistory_mutation \<Rightarrow> int option" where
  "RestoreHistoryMutation_RestoreRangeStart m = hm_restore_range_start m"

definition RestoreHistoryMutation_AddRestoreRangeStart :: 
    "int \<Rightarrow> restorehistory_mutation \<Rightarrow> restorehistory_mutation" where
  "RestoreHistoryMutation_AddRestoreRangeStart v m = 
     (case hm_addrestore_range_start m of Some a \<Rightarrow> m\<lparr>hm_addrestore_range_start := Some (wrap64 (a + v))\<rparr>
      | None \<Rightarrow> m\<lparr>hm_addrestore_range_start := Some v\<rparr>)"

definition RestoreHistoryMutation_AddedRestoreRangeStart :: 
    "restorehistory_mutation \<Rightarrow> int option" where
  "RestoreHistoryMutation_AddedRestoreRangeStart m = hm_addrestore_range_start m"

definition RestoreHistoryMutation_ResetRestoreRangeStart :: 
    "restorehistory_mutation \<Rightarrow> restorehistory_mutation" where
  "RestoreHistoryMutation_ResetRestoreRangeStart m = m\<lparr>hm_restore_range_start := None, hm_addrestore_range_start := None\<rparr>"

definition RestoreHistoryMutation_SetRestoreRangeEnd :: 
    "int \<Rightarrow> restorehistory_mutation \<Rightarrow> restorehistory_mutation" where
  "RestoreHistoryMutation_SetRestoreRangeEnd v m = m\<lparr>hm_restore_range_end := Some v, hm_addrestore_range_end := None\<rparr>"

definition RestoreHistoryMutation_RestoreRangeEnd :: 
    "restorehistory_mutation \<Rightarrow> int option" where
  "RestoreHistoryMutation_RestoreRangeEnd m = hm_restore_range_end m"

definition RestoreHistoryMutation_AddRestoreRangeEnd :: 
    "int \<Rightarrow> restorehistory_mutation \<Rightarrow> restorehistory_mutation" where
  "RestoreHistoryMutation_AddRestoreRangeEnd v m = 
     (case hm_addrestore_range_end m of Some a \<Rightarrow> m\<lparr>hm_addrestore_range_end := Some (wrap64 (a + v))\<rparr>
      | None \<Rightarrow> m\<lparr>hm_addrestore_range_end := Some v\<rparr>)"

definition RestoreHistoryMutation_AddedRestoreRangeEnd :: 
    "restorehistory_mutation \<Rightarrow> int option" where
  "RestoreHistoryMutation_AddedRestoreRangeEnd m = hm_addrestore_range_end m"

definition RestoreHistoryMutation_ResetRestoreRangeEnd :: 
    "restorehistory_mutation \<Rightarrow> restorehistory_mutation" where
  "RestoreHistoryMutation_ResetRestoreRangeEnd m = m\<lparr>hm_restore_range_end := None, hm_addrestore_range_end := None\<rparr>"

definition RestoreHistoryMutation_SetBeingBlock :: 
    "int \<Rightarrow> restorehistory_mutation \<Rightarrow> restorehistory_mutation" where
  "RestoreHistoryMutation_SetBeingBlock v m = m\<lparr>hm_being_block := Some v, hm_addbeing_block := None\<rparr>"

definition RestoreHistoryMutation_BeingBlock :: 
    "restorehistory_mutation \<Rightarrow> int option" where
  "RestoreHistoryMutation_BeingBlock m = hm_being_block m"

definition RestoreHistoryMutation_AddBeingBlock :: 
    "int \<Rightarrow> restorehistory_mutation \<Rightarrow> restorehistory_mutation" where
  "RestoreHistoryMutation_AddBeingBlock v m = 
     (case hm_addbeing_block m of Some a \<Rightarrow> m\<lparr>hm_addbeing_block := Some (wrap64 (a + v))\<rparr>
      | None \<Rightarrow> m\<lparr>hm_addbeing_block := Some v\<rparr>)"

definition RestoreHistoryMutation_AddedBeingBlock :: 
    "restorehistory_mutation \<Rightarrow> int option" where
  "RestoreHistoryMutation_AddedBeingBlock m = hm_addbeing_block m"

definition RestoreHistoryMutation_ResetBeingBlock :: 
    "restorehistory_mutation \<Rightarrow> restorehistory_mutation" where
  "RestoreHistoryMutation_ResetBeingBlock m = m\<lparr>hm_being_block := None, hm_addbeing_block := None\<rparr>"

definition RestoreHistoryMutation_Where :: 
    "pred list \<Rightarrow> restorehistory_mutation \<Rightarrow> restorehistory_mutation" where
  "RestoreHistoryMutation_Where ps m = m\<lparr>hm_predicates := hm_predicates m @ ps\<rparr>"

lemmas restorehistory_mutation_defs = RestoreHistoryMutation_SetID_def
  RestoreHistoryMutation_ID_def
  RestoreHistoryMutation_SetRestoreRangeStart_def
  RestoreHistoryMutation_RestoreRangeStart_def
  RestoreHistoryMutation_AddRestoreRangeStart_def
  RestoreHistoryMutation_AddedRestoreRangeStart_def
  RestoreHistoryMutation_ResetRestoreRangeStart_def
  RestoreHistoryMutation_SetRestoreRangeEnd_def
  RestoreHistoryMutation_RestoreRangeEnd_def
  RestoreHistoryMutation_AddRestoreRangeEnd_def
  RestoreHistoryMutation_AddedRestoreRangeEnd_def
  RestoreHistoryMutation_ResetRestoreRangeEnd_def
  RestoreHistoryMutation_SetBeingBlock_def
  RestoreHistoryMutation_BeingBlock_def
  RestoreHistoryMutation_AddBeingBlock_def
  RestoreHistoryMutation_AddedBeingBlock_def
  RestoreHistoryMutation_ResetBeingBlock_def
  RestoreHistoryMutation_Where_def

subsection \<open>Access by field name\<close>

definition RestoreHistoryMutation_Fields :: 
    "restorehistory_mutation \<Rightarrow> string list" where
  "RestoreHistoryMutation_Fields m = 
     (if hm_restore_range_start m \<noteq> None then [restorehistory_FieldRestoreRangeStart] else []) @
     (if hm_restore_range_end m \<noteq> None then [restorehistory_FieldRestoreRangeEnd] else []) @
     (if hm_being_block m \<noteq> None then [restorehistory_FieldBeingBlock] else [])"

definition RestoreHistoryMutation_Field :: 
    "string \<Rightarrow> restorehistory_mutation \<Rightarrow> ent_value option" where
  "RestoreHistoryMutation_Field name m =
     (if name = restorehistory_FieldRestoreRangeStart then map_option VInt (RestoreHistoryMutation_RestoreRangeStart m)
      else if name = restorehistory_FieldRestoreRangeEnd then map_option VInt (RestoreHistoryMutation_RestoreRangeEnd m)
      else if name = restorehistory_FieldBeingBlock then map_option VInt (RestoreHistoryMutation_BeingBlock m)
      else None)"

definition RestoreHistoryMutation_SetField :: 
    "string \<Rightarrow> ent_value \<Rightarrow> restorehistory_mutation \<Rightarrow> err + restorehistory_mutation" where
  "RestoreHistoryMutation_SetField name value m =
     (if name = restorehistory_FieldRestoreRangeStart then (case value of VInt v \<Rightarrow> Inr (RestoreHistoryMutation_SetRestoreRangeStart v m) |
          _ \<Rightarrow> Inl (EMsg ''unexpected type for field''))
      else if name = restorehistory_FieldRestoreRangeEnd then (case value of VInt v \<Rightarrow> Inr (RestoreHistoryMutation_SetRestoreRangeEnd v m) |
          _ \<Rightarrow> Inl (EMsg ''unexpected type for field''))
      else if name = restorehistory_FieldBeingBlock then (case value of VInt v \<Rightarrow> Inr (RestoreHistoryMutation_SetBeingBlock v m) |
          _ \<Rightarrow> Inl (EMsg ''unexpected type for field''))
      else Inl (EMsg ''unknown RestoreHistory field''))"

definition RestoreHistoryMutation_AddedFields :: 
    "restorehistory_mutation \<Rightarrow> string list" where
  "RestoreHistoryMutation_AddedFields m = 
     (if hm_addrestore_range_start m \<noteq> None then [restorehistory_FieldRestoreRangeStart] else []) @
     (if hm_addrestore_range_end m \<noteq> None then [restorehistory_FieldRestoreRangeEnd] else []) @
     (if hm_addbeing_block m \<noteq> None then [restorehistory_FieldBeingBlock] else [])"

definition RestoreHistoryMutation_AddedField :: 
    "string \<Rightarrow> restorehistory_mutation \<Rightarrow> ent_value option" where
  "RestoreHistoryMutation_AddedField name m =
     (if name = restorehistory_FieldRestoreRangeStart then map_option VInt (RestoreHistoryMutation_AddedRestoreRangeStart m)
      else if name = restorehistory_FieldRestoreRangeEnd then map_option VInt (RestoreHistoryMutation_AddedRestoreRangeEnd m)
      else if name = restorehistory_FieldBeingBlock then map_option VInt (RestoreHistoryMutation_AddedBeingBlock m)
      else None)"

definition RestoreHistoryMutation_AddField :: 
    "string \<Rightarrow> ent_value \<Rightarrow> restorehistory_mutation \<Rightarrow> err + restorehistory_mutation" where
  "RestoreHistoryMutation_AddField name value m =
     (if name = restorehistory_FieldRestoreRangeStart then (case value of VInt v \<Rightarrow> Inr (RestoreHistoryMutation_AddRestoreRangeStart v m) |
          _ \<Rightarrow> Inl (EMsg ''unexpected type for field''))
      else if name = restorehistory_FieldRestoreRangeEnd then (case value of VInt v \<Rightarrow> Inr (RestoreHistoryMutation_AddRestoreRangeEnd v m) |
          _ \<Rightarrow> Inl (EMsg ''unexpected type for field''))
      else if name = restorehistory_FieldBeingBlock then (case value of VInt v \<Rightarrow> Inr (RestoreHistoryMutation_AddBeingBlock v m) |
          _ \<Rightarrow> Inl (EMsg ''unexpected type for field''))
      else Inl (EMsg ''unknown RestoreHistory numeric field''))"

definition RestoreHistoryMutation_FieldCleared :: 
    "string \<Rightarrow> restorehistory_mutation \<Rightarrow> bool" where
  "RestoreHistoryMutation_FieldCleared name m \<longleftrightarrow> List.member (hm_clearedFields m) name"

definition RestoreHistoryMutation_ClearedFields :: 
    "restorehistory_mutation \<Rightarrow> string list" where
  "RestoreHistoryMutation_ClearedFields m = []"

definition RestoreHistoryMutation_ClearField :: 
    "string \<Rightarrow> restorehistory_mutation \<Rightarrow> err + restorehistory_mutation" where
  "RestoreHistoryMutation_ClearField name m =
     (Inl (EMsg ''unknown RestoreHistory nullable field''))"

definition RestoreHistoryMutation_ResetField :: 
    "string \<Rightarrow> restorehistory_mutation \<Rightarrow> err + restorehistory_mutation" where
  "RestoreHistoryMutation_ResetField name m =
     (if name = restorehistory_FieldRestoreRangeStart then Inr (RestoreHistoryMutation_ResetRestoreRangeStart m)
      else if name = restorehistory_FieldRestoreRangeEnd then Inr (RestoreHistoryMutation_ResetRestoreRangeEnd m)
      else if name = restorehistory_FieldBeingBlock then Inr (RestoreHistoryMutation_ResetBeingBlock m)
      else Inl (EMsg ''unknown RestoreHistory field''))"

lemmas restorehistory_reflect_defs = RestoreHistoryMutation_Fields_def
  RestoreHistoryMutation_Field_def
  RestoreHistoryMutation_SetField_def
  RestoreHistoryMutation_AddedFields_def
  RestoreHistoryMutation_AddedField_def
  RestoreHistoryMutation_AddField_def
  RestoreHistoryMutation_FieldCleared_def
  RestoreHistoryMutation_ClearedFields_def
  RestoreHistoryMutation_ClearField_def
  RestoreHistoryMutation_ResetField_def

lemma restorehistory_field_neq [simp]:
  "restorehistory_FieldRestoreRangeStart \<noteq> restorehistory_FieldRestoreRangeEnd"
  "restorehistory_FieldRestoreRangeStart \<noteq> restorehistory_FieldBeingBlock"
  "restorehistory_FieldRestoreRangeEnd \<noteq> restorehistory_FieldRestoreRangeStart"
  "restorehistory_FieldRestoreRangeEnd \<noteq> restorehistory_FieldBeingBlock"
  "restorehistory_FieldBeingBlock \<noteq> restorehistory_FieldRestoreRangeStart"
  "restorehistory_FieldBeingBlock \<noteq> restorehistory_FieldRestoreRangeEnd"
  by (simp_all add: restorehistory_names)

lemma restorehistory_SetField_Field:
  "RestoreHistoryMutation_SetField name v m = Inr m' \<Longrightarrow> RestoreHistoryMutation_Field name m' = Some v"
  by (auto simp: RestoreHistoryMutation_SetField_def RestoreHistoryMutation_Field_def restorehistory_mutation_defs
      split: if_split_asm ent_value.split_asm)

lemma restorehistory_SetField_other:
  "RestoreHistoryMutation_SetField name v m = Inr m' \<Longrightarrow> other \<noteq> name \<Longrightarrow>
    RestoreHistoryMutation_Field other m' = RestoreHistoryMutation_Field other m"
  by (auto simp: RestoreHistoryMutation_SetField_def RestoreHistoryMutation_Field_def restorehistory_mutation_defs
      split: if_split_asm ent_value.split_asm split del: if_split cong: if_cong)

lemma restorehistory_ResetField_Field:
  "RestoreHistoryMutation_ResetField name m = Inr m' \<Longrightarrow>
    RestoreHistoryMutation_Field name m' = None \<and> RestoreHistoryMutation_AddedField name m' = None"
  by (auto simp: RestoreHistoryMutation_ResetField_def RestoreHistoryMutation_Field_def RestoreHistoryMutation_AddedField_def restorehistory_mutation_defs
      split: if_split_asm)

lemma restorehistory_Fields_iff: "name \<in> set (RestoreHistoryMutation_Fields m) \<longleftrightarrow> RestoreHistoryMutation_Field name m \<noteq> None"
  by (auto simp: RestoreHistoryMutation_Fields_def RestoreHistoryMutation_Field_def restorehistory_mutation_defs split: if_split_asm)

section \<open>The create builder\<close>

record restorehistory_create =
  hcb_mutation :: restorehistory_mutation
  hcb_conflict :: "conflict_opt list"

definition RestoreHistoryClient_Create :: restorehistory_create where
  "RestoreHistoryClient_Create = \<lparr>hcb_mutation = newRestoreHistoryMutation OpCreate, hcb_conflict = []\<rparr>"

definition RestoreHistoryCreate_SetRestoreRangeStart :: 
    "int \<Rightarrow> restorehistory_create \<Rightarrow> restorehistory_create" where
  "RestoreHistoryCreate_SetRestoreRangeStart v c =
     c\<lparr>hcb_mutation := RestoreHistoryMutation_SetRestoreRangeStart v (hcb_mutation c)\<rparr>"

definition RestoreHistoryCreate_SetRestoreRangeEnd :: 
    "int \<Rightarrow> restorehistory_create \<Rightarrow> restorehistory_create" where
  "RestoreHistoryCreate_SetRestoreRangeEnd v c =
     c\<lparr>hcb_mutation := RestoreHistoryMutation_SetRestoreRangeEnd v (hcb_mutation c)\<rparr>"

definition RestoreHistoryCreate_SetBeingBlock :: 
    "int \<Rightarrow> restorehistory_create \<Rightarrow> restorehistory_create" where
  "RestoreHistoryCreate_SetBeingBlock v c =
     c\<lparr>hcb_mutation := RestoreHistoryMutation_SetBeingBlock v (hcb_mutation c)\<rparr>"

definition RestoreHistoryCreate_SetID :: 
    "int \<Rightarrow> restorehistory_create \<Rightarrow> restorehistory_create" where
  "RestoreHistoryCreate_SetID v c =
     c\<lparr>hcb_mutation := RestoreHistoryMutation_SetID v (hcb_mutation c)\<rparr>"

definition RestoreHistoryCreate_check :: 
    "'s ent_client \<Rightarrow> restorehistory_create \<Rightarrow> err option" where
  "RestoreHistoryCreate_check cl c = first_err [
     require_field ''restore_range_start'' (RestoreHistoryMutation_RestoreRangeStart (hcb_mutation c)),
     require_field ''restore_range_end'' (RestoreHistoryMutation_RestoreRangeEnd (hcb_mutation c)),
     require_field ''being_block'' (RestoreHistoryMutation_BeingBlock (hcb_mutation c))]"

definition RestoreHistoryCreate_createSpec :: 
    "restorehistory_create \<Rightarrow> ent_restorehistory \<times> create_spec" where
  "RestoreHistoryCreate_createSpec c =
     (let m = hcb_mutation c;
      node = zero_restorehistory\<lparr>eh_ID := (case RestoreHistoryMutation_ID m of Some i \<Rightarrow> i | None \<Rightarrow> 0),
        eh_RestoreRangeStart := (case RestoreHistoryMutation_RestoreRangeStart m of Some v \<Rightarrow> v | None \<Rightarrow> eh_RestoreRangeStart zero_restorehistory),
        eh_RestoreRangeEnd := (case RestoreHistoryMutation_RestoreRangeEnd m of Some v \<Rightarrow> v | None \<Rightarrow> eh_RestoreRangeEnd zero_restorehistory),
        eh_BeingBlock := (case RestoreHistoryMutation_BeingBlock m of Some v \<Rightarrow> v | None \<Rightarrow> eh_BeingBlock zero_restorehistory)\<rparr>;
      spec0 = (NewCreateSpec restorehistory_Table (restorehistory_FieldID, TypeInt))\<lparr>cs_OnConflict := hcb_conflict c,
        cs_ID := map_option VInt (RestoreHistoryMutation_ID m)\<rparr>;
      spec1 = SetField restorehistory_FieldRestoreRangeStart TypeInt VInt (RestoreHistoryMutation_RestoreRangeStart m) spec0;
      spec2 = SetField restorehistory_FieldRestoreRangeEnd TypeInt VInt (RestoreHistoryMutation_RestoreRangeEnd m) spec1;
      spec3 = SetField restorehistory_FieldBeingBlock TypeInt VInt (RestoreHistoryMutation_BeingBlock m) spec2
      in (node, spec3))"

definition RestoreHistoryCreate_sqlSave :: 
    "'s ent_client \<Rightarrow> restorehistory_create \<Rightarrow> ('s, ent_restorehistory) io" where
  "RestoreHistoryCreate_sqlSave cl c s =
     (case RestoreHistoryCreate_check cl c of Some e \<Rightarrow> (Inl e, s)
      | None \<Rightarrow>
        (let (node, spec) = RestoreHistoryCreate_createSpec c in
         case CreateNode cl spec s of
           (Inl e, s') \<Rightarrow> (Inl (wrap_create_err e), s')
         | (Inr idv, s') \<Rightarrow>
             if idv = Some (VInt (eh_ID node)) then (Inr node, s')
             else (case idv of Some (VInt64 i) \<Rightarrow> (Inr (node\<lparr>eh_ID := i\<rparr>), s')
              | _ \<Rightarrow> (Inl (EPanic ''interface conversion: not an int64''), s'))))"

definition RestoreHistoryCreate_Save :: 
    "'s ent_client \<Rightarrow> restorehistory_create \<Rightarrow> ('s, ent_restorehistory) io" where
  "RestoreHistoryCreate_Save cl c s = RestoreHistoryCreate_sqlSave cl c s"

lemmas restorehistory_create_defs = RestoreHistoryClient_Create_def
  RestoreHistoryCreate_SetRestoreRangeStart_def
  RestoreHistoryCreate_SetRestoreRangeEnd_def
  RestoreHistoryCreate_SetBeingBlock_def
  RestoreHistoryCreate_SetID_def
  RestoreHistoryCreate_check_def
  RestoreHistoryCreate_createSpec_def
  RestoreHistoryCreate_sqlSave_def
  RestoreHistoryCreate_Save_def

text \<open>The bulk builder: defaults of every builder first, then the chain of mutators, which checks
  the builders in order and calls the driver once, after the last check.\<close>

record restorehistory_create_bulk =
  hbk_err :: "err option"
  hbk_builders :: "restorehistory_create list"
  hbk_conflict :: "conflict_opt list"

definition RestoreHistoryClient_CreateBulk :: 
    "restorehistory_create list \<Rightarrow> restorehistory_create_bulk" where
  "RestoreHistoryClient_CreateBulk builders =
     \<lparr>hbk_err = None, hbk_builders = builders, hbk_conflict = []\<rparr>"

definition RestoreHistoryCreateBulk_Save :: 
    "'s ent_client \<Rightarrow> restorehistory_create_bulk \<Rightarrow> ('s, ent_restorehistory list) io" where
  "RestoreHistoryCreateBulk_Save cl b s =
     (case hbk_err b of Some e \<Rightarrow> (Inl e, s)
      | None \<Rightarrow>
        (let bs = hbk_builders b in
         if bs = [] then (Inr [], s)
         else case first_err (map (RestoreHistoryCreate_check cl) bs) of Some e \<Rightarrow> (Inl e, s)
         | None \<Rightarrow>
           (case BatchCreate cl \<lparr>bs_Nodes = map (\<lambda>b. snd (RestoreHistoryCreate_createSpec b)) bs, bs_OnConflict = hbk_conflict b\<rparr> s of
              (Inl e, s') \<Rightarrow> (Inl (wrap_create_err e), s')
            | (Inr ids, s') \<Rightarrow> (bulk_ids (\<lambda>n v. if v = None \<or> eh_ID n \<noteq> 0 then Inr n
                else case v of Some (VInt64 i) \<Rightarrow> Inr (n\<lparr>eh_ID := i\<rparr>)
                | _ \<Rightarrow> Inl (EPanic ''interface conversion: not an int64''))
                (map (\<lambda>b. fst (RestoreHistoryCreate_createSpec b)) bs) ids, s'))))"

lemma RestoreHistoryCreateBulk_plain:
  "RestoreHistoryCreateBulk_Save cl (RestoreHistoryClient_CreateBulk builders) s =
     (let bs = builders in
      if bs = [] then (Inr [], s)
      else case first_err (map (RestoreHistoryCreate_check cl) bs) of Some e \<Rightarrow> (Inl e, s)
      | None \<Rightarrow>
        (case BatchCreate cl \<lparr>bs_Nodes = map (\<lambda>b. snd (RestoreHistoryCreate_createSpec b)) bs, bs_OnConflict = []\<rparr> s of
           (Inl e, s') \<Rightarrow> (Inl (wrap_create_err e), s')
         | (Inr ids, s') \<Rightarrow> (bulk_ids (\<lambda>n v. if v = None \<or> eh_ID n \<noteq> 0 then Inr n
                else case v of Some (VInt64 i) \<Rightarrow> Inr (n\<lparr>eh_ID := i\<rparr>)
                | _ \<Rightarrow> Inl (EPanic ''interface conversion: not an int64''))
                (map (\<lambda>b. fst (RestoreHistoryCreate_createSpec b)) bs) ids, s')))"
  unfolding RestoreHistoryCreateBulk_Save_def RestoreHistoryClient_CreateBulk_def restorehistory_create_bulk.select_convs option.case
  by (rule refl)

section \<open>Predicates\<close>

definition restorehistory_IDEQ :: "int \<Rightarrow> pred" where
  "restorehistory_IDEQ v = FieldEQ restorehistory_FieldID (VInt v)"

end
