(* ===== verification/Ent_Transaction.thy ===== *)
theory Ent_Transaction
  imports Ent_Core
begin

text \<open>
  The entity \<^verbatim>\<open>Transaction\<close>, with a generated key and an edge to its block
  (\<^verbatim>\<open>ent/transaction/transaction.go\<close>, \<^verbatim>\<open>ent/transaction.go\<close>, its part of \<^verbatim>\<open>ent/mutation.go\<close>,
  \<^verbatim>\<open>ent/transaction_create.go\<close>, \<^verbatim>\<open>ent/transaction_query.go\<close>).

  A mutation collects what a builder was told; a pointer field of the Go struct is an option,
  \<^verbatim>\<open>clearedFields\<close> the list of its keys, and an id set of an edge the list of its keys in one of
  the orders Go may iterate them. No hook or interceptor is registered anywhere in the program,
  so \<^verbatim>\<open>withHooks\<close> and \<^verbatim>\<open>withInterceptors\<close> call the operation directly.
\<close>

section \<open>Names and columns\<close>

definition transaction_Label :: string where
  "transaction_Label = ''transaction''"

definition transaction_Table :: string where
  "transaction_Table = ''transactions''"

definition transaction_FieldID :: string where
  "transaction_FieldID = ''id''"

definition transaction_FieldIndex :: string where
  "transaction_FieldIndex = ''index''"

definition transaction_FieldHash :: string where
  "transaction_FieldHash = ''hash''"

definition transaction_FieldSuccess :: string where
  "transaction_FieldSuccess = ''success''"

definition transaction_FieldBlockHeight :: string where
  "transaction_FieldBlockHeight = ''block_height''"

definition transaction_FieldGasWanted :: string where
  "transaction_FieldGasWanted = ''gas_wanted''"

definition transaction_FieldGasUsed :: string where
  "transaction_FieldGasUsed = ''gas_used''"

definition transaction_FieldMemo :: string where
  "transaction_FieldMemo = ''memo''"

definition transaction_FieldGasFee :: string where
  "transaction_FieldGasFee = ''gas_fee''"

definition transaction_FieldMessages :: string where
  "transaction_FieldMessages = ''messages''"

definition transaction_FieldResponse :: string where
  "transaction_FieldResponse = ''response''"

definition transaction_FieldCreatedAt :: string where
  "transaction_FieldCreatedAt = ''created_at''"

definition transaction_EdgeBlock :: string where
  "transaction_EdgeBlock = ''block''"

definition transaction_Columns :: "string list" where
  "transaction_Columns = [transaction_FieldID,
     transaction_FieldIndex,
     transaction_FieldHash,
     transaction_FieldSuccess,
     transaction_FieldBlockHeight,
     transaction_FieldGasWanted,
     transaction_FieldGasUsed,
     transaction_FieldMemo,
     transaction_FieldGasFee,
     transaction_FieldMessages,
     transaction_FieldResponse,
     transaction_FieldCreatedAt]"

definition transaction_ForeignKeys :: "string list" where
  "transaction_ForeignKeys = [''block_transactions'']"

definition transaction_ValidColumn :: "string \<Rightarrow> bool" where
  "transaction_ValidColumn column \<longleftrightarrow> List.member transaction_Columns column \<or> List.member transaction_ForeignKeys column"

lemmas transaction_names = transaction_Label_def
  transaction_Table_def
  transaction_FieldID_def
  transaction_FieldIndex_def
  transaction_FieldHash_def
  transaction_FieldSuccess_def
  transaction_FieldBlockHeight_def
  transaction_FieldGasWanted_def
  transaction_FieldGasUsed_def
  transaction_FieldMemo_def
  transaction_FieldGasFee_def
  transaction_FieldMessages_def
  transaction_FieldResponse_def
  transaction_FieldCreatedAt_def
  transaction_EdgeBlock_def

section \<open>The entity and the scanning of its rows\<close>

record ent_transaction =
  et_ID :: int
  et_Index :: int
  et_Hash :: string
  et_Success :: bool
  et_BlockHeight :: int
  et_GasWanted :: float64
  et_GasUsed :: float64
  et_Memo :: string
  et_GasFee :: schema_gas_fee
  et_Messages :: "schema_message list"
  et_Response :: schema_response
  et_CreatedAt :: go_time
  et_block_transactions :: "int option"

definition zero_transaction :: ent_transaction where
  "zero_transaction = \<lparr>et_ID = 0,
     et_Index = 0,
     et_Hash = '''',
     et_Success = False,
     et_BlockHeight = 0,
     et_GasWanted = F64 0,
     et_GasUsed = F64 0,
     et_Memo = '''',
     et_GasFee = \<lparr>sgf_Amount = F64 0, sgf_Denom = ''''\<rparr>,
     et_Messages = [],
     et_Response = \<lparr>srs_Log = '''', srs_Info = '''', srs_Error = '''', srs_Data = '''', srs_Events = []\<rparr>,
     et_CreatedAt = zero_time,
     et_block_transactions = None\<rparr>"

definition Transaction_scanValues :: "string \<Rightarrow> holder" where
  "Transaction_scanValues column =
     (if column = transaction_FieldID \<or> column = transaction_FieldIndex \<or> column = transaction_FieldBlockHeight then NullInt64
      else if column = transaction_FieldHash \<or> column = transaction_FieldMemo then NullString
      else if column = transaction_FieldSuccess then NullBool
      else if column = transaction_FieldGasWanted \<or> column = transaction_FieldGasUsed then NullFloat64
      else if column = transaction_FieldGasFee \<or> column = transaction_FieldMessages \<or> column = transaction_FieldResponse then RawBytes
      else if column = transaction_FieldCreatedAt then NullTime
      else if column = ''block_transactions'' then NullInt64
      else UnknownType)"

definition Transaction_assignValues :: 
    "string \<Rightarrow> ent_value \<Rightarrow> ent_transaction \<Rightarrow> err + ent_transaction" where
  "Transaction_assignValues column v m =
     (if column = transaction_FieldID then
        (case v of VInt n \<Rightarrow> Inr (m\<lparr>et_ID := n\<rparr>) | VNull \<Rightarrow> Inr (m\<lparr>et_ID := 0\<rparr>)
          | _ \<Rightarrow> Inl (EMsg ''unexpected type for field id''))
      else if column = transaction_FieldIndex then
        (case v of VInt x \<Rightarrow> Inr (m\<lparr>et_Index := x\<rparr>) | VNull \<Rightarrow> Inr m
          | _ \<Rightarrow> Inl (EMsg ''unexpected type for field index''))
      else if column = transaction_FieldHash then
        (case v of VString x \<Rightarrow> Inr (m\<lparr>et_Hash := x\<rparr>) | VNull \<Rightarrow> Inr m
          | _ \<Rightarrow> Inl (EMsg ''unexpected type for field hash''))
      else if column = transaction_FieldSuccess then
        (case v of VBool x \<Rightarrow> Inr (m\<lparr>et_Success := x\<rparr>) | VNull \<Rightarrow> Inr m
          | _ \<Rightarrow> Inl (EMsg ''unexpected type for field success''))
      else if column = transaction_FieldBlockHeight then
        (case v of VInt x \<Rightarrow> Inr (m\<lparr>et_BlockHeight := x\<rparr>) | VNull \<Rightarrow> Inr m
          | _ \<Rightarrow> Inl (EMsg ''unexpected type for field block_height''))
      else if column = transaction_FieldGasWanted then
        (case v of VFloat x \<Rightarrow> Inr (m\<lparr>et_GasWanted := x\<rparr>) | VNull \<Rightarrow> Inr m
          | _ \<Rightarrow> Inl (EMsg ''unexpected type for field gas_wanted''))
      else if column = transaction_FieldGasUsed then
        (case v of VFloat x \<Rightarrow> Inr (m\<lparr>et_GasUsed := x\<rparr>) | VNull \<Rightarrow> Inr m
          | _ \<Rightarrow> Inl (EMsg ''unexpected type for field gas_used''))
      else if column = transaction_FieldMemo then
        (case v of VString x \<Rightarrow> Inr (m\<lparr>et_Memo := x\<rparr>) | VNull \<Rightarrow> Inr m
          | _ \<Rightarrow> Inl (EMsg ''unexpected type for field memo''))
      else if column = transaction_FieldGasFee then
        (case v of VGasFee x \<Rightarrow> Inr (m\<lparr>et_GasFee := x\<rparr>) | VNull \<Rightarrow> Inr m
          | _ \<Rightarrow> Inl (EMsg ''unmarshal field gas_fee''))
      else if column = transaction_FieldMessages then
        (case v of VMessages x \<Rightarrow> Inr (m\<lparr>et_Messages := x\<rparr>) | VNull \<Rightarrow> Inr m
          | _ \<Rightarrow> Inl (EMsg ''unmarshal field messages''))
      else if column = transaction_FieldResponse then
        (case v of VResponse x \<Rightarrow> Inr (m\<lparr>et_Response := x\<rparr>) | VNull \<Rightarrow> Inr m
          | _ \<Rightarrow> Inl (EMsg ''unmarshal field response''))
      else if column = transaction_FieldCreatedAt then
        (case v of VTime x \<Rightarrow> Inr (m\<lparr>et_CreatedAt := x\<rparr>) | VNull \<Rightarrow> Inr m
          | _ \<Rightarrow> Inl (EMsg ''unexpected type for field created_at''))
      else if column = ''block_transactions'' then
        (case v of VInt n \<Rightarrow> Inr (m\<lparr>et_block_transactions := Some n\<rparr>) | VNull \<Rightarrow> Inr m
          | _ \<Rightarrow> Inl (EMsg ''unexpected type for edge-field block_transactions''))
      else Inr m)"

definition transaction_meta :: "ent_transaction ent_meta" where
  "transaction_meta = \<lparr>em_Label = transaction_Label, em_Table = transaction_Table, em_IDSpec = (transaction_FieldID, TypeInt),
     em_Columns = transaction_Columns, em_ValidColumn = transaction_ValidColumn,
     em_Assign = (\<lambda>row. assign_row Transaction_scanValues Transaction_assignValues row zero_transaction)\<rparr>"

definition TransactionQuery_First :: 
    "'s ent_client \<Rightarrow> ent_query \<Rightarrow> ('s, ent_transaction) io" where
  "TransactionQuery_First = First transaction_meta"

definition TransactionQuery_Only :: 
    "'s ent_client \<Rightarrow> ent_query \<Rightarrow> ('s, ent_transaction) io" where
  "TransactionQuery_Only = Only transaction_meta"

definition TransactionQuery_All :: 
    "'s ent_client \<Rightarrow> ent_query \<Rightarrow> ('s, ent_transaction list) io" where
  "TransactionQuery_All = All transaction_meta"

definition TransactionQuery_querySpec :: "ent_query \<Rightarrow> query_spec" where
  "TransactionQuery_querySpec = querySpec transaction_meta"

section \<open>The mutation\<close>

record transaction_mutation =
  tm_op :: ent_op
  tm_id :: "int option"
  tm_index :: "int option"
  tm_addindex :: "int option"
  tm_hash :: "string option"
  tm_success :: "bool option"
  tm_block_height :: "int option"
  tm_addblock_height :: "int option"
  tm_gas_wanted :: "float64 option"
  tm_addgas_wanted :: "float64 option"
  tm_gas_used :: "float64 option"
  tm_addgas_used :: "float64 option"
  tm_memo :: "string option"
  tm_gas_fee :: "schema_gas_fee option"
  tm_messages :: "schema_message list option"
  tm_appendmessages :: "schema_message list"
  tm_response :: "schema_response option"
  tm_created_at :: "go_time option"
  tm_clearedFields :: "string list"
  tm_block :: "int option"
  tm_clearedblock :: bool
  tm_done :: bool
  tm_predicates :: "pred list"

definition newTransactionMutation :: "ent_op \<Rightarrow> transaction_mutation" where
  "newTransactionMutation op = \<lparr>tm_op = op,
     tm_id = None,
     tm_index = None,
     tm_addindex = None,
     tm_hash = None,
     tm_success = None,
     tm_block_height = None,
     tm_addblock_height = None,
     tm_gas_wanted = None,
     tm_addgas_wanted = None,
     tm_gas_used = None,
     tm_addgas_used = None,
     tm_memo = None,
     tm_gas_fee = None,
     tm_messages = None,
     tm_appendmessages = [],
     tm_response = None,
     tm_created_at = None,
     tm_clearedFields = [],
     tm_block = None,
     tm_clearedblock = False,
     tm_done = False,
     tm_predicates = []\<rparr>"

definition TransactionMutation_ID :: "transaction_mutation \<Rightarrow> int option" where
  "TransactionMutation_ID m = tm_id m"

definition TransactionMutation_SetIndex :: 
    "int \<Rightarrow> transaction_mutation \<Rightarrow> transaction_mutation" where
  "TransactionMutation_SetIndex v m = m\<lparr>tm_index := Some v, tm_addindex := None\<rparr>"

definition TransactionMutation_Index :: "transaction_mutation \<Rightarrow> int option" where
  "TransactionMutation_Index m = tm_index m"

definition TransactionMutation_AddIndex :: 
    "int \<Rightarrow> transaction_mutation \<Rightarrow> transaction_mutation" where
  "TransactionMutation_AddIndex v m = 
     (case tm_addindex m of Some a \<Rightarrow> m\<lparr>tm_addindex := Some (wrap64 (a + v))\<rparr>
      | None \<Rightarrow> m\<lparr>tm_addindex := Some v\<rparr>)"

definition TransactionMutation_AddedIndex :: "transaction_mutation \<Rightarrow> int option" where
  "TransactionMutation_AddedIndex m = tm_addindex m"

definition TransactionMutation_ResetIndex :: 
    "transaction_mutation \<Rightarrow> transaction_mutation" where
  "TransactionMutation_ResetIndex m = m\<lparr>tm_index := None, tm_addindex := None\<rparr>"

definition TransactionMutation_SetHash :: 
    "string \<Rightarrow> transaction_mutation \<Rightarrow> transaction_mutation" where
  "TransactionMutation_SetHash v m = m\<lparr>tm_hash := Some v\<rparr>"

definition TransactionMutation_Hash :: "transaction_mutation \<Rightarrow> string option" where
  "TransactionMutation_Hash m = tm_hash m"

definition TransactionMutation_ResetHash :: 
    "transaction_mutation \<Rightarrow> transaction_mutation" where
  "TransactionMutation_ResetHash m = m\<lparr>tm_hash := None\<rparr>"

definition TransactionMutation_SetSuccess :: 
    "bool \<Rightarrow> transaction_mutation \<Rightarrow> transaction_mutation" where
  "TransactionMutation_SetSuccess v m = m\<lparr>tm_success := Some v\<rparr>"

definition TransactionMutation_Success :: "transaction_mutation \<Rightarrow> bool option" where
  "TransactionMutation_Success m = tm_success m"

definition TransactionMutation_ResetSuccess :: 
    "transaction_mutation \<Rightarrow> transaction_mutation" where
  "TransactionMutation_ResetSuccess m = m\<lparr>tm_success := None\<rparr>"

definition TransactionMutation_SetBlockHeight :: 
    "int \<Rightarrow> transaction_mutation \<Rightarrow> transaction_mutation" where
  "TransactionMutation_SetBlockHeight v m = m\<lparr>tm_block_height := Some v, tm_addblock_height := None\<rparr>"

definition TransactionMutation_BlockHeight :: "transaction_mutation \<Rightarrow> int option" where
  "TransactionMutation_BlockHeight m = tm_block_height m"

definition TransactionMutation_AddBlockHeight :: 
    "int \<Rightarrow> transaction_mutation \<Rightarrow> transaction_mutation" where
  "TransactionMutation_AddBlockHeight v m = 
     (case tm_addblock_height m of Some a \<Rightarrow> m\<lparr>tm_addblock_height := Some (wrap64 (a + v))\<rparr>
      | None \<Rightarrow> m\<lparr>tm_addblock_height := Some v\<rparr>)"

definition TransactionMutation_AddedBlockHeight :: 
    "transaction_mutation \<Rightarrow> int option" where
  "TransactionMutation_AddedBlockHeight m = tm_addblock_height m"

definition TransactionMutation_ResetBlockHeight :: 
    "transaction_mutation \<Rightarrow> transaction_mutation" where
  "TransactionMutation_ResetBlockHeight m = m\<lparr>tm_block_height := None, tm_addblock_height := None\<rparr>"

definition TransactionMutation_SetGasWanted :: 
    "float64 \<Rightarrow> transaction_mutation \<Rightarrow> transaction_mutation" where
  "TransactionMutation_SetGasWanted v m = m\<lparr>tm_gas_wanted := Some v, tm_addgas_wanted := None\<rparr>"

definition TransactionMutation_GasWanted :: 
    "transaction_mutation \<Rightarrow> float64 option" where
  "TransactionMutation_GasWanted m = tm_gas_wanted m"

definition TransactionMutation_AddGasWanted :: 
    "float64 \<Rightarrow> transaction_mutation \<Rightarrow> transaction_mutation" where
  "TransactionMutation_AddGasWanted v m = 
     (case tm_addgas_wanted m of Some a \<Rightarrow> m\<lparr>tm_addgas_wanted := Some (f64_add a v)\<rparr>
      | None \<Rightarrow> m\<lparr>tm_addgas_wanted := Some v\<rparr>)"

definition TransactionMutation_AddedGasWanted :: 
    "transaction_mutation \<Rightarrow> float64 option" where
  "TransactionMutation_AddedGasWanted m = tm_addgas_wanted m"

definition TransactionMutation_ResetGasWanted :: 
    "transaction_mutation \<Rightarrow> transaction_mutation" where
  "TransactionMutation_ResetGasWanted m = m\<lparr>tm_gas_wanted := None, tm_addgas_wanted := None\<rparr>"

definition TransactionMutation_SetGasUsed :: 
    "float64 \<Rightarrow> transaction_mutation \<Rightarrow> transaction_mutation" where
  "TransactionMutation_SetGasUsed v m = m\<lparr>tm_gas_used := Some v, tm_addgas_used := None\<rparr>"

definition TransactionMutation_GasUsed :: "transaction_mutation \<Rightarrow> float64 option" where
  "TransactionMutation_GasUsed m = tm_gas_used m"

definition TransactionMutation_AddGasUsed :: 
    "float64 \<Rightarrow> transaction_mutation \<Rightarrow> transaction_mutation" where
  "TransactionMutation_AddGasUsed v m = 
     (case tm_addgas_used m of Some a \<Rightarrow> m\<lparr>tm_addgas_used := Some (f64_add a v)\<rparr>
      | None \<Rightarrow> m\<lparr>tm_addgas_used := Some v\<rparr>)"

definition TransactionMutation_AddedGasUsed :: 
    "transaction_mutation \<Rightarrow> float64 option" where
  "TransactionMutation_AddedGasUsed m = tm_addgas_used m"

definition TransactionMutation_ResetGasUsed :: 
    "transaction_mutation \<Rightarrow> transaction_mutation" where
  "TransactionMutation_ResetGasUsed m = m\<lparr>tm_gas_used := None, tm_addgas_used := None\<rparr>"

definition TransactionMutation_SetMemo :: 
    "string \<Rightarrow> transaction_mutation \<Rightarrow> transaction_mutation" where
  "TransactionMutation_SetMemo v m = m\<lparr>tm_memo := Some v\<rparr>"

definition TransactionMutation_Memo :: "transaction_mutation \<Rightarrow> string option" where
  "TransactionMutation_Memo m = tm_memo m"

definition TransactionMutation_ClearMemo :: 
    "transaction_mutation \<Rightarrow> transaction_mutation" where
  "TransactionMutation_ClearMemo m = m\<lparr>tm_memo := None,
     tm_clearedFields := List.insert transaction_FieldMemo (tm_clearedFields m)\<rparr>"

definition TransactionMutation_MemoCleared :: "transaction_mutation \<Rightarrow> bool" where
  "TransactionMutation_MemoCleared m = List.member (tm_clearedFields m) transaction_FieldMemo"

definition TransactionMutation_ResetMemo :: 
    "transaction_mutation \<Rightarrow> transaction_mutation" where
  "TransactionMutation_ResetMemo m = m\<lparr>tm_memo := None,
     tm_clearedFields := removeAll transaction_FieldMemo (tm_clearedFields m)\<rparr>"

definition TransactionMutation_SetGasFee :: 
    "schema_gas_fee \<Rightarrow> transaction_mutation \<Rightarrow> transaction_mutation" where
  "TransactionMutation_SetGasFee v m = m\<lparr>tm_gas_fee := Some v\<rparr>"

definition TransactionMutation_GasFee :: 
    "transaction_mutation \<Rightarrow> schema_gas_fee option" where
  "TransactionMutation_GasFee m = tm_gas_fee m"

definition TransactionMutation_ClearGasFee :: 
    "transaction_mutation \<Rightarrow> transaction_mutation" where
  "TransactionMutation_ClearGasFee m = m\<lparr>tm_gas_fee := None,
     tm_clearedFields := List.insert transaction_FieldGasFee (tm_clearedFields m)\<rparr>"

definition TransactionMutation_GasFeeCleared :: "transaction_mutation \<Rightarrow> bool" where
  "TransactionMutation_GasFeeCleared m = List.member (tm_clearedFields m) transaction_FieldGasFee"

definition TransactionMutation_ResetGasFee :: 
    "transaction_mutation \<Rightarrow> transaction_mutation" where
  "TransactionMutation_ResetGasFee m = m\<lparr>tm_gas_fee := None,
     tm_clearedFields := removeAll transaction_FieldGasFee (tm_clearedFields m)\<rparr>"

definition TransactionMutation_SetMessages :: 
    "schema_message list \<Rightarrow> transaction_mutation \<Rightarrow> transaction_mutation" where
  "TransactionMutation_SetMessages v m = m\<lparr>tm_messages := Some v, tm_appendmessages := []\<rparr>"

definition TransactionMutation_Messages :: 
    "transaction_mutation \<Rightarrow> (schema_message list) option" where
  "TransactionMutation_Messages m = tm_messages m"

definition TransactionMutation_AppendMessages :: 
    "schema_message list \<Rightarrow> transaction_mutation \<Rightarrow> transaction_mutation" where
  "TransactionMutation_AppendMessages v m = m\<lparr>tm_appendmessages := tm_appendmessages m @ v\<rparr>"

definition TransactionMutation_AppendedMessages :: 
    "transaction_mutation \<Rightarrow> (schema_message list) option" where
  "TransactionMutation_AppendedMessages m = 
     (if tm_appendmessages m = [] then None else Some (tm_appendmessages m))"

definition TransactionMutation_ClearMessages :: 
    "transaction_mutation \<Rightarrow> transaction_mutation" where
  "TransactionMutation_ClearMessages m = m\<lparr>tm_messages := None, tm_appendmessages := [],
     tm_clearedFields := List.insert transaction_FieldMessages (tm_clearedFields m)\<rparr>"

definition TransactionMutation_MessagesCleared :: "transaction_mutation \<Rightarrow> bool" where
  "TransactionMutation_MessagesCleared m = List.member (tm_clearedFields m) transaction_FieldMessages"

definition TransactionMutation_ResetMessages :: 
    "transaction_mutation \<Rightarrow> transaction_mutation" where
  "TransactionMutation_ResetMessages m = m\<lparr>tm_messages := None, tm_appendmessages := [],
     tm_clearedFields := removeAll transaction_FieldMessages (tm_clearedFields m)\<rparr>"

definition TransactionMutation_SetResponse :: 
    "schema_response \<Rightarrow> transaction_mutation \<Rightarrow> transaction_mutation" where
  "TransactionMutation_SetResponse v m = m\<lparr>tm_response := Some v\<rparr>"

definition TransactionMutation_Response :: 
    "transaction_mutation \<Rightarrow> schema_response option" where
  "TransactionMutation_Response m = tm_response m"

definition TransactionMutation_ClearResponse :: 
    "transaction_mutation \<Rightarrow> transaction_mutation" where
  "TransactionMutation_ClearResponse m = m\<lparr>tm_response := None,
     tm_clearedFields := List.insert transaction_FieldResponse (tm_clearedFields m)\<rparr>"

definition TransactionMutation_ResponseCleared :: "transaction_mutation \<Rightarrow> bool" where
  "TransactionMutation_ResponseCleared m = List.member (tm_clearedFields m) transaction_FieldResponse"

definition TransactionMutation_ResetResponse :: 
    "transaction_mutation \<Rightarrow> transaction_mutation" where
  "TransactionMutation_ResetResponse m = m\<lparr>tm_response := None,
     tm_clearedFields := removeAll transaction_FieldResponse (tm_clearedFields m)\<rparr>"

definition TransactionMutation_SetCreatedAt :: 
    "go_time \<Rightarrow> transaction_mutation \<Rightarrow> transaction_mutation" where
  "TransactionMutation_SetCreatedAt v m = m\<lparr>tm_created_at := Some v\<rparr>"

definition TransactionMutation_CreatedAt :: 
    "transaction_mutation \<Rightarrow> go_time option" where
  "TransactionMutation_CreatedAt m = tm_created_at m"

definition TransactionMutation_ResetCreatedAt :: 
    "transaction_mutation \<Rightarrow> transaction_mutation" where
  "TransactionMutation_ResetCreatedAt m = m\<lparr>tm_created_at := None\<rparr>"

definition TransactionMutation_SetBlockID :: 
    "int \<Rightarrow> transaction_mutation \<Rightarrow> transaction_mutation" where
  "TransactionMutation_SetBlockID v m = m\<lparr>tm_block := Some v\<rparr>"

definition TransactionMutation_ClearBlock :: 
    "transaction_mutation \<Rightarrow> transaction_mutation" where
  "TransactionMutation_ClearBlock m = m\<lparr>tm_clearedblock := True\<rparr>"

definition TransactionMutation_BlockCleared :: "transaction_mutation \<Rightarrow> bool" where
  "TransactionMutation_BlockCleared m = tm_clearedblock m"

definition TransactionMutation_BlockID :: "transaction_mutation \<Rightarrow> int option" where
  "TransactionMutation_BlockID m = tm_block m"

definition TransactionMutation_BlockIDs :: "transaction_mutation \<Rightarrow> int list" where
  "TransactionMutation_BlockIDs m = (case tm_block m of Some i \<Rightarrow> [i] | None \<Rightarrow> [])"

definition TransactionMutation_ResetBlock :: 
    "transaction_mutation \<Rightarrow> transaction_mutation" where
  "TransactionMutation_ResetBlock m = m\<lparr>tm_block := None, tm_clearedblock := False\<rparr>"

definition TransactionMutation_Where :: 
    "pred list \<Rightarrow> transaction_mutation \<Rightarrow> transaction_mutation" where
  "TransactionMutation_Where ps m = m\<lparr>tm_predicates := tm_predicates m @ ps\<rparr>"

lemmas transaction_mutation_defs = TransactionMutation_ID_def
  TransactionMutation_SetIndex_def
  TransactionMutation_Index_def
  TransactionMutation_AddIndex_def
  TransactionMutation_AddedIndex_def
  TransactionMutation_ResetIndex_def
  TransactionMutation_SetHash_def
  TransactionMutation_Hash_def
  TransactionMutation_ResetHash_def
  TransactionMutation_SetSuccess_def
  TransactionMutation_Success_def
  TransactionMutation_ResetSuccess_def
  TransactionMutation_SetBlockHeight_def
  TransactionMutation_BlockHeight_def
  TransactionMutation_AddBlockHeight_def
  TransactionMutation_AddedBlockHeight_def
  TransactionMutation_ResetBlockHeight_def
  TransactionMutation_SetGasWanted_def
  TransactionMutation_GasWanted_def
  TransactionMutation_AddGasWanted_def
  TransactionMutation_AddedGasWanted_def
  TransactionMutation_ResetGasWanted_def
  TransactionMutation_SetGasUsed_def
  TransactionMutation_GasUsed_def
  TransactionMutation_AddGasUsed_def
  TransactionMutation_AddedGasUsed_def
  TransactionMutation_ResetGasUsed_def
  TransactionMutation_SetMemo_def
  TransactionMutation_Memo_def
  TransactionMutation_ClearMemo_def
  TransactionMutation_MemoCleared_def
  TransactionMutation_ResetMemo_def
  TransactionMutation_SetGasFee_def
  TransactionMutation_GasFee_def
  TransactionMutation_ClearGasFee_def
  TransactionMutation_GasFeeCleared_def
  TransactionMutation_ResetGasFee_def
  TransactionMutation_SetMessages_def
  TransactionMutation_Messages_def
  TransactionMutation_AppendMessages_def
  TransactionMutation_AppendedMessages_def
  TransactionMutation_ClearMessages_def
  TransactionMutation_MessagesCleared_def
  TransactionMutation_ResetMessages_def
  TransactionMutation_SetResponse_def
  TransactionMutation_Response_def
  TransactionMutation_ClearResponse_def
  TransactionMutation_ResponseCleared_def
  TransactionMutation_ResetResponse_def
  TransactionMutation_SetCreatedAt_def
  TransactionMutation_CreatedAt_def
  TransactionMutation_ResetCreatedAt_def
  TransactionMutation_SetBlockID_def
  TransactionMutation_ClearBlock_def
  TransactionMutation_BlockCleared_def
  TransactionMutation_BlockID_def
  TransactionMutation_BlockIDs_def
  TransactionMutation_ResetBlock_def
  TransactionMutation_Where_def

subsection \<open>Access by field name\<close>

definition TransactionMutation_Fields :: "transaction_mutation \<Rightarrow> string list" where
  "TransactionMutation_Fields m = 
     (if tm_index m \<noteq> None then [transaction_FieldIndex] else []) @
     (if tm_hash m \<noteq> None then [transaction_FieldHash] else []) @
     (if tm_success m \<noteq> None then [transaction_FieldSuccess] else []) @
     (if tm_block_height m \<noteq> None then [transaction_FieldBlockHeight] else []) @
     (if tm_gas_wanted m \<noteq> None then [transaction_FieldGasWanted] else []) @
     (if tm_gas_used m \<noteq> None then [transaction_FieldGasUsed] else []) @
     (if tm_memo m \<noteq> None then [transaction_FieldMemo] else []) @
     (if tm_gas_fee m \<noteq> None then [transaction_FieldGasFee] else []) @
     (if tm_messages m \<noteq> None then [transaction_FieldMessages] else []) @
     (if tm_response m \<noteq> None then [transaction_FieldResponse] else []) @
     (if tm_created_at m \<noteq> None then [transaction_FieldCreatedAt] else [])"

definition TransactionMutation_Field :: 
    "string \<Rightarrow> transaction_mutation \<Rightarrow> ent_value option" where
  "TransactionMutation_Field name m =
     (if name = transaction_FieldIndex then map_option VInt (TransactionMutation_Index m)
      else if name = transaction_FieldHash then map_option VString (TransactionMutation_Hash m)
      else if name = transaction_FieldSuccess then map_option VBool (TransactionMutation_Success m)
      else if name = transaction_FieldBlockHeight then map_option VInt (TransactionMutation_BlockHeight m)
      else if name = transaction_FieldGasWanted then map_option VFloat (TransactionMutation_GasWanted m)
      else if name = transaction_FieldGasUsed then map_option VFloat (TransactionMutation_GasUsed m)
      else if name = transaction_FieldMemo then map_option VString (TransactionMutation_Memo m)
      else if name = transaction_FieldGasFee then map_option VGasFee (TransactionMutation_GasFee m)
      else if name = transaction_FieldMessages then map_option VMessages (TransactionMutation_Messages m)
      else if name = transaction_FieldResponse then map_option VResponse (TransactionMutation_Response m)
      else if name = transaction_FieldCreatedAt then map_option VTime (TransactionMutation_CreatedAt m)
      else None)"

definition TransactionMutation_SetField :: 
    "string \<Rightarrow> ent_value \<Rightarrow> transaction_mutation \<Rightarrow> err + transaction_mutation" where
  "TransactionMutation_SetField name value m =
     (if name = transaction_FieldIndex then (case value of VInt v \<Rightarrow> Inr (TransactionMutation_SetIndex v m) |
          _ \<Rightarrow> Inl (EMsg ''unexpected type for field''))
      else if name = transaction_FieldHash then (case value of VString v \<Rightarrow> Inr (TransactionMutation_SetHash v m) |
          _ \<Rightarrow> Inl (EMsg ''unexpected type for field''))
      else if name = transaction_FieldSuccess then (case value of VBool v \<Rightarrow> Inr (TransactionMutation_SetSuccess v m) |
          _ \<Rightarrow> Inl (EMsg ''unexpected type for field''))
      else if name = transaction_FieldBlockHeight then (case value of VInt v \<Rightarrow> Inr (TransactionMutation_SetBlockHeight v m) |
          _ \<Rightarrow> Inl (EMsg ''unexpected type for field''))
      else if name = transaction_FieldGasWanted then (case value of VFloat v \<Rightarrow> Inr (TransactionMutation_SetGasWanted v m) |
          _ \<Rightarrow> Inl (EMsg ''unexpected type for field''))
      else if name = transaction_FieldGasUsed then (case value of VFloat v \<Rightarrow> Inr (TransactionMutation_SetGasUsed v m) |
          _ \<Rightarrow> Inl (EMsg ''unexpected type for field''))
      else if name = transaction_FieldMemo then (case value of VString v \<Rightarrow> Inr (TransactionMutation_SetMemo v m) |
          _ \<Rightarrow> Inl (EMsg ''unexpected type for field''))
      else if name = transaction_FieldGasFee then (case value of VGasFee v \<Rightarrow> Inr (TransactionMutation_SetGasFee v m) |
          _ \<Rightarrow> Inl (EMsg ''unexpected type for field''))
      else if name = transaction_FieldMessages then (case value of VMessages v \<Rightarrow> Inr (TransactionMutation_SetMessages v m) |
          _ \<Rightarrow> Inl (EMsg ''unexpected type for field''))
      else if name = transaction_FieldResponse then (case value of VResponse v \<Rightarrow> Inr (TransactionMutation_SetResponse v m) |
          _ \<Rightarrow> Inl (EMsg ''unexpected type for field''))
      else if name = transaction_FieldCreatedAt then (case value of VTime v \<Rightarrow> Inr (TransactionMutation_SetCreatedAt v m) |
          _ \<Rightarrow> Inl (EMsg ''unexpected type for field''))
      else Inl (EMsg ''unknown Transaction field''))"

definition TransactionMutation_AddedFields :: "transaction_mutation \<Rightarrow> string list" where
  "TransactionMutation_AddedFields m = 
     (if tm_addindex m \<noteq> None then [transaction_FieldIndex] else []) @
     (if tm_addblock_height m \<noteq> None then [transaction_FieldBlockHeight] else []) @
     (if tm_addgas_wanted m \<noteq> None then [transaction_FieldGasWanted] else []) @
     (if tm_addgas_used m \<noteq> None then [transaction_FieldGasUsed] else [])"

definition TransactionMutation_AddedField :: 
    "string \<Rightarrow> transaction_mutation \<Rightarrow> ent_value option" where
  "TransactionMutation_AddedField name m =
     (if name = transaction_FieldIndex then map_option VInt (TransactionMutation_AddedIndex m)
      else if name = transaction_FieldBlockHeight then map_option VInt (TransactionMutation_AddedBlockHeight m)
      else if name = transaction_FieldGasWanted then map_option VFloat (TransactionMutation_AddedGasWanted m)
      else if name = transaction_FieldGasUsed then map_option VFloat (TransactionMutation_AddedGasUsed m)
      else None)"

definition TransactionMutation_AddField :: 
    "string \<Rightarrow> ent_value \<Rightarrow> transaction_mutation \<Rightarrow> err + transaction_mutation" where
  "TransactionMutation_AddField name value m =
     (if name = transaction_FieldIndex then (case value of VInt v \<Rightarrow> Inr (TransactionMutation_AddIndex v m) |
          _ \<Rightarrow> Inl (EMsg ''unexpected type for field''))
      else if name = transaction_FieldBlockHeight then (case value of VInt v \<Rightarrow> Inr (TransactionMutation_AddBlockHeight v m) |
          _ \<Rightarrow> Inl (EMsg ''unexpected type for field''))
      else if name = transaction_FieldGasWanted then (case value of VFloat v \<Rightarrow> Inr (TransactionMutation_AddGasWanted v m) |
          _ \<Rightarrow> Inl (EMsg ''unexpected type for field''))
      else if name = transaction_FieldGasUsed then (case value of VFloat v \<Rightarrow> Inr (TransactionMutation_AddGasUsed v m) |
          _ \<Rightarrow> Inl (EMsg ''unexpected type for field''))
      else Inl (EMsg ''unknown Transaction numeric field''))"

definition TransactionMutation_FieldCleared :: 
    "string \<Rightarrow> transaction_mutation \<Rightarrow> bool" where
  "TransactionMutation_FieldCleared name m \<longleftrightarrow> List.member (tm_clearedFields m) name"

definition TransactionMutation_ClearedFields :: 
    "transaction_mutation \<Rightarrow> string list" where
  "TransactionMutation_ClearedFields m = 
     (if TransactionMutation_FieldCleared transaction_FieldMemo m then [transaction_FieldMemo] else []) @
     (if TransactionMutation_FieldCleared transaction_FieldGasFee m then [transaction_FieldGasFee] else []) @
     (if TransactionMutation_FieldCleared transaction_FieldMessages m then [transaction_FieldMessages] else []) @
     (if TransactionMutation_FieldCleared transaction_FieldResponse m then [transaction_FieldResponse] else [])"

definition TransactionMutation_ClearField :: 
    "string \<Rightarrow> transaction_mutation \<Rightarrow> err + transaction_mutation" where
  "TransactionMutation_ClearField name m =
     (if name = transaction_FieldMemo then Inr (TransactionMutation_ClearMemo m)
      else if name = transaction_FieldGasFee then Inr (TransactionMutation_ClearGasFee m)
      else if name = transaction_FieldMessages then Inr (TransactionMutation_ClearMessages m)
      else if name = transaction_FieldResponse then Inr (TransactionMutation_ClearResponse m)
      else Inl (EMsg ''unknown Transaction nullable field''))"

definition TransactionMutation_ResetField :: 
    "string \<Rightarrow> transaction_mutation \<Rightarrow> err + transaction_mutation" where
  "TransactionMutation_ResetField name m =
     (if name = transaction_FieldIndex then Inr (TransactionMutation_ResetIndex m)
      else if name = transaction_FieldHash then Inr (TransactionMutation_ResetHash m)
      else if name = transaction_FieldSuccess then Inr (TransactionMutation_ResetSuccess m)
      else if name = transaction_FieldBlockHeight then Inr (TransactionMutation_ResetBlockHeight m)
      else if name = transaction_FieldGasWanted then Inr (TransactionMutation_ResetGasWanted m)
      else if name = transaction_FieldGasUsed then Inr (TransactionMutation_ResetGasUsed m)
      else if name = transaction_FieldMemo then Inr (TransactionMutation_ResetMemo m)
      else if name = transaction_FieldGasFee then Inr (TransactionMutation_ResetGasFee m)
      else if name = transaction_FieldMessages then Inr (TransactionMutation_ResetMessages m)
      else if name = transaction_FieldResponse then Inr (TransactionMutation_ResetResponse m)
      else if name = transaction_FieldCreatedAt then Inr (TransactionMutation_ResetCreatedAt m)
      else Inl (EMsg ''unknown Transaction field''))"

lemmas transaction_reflect_defs = TransactionMutation_Fields_def
  TransactionMutation_Field_def
  TransactionMutation_SetField_def
  TransactionMutation_AddedFields_def
  TransactionMutation_AddedField_def
  TransactionMutation_AddField_def
  TransactionMutation_FieldCleared_def
  TransactionMutation_ClearedFields_def
  TransactionMutation_ClearField_def
  TransactionMutation_ResetField_def

lemma transaction_field_neq [simp]:
  "transaction_FieldIndex \<noteq> transaction_FieldHash"
  "transaction_FieldIndex \<noteq> transaction_FieldSuccess"
  "transaction_FieldIndex \<noteq> transaction_FieldBlockHeight"
  "transaction_FieldIndex \<noteq> transaction_FieldGasWanted"
  "transaction_FieldIndex \<noteq> transaction_FieldGasUsed"
  "transaction_FieldIndex \<noteq> transaction_FieldMemo"
  "transaction_FieldIndex \<noteq> transaction_FieldGasFee"
  "transaction_FieldIndex \<noteq> transaction_FieldMessages"
  "transaction_FieldIndex \<noteq> transaction_FieldResponse"
  "transaction_FieldIndex \<noteq> transaction_FieldCreatedAt"
  "transaction_FieldHash \<noteq> transaction_FieldIndex"
  "transaction_FieldHash \<noteq> transaction_FieldSuccess"
  "transaction_FieldHash \<noteq> transaction_FieldBlockHeight"
  "transaction_FieldHash \<noteq> transaction_FieldGasWanted"
  "transaction_FieldHash \<noteq> transaction_FieldGasUsed"
  "transaction_FieldHash \<noteq> transaction_FieldMemo"
  "transaction_FieldHash \<noteq> transaction_FieldGasFee"
  "transaction_FieldHash \<noteq> transaction_FieldMessages"
  "transaction_FieldHash \<noteq> transaction_FieldResponse"
  "transaction_FieldHash \<noteq> transaction_FieldCreatedAt"
  "transaction_FieldSuccess \<noteq> transaction_FieldIndex"
  "transaction_FieldSuccess \<noteq> transaction_FieldHash"
  "transaction_FieldSuccess \<noteq> transaction_FieldBlockHeight"
  "transaction_FieldSuccess \<noteq> transaction_FieldGasWanted"
  "transaction_FieldSuccess \<noteq> transaction_FieldGasUsed"
  "transaction_FieldSuccess \<noteq> transaction_FieldMemo"
  "transaction_FieldSuccess \<noteq> transaction_FieldGasFee"
  "transaction_FieldSuccess \<noteq> transaction_FieldMessages"
  "transaction_FieldSuccess \<noteq> transaction_FieldResponse"
  "transaction_FieldSuccess \<noteq> transaction_FieldCreatedAt"
  "transaction_FieldBlockHeight \<noteq> transaction_FieldIndex"
  "transaction_FieldBlockHeight \<noteq> transaction_FieldHash"
  "transaction_FieldBlockHeight \<noteq> transaction_FieldSuccess"
  "transaction_FieldBlockHeight \<noteq> transaction_FieldGasWanted"
  "transaction_FieldBlockHeight \<noteq> transaction_FieldGasUsed"
  "transaction_FieldBlockHeight \<noteq> transaction_FieldMemo"
  "transaction_FieldBlockHeight \<noteq> transaction_FieldGasFee"
  "transaction_FieldBlockHeight \<noteq> transaction_FieldMessages"
  "transaction_FieldBlockHeight \<noteq> transaction_FieldResponse"
  "transaction_FieldBlockHeight \<noteq> transaction_FieldCreatedAt"
  "transaction_FieldGasWanted \<noteq> transaction_FieldIndex"
  "transaction_FieldGasWanted \<noteq> transaction_FieldHash"
  "transaction_FieldGasWanted \<noteq> transaction_FieldSuccess"
  "transaction_FieldGasWanted \<noteq> transaction_FieldBlockHeight"
  "transaction_FieldGasWanted \<noteq> transaction_FieldGasUsed"
  "transaction_FieldGasWanted \<noteq> transaction_FieldMemo"
  "transaction_FieldGasWanted \<noteq> transaction_FieldGasFee"
  "transaction_FieldGasWanted \<noteq> transaction_FieldMessages"
  "transaction_FieldGasWanted \<noteq> transaction_FieldResponse"
  "transaction_FieldGasWanted \<noteq> transaction_FieldCreatedAt"
  "transaction_FieldGasUsed \<noteq> transaction_FieldIndex"
  "transaction_FieldGasUsed \<noteq> transaction_FieldHash"
  "transaction_FieldGasUsed \<noteq> transaction_FieldSuccess"
  "transaction_FieldGasUsed \<noteq> transaction_FieldBlockHeight"
  "transaction_FieldGasUsed \<noteq> transaction_FieldGasWanted"
  "transaction_FieldGasUsed \<noteq> transaction_FieldMemo"
  "transaction_FieldGasUsed \<noteq> transaction_FieldGasFee"
  "transaction_FieldGasUsed \<noteq> transaction_FieldMessages"
  "transaction_FieldGasUsed \<noteq> transaction_FieldResponse"
  "transaction_FieldGasUsed \<noteq> transaction_FieldCreatedAt"
  "transaction_FieldMemo \<noteq> transaction_FieldIndex"
  "transaction_FieldMemo \<noteq> transaction_FieldHash"
  "transaction_FieldMemo \<noteq> transaction_FieldSuccess"
  "transaction_FieldMemo \<noteq> transaction_FieldBlockHeight"
  "transaction_FieldMemo \<noteq> transaction_FieldGasWanted"
  "transaction_FieldMemo \<noteq> transaction_FieldGasUsed"
  "transaction_FieldMemo \<noteq> transaction_FieldGasFee"
  "transaction_FieldMemo \<noteq> transaction_FieldMessages"
  "transaction_FieldMemo \<noteq> transaction_FieldResponse"
  "transaction_FieldMemo \<noteq> transaction_FieldCreatedAt"
  "transaction_FieldGasFee \<noteq> transaction_FieldIndex"
  "transaction_FieldGasFee \<noteq> transaction_FieldHash"
  "transaction_FieldGasFee \<noteq> transaction_FieldSuccess"
  "transaction_FieldGasFee \<noteq> transaction_FieldBlockHeight"
  "transaction_FieldGasFee \<noteq> transaction_FieldGasWanted"
  "transaction_FieldGasFee \<noteq> transaction_FieldGasUsed"
  "transaction_FieldGasFee \<noteq> transaction_FieldMemo"
  "transaction_FieldGasFee \<noteq> transaction_FieldMessages"
  "transaction_FieldGasFee \<noteq> transaction_FieldResponse"
  "transaction_FieldGasFee \<noteq> transaction_FieldCreatedAt"
  "transaction_FieldMessages \<noteq> transaction_FieldIndex"
  "transaction_FieldMessages \<noteq> transaction_FieldHash"
  "transaction_FieldMessages \<noteq> transaction_FieldSuccess"
  "transaction_FieldMessages \<noteq> transaction_FieldBlockHeight"
  "transaction_FieldMessages \<noteq> transaction_FieldGasWanted"
  "transaction_FieldMessages \<noteq> transaction_FieldGasUsed"
  "transaction_FieldMessages \<noteq> transaction_FieldMemo"
  "transaction_FieldMessages \<noteq> transaction_FieldGasFee"
  "transaction_FieldMessages \<noteq> transaction_FieldResponse"
  "transaction_FieldMessages \<noteq> transaction_FieldCreatedAt"
  "transaction_FieldResponse \<noteq> transaction_FieldIndex"
  "transaction_FieldResponse \<noteq> transaction_FieldHash"
  "transaction_FieldResponse \<noteq> transaction_FieldSuccess"
  "transaction_FieldResponse \<noteq> transaction_FieldBlockHeight"
  "transaction_FieldResponse \<noteq> transaction_FieldGasWanted"
  "transaction_FieldResponse \<noteq> transaction_FieldGasUsed"
  "transaction_FieldResponse \<noteq> transaction_FieldMemo"
  "transaction_FieldResponse \<noteq> transaction_FieldGasFee"
  "transaction_FieldResponse \<noteq> transaction_FieldMessages"
  "transaction_FieldResponse \<noteq> transaction_FieldCreatedAt"
  "transaction_FieldCreatedAt \<noteq> transaction_FieldIndex"
  "transaction_FieldCreatedAt \<noteq> transaction_FieldHash"
  "transaction_FieldCreatedAt \<noteq> transaction_FieldSuccess"
  "transaction_FieldCreatedAt \<noteq> transaction_FieldBlockHeight"
  "transaction_FieldCreatedAt \<noteq> transaction_FieldGasWanted"
  "transaction_FieldCreatedAt \<noteq> transaction_FieldGasUsed"
  "transaction_FieldCreatedAt \<noteq> transaction_FieldMemo"
  "transaction_FieldCreatedAt \<noteq> transaction_FieldGasFee"
  "transaction_FieldCreatedAt \<noteq> transaction_FieldMessages"
  "transaction_FieldCreatedAt \<noteq> transaction_FieldResponse"
  by (simp_all add: transaction_names)

lemma transaction_SetField_Field:
  "TransactionMutation_SetField name v m = Inr m' \<Longrightarrow> TransactionMutation_Field name m' = Some v"
  by (auto simp: TransactionMutation_SetField_def TransactionMutation_Field_def transaction_mutation_defs
      split: if_split_asm ent_value.split_asm)

lemma transaction_SetField_other:
  "TransactionMutation_SetField name v m = Inr m' \<Longrightarrow> other \<noteq> name \<Longrightarrow>
    TransactionMutation_Field other m' = TransactionMutation_Field other m"
  by (auto simp: TransactionMutation_SetField_def TransactionMutation_Field_def transaction_mutation_defs
      split: if_split_asm ent_value.split_asm split del: if_split cong: if_cong)

lemma transaction_ResetField_Field:
  "TransactionMutation_ResetField name m = Inr m' \<Longrightarrow>
    TransactionMutation_Field name m' = None \<and> TransactionMutation_AddedField name m' = None"
  by (auto simp: TransactionMutation_ResetField_def TransactionMutation_Field_def TransactionMutation_AddedField_def transaction_mutation_defs
      split: if_split_asm)

lemma transaction_Fields_iff: "name \<in> set (TransactionMutation_Fields m) \<longleftrightarrow> TransactionMutation_Field name m \<noteq> None"
  by (auto simp: TransactionMutation_Fields_def TransactionMutation_Field_def transaction_mutation_defs split: if_split_asm)

section \<open>The create builder\<close>

record transaction_create =
  tcb_mutation :: transaction_mutation
  tcb_conflict :: "conflict_opt list"

definition TransactionClient_Create :: transaction_create where
  "TransactionClient_Create = \<lparr>tcb_mutation = newTransactionMutation OpCreate, tcb_conflict = []\<rparr>"

definition TransactionCreate_SetIndex :: 
    "int \<Rightarrow> transaction_create \<Rightarrow> transaction_create" where
  "TransactionCreate_SetIndex v c =
     c\<lparr>tcb_mutation := TransactionMutation_SetIndex v (tcb_mutation c)\<rparr>"

definition TransactionCreate_SetHash :: 
    "string \<Rightarrow> transaction_create \<Rightarrow> transaction_create" where
  "TransactionCreate_SetHash v c =
     c\<lparr>tcb_mutation := TransactionMutation_SetHash v (tcb_mutation c)\<rparr>"

definition TransactionCreate_SetSuccess :: 
    "bool \<Rightarrow> transaction_create \<Rightarrow> transaction_create" where
  "TransactionCreate_SetSuccess v c =
     c\<lparr>tcb_mutation := TransactionMutation_SetSuccess v (tcb_mutation c)\<rparr>"

definition TransactionCreate_SetBlockHeight :: 
    "int \<Rightarrow> transaction_create \<Rightarrow> transaction_create" where
  "TransactionCreate_SetBlockHeight v c =
     c\<lparr>tcb_mutation := TransactionMutation_SetBlockHeight v (tcb_mutation c)\<rparr>"

definition TransactionCreate_SetGasWanted :: 
    "float64 \<Rightarrow> transaction_create \<Rightarrow> transaction_create" where
  "TransactionCreate_SetGasWanted v c =
     c\<lparr>tcb_mutation := TransactionMutation_SetGasWanted v (tcb_mutation c)\<rparr>"

definition TransactionCreate_SetGasUsed :: 
    "float64 \<Rightarrow> transaction_create \<Rightarrow> transaction_create" where
  "TransactionCreate_SetGasUsed v c =
     c\<lparr>tcb_mutation := TransactionMutation_SetGasUsed v (tcb_mutation c)\<rparr>"

definition TransactionCreate_SetMemo :: 
    "string \<Rightarrow> transaction_create \<Rightarrow> transaction_create" where
  "TransactionCreate_SetMemo v c =
     c\<lparr>tcb_mutation := TransactionMutation_SetMemo v (tcb_mutation c)\<rparr>"

definition TransactionCreate_SetGasFee :: 
    "schema_gas_fee \<Rightarrow> transaction_create \<Rightarrow> transaction_create" where
  "TransactionCreate_SetGasFee v c =
     c\<lparr>tcb_mutation := TransactionMutation_SetGasFee v (tcb_mutation c)\<rparr>"

definition TransactionCreate_SetMessages :: 
    "schema_message list \<Rightarrow> transaction_create \<Rightarrow> transaction_create" where
  "TransactionCreate_SetMessages v c =
     c\<lparr>tcb_mutation := TransactionMutation_SetMessages v (tcb_mutation c)\<rparr>"

definition TransactionCreate_SetResponse :: 
    "schema_response \<Rightarrow> transaction_create \<Rightarrow> transaction_create" where
  "TransactionCreate_SetResponse v c =
     c\<lparr>tcb_mutation := TransactionMutation_SetResponse v (tcb_mutation c)\<rparr>"

definition TransactionCreate_SetCreatedAt :: 
    "go_time \<Rightarrow> transaction_create \<Rightarrow> transaction_create" where
  "TransactionCreate_SetCreatedAt v c =
     c\<lparr>tcb_mutation := TransactionMutation_SetCreatedAt v (tcb_mutation c)\<rparr>"

definition TransactionCreate_SetBlockID :: 
    "int \<Rightarrow> transaction_create \<Rightarrow> transaction_create" where
  "TransactionCreate_SetBlockID v c =
     c\<lparr>tcb_mutation := TransactionMutation_SetBlockID v (tcb_mutation c)\<rparr>"

definition TransactionCreate_defaults :: 
    "'s ent_client \<Rightarrow> go_time \<Rightarrow> transaction_create \<Rightarrow> transaction_create" where
  "TransactionCreate_defaults cl now c =
     (let c1 = (case TransactionMutation_Success (tcb_mutation c) of Some _ \<Rightarrow> c
        | None \<Rightarrow> TransactionCreate_SetSuccess False c);
      c2 = (case TransactionMutation_CreatedAt (tcb_mutation c1) of Some _ \<Rightarrow> c1
        | None \<Rightarrow> TransactionCreate_SetCreatedAt (InitTime cl) c1) in c2)"

definition TransactionCreate_check :: 
    "'s ent_client \<Rightarrow> transaction_create \<Rightarrow> err option" where
  "TransactionCreate_check cl c = first_err [
     require_field ''index'' (TransactionMutation_Index (tcb_mutation c)),
     require_field ''hash'' (TransactionMutation_Hash (tcb_mutation c)),
     validate_field ''hash'' (NotEmpty cl) (TransactionMutation_Hash (tcb_mutation c)),
     require_field ''success'' (TransactionMutation_Success (tcb_mutation c)),
     require_field ''block_height'' (TransactionMutation_BlockHeight (tcb_mutation c)),
     require_field ''gas_wanted'' (TransactionMutation_GasWanted (tcb_mutation c)),
     require_field ''gas_used'' (TransactionMutation_GasUsed (tcb_mutation c)),
     require_field ''created_at'' (TransactionMutation_CreatedAt (tcb_mutation c))]"

definition TransactionCreate_createSpec :: 
    "transaction_create \<Rightarrow> ent_transaction \<times> create_spec" where
  "TransactionCreate_createSpec c =
     (let m = tcb_mutation c;
      node = zero_transaction\<lparr>et_Index := (case TransactionMutation_Index m of Some v \<Rightarrow> v | None \<Rightarrow> et_Index zero_transaction),
        et_Hash := (case TransactionMutation_Hash m of Some v \<Rightarrow> v | None \<Rightarrow> et_Hash zero_transaction),
        et_Success := (case TransactionMutation_Success m of Some v \<Rightarrow> v | None \<Rightarrow> et_Success zero_transaction),
        et_BlockHeight := (case TransactionMutation_BlockHeight m of Some v \<Rightarrow> v | None \<Rightarrow> et_BlockHeight zero_transaction),
        et_GasWanted := (case TransactionMutation_GasWanted m of Some v \<Rightarrow> v | None \<Rightarrow> et_GasWanted zero_transaction),
        et_GasUsed := (case TransactionMutation_GasUsed m of Some v \<Rightarrow> v | None \<Rightarrow> et_GasUsed zero_transaction),
        et_Memo := (case TransactionMutation_Memo m of Some v \<Rightarrow> v | None \<Rightarrow> et_Memo zero_transaction),
        et_GasFee := (case TransactionMutation_GasFee m of Some v \<Rightarrow> v | None \<Rightarrow> et_GasFee zero_transaction),
        et_Messages := (case TransactionMutation_Messages m of Some v \<Rightarrow> v | None \<Rightarrow> et_Messages zero_transaction),
        et_Response := (case TransactionMutation_Response m of Some v \<Rightarrow> v | None \<Rightarrow> et_Response zero_transaction),
        et_CreatedAt := (case TransactionMutation_CreatedAt m of Some v \<Rightarrow> v | None \<Rightarrow> et_CreatedAt zero_transaction),
        et_block_transactions := TransactionMutation_BlockID m\<rparr>;
      spec0 = (NewCreateSpec transaction_Table (transaction_FieldID, TypeInt))\<lparr>cs_OnConflict := tcb_conflict c\<rparr>;
      spec1 = SetField transaction_FieldIndex TypeInt VInt (TransactionMutation_Index m) spec0;
      spec2 = SetField transaction_FieldHash TypeString VString (TransactionMutation_Hash m) spec1;
      spec3 = SetField transaction_FieldSuccess TypeBool VBool (TransactionMutation_Success m) spec2;
      spec4 = SetField transaction_FieldBlockHeight TypeInt VInt (TransactionMutation_BlockHeight m) spec3;
      spec5 = SetField transaction_FieldGasWanted TypeFloat64 VFloat (TransactionMutation_GasWanted m) spec4;
      spec6 = SetField transaction_FieldGasUsed TypeFloat64 VFloat (TransactionMutation_GasUsed m) spec5;
      spec7 = SetField transaction_FieldMemo TypeString VString (TransactionMutation_Memo m) spec6;
      spec8 = SetField transaction_FieldGasFee TypeJSON VGasFee (TransactionMutation_GasFee m) spec7;
      spec9 = SetField transaction_FieldMessages TypeJSON VMessages (TransactionMutation_Messages m) spec8;
      spec10 = SetField transaction_FieldResponse TypeJSON VResponse (TransactionMutation_Response m) spec9;
      spec11 = SetField transaction_FieldCreatedAt TypeTime VTime (TransactionMutation_CreatedAt m) spec10;
      edge = \<lparr>es_Rel = M2O, es_Inverse = True, es_Table = ''transactions'',
        es_Columns = [''block_transactions''], es_Bidi = False, es_IDSpec = (''height'', TypeInt),
        es_Nodes = TransactionMutation_BlockIDs m\<rparr>;
      specE = (if TransactionMutation_BlockIDs m = [] then spec11 else spec11\<lparr>cs_Edges := cs_Edges spec11 @ [edge]\<rparr>)
      in (node, specE))"

definition TransactionCreate_sqlSave :: 
    "'s ent_client \<Rightarrow> transaction_create \<Rightarrow> ('s, ent_transaction) io" where
  "TransactionCreate_sqlSave cl c s =
     (case TransactionCreate_check cl c of Some e \<Rightarrow> (Inl e, s)
      | None \<Rightarrow>
        (let (node, spec) = TransactionCreate_createSpec c in
         case CreateNode cl spec s of
           (Inl e, s') \<Rightarrow> (Inl (wrap_create_err e), s')
         | (Inr idv, s') \<Rightarrow>
             (case idv of Some (VInt64 i) \<Rightarrow> (Inr (node\<lparr>et_ID := i\<rparr>), s')
              | _ \<Rightarrow> (Inl (EPanic ''interface conversion: not an int64''), s'))))"

definition TransactionCreate_Save :: 
    "'s ent_client \<Rightarrow> transaction_create \<Rightarrow> ('s, ent_transaction) io" where
  "TransactionCreate_Save cl c s = TransactionCreate_sqlSave cl (TransactionCreate_defaults cl (Now cl 0 s) c) s"

lemmas transaction_create_defs = TransactionClient_Create_def
  TransactionCreate_SetIndex_def
  TransactionCreate_SetHash_def
  TransactionCreate_SetSuccess_def
  TransactionCreate_SetBlockHeight_def
  TransactionCreate_SetGasWanted_def
  TransactionCreate_SetGasUsed_def
  TransactionCreate_SetMemo_def
  TransactionCreate_SetGasFee_def
  TransactionCreate_SetMessages_def
  TransactionCreate_SetResponse_def
  TransactionCreate_SetCreatedAt_def
  TransactionCreate_SetBlockID_def
  TransactionCreate_defaults_def
  TransactionCreate_check_def
  TransactionCreate_createSpec_def
  TransactionCreate_sqlSave_def
  TransactionCreate_Save_def

text \<open>The bulk builder: defaults of every builder first, then the chain of mutators, which checks
  the builders in order and calls the driver once, after the last check.\<close>

record transaction_create_bulk =
  tbk_err :: "err option"
  tbk_builders :: "transaction_create list"
  tbk_conflict :: "conflict_opt list"

definition TransactionClient_CreateBulk :: 
    "transaction_create list \<Rightarrow> transaction_create_bulk" where
  "TransactionClient_CreateBulk builders =
     \<lparr>tbk_err = None, tbk_builders = builders, tbk_conflict = []\<rparr>"

definition TransactionCreateBulk_Save :: 
    "'s ent_client \<Rightarrow> transaction_create_bulk \<Rightarrow> ('s, ent_transaction list) io" where
  "TransactionCreateBulk_Save cl b s =
     (case tbk_err b of Some e \<Rightarrow> (Inl e, s)
      | None \<Rightarrow>
        (let bs = map (\<lambda>i. TransactionCreate_defaults cl (Now cl i s) (tbk_builders b ! i)) [0..<length (tbk_builders b)] in
         if bs = [] then (Inr [], s)
         else case first_err (map (TransactionCreate_check cl) bs) of Some e \<Rightarrow> (Inl e, s)
         | None \<Rightarrow>
           (case BatchCreate cl \<lparr>bs_Nodes = map (\<lambda>b. snd (TransactionCreate_createSpec b)) bs, bs_OnConflict = tbk_conflict b\<rparr> s of
              (Inl e, s') \<Rightarrow> (Inl (wrap_create_err e), s')
            | (Inr ids, s') \<Rightarrow> (bulk_ids (\<lambda>n v. if v = None then Inr n
                else case v of Some (VInt64 i) \<Rightarrow> Inr (n\<lparr>et_ID := i\<rparr>)
                | _ \<Rightarrow> Inl (EPanic ''interface conversion: not an int64''))
                (map (\<lambda>b. fst (TransactionCreate_createSpec b)) bs) ids, s'))))"

lemma TransactionCreateBulk_plain:
  "TransactionCreateBulk_Save cl (TransactionClient_CreateBulk builders) s =
     (let bs = map (\<lambda>i. TransactionCreate_defaults cl (Now cl i s) (builders ! i)) [0..<length builders] in
      if bs = [] then (Inr [], s)
      else case first_err (map (TransactionCreate_check cl) bs) of Some e \<Rightarrow> (Inl e, s)
      | None \<Rightarrow>
        (case BatchCreate cl \<lparr>bs_Nodes = map (\<lambda>b. snd (TransactionCreate_createSpec b)) bs, bs_OnConflict = []\<rparr> s of
           (Inl e, s') \<Rightarrow> (Inl (wrap_create_err e), s')
         | (Inr ids, s') \<Rightarrow> (bulk_ids (\<lambda>n v. if v = None then Inr n
                else case v of Some (VInt64 i) \<Rightarrow> Inr (n\<lparr>et_ID := i\<rparr>)
                | _ \<Rightarrow> Inl (EPanic ''interface conversion: not an int64''))
                (map (\<lambda>b. fst (TransactionCreate_createSpec b)) bs) ids, s')))"
  unfolding TransactionCreateBulk_Save_def TransactionClient_CreateBulk_def transaction_create_bulk.select_convs option.case
  by (rule refl)

section \<open>Predicates\<close>

definition transaction_HashEQ :: "string \<Rightarrow> pred" where
  "transaction_HashEQ v = FieldEQ transaction_FieldHash (VString v)"

definition transaction_BlockHeightEQ :: "int \<Rightarrow> pred" where
  "transaction_BlockHeightEQ v = FieldEQ transaction_FieldBlockHeight (VInt v)"

end
