(* ===== verification/Ent_Transfer.thy ===== *)
theory Ent_Transfer
  imports Ent_Core
begin

text \<open>
  The entity \<^verbatim>\<open>Transfer\<close>: one row per token event, with foreign keys to accounts
  (\<^verbatim>\<open>ent/transfer/transfer.go\<close>, \<^verbatim>\<open>ent/transfer.go\<close>, its part of \<^verbatim>\<open>ent/mutation.go\<close>,
  \<^verbatim>\<open>ent/transfer_create.go\<close>, \<^verbatim>\<open>ent/transfer_query.go\<close>).

  A mutation collects what a builder was told; a pointer field of the Go struct is an option,
  \<^verbatim>\<open>clearedFields\<close> the list of its keys, and an id set of an edge the list of its keys in one of
  the orders Go may iterate them. No hook or interceptor is registered anywhere in the program,
  so \<^verbatim>\<open>withHooks\<close> and \<^verbatim>\<open>withInterceptors\<close> call the operation directly.
\<close>

section \<open>Names and columns\<close>

definition transfer_Label :: string where
  "transfer_Label = ''transfer''"

definition transfer_Table :: string where
  "transfer_Table = ''transfers''"

definition transfer_FieldID :: string where
  "transfer_FieldID = ''id''"

definition transfer_FieldHash :: string where
  "transfer_FieldHash = ''hash''"

definition transfer_FieldFunc :: string where
  "transfer_FieldFunc = ''func''"

definition transfer_FieldFromAddress :: string where
  "transfer_FieldFromAddress = ''from_address''"

definition transfer_FieldToAddress :: string where
  "transfer_FieldToAddress = ''to_address''"

definition transfer_FieldToken :: string where
  "transfer_FieldToken = ''token''"

definition transfer_FieldAmount :: string where
  "transfer_FieldAmount = ''amount''"

definition transfer_FieldDenom :: string where
  "transfer_FieldDenom = ''denom''"

definition transfer_FieldCreatedAt :: string where
  "transfer_FieldCreatedAt = ''created_at''"

definition transfer_Columns :: "string list" where
  "transfer_Columns = [transfer_FieldID,
     transfer_FieldHash,
     transfer_FieldFunc,
     transfer_FieldFromAddress,
     transfer_FieldToAddress,
     transfer_FieldToken,
     transfer_FieldAmount,
     transfer_FieldDenom,
     transfer_FieldCreatedAt]"

definition transfer_ForeignKeys :: "string list" where
  "transfer_ForeignKeys = [''to_address'', ''from_address'']"

definition transfer_ValidColumn :: "string \<Rightarrow> bool" where
  "transfer_ValidColumn column \<longleftrightarrow> List.member transfer_Columns column \<or> List.member transfer_ForeignKeys column"

lemmas transfer_names = transfer_Label_def
  transfer_Table_def
  transfer_FieldID_def
  transfer_FieldHash_def
  transfer_FieldFunc_def
  transfer_FieldFromAddress_def
  transfer_FieldToAddress_def
  transfer_FieldToken_def
  transfer_FieldAmount_def
  transfer_FieldDenom_def
  transfer_FieldCreatedAt_def

section \<open>The entity and the scanning of its rows\<close>

record ent_transfer =
  ef_ID :: int
  ef_Hash :: string
  ef_Func :: string
  ef_FromAddress :: string
  ef_ToAddress :: string
  ef_Token :: string
  ef_Amount :: float64
  ef_Denom :: string
  ef_CreatedAt :: go_time
  ef_fk_to_address :: "string option"
  ef_fk_from_address :: "string option"

definition zero_transfer :: ent_transfer where
  "zero_transfer = \<lparr>ef_ID = 0,
     ef_Hash = '''',
     ef_Func = '''',
     ef_FromAddress = '''',
     ef_ToAddress = '''',
     ef_Token = '''',
     ef_Amount = F64 0,
     ef_Denom = '''',
     ef_CreatedAt = zero_time,
     ef_fk_to_address = None,
     ef_fk_from_address = None\<rparr>"

definition Transfer_scanValues :: "string \<Rightarrow> holder" where
  "Transfer_scanValues column =
     (if column = transfer_FieldID then NullInt64
      else if column = transfer_FieldHash \<or> column = transfer_FieldFunc \<or> column = transfer_FieldFromAddress \<or> column = transfer_FieldToAddress \<or> column = transfer_FieldToken \<or> column = transfer_FieldDenom then NullString
      else if column = transfer_FieldAmount then NullFloat64
      else if column = transfer_FieldCreatedAt then NullTime
      else if column = transfer_ForeignKeys ! 0 then NullString
      else if column = transfer_ForeignKeys ! 1 then NullString
      else UnknownType)"

definition Transfer_assignValues :: 
    "string \<Rightarrow> ent_value \<Rightarrow> ent_transfer \<Rightarrow> err + ent_transfer" where
  "Transfer_assignValues column v m =
     (if column = transfer_FieldID then
        (case v of VInt n \<Rightarrow> Inr (m\<lparr>ef_ID := n\<rparr>) | VNull \<Rightarrow> Inr (m\<lparr>ef_ID := 0\<rparr>)
          | _ \<Rightarrow> Inl (EMsg ''unexpected type for field id''))
      else if column = transfer_FieldHash then
        (case v of VString x \<Rightarrow> Inr (m\<lparr>ef_Hash := x\<rparr>) | VNull \<Rightarrow> Inr m
          | _ \<Rightarrow> Inl (EMsg ''unexpected type for field hash''))
      else if column = transfer_FieldFunc then
        (case v of VString x \<Rightarrow> Inr (m\<lparr>ef_Func := x\<rparr>) | VNull \<Rightarrow> Inr m
          | _ \<Rightarrow> Inl (EMsg ''unexpected type for field func''))
      else if column = transfer_FieldFromAddress then
        (case v of VString x \<Rightarrow> Inr (m\<lparr>ef_FromAddress := x\<rparr>) | VNull \<Rightarrow> Inr m
          | _ \<Rightarrow> Inl (EMsg ''unexpected type for field from_address''))
      else if column = transfer_FieldToAddress then
        (case v of VString x \<Rightarrow> Inr (m\<lparr>ef_ToAddress := x\<rparr>) | VNull \<Rightarrow> Inr m
          | _ \<Rightarrow> Inl (EMsg ''unexpected type for field to_address''))
      else if column = transfer_FieldToken then
        (case v of VString x \<Rightarrow> Inr (m\<lparr>ef_Token := x\<rparr>) | VNull \<Rightarrow> Inr m
          | _ \<Rightarrow> Inl (EMsg ''unexpected type for field token''))
      else if column = transfer_FieldAmount then
        (case v of VFloat x \<Rightarrow> Inr (m\<lparr>ef_Amount := x\<rparr>) | VNull \<Rightarrow> Inr m
          | _ \<Rightarrow> Inl (EMsg ''unexpected type for field amount''))
      else if column = transfer_FieldDenom then
        (case v of VString x \<Rightarrow> Inr (m\<lparr>ef_Denom := x\<rparr>) | VNull \<Rightarrow> Inr m
          | _ \<Rightarrow> Inl (EMsg ''unexpected type for field denom''))
      else if column = transfer_FieldCreatedAt then
        (case v of VTime x \<Rightarrow> Inr (m\<lparr>ef_CreatedAt := x\<rparr>) | VNull \<Rightarrow> Inr m
          | _ \<Rightarrow> Inl (EMsg ''unexpected type for field created_at''))
      else if column = transfer_ForeignKeys ! 0 then
        (case v of VString x \<Rightarrow> Inr (m\<lparr>ef_fk_to_address := Some x\<rparr>) | VNull \<Rightarrow> Inr m
          | _ \<Rightarrow> Inl (EMsg ''unexpected type for field to_address''))
      else if column = transfer_ForeignKeys ! 1 then
        (case v of VString x \<Rightarrow> Inr (m\<lparr>ef_fk_from_address := Some x\<rparr>) | VNull \<Rightarrow> Inr m
          | _ \<Rightarrow> Inl (EMsg ''unexpected type for field from_address''))
      else Inr m)"

definition transfer_meta :: "ent_transfer ent_meta" where
  "transfer_meta = \<lparr>em_Label = transfer_Label, em_Table = transfer_Table, em_IDSpec = (transfer_FieldID, TypeInt),
     em_Columns = transfer_Columns, em_ValidColumn = transfer_ValidColumn,
     em_Assign = (\<lambda>row. assign_row Transfer_scanValues Transfer_assignValues row zero_transfer)\<rparr>"

definition TransferQuery_First :: 
    "'s ent_client \<Rightarrow> ent_query \<Rightarrow> ('s, ent_transfer) io" where
  "TransferQuery_First = First transfer_meta"

definition TransferQuery_Only :: 
    "'s ent_client \<Rightarrow> ent_query \<Rightarrow> ('s, ent_transfer) io" where
  "TransferQuery_Only = Only transfer_meta"

definition TransferQuery_All :: 
    "'s ent_client \<Rightarrow> ent_query \<Rightarrow> ('s, ent_transfer list) io" where
  "TransferQuery_All = All transfer_meta"

definition TransferQuery_querySpec :: "ent_query \<Rightarrow> query_spec" where
  "TransferQuery_querySpec = querySpec transfer_meta"

section \<open>The mutation\<close>

record transfer_mutation =
  fm_op :: ent_op
  fm_id :: "int option"
  fm_hash :: "string option"
  fm_func :: "string option"
  fm_from_address :: "string option"
  fm_to_address :: "string option"
  fm_token :: "string option"
  fm_amount :: "float64 option"
  fm_addamount :: "float64 option"
  fm_denom :: "string option"
  fm_created_at :: "go_time option"
  fm_clearedFields :: "string list"
  fm_done :: bool
  fm_predicates :: "pred list"

definition newTransferMutation :: "ent_op \<Rightarrow> transfer_mutation" where
  "newTransferMutation op = \<lparr>fm_op = op,
     fm_id = None,
     fm_hash = None,
     fm_func = None,
     fm_from_address = None,
     fm_to_address = None,
     fm_token = None,
     fm_amount = None,
     fm_addamount = None,
     fm_denom = None,
     fm_created_at = None,
     fm_clearedFields = [],
     fm_done = False,
     fm_predicates = []\<rparr>"

definition TransferMutation_SetID :: 
    "int \<Rightarrow> transfer_mutation \<Rightarrow> transfer_mutation" where
  "TransferMutation_SetID v m = m\<lparr>fm_id := Some v\<rparr>"

definition TransferMutation_ID :: "transfer_mutation \<Rightarrow> int option" where
  "TransferMutation_ID m = fm_id m"

definition TransferMutation_SetHash :: 
    "string \<Rightarrow> transfer_mutation \<Rightarrow> transfer_mutation" where
  "TransferMutation_SetHash v m = m\<lparr>fm_hash := Some v\<rparr>"

definition TransferMutation_Hash :: "transfer_mutation \<Rightarrow> string option" where
  "TransferMutation_Hash m = fm_hash m"

definition TransferMutation_ResetHash :: "transfer_mutation \<Rightarrow> transfer_mutation" where
  "TransferMutation_ResetHash m = m\<lparr>fm_hash := None\<rparr>"

definition TransferMutation_SetFunc :: 
    "string \<Rightarrow> transfer_mutation \<Rightarrow> transfer_mutation" where
  "TransferMutation_SetFunc v m = m\<lparr>fm_func := Some v\<rparr>"

definition TransferMutation_Func :: "transfer_mutation \<Rightarrow> string option" where
  "TransferMutation_Func m = fm_func m"

definition TransferMutation_ResetFunc :: "transfer_mutation \<Rightarrow> transfer_mutation" where
  "TransferMutation_ResetFunc m = m\<lparr>fm_func := None\<rparr>"

definition TransferMutation_SetFromAddress :: 
    "string \<Rightarrow> transfer_mutation \<Rightarrow> transfer_mutation" where
  "TransferMutation_SetFromAddress v m = m\<lparr>fm_from_address := Some v\<rparr>"

definition TransferMutation_FromAddress :: "transfer_mutation \<Rightarrow> string option" where
  "TransferMutation_FromAddress m = fm_from_address m"

definition TransferMutation_ClearFromAddress :: 
    "transfer_mutation \<Rightarrow> transfer_mutation" where
  "TransferMutation_ClearFromAddress m = m\<lparr>fm_from_address := None,
     fm_clearedFields := List.insert transfer_FieldFromAddress (fm_clearedFields m)\<rparr>"

definition TransferMutation_FromAddressCleared :: "transfer_mutation \<Rightarrow> bool" where
  "TransferMutation_FromAddressCleared m = List.member (fm_clearedFields m) transfer_FieldFromAddress"

definition TransferMutation_ResetFromAddress :: 
    "transfer_mutation \<Rightarrow> transfer_mutation" where
  "TransferMutation_ResetFromAddress m = m\<lparr>fm_from_address := None,
     fm_clearedFields := removeAll transfer_FieldFromAddress (fm_clearedFields m)\<rparr>"

definition TransferMutation_SetToAddress :: 
    "string \<Rightarrow> transfer_mutation \<Rightarrow> transfer_mutation" where
  "TransferMutation_SetToAddress v m = m\<lparr>fm_to_address := Some v\<rparr>"

definition TransferMutation_ToAddress :: "transfer_mutation \<Rightarrow> string option" where
  "TransferMutation_ToAddress m = fm_to_address m"

definition TransferMutation_ClearToAddress :: 
    "transfer_mutation \<Rightarrow> transfer_mutation" where
  "TransferMutation_ClearToAddress m = m\<lparr>fm_to_address := None,
     fm_clearedFields := List.insert transfer_FieldToAddress (fm_clearedFields m)\<rparr>"

definition TransferMutation_ToAddressCleared :: "transfer_mutation \<Rightarrow> bool" where
  "TransferMutation_ToAddressCleared m = List.member (fm_clearedFields m) transfer_FieldToAddress"

definition TransferMutation_ResetToAddress :: 
    "transfer_mutation \<Rightarrow> transfer_mutation" where
  "TransferMutation_ResetToAddress m = m\<lparr>fm_to_address := None,
     fm_clearedFields := removeAll transfer_FieldToAddress (fm_clearedFields m)\<rparr>"

definition TransferMutation_SetToken :: 
    "string \<Rightarrow> transfer_mutation \<Rightarrow> transfer_mutation" where
  "TransferMutation_SetToken v m = m\<lparr>fm_token := Some v\<rparr>"

definition TransferMutation_Token :: "transfer_mutation \<Rightarrow> string option" where
  "TransferMutation_Token m = fm_token m"

definition TransferMutation_ResetToken :: "transfer_mutation \<Rightarrow> transfer_mutation" where
  "TransferMutation_ResetToken m = m\<lparr>fm_token := None\<rparr>"

definition TransferMutation_SetAmount :: 
    "float64 \<Rightarrow> transfer_mutation \<Rightarrow> transfer_mutation" where
  "TransferMutation_SetAmount v m = m\<lparr>fm_amount := Some v, fm_addamount := None\<rparr>"

definition TransferMutation_Amount :: "transfer_mutation \<Rightarrow> float64 option" where
  "TransferMutation_Amount m = fm_amount m"

definition TransferMutation_AddAmount :: 
    "float64 \<Rightarrow> transfer_mutation \<Rightarrow> transfer_mutation" where
  "TransferMutation_AddAmount v m = 
     (case fm_addamount m of Some a \<Rightarrow> m\<lparr>fm_addamount := Some (f64_add a v)\<rparr>
      | None \<Rightarrow> m\<lparr>fm_addamount := Some v\<rparr>)"

definition TransferMutation_AddedAmount :: "transfer_mutation \<Rightarrow> float64 option" where
  "TransferMutation_AddedAmount m = fm_addamount m"

definition TransferMutation_ResetAmount :: "transfer_mutation \<Rightarrow> transfer_mutation" where
  "TransferMutation_ResetAmount m = m\<lparr>fm_amount := None, fm_addamount := None\<rparr>"

definition TransferMutation_SetDenom :: 
    "string \<Rightarrow> transfer_mutation \<Rightarrow> transfer_mutation" where
  "TransferMutation_SetDenom v m = m\<lparr>fm_denom := Some v\<rparr>"

definition TransferMutation_Denom :: "transfer_mutation \<Rightarrow> string option" where
  "TransferMutation_Denom m = fm_denom m"

definition TransferMutation_ResetDenom :: "transfer_mutation \<Rightarrow> transfer_mutation" where
  "TransferMutation_ResetDenom m = m\<lparr>fm_denom := None\<rparr>"

definition TransferMutation_SetCreatedAt :: 
    "go_time \<Rightarrow> transfer_mutation \<Rightarrow> transfer_mutation" where
  "TransferMutation_SetCreatedAt v m = m\<lparr>fm_created_at := Some v\<rparr>"

definition TransferMutation_CreatedAt :: "transfer_mutation \<Rightarrow> go_time option" where
  "TransferMutation_CreatedAt m = fm_created_at m"

definition TransferMutation_ResetCreatedAt :: 
    "transfer_mutation \<Rightarrow> transfer_mutation" where
  "TransferMutation_ResetCreatedAt m = m\<lparr>fm_created_at := None\<rparr>"

definition TransferMutation_Where :: 
    "pred list \<Rightarrow> transfer_mutation \<Rightarrow> transfer_mutation" where
  "TransferMutation_Where ps m = m\<lparr>fm_predicates := fm_predicates m @ ps\<rparr>"

lemmas transfer_mutation_defs = TransferMutation_SetID_def
  TransferMutation_ID_def
  TransferMutation_SetHash_def
  TransferMutation_Hash_def
  TransferMutation_ResetHash_def
  TransferMutation_SetFunc_def
  TransferMutation_Func_def
  TransferMutation_ResetFunc_def
  TransferMutation_SetFromAddress_def
  TransferMutation_FromAddress_def
  TransferMutation_ClearFromAddress_def
  TransferMutation_FromAddressCleared_def
  TransferMutation_ResetFromAddress_def
  TransferMutation_SetToAddress_def
  TransferMutation_ToAddress_def
  TransferMutation_ClearToAddress_def
  TransferMutation_ToAddressCleared_def
  TransferMutation_ResetToAddress_def
  TransferMutation_SetToken_def
  TransferMutation_Token_def
  TransferMutation_ResetToken_def
  TransferMutation_SetAmount_def
  TransferMutation_Amount_def
  TransferMutation_AddAmount_def
  TransferMutation_AddedAmount_def
  TransferMutation_ResetAmount_def
  TransferMutation_SetDenom_def
  TransferMutation_Denom_def
  TransferMutation_ResetDenom_def
  TransferMutation_SetCreatedAt_def
  TransferMutation_CreatedAt_def
  TransferMutation_ResetCreatedAt_def
  TransferMutation_Where_def

subsection \<open>Access by field name\<close>

definition TransferMutation_Fields :: "transfer_mutation \<Rightarrow> string list" where
  "TransferMutation_Fields m = 
     (if fm_hash m \<noteq> None then [transfer_FieldHash] else []) @
     (if fm_func m \<noteq> None then [transfer_FieldFunc] else []) @
     (if fm_from_address m \<noteq> None then [transfer_FieldFromAddress] else []) @
     (if fm_to_address m \<noteq> None then [transfer_FieldToAddress] else []) @
     (if fm_token m \<noteq> None then [transfer_FieldToken] else []) @
     (if fm_amount m \<noteq> None then [transfer_FieldAmount] else []) @
     (if fm_denom m \<noteq> None then [transfer_FieldDenom] else []) @
     (if fm_created_at m \<noteq> None then [transfer_FieldCreatedAt] else [])"

definition TransferMutation_Field :: 
    "string \<Rightarrow> transfer_mutation \<Rightarrow> ent_value option" where
  "TransferMutation_Field name m =
     (if name = transfer_FieldHash then map_option VString (TransferMutation_Hash m)
      else if name = transfer_FieldFunc then map_option VString (TransferMutation_Func m)
      else if name = transfer_FieldFromAddress then map_option VString (TransferMutation_FromAddress m)
      else if name = transfer_FieldToAddress then map_option VString (TransferMutation_ToAddress m)
      else if name = transfer_FieldToken then map_option VString (TransferMutation_Token m)
      else if name = transfer_FieldAmount then map_option VFloat (TransferMutation_Amount m)
      else if name = transfer_FieldDenom then map_option VString (TransferMutation_Denom m)
      else if name = transfer_FieldCreatedAt then map_option VTime (TransferMutation_CreatedAt m)
      else None)"

definition TransferMutation_SetField :: 
    "string \<Rightarrow> ent_value \<Rightarrow> transfer_mutation \<Rightarrow> err + transfer_mutation" where
  "TransferMutation_SetField name value m =
     (if name = transfer_FieldHash then (case value of VString v \<Rightarrow> Inr (TransferMutation_SetHash v m) |
          _ \<Rightarrow> Inl (EMsg ''unexpected type for field''))
      else if name = transfer_FieldFunc then (case value of VString v \<Rightarrow> Inr (TransferMutation_SetFunc v m) |
          _ \<Rightarrow> Inl (EMsg ''unexpected type for field''))
      else if name = transfer_FieldFromAddress then (case value of VString v \<Rightarrow> Inr (TransferMutation_SetFromAddress v m) |
          _ \<Rightarrow> Inl (EMsg ''unexpected type for field''))
      else if name = transfer_FieldToAddress then (case value of VString v \<Rightarrow> Inr (TransferMutation_SetToAddress v m) |
          _ \<Rightarrow> Inl (EMsg ''unexpected type for field''))
      else if name = transfer_FieldToken then (case value of VString v \<Rightarrow> Inr (TransferMutation_SetToken v m) |
          _ \<Rightarrow> Inl (EMsg ''unexpected type for field''))
      else if name = transfer_FieldAmount then (case value of VFloat v \<Rightarrow> Inr (TransferMutation_SetAmount v m) |
          _ \<Rightarrow> Inl (EMsg ''unexpected type for field''))
      else if name = transfer_FieldDenom then (case value of VString v \<Rightarrow> Inr (TransferMutation_SetDenom v m) |
          _ \<Rightarrow> Inl (EMsg ''unexpected type for field''))
      else if name = transfer_FieldCreatedAt then (case value of VTime v \<Rightarrow> Inr (TransferMutation_SetCreatedAt v m) |
          _ \<Rightarrow> Inl (EMsg ''unexpected type for field''))
      else Inl (EMsg ''unknown Transfer field''))"

definition TransferMutation_AddedFields :: "transfer_mutation \<Rightarrow> string list" where
  "TransferMutation_AddedFields m = 
     (if fm_addamount m \<noteq> None then [transfer_FieldAmount] else [])"

definition TransferMutation_AddedField :: 
    "string \<Rightarrow> transfer_mutation \<Rightarrow> ent_value option" where
  "TransferMutation_AddedField name m =
     (if name = transfer_FieldAmount then map_option VFloat (TransferMutation_AddedAmount m)
      else None)"

definition TransferMutation_AddField :: 
    "string \<Rightarrow> ent_value \<Rightarrow> transfer_mutation \<Rightarrow> err + transfer_mutation" where
  "TransferMutation_AddField name value m =
     (if name = transfer_FieldAmount then (case value of VFloat v \<Rightarrow> Inr (TransferMutation_AddAmount v m) |
          _ \<Rightarrow> Inl (EMsg ''unexpected type for field''))
      else Inl (EMsg ''unknown Transfer numeric field''))"

definition TransferMutation_FieldCleared :: 
    "string \<Rightarrow> transfer_mutation \<Rightarrow> bool" where
  "TransferMutation_FieldCleared name m \<longleftrightarrow> List.member (fm_clearedFields m) name"

definition TransferMutation_ClearedFields :: "transfer_mutation \<Rightarrow> string list" where
  "TransferMutation_ClearedFields m = 
     (if TransferMutation_FieldCleared transfer_FieldFromAddress m then [transfer_FieldFromAddress] else []) @
     (if TransferMutation_FieldCleared transfer_FieldToAddress m then [transfer_FieldToAddress] else [])"

definition TransferMutation_ClearField :: 
    "string \<Rightarrow> transfer_mutation \<Rightarrow> err + transfer_mutation" where
  "TransferMutation_ClearField name m =
     (if name = transfer_FieldFromAddress then Inr (TransferMutation_ClearFromAddress m)
      else if name = transfer_FieldToAddress then Inr (TransferMutation_ClearToAddress m)
      else Inl (EMsg ''unknown Transfer nullable field''))"

definition TransferMutation_ResetField :: 
    "string \<Rightarrow> transfer_mutation \<Rightarrow> err + transfer_mutation" where
  "TransferMutation_ResetField name m =
     (if name = transfer_FieldHash then Inr (TransferMutation_ResetHash m)
      else if name = transfer_FieldFunc then Inr (TransferMutation_ResetFunc m)
      else if name = transfer_FieldFromAddress then Inr (TransferMutation_ResetFromAddress m)
      else if name = transfer_FieldToAddress then Inr (TransferMutation_ResetToAddress m)
      else if name = transfer_FieldToken then Inr (TransferMutation_ResetToken m)
      else if name = transfer_FieldAmount then Inr (TransferMutation_ResetAmount m)
      else if name = transfer_FieldDenom then Inr (TransferMutation_ResetDenom m)
      else if name = transfer_FieldCreatedAt then Inr (TransferMutation_ResetCreatedAt m)
      else Inl (EMsg ''unknown Transfer field''))"

lemmas transfer_reflect_defs = TransferMutation_Fields_def
  TransferMutation_Field_def
  TransferMutation_SetField_def
  TransferMutation_AddedFields_def
  TransferMutation_AddedField_def
  TransferMutation_AddField_def
  TransferMutation_FieldCleared_def
  TransferMutation_ClearedFields_def
  TransferMutation_ClearField_def
  TransferMutation_ResetField_def

lemma transfer_field_neq [simp]:
  "transfer_FieldHash \<noteq> transfer_FieldFunc"
  "transfer_FieldHash \<noteq> transfer_FieldFromAddress"
  "transfer_FieldHash \<noteq> transfer_FieldToAddress"
  "transfer_FieldHash \<noteq> transfer_FieldToken"
  "transfer_FieldHash \<noteq> transfer_FieldAmount"
  "transfer_FieldHash \<noteq> transfer_FieldDenom"
  "transfer_FieldHash \<noteq> transfer_FieldCreatedAt"
  "transfer_FieldFunc \<noteq> transfer_FieldHash"
  "transfer_FieldFunc \<noteq> transfer_FieldFromAddress"
  "transfer_FieldFunc \<noteq> transfer_FieldToAddress"
  "transfer_FieldFunc \<noteq> transfer_FieldToken"
  "transfer_FieldFunc \<noteq> transfer_FieldAmount"
  "transfer_FieldFunc \<noteq> transfer_FieldDenom"
  "transfer_FieldFunc \<noteq> transfer_FieldCreatedAt"
  "transfer_FieldFromAddress \<noteq> transfer_FieldHash"
  "transfer_FieldFromAddress \<noteq> transfer_FieldFunc"
  "transfer_FieldFromAddress \<noteq> transfer_FieldToAddress"
  "transfer_FieldFromAddress \<noteq> transfer_FieldToken"
  "transfer_FieldFromAddress \<noteq> transfer_FieldAmount"
  "transfer_FieldFromAddress \<noteq> transfer_FieldDenom"
  "transfer_FieldFromAddress \<noteq> transfer_FieldCreatedAt"
  "transfer_FieldToAddress \<noteq> transfer_FieldHash"
  "transfer_FieldToAddress \<noteq> transfer_FieldFunc"
  "transfer_FieldToAddress \<noteq> transfer_FieldFromAddress"
  "transfer_FieldToAddress \<noteq> transfer_FieldToken"
  "transfer_FieldToAddress \<noteq> transfer_FieldAmount"
  "transfer_FieldToAddress \<noteq> transfer_FieldDenom"
  "transfer_FieldToAddress \<noteq> transfer_FieldCreatedAt"
  "transfer_FieldToken \<noteq> transfer_FieldHash"
  "transfer_FieldToken \<noteq> transfer_FieldFunc"
  "transfer_FieldToken \<noteq> transfer_FieldFromAddress"
  "transfer_FieldToken \<noteq> transfer_FieldToAddress"
  "transfer_FieldToken \<noteq> transfer_FieldAmount"
  "transfer_FieldToken \<noteq> transfer_FieldDenom"
  "transfer_FieldToken \<noteq> transfer_FieldCreatedAt"
  "transfer_FieldAmount \<noteq> transfer_FieldHash"
  "transfer_FieldAmount \<noteq> transfer_FieldFunc"
  "transfer_FieldAmount \<noteq> transfer_FieldFromAddress"
  "transfer_FieldAmount \<noteq> transfer_FieldToAddress"
  "transfer_FieldAmount \<noteq> transfer_FieldToken"
  "transfer_FieldAmount \<noteq> transfer_FieldDenom"
  "transfer_FieldAmount \<noteq> transfer_FieldCreatedAt"
  "transfer_FieldDenom \<noteq> transfer_FieldHash"
  "transfer_FieldDenom \<noteq> transfer_FieldFunc"
  "transfer_FieldDenom \<noteq> transfer_FieldFromAddress"
  "transfer_FieldDenom \<noteq> transfer_FieldToAddress"
  "transfer_FieldDenom \<noteq> transfer_FieldToken"
  "transfer_FieldDenom \<noteq> transfer_FieldAmount"
  "transfer_FieldDenom \<noteq> transfer_FieldCreatedAt"
  "transfer_FieldCreatedAt \<noteq> transfer_FieldHash"
  "transfer_FieldCreatedAt \<noteq> transfer_FieldFunc"
  "transfer_FieldCreatedAt \<noteq> transfer_FieldFromAddress"
  "transfer_FieldCreatedAt \<noteq> transfer_FieldToAddress"
  "transfer_FieldCreatedAt \<noteq> transfer_FieldToken"
  "transfer_FieldCreatedAt \<noteq> transfer_FieldAmount"
  "transfer_FieldCreatedAt \<noteq> transfer_FieldDenom"
  by (simp_all add: transfer_names)

lemma transfer_SetField_Field:
  "TransferMutation_SetField name v m = Inr m' \<Longrightarrow> TransferMutation_Field name m' = Some v"
  by (auto simp: TransferMutation_SetField_def TransferMutation_Field_def transfer_mutation_defs
      split: if_split_asm ent_value.split_asm)

lemma transfer_SetField_other:
  "TransferMutation_SetField name v m = Inr m' \<Longrightarrow> other \<noteq> name \<Longrightarrow>
    TransferMutation_Field other m' = TransferMutation_Field other m"
  by (auto simp: TransferMutation_SetField_def TransferMutation_Field_def transfer_mutation_defs
      split: if_split_asm ent_value.split_asm split del: if_split cong: if_cong)

lemma transfer_ResetField_Field:
  "TransferMutation_ResetField name m = Inr m' \<Longrightarrow>
    TransferMutation_Field name m' = None \<and> TransferMutation_AddedField name m' = None"
  by (auto simp: TransferMutation_ResetField_def TransferMutation_Field_def TransferMutation_AddedField_def transfer_mutation_defs
      split: if_split_asm)

lemma transfer_Fields_iff: "name \<in> set (TransferMutation_Fields m) \<longleftrightarrow> TransferMutation_Field name m \<noteq> None"
  by (auto simp: TransferMutation_Fields_def TransferMutation_Field_def transfer_mutation_defs split: if_split_asm)

section \<open>The create builder\<close>

record transfer_create =
  fcb_mutation :: transfer_mutation
  fcb_conflict :: "conflict_opt list"

definition TransferClient_Create :: transfer_create where
  "TransferClient_Create = \<lparr>fcb_mutation = newTransferMutation OpCreate, fcb_conflict = []\<rparr>"

definition TransferCreate_SetHash :: 
    "string \<Rightarrow> transfer_create \<Rightarrow> transfer_create" where
  "TransferCreate_SetHash v c =
     c\<lparr>fcb_mutation := TransferMutation_SetHash v (fcb_mutation c)\<rparr>"

definition TransferCreate_SetFunc :: 
    "string \<Rightarrow> transfer_create \<Rightarrow> transfer_create" where
  "TransferCreate_SetFunc v c =
     c\<lparr>fcb_mutation := TransferMutation_SetFunc v (fcb_mutation c)\<rparr>"

definition TransferCreate_SetFromAddress :: 
    "string \<Rightarrow> transfer_create \<Rightarrow> transfer_create" where
  "TransferCreate_SetFromAddress v c =
     c\<lparr>fcb_mutation := TransferMutation_SetFromAddress v (fcb_mutation c)\<rparr>"

definition TransferCreate_SetToAddress :: 
    "string \<Rightarrow> transfer_create \<Rightarrow> transfer_create" where
  "TransferCreate_SetToAddress v c =
     c\<lparr>fcb_mutation := TransferMutation_SetToAddress v (fcb_mutation c)\<rparr>"

definition TransferCreate_SetToken :: 
    "string \<Rightarrow> transfer_create \<Rightarrow> transfer_create" where
  "TransferCreate_SetToken v c =
     c\<lparr>fcb_mutation := TransferMutation_SetToken v (fcb_mutation c)\<rparr>"

definition TransferCreate_SetAmount :: 
    "float64 \<Rightarrow> transfer_create \<Rightarrow> transfer_create" where
  "TransferCreate_SetAmount v c =
     c\<lparr>fcb_mutation := TransferMutation_SetAmount v (fcb_mutation c)\<rparr>"

definition TransferCreate_SetDenom :: 
    "string \<Rightarrow> transfer_create \<Rightarrow> transfer_create" where
  "TransferCreate_SetDenom v c =
     c\<lparr>fcb_mutation := TransferMutation_SetDenom v (fcb_mutation c)\<rparr>"

definition TransferCreate_SetCreatedAt :: 
    "go_time \<Rightarrow> transfer_create \<Rightarrow> transfer_create" where
  "TransferCreate_SetCreatedAt v c =
     c\<lparr>fcb_mutation := TransferMutation_SetCreatedAt v (fcb_mutation c)\<rparr>"

definition TransferCreate_SetID :: 
    "int \<Rightarrow> transfer_create \<Rightarrow> transfer_create" where
  "TransferCreate_SetID v c =
     c\<lparr>fcb_mutation := TransferMutation_SetID v (fcb_mutation c)\<rparr>"

definition TransferCreate_defaults :: 
    "'s ent_client \<Rightarrow> go_time \<Rightarrow> transfer_create \<Rightarrow> transfer_create" where
  "TransferCreate_defaults cl now c =
     (let c1 = (case TransferMutation_CreatedAt (fcb_mutation c) of Some _ \<Rightarrow> c
        | None \<Rightarrow> TransferCreate_SetCreatedAt now c) in c1)"

definition TransferCreate_check :: 
    "'s ent_client \<Rightarrow> transfer_create \<Rightarrow> err option" where
  "TransferCreate_check cl c = first_err [
     require_field ''hash'' (TransferMutation_Hash (fcb_mutation c)),
     validate_field ''hash'' (NotEmpty cl) (TransferMutation_Hash (fcb_mutation c)),
     require_field ''func'' (TransferMutation_Func (fcb_mutation c)),
     validate_field ''func'' (NotEmpty cl) (TransferMutation_Func (fcb_mutation c)),
     require_field ''token'' (TransferMutation_Token (fcb_mutation c)),
     validate_field ''token'' (NotEmpty cl) (TransferMutation_Token (fcb_mutation c)),
     require_field ''amount'' (TransferMutation_Amount (fcb_mutation c)),
     validate_field ''amount'' (Positive cl) (TransferMutation_Amount (fcb_mutation c)),
     require_field ''denom'' (TransferMutation_Denom (fcb_mutation c)),
     validate_field ''denom'' (NotEmpty cl) (TransferMutation_Denom (fcb_mutation c)),
     require_field ''created_at'' (TransferMutation_CreatedAt (fcb_mutation c))]"

definition TransferCreate_createSpec :: 
    "transfer_create \<Rightarrow> ent_transfer \<times> create_spec" where
  "TransferCreate_createSpec c =
     (let m = fcb_mutation c;
      node = zero_transfer\<lparr>ef_ID := (case TransferMutation_ID m of Some i \<Rightarrow> i | None \<Rightarrow> 0),
        ef_Hash := (case TransferMutation_Hash m of Some v \<Rightarrow> v | None \<Rightarrow> ef_Hash zero_transfer),
        ef_Func := (case TransferMutation_Func m of Some v \<Rightarrow> v | None \<Rightarrow> ef_Func zero_transfer),
        ef_FromAddress := (case TransferMutation_FromAddress m of Some v \<Rightarrow> v | None \<Rightarrow> ef_FromAddress zero_transfer),
        ef_ToAddress := (case TransferMutation_ToAddress m of Some v \<Rightarrow> v | None \<Rightarrow> ef_ToAddress zero_transfer),
        ef_Token := (case TransferMutation_Token m of Some v \<Rightarrow> v | None \<Rightarrow> ef_Token zero_transfer),
        ef_Amount := (case TransferMutation_Amount m of Some v \<Rightarrow> v | None \<Rightarrow> ef_Amount zero_transfer),
        ef_Denom := (case TransferMutation_Denom m of Some v \<Rightarrow> v | None \<Rightarrow> ef_Denom zero_transfer),
        ef_CreatedAt := (case TransferMutation_CreatedAt m of Some v \<Rightarrow> v | None \<Rightarrow> ef_CreatedAt zero_transfer)\<rparr>;
      spec0 = (NewCreateSpec transfer_Table (transfer_FieldID, TypeInt))\<lparr>cs_OnConflict := fcb_conflict c,
        cs_ID := map_option VInt (TransferMutation_ID m)\<rparr>;
      spec1 = SetField transfer_FieldHash TypeString VString (TransferMutation_Hash m) spec0;
      spec2 = SetField transfer_FieldFunc TypeString VString (TransferMutation_Func m) spec1;
      spec3 = SetField transfer_FieldFromAddress TypeString VString (TransferMutation_FromAddress m) spec2;
      spec4 = SetField transfer_FieldToAddress TypeString VString (TransferMutation_ToAddress m) spec3;
      spec5 = SetField transfer_FieldToken TypeString VString (TransferMutation_Token m) spec4;
      spec6 = SetField transfer_FieldAmount TypeFloat64 VFloat (TransferMutation_Amount m) spec5;
      spec7 = SetField transfer_FieldDenom TypeString VString (TransferMutation_Denom m) spec6;
      spec8 = SetField transfer_FieldCreatedAt TypeTime VTime (TransferMutation_CreatedAt m) spec7
      in (node, spec8))"

definition TransferCreate_sqlSave :: 
    "'s ent_client \<Rightarrow> transfer_create \<Rightarrow> ('s, ent_transfer) io" where
  "TransferCreate_sqlSave cl c s =
     (case TransferCreate_check cl c of Some e \<Rightarrow> (Inl e, s)
      | None \<Rightarrow>
        (let (node, spec) = TransferCreate_createSpec c in
         case CreateNode cl spec s of
           (Inl e, s') \<Rightarrow> (Inl (wrap_create_err e), s')
         | (Inr idv, s') \<Rightarrow>
             if idv = Some (VInt (ef_ID node)) then (Inr node, s')
             else (case idv of Some (VInt64 i) \<Rightarrow> (Inr (node\<lparr>ef_ID := i\<rparr>), s')
              | _ \<Rightarrow> (Inl (EPanic ''interface conversion: not an int64''), s'))))"

definition TransferCreate_Save :: 
    "'s ent_client \<Rightarrow> transfer_create \<Rightarrow> ('s, ent_transfer) io" where
  "TransferCreate_Save cl c s = TransferCreate_sqlSave cl (TransferCreate_defaults cl (Now cl 0 s) c) s"

lemmas transfer_create_defs = TransferClient_Create_def
  TransferCreate_SetHash_def
  TransferCreate_SetFunc_def
  TransferCreate_SetFromAddress_def
  TransferCreate_SetToAddress_def
  TransferCreate_SetToken_def
  TransferCreate_SetAmount_def
  TransferCreate_SetDenom_def
  TransferCreate_SetCreatedAt_def
  TransferCreate_SetID_def
  TransferCreate_defaults_def
  TransferCreate_check_def
  TransferCreate_createSpec_def
  TransferCreate_sqlSave_def
  TransferCreate_Save_def

text \<open>The bulk builder: defaults of every builder first, then the chain of mutators, which checks
  the builders in order and calls the driver once, after the last check.\<close>

record transfer_create_bulk =
  fbk_err :: "err option"
  fbk_builders :: "transfer_create list"
  fbk_conflict :: "conflict_opt list"

definition TransferClient_CreateBulk :: 
    "transfer_create list \<Rightarrow> transfer_create_bulk" where
  "TransferClient_CreateBulk builders =
     \<lparr>fbk_err = None, fbk_builders = builders, fbk_conflict = []\<rparr>"

definition TransferCreateBulk_Save :: 
    "'s ent_client \<Rightarrow> transfer_create_bulk \<Rightarrow> ('s, ent_transfer list) io" where
  "TransferCreateBulk_Save cl b s =
     (case fbk_err b of Some e \<Rightarrow> (Inl e, s)
      | None \<Rightarrow>
        (let bs = map (\<lambda>i. TransferCreate_defaults cl (Now cl i s) (fbk_builders b ! i)) [0..<length (fbk_builders b)] in
         if bs = [] then (Inr [], s)
         else case first_err (map (TransferCreate_check cl) bs) of Some e \<Rightarrow> (Inl e, s)
         | None \<Rightarrow>
           (case BatchCreate cl \<lparr>bs_Nodes = map (\<lambda>b. snd (TransferCreate_createSpec b)) bs, bs_OnConflict = fbk_conflict b\<rparr> s of
              (Inl e, s') \<Rightarrow> (Inl (wrap_create_err e), s')
            | (Inr ids, s') \<Rightarrow> (bulk_ids (\<lambda>n v. if v = None \<or> ef_ID n \<noteq> 0 then Inr n
                else case v of Some (VInt64 i) \<Rightarrow> Inr (n\<lparr>ef_ID := i\<rparr>)
                | _ \<Rightarrow> Inl (EPanic ''interface conversion: not an int64''))
                (map (\<lambda>b. fst (TransferCreate_createSpec b)) bs) ids, s'))))"

lemma TransferCreateBulk_plain:
  "TransferCreateBulk_Save cl (TransferClient_CreateBulk builders) s =
     (let bs = map (\<lambda>i. TransferCreate_defaults cl (Now cl i s) (builders ! i)) [0..<length builders] in
      if bs = [] then (Inr [], s)
      else case first_err (map (TransferCreate_check cl) bs) of Some e \<Rightarrow> (Inl e, s)
      | None \<Rightarrow>
        (case BatchCreate cl \<lparr>bs_Nodes = map (\<lambda>b. snd (TransferCreate_createSpec b)) bs, bs_OnConflict = []\<rparr> s of
           (Inl e, s') \<Rightarrow> (Inl (wrap_create_err e), s')
         | (Inr ids, s') \<Rightarrow> (bulk_ids (\<lambda>n v. if v = None \<or> ef_ID n \<noteq> 0 then Inr n
                else case v of Some (VInt64 i) \<Rightarrow> Inr (n\<lparr>ef_ID := i\<rparr>)
                | _ \<Rightarrow> Inl (EPanic ''interface conversion: not an int64''))
                (map (\<lambda>b. fst (TransferCreate_createSpec b)) bs) ids, s')))"
  unfolding TransferCreateBulk_Save_def TransferClient_CreateBulk_def transfer_create_bulk.select_convs option.case
  by (rule refl)

section \<open>Predicates\<close>

definition transfer_Func :: "string \<Rightarrow> pred" where
  "transfer_Func v = FieldEQ transfer_FieldFunc (VString v)"

definition transfer_FromAddressEQ :: "string \<Rightarrow> pred" where
  "transfer_FromAddressEQ v = FieldEQ transfer_FieldFromAddress (VString v)"

definition transfer_ToAddressEQ :: "string \<Rightarrow> pred" where
  "transfer_ToAddressEQ v = FieldEQ transfer_FieldToAddress (VString v)"

definition transfer_TokenEQ :: "string \<Rightarrow> pred" where
  "transfer_TokenEQ v = FieldEQ transfer_FieldToken (VString v)"

definition transfer_Or :: "pred list \<Rightarrow> pred" where
  "transfer_Or ps = OrPredicates ps"

end
