(* ===== verification/Ent_Graph.thy ===== *)
theory Ent_Graph
  imports Ent_Account Ent_Block Ent_RestoreHistory Ent_Transaction Ent_Transfer
begin

text \<open>
  What the builders of the generated client the services do not call rely on, beside the calls of
  \<open>ent_client\<close>: the remaining \<^verbatim>\<open>sqlgraph\<close> calls as fields of the record \<open>ent_graph\<close> over the same database
  state, and the conventions their builders share: the text of an error (the \<^verbatim>\<open>Error\<close> methods of
  \<^verbatim>\<open>ent/ent.go\<close>), the variants that panic, and the entries an update takes from a mutation.
\<close>

section \<open>Specs and calls\<close>

record delete_spec =
  ds_Table :: string
  ds_IDSpec :: "string \<times> ftype"
  ds_Predicate :: "pred list"

text \<open>An update of one row, which it selects back; \<open>us_Columns\<close> of its spec are the columns it selects.\<close>

record node_update =
  nu_Spec :: update_spec
  nu_ID :: ent_value

text \<open>A selection of columns and aggregates (\<^verbatim>\<open>sqlQuery\<close>). Its rows are scanned into a slice of strings,
  integers, floats or booleans, for which it must yield one column of that type.\<close>

datatype aggregate =
    AggCount
  | AggMax string
  | AggMean string
  | AggMin string
  | AggSum string
  | AggAs aggregate string

record select_spec =
  ss_Table :: string
  ss_Columns :: "string list"
  ss_Distinct :: bool
  ss_Predicate :: "pred list"
  ss_Order :: "order_term list"
  ss_Offset :: "int option"
  ss_Limit :: "int option"
  ss_Fns :: "aggregate list"

record 's ent_graph =
  eg_client :: "'s ent_client"
  SelectStrings :: "select_spec \<Rightarrow> 's \<Rightarrow> (sql_err + string list) \<times> 's"
  SelectInts :: "select_spec \<Rightarrow> 's \<Rightarrow> (sql_err + int list) \<times> 's"
  SelectFloats :: "select_spec \<Rightarrow> 's \<Rightarrow> (sql_err + float64 list) \<times> 's"
  SelectBools :: "select_spec \<Rightarrow> 's \<Rightarrow> (sql_err + bool list) \<times> 's"
  UpdateNode :: "node_update \<Rightarrow> 's \<Rightarrow> (sql_err + row) \<times> 's"
  DeleteNodes :: "delete_spec \<Rightarrow> 's \<Rightarrow> (sql_err + int) \<times> 's"
  CountNodes :: "query_spec \<Rightarrow> 's \<Rightarrow> (sql_err + int) \<times> 's"
  eg_Dialect :: string

section \<open>Errors as text (\<^verbatim>\<open>ent/ent.go\<close>)\<close>

fun sql_text :: "sql_err \<Rightarrow> string" where
  "sql_text (SqlConstraint m) = m"
| "sql_text (SqlNotFound m) = m"
| "sql_text (SqlOther m) = m"

fun err_text :: "err \<Rightarrow> string" where
  "err_text (EValidation n m) = m"
| "err_text (ENotFound l) = ''ent: '' @ l @ '' not found''"
| "err_text (ENotSingular l) = ''ent: '' @ l @ '' not singular''"
| "err_text (EConstraint e) = ''ent: constraint failed: '' @ sql_text e"
| "err_text (EDriver e) = sql_text e"
| "err_text (EMsg m) = m"
| "err_text (EWrap m e) = m @ '': '' @ err_text e"
| "err_text ECanceled = ''context canceled''"
| "err_text (EPanic m) = m"

text \<open>\<^verbatim>\<open>SaveX\<close>, \<^verbatim>\<open>ExecX\<close> and the like panic with the error; \<^verbatim>\<open>Exec\<close> drops the result.\<close>

definition must :: "('s, 'a) io \<Rightarrow> ('s, 'a) io" where
  "must f s = (case f s of (Inl e, s') \<Rightarrow> (Inl (EPanic (err_text e)), s') | (Inr x, s') \<Rightarrow> (Inr x, s'))"

definition drop_result :: "('s, 'a) io \<Rightarrow> ('s, unit) io" where
  "drop_result f s = (case f s of (Inl e, s') \<Rightarrow> (Inl e, s') | (Inr _, s') \<Rightarrow> (Inr (), s'))"

lemma must_simps:
  "must f s = (Inr x, s') \<longleftrightarrow> f s = (Inr x, s')"
  "snd (must f s) = snd (f s)"
  "fst (must f s) = Inl e \<Longrightarrow> \<exists>m. e = EPanic m"
  by (auto simp: must_def split: prod.splits sum.splits)

lemma drop_result_simps:
  "fst (drop_result f s) = Inr () \<longleftrightarrow> (\<exists>x. fst (f s) = Inr x)"
  "fst (drop_result f s) = Inl e \<longleftrightarrow> fst (f s) = Inl e"
  "snd (drop_result f s) = snd (f s)"
  by (auto simp: drop_result_def split: prod.splits sum.splits)

text \<open>The wrapping \<^verbatim>\<open>sqlSave\<close> of an update and \<^verbatim>\<open>sqlExec\<close> of a delete apply to an error.\<close>

definition wrap_update_err :: "string \<Rightarrow> sql_err \<Rightarrow> err" where
  "wrap_update_err label e = (case e of SqlNotFound m \<Rightarrow> ENotFound label
     | SqlConstraint m \<Rightarrow> EConstraint e | SqlOther m \<Rightarrow> EDriver e)"

section \<open>Scalars of a selection (\<^verbatim>\<open>ent/ent.go\<close>)\<close>

definition selector_list :: "string \<Rightarrow> string list \<Rightarrow> ('s, 'k list) io \<Rightarrow> ('s, 'k list) io" where
  "selector_list name flds scan s =
     (if 1 < length flds
      then (Inl (EMsg (''ent: '' @ name @ '' is not achievable when selecting more than 1 field'')), s)
      else scan s)"

definition selector_one :: "string \<Rightarrow> string \<Rightarrow> ('s, 'k list) io \<Rightarrow> ('s, 'k) io" where
  "selector_one name label list s =
     (case list s of
        (Inl e, s') \<Rightarrow> (Inl e, s')
      | (Inr v, s') \<Rightarrow>
          (case v of [x] \<Rightarrow> (Inr x, s')
           | [] \<Rightarrow> (Inl (ENotFound label), s')
           | _ \<Rightarrow> (Inl (EMsg (''ent: '' @ name @ '' returned several results when one was expected'')), s')))"

definition selector_Strings :: "string list \<Rightarrow> ('s, string list) io \<Rightarrow> ('s, string list) io" where
  "selector_Strings = selector_list ''Strings''"

definition selector_StringsX :: "string list \<Rightarrow> ('s, string list) io \<Rightarrow> ('s, string list) io" where
  "selector_StringsX flds scan = must (selector_Strings flds scan)"

definition selector_String :: "string \<Rightarrow> string list \<Rightarrow> ('s, string list) io \<Rightarrow> ('s, string) io" where
  "selector_String label flds scan = selector_one ''Strings'' label (selector_Strings flds scan)"

definition selector_StringX :: "string \<Rightarrow> string list \<Rightarrow> ('s, string list) io \<Rightarrow> ('s, string) io" where
  "selector_StringX label flds scan = must (selector_String label flds scan)"

definition selector_Ints :: "string list \<Rightarrow> ('s, int list) io \<Rightarrow> ('s, int list) io" where
  "selector_Ints = selector_list ''Ints''"

definition selector_IntsX :: "string list \<Rightarrow> ('s, int list) io \<Rightarrow> ('s, int list) io" where
  "selector_IntsX flds scan = must (selector_Ints flds scan)"

definition selector_Int :: "string \<Rightarrow> string list \<Rightarrow> ('s, int list) io \<Rightarrow> ('s, int) io" where
  "selector_Int label flds scan = selector_one ''Ints'' label (selector_Ints flds scan)"

definition selector_IntX :: "string \<Rightarrow> string list \<Rightarrow> ('s, int list) io \<Rightarrow> ('s, int) io" where
  "selector_IntX label flds scan = must (selector_Int label flds scan)"

definition selector_Float64s :: "string list \<Rightarrow> ('s, float64 list) io \<Rightarrow> ('s, float64 list) io" where
  "selector_Float64s = selector_list ''Float64s''"

definition selector_Float64sX :: "string list \<Rightarrow> ('s, float64 list) io \<Rightarrow> ('s, float64 list) io" where
  "selector_Float64sX flds scan = must (selector_Float64s flds scan)"

definition selector_Float64 :: "string \<Rightarrow> string list \<Rightarrow> ('s, float64 list) io \<Rightarrow> ('s, float64) io" where
  "selector_Float64 label flds scan = selector_one ''Float64s'' label (selector_Float64s flds scan)"

definition selector_Float64X :: "string \<Rightarrow> string list \<Rightarrow> ('s, float64 list) io \<Rightarrow> ('s, float64) io" where
  "selector_Float64X label flds scan = must (selector_Float64 label flds scan)"

definition selector_Bools :: "string list \<Rightarrow> ('s, bool list) io \<Rightarrow> ('s, bool list) io" where
  "selector_Bools = selector_list ''Bools''"

definition selector_BoolsX :: "string list \<Rightarrow> ('s, bool list) io \<Rightarrow> ('s, bool list) io" where
  "selector_BoolsX flds scan = must (selector_Bools flds scan)"

definition selector_Bool :: "string \<Rightarrow> string list \<Rightarrow> ('s, bool list) io \<Rightarrow> ('s, bool) io" where
  "selector_Bool label flds scan = selector_one ''Bools'' label (selector_Bools flds scan)"

definition selector_BoolX :: "string \<Rightarrow> string list \<Rightarrow> ('s, bool list) io \<Rightarrow> ('s, bool) io" where
  "selector_BoolX label flds scan = must (selector_Bool label flds scan)"

section \<open>The entries of an update\<close>

definition set_entry :: "string \<Rightarrow> ftype \<Rightarrow> ('a \<Rightarrow> ent_value) \<Rightarrow> 'a option
    \<Rightarrow> (string \<times> ftype \<times> ent_value) list" where
  "set_entry c ty mk v = (case v of None \<Rightarrow> [] | Some x \<Rightarrow> [(c, ty, mk x)])"

definition clear_entry :: "string \<Rightarrow> ftype \<Rightarrow> bool \<Rightarrow> (string \<times> ftype) list" where
  "clear_entry c ty cleared = (if cleared then [(c, ty)] else [])"

definition append_entry :: "string \<Rightarrow> ('a \<Rightarrow> ent_value) \<Rightarrow> 'a option \<Rightarrow> (string \<times> ent_value) list" where
  "append_entry c mk v = (case v of None \<Rightarrow> [] | Some x \<Rightarrow> [(c, mk x)])"

definition clear_edge :: "(int list \<Rightarrow> edge_spec) \<Rightarrow> bool \<Rightarrow> edge_spec list" where
  "clear_edge edge cleared = (if cleared then [edge []] else [])"

definition remove_edge :: "(int list \<Rightarrow> edge_spec) \<Rightarrow> int list \<Rightarrow> bool \<Rightarrow> edge_spec list" where
  "remove_edge edge nodes cleared = (if nodes \<noteq> [] \<and> \<not> cleared then [edge nodes] else [])"

definition add_edge :: "(int list \<Rightarrow> edge_spec) \<Rightarrow> int list \<Rightarrow> edge_spec list" where
  "add_edge edge nodes = (if nodes \<noteq> [] then [edge nodes] else [])"

lemma entry_simps [simp]:
  "set_entry c ty mk None = []" "set_entry c ty mk (Some x) = [(c, ty, mk x)]"
  "clear_entry c ty b = (if b then [(c, ty)] else [])"
  "append_entry c mku None = []" "append_entry c mku (Some y) = [(c, mku y)]"
  "clear_edge edge b = (if b then [edge []] else [])"
  "remove_edge edge [] b = []" "remove_edge edge nodes True = []" "add_edge edge [] = []"
  by (simp_all add: set_entry_def clear_entry_def append_entry_def clear_edge_def remove_edge_def
    add_edge_def)

text \<open>The columns a one-row update selects back: all of them, or the key and the ones asked for, which
  must be columns of the table.\<close>

definition select_columns :: "'n ent_meta \<Rightarrow> string list \<Rightarrow> err + string list" where
  "select_columns m fs =
     (if fs = [] then Inr (em_Columns m)
      else (case filter (\<lambda>f. \<not> em_ValidColumn m f) fs of
          f # _ \<Rightarrow> Inl (EValidation f ''ent: invalid field for query'')
        | [] \<Rightarrow> Inr (fst (em_IDSpec m) # filter (\<lambda>f. f \<noteq> fst (em_IDSpec m)) fs)))"

definition update_one :: "'n ent_meta \<Rightarrow> 's ent_graph \<Rightarrow> node_update \<Rightarrow> ('s, 'n) io" where
  "update_one m g nu s =
     (case UpdateNode g nu s of
        (Inl e, s') \<Rightarrow> (Inl (wrap_update_err (em_Label m) e), s')
      | (Inr row, s') \<Rightarrow> (em_Assign m row, s'))"

end
