(* ===== verification/Ent_Upsert.thy ===== *)
theory Ent_Upsert
  imports Ent_Graph
begin

text \<open>
  The rest of the create builders of the five entities (\<^verbatim>\<open>ent/*_create.go\<close>): the setters for pointers and
  entities, the variants that panic or drop the result, and the conflict clauses of a single and of a bulk
  insert. An \<^verbatim>\<open>UpsertOne\<close> holds nothing but its create builder and an \<^verbatim>\<open>UpsertBulk\<close> nothing but its bulk
  builder, so they are these builders here; an \<^verbatim>\<open>Upsert\<close> is the list of its assignments, and a function over
  it a function on such lists.
\<close>

section \<open>\<^verbatim>\<open>ent/account_create.go\<close>\<close>

definition AccountCreate_AddTransfersTo :: "ent_transfer list \<Rightarrow> account_create
    \<Rightarrow> account_create" where
  "AccountCreate_AddTransfersTo v c = AccountCreate_AddTransfersToIDs (map ef_ID v) c"

definition AccountCreate_AddTransfersFrom :: "ent_transfer list \<Rightarrow> account_create
    \<Rightarrow> account_create" where
  "AccountCreate_AddTransfersFrom v c = AccountCreate_AddTransfersFromIDs (map ef_ID v) c"

definition AccountCreate_Mutation :: "account_create \<Rightarrow> account_mutation" where
  "AccountCreate_Mutation c = acb_mutation c"

definition AccountCreate_SaveX :: "'s ent_client \<Rightarrow> account_create
    \<Rightarrow> ('s, ent_account) io" where
  "AccountCreate_SaveX cl c = must (AccountCreate_Save cl c)"

definition AccountCreate_Exec :: "'s ent_client \<Rightarrow> account_create
    \<Rightarrow> ('s, unit) io" where
  "AccountCreate_Exec cl c = drop_result (AccountCreate_Save cl c)"

definition AccountCreate_ExecX :: "'s ent_client \<Rightarrow> account_create
    \<Rightarrow> ('s, unit) io" where
  "AccountCreate_ExecX cl c = must (AccountCreate_Exec cl c)"

definition AccountCreate_OnConflict :: "conflict_opt list \<Rightarrow> account_create
    \<Rightarrow> account_create" where
  "AccountCreate_OnConflict opts c = c\<lparr>acb_conflict := opts\<rparr>"

definition AccountCreate_OnConflictColumns :: "string list \<Rightarrow> account_create
    \<Rightarrow> account_create" where
  "AccountCreate_OnConflictColumns columns c = 
     c\<lparr>acb_conflict := acb_conflict c @ [ConflictColumns columns]\<rparr>"

definition AccountUpsert_SetToken :: "string \<Rightarrow> update_set list
    \<Rightarrow> update_set list" where
  "AccountUpsert_SetToken v u = u @ [SetValue account_FieldToken (VString v)]"

definition AccountUpsert_UpdateToken :: "update_set list \<Rightarrow> update_set list" where
  "AccountUpsert_UpdateToken u = u @ [SetExcluded account_FieldToken]"

definition AccountUpsert_SetAmount :: "float64 \<Rightarrow> update_set list
    \<Rightarrow> update_set list" where
  "AccountUpsert_SetAmount v u = u @ [SetValue account_FieldAmount (VFloat v)]"

definition AccountUpsert_UpdateAmount :: "update_set list \<Rightarrow> update_set list" where
  "AccountUpsert_UpdateAmount u = u @ [SetExcluded account_FieldAmount]"

definition AccountUpsert_AddAmount :: "float64 \<Rightarrow> update_set list
    \<Rightarrow> update_set list" where
  "AccountUpsert_AddAmount v u = u @ [AddValue account_FieldAmount (VFloat v)]"

definition AccountUpsertOne_UpdateNewValues :: "account_create \<Rightarrow> account_create" where
  "AccountUpsertOne_UpdateNewValues c = 
     c\<lparr>acb_conflict := acb_conflict c @ [ResolveWithNewValues,
       IgnoreGiven [account_FieldID]]\<rparr>"

definition AccountUpsertOne_Ignore :: "account_create \<Rightarrow> account_create" where
  "AccountUpsertOne_Ignore c = 
     c\<lparr>acb_conflict := acb_conflict c @ [ResolveWithIgnore]\<rparr>"

definition AccountUpsertOne_DoNothing :: "account_create \<Rightarrow> account_create" where
  "AccountUpsertOne_DoNothing c = 
     c\<lparr>acb_conflict := acb_conflict c @ [DoNothing]\<rparr>"

definition AccountUpsertOne_Update :: "(update_set list \<Rightarrow> update_set list)
    \<Rightarrow> account_create \<Rightarrow> account_create" where
  "AccountUpsertOne_Update set_fn c = 
     c\<lparr>acb_conflict := acb_conflict c @ [ResolveWith (set_fn [])]\<rparr>"

definition AccountUpsertOne_SetToken :: "string \<Rightarrow> account_create
    \<Rightarrow> account_create" where
  "AccountUpsertOne_SetToken v = AccountUpsertOne_Update (AccountUpsert_SetToken v)"

definition AccountUpsertOne_UpdateToken :: "account_create \<Rightarrow> account_create" where
  "AccountUpsertOne_UpdateToken = AccountUpsertOne_Update AccountUpsert_UpdateToken"

definition AccountUpsertOne_SetAmount :: "float64 \<Rightarrow> account_create
    \<Rightarrow> account_create" where
  "AccountUpsertOne_SetAmount v = AccountUpsertOne_Update (AccountUpsert_SetAmount v)"

definition AccountUpsertOne_AddAmount :: "float64 \<Rightarrow> account_create
    \<Rightarrow> account_create" where
  "AccountUpsertOne_AddAmount v = AccountUpsertOne_Update (AccountUpsert_AddAmount v)"

definition AccountUpsertOne_UpdateAmount :: "account_create \<Rightarrow> account_create" where
  "AccountUpsertOne_UpdateAmount = AccountUpsertOne_Update AccountUpsert_UpdateAmount"

definition AccountUpsertOne_Exec :: "'s ent_client \<Rightarrow> account_create
    \<Rightarrow> ('s, unit) io" where
  "AccountUpsertOne_Exec cl c s = 
     (if acb_conflict c = [] then (Inl (EMsg ''ent: missing options for AccountCreate.OnConflict''), s)
      else AccountCreate_Exec cl c s)"

definition AccountUpsertOne_ExecX :: "'s ent_client \<Rightarrow> account_create
    \<Rightarrow> ('s, unit) io" where
  "AccountUpsertOne_ExecX cl c = must (AccountCreate_Exec cl c)"

definition AccountUpsertOne_ID :: "'s ent_graph \<Rightarrow> account_create
    \<Rightarrow> ('s, string) io" where
  "AccountUpsertOne_ID g c s = 
     (if eg_Dialect g = ''mysql'' then
        (Inl (EMsg ''ent: AccountUpsertOne.ID is not supported by MySQL driver. Use AccountUpsertOne.Exec instead''), s)
      else (case AccountCreate_Save (eg_client g) c s of (Inl e, s') \<Rightarrow> (Inl e, s') | (Inr n, s') \<Rightarrow> (Inr (ea_ID n), s')))"

definition AccountUpsertOne_IDX :: "'s ent_graph \<Rightarrow> account_create
    \<Rightarrow> ('s, string) io" where
  "AccountUpsertOne_IDX g c = must (AccountUpsertOne_ID g c)"

definition AccountCreateBulk_SaveX :: "'s ent_client \<Rightarrow> account_create_bulk
    \<Rightarrow> ('s, ent_account list) io" where
  "AccountCreateBulk_SaveX cl b = must (AccountCreateBulk_Save cl b)"

definition AccountCreateBulk_Exec :: "'s ent_client \<Rightarrow> account_create_bulk
    \<Rightarrow> ('s, unit) io" where
  "AccountCreateBulk_Exec cl b = drop_result (AccountCreateBulk_Save cl b)"

definition AccountCreateBulk_ExecX :: "'s ent_client \<Rightarrow> account_create_bulk
    \<Rightarrow> ('s, unit) io" where
  "AccountCreateBulk_ExecX cl b = must (AccountCreateBulk_Exec cl b)"

definition AccountCreateBulk_OnConflict :: "conflict_opt list \<Rightarrow> account_create_bulk
    \<Rightarrow> account_create_bulk" where
  "AccountCreateBulk_OnConflict opts b = b\<lparr>abk_conflict := opts\<rparr>"

definition AccountCreateBulk_OnConflictColumns :: "string list \<Rightarrow> account_create_bulk
    \<Rightarrow> account_create_bulk" where
  "AccountCreateBulk_OnConflictColumns columns b = 
     b\<lparr>abk_conflict := abk_conflict b @ [ConflictColumns columns]\<rparr>"

definition AccountUpsertBulk_UpdateNewValues :: "account_create_bulk
    \<Rightarrow> account_create_bulk" where
  "AccountUpsertBulk_UpdateNewValues b = 
     b\<lparr>abk_conflict := abk_conflict b @ [ResolveWithNewValues,
       IgnoreGiven [account_FieldID]]\<rparr>"

definition AccountUpsertBulk_Ignore :: "account_create_bulk \<Rightarrow> account_create_bulk" where
  "AccountUpsertBulk_Ignore b = 
     b\<lparr>abk_conflict := abk_conflict b @ [ResolveWithIgnore]\<rparr>"

definition AccountUpsertBulk_DoNothing :: "account_create_bulk
    \<Rightarrow> account_create_bulk" where
  "AccountUpsertBulk_DoNothing b = 
     b\<lparr>abk_conflict := abk_conflict b @ [DoNothing]\<rparr>"

definition AccountUpsertBulk_Update :: "(update_set list \<Rightarrow> update_set list)
    \<Rightarrow> account_create_bulk \<Rightarrow> account_create_bulk" where
  "AccountUpsertBulk_Update set_fn b = 
     b\<lparr>abk_conflict := abk_conflict b @ [ResolveWith (set_fn [])]\<rparr>"

definition AccountUpsertBulk_SetToken :: "string \<Rightarrow> account_create_bulk
    \<Rightarrow> account_create_bulk" where
  "AccountUpsertBulk_SetToken v = AccountUpsertBulk_Update (AccountUpsert_SetToken v)"

definition AccountUpsertBulk_UpdateToken :: "account_create_bulk
    \<Rightarrow> account_create_bulk" where
  "AccountUpsertBulk_UpdateToken = AccountUpsertBulk_Update AccountUpsert_UpdateToken"

definition AccountUpsertBulk_SetAmount :: "float64 \<Rightarrow> account_create_bulk
    \<Rightarrow> account_create_bulk" where
  "AccountUpsertBulk_SetAmount v = AccountUpsertBulk_Update (AccountUpsert_SetAmount v)"

definition AccountUpsertBulk_AddAmount :: "float64 \<Rightarrow> account_create_bulk
    \<Rightarrow> account_create_bulk" where
  "AccountUpsertBulk_AddAmount v = AccountUpsertBulk_Update (AccountUpsert_AddAmount v)"

definition AccountUpsertBulk_UpdateAmount :: "account_create_bulk
    \<Rightarrow> account_create_bulk" where
  "AccountUpsertBulk_UpdateAmount = AccountUpsertBulk_Update AccountUpsert_UpdateAmount"

definition AccountUpsertBulk_Exec :: "'s ent_client \<Rightarrow> account_create_bulk
    \<Rightarrow> ('s, unit) io" where
  "AccountUpsertBulk_Exec cl b s = 
     (case abk_err b of Some e \<Rightarrow> (Inl e, s)
      | None \<Rightarrow>
        if list_ex (\<lambda>c. acb_conflict c \<noteq> []) (abk_builders b)
          then (Inl (EMsg ''ent: OnConflict was set for builder''), s)
        else if abk_conflict b = []
          then (Inl (EMsg ''ent: missing options for AccountCreateBulk.OnConflict''), s)
        else AccountCreateBulk_Exec cl b s)"

definition AccountUpsertBulk_ExecX :: "'s ent_client \<Rightarrow> account_create_bulk
    \<Rightarrow> ('s, unit) io" where
  "AccountUpsertBulk_ExecX cl b = must (AccountCreateBulk_Exec cl b)"

lemmas account_upsert_defs = AccountCreate_AddTransfersTo_def AccountCreate_AddTransfersFrom_def
  AccountCreate_Mutation_def AccountCreate_SaveX_def
  AccountCreate_Exec_def AccountCreate_ExecX_def
  AccountCreate_OnConflict_def AccountCreate_OnConflictColumns_def
  AccountUpsert_SetToken_def AccountUpsert_UpdateToken_def
  AccountUpsert_SetAmount_def AccountUpsert_UpdateAmount_def
  AccountUpsert_AddAmount_def AccountUpsertOne_UpdateNewValues_def
  AccountUpsertOne_Ignore_def AccountUpsertOne_DoNothing_def
  AccountUpsertOne_Update_def AccountUpsertOne_SetToken_def
  AccountUpsertOne_UpdateToken_def AccountUpsertOne_SetAmount_def
  AccountUpsertOne_AddAmount_def AccountUpsertOne_UpdateAmount_def
  AccountUpsertOne_Exec_def AccountUpsertOne_ExecX_def
  AccountUpsertOne_ID_def AccountUpsertOne_IDX_def
  AccountCreateBulk_SaveX_def AccountCreateBulk_Exec_def
  AccountCreateBulk_ExecX_def AccountCreateBulk_OnConflict_def
  AccountCreateBulk_OnConflictColumns_def AccountUpsertBulk_UpdateNewValues_def
  AccountUpsertBulk_Ignore_def AccountUpsertBulk_DoNothing_def
  AccountUpsertBulk_Update_def AccountUpsertBulk_SetToken_def
  AccountUpsertBulk_UpdateToken_def AccountUpsertBulk_SetAmount_def
  AccountUpsertBulk_AddAmount_def AccountUpsertBulk_UpdateAmount_def
  AccountUpsertBulk_Exec_def AccountUpsertBulk_ExecX_def

section \<open>\<^verbatim>\<open>ent/block_create.go\<close>\<close>

definition BlockCreate_SetNillableCreatedAt :: "go_time option \<Rightarrow> block_create
    \<Rightarrow> block_create" where
  "BlockCreate_SetNillableCreatedAt v c = (case v of None \<Rightarrow> c | Some w \<Rightarrow> BlockCreate_SetCreatedAt w c)"

definition BlockCreate_AddTransactions :: "ent_transaction list \<Rightarrow> block_create
    \<Rightarrow> block_create" where
  "BlockCreate_AddTransactions v c = BlockCreate_AddTransactionIDs (map et_ID v) c"

definition BlockCreate_Mutation :: "block_create \<Rightarrow> block_mutation" where
  "BlockCreate_Mutation c = bcb_mutation c"

definition BlockCreate_SaveX :: "'s ent_client \<Rightarrow> block_create
    \<Rightarrow> ('s, ent_block) io" where
  "BlockCreate_SaveX cl c = must (BlockCreate_Save cl c)"

definition BlockCreate_Exec :: "'s ent_client \<Rightarrow> block_create
    \<Rightarrow> ('s, unit) io" where
  "BlockCreate_Exec cl c = drop_result (BlockCreate_Save cl c)"

definition BlockCreate_ExecX :: "'s ent_client \<Rightarrow> block_create
    \<Rightarrow> ('s, unit) io" where
  "BlockCreate_ExecX cl c = must (BlockCreate_Exec cl c)"

definition BlockCreate_OnConflict :: "conflict_opt list \<Rightarrow> block_create
    \<Rightarrow> block_create" where
  "BlockCreate_OnConflict opts c = c\<lparr>bcb_conflict := opts\<rparr>"

definition BlockCreate_OnConflictColumns :: "string list \<Rightarrow> block_create
    \<Rightarrow> block_create" where
  "BlockCreate_OnConflictColumns columns c = 
     c\<lparr>bcb_conflict := bcb_conflict c @ [ConflictColumns columns]\<rparr>"

definition BlockUpsert_SetHash :: "string \<Rightarrow> update_set list
    \<Rightarrow> update_set list" where
  "BlockUpsert_SetHash v u = u @ [SetValue block_FieldHash (VString v)]"

definition BlockUpsert_UpdateHash :: "update_set list \<Rightarrow> update_set list" where
  "BlockUpsert_UpdateHash u = u @ [SetExcluded block_FieldHash]"

definition BlockUpsert_SetTime :: "go_time \<Rightarrow> update_set list
    \<Rightarrow> update_set list" where
  "BlockUpsert_SetTime v u = u @ [SetValue block_FieldTime (VTime v)]"

definition BlockUpsert_UpdateTime :: "update_set list \<Rightarrow> update_set list" where
  "BlockUpsert_UpdateTime u = u @ [SetExcluded block_FieldTime]"

definition BlockUpsert_SetTotalTxs :: "int \<Rightarrow> update_set list
    \<Rightarrow> update_set list" where
  "BlockUpsert_SetTotalTxs v u = u @ [SetValue block_FieldTotalTxs (VInt v)]"

definition BlockUpsert_UpdateTotalTxs :: "update_set list \<Rightarrow> update_set list" where
  "BlockUpsert_UpdateTotalTxs u = u @ [SetExcluded block_FieldTotalTxs]"

definition BlockUpsert_AddTotalTxs :: "int \<Rightarrow> update_set list
    \<Rightarrow> update_set list" where
  "BlockUpsert_AddTotalTxs v u = u @ [AddValue block_FieldTotalTxs (VInt v)]"

definition BlockUpsert_SetNumTxs :: "int \<Rightarrow> update_set list
    \<Rightarrow> update_set list" where
  "BlockUpsert_SetNumTxs v u = u @ [SetValue block_FieldNumTxs (VInt v)]"

definition BlockUpsert_UpdateNumTxs :: "update_set list \<Rightarrow> update_set list" where
  "BlockUpsert_UpdateNumTxs u = u @ [SetExcluded block_FieldNumTxs]"

definition BlockUpsert_AddNumTxs :: "int \<Rightarrow> update_set list
    \<Rightarrow> update_set list" where
  "BlockUpsert_AddNumTxs v u = u @ [AddValue block_FieldNumTxs (VInt v)]"

definition BlockUpsertOne_UpdateNewValues :: "block_create \<Rightarrow> block_create" where
  "BlockUpsertOne_UpdateNewValues c = 
     c\<lparr>bcb_conflict := bcb_conflict c @ [ResolveWithNewValues,
       IgnoreGiven [block_FieldID, block_FieldCreatedAt]]\<rparr>"

definition BlockUpsertOne_Ignore :: "block_create \<Rightarrow> block_create" where
  "BlockUpsertOne_Ignore c = 
     c\<lparr>bcb_conflict := bcb_conflict c @ [ResolveWithIgnore]\<rparr>"

definition BlockUpsertOne_DoNothing :: "block_create \<Rightarrow> block_create" where
  "BlockUpsertOne_DoNothing c = 
     c\<lparr>bcb_conflict := bcb_conflict c @ [DoNothing]\<rparr>"

definition BlockUpsertOne_Update :: "(update_set list \<Rightarrow> update_set list)
    \<Rightarrow> block_create \<Rightarrow> block_create" where
  "BlockUpsertOne_Update set_fn c = 
     c\<lparr>bcb_conflict := bcb_conflict c @ [ResolveWith (set_fn [])]\<rparr>"

definition BlockUpsertOne_SetHash :: "string \<Rightarrow> block_create
    \<Rightarrow> block_create" where
  "BlockUpsertOne_SetHash v = BlockUpsertOne_Update (BlockUpsert_SetHash v)"

definition BlockUpsertOne_UpdateHash :: "block_create \<Rightarrow> block_create" where
  "BlockUpsertOne_UpdateHash = BlockUpsertOne_Update BlockUpsert_UpdateHash"

definition BlockUpsertOne_SetTime :: "go_time \<Rightarrow> block_create
    \<Rightarrow> block_create" where
  "BlockUpsertOne_SetTime v = BlockUpsertOne_Update (BlockUpsert_SetTime v)"

definition BlockUpsertOne_UpdateTime :: "block_create \<Rightarrow> block_create" where
  "BlockUpsertOne_UpdateTime = BlockUpsertOne_Update BlockUpsert_UpdateTime"

definition BlockUpsertOne_SetTotalTxs :: "int \<Rightarrow> block_create
    \<Rightarrow> block_create" where
  "BlockUpsertOne_SetTotalTxs v = BlockUpsertOne_Update (BlockUpsert_SetTotalTxs v)"

definition BlockUpsertOne_AddTotalTxs :: "int \<Rightarrow> block_create
    \<Rightarrow> block_create" where
  "BlockUpsertOne_AddTotalTxs v = BlockUpsertOne_Update (BlockUpsert_AddTotalTxs v)"

definition BlockUpsertOne_UpdateTotalTxs :: "block_create \<Rightarrow> block_create" where
  "BlockUpsertOne_UpdateTotalTxs = BlockUpsertOne_Update BlockUpsert_UpdateTotalTxs"

definition BlockUpsertOne_SetNumTxs :: "int \<Rightarrow> block_create
    \<Rightarrow> block_create" where
  "BlockUpsertOne_SetNumTxs v = BlockUpsertOne_Update (BlockUpsert_SetNumTxs v)"

definition BlockUpsertOne_AddNumTxs :: "int \<Rightarrow> block_create
    \<Rightarrow> block_create" where
  "BlockUpsertOne_AddNumTxs v = BlockUpsertOne_Update (BlockUpsert_AddNumTxs v)"

definition BlockUpsertOne_UpdateNumTxs :: "block_create \<Rightarrow> block_create" where
  "BlockUpsertOne_UpdateNumTxs = BlockUpsertOne_Update BlockUpsert_UpdateNumTxs"

definition BlockUpsertOne_Exec :: "'s ent_client \<Rightarrow> block_create
    \<Rightarrow> ('s, unit) io" where
  "BlockUpsertOne_Exec cl c s = 
     (if bcb_conflict c = [] then (Inl (EMsg ''ent: missing options for BlockCreate.OnConflict''), s)
      else BlockCreate_Exec cl c s)"

definition BlockUpsertOne_ExecX :: "'s ent_client \<Rightarrow> block_create
    \<Rightarrow> ('s, unit) io" where
  "BlockUpsertOne_ExecX cl c = must (BlockCreate_Exec cl c)"

definition BlockUpsertOne_ID :: "'s ent_graph \<Rightarrow> block_create
    \<Rightarrow> ('s, int) io" where
  "BlockUpsertOne_ID g c s = 
     (case BlockCreate_Save (eg_client g) c s of (Inl e, s') \<Rightarrow> (Inl e, s') | (Inr n, s') \<Rightarrow> (Inr (eb_ID n), s'))"

definition BlockUpsertOne_IDX :: "'s ent_graph \<Rightarrow> block_create
    \<Rightarrow> ('s, int) io" where
  "BlockUpsertOne_IDX g c = must (BlockUpsertOne_ID g c)"

definition BlockCreateBulk_SaveX :: "'s ent_client \<Rightarrow> block_create_bulk
    \<Rightarrow> ('s, ent_block list) io" where
  "BlockCreateBulk_SaveX cl b = must (BlockCreateBulk_Save cl b)"

definition BlockCreateBulk_Exec :: "'s ent_client \<Rightarrow> block_create_bulk
    \<Rightarrow> ('s, unit) io" where
  "BlockCreateBulk_Exec cl b = drop_result (BlockCreateBulk_Save cl b)"

definition BlockCreateBulk_ExecX :: "'s ent_client \<Rightarrow> block_create_bulk
    \<Rightarrow> ('s, unit) io" where
  "BlockCreateBulk_ExecX cl b = must (BlockCreateBulk_Exec cl b)"

definition BlockCreateBulk_OnConflict :: "conflict_opt list \<Rightarrow> block_create_bulk
    \<Rightarrow> block_create_bulk" where
  "BlockCreateBulk_OnConflict opts b = b\<lparr>bbk_conflict := opts\<rparr>"

definition BlockCreateBulk_OnConflictColumns :: "string list \<Rightarrow> block_create_bulk
    \<Rightarrow> block_create_bulk" where
  "BlockCreateBulk_OnConflictColumns columns b = 
     b\<lparr>bbk_conflict := bbk_conflict b @ [ConflictColumns columns]\<rparr>"

definition BlockUpsertBulk_UpdateNewValues :: "block_create_bulk
    \<Rightarrow> block_create_bulk" where
  "BlockUpsertBulk_UpdateNewValues b = 
     b\<lparr>bbk_conflict := bbk_conflict b @ [ResolveWithNewValues,
       IgnoreGiven [block_FieldID, block_FieldCreatedAt]]\<rparr>"

definition BlockUpsertBulk_Ignore :: "block_create_bulk \<Rightarrow> block_create_bulk" where
  "BlockUpsertBulk_Ignore b = 
     b\<lparr>bbk_conflict := bbk_conflict b @ [ResolveWithIgnore]\<rparr>"

definition BlockUpsertBulk_DoNothing :: "block_create_bulk \<Rightarrow> block_create_bulk" where
  "BlockUpsertBulk_DoNothing b = 
     b\<lparr>bbk_conflict := bbk_conflict b @ [DoNothing]\<rparr>"

definition BlockUpsertBulk_Update :: "(update_set list \<Rightarrow> update_set list)
    \<Rightarrow> block_create_bulk \<Rightarrow> block_create_bulk" where
  "BlockUpsertBulk_Update set_fn b = 
     b\<lparr>bbk_conflict := bbk_conflict b @ [ResolveWith (set_fn [])]\<rparr>"

definition BlockUpsertBulk_SetHash :: "string \<Rightarrow> block_create_bulk
    \<Rightarrow> block_create_bulk" where
  "BlockUpsertBulk_SetHash v = BlockUpsertBulk_Update (BlockUpsert_SetHash v)"

definition BlockUpsertBulk_UpdateHash :: "block_create_bulk \<Rightarrow> block_create_bulk" where
  "BlockUpsertBulk_UpdateHash = BlockUpsertBulk_Update BlockUpsert_UpdateHash"

definition BlockUpsertBulk_SetTime :: "go_time \<Rightarrow> block_create_bulk
    \<Rightarrow> block_create_bulk" where
  "BlockUpsertBulk_SetTime v = BlockUpsertBulk_Update (BlockUpsert_SetTime v)"

definition BlockUpsertBulk_UpdateTime :: "block_create_bulk \<Rightarrow> block_create_bulk" where
  "BlockUpsertBulk_UpdateTime = BlockUpsertBulk_Update BlockUpsert_UpdateTime"

definition BlockUpsertBulk_SetTotalTxs :: "int \<Rightarrow> block_create_bulk
    \<Rightarrow> block_create_bulk" where
  "BlockUpsertBulk_SetTotalTxs v = BlockUpsertBulk_Update (BlockUpsert_SetTotalTxs v)"

definition BlockUpsertBulk_AddTotalTxs :: "int \<Rightarrow> block_create_bulk
    \<Rightarrow> block_create_bulk" where
  "BlockUpsertBulk_AddTotalTxs v = BlockUpsertBulk_Update (BlockUpsert_AddTotalTxs v)"

definition BlockUpsertBulk_UpdateTotalTxs :: "block_create_bulk
    \<Rightarrow> block_create_bulk" where
  "BlockUpsertBulk_UpdateTotalTxs = BlockUpsertBulk_Update BlockUpsert_UpdateTotalTxs"

definition BlockUpsertBulk_SetNumTxs :: "int \<Rightarrow> block_create_bulk
    \<Rightarrow> block_create_bulk" where
  "BlockUpsertBulk_SetNumTxs v = BlockUpsertBulk_Update (BlockUpsert_SetNumTxs v)"

definition BlockUpsertBulk_AddNumTxs :: "int \<Rightarrow> block_create_bulk
    \<Rightarrow> block_create_bulk" where
  "BlockUpsertBulk_AddNumTxs v = BlockUpsertBulk_Update (BlockUpsert_AddNumTxs v)"

definition BlockUpsertBulk_UpdateNumTxs :: "block_create_bulk \<Rightarrow> block_create_bulk" where
  "BlockUpsertBulk_UpdateNumTxs = BlockUpsertBulk_Update BlockUpsert_UpdateNumTxs"

definition BlockUpsertBulk_Exec :: "'s ent_client \<Rightarrow> block_create_bulk
    \<Rightarrow> ('s, unit) io" where
  "BlockUpsertBulk_Exec cl b s = 
     (case bbk_err b of Some e \<Rightarrow> (Inl e, s)
      | None \<Rightarrow>
        if list_ex (\<lambda>c. bcb_conflict c \<noteq> []) (bbk_builders b)
          then (Inl (EMsg ''ent: OnConflict was set for builder''), s)
        else if bbk_conflict b = []
          then (Inl (EMsg ''ent: missing options for BlockCreateBulk.OnConflict''), s)
        else BlockCreateBulk_Exec cl b s)"

definition BlockUpsertBulk_ExecX :: "'s ent_client \<Rightarrow> block_create_bulk
    \<Rightarrow> ('s, unit) io" where
  "BlockUpsertBulk_ExecX cl b = must (BlockCreateBulk_Exec cl b)"

lemmas block_upsert_defs = BlockCreate_SetNillableCreatedAt_def BlockCreate_AddTransactions_def
  BlockCreate_Mutation_def BlockCreate_SaveX_def
  BlockCreate_Exec_def BlockCreate_ExecX_def
  BlockCreate_OnConflict_def BlockCreate_OnConflictColumns_def
  BlockUpsert_SetHash_def BlockUpsert_UpdateHash_def
  BlockUpsert_SetTime_def BlockUpsert_UpdateTime_def
  BlockUpsert_SetTotalTxs_def BlockUpsert_UpdateTotalTxs_def
  BlockUpsert_AddTotalTxs_def BlockUpsert_SetNumTxs_def
  BlockUpsert_UpdateNumTxs_def BlockUpsert_AddNumTxs_def
  BlockUpsertOne_UpdateNewValues_def BlockUpsertOne_Ignore_def
  BlockUpsertOne_DoNothing_def BlockUpsertOne_Update_def
  BlockUpsertOne_SetHash_def BlockUpsertOne_UpdateHash_def
  BlockUpsertOne_SetTime_def BlockUpsertOne_UpdateTime_def
  BlockUpsertOne_SetTotalTxs_def BlockUpsertOne_AddTotalTxs_def
  BlockUpsertOne_UpdateTotalTxs_def BlockUpsertOne_SetNumTxs_def
  BlockUpsertOne_AddNumTxs_def BlockUpsertOne_UpdateNumTxs_def
  BlockUpsertOne_Exec_def BlockUpsertOne_ExecX_def
  BlockUpsertOne_ID_def BlockUpsertOne_IDX_def
  BlockCreateBulk_SaveX_def BlockCreateBulk_Exec_def
  BlockCreateBulk_ExecX_def BlockCreateBulk_OnConflict_def
  BlockCreateBulk_OnConflictColumns_def BlockUpsertBulk_UpdateNewValues_def
  BlockUpsertBulk_Ignore_def BlockUpsertBulk_DoNothing_def
  BlockUpsertBulk_Update_def BlockUpsertBulk_SetHash_def
  BlockUpsertBulk_UpdateHash_def BlockUpsertBulk_SetTime_def
  BlockUpsertBulk_UpdateTime_def BlockUpsertBulk_SetTotalTxs_def
  BlockUpsertBulk_AddTotalTxs_def BlockUpsertBulk_UpdateTotalTxs_def
  BlockUpsertBulk_SetNumTxs_def BlockUpsertBulk_AddNumTxs_def
  BlockUpsertBulk_UpdateNumTxs_def BlockUpsertBulk_Exec_def
  BlockUpsertBulk_ExecX_def

section \<open>\<^verbatim>\<open>ent/restorehistory_create.go\<close>\<close>

definition RestoreHistoryCreate_Mutation :: "restorehistory_create
    \<Rightarrow> restorehistory_mutation" where
  "RestoreHistoryCreate_Mutation c = hcb_mutation c"

definition RestoreHistoryCreate_SaveX :: "'s ent_client \<Rightarrow> restorehistory_create
    \<Rightarrow> ('s, ent_restorehistory) io" where
  "RestoreHistoryCreate_SaveX cl c = must (RestoreHistoryCreate_Save cl c)"

definition RestoreHistoryCreate_Exec :: "'s ent_client \<Rightarrow> restorehistory_create
    \<Rightarrow> ('s, unit) io" where
  "RestoreHistoryCreate_Exec cl c = drop_result (RestoreHistoryCreate_Save cl c)"

definition RestoreHistoryCreate_ExecX :: "'s ent_client \<Rightarrow> restorehistory_create
    \<Rightarrow> ('s, unit) io" where
  "RestoreHistoryCreate_ExecX cl c = must (RestoreHistoryCreate_Exec cl c)"

definition RestoreHistoryCreate_OnConflict :: "conflict_opt list \<Rightarrow> restorehistory_create
    \<Rightarrow> restorehistory_create" where
  "RestoreHistoryCreate_OnConflict opts c = c\<lparr>hcb_conflict := opts\<rparr>"

definition RestoreHistoryCreate_OnConflictColumns :: "string list \<Rightarrow> restorehistory_create
    \<Rightarrow> restorehistory_create" where
  "RestoreHistoryCreate_OnConflictColumns columns c = 
     c\<lparr>hcb_conflict := hcb_conflict c @ [ConflictColumns columns]\<rparr>"

definition RestoreHistoryUpsert_SetRestoreRangeStart :: "int \<Rightarrow> update_set list
    \<Rightarrow> update_set list" where
  "RestoreHistoryUpsert_SetRestoreRangeStart v u = u @ [SetValue restorehistory_FieldRestoreRangeStart (VInt v)]"

definition RestoreHistoryUpsert_UpdateRestoreRangeStart :: "update_set list
    \<Rightarrow> update_set list" where
  "RestoreHistoryUpsert_UpdateRestoreRangeStart u = u @ [SetExcluded restorehistory_FieldRestoreRangeStart]"

definition RestoreHistoryUpsert_AddRestoreRangeStart :: "int \<Rightarrow> update_set list
    \<Rightarrow> update_set list" where
  "RestoreHistoryUpsert_AddRestoreRangeStart v u = u @ [AddValue restorehistory_FieldRestoreRangeStart (VInt v)]"

definition RestoreHistoryUpsert_SetRestoreRangeEnd :: "int \<Rightarrow> update_set list
    \<Rightarrow> update_set list" where
  "RestoreHistoryUpsert_SetRestoreRangeEnd v u = u @ [SetValue restorehistory_FieldRestoreRangeEnd (VInt v)]"

definition RestoreHistoryUpsert_UpdateRestoreRangeEnd :: "update_set list
    \<Rightarrow> update_set list" where
  "RestoreHistoryUpsert_UpdateRestoreRangeEnd u = u @ [SetExcluded restorehistory_FieldRestoreRangeEnd]"

definition RestoreHistoryUpsert_AddRestoreRangeEnd :: "int \<Rightarrow> update_set list
    \<Rightarrow> update_set list" where
  "RestoreHistoryUpsert_AddRestoreRangeEnd v u = u @ [AddValue restorehistory_FieldRestoreRangeEnd (VInt v)]"

definition RestoreHistoryUpsert_SetBeingBlock :: "int \<Rightarrow> update_set list
    \<Rightarrow> update_set list" where
  "RestoreHistoryUpsert_SetBeingBlock v u = u @ [SetValue restorehistory_FieldBeingBlock (VInt v)]"

definition RestoreHistoryUpsert_UpdateBeingBlock :: "update_set list
    \<Rightarrow> update_set list" where
  "RestoreHistoryUpsert_UpdateBeingBlock u = u @ [SetExcluded restorehistory_FieldBeingBlock]"

definition RestoreHistoryUpsert_AddBeingBlock :: "int \<Rightarrow> update_set list
    \<Rightarrow> update_set list" where
  "RestoreHistoryUpsert_AddBeingBlock v u = u @ [AddValue restorehistory_FieldBeingBlock (VInt v)]"

definition RestoreHistoryUpsertOne_UpdateNewValues :: "restorehistory_create
    \<Rightarrow> restorehistory_create" where
  "RestoreHistoryUpsertOne_UpdateNewValues c = 
     c\<lparr>hcb_conflict := hcb_conflict c @ [ResolveWithNewValues,
       IgnoreGiven [restorehistory_FieldID]]\<rparr>"

definition RestoreHistoryUpsertOne_Ignore :: "restorehistory_create
    \<Rightarrow> restorehistory_create" where
  "RestoreHistoryUpsertOne_Ignore c = 
     c\<lparr>hcb_conflict := hcb_conflict c @ [ResolveWithIgnore]\<rparr>"

definition RestoreHistoryUpsertOne_DoNothing :: "restorehistory_create
    \<Rightarrow> restorehistory_create" where
  "RestoreHistoryUpsertOne_DoNothing c = 
     c\<lparr>hcb_conflict := hcb_conflict c @ [DoNothing]\<rparr>"

definition RestoreHistoryUpsertOne_Update :: "(update_set list \<Rightarrow> update_set list)
    \<Rightarrow> restorehistory_create \<Rightarrow> restorehistory_create" where
  "RestoreHistoryUpsertOne_Update set_fn c = 
     c\<lparr>hcb_conflict := hcb_conflict c @ [ResolveWith (set_fn [])]\<rparr>"

definition RestoreHistoryUpsertOne_SetRestoreRangeStart :: "int \<Rightarrow> restorehistory_create
    \<Rightarrow> restorehistory_create" where
  "RestoreHistoryUpsertOne_SetRestoreRangeStart v = RestoreHistoryUpsertOne_Update (RestoreHistoryUpsert_SetRestoreRangeStart v)"

definition RestoreHistoryUpsertOne_AddRestoreRangeStart :: "int \<Rightarrow> restorehistory_create
    \<Rightarrow> restorehistory_create" where
  "RestoreHistoryUpsertOne_AddRestoreRangeStart v = RestoreHistoryUpsertOne_Update (RestoreHistoryUpsert_AddRestoreRangeStart v)"

definition RestoreHistoryUpsertOne_UpdateRestoreRangeStart :: "restorehistory_create
    \<Rightarrow> restorehistory_create" where
  "RestoreHistoryUpsertOne_UpdateRestoreRangeStart = RestoreHistoryUpsertOne_Update RestoreHistoryUpsert_UpdateRestoreRangeStart"

definition RestoreHistoryUpsertOne_SetRestoreRangeEnd :: "int \<Rightarrow> restorehistory_create
    \<Rightarrow> restorehistory_create" where
  "RestoreHistoryUpsertOne_SetRestoreRangeEnd v = RestoreHistoryUpsertOne_Update (RestoreHistoryUpsert_SetRestoreRangeEnd v)"

definition RestoreHistoryUpsertOne_AddRestoreRangeEnd :: "int \<Rightarrow> restorehistory_create
    \<Rightarrow> restorehistory_create" where
  "RestoreHistoryUpsertOne_AddRestoreRangeEnd v = RestoreHistoryUpsertOne_Update (RestoreHistoryUpsert_AddRestoreRangeEnd v)"

definition RestoreHistoryUpsertOne_UpdateRestoreRangeEnd :: "restorehistory_create
    \<Rightarrow> restorehistory_create" where
  "RestoreHistoryUpsertOne_UpdateRestoreRangeEnd = RestoreHistoryUpsertOne_Update RestoreHistoryUpsert_UpdateRestoreRangeEnd"

definition RestoreHistoryUpsertOne_SetBeingBlock :: "int \<Rightarrow> restorehistory_create
    \<Rightarrow> restorehistory_create" where
  "RestoreHistoryUpsertOne_SetBeingBlock v = RestoreHistoryUpsertOne_Update (RestoreHistoryUpsert_SetBeingBlock v)"

definition RestoreHistoryUpsertOne_AddBeingBlock :: "int \<Rightarrow> restorehistory_create
    \<Rightarrow> restorehistory_create" where
  "RestoreHistoryUpsertOne_AddBeingBlock v = RestoreHistoryUpsertOne_Update (RestoreHistoryUpsert_AddBeingBlock v)"

definition RestoreHistoryUpsertOne_UpdateBeingBlock :: "restorehistory_create
    \<Rightarrow> restorehistory_create" where
  "RestoreHistoryUpsertOne_UpdateBeingBlock = RestoreHistoryUpsertOne_Update RestoreHistoryUpsert_UpdateBeingBlock"

definition RestoreHistoryUpsertOne_Exec :: "'s ent_client \<Rightarrow> restorehistory_create
    \<Rightarrow> ('s, unit) io" where
  "RestoreHistoryUpsertOne_Exec cl c s = 
     (if hcb_conflict c = [] then (Inl (EMsg ''ent: missing options for RestoreHistoryCreate.OnConflict''), s)
      else RestoreHistoryCreate_Exec cl c s)"

definition RestoreHistoryUpsertOne_ExecX :: "'s ent_client \<Rightarrow> restorehistory_create
    \<Rightarrow> ('s, unit) io" where
  "RestoreHistoryUpsertOne_ExecX cl c = must (RestoreHistoryCreate_Exec cl c)"

definition RestoreHistoryUpsertOne_ID :: "'s ent_graph \<Rightarrow> restorehistory_create
    \<Rightarrow> ('s, int) io" where
  "RestoreHistoryUpsertOne_ID g c s = 
     (case RestoreHistoryCreate_Save (eg_client g) c s of (Inl e, s') \<Rightarrow> (Inl e, s') | (Inr n, s') \<Rightarrow> (Inr (eh_ID n), s'))"

definition RestoreHistoryUpsertOne_IDX :: "'s ent_graph \<Rightarrow> restorehistory_create
    \<Rightarrow> ('s, int) io" where
  "RestoreHistoryUpsertOne_IDX g c = must (RestoreHistoryUpsertOne_ID g c)"

definition RestoreHistoryCreateBulk_SaveX :: "'s ent_client \<Rightarrow> restorehistory_create_bulk
    \<Rightarrow> ('s, ent_restorehistory list) io" where
  "RestoreHistoryCreateBulk_SaveX cl b = must (RestoreHistoryCreateBulk_Save cl b)"

definition RestoreHistoryCreateBulk_Exec :: "'s ent_client \<Rightarrow> restorehistory_create_bulk
    \<Rightarrow> ('s, unit) io" where
  "RestoreHistoryCreateBulk_Exec cl b = drop_result (RestoreHistoryCreateBulk_Save cl b)"

definition RestoreHistoryCreateBulk_ExecX :: "'s ent_client \<Rightarrow> restorehistory_create_bulk
    \<Rightarrow> ('s, unit) io" where
  "RestoreHistoryCreateBulk_ExecX cl b = must (RestoreHistoryCreateBulk_Exec cl b)"

definition RestoreHistoryCreateBulk_OnConflict :: "conflict_opt list
    \<Rightarrow> restorehistory_create_bulk \<Rightarrow> restorehistory_create_bulk" where
  "RestoreHistoryCreateBulk_OnConflict opts b = b\<lparr>hbk_conflict := opts\<rparr>"

definition RestoreHistoryCreateBulk_OnConflictColumns :: "string list \<Rightarrow> restorehistory_create_bulk
    \<Rightarrow> restorehistory_create_bulk" where
  "RestoreHistoryCreateBulk_OnConflictColumns columns b = 
     b\<lparr>hbk_conflict := hbk_conflict b @ [ConflictColumns columns]\<rparr>"

definition RestoreHistoryUpsertBulk_UpdateNewValues :: "restorehistory_create_bulk
    \<Rightarrow> restorehistory_create_bulk" where
  "RestoreHistoryUpsertBulk_UpdateNewValues b = 
     b\<lparr>hbk_conflict := hbk_conflict b @ [ResolveWithNewValues,
       IgnoreGiven [restorehistory_FieldID]]\<rparr>"

definition RestoreHistoryUpsertBulk_Ignore :: "restorehistory_create_bulk
    \<Rightarrow> restorehistory_create_bulk" where
  "RestoreHistoryUpsertBulk_Ignore b = 
     b\<lparr>hbk_conflict := hbk_conflict b @ [ResolveWithIgnore]\<rparr>"

definition RestoreHistoryUpsertBulk_DoNothing :: "restorehistory_create_bulk
    \<Rightarrow> restorehistory_create_bulk" where
  "RestoreHistoryUpsertBulk_DoNothing b = 
     b\<lparr>hbk_conflict := hbk_conflict b @ [DoNothing]\<rparr>"

definition RestoreHistoryUpsertBulk_Update :: "(update_set list \<Rightarrow> update_set list)
    \<Rightarrow> restorehistory_create_bulk \<Rightarrow> restorehistory_create_bulk" where
  "RestoreHistoryUpsertBulk_Update set_fn b = 
     b\<lparr>hbk_conflict := hbk_conflict b @ [ResolveWith (set_fn [])]\<rparr>"

definition RestoreHistoryUpsertBulk_SetRestoreRangeStart :: "int \<Rightarrow> restorehistory_create_bulk
    \<Rightarrow> restorehistory_create_bulk" where
  "RestoreHistoryUpsertBulk_SetRestoreRangeStart v = RestoreHistoryUpsertBulk_Update (RestoreHistoryUpsert_SetRestoreRangeStart v)"

definition RestoreHistoryUpsertBulk_AddRestoreRangeStart :: "int \<Rightarrow> restorehistory_create_bulk
    \<Rightarrow> restorehistory_create_bulk" where
  "RestoreHistoryUpsertBulk_AddRestoreRangeStart v = RestoreHistoryUpsertBulk_Update (RestoreHistoryUpsert_AddRestoreRangeStart v)"

definition RestoreHistoryUpsertBulk_UpdateRestoreRangeStart :: "restorehistory_create_bulk
    \<Rightarrow> restorehistory_create_bulk" where
  "RestoreHistoryUpsertBulk_UpdateRestoreRangeStart = RestoreHistoryUpsertBulk_Update RestoreHistoryUpsert_UpdateRestoreRangeStart"

definition RestoreHistoryUpsertBulk_SetRestoreRangeEnd :: "int \<Rightarrow> restorehistory_create_bulk
    \<Rightarrow> restorehistory_create_bulk" where
  "RestoreHistoryUpsertBulk_SetRestoreRangeEnd v = RestoreHistoryUpsertBulk_Update (RestoreHistoryUpsert_SetRestoreRangeEnd v)"

definition RestoreHistoryUpsertBulk_AddRestoreRangeEnd :: "int \<Rightarrow> restorehistory_create_bulk
    \<Rightarrow> restorehistory_create_bulk" where
  "RestoreHistoryUpsertBulk_AddRestoreRangeEnd v = RestoreHistoryUpsertBulk_Update (RestoreHistoryUpsert_AddRestoreRangeEnd v)"

definition RestoreHistoryUpsertBulk_UpdateRestoreRangeEnd :: "restorehistory_create_bulk
    \<Rightarrow> restorehistory_create_bulk" where
  "RestoreHistoryUpsertBulk_UpdateRestoreRangeEnd = RestoreHistoryUpsertBulk_Update RestoreHistoryUpsert_UpdateRestoreRangeEnd"

definition RestoreHistoryUpsertBulk_SetBeingBlock :: "int \<Rightarrow> restorehistory_create_bulk
    \<Rightarrow> restorehistory_create_bulk" where
  "RestoreHistoryUpsertBulk_SetBeingBlock v = RestoreHistoryUpsertBulk_Update (RestoreHistoryUpsert_SetBeingBlock v)"

definition RestoreHistoryUpsertBulk_AddBeingBlock :: "int \<Rightarrow> restorehistory_create_bulk
    \<Rightarrow> restorehistory_create_bulk" where
  "RestoreHistoryUpsertBulk_AddBeingBlock v = RestoreHistoryUpsertBulk_Update (RestoreHistoryUpsert_AddBeingBlock v)"

definition RestoreHistoryUpsertBulk_UpdateBeingBlock :: "restorehistory_create_bulk
    \<Rightarrow> restorehistory_create_bulk" where
  "RestoreHistoryUpsertBulk_UpdateBeingBlock = RestoreHistoryUpsertBulk_Update RestoreHistoryUpsert_UpdateBeingBlock"

definition RestoreHistoryUpsertBulk_Exec :: "'s ent_client \<Rightarrow> restorehistory_create_bulk
    \<Rightarrow> ('s, unit) io" where
  "RestoreHistoryUpsertBulk_Exec cl b s = 
     (case hbk_err b of Some e \<Rightarrow> (Inl e, s)
      | None \<Rightarrow>
        if list_ex (\<lambda>c. hcb_conflict c \<noteq> []) (hbk_builders b)
          then (Inl (EMsg ''ent: OnConflict was set for builder''), s)
        else if hbk_conflict b = []
          then (Inl (EMsg ''ent: missing options for RestoreHistoryCreateBulk.OnConflict''), s)
        else RestoreHistoryCreateBulk_Exec cl b s)"

definition RestoreHistoryUpsertBulk_ExecX :: "'s ent_client \<Rightarrow> restorehistory_create_bulk
    \<Rightarrow> ('s, unit) io" where
  "RestoreHistoryUpsertBulk_ExecX cl b = must (RestoreHistoryCreateBulk_Exec cl b)"

lemmas restorehistory_upsert_defs = RestoreHistoryCreate_Mutation_def RestoreHistoryCreate_SaveX_def
  RestoreHistoryCreate_Exec_def RestoreHistoryCreate_ExecX_def
  RestoreHistoryCreate_OnConflict_def RestoreHistoryCreate_OnConflictColumns_def
  RestoreHistoryUpsert_SetRestoreRangeStart_def RestoreHistoryUpsert_UpdateRestoreRangeStart_def
  RestoreHistoryUpsert_AddRestoreRangeStart_def RestoreHistoryUpsert_SetRestoreRangeEnd_def
  RestoreHistoryUpsert_UpdateRestoreRangeEnd_def RestoreHistoryUpsert_AddRestoreRangeEnd_def
  RestoreHistoryUpsert_SetBeingBlock_def RestoreHistoryUpsert_UpdateBeingBlock_def
  RestoreHistoryUpsert_AddBeingBlock_def RestoreHistoryUpsertOne_UpdateNewValues_def
  RestoreHistoryUpsertOne_Ignore_def RestoreHistoryUpsertOne_DoNothing_def
  RestoreHistoryUpsertOne_Update_def RestoreHistoryUpsertOne_SetRestoreRangeStart_def
  RestoreHistoryUpsertOne_AddRestoreRangeStart_def RestoreHistoryUpsertOne_UpdateRestoreRangeStart_def
  RestoreHistoryUpsertOne_SetRestoreRangeEnd_def RestoreHistoryUpsertOne_AddRestoreRangeEnd_def
  RestoreHistoryUpsertOne_UpdateRestoreRangeEnd_def RestoreHistoryUpsertOne_SetBeingBlock_def
  RestoreHistoryUpsertOne_AddBeingBlock_def RestoreHistoryUpsertOne_UpdateBeingBlock_def
  RestoreHistoryUpsertOne_Exec_def RestoreHistoryUpsertOne_ExecX_def
  RestoreHistoryUpsertOne_ID_def RestoreHistoryUpsertOne_IDX_def
  RestoreHistoryCreateBulk_SaveX_def RestoreHistoryCreateBulk_Exec_def
  RestoreHistoryCreateBulk_ExecX_def RestoreHistoryCreateBulk_OnConflict_def
  RestoreHistoryCreateBulk_OnConflictColumns_def RestoreHistoryUpsertBulk_UpdateNewValues_def
  RestoreHistoryUpsertBulk_Ignore_def RestoreHistoryUpsertBulk_DoNothing_def
  RestoreHistoryUpsertBulk_Update_def RestoreHistoryUpsertBulk_SetRestoreRangeStart_def
  RestoreHistoryUpsertBulk_AddRestoreRangeStart_def RestoreHistoryUpsertBulk_UpdateRestoreRangeStart_def
  RestoreHistoryUpsertBulk_SetRestoreRangeEnd_def RestoreHistoryUpsertBulk_AddRestoreRangeEnd_def
  RestoreHistoryUpsertBulk_UpdateRestoreRangeEnd_def RestoreHistoryUpsertBulk_SetBeingBlock_def
  RestoreHistoryUpsertBulk_AddBeingBlock_def RestoreHistoryUpsertBulk_UpdateBeingBlock_def
  RestoreHistoryUpsertBulk_Exec_def RestoreHistoryUpsertBulk_ExecX_def

section \<open>\<^verbatim>\<open>ent/transaction_create.go\<close>\<close>

definition TransactionCreate_SetNillableSuccess :: "bool option \<Rightarrow> transaction_create
    \<Rightarrow> transaction_create" where
  "TransactionCreate_SetNillableSuccess v c = (case v of None \<Rightarrow> c | Some w \<Rightarrow> TransactionCreate_SetSuccess w c)"

definition TransactionCreate_SetNillableMemo :: "string option \<Rightarrow> transaction_create
    \<Rightarrow> transaction_create" where
  "TransactionCreate_SetNillableMemo v c = (case v of None \<Rightarrow> c | Some w \<Rightarrow> TransactionCreate_SetMemo w c)"

definition TransactionCreate_SetNillableGasFee :: "schema_gas_fee option \<Rightarrow> transaction_create
    \<Rightarrow> transaction_create" where
  "TransactionCreate_SetNillableGasFee v c = (case v of None \<Rightarrow> c | Some w \<Rightarrow> TransactionCreate_SetGasFee w c)"

definition TransactionCreate_SetNillableResponse :: "schema_response option \<Rightarrow> transaction_create
    \<Rightarrow> transaction_create" where
  "TransactionCreate_SetNillableResponse v c = (case v of None \<Rightarrow> c | Some w \<Rightarrow> TransactionCreate_SetResponse w c)"

definition TransactionCreate_SetNillableCreatedAt :: "go_time option \<Rightarrow> transaction_create
    \<Rightarrow> transaction_create" where
  "TransactionCreate_SetNillableCreatedAt v c = (case v of None \<Rightarrow> c | Some w \<Rightarrow> TransactionCreate_SetCreatedAt w c)"

definition TransactionCreate_SetNillableBlockID :: "int option \<Rightarrow> transaction_create
    \<Rightarrow> transaction_create" where
  "TransactionCreate_SetNillableBlockID v c = (case v of None \<Rightarrow> c | Some w \<Rightarrow> TransactionCreate_SetBlockID w c)"

definition TransactionCreate_SetBlock :: "ent_block \<Rightarrow> transaction_create
    \<Rightarrow> transaction_create" where
  "TransactionCreate_SetBlock v c = TransactionCreate_SetBlockID (eb_ID v) c"

definition TransactionCreate_Mutation :: "transaction_create
    \<Rightarrow> transaction_mutation" where
  "TransactionCreate_Mutation c = tcb_mutation c"

definition TransactionCreate_SaveX :: "'s ent_client \<Rightarrow> transaction_create
    \<Rightarrow> ('s, ent_transaction) io" where
  "TransactionCreate_SaveX cl c = must (TransactionCreate_Save cl c)"

definition TransactionCreate_Exec :: "'s ent_client \<Rightarrow> transaction_create
    \<Rightarrow> ('s, unit) io" where
  "TransactionCreate_Exec cl c = drop_result (TransactionCreate_Save cl c)"

definition TransactionCreate_ExecX :: "'s ent_client \<Rightarrow> transaction_create
    \<Rightarrow> ('s, unit) io" where
  "TransactionCreate_ExecX cl c = must (TransactionCreate_Exec cl c)"

definition TransactionCreate_OnConflict :: "conflict_opt list \<Rightarrow> transaction_create
    \<Rightarrow> transaction_create" where
  "TransactionCreate_OnConflict opts c = c\<lparr>tcb_conflict := opts\<rparr>"

definition TransactionCreate_OnConflictColumns :: "string list \<Rightarrow> transaction_create
    \<Rightarrow> transaction_create" where
  "TransactionCreate_OnConflictColumns columns c = 
     c\<lparr>tcb_conflict := tcb_conflict c @ [ConflictColumns columns]\<rparr>"

definition TransactionUpsert_SetIndex :: "int \<Rightarrow> update_set list
    \<Rightarrow> update_set list" where
  "TransactionUpsert_SetIndex v u = u @ [SetValue transaction_FieldIndex (VInt v)]"

definition TransactionUpsert_UpdateIndex :: "update_set list \<Rightarrow> update_set list" where
  "TransactionUpsert_UpdateIndex u = u @ [SetExcluded transaction_FieldIndex]"

definition TransactionUpsert_AddIndex :: "int \<Rightarrow> update_set list
    \<Rightarrow> update_set list" where
  "TransactionUpsert_AddIndex v u = u @ [AddValue transaction_FieldIndex (VInt v)]"

definition TransactionUpsert_SetHash :: "string \<Rightarrow> update_set list
    \<Rightarrow> update_set list" where
  "TransactionUpsert_SetHash v u = u @ [SetValue transaction_FieldHash (VString v)]"

definition TransactionUpsert_UpdateHash :: "update_set list \<Rightarrow> update_set list" where
  "TransactionUpsert_UpdateHash u = u @ [SetExcluded transaction_FieldHash]"

definition TransactionUpsert_SetSuccess :: "bool \<Rightarrow> update_set list
    \<Rightarrow> update_set list" where
  "TransactionUpsert_SetSuccess v u = u @ [SetValue transaction_FieldSuccess (VBool v)]"

definition TransactionUpsert_UpdateSuccess :: "update_set list \<Rightarrow> update_set list" where
  "TransactionUpsert_UpdateSuccess u = u @ [SetExcluded transaction_FieldSuccess]"

definition TransactionUpsert_SetBlockHeight :: "int \<Rightarrow> update_set list
    \<Rightarrow> update_set list" where
  "TransactionUpsert_SetBlockHeight v u = u @ [SetValue transaction_FieldBlockHeight (VInt v)]"

definition TransactionUpsert_UpdateBlockHeight :: "update_set list
    \<Rightarrow> update_set list" where
  "TransactionUpsert_UpdateBlockHeight u = u @ [SetExcluded transaction_FieldBlockHeight]"

definition TransactionUpsert_AddBlockHeight :: "int \<Rightarrow> update_set list
    \<Rightarrow> update_set list" where
  "TransactionUpsert_AddBlockHeight v u = u @ [AddValue transaction_FieldBlockHeight (VInt v)]"

definition TransactionUpsert_SetGasWanted :: "float64 \<Rightarrow> update_set list
    \<Rightarrow> update_set list" where
  "TransactionUpsert_SetGasWanted v u = u @ [SetValue transaction_FieldGasWanted (VFloat v)]"

definition TransactionUpsert_UpdateGasWanted :: "update_set list
    \<Rightarrow> update_set list" where
  "TransactionUpsert_UpdateGasWanted u = u @ [SetExcluded transaction_FieldGasWanted]"

definition TransactionUpsert_AddGasWanted :: "float64 \<Rightarrow> update_set list
    \<Rightarrow> update_set list" where
  "TransactionUpsert_AddGasWanted v u = u @ [AddValue transaction_FieldGasWanted (VFloat v)]"

definition TransactionUpsert_SetGasUsed :: "float64 \<Rightarrow> update_set list
    \<Rightarrow> update_set list" where
  "TransactionUpsert_SetGasUsed v u = u @ [SetValue transaction_FieldGasUsed (VFloat v)]"

definition TransactionUpsert_UpdateGasUsed :: "update_set list \<Rightarrow> update_set list" where
  "TransactionUpsert_UpdateGasUsed u = u @ [SetExcluded transaction_FieldGasUsed]"

definition TransactionUpsert_AddGasUsed :: "float64 \<Rightarrow> update_set list
    \<Rightarrow> update_set list" where
  "TransactionUpsert_AddGasUsed v u = u @ [AddValue transaction_FieldGasUsed (VFloat v)]"

definition TransactionUpsert_SetMemo :: "string \<Rightarrow> update_set list
    \<Rightarrow> update_set list" where
  "TransactionUpsert_SetMemo v u = u @ [SetValue transaction_FieldMemo (VString v)]"

definition TransactionUpsert_UpdateMemo :: "update_set list \<Rightarrow> update_set list" where
  "TransactionUpsert_UpdateMemo u = u @ [SetExcluded transaction_FieldMemo]"

definition TransactionUpsert_ClearMemo :: "update_set list \<Rightarrow> update_set list" where
  "TransactionUpsert_ClearMemo u = u @ [SetNull transaction_FieldMemo]"

definition TransactionUpsert_SetGasFee :: "schema_gas_fee \<Rightarrow> update_set list
    \<Rightarrow> update_set list" where
  "TransactionUpsert_SetGasFee v u = u @ [SetValue transaction_FieldGasFee (VGasFee v)]"

definition TransactionUpsert_UpdateGasFee :: "update_set list \<Rightarrow> update_set list" where
  "TransactionUpsert_UpdateGasFee u = u @ [SetExcluded transaction_FieldGasFee]"

definition TransactionUpsert_ClearGasFee :: "update_set list \<Rightarrow> update_set list" where
  "TransactionUpsert_ClearGasFee u = u @ [SetNull transaction_FieldGasFee]"

definition TransactionUpsert_SetMessages :: "schema_message list \<Rightarrow> update_set list
    \<Rightarrow> update_set list" where
  "TransactionUpsert_SetMessages v u = u @ [SetValue transaction_FieldMessages (VMessages v)]"

definition TransactionUpsert_UpdateMessages :: "update_set list \<Rightarrow> update_set list" where
  "TransactionUpsert_UpdateMessages u = u @ [SetExcluded transaction_FieldMessages]"

definition TransactionUpsert_ClearMessages :: "update_set list \<Rightarrow> update_set list" where
  "TransactionUpsert_ClearMessages u = u @ [SetNull transaction_FieldMessages]"

definition TransactionUpsert_SetResponse :: "schema_response \<Rightarrow> update_set list
    \<Rightarrow> update_set list" where
  "TransactionUpsert_SetResponse v u = u @ [SetValue transaction_FieldResponse (VResponse v)]"

definition TransactionUpsert_UpdateResponse :: "update_set list \<Rightarrow> update_set list" where
  "TransactionUpsert_UpdateResponse u = u @ [SetExcluded transaction_FieldResponse]"

definition TransactionUpsert_ClearResponse :: "update_set list \<Rightarrow> update_set list" where
  "TransactionUpsert_ClearResponse u = u @ [SetNull transaction_FieldResponse]"

definition TransactionUpsertOne_UpdateNewValues :: "transaction_create
    \<Rightarrow> transaction_create" where
  "TransactionUpsertOne_UpdateNewValues c = 
     c\<lparr>tcb_conflict := tcb_conflict c @ [ResolveWithNewValues,
       IgnoreGiven [transaction_FieldCreatedAt]]\<rparr>"

definition TransactionUpsertOne_Ignore :: "transaction_create
    \<Rightarrow> transaction_create" where
  "TransactionUpsertOne_Ignore c = 
     c\<lparr>tcb_conflict := tcb_conflict c @ [ResolveWithIgnore]\<rparr>"

definition TransactionUpsertOne_DoNothing :: "transaction_create
    \<Rightarrow> transaction_create" where
  "TransactionUpsertOne_DoNothing c = 
     c\<lparr>tcb_conflict := tcb_conflict c @ [DoNothing]\<rparr>"

definition TransactionUpsertOne_Update :: "(update_set list \<Rightarrow> update_set list)
    \<Rightarrow> transaction_create \<Rightarrow> transaction_create" where
  "TransactionUpsertOne_Update set_fn c = 
     c\<lparr>tcb_conflict := tcb_conflict c @ [ResolveWith (set_fn [])]\<rparr>"

definition TransactionUpsertOne_SetIndex :: "int \<Rightarrow> transaction_create
    \<Rightarrow> transaction_create" where
  "TransactionUpsertOne_SetIndex v = TransactionUpsertOne_Update (TransactionUpsert_SetIndex v)"

definition TransactionUpsertOne_AddIndex :: "int \<Rightarrow> transaction_create
    \<Rightarrow> transaction_create" where
  "TransactionUpsertOne_AddIndex v = TransactionUpsertOne_Update (TransactionUpsert_AddIndex v)"

definition TransactionUpsertOne_UpdateIndex :: "transaction_create
    \<Rightarrow> transaction_create" where
  "TransactionUpsertOne_UpdateIndex = TransactionUpsertOne_Update TransactionUpsert_UpdateIndex"

definition TransactionUpsertOne_SetHash :: "string \<Rightarrow> transaction_create
    \<Rightarrow> transaction_create" where
  "TransactionUpsertOne_SetHash v = TransactionUpsertOne_Update (TransactionUpsert_SetHash v)"

definition TransactionUpsertOne_UpdateHash :: "transaction_create
    \<Rightarrow> transaction_create" where
  "TransactionUpsertOne_UpdateHash = TransactionUpsertOne_Update TransactionUpsert_UpdateHash"

definition TransactionUpsertOne_SetSuccess :: "bool \<Rightarrow> transaction_create
    \<Rightarrow> transaction_create" where
  "TransactionUpsertOne_SetSuccess v = TransactionUpsertOne_Update (TransactionUpsert_SetSuccess v)"

definition TransactionUpsertOne_UpdateSuccess :: "transaction_create
    \<Rightarrow> transaction_create" where
  "TransactionUpsertOne_UpdateSuccess = TransactionUpsertOne_Update TransactionUpsert_UpdateSuccess"

definition TransactionUpsertOne_SetBlockHeight :: "int \<Rightarrow> transaction_create
    \<Rightarrow> transaction_create" where
  "TransactionUpsertOne_SetBlockHeight v = TransactionUpsertOne_Update (TransactionUpsert_SetBlockHeight v)"

definition TransactionUpsertOne_AddBlockHeight :: "int \<Rightarrow> transaction_create
    \<Rightarrow> transaction_create" where
  "TransactionUpsertOne_AddBlockHeight v = TransactionUpsertOne_Update (TransactionUpsert_AddBlockHeight v)"

definition TransactionUpsertOne_UpdateBlockHeight :: "transaction_create
    \<Rightarrow> transaction_create" where
  "TransactionUpsertOne_UpdateBlockHeight = TransactionUpsertOne_Update TransactionUpsert_UpdateBlockHeight"

definition TransactionUpsertOne_SetGasWanted :: "float64 \<Rightarrow> transaction_create
    \<Rightarrow> transaction_create" where
  "TransactionUpsertOne_SetGasWanted v = TransactionUpsertOne_Update (TransactionUpsert_SetGasWanted v)"

definition TransactionUpsertOne_AddGasWanted :: "float64 \<Rightarrow> transaction_create
    \<Rightarrow> transaction_create" where
  "TransactionUpsertOne_AddGasWanted v = TransactionUpsertOne_Update (TransactionUpsert_AddGasWanted v)"

definition TransactionUpsertOne_UpdateGasWanted :: "transaction_create
    \<Rightarrow> transaction_create" where
  "TransactionUpsertOne_UpdateGasWanted = TransactionUpsertOne_Update TransactionUpsert_UpdateGasWanted"

definition TransactionUpsertOne_SetGasUsed :: "float64 \<Rightarrow> transaction_create
    \<Rightarrow> transaction_create" where
  "TransactionUpsertOne_SetGasUsed v = TransactionUpsertOne_Update (TransactionUpsert_SetGasUsed v)"

definition TransactionUpsertOne_AddGasUsed :: "float64 \<Rightarrow> transaction_create
    \<Rightarrow> transaction_create" where
  "TransactionUpsertOne_AddGasUsed v = TransactionUpsertOne_Update (TransactionUpsert_AddGasUsed v)"

definition TransactionUpsertOne_UpdateGasUsed :: "transaction_create
    \<Rightarrow> transaction_create" where
  "TransactionUpsertOne_UpdateGasUsed = TransactionUpsertOne_Update TransactionUpsert_UpdateGasUsed"

definition TransactionUpsertOne_SetMemo :: "string \<Rightarrow> transaction_create
    \<Rightarrow> transaction_create" where
  "TransactionUpsertOne_SetMemo v = TransactionUpsertOne_Update (TransactionUpsert_SetMemo v)"

definition TransactionUpsertOne_UpdateMemo :: "transaction_create
    \<Rightarrow> transaction_create" where
  "TransactionUpsertOne_UpdateMemo = TransactionUpsertOne_Update TransactionUpsert_UpdateMemo"

definition TransactionUpsertOne_ClearMemo :: "transaction_create
    \<Rightarrow> transaction_create" where
  "TransactionUpsertOne_ClearMemo = TransactionUpsertOne_Update TransactionUpsert_ClearMemo"

definition TransactionUpsertOne_SetGasFee :: "schema_gas_fee \<Rightarrow> transaction_create
    \<Rightarrow> transaction_create" where
  "TransactionUpsertOne_SetGasFee v = TransactionUpsertOne_Update (TransactionUpsert_SetGasFee v)"

definition TransactionUpsertOne_UpdateGasFee :: "transaction_create
    \<Rightarrow> transaction_create" where
  "TransactionUpsertOne_UpdateGasFee = TransactionUpsertOne_Update TransactionUpsert_UpdateGasFee"

definition TransactionUpsertOne_ClearGasFee :: "transaction_create
    \<Rightarrow> transaction_create" where
  "TransactionUpsertOne_ClearGasFee = TransactionUpsertOne_Update TransactionUpsert_ClearGasFee"

definition TransactionUpsertOne_SetMessages :: "schema_message list \<Rightarrow> transaction_create
    \<Rightarrow> transaction_create" where
  "TransactionUpsertOne_SetMessages v = TransactionUpsertOne_Update (TransactionUpsert_SetMessages v)"

definition TransactionUpsertOne_UpdateMessages :: "transaction_create
    \<Rightarrow> transaction_create" where
  "TransactionUpsertOne_UpdateMessages = TransactionUpsertOne_Update TransactionUpsert_UpdateMessages"

definition TransactionUpsertOne_ClearMessages :: "transaction_create
    \<Rightarrow> transaction_create" where
  "TransactionUpsertOne_ClearMessages = TransactionUpsertOne_Update TransactionUpsert_ClearMessages"

definition TransactionUpsertOne_SetResponse :: "schema_response \<Rightarrow> transaction_create
    \<Rightarrow> transaction_create" where
  "TransactionUpsertOne_SetResponse v = TransactionUpsertOne_Update (TransactionUpsert_SetResponse v)"

definition TransactionUpsertOne_UpdateResponse :: "transaction_create
    \<Rightarrow> transaction_create" where
  "TransactionUpsertOne_UpdateResponse = TransactionUpsertOne_Update TransactionUpsert_UpdateResponse"

definition TransactionUpsertOne_ClearResponse :: "transaction_create
    \<Rightarrow> transaction_create" where
  "TransactionUpsertOne_ClearResponse = TransactionUpsertOne_Update TransactionUpsert_ClearResponse"

definition TransactionUpsertOne_Exec :: "'s ent_client \<Rightarrow> transaction_create
    \<Rightarrow> ('s, unit) io" where
  "TransactionUpsertOne_Exec cl c s = 
     (if tcb_conflict c = [] then (Inl (EMsg ''ent: missing options for TransactionCreate.OnConflict''), s)
      else TransactionCreate_Exec cl c s)"

definition TransactionUpsertOne_ExecX :: "'s ent_client \<Rightarrow> transaction_create
    \<Rightarrow> ('s, unit) io" where
  "TransactionUpsertOne_ExecX cl c = must (TransactionCreate_Exec cl c)"

definition TransactionUpsertOne_ID :: "'s ent_graph \<Rightarrow> transaction_create
    \<Rightarrow> ('s, int) io" where
  "TransactionUpsertOne_ID g c s = 
     (case TransactionCreate_Save (eg_client g) c s of (Inl e, s') \<Rightarrow> (Inl e, s') | (Inr n, s') \<Rightarrow> (Inr (et_ID n), s'))"

definition TransactionUpsertOne_IDX :: "'s ent_graph \<Rightarrow> transaction_create
    \<Rightarrow> ('s, int) io" where
  "TransactionUpsertOne_IDX g c = must (TransactionUpsertOne_ID g c)"

definition TransactionCreateBulk_SaveX :: "'s ent_client \<Rightarrow> transaction_create_bulk
    \<Rightarrow> ('s, ent_transaction list) io" where
  "TransactionCreateBulk_SaveX cl b = must (TransactionCreateBulk_Save cl b)"

definition TransactionCreateBulk_Exec :: "'s ent_client \<Rightarrow> transaction_create_bulk
    \<Rightarrow> ('s, unit) io" where
  "TransactionCreateBulk_Exec cl b = drop_result (TransactionCreateBulk_Save cl b)"

definition TransactionCreateBulk_ExecX :: "'s ent_client \<Rightarrow> transaction_create_bulk
    \<Rightarrow> ('s, unit) io" where
  "TransactionCreateBulk_ExecX cl b = must (TransactionCreateBulk_Exec cl b)"

definition TransactionCreateBulk_OnConflict :: "conflict_opt list \<Rightarrow> transaction_create_bulk
    \<Rightarrow> transaction_create_bulk" where
  "TransactionCreateBulk_OnConflict opts b = b\<lparr>tbk_conflict := opts\<rparr>"

definition TransactionCreateBulk_OnConflictColumns :: "string list \<Rightarrow> transaction_create_bulk
    \<Rightarrow> transaction_create_bulk" where
  "TransactionCreateBulk_OnConflictColumns columns b = 
     b\<lparr>tbk_conflict := tbk_conflict b @ [ConflictColumns columns]\<rparr>"

definition TransactionUpsertBulk_UpdateNewValues :: "transaction_create_bulk
    \<Rightarrow> transaction_create_bulk" where
  "TransactionUpsertBulk_UpdateNewValues b = 
     b\<lparr>tbk_conflict := tbk_conflict b @ [ResolveWithNewValues,
       IgnoreGiven [transaction_FieldCreatedAt]]\<rparr>"

definition TransactionUpsertBulk_Ignore :: "transaction_create_bulk
    \<Rightarrow> transaction_create_bulk" where
  "TransactionUpsertBulk_Ignore b = 
     b\<lparr>tbk_conflict := tbk_conflict b @ [ResolveWithIgnore]\<rparr>"

definition TransactionUpsertBulk_DoNothing :: "transaction_create_bulk
    \<Rightarrow> transaction_create_bulk" where
  "TransactionUpsertBulk_DoNothing b = 
     b\<lparr>tbk_conflict := tbk_conflict b @ [DoNothing]\<rparr>"

definition TransactionUpsertBulk_Update :: "(update_set list \<Rightarrow> update_set list)
    \<Rightarrow> transaction_create_bulk \<Rightarrow> transaction_create_bulk" where
  "TransactionUpsertBulk_Update set_fn b = 
     b\<lparr>tbk_conflict := tbk_conflict b @ [ResolveWith (set_fn [])]\<rparr>"

definition TransactionUpsertBulk_SetIndex :: "int \<Rightarrow> transaction_create_bulk
    \<Rightarrow> transaction_create_bulk" where
  "TransactionUpsertBulk_SetIndex v = TransactionUpsertBulk_Update (TransactionUpsert_SetIndex v)"

definition TransactionUpsertBulk_AddIndex :: "int \<Rightarrow> transaction_create_bulk
    \<Rightarrow> transaction_create_bulk" where
  "TransactionUpsertBulk_AddIndex v = TransactionUpsertBulk_Update (TransactionUpsert_AddIndex v)"

definition TransactionUpsertBulk_UpdateIndex :: "transaction_create_bulk
    \<Rightarrow> transaction_create_bulk" where
  "TransactionUpsertBulk_UpdateIndex = TransactionUpsertBulk_Update TransactionUpsert_UpdateIndex"

definition TransactionUpsertBulk_SetHash :: "string \<Rightarrow> transaction_create_bulk
    \<Rightarrow> transaction_create_bulk" where
  "TransactionUpsertBulk_SetHash v = TransactionUpsertBulk_Update (TransactionUpsert_SetHash v)"

definition TransactionUpsertBulk_UpdateHash :: "transaction_create_bulk
    \<Rightarrow> transaction_create_bulk" where
  "TransactionUpsertBulk_UpdateHash = TransactionUpsertBulk_Update TransactionUpsert_UpdateHash"

definition TransactionUpsertBulk_SetSuccess :: "bool \<Rightarrow> transaction_create_bulk
    \<Rightarrow> transaction_create_bulk" where
  "TransactionUpsertBulk_SetSuccess v = TransactionUpsertBulk_Update (TransactionUpsert_SetSuccess v)"

definition TransactionUpsertBulk_UpdateSuccess :: "transaction_create_bulk
    \<Rightarrow> transaction_create_bulk" where
  "TransactionUpsertBulk_UpdateSuccess = TransactionUpsertBulk_Update TransactionUpsert_UpdateSuccess"

definition TransactionUpsertBulk_SetBlockHeight :: "int \<Rightarrow> transaction_create_bulk
    \<Rightarrow> transaction_create_bulk" where
  "TransactionUpsertBulk_SetBlockHeight v = TransactionUpsertBulk_Update (TransactionUpsert_SetBlockHeight v)"

definition TransactionUpsertBulk_AddBlockHeight :: "int \<Rightarrow> transaction_create_bulk
    \<Rightarrow> transaction_create_bulk" where
  "TransactionUpsertBulk_AddBlockHeight v = TransactionUpsertBulk_Update (TransactionUpsert_AddBlockHeight v)"

definition TransactionUpsertBulk_UpdateBlockHeight :: "transaction_create_bulk
    \<Rightarrow> transaction_create_bulk" where
  "TransactionUpsertBulk_UpdateBlockHeight = TransactionUpsertBulk_Update TransactionUpsert_UpdateBlockHeight"

definition TransactionUpsertBulk_SetGasWanted :: "float64 \<Rightarrow> transaction_create_bulk
    \<Rightarrow> transaction_create_bulk" where
  "TransactionUpsertBulk_SetGasWanted v = TransactionUpsertBulk_Update (TransactionUpsert_SetGasWanted v)"

definition TransactionUpsertBulk_AddGasWanted :: "float64 \<Rightarrow> transaction_create_bulk
    \<Rightarrow> transaction_create_bulk" where
  "TransactionUpsertBulk_AddGasWanted v = TransactionUpsertBulk_Update (TransactionUpsert_AddGasWanted v)"

definition TransactionUpsertBulk_UpdateGasWanted :: "transaction_create_bulk
    \<Rightarrow> transaction_create_bulk" where
  "TransactionUpsertBulk_UpdateGasWanted = TransactionUpsertBulk_Update TransactionUpsert_UpdateGasWanted"

definition TransactionUpsertBulk_SetGasUsed :: "float64 \<Rightarrow> transaction_create_bulk
    \<Rightarrow> transaction_create_bulk" where
  "TransactionUpsertBulk_SetGasUsed v = TransactionUpsertBulk_Update (TransactionUpsert_SetGasUsed v)"

definition TransactionUpsertBulk_AddGasUsed :: "float64 \<Rightarrow> transaction_create_bulk
    \<Rightarrow> transaction_create_bulk" where
  "TransactionUpsertBulk_AddGasUsed v = TransactionUpsertBulk_Update (TransactionUpsert_AddGasUsed v)"

definition TransactionUpsertBulk_UpdateGasUsed :: "transaction_create_bulk
    \<Rightarrow> transaction_create_bulk" where
  "TransactionUpsertBulk_UpdateGasUsed = TransactionUpsertBulk_Update TransactionUpsert_UpdateGasUsed"

definition TransactionUpsertBulk_SetMemo :: "string \<Rightarrow> transaction_create_bulk
    \<Rightarrow> transaction_create_bulk" where
  "TransactionUpsertBulk_SetMemo v = TransactionUpsertBulk_Update (TransactionUpsert_SetMemo v)"

definition TransactionUpsertBulk_UpdateMemo :: "transaction_create_bulk
    \<Rightarrow> transaction_create_bulk" where
  "TransactionUpsertBulk_UpdateMemo = TransactionUpsertBulk_Update TransactionUpsert_UpdateMemo"

definition TransactionUpsertBulk_ClearMemo :: "transaction_create_bulk
    \<Rightarrow> transaction_create_bulk" where
  "TransactionUpsertBulk_ClearMemo = TransactionUpsertBulk_Update TransactionUpsert_ClearMemo"

definition TransactionUpsertBulk_SetGasFee :: "schema_gas_fee \<Rightarrow> transaction_create_bulk
    \<Rightarrow> transaction_create_bulk" where
  "TransactionUpsertBulk_SetGasFee v = TransactionUpsertBulk_Update (TransactionUpsert_SetGasFee v)"

definition TransactionUpsertBulk_UpdateGasFee :: "transaction_create_bulk
    \<Rightarrow> transaction_create_bulk" where
  "TransactionUpsertBulk_UpdateGasFee = TransactionUpsertBulk_Update TransactionUpsert_UpdateGasFee"

definition TransactionUpsertBulk_ClearGasFee :: "transaction_create_bulk
    \<Rightarrow> transaction_create_bulk" where
  "TransactionUpsertBulk_ClearGasFee = TransactionUpsertBulk_Update TransactionUpsert_ClearGasFee"

definition TransactionUpsertBulk_SetMessages :: "schema_message list
    \<Rightarrow> transaction_create_bulk \<Rightarrow> transaction_create_bulk" where
  "TransactionUpsertBulk_SetMessages v = TransactionUpsertBulk_Update (TransactionUpsert_SetMessages v)"

definition TransactionUpsertBulk_UpdateMessages :: "transaction_create_bulk
    \<Rightarrow> transaction_create_bulk" where
  "TransactionUpsertBulk_UpdateMessages = TransactionUpsertBulk_Update TransactionUpsert_UpdateMessages"

definition TransactionUpsertBulk_ClearMessages :: "transaction_create_bulk
    \<Rightarrow> transaction_create_bulk" where
  "TransactionUpsertBulk_ClearMessages = TransactionUpsertBulk_Update TransactionUpsert_ClearMessages"

definition TransactionUpsertBulk_SetResponse :: "schema_response \<Rightarrow> transaction_create_bulk
    \<Rightarrow> transaction_create_bulk" where
  "TransactionUpsertBulk_SetResponse v = TransactionUpsertBulk_Update (TransactionUpsert_SetResponse v)"

definition TransactionUpsertBulk_UpdateResponse :: "transaction_create_bulk
    \<Rightarrow> transaction_create_bulk" where
  "TransactionUpsertBulk_UpdateResponse = TransactionUpsertBulk_Update TransactionUpsert_UpdateResponse"

definition TransactionUpsertBulk_ClearResponse :: "transaction_create_bulk
    \<Rightarrow> transaction_create_bulk" where
  "TransactionUpsertBulk_ClearResponse = TransactionUpsertBulk_Update TransactionUpsert_ClearResponse"

definition TransactionUpsertBulk_Exec :: "'s ent_client \<Rightarrow> transaction_create_bulk
    \<Rightarrow> ('s, unit) io" where
  "TransactionUpsertBulk_Exec cl b s = 
     (case tbk_err b of Some e \<Rightarrow> (Inl e, s)
      | None \<Rightarrow>
        if list_ex (\<lambda>c. tcb_conflict c \<noteq> []) (tbk_builders b)
          then (Inl (EMsg ''ent: OnConflict was set for builder''), s)
        else if tbk_conflict b = []
          then (Inl (EMsg ''ent: missing options for TransactionCreateBulk.OnConflict''), s)
        else TransactionCreateBulk_Exec cl b s)"

definition TransactionUpsertBulk_ExecX :: "'s ent_client \<Rightarrow> transaction_create_bulk
    \<Rightarrow> ('s, unit) io" where
  "TransactionUpsertBulk_ExecX cl b = must (TransactionCreateBulk_Exec cl b)"

lemmas transaction_upsert_defs = TransactionCreate_SetNillableSuccess_def TransactionCreate_SetNillableMemo_def
  TransactionCreate_SetNillableGasFee_def TransactionCreate_SetNillableResponse_def
  TransactionCreate_SetNillableCreatedAt_def TransactionCreate_SetNillableBlockID_def
  TransactionCreate_SetBlock_def TransactionCreate_Mutation_def
  TransactionCreate_SaveX_def TransactionCreate_Exec_def
  TransactionCreate_ExecX_def TransactionCreate_OnConflict_def
  TransactionCreate_OnConflictColumns_def TransactionUpsert_SetIndex_def
  TransactionUpsert_UpdateIndex_def TransactionUpsert_AddIndex_def
  TransactionUpsert_SetHash_def TransactionUpsert_UpdateHash_def
  TransactionUpsert_SetSuccess_def TransactionUpsert_UpdateSuccess_def
  TransactionUpsert_SetBlockHeight_def TransactionUpsert_UpdateBlockHeight_def
  TransactionUpsert_AddBlockHeight_def TransactionUpsert_SetGasWanted_def
  TransactionUpsert_UpdateGasWanted_def TransactionUpsert_AddGasWanted_def
  TransactionUpsert_SetGasUsed_def TransactionUpsert_UpdateGasUsed_def
  TransactionUpsert_AddGasUsed_def TransactionUpsert_SetMemo_def
  TransactionUpsert_UpdateMemo_def TransactionUpsert_ClearMemo_def
  TransactionUpsert_SetGasFee_def TransactionUpsert_UpdateGasFee_def
  TransactionUpsert_ClearGasFee_def TransactionUpsert_SetMessages_def
  TransactionUpsert_UpdateMessages_def TransactionUpsert_ClearMessages_def
  TransactionUpsert_SetResponse_def TransactionUpsert_UpdateResponse_def
  TransactionUpsert_ClearResponse_def TransactionUpsertOne_UpdateNewValues_def
  TransactionUpsertOne_Ignore_def TransactionUpsertOne_DoNothing_def
  TransactionUpsertOne_Update_def TransactionUpsertOne_SetIndex_def
  TransactionUpsertOne_AddIndex_def TransactionUpsertOne_UpdateIndex_def
  TransactionUpsertOne_SetHash_def TransactionUpsertOne_UpdateHash_def
  TransactionUpsertOne_SetSuccess_def TransactionUpsertOne_UpdateSuccess_def
  TransactionUpsertOne_SetBlockHeight_def TransactionUpsertOne_AddBlockHeight_def
  TransactionUpsertOne_UpdateBlockHeight_def TransactionUpsertOne_SetGasWanted_def
  TransactionUpsertOne_AddGasWanted_def TransactionUpsertOne_UpdateGasWanted_def
  TransactionUpsertOne_SetGasUsed_def TransactionUpsertOne_AddGasUsed_def
  TransactionUpsertOne_UpdateGasUsed_def TransactionUpsertOne_SetMemo_def
  TransactionUpsertOne_UpdateMemo_def TransactionUpsertOne_ClearMemo_def
  TransactionUpsertOne_SetGasFee_def TransactionUpsertOne_UpdateGasFee_def
  TransactionUpsertOne_ClearGasFee_def TransactionUpsertOne_SetMessages_def
  TransactionUpsertOne_UpdateMessages_def TransactionUpsertOne_ClearMessages_def
  TransactionUpsertOne_SetResponse_def TransactionUpsertOne_UpdateResponse_def
  TransactionUpsertOne_ClearResponse_def TransactionUpsertOne_Exec_def
  TransactionUpsertOne_ExecX_def TransactionUpsertOne_ID_def
  TransactionUpsertOne_IDX_def TransactionCreateBulk_SaveX_def
  TransactionCreateBulk_Exec_def TransactionCreateBulk_ExecX_def
  TransactionCreateBulk_OnConflict_def TransactionCreateBulk_OnConflictColumns_def
  TransactionUpsertBulk_UpdateNewValues_def TransactionUpsertBulk_Ignore_def
  TransactionUpsertBulk_DoNothing_def TransactionUpsertBulk_Update_def
  TransactionUpsertBulk_SetIndex_def TransactionUpsertBulk_AddIndex_def
  TransactionUpsertBulk_UpdateIndex_def TransactionUpsertBulk_SetHash_def
  TransactionUpsertBulk_UpdateHash_def TransactionUpsertBulk_SetSuccess_def
  TransactionUpsertBulk_UpdateSuccess_def TransactionUpsertBulk_SetBlockHeight_def
  TransactionUpsertBulk_AddBlockHeight_def TransactionUpsertBulk_UpdateBlockHeight_def
  TransactionUpsertBulk_SetGasWanted_def TransactionUpsertBulk_AddGasWanted_def
  TransactionUpsertBulk_UpdateGasWanted_def TransactionUpsertBulk_SetGasUsed_def
  TransactionUpsertBulk_AddGasUsed_def TransactionUpsertBulk_UpdateGasUsed_def
  TransactionUpsertBulk_SetMemo_def TransactionUpsertBulk_UpdateMemo_def
  TransactionUpsertBulk_ClearMemo_def TransactionUpsertBulk_SetGasFee_def
  TransactionUpsertBulk_UpdateGasFee_def TransactionUpsertBulk_ClearGasFee_def
  TransactionUpsertBulk_SetMessages_def TransactionUpsertBulk_UpdateMessages_def
  TransactionUpsertBulk_ClearMessages_def TransactionUpsertBulk_SetResponse_def
  TransactionUpsertBulk_UpdateResponse_def TransactionUpsertBulk_ClearResponse_def
  TransactionUpsertBulk_Exec_def TransactionUpsertBulk_ExecX_def

section \<open>\<^verbatim>\<open>ent/transfer_create.go\<close>\<close>

definition TransferCreate_SetNillableFromAddress :: "string option \<Rightarrow> transfer_create
    \<Rightarrow> transfer_create" where
  "TransferCreate_SetNillableFromAddress v c = (case v of None \<Rightarrow> c | Some w \<Rightarrow> TransferCreate_SetFromAddress w c)"

definition TransferCreate_SetNillableToAddress :: "string option \<Rightarrow> transfer_create
    \<Rightarrow> transfer_create" where
  "TransferCreate_SetNillableToAddress v c = (case v of None \<Rightarrow> c | Some w \<Rightarrow> TransferCreate_SetToAddress w c)"

definition TransferCreate_SetNillableCreatedAt :: "go_time option \<Rightarrow> transfer_create
    \<Rightarrow> transfer_create" where
  "TransferCreate_SetNillableCreatedAt v c = (case v of None \<Rightarrow> c | Some w \<Rightarrow> TransferCreate_SetCreatedAt w c)"

definition TransferCreate_Mutation :: "transfer_create \<Rightarrow> transfer_mutation" where
  "TransferCreate_Mutation c = fcb_mutation c"

definition TransferCreate_SaveX :: "'s ent_client \<Rightarrow> transfer_create
    \<Rightarrow> ('s, ent_transfer) io" where
  "TransferCreate_SaveX cl c = must (TransferCreate_Save cl c)"

definition TransferCreate_Exec :: "'s ent_client \<Rightarrow> transfer_create
    \<Rightarrow> ('s, unit) io" where
  "TransferCreate_Exec cl c = drop_result (TransferCreate_Save cl c)"

definition TransferCreate_ExecX :: "'s ent_client \<Rightarrow> transfer_create
    \<Rightarrow> ('s, unit) io" where
  "TransferCreate_ExecX cl c = must (TransferCreate_Exec cl c)"

definition TransferCreate_OnConflict :: "conflict_opt list \<Rightarrow> transfer_create
    \<Rightarrow> transfer_create" where
  "TransferCreate_OnConflict opts c = c\<lparr>fcb_conflict := opts\<rparr>"

definition TransferCreate_OnConflictColumns :: "string list \<Rightarrow> transfer_create
    \<Rightarrow> transfer_create" where
  "TransferCreate_OnConflictColumns columns c = 
     c\<lparr>fcb_conflict := fcb_conflict c @ [ConflictColumns columns]\<rparr>"

definition TransferUpsert_SetHash :: "string \<Rightarrow> update_set list
    \<Rightarrow> update_set list" where
  "TransferUpsert_SetHash v u = u @ [SetValue transfer_FieldHash (VString v)]"

definition TransferUpsert_UpdateHash :: "update_set list \<Rightarrow> update_set list" where
  "TransferUpsert_UpdateHash u = u @ [SetExcluded transfer_FieldHash]"

definition TransferUpsert_SetFunc :: "string \<Rightarrow> update_set list
    \<Rightarrow> update_set list" where
  "TransferUpsert_SetFunc v u = u @ [SetValue transfer_FieldFunc (VString v)]"

definition TransferUpsert_UpdateFunc :: "update_set list \<Rightarrow> update_set list" where
  "TransferUpsert_UpdateFunc u = u @ [SetExcluded transfer_FieldFunc]"

definition TransferUpsert_SetFromAddress :: "string \<Rightarrow> update_set list
    \<Rightarrow> update_set list" where
  "TransferUpsert_SetFromAddress v u = u @ [SetValue transfer_FieldFromAddress (VString v)]"

definition TransferUpsert_UpdateFromAddress :: "update_set list \<Rightarrow> update_set list" where
  "TransferUpsert_UpdateFromAddress u = u @ [SetExcluded transfer_FieldFromAddress]"

definition TransferUpsert_ClearFromAddress :: "update_set list \<Rightarrow> update_set list" where
  "TransferUpsert_ClearFromAddress u = u @ [SetNull transfer_FieldFromAddress]"

definition TransferUpsert_SetToAddress :: "string \<Rightarrow> update_set list
    \<Rightarrow> update_set list" where
  "TransferUpsert_SetToAddress v u = u @ [SetValue transfer_FieldToAddress (VString v)]"

definition TransferUpsert_UpdateToAddress :: "update_set list \<Rightarrow> update_set list" where
  "TransferUpsert_UpdateToAddress u = u @ [SetExcluded transfer_FieldToAddress]"

definition TransferUpsert_ClearToAddress :: "update_set list \<Rightarrow> update_set list" where
  "TransferUpsert_ClearToAddress u = u @ [SetNull transfer_FieldToAddress]"

definition TransferUpsert_SetToken :: "string \<Rightarrow> update_set list
    \<Rightarrow> update_set list" where
  "TransferUpsert_SetToken v u = u @ [SetValue transfer_FieldToken (VString v)]"

definition TransferUpsert_UpdateToken :: "update_set list \<Rightarrow> update_set list" where
  "TransferUpsert_UpdateToken u = u @ [SetExcluded transfer_FieldToken]"

definition TransferUpsert_SetAmount :: "float64 \<Rightarrow> update_set list
    \<Rightarrow> update_set list" where
  "TransferUpsert_SetAmount v u = u @ [SetValue transfer_FieldAmount (VFloat v)]"

definition TransferUpsert_UpdateAmount :: "update_set list \<Rightarrow> update_set list" where
  "TransferUpsert_UpdateAmount u = u @ [SetExcluded transfer_FieldAmount]"

definition TransferUpsert_AddAmount :: "float64 \<Rightarrow> update_set list
    \<Rightarrow> update_set list" where
  "TransferUpsert_AddAmount v u = u @ [AddValue transfer_FieldAmount (VFloat v)]"

definition TransferUpsert_SetDenom :: "string \<Rightarrow> update_set list
    \<Rightarrow> update_set list" where
  "TransferUpsert_SetDenom v u = u @ [SetValue transfer_FieldDenom (VString v)]"

definition TransferUpsert_UpdateDenom :: "update_set list \<Rightarrow> update_set list" where
  "TransferUpsert_UpdateDenom u = u @ [SetExcluded transfer_FieldDenom]"

definition TransferUpsertOne_UpdateNewValues :: "transfer_create
    \<Rightarrow> transfer_create" where
  "TransferUpsertOne_UpdateNewValues c = 
     c\<lparr>fcb_conflict := fcb_conflict c @ [ResolveWithNewValues,
       IgnoreGiven [transfer_FieldID, transfer_FieldCreatedAt]]\<rparr>"

definition TransferUpsertOne_Ignore :: "transfer_create \<Rightarrow> transfer_create" where
  "TransferUpsertOne_Ignore c = 
     c\<lparr>fcb_conflict := fcb_conflict c @ [ResolveWithIgnore]\<rparr>"

definition TransferUpsertOne_DoNothing :: "transfer_create \<Rightarrow> transfer_create" where
  "TransferUpsertOne_DoNothing c = 
     c\<lparr>fcb_conflict := fcb_conflict c @ [DoNothing]\<rparr>"

definition TransferUpsertOne_Update :: "(update_set list \<Rightarrow> update_set list)
    \<Rightarrow> transfer_create \<Rightarrow> transfer_create" where
  "TransferUpsertOne_Update set_fn c = 
     c\<lparr>fcb_conflict := fcb_conflict c @ [ResolveWith (set_fn [])]\<rparr>"

definition TransferUpsertOne_SetHash :: "string \<Rightarrow> transfer_create
    \<Rightarrow> transfer_create" where
  "TransferUpsertOne_SetHash v = TransferUpsertOne_Update (TransferUpsert_SetHash v)"

definition TransferUpsertOne_UpdateHash :: "transfer_create \<Rightarrow> transfer_create" where
  "TransferUpsertOne_UpdateHash = TransferUpsertOne_Update TransferUpsert_UpdateHash"

definition TransferUpsertOne_SetFunc :: "string \<Rightarrow> transfer_create
    \<Rightarrow> transfer_create" where
  "TransferUpsertOne_SetFunc v = TransferUpsertOne_Update (TransferUpsert_SetFunc v)"

definition TransferUpsertOne_UpdateFunc :: "transfer_create \<Rightarrow> transfer_create" where
  "TransferUpsertOne_UpdateFunc = TransferUpsertOne_Update TransferUpsert_UpdateFunc"

definition TransferUpsertOne_SetFromAddress :: "string \<Rightarrow> transfer_create
    \<Rightarrow> transfer_create" where
  "TransferUpsertOne_SetFromAddress v = TransferUpsertOne_Update (TransferUpsert_SetFromAddress v)"

definition TransferUpsertOne_UpdateFromAddress :: "transfer_create
    \<Rightarrow> transfer_create" where
  "TransferUpsertOne_UpdateFromAddress = TransferUpsertOne_Update TransferUpsert_UpdateFromAddress"

definition TransferUpsertOne_ClearFromAddress :: "transfer_create
    \<Rightarrow> transfer_create" where
  "TransferUpsertOne_ClearFromAddress = TransferUpsertOne_Update TransferUpsert_ClearFromAddress"

definition TransferUpsertOne_SetToAddress :: "string \<Rightarrow> transfer_create
    \<Rightarrow> transfer_create" where
  "TransferUpsertOne_SetToAddress v = TransferUpsertOne_Update (TransferUpsert_SetToAddress v)"

definition TransferUpsertOne_UpdateToAddress :: "transfer_create
    \<Rightarrow> transfer_create" where
  "TransferUpsertOne_UpdateToAddress = TransferUpsertOne_Update TransferUpsert_UpdateToAddress"

definition TransferUpsertOne_ClearToAddress :: "transfer_create \<Rightarrow> transfer_create" where
  "TransferUpsertOne_ClearToAddress = TransferUpsertOne_Update TransferUpsert_ClearToAddress"

definition TransferUpsertOne_SetToken :: "string \<Rightarrow> transfer_create
    \<Rightarrow> transfer_create" where
  "TransferUpsertOne_SetToken v = TransferUpsertOne_Update (TransferUpsert_SetToken v)"

definition TransferUpsertOne_UpdateToken :: "transfer_create \<Rightarrow> transfer_create" where
  "TransferUpsertOne_UpdateToken = TransferUpsertOne_Update TransferUpsert_UpdateToken"

definition TransferUpsertOne_SetAmount :: "float64 \<Rightarrow> transfer_create
    \<Rightarrow> transfer_create" where
  "TransferUpsertOne_SetAmount v = TransferUpsertOne_Update (TransferUpsert_SetAmount v)"

definition TransferUpsertOne_AddAmount :: "float64 \<Rightarrow> transfer_create
    \<Rightarrow> transfer_create" where
  "TransferUpsertOne_AddAmount v = TransferUpsertOne_Update (TransferUpsert_AddAmount v)"

definition TransferUpsertOne_UpdateAmount :: "transfer_create \<Rightarrow> transfer_create" where
  "TransferUpsertOne_UpdateAmount = TransferUpsertOne_Update TransferUpsert_UpdateAmount"

definition TransferUpsertOne_SetDenom :: "string \<Rightarrow> transfer_create
    \<Rightarrow> transfer_create" where
  "TransferUpsertOne_SetDenom v = TransferUpsertOne_Update (TransferUpsert_SetDenom v)"

definition TransferUpsertOne_UpdateDenom :: "transfer_create \<Rightarrow> transfer_create" where
  "TransferUpsertOne_UpdateDenom = TransferUpsertOne_Update TransferUpsert_UpdateDenom"

definition TransferUpsertOne_Exec :: "'s ent_client \<Rightarrow> transfer_create
    \<Rightarrow> ('s, unit) io" where
  "TransferUpsertOne_Exec cl c s = 
     (if fcb_conflict c = [] then (Inl (EMsg ''ent: missing options for TransferCreate.OnConflict''), s)
      else TransferCreate_Exec cl c s)"

definition TransferUpsertOne_ExecX :: "'s ent_client \<Rightarrow> transfer_create
    \<Rightarrow> ('s, unit) io" where
  "TransferUpsertOne_ExecX cl c = must (TransferCreate_Exec cl c)"

definition TransferUpsertOne_ID :: "'s ent_graph \<Rightarrow> transfer_create
    \<Rightarrow> ('s, int) io" where
  "TransferUpsertOne_ID g c s = 
     (case TransferCreate_Save (eg_client g) c s of (Inl e, s') \<Rightarrow> (Inl e, s') | (Inr n, s') \<Rightarrow> (Inr (ef_ID n), s'))"

definition TransferUpsertOne_IDX :: "'s ent_graph \<Rightarrow> transfer_create
    \<Rightarrow> ('s, int) io" where
  "TransferUpsertOne_IDX g c = must (TransferUpsertOne_ID g c)"

definition TransferCreateBulk_SaveX :: "'s ent_client \<Rightarrow> transfer_create_bulk
    \<Rightarrow> ('s, ent_transfer list) io" where
  "TransferCreateBulk_SaveX cl b = must (TransferCreateBulk_Save cl b)"

definition TransferCreateBulk_Exec :: "'s ent_client \<Rightarrow> transfer_create_bulk
    \<Rightarrow> ('s, unit) io" where
  "TransferCreateBulk_Exec cl b = drop_result (TransferCreateBulk_Save cl b)"

definition TransferCreateBulk_ExecX :: "'s ent_client \<Rightarrow> transfer_create_bulk
    \<Rightarrow> ('s, unit) io" where
  "TransferCreateBulk_ExecX cl b = must (TransferCreateBulk_Exec cl b)"

definition TransferCreateBulk_OnConflict :: "conflict_opt list \<Rightarrow> transfer_create_bulk
    \<Rightarrow> transfer_create_bulk" where
  "TransferCreateBulk_OnConflict opts b = b\<lparr>fbk_conflict := opts\<rparr>"

definition TransferCreateBulk_OnConflictColumns :: "string list \<Rightarrow> transfer_create_bulk
    \<Rightarrow> transfer_create_bulk" where
  "TransferCreateBulk_OnConflictColumns columns b = 
     b\<lparr>fbk_conflict := fbk_conflict b @ [ConflictColumns columns]\<rparr>"

definition TransferUpsertBulk_UpdateNewValues :: "transfer_create_bulk
    \<Rightarrow> transfer_create_bulk" where
  "TransferUpsertBulk_UpdateNewValues b = 
     b\<lparr>fbk_conflict := fbk_conflict b @ [ResolveWithNewValues,
       IgnoreGiven [transfer_FieldID, transfer_FieldCreatedAt]]\<rparr>"

definition TransferUpsertBulk_Ignore :: "transfer_create_bulk
    \<Rightarrow> transfer_create_bulk" where
  "TransferUpsertBulk_Ignore b = 
     b\<lparr>fbk_conflict := fbk_conflict b @ [ResolveWithIgnore]\<rparr>"

definition TransferUpsertBulk_DoNothing :: "transfer_create_bulk
    \<Rightarrow> transfer_create_bulk" where
  "TransferUpsertBulk_DoNothing b = 
     b\<lparr>fbk_conflict := fbk_conflict b @ [DoNothing]\<rparr>"

definition TransferUpsertBulk_Update :: "(update_set list \<Rightarrow> update_set list)
    \<Rightarrow> transfer_create_bulk \<Rightarrow> transfer_create_bulk" where
  "TransferUpsertBulk_Update set_fn b = 
     b\<lparr>fbk_conflict := fbk_conflict b @ [ResolveWith (set_fn [])]\<rparr>"

definition TransferUpsertBulk_SetHash :: "string \<Rightarrow> transfer_create_bulk
    \<Rightarrow> transfer_create_bulk" where
  "TransferUpsertBulk_SetHash v = TransferUpsertBulk_Update (TransferUpsert_SetHash v)"

definition TransferUpsertBulk_UpdateHash :: "transfer_create_bulk
    \<Rightarrow> transfer_create_bulk" where
  "TransferUpsertBulk_UpdateHash = TransferUpsertBulk_Update TransferUpsert_UpdateHash"

definition TransferUpsertBulk_SetFunc :: "string \<Rightarrow> transfer_create_bulk
    \<Rightarrow> transfer_create_bulk" where
  "TransferUpsertBulk_SetFunc v = TransferUpsertBulk_Update (TransferUpsert_SetFunc v)"

definition TransferUpsertBulk_UpdateFunc :: "transfer_create_bulk
    \<Rightarrow> transfer_create_bulk" where
  "TransferUpsertBulk_UpdateFunc = TransferUpsertBulk_Update TransferUpsert_UpdateFunc"

definition TransferUpsertBulk_SetFromAddress :: "string \<Rightarrow> transfer_create_bulk
    \<Rightarrow> transfer_create_bulk" where
  "TransferUpsertBulk_SetFromAddress v = TransferUpsertBulk_Update (TransferUpsert_SetFromAddress v)"

definition TransferUpsertBulk_UpdateFromAddress :: "transfer_create_bulk
    \<Rightarrow> transfer_create_bulk" where
  "TransferUpsertBulk_UpdateFromAddress = TransferUpsertBulk_Update TransferUpsert_UpdateFromAddress"

definition TransferUpsertBulk_ClearFromAddress :: "transfer_create_bulk
    \<Rightarrow> transfer_create_bulk" where
  "TransferUpsertBulk_ClearFromAddress = TransferUpsertBulk_Update TransferUpsert_ClearFromAddress"

definition TransferUpsertBulk_SetToAddress :: "string \<Rightarrow> transfer_create_bulk
    \<Rightarrow> transfer_create_bulk" where
  "TransferUpsertBulk_SetToAddress v = TransferUpsertBulk_Update (TransferUpsert_SetToAddress v)"

definition TransferUpsertBulk_UpdateToAddress :: "transfer_create_bulk
    \<Rightarrow> transfer_create_bulk" where
  "TransferUpsertBulk_UpdateToAddress = TransferUpsertBulk_Update TransferUpsert_UpdateToAddress"

definition TransferUpsertBulk_ClearToAddress :: "transfer_create_bulk
    \<Rightarrow> transfer_create_bulk" where
  "TransferUpsertBulk_ClearToAddress = TransferUpsertBulk_Update TransferUpsert_ClearToAddress"

definition TransferUpsertBulk_SetToken :: "string \<Rightarrow> transfer_create_bulk
    \<Rightarrow> transfer_create_bulk" where
  "TransferUpsertBulk_SetToken v = TransferUpsertBulk_Update (TransferUpsert_SetToken v)"

definition TransferUpsertBulk_UpdateToken :: "transfer_create_bulk
    \<Rightarrow> transfer_create_bulk" where
  "TransferUpsertBulk_UpdateToken = TransferUpsertBulk_Update TransferUpsert_UpdateToken"

definition TransferUpsertBulk_SetAmount :: "float64 \<Rightarrow> transfer_create_bulk
    \<Rightarrow> transfer_create_bulk" where
  "TransferUpsertBulk_SetAmount v = TransferUpsertBulk_Update (TransferUpsert_SetAmount v)"

definition TransferUpsertBulk_AddAmount :: "float64 \<Rightarrow> transfer_create_bulk
    \<Rightarrow> transfer_create_bulk" where
  "TransferUpsertBulk_AddAmount v = TransferUpsertBulk_Update (TransferUpsert_AddAmount v)"

definition TransferUpsertBulk_UpdateAmount :: "transfer_create_bulk
    \<Rightarrow> transfer_create_bulk" where
  "TransferUpsertBulk_UpdateAmount = TransferUpsertBulk_Update TransferUpsert_UpdateAmount"

definition TransferUpsertBulk_SetDenom :: "string \<Rightarrow> transfer_create_bulk
    \<Rightarrow> transfer_create_bulk" where
  "TransferUpsertBulk_SetDenom v = TransferUpsertBulk_Update (TransferUpsert_SetDenom v)"

definition TransferUpsertBulk_UpdateDenom :: "transfer_create_bulk
    \<Rightarrow> transfer_create_bulk" where
  "TransferUpsertBulk_UpdateDenom = TransferUpsertBulk_Update TransferUpsert_UpdateDenom"

definition TransferUpsertBulk_Exec :: "'s ent_client \<Rightarrow> transfer_create_bulk
    \<Rightarrow> ('s, unit) io" where
  "TransferUpsertBulk_Exec cl b s = 
     (case fbk_err b of Some e \<Rightarrow> (Inl e, s)
      | None \<Rightarrow>
        if list_ex (\<lambda>c. fcb_conflict c \<noteq> []) (fbk_builders b)
          then (Inl (EMsg ''ent: OnConflict was set for builder''), s)
        else if fbk_conflict b = []
          then (Inl (EMsg ''ent: missing options for TransferCreateBulk.OnConflict''), s)
        else TransferCreateBulk_Exec cl b s)"

definition TransferUpsertBulk_ExecX :: "'s ent_client \<Rightarrow> transfer_create_bulk
    \<Rightarrow> ('s, unit) io" where
  "TransferUpsertBulk_ExecX cl b = must (TransferCreateBulk_Exec cl b)"

lemmas transfer_upsert_defs = TransferCreate_SetNillableFromAddress_def TransferCreate_SetNillableToAddress_def
  TransferCreate_SetNillableCreatedAt_def TransferCreate_Mutation_def
  TransferCreate_SaveX_def TransferCreate_Exec_def
  TransferCreate_ExecX_def TransferCreate_OnConflict_def
  TransferCreate_OnConflictColumns_def TransferUpsert_SetHash_def
  TransferUpsert_UpdateHash_def TransferUpsert_SetFunc_def
  TransferUpsert_UpdateFunc_def TransferUpsert_SetFromAddress_def
  TransferUpsert_UpdateFromAddress_def TransferUpsert_ClearFromAddress_def
  TransferUpsert_SetToAddress_def TransferUpsert_UpdateToAddress_def
  TransferUpsert_ClearToAddress_def TransferUpsert_SetToken_def
  TransferUpsert_UpdateToken_def TransferUpsert_SetAmount_def
  TransferUpsert_UpdateAmount_def TransferUpsert_AddAmount_def
  TransferUpsert_SetDenom_def TransferUpsert_UpdateDenom_def
  TransferUpsertOne_UpdateNewValues_def TransferUpsertOne_Ignore_def
  TransferUpsertOne_DoNothing_def TransferUpsertOne_Update_def
  TransferUpsertOne_SetHash_def TransferUpsertOne_UpdateHash_def
  TransferUpsertOne_SetFunc_def TransferUpsertOne_UpdateFunc_def
  TransferUpsertOne_SetFromAddress_def TransferUpsertOne_UpdateFromAddress_def
  TransferUpsertOne_ClearFromAddress_def TransferUpsertOne_SetToAddress_def
  TransferUpsertOne_UpdateToAddress_def TransferUpsertOne_ClearToAddress_def
  TransferUpsertOne_SetToken_def TransferUpsertOne_UpdateToken_def
  TransferUpsertOne_SetAmount_def TransferUpsertOne_AddAmount_def
  TransferUpsertOne_UpdateAmount_def TransferUpsertOne_SetDenom_def
  TransferUpsertOne_UpdateDenom_def TransferUpsertOne_Exec_def
  TransferUpsertOne_ExecX_def TransferUpsertOne_ID_def
  TransferUpsertOne_IDX_def TransferCreateBulk_SaveX_def
  TransferCreateBulk_Exec_def TransferCreateBulk_ExecX_def
  TransferCreateBulk_OnConflict_def TransferCreateBulk_OnConflictColumns_def
  TransferUpsertBulk_UpdateNewValues_def TransferUpsertBulk_Ignore_def
  TransferUpsertBulk_DoNothing_def TransferUpsertBulk_Update_def
  TransferUpsertBulk_SetHash_def TransferUpsertBulk_UpdateHash_def
  TransferUpsertBulk_SetFunc_def TransferUpsertBulk_UpdateFunc_def
  TransferUpsertBulk_SetFromAddress_def TransferUpsertBulk_UpdateFromAddress_def
  TransferUpsertBulk_ClearFromAddress_def TransferUpsertBulk_SetToAddress_def
  TransferUpsertBulk_UpdateToAddress_def TransferUpsertBulk_ClearToAddress_def
  TransferUpsertBulk_SetToken_def TransferUpsertBulk_UpdateToken_def
  TransferUpsertBulk_SetAmount_def TransferUpsertBulk_AddAmount_def
  TransferUpsertBulk_UpdateAmount_def TransferUpsertBulk_SetDenom_def
  TransferUpsertBulk_UpdateDenom_def TransferUpsertBulk_Exec_def
  TransferUpsertBulk_ExecX_def

end
