(* ===== verification/Repository.thy ===== *)
theory Repository
  imports Ent_Upsert
begin

text \<open>
  The persistence interface and its implementation: the Go interface \<^verbatim>\<open>Repository\<close>
  (\<^verbatim>\<open>repository/repository.go\<close>) as a record of operations, which is what the services are
  defined over, and \<^verbatim>\<open>RepositoryEnt\<close> (\<^verbatim>\<open>repository/repository_ent.go\<close>) as the instance
  \<open>RepositoryEnt\<close> built on the generated client. The block synchronizer's own repository
  (\<^verbatim>\<open>cmd/block-synchronizer/repository\<close>) is at the end.

  A pointer argument that Go dereferences is an option; dereferencing \<^verbatim>\<open>nil\<close> is a panic.
\<close>

record 's repository =
  AddBlock :: "block option \<Rightarrow> ('s, bool) io"
  AddBlocks :: "block option list \<Rightarrow> ('s, unit) io"
  GetBlock :: "int \<Rightarrow> ('s, block) io"
  GetBlocks :: "int \<Rightarrow> int \<Rightarrow> ('s, block list) io"
  AddTransaction :: "int \<Rightarrow> transaction \<Rightarrow> ('s, unit) io"
  AddTransactions :: "int \<Rightarrow> transaction list \<Rightarrow> ('s, unit) io"
  GetTransaction :: "string \<Rightarrow> ('s, transaction) io"
  GetTransactions :: "int \<Rightarrow> int \<Rightarrow> int \<Rightarrow> ('s, transaction list) io"
  AddAccount :: "account \<Rightarrow> ('s, unit) io"
  GetAccount :: "string \<Rightarrow> string \<Rightarrow> ('s, account option) io"
  GetAccounts :: "string \<Rightarrow> string \<Rightarrow> ('s, account list) io"
  IncrementAccountBalance :: "string \<Rightarrow> string \<Rightarrow> int \<Rightarrow> ('s, unit) io"
  GetBalances :: "string \<Rightarrow> ('s, token_balance list) io"
  AddTransfer :: "transaction \<Rightarrow> transfer \<Rightarrow> ('s, unit) io"
  AddTransfers :: "transaction \<Rightarrow> transfer list \<Rightarrow> ('s, unit) io"
  GetTransfers :: "string \<Rightarrow> string \<Rightarrow> string \<Rightarrow> ('s, transfer list) io"

text \<open>\<^verbatim>\<open>return logger.Errorf(format, err)\<close>: a new error that keeps no chain; a panic is not an error
  value and passes through.\<close>

fun logger_Errorf :: "string \<Rightarrow> err \<Rightarrow> err" where
  "logger_Errorf msg (EPanic p) = EPanic p"
| "logger_Errorf msg e = EMsg msg"

text \<open>With \<^verbatim>\<open>%w\<close> the error keeps its chain.\<close>

fun logger_Errorf_w :: "string \<Rightarrow> err \<Rightarrow> err" where
  "logger_Errorf_w msg (EPanic p) = EPanic p"
| "logger_Errorf_w msg e = EWrap msg e"

fun is_panic :: "err \<Rightarrow> bool" where
  "is_panic (EPanic p) = True"
| "is_panic (EWrap m e) = is_panic e"
| "is_panic e = False"

lemma is_panic_logged [simp]:
  "\<not> is_panic e \<Longrightarrow> \<not> is_panic (logger_Errorf msg e)"
  "\<not> is_panic e \<Longrightarrow> \<not> is_panic (logger_Errorf_w msg e)"
  by (cases e; simp)+

section \<open>Blocks\<close>

definition block_of_ent :: "ent_block \<Rightarrow> block" where
  "block_of_ent e = \<lparr>b_Hash = eb_Hash e, b_Height = eb_ID e, b_Time = eb_Time e,
     b_TotalTxs = eb_TotalTxs e, b_NumTxs = eb_NumTxs e\<rparr>"

definition block_builder :: "go_time \<Rightarrow> block \<Rightarrow> block_create" where
  "block_builder now b =
     BlockCreate_SetCreatedAt now
     (BlockCreate_SetNumTxs (b_NumTxs b)
     (BlockCreate_SetTotalTxs (b_TotalTxs b)
     (BlockCreate_SetTime (b_Time b)
     (BlockCreate_SetID (b_Height b)
     (BlockCreate_SetHash (b_Hash b) BlockClient_Create)))))"

definition RepositoryEnt_GetHighestBlock :: "'s ent_client \<Rightarrow> ('s, block) io" where
  "RepositoryEnt_GetHighestBlock cl s =
     (case BlockQuery_First cl (Order (ent_Desc [''height'']) Query) s of
        (Inl e, s') \<Rightarrow> (Inl (logger_Errorf ''failed to get highest block'' e), s')
      | (Inr e, s') \<Rightarrow> (Inr (block_of_ent e), s'))"

text \<open>\<^verbatim>\<open>AddBlock\<close> answers "it exists" to any constraint violation.\<close>

definition RepositoryEnt_AddBlock :: "'s ent_client \<Rightarrow> block option \<Rightarrow> ('s, bool) io" where
  "RepositoryEnt_AddBlock cl blk s =
     (case blk of None \<Rightarrow> (Inl (EPanic ''nil pointer dereference''), s)
      | Some b \<Rightarrow>
        (case BlockCreate_Save cl (block_builder (Now cl 0 s) b) s of
           (Inl e, s') \<Rightarrow>
             if IsConstraintError e then (Inr True, s')
             else (Inl (logger_Errorf ''failed to add block'' e), s')
         | (Inr _, s') \<Rightarrow> (Inr False, s')))"

definition RepositoryEnt_AddBlocks :: "'s ent_client \<Rightarrow> block option list \<Rightarrow> ('s, unit) io" where
  "RepositoryEnt_AddBlocks cl blocks s =
     (if blocks = [] then (Inr (), s)
      else if None \<in> set blocks then (Inl (EPanic ''nil pointer dereference''), s)
      else case BlockCreateBulk_Save cl (BlockClient_CreateBulk
          (map (\<lambda>i. block_builder (Now cl i s) (the (blocks ! i))) [0..<length blocks])) s of
        (Inl e, s') \<Rightarrow> (Inl (logger_Errorf ''failed to add blocks'' e), s')
      | (Inr _, s') \<Rightarrow> (Inr (), s'))"

definition RepositoryEnt_GetBlock :: "'s ent_client \<Rightarrow> int \<Rightarrow> ('s, block) io" where
  "RepositoryEnt_GetBlock cl blockNum s =
     (case BlockQuery_Only cl (Where [block_IDEQ blockNum] Query) s of
        (Inl e, s') \<Rightarrow> (Inl (logger_Errorf ''failed to get block'' e), s')
      | (Inr e, s') \<Rightarrow> (Inr (block_of_ent e), s'))"

definition RepositoryEnt_GetBlocks :: "'s ent_client \<Rightarrow> int \<Rightarrow> int \<Rightarrow> ('s, block list) io" where
  "RepositoryEnt_GetBlocks cl offset limit s =
     (case BlockQuery_All cl (Order (ent_Desc [''height'']) (Limit limit (Offset offset Query))) s of
        (Inl e, s') \<Rightarrow> (Inl (logger_Errorf ''failed to get blocks'' e), s')
      | (Inr es, s') \<Rightarrow> (Inr (map block_of_ent es), s'))"

section \<open>Transactions\<close>

definition transaction_of_ent :: "ent_transaction \<Rightarrow> transaction" where
  "transaction_of_ent e = \<lparr>tx_Index = et_Index e, tx_Hash = et_Hash e, tx_Success = et_Success e,
     tx_BlockHeight = et_BlockHeight e, tx_GasWanted = et_GasWanted e, tx_GasUsed = et_GasUsed e,
     tx_Memo = et_Memo e, tx_GasFee = schema_gas_fee_to_model (et_GasFee e),
     tx_Messages = convertSchemaMessagesToModel (et_Messages e),
     tx_Response = convertSchemaResponseToModel (et_Response e)\<rparr>"

definition transaction_builder :: "go_time \<Rightarrow> int \<Rightarrow> transaction \<Rightarrow> transaction_create" where
  "transaction_builder now blockNum tx =
     TransactionCreate_SetCreatedAt now
     (TransactionCreate_SetBlockID blockNum
     (TransactionCreate_SetResponse (convertResponseToSchema (tx_Response tx))
     (TransactionCreate_SetMessages (convertMessagesToSchema (tx_Messages tx))
     (TransactionCreate_SetGasFee (gas_fee_to_schema (tx_GasFee tx))
     (TransactionCreate_SetMemo (tx_Memo tx)
     (TransactionCreate_SetGasUsed (tx_GasUsed tx)
     (TransactionCreate_SetGasWanted (tx_GasWanted tx)
     (TransactionCreate_SetBlockHeight (tx_BlockHeight tx)
     (TransactionCreate_SetSuccess (tx_Success tx)
     (TransactionCreate_SetHash (tx_Hash tx)
     (TransactionCreate_SetIndex (tx_Index tx) TransactionClient_Create)))))))))))"

definition RepositoryEnt_AddTransaction :: "'s ent_client \<Rightarrow> int \<Rightarrow> transaction \<Rightarrow> ('s, unit) io" where
  "RepositoryEnt_AddTransaction cl blockNum tx s =
     (case TransactionCreate_Save cl (transaction_builder (Now cl 0 s) blockNum tx) s of
        (Inl e, s') \<Rightarrow> (Inl (logger_Errorf ''failed to add transaction'' e), s')
      | (Inr _, s') \<Rightarrow> (Inr (), s'))"

definition RepositoryEnt_AddTransactions :: "'s ent_client \<Rightarrow> int \<Rightarrow> transaction list
    \<Rightarrow> ('s, unit) io" where
  "RepositoryEnt_AddTransactions cl blockNum txs s =
     (if txs = [] then (Inr (), s)
      else case TransactionCreateBulk_Save cl (TransactionClient_CreateBulk
          (map (\<lambda>i. transaction_builder (Now cl i s) blockNum (txs ! i)) [0..<length txs])) s of
        (Inl e, s') \<Rightarrow>
          if IsConstraintError e then (Inr (), s')
          else (Inl (logger_Errorf ''failed to add transactions'' e), s')
      | (Inr _, s') \<Rightarrow> (Inr (), s'))"

definition RepositoryEnt_GetTransaction :: "'s ent_client \<Rightarrow> string \<Rightarrow> ('s, transaction) io" where
  "RepositoryEnt_GetTransaction cl txHash s =
     (case TransactionQuery_Only cl (Where [transaction_HashEQ txHash] Query) s of
        (Inl e, s') \<Rightarrow> (Inl (logger_Errorf ''failed to get transaction'' e), s')
      | (Inr e, s') \<Rightarrow> (Inr (transaction_of_ent e), s'))"

definition RepositoryEnt_GetTransactions :: "'s ent_client \<Rightarrow> int \<Rightarrow> int \<Rightarrow> int
    \<Rightarrow> ('s, transaction list) io" where
  "RepositoryEnt_GetTransactions cl blockNum offset limit s =
     (case TransactionQuery_All cl (Order (ent_Asc [''index''])
          (Limit limit (Offset offset (Where [transaction_BlockHeightEQ blockNum] Query)))) s of
        (Inl e, s') \<Rightarrow> (Inl (logger_Errorf ''failed to get transactions for block'' e), s')
      | (Inr es, s') \<Rightarrow> (Inr (map transaction_of_ent es), s'))"

section \<open>Accounts\<close>

definition RepositoryEnt_AddAccount :: "'s ent_client \<Rightarrow> account \<Rightarrow> ('s, unit) io" where
  "RepositoryEnt_AddAccount cl acc s =
     (case AccountCreate_Save cl (AccountCreate_SetAmount (ac_Amount acc)
          (AccountCreate_SetToken (ac_Token acc)
          (AccountCreate_SetID (ac_Address acc) AccountClient_Create))) s of
        (Inl e, s') \<Rightarrow> (Inl (logger_Errorf ''failed to add account'' e), s')
      | (Inr _, s') \<Rightarrow> (Inr (), s'))"

text \<open>An empty address or token drops its predicate.\<close>

definition account_query :: "string \<Rightarrow> string \<Rightarrow> ent_query" where
  "account_query address token =
     (let q0 = Query;
          q1 = (if address \<noteq> [] then Where [account_IDEQ address] q0 else q0)
      in if token \<noteq> [] then Where [account_TokenEQ token] q1 else q1)"

text \<open>The result echoes the arguments, not the row's own address and token.\<close>

definition RepositoryEnt_GetAccount :: "'s ent_client \<Rightarrow> string \<Rightarrow> string
    \<Rightarrow> ('s, account option) io" where
  "RepositoryEnt_GetAccount cl address token s =
     (case AccountQuery_Only cl (account_query address token) s of
        (Inl e, s') \<Rightarrow>
          if IsNotFound e then (Inr None, s')
          else (Inl (logger_Errorf ''failed to get account'' e), s')
      | (Inr e, s') \<Rightarrow>
          (Inr (Some \<lparr>ac_Address = address, ac_Token = token, ac_Amount = ea_Amount e,
                      ac_CreatedAt = zero_time\<rparr>), s'))"

definition account_of_ent :: "ent_account \<Rightarrow> account" where
  "account_of_ent e = \<lparr>ac_Address = ea_ID e, ac_Token = ea_Token e, ac_Amount = ea_Amount e,
     ac_CreatedAt = zero_time\<rparr>"

definition RepositoryEnt_GetAccounts :: "'s ent_client \<Rightarrow> string \<Rightarrow> string
    \<Rightarrow> ('s, account list) io" where
  "RepositoryEnt_GetAccounts cl address token s =
     (case AccountQuery_All cl (account_query address token) s of
        (Inl e, s') \<Rightarrow>
          if IsNotFound e then (Inr [], s')
          else (Inl (logger_Errorf ''failed to get accounts'' e), s')
      | (Inr es, s') \<Rightarrow> (Inr (map account_of_ent es), s'))"

text \<open>\<^verbatim>\<open>sql.ScanSlice\<close> fills a \<^verbatim>\<open>TokenBalance\<close> from the columns \<^verbatim>\<open>token\<close> and \<^verbatim>\<open>amount\<close>.\<close>

definition scan_token_balance :: "row \<Rightarrow> err + token_balance" where
  "scan_token_balance r =
     (case (map_of r ''token'', map_of r ''amount'') of
        (Some (VString t), Some (VFloat a)) \<Rightarrow> Inr \<lparr>tb_Token = t, tb_Amount = a\<rparr>
      | _ \<Rightarrow> Inl (EDriver (SqlOther ''sql/scan: failed scanning rows'')))"

definition RepositoryEnt_GetBalances :: "'s ent_client \<Rightarrow> string \<Rightarrow> ('s, token_balance list) io" where
  "RepositoryEnt_GetBalances cl address s =
     (let q = (if address = [] then Query else Where [account_IDEQ address] Query) in
      case AccountGroupBy_Scan cl (AccountGroupBy_Aggregate
             [ent_As_Sum account_FieldAmount ''amount''] (AccountQuery_GroupBy account_FieldToken [] q)) s of
        (Inl e, s') \<Rightarrow>
          if IsNotFound e then (Inr [], s')
          else (Inl (logger_Errorf ''failed to get balances'' e), s')
      | (Inr rows, s') \<Rightarrow>
          (case assign_rows scan_token_balance rows of
             Inl e \<Rightarrow> (Inl (logger_Errorf ''failed to get balances'' e), s')
           | Inr bs \<Rightarrow> (Inr bs, s')))"

definition RepositoryEnt_IncrementAccountBalance :: "'s ent_client \<Rightarrow> string \<Rightarrow> string \<Rightarrow> int
    \<Rightarrow> ('s, unit) io" where
  "RepositoryEnt_IncrementAccountBalance cl address token amount s =
     (case AccountUpdate_Save cl (AccountUpdate_AddAmount (f64_of_int amount)
          (AccountUpdate_Where [account_IDEQ address, account_TokenEQ token] AccountClient_Update)) s of
        (Inl e, s') \<Rightarrow>
          if IsNotFound e then (Inl (logger_Errorf ''account with token not found'' e), s')
          else (Inl (logger_Errorf ''failed to increment account balance'' e), s')
      | (Inr _, s') \<Rightarrow> (Inr (), s'))"

section \<open>Transfers\<close>

definition transfer_builder :: "(string \<Rightarrow> string) \<Rightarrow> go_time \<Rightarrow> transaction \<Rightarrow> transfer
    \<Rightarrow> transfer_create" where
  "transfer_builder uni now tx t =
     (let c0 = TransferCreate_SetCreatedAt now
               (TransferCreate_SetDenom (tr_Denom t)
               (TransferCreate_SetAmount (tr_Amount t)
               (TransferCreate_SetToken (tr_Token t)
               (TransferCreate_SetFunc (to_lower uni (tr_Func t))
               (TransferCreate_SetHash (tx_Hash tx) TransferClient_Create)))));
          c1 = (if tr_FromAddress t \<noteq> [] then TransferCreate_SetFromAddress (tr_FromAddress t) c0
                else c0)
      in if tr_ToAddress t \<noteq> [] then TransferCreate_SetToAddress (tr_ToAddress t) c1 else c1)"

definition RepositoryEnt_AddTransfer :: "'s ent_client \<Rightarrow> transaction \<Rightarrow> transfer \<Rightarrow> ('s, unit) io" where
  "RepositoryEnt_AddTransfer cl tx t s =
     (case TransferCreate_Save cl (transfer_builder (UniLower cl) (Now cl 0 s) tx t) s of
        (Inl e, s') \<Rightarrow> (Inl (logger_Errorf ''failed to add transfer'' e), s')
      | (Inr _, s') \<Rightarrow> (Inr (), s'))"

definition RepositoryEnt_AddTransfers :: "'s ent_client \<Rightarrow> transaction \<Rightarrow> transfer list
    \<Rightarrow> ('s, unit) io" where
  "RepositoryEnt_AddTransfers cl tx transfers s =
     (case TransferCreateBulk_Save cl (TransferClient_CreateBulk
          (map (\<lambda>i. transfer_builder (UniLower cl) (Now cl i s) tx (transfers ! i))
             [0..<length transfers])) s of
        (Inl e, s') \<Rightarrow> (Inl (logger_Errorf ''failed to add transfers'' e), s')
      | (Inr _, s') \<Rightarrow> (Inr (), s'))"

text \<open>The two address filters are added as separate \<^verbatim>\<open>Where\<close> calls, each an \<^verbatim>\<open>Or\<close> of one predicate.\<close>

definition transfers_query :: "string \<Rightarrow> string \<Rightarrow> string \<Rightarrow> ent_query" where
  "transfers_query fromAccountOr toAccountOr token =
     (let q0 = Query;
          q1 = (if fromAccountOr \<noteq> [] then Where [transfer_Or [transfer_FromAddressEQ fromAccountOr]] q0
                else q0);
          q2 = (if toAccountOr \<noteq> [] then Where [transfer_Or [transfer_ToAddressEQ toAccountOr]] q1
                else q1);
          q3 = (if token \<noteq> [] then Where [transfer_TokenEQ token] q2 else q2)
      in Where [transfer_Func ''transfer''] q3)"

definition transfer_of_ent :: "ent_transfer \<Rightarrow> transfer" where
  "transfer_of_ent e = \<lparr>tr_Func = '''', tr_FromAddress = ef_FromAddress e,
     tr_ToAddress = ef_ToAddress e, tr_Token = ef_Token e, tr_Amount = ef_Amount e,
     tr_Denom = ef_Denom e, tr_CreatedAt = ef_CreatedAt e\<rparr>"

definition RepositoryEnt_GetTransfers :: "'s ent_client \<Rightarrow> string \<Rightarrow> string \<Rightarrow> string
    \<Rightarrow> ('s, transfer list) io" where
  "RepositoryEnt_GetTransfers cl fromAccountOr toAccountOr token s =
     (case TransferQuery_All cl (transfers_query fromAccountOr toAccountOr token) s of
        (Inl e, s') \<Rightarrow>
          if IsNotFound e then (Inr [], s')
          else (Inl (logger_Errorf ''failed to get transfer'' e), s')
      | (Inr es, s') \<Rightarrow> (Inr (map transfer_of_ent es), s'))"

definition RepositoryEnt :: "'s ent_client \<Rightarrow> 's repository" where
  "RepositoryEnt cl =
     \<lparr>AddBlock = RepositoryEnt_AddBlock cl, AddBlocks = RepositoryEnt_AddBlocks cl,
      GetBlock = RepositoryEnt_GetBlock cl, GetBlocks = RepositoryEnt_GetBlocks cl,
      AddTransaction = RepositoryEnt_AddTransaction cl,
      AddTransactions = RepositoryEnt_AddTransactions cl,
      GetTransaction = RepositoryEnt_GetTransaction cl,
      GetTransactions = RepositoryEnt_GetTransactions cl,
      AddAccount = RepositoryEnt_AddAccount cl, GetAccount = RepositoryEnt_GetAccount cl,
      GetAccounts = RepositoryEnt_GetAccounts cl,
      IncrementAccountBalance = RepositoryEnt_IncrementAccountBalance cl,
      GetBalances = RepositoryEnt_GetBalances cl, AddTransfer = RepositoryEnt_AddTransfer cl,
      AddTransfers = RepositoryEnt_AddTransfers cl, GetTransfers = RepositoryEnt_GetTransfers cl\<rparr>"

section \<open>The restorer's checkpoint (\<^verbatim>\<open>cmd/block-synchronizer/repository\<close>)\<close>

record 's repository_bs =
  GetNotSequentialBlockNum :: "int \<Rightarrow> ('s, int) io"
  SaveRestoringHistory :: "int \<Rightarrow> int \<Rightarrow> ('s, unit) io"

definition RepositoryBsEnt_GetNotSequentialBlockNum :: "'s ent_client \<Rightarrow> int \<Rightarrow> ('s, int) io" where
  "RepositoryBsEnt_GetNotSequentialBlockNum cl limit s =
     (case RestoreHistoryQuery_First cl (Where [restorehistory_IDEQ 1] Query) s of
        (Inl e, s') \<Rightarrow>
          if IsNotFound e then (Inr 1, s')
          else (Inl (logger_Errorf ''Error querying restoring history'' e), s')
      | (Inr h, s') \<Rightarrow> (Inr (eh_RestoreRangeStart h), s'))"

definition restoring_history_builder :: "int \<Rightarrow> int \<Rightarrow> restorehistory_create" where
  "restoring_history_builder startBlock endBlock =
     RestoreHistoryUpsertOne_UpdateBeingBlock
     (RestoreHistoryUpsertOne_UpdateRestoreRangeEnd
     (RestoreHistoryUpsertOne_UpdateRestoreRangeStart
     (RestoreHistoryCreate_OnConflictColumns [restorehistory_FieldID]
     (RestoreHistoryCreate_SetBeingBlock 0
     (RestoreHistoryCreate_SetRestoreRangeEnd endBlock
     (RestoreHistoryCreate_SetRestoreRangeStart startBlock
     (RestoreHistoryCreate_SetID 1 RestoreHistoryClient_Create)))))))"

definition RepositoryBsEnt_SaveRestoringHistory :: "'s ent_client \<Rightarrow> int \<Rightarrow> int \<Rightarrow> ('s, unit) io" where
  "RepositoryBsEnt_SaveRestoringHistory cl startBlock endBlock s =
     (case RestoreHistoryUpsertOne_Exec cl (restoring_history_builder startBlock endBlock) s of
        (Inl e, s') \<Rightarrow>
          (Inl (case e of EPanic p \<Rightarrow> EPanic p
                | _ \<Rightarrow> EWrap ''failed to save restoring history'' e), s')
      | (Inr _, s') \<Rightarrow> (Inr (), s'))"

definition RepositoryBsEnt :: "'s ent_client \<Rightarrow> 's repository_bs" where
  "RepositoryBsEnt cl =
     \<lparr>GetNotSequentialBlockNum = RepositoryBsEnt_GetNotSequentialBlockNum cl,
      SaveRestoringHistory = RepositoryBsEnt_SaveRestoringHistory cl\<rparr>"

lemmas repository_ent_defs = RepositoryEnt_def RepositoryBsEnt_def

end
