(* ===== verification/Database.thy ===== *)
theory Database
  imports Ent_Core
begin

text \<open>
  The database below the generated client. The tables are those of
  \<^verbatim>\<open>ent/migrate/schema.go\<close>; what an SQL statement does to them is stated as laws of a locale,
  \<open>sql_driver\<close>, because \<^verbatim>\<open>sqlgraph\<close> and the database server are not part of the repository:

  \<^item> an insert either adds the row it describes, or violates a key, a unique index or a foreign
    key, or fails for a reason outside the data, and in the last two cases changes nothing;
  \<^item> a batch insert is one statement: all rows or none;
  \<^item> an update changes exactly the rows its predicates select;
  \<^item> a query returns the selected rows in the requested order, cut to offset and limit, and
    changes nothing.

  \<open>sql_driver_up\<close> extends it with the promise that no statement fails for an outside reason.
  A database state is observed as a set of rows per table: tables have a primary key, so no row
  occurs twice, and the order in which SQL returns rows is not determined without \<^verbatim>\<open>ORDER BY\<close>.
\<close>

section \<open>The tables (\<^verbatim>\<open>ent/migrate/schema.go\<close>)\<close>

record sql_column =
  sc_Name :: string
  sc_Type :: ftype
  sc_Nullable :: bool
  sc_Increment :: bool
  sc_Default :: "ent_value option"

text \<open>What the deletion of a row does to the rows that refer to it.\<close>

datatype ref_action = SetNull | NoAction

record sql_fk =
  fk_Column :: string
  fk_RefTable :: string
  fk_RefColumn :: string
  fk_OnDelete :: ref_action

record sql_index =
  ix_Unique :: bool
  ix_Columns :: "string list"

record sql_table =
  st_Name :: string
  st_Columns :: "sql_column list"
  st_PrimaryKey :: string
  st_ForeignKeys :: "sql_fk list"
  st_Indexes :: "sql_index list"

definition column :: "string \<Rightarrow> ftype \<Rightarrow> sql_column" where
  "column name ty = \<lparr>sc_Name = name, sc_Type = ty, sc_Nullable = False, sc_Increment = False,
     sc_Default = None\<rparr>"

definition nullable :: "sql_column \<Rightarrow> sql_column" where
  "nullable c = c\<lparr>sc_Nullable := True\<rparr>"

definition increment :: "sql_column \<Rightarrow> sql_column" where
  "increment c = c\<lparr>sc_Increment := True\<rparr>"

definition AccountsTable :: sql_table where
  "AccountsTable = \<lparr>st_Name = ''accounts'',
     st_Columns = [column ''address'' TypeString, column ''token'' TypeString,
       column ''amount'' TypeFloat64],
     st_PrimaryKey = ''address'', st_ForeignKeys = [],
     st_Indexes = [\<lparr>ix_Unique = True, ix_Columns = [''address'', ''token'']\<rparr>]\<rparr>"

definition BlocksTable :: sql_table where
  "BlocksTable = \<lparr>st_Name = ''blocks'',
     st_Columns = [increment (column ''height'' TypeInt), column ''hash'' TypeString,
       column ''time'' TypeTime, column ''total_txs'' TypeInt, column ''num_txs'' TypeInt,
       column ''created_at'' TypeTime],
     st_PrimaryKey = ''height'', st_ForeignKeys = [], st_Indexes = []\<rparr>"

definition RestoreHistoriesTable :: sql_table where
  "RestoreHistoriesTable = \<lparr>st_Name = ''restore_histories'',
     st_Columns = [increment (column ''id'' TypeInt), column ''restore_range_start'' TypeInt,
       column ''restore_range_end'' TypeInt, column ''being_block'' TypeInt],
     st_PrimaryKey = ''id'', st_ForeignKeys = [], st_Indexes = []\<rparr>"

definition TransactionsTable :: sql_table where
  "TransactionsTable = \<lparr>st_Name = ''transactions'',
     st_Columns = [increment (column ''id'' TypeInt), column ''index'' TypeInt,
       column ''hash'' TypeString, (column ''success'' TypeBool)\<lparr>sc_Default := Some (VBool False)\<rparr>,
       column ''block_height'' TypeInt, column ''gas_wanted'' TypeFloat64,
       column ''gas_used'' TypeFloat64, nullable (column ''memo'' TypeString),
       nullable (column ''gas_fee'' TypeJSON), nullable (column ''messages'' TypeJSON),
       nullable (column ''response'' TypeJSON), column ''created_at'' TypeTime,
       nullable (column ''block_transactions'' TypeInt)],
     st_PrimaryKey = ''id'',
     st_ForeignKeys = [\<lparr>fk_Column = ''block_transactions'', fk_RefTable = ''blocks'',
       fk_RefColumn = ''height'', fk_OnDelete = SetNull\<rparr>],
     st_Indexes = []\<rparr>"

definition TransfersTable :: sql_table where
  "TransfersTable = \<lparr>st_Name = ''transfers'',
     st_Columns = [increment (column ''id'' TypeInt), column ''hash'' TypeString,
       column ''func'' TypeString, nullable (column ''from_address'' TypeString),
       nullable (column ''to_address'' TypeString), column ''token'' TypeString,
       column ''amount'' TypeFloat64, column ''denom'' TypeString, column ''created_at'' TypeTime],
     st_PrimaryKey = ''id'',
     st_ForeignKeys =
       [\<lparr>fk_Column = ''to_address'', fk_RefTable = ''accounts'', fk_RefColumn = ''address'',
          fk_OnDelete = SetNull\<rparr>,
        \<lparr>fk_Column = ''from_address'', fk_RefTable = ''accounts'', fk_RefColumn = ''address'',
          fk_OnDelete = SetNull\<rparr>],
     st_Indexes = [\<lparr>ix_Unique = False, ix_Columns = [''from_address'', ''token'']\<rparr>,
       \<lparr>ix_Unique = False, ix_Columns = [''to_address'', ''token'']\<rparr>]\<rparr>"

definition Tables :: "sql_table list" where
  "Tables = [AccountsTable, BlocksTable, RestoreHistoriesTable, TransactionsTable, TransfersTable]"

definition table_of :: "string \<Rightarrow> sql_table option" where
  "table_of n = List.find (\<lambda>t. st_Name t = n) Tables"

lemmas table_defs = AccountsTable_def BlocksTable_def RestoreHistoriesTable_def
  TransactionsTable_def TransfersTable_def

lemmas column_defs = column_def nullable_def increment_def

section \<open>Rows, predicates and well-formed statements\<close>

definition col :: "row \<Rightarrow> string \<Rightarrow> ent_value" where
  "col r c = (case map_of r c of None \<Rightarrow> VNull | Some v \<Rightarrow> v)"

text \<open>The three truth values of SQL, \<open>None\<close> for unknown: a comparison with NULL is unknown, and a row is
  selected when its predicate is true. The predicates on text patterns depend on the collation of
  the database and those along an edge on other tables; the laws below do not speak of them.\<close>

fun not3 :: "bool option \<Rightarrow> bool option" where
  "not3 (Some b) = Some (\<not> b)"
| "not3 None = None"

definition and3 :: "bool option list \<Rightarrow> bool option" where
  "and3 bs = (if List.member bs (Some False) then Some False
     else if List.member bs None then None else Some True)"

definition or3 :: "bool option list \<Rightarrow> bool option" where
  "or3 bs = (if List.member bs (Some True) then Some True
     else if List.member bs None then None else Some False)"

definition compare3 :: "(ent_value \<Rightarrow> ent_value \<Rightarrow> bool) \<Rightarrow> ent_value \<Rightarrow> ent_value \<Rightarrow> bool option" where
  "compare3 le v w = (if v = VNull \<or> w = VNull then None else Some (le v w))"

fun int_less :: "ent_value \<Rightarrow> ent_value \<Rightarrow> bool" where
  "int_less (VInt a) (VInt b) = (a < b)"
| "int_less v w = False"

fun truth :: "row \<Rightarrow> pred \<Rightarrow> bool option" where
  "truth r (FieldEQ c v) = compare3 (=) (col r c) v"
| "truth r (FieldNEQ c v) = not3 (compare3 (=) (col r c) v)"
| "truth r (FieldIn c vs) = or3 (map (compare3 (=) (col r c)) vs)"
| "truth r (FieldNotIn c vs) = not3 (or3 (map (compare3 (=) (col r c)) vs))"
| "truth r (FieldGT c v) = compare3 int_less v (col r c)"
| "truth r (FieldGTE c v) = not3 (compare3 int_less (col r c) v)"
| "truth r (FieldLT c v) = compare3 int_less (col r c) v"
| "truth r (FieldLTE c v) = not3 (compare3 int_less v (col r c))"
| "truth r (FieldIsNull c) = Some (col r c = VNull)"
| "truth r (FieldNotNull c) = Some (col r c \<noteq> VNull)"
| "truth r (AndPredicates ps) = and3 (map (truth r) ps)"
| "truth r (OrPredicates ps) = or3 (map (truth r) ps)"
| "truth r (NotPredicates p) = not3 (truth r p)"
| "truth r p = None"

definition sat :: "row \<Rightarrow> pred \<Rightarrow> bool" where
  "sat r p \<longleftrightarrow> truth r p = Some True"

lemma sat_simps [simp]:
  "sat r (FieldEQ c v) \<longleftrightarrow> v \<noteq> VNull \<and> col r c = v"
  "sat r (OrPredicates ps) \<longleftrightarrow> list_ex (sat r) ps"
  by (force simp: sat_def compare3_def or3_def list_ex_iff split: if_splits)+

definition satisfies :: "pred list \<Rightarrow> row \<Rightarrow> bool" where
  "satisfies ps r \<longleftrightarrow> list_all (sat r) ps"

fun value_ok :: "ftype \<Rightarrow> ent_value \<Rightarrow> bool" where
  "value_ok TypeInt (VInt n) = True"
| "value_ok TypeString (VString x) = True"
| "value_ok TypeBool (VBool b) = True"
| "value_ok TypeFloat64 (VFloat f) = True"
| "value_ok TypeTime (VTime t) = True"
| "value_ok TypeJSON (VGasFee g) = True"
| "value_ok TypeJSON (VMessages m) = True"
| "value_ok TypeJSON (VResponse r) = True"
| "value_ok ty v = False"

definition column_ok :: "sql_column \<Rightarrow> ent_value \<Rightarrow> bool" where
  "column_ok c v \<longleftrightarrow> value_ok (sc_Type c) v \<or> sc_Nullable c \<and> v = VNull"

definition row_ok :: "sql_table \<Rightarrow> row \<Rightarrow> bool" where
  "row_ok t r \<longleftrightarrow> map fst r = map sc_Name (st_Columns t)
     \<and> list_all (\<lambda>c. column_ok c (col r (sc_Name c))) (st_Columns t)"

text \<open>The value an insert gives a column: the key, a field of the spec, the target of an edge kept in
  the row (many-to-one), or the column's default.\<close>

definition edge_value :: "create_spec \<Rightarrow> string \<Rightarrow> ent_value option" where
  "edge_value sp c =
     (case filter (\<lambda>e. es_Rel e = M2O \<and> es_Columns e = [c]) (cs_Edges sp) of
        e # _ \<Rightarrow> (case es_Nodes e of n # _ \<Rightarrow> Some (VInt n) | [] \<Rightarrow> None)
      | [] \<Rightarrow> None)"

definition field_value :: "create_spec \<Rightarrow> sql_column \<Rightarrow> ent_value" where
  "field_value sp c =
     (case map_of (map (\<lambda>(n, ty, v). (n, v)) (cs_Fields sp)) (sc_Name c) of Some v \<Rightarrow> v
      | None \<Rightarrow> (case edge_value sp (sc_Name c) of Some v \<Rightarrow> v
        | None \<Rightarrow> (case sc_Default c of Some v \<Rightarrow> v | None \<Rightarrow> VNull)))"

definition new_row :: "sql_table \<Rightarrow> ent_value \<Rightarrow> create_spec \<Rightarrow> row" where
  "new_row t k sp = map (\<lambda>c. (sc_Name c,
     if sc_Name c = st_PrimaryKey t then k else field_value sp c)) (st_Columns t)"

definition wf_spec :: "sql_table \<Rightarrow> create_spec \<Rightarrow> bool" where
  "wf_spec t sp \<longleftrightarrow>
     cs_Table sp = st_Name t \<and> fst (cs_IDSpec sp) = st_PrimaryKey t \<and>
     list_all (\<lambda>(n, ty, v). list_ex (\<lambda>c. sc_Name c = n \<and> sc_Type c = ty) (st_Columns t)
        \<and> n \<noteq> st_PrimaryKey t) (cs_Fields sp) \<and>
     list_all (\<lambda>e. es_Rel e = M2O) (cs_Edges sp) \<and>
     list_all (\<lambda>c. if sc_Name c = st_PrimaryKey t
        then (case cs_ID sp of Some k \<Rightarrow> value_ok (sc_Type c) k | None \<Rightarrow> sc_Increment c \<and> sc_Type c = TypeInt)
        else column_ok c (field_value sp c)) (st_Columns t)"

text \<open>The key of an insert, and the value the driver leaves in the spec's id: the one given, or one
  the database generates, which arrives as an \<^verbatim>\<open>int64\<close>.\<close>

definition key_of :: "create_spec \<Rightarrow> ent_value option \<Rightarrow> ent_value \<Rightarrow> bool" where
  "key_of sp v k \<longleftrightarrow> (case cs_ID sp of Some i \<Rightarrow> k = i \<and> v = Some i
     | None \<Rightarrow> (\<exists>n. k = VInt n \<and> v = Some (VInt64 n)))"

section \<open>Database states\<close>

type_synonym db = "string \<Rightarrow> row set"

definition fk_ok :: "db \<Rightarrow> row \<Rightarrow> sql_fk \<Rightarrow> bool" where
  "fk_ok d r fk \<longleftrightarrow> col r (fk_Column fk) = VNull
     \<or> (\<exists>q \<in> d (fk_RefTable fk). col q (fk_RefColumn fk) = col r (fk_Column fk))"

definition insert_ok :: "sql_table \<Rightarrow> db \<Rightarrow> row \<Rightarrow> bool" where
  "insert_ok t d r \<longleftrightarrow>
     (\<forall>q \<in> d (st_Name t). col q (st_PrimaryKey t) \<noteq> col r (st_PrimaryKey t)) \<and>
     (\<forall>ix \<in> set (st_Indexes t). ix_Unique ix \<longrightarrow>
        (\<forall>q \<in> d (st_Name t). map (col q) (ix_Columns ix) \<noteq> map (col r) (ix_Columns ix))) \<and>
     (\<forall>fk \<in> set (st_ForeignKeys t). fk_ok d r fk)"

definition db_insert :: "sql_table \<Rightarrow> row \<Rightarrow> db \<Rightarrow> db" where
  "db_insert t r d = d(st_Name t := insert r (d (st_Name t)))"

definition insertable :: "sql_table \<Rightarrow> db \<Rightarrow> create_spec \<Rightarrow> bool" where
  "insertable t d sp \<longleftrightarrow> (\<exists>v k. key_of sp v k \<and> insert_ok t d (new_row t k sp))"

definition table_ok :: "db \<Rightarrow> sql_table \<Rightarrow> bool" where
  "table_ok d t \<longleftrightarrow> finite (d (st_Name t)) \<and> (\<forall>r \<in> d (st_Name t). row_ok t r) \<and>
     inj_on (\<lambda>r. col r (st_PrimaryKey t)) (d (st_Name t))"

definition db_ok :: "db \<Rightarrow> bool" where
  "db_ok d \<longleftrightarrow> list_all (table_ok d) Tables"

text \<open>What each statement may answer and do.\<close>

definition create_step :: "sql_table \<Rightarrow> create_spec \<Rightarrow> db \<Rightarrow> sql_err + ent_value option \<Rightarrow> db
    \<Rightarrow> bool" where
  "create_step t sp d res d' \<longleftrightarrow>
     (case res of
        Inr v \<Rightarrow> (\<exists>k. key_of sp v k \<and> insert_ok t d (new_row t k sp)
                    \<and> d' = db_insert t (new_row t k sp) d)
      | Inl (SqlConstraint m) \<Rightarrow> d' = d \<and> \<not> insertable t d sp
      | Inl e \<Rightarrow> d' = d)"

fun insert_all :: "sql_table \<Rightarrow> create_spec list \<Rightarrow> ent_value list \<Rightarrow> db \<Rightarrow> db option" where
  "insert_all t [] [] d = Some d"
| "insert_all t (sp # sps) (k # ks) d =
     (if insert_ok t d (new_row t k sp) then insert_all t sps ks (db_insert t (new_row t k sp) d)
      else None)"
| "insert_all t sps ks d = None"

definition keys_of :: "create_spec list \<Rightarrow> ent_value option list \<Rightarrow> ent_value list \<Rightarrow> bool" where
  "keys_of sps vs ks \<longleftrightarrow> length vs = length sps \<and> length ks = length sps
     \<and> (\<forall>i < length sps. key_of (sps ! i) (vs ! i) (ks ! i))"

definition batch_step :: "sql_table \<Rightarrow> create_spec list \<Rightarrow> db
    \<Rightarrow> sql_err + ent_value option list \<Rightarrow> db \<Rightarrow> bool" where
  "batch_step t sps d res d' \<longleftrightarrow>
     (case res of
        Inr vs \<Rightarrow> (\<exists>ks. keys_of sps vs ks \<and> insert_all t sps ks d = Some d')
      | Inl (SqlConstraint m) \<Rightarrow> d' = d \<and> \<not> (\<exists>vs ks d''. keys_of sps vs ks
          \<and> insert_all t sps ks d = Some d'')
      | Inl e \<Rightarrow> d' = d)"

text \<open>\<^verbatim>\<open>INSERT .. ON CONFLICT (key) DO UPDATE SET c = excluded.c\<close>.\<close>

definition insert_columns :: "create_spec \<Rightarrow> string list" where
  "insert_columns sp = (if cs_ID sp = None then [] else [fst (cs_IDSpec sp)]) @ map fst (cs_Fields sp)
     @ concat (map es_Columns (filter (\<lambda>e. es_Rel e = M2O) (cs_Edges sp)))"

fun resolve_set :: "update_set \<Rightarrow> string list \<Rightarrow> string list" where
  "resolve_set (SetExcluded c) cs = cs @ [c]"
| "resolve_set (SetIgnore c) cs = removeAll c cs"
| "resolve_set u cs = cs"

fun resolve_opt :: "create_spec \<Rightarrow> conflict_opt \<Rightarrow> string list \<Rightarrow> string list" where
  "resolve_opt sp (ResolveWith us) cs = fold resolve_set us cs"
| "resolve_opt sp ResolveWithNewValues cs = cs @ insert_columns sp"
| "resolve_opt sp (IgnoreGiven ks) cs = fold removeAll (filter (List.member (insert_columns sp)) ks) cs"
| "resolve_opt sp opt cs = cs"

definition excluded_columns :: "create_spec \<Rightarrow> string list" where
  "excluded_columns sp = fold (resolve_opt sp) (cs_OnConflict sp) []"

text \<open>The options the laws speak of: the columns set are set from the row proposed for insertion.\<close>

fun plain_opt :: "conflict_opt \<Rightarrow> bool" where
  "plain_opt (ResolveWith us) = list_all (\<lambda>u. case u of SetExcluded c \<Rightarrow> True | SetIgnore c \<Rightarrow> True | _ \<Rightarrow> False) us"
| "plain_opt ResolveWithNewValues = True"
| "plain_opt (IgnoreGiven ks) = True"
| "plain_opt opt = False"

definition merge_row :: "string list \<Rightarrow> row \<Rightarrow> row \<Rightarrow> row" where
  "merge_row cs new old = map (\<lambda>(c, v). (c, if c \<in> set cs then col new c else v)) old"

definition db_upsert :: "sql_table \<Rightarrow> string list \<Rightarrow> row \<Rightarrow> db \<Rightarrow> db" where
  "db_upsert t cs r d =
     (let same = {q \<in> d (st_Name t). col q (st_PrimaryKey t) = col r (st_PrimaryKey t)} in
      if same = {} then db_insert t r d
      else d(st_Name t := (d (st_Name t) - same) \<union> merge_row cs r ` same))"

definition upsert_step :: "sql_table \<Rightarrow> create_spec \<Rightarrow> db \<Rightarrow> sql_err + ent_value option \<Rightarrow> db
    \<Rightarrow> bool" where
  "upsert_step t sp d res d' \<longleftrightarrow>
     (case res of
        Inr v \<Rightarrow> (\<exists>k. key_of sp v k
          \<and> d' = db_upsert t (excluded_columns sp) (new_row t k sp) d)
      | Inl e \<Rightarrow> d' = d)"

text \<open>\<^verbatim>\<open>UPDATE .. SET c = COALESCE(c, 0) + v\<close>, the form \<^verbatim>\<open>sqlgraph\<close> gives an added field.\<close>

definition add_value :: "ent_value \<Rightarrow> ent_value \<Rightarrow> ent_value" where
  "add_value old v = (case (old, v) of
      (VFloat a, VFloat b) \<Rightarrow> VFloat (f64_add a b)
    | (VNull, VFloat b) \<Rightarrow> VFloat (f64_add (F64 0) b)
    | (VInt a, VInt b) \<Rightarrow> VInt (a + b)
    | (VNull, VInt b) \<Rightarrow> VInt b
    | _ \<Rightarrow> old)"

definition add_row :: "(string \<times> ftype \<times> ent_value) list \<Rightarrow> row \<Rightarrow> row" where
  "add_row adds r = map (\<lambda>(c, v).
     (c, case map_of (map (\<lambda>(n, ty, w). (n, w)) adds) c of None \<Rightarrow> v | Some w \<Rightarrow> add_value v w)) r"

text \<open>\<^verbatim>\<open>UPDATE .. SET c = v, d = NULL, e = COALESCE(e, 0) + w\<close>.\<close>

definition update_row :: "update_spec \<Rightarrow> row \<Rightarrow> row" where
  "update_row us r = map (\<lambda>(c, v). (c,
     case map_of (map (\<lambda>(n, ty, w). (n, w)) (us_Set us)) c of Some w \<Rightarrow> w
     | None \<Rightarrow> if c \<in> set (map fst (us_Clear us)) then VNull
         else (case map_of (map (\<lambda>(n, ty, w). (n, w)) (us_Add us)) c of None \<Rightarrow> v
           | Some w \<Rightarrow> add_value v w))) r"

lemma update_row_adds: "us_Set us = [] \<Longrightarrow> us_Clear us = [] \<Longrightarrow> update_row us = add_row (us_Add us)"
  by (rule ext) (simp add: update_row_def add_row_def)

definition update_step :: "update_spec \<Rightarrow> db \<Rightarrow> sql_err + int \<Rightarrow> db \<Rightarrow> bool" where
  "update_step us d res d' \<longleftrightarrow>
     (let hit = {r \<in> d (us_Table us). satisfies (us_Predicate us) r} in
      case res of
        Inr n \<Rightarrow> n = int (card hit)
          \<and> d' = d(us_Table us := (d (us_Table us) - hit) \<union> update_row us ` hit)
      | Inl e \<Rightarrow> d' = d)"

text \<open>The order of two rows under the terms of \<^verbatim>\<open>ORDER BY\<close>; only integer columns are ordered by.\<close>

definition key_le :: "ent_value \<Rightarrow> ent_value \<Rightarrow> bool" where
  "key_le v w = (case (v, w) of (VInt a, VInt b) \<Rightarrow> a \<le> b | _ \<Rightarrow> True)"

definition ordered_by :: "order_term list \<Rightarrow> row list \<Rightarrow> bool" where
  "ordered_by os rs = (case os of [] \<Rightarrow> True
     | OrdAsc c # _ \<Rightarrow> sorted_wrt (\<lambda>a b. key_le (col a c) (col b c)) rs
     | OrdDesc c # _ \<Rightarrow> sorted_wrt (\<lambda>a b. key_le (col b c) (col a c)) rs)"

definition window :: "int \<Rightarrow> int \<Rightarrow> 'a list \<Rightarrow> 'a list" where
  "window offset limit xs =
     (let ys = drop (nat offset) xs in if limit = 0 then ys else take (nat limit) ys)"

definition project :: "string list \<Rightarrow> row \<Rightarrow> row" where
  "project cs r = map (\<lambda>c. (c, col r c)) cs"

definition query_answer :: "query_spec \<Rightarrow> db \<Rightarrow> row list \<Rightarrow> bool" where
  "query_answer q d rs \<longleftrightarrow>
     (\<exists>ms. distinct ms \<and> set ms = {r \<in> d (qs_Table q). satisfies (qs_Predicate q) r}
        \<and> ordered_by (qs_Order q) ms
        \<and> rs = map (project (qs_Columns q)) (window (qs_Offset q) (qs_Limit q) ms))"

section \<open>The driver's laws\<close>

definition answered :: "sql_err + 'a \<Rightarrow> bool" where
  "answered res = (case res of Inl (SqlConstraint m) \<Rightarrow> True | Inl e \<Rightarrow> False | Inr a \<Rightarrow> True)"

text \<open>Statements the laws speak of: known columns, addition to \<^verbatim>\<open>float64\<close> columns that no key, index or
  reference uses, at most one order term, no negative bounds, a batch whose keys are all given or
  all generated.\<close>

definition has_column :: "sql_table \<Rightarrow> string \<Rightarrow> bool" where
  "has_column t c \<longleftrightarrow> list_ex (\<lambda>k. sc_Name k = c) (st_Columns t)"

definition int_column :: "sql_table \<Rightarrow> string \<Rightarrow> ent_value \<Rightarrow> bool" where
  "int_column t c v \<longleftrightarrow> list_ex (\<lambda>k. sc_Name k = c \<and> sc_Type k = TypeInt) (st_Columns t) \<and> value_ok TypeInt v"

fun wf_pred :: "sql_table \<Rightarrow> pred \<Rightarrow> bool" where
  "wf_pred t (FieldEQ c v) \<longleftrightarrow> has_column t c"
| "wf_pred t (FieldNEQ c v) \<longleftrightarrow> has_column t c"
| "wf_pred t (FieldIn c vs) \<longleftrightarrow> has_column t c \<and> vs \<noteq> []"
| "wf_pred t (FieldNotIn c vs) \<longleftrightarrow> has_column t c \<and> vs \<noteq> []"
| "wf_pred t (FieldGT c v) \<longleftrightarrow> int_column t c v"
| "wf_pred t (FieldGTE c v) \<longleftrightarrow> int_column t c v"
| "wf_pred t (FieldLT c v) \<longleftrightarrow> int_column t c v"
| "wf_pred t (FieldLTE c v) \<longleftrightarrow> int_column t c v"
| "wf_pred t (FieldIsNull c) \<longleftrightarrow> has_column t c"
| "wf_pred t (FieldNotNull c) \<longleftrightarrow> has_column t c"
| "wf_pred t (AndPredicates ps) \<longleftrightarrow> ps \<noteq> [] \<and> list_all (wf_pred t) ps"
| "wf_pred t (OrPredicates ps) \<longleftrightarrow> ps \<noteq> [] \<and> list_all (wf_pred t) ps"
| "wf_pred t (NotPredicates p) \<longleftrightarrow> wf_pred t p"
| "wf_pred t p \<longleftrightarrow> False"

definition plain_column :: "sql_table \<Rightarrow> string \<Rightarrow> bool" where
  "plain_column t c \<longleftrightarrow> c \<noteq> st_PrimaryKey t
     \<and> list_all (\<lambda>ix. c \<notin> set (ix_Columns ix)) (st_Indexes t)
     \<and> list_all (\<lambda>fk. c \<noteq> fk_Column fk) (st_ForeignKeys t)"

definition wf_update :: "sql_table \<Rightarrow> update_spec \<Rightarrow> bool" where
  "wf_update t us \<longleftrightarrow> us_Table us = st_Name t \<and> us_Append us = []
     \<and> us_ClearEdges us = [] \<and> us_AddEdges us = [] \<and> list_all (wf_pred t) (us_Predicate us)
     \<and> map fst (us_Set us) @ map fst (us_Clear us) @ map fst (us_Add us) \<noteq> []
     \<and> distinct (map fst (us_Set us) @ map fst (us_Clear us) @ map fst (us_Add us))
     \<and> list_all (\<lambda>(c, ty, v). value_ok ty v \<and> plain_column t c
          \<and> list_ex (\<lambda>k. sc_Name k = c \<and> sc_Type k = ty) (st_Columns t)) (us_Set us)
     \<and> list_all (\<lambda>(c, ty). plain_column t c
          \<and> list_ex (\<lambda>k. sc_Name k = c \<and> sc_Nullable k) (st_Columns t)) (us_Clear us)
     \<and> list_all (\<lambda>(c, ty, v). ty = TypeFloat64 \<and> value_ok TypeFloat64 v \<and> plain_column t c
          \<and> list_ex (\<lambda>k. sc_Name k = c \<and> sc_Type k = TypeFloat64) (st_Columns t)) (us_Add us)"

definition wf_query :: "sql_table \<Rightarrow> query_spec \<Rightarrow> bool" where
  "wf_query t q \<longleftrightarrow> qs_Table q = st_Name t \<and> list_all (has_column t) (qs_Columns q)
     \<and> list_all (wf_pred t) (qs_Predicate q) \<and> 0 \<le> qs_Limit q \<and> 0 \<le> qs_Offset q
     \<and> (case qs_Order q of [] \<Rightarrow> True | [o1] \<Rightarrow> has_column t (order_column o1) | _ \<Rightarrow> False)"

definition wf_upsert :: "sql_table \<Rightarrow> create_spec \<Rightarrow> bool" where
  "wf_upsert t sp \<longleftrightarrow> wf_spec t sp \<and> st_ForeignKeys t = [] \<and> st_Indexes t = []
     \<and> (case cs_OnConflict sp of ConflictColumns cs # os \<Rightarrow> cs = [st_PrimaryKey t] \<and> list_all plain_opt os
          | _ \<Rightarrow> False)
     \<and> list_all (\<lambda>c. has_column t c \<and> c \<noteq> st_PrimaryKey t) (excluded_columns sp)"

definition wf_batch :: "sql_table \<Rightarrow> create_spec list \<Rightarrow> bool" where
  "wf_batch t sps \<longleftrightarrow> sps \<noteq> [] \<and> list_all (\<lambda>sp. wf_spec t sp \<and> cs_OnConflict sp = []) sps
     \<and> (list_all (\<lambda>sp. cs_ID sp = None) sps \<or> list_all (\<lambda>sp. cs_ID sp \<noteq> None) sps)"

locale sql_driver =
  fixes cl :: "'s ent_client" and rows :: "'s \<Rightarrow> db"
  assumes create: "t \<in> set Tables \<Longrightarrow> wf_spec t sp \<Longrightarrow> cs_OnConflict sp = [] \<Longrightarrow> db_ok (rows s)
      \<Longrightarrow> CreateNode cl sp s = (res, s') \<Longrightarrow> create_step t sp (rows s) res (rows s')"
    and batch: "t \<in> set Tables \<Longrightarrow> wf_batch t sps \<Longrightarrow> db_ok (rows s)
      \<Longrightarrow> BatchCreate cl \<lparr>bs_Nodes = sps, bs_OnConflict = []\<rparr> s = (res', s')
      \<Longrightarrow> batch_step t sps (rows s) res' (rows s')"
    and upsert: "t \<in> set Tables \<Longrightarrow> wf_upsert t sp \<Longrightarrow> db_ok (rows s)
      \<Longrightarrow> CreateNode cl sp s = (res, s') \<Longrightarrow> upsert_step t sp (rows s) res (rows s')"
    and update: "t \<in> set Tables \<Longrightarrow> wf_update t us \<Longrightarrow> db_ok (rows s)
      \<Longrightarrow> UpdateNodes cl us s = (n, s') \<Longrightarrow> update_step us (rows s) n (rows s')"
    and query: "t \<in> set Tables \<Longrightarrow> wf_query t q \<Longrightarrow> db_ok (rows s)
      \<Longrightarrow> QueryNodes cl q s = (qr, s')
      \<Longrightarrow> rows s' = rows s \<and> (\<forall>rs. qr = Inr rs \<longrightarrow> query_answer q (rows s) rs)"
    and not_empty: "NotEmpty cl x \<longleftrightarrow> x \<noteq> []"
    and positive: "Positive cl (F64 (of_int i)) \<longleftrightarrow> 1 \<le> i"

locale sql_driver_up = sql_driver +
  assumes create_up: "t \<in> set Tables \<Longrightarrow> wf_spec t sp \<Longrightarrow> cs_OnConflict sp = [] \<Longrightarrow> db_ok (rows s)
      \<Longrightarrow> answered (fst (CreateNode cl sp s))"
    and upsert_up: "t \<in> set Tables \<Longrightarrow> wf_upsert t sp \<Longrightarrow> db_ok (rows s)
      \<Longrightarrow> \<exists>v. fst (CreateNode cl sp s) = Inr v"
    and batch_up: "t \<in> set Tables \<Longrightarrow> wf_batch t sps \<Longrightarrow> db_ok (rows s)
      \<Longrightarrow> answered (fst (BatchCreate cl \<lparr>bs_Nodes = sps, bs_OnConflict = []\<rparr> s))"
    and update_up: "t \<in> set Tables \<Longrightarrow> wf_update t us \<Longrightarrow> db_ok (rows s)
      \<Longrightarrow> \<exists>n. fst (UpdateNodes cl us s) = Inr n"
    and query_up: "t \<in> set Tables \<Longrightarrow> wf_query t q \<Longrightarrow> db_ok (rows s)
      \<Longrightarrow> \<exists>rs. fst (QueryNodes cl q s) = Inr rs"

section \<open>Rows under the statements\<close>

lemma Tables_cases:
  assumes "t \<in> set Tables"
  obtains "t = AccountsTable" | "t = BlocksTable" | "t = RestoreHistoriesTable"
    | "t = TransactionsTable" | "t = TransfersTable"
  using assms by (auto simp: Tables_def)

lemma Tables_members [simp]:
  "AccountsTable \<in> set Tables" "BlocksTable \<in> set Tables" "RestoreHistoriesTable \<in> set Tables"
  "TransactionsTable \<in> set Tables" "TransfersTable \<in> set Tables"
  by (simp_all add: Tables_def)

lemma table_names [simp]:
  "st_Name AccountsTable = ''accounts''" "st_Name BlocksTable = ''blocks''"
  "st_Name RestoreHistoriesTable = ''restore_histories''"
  "st_Name TransactionsTable = ''transactions''" "st_Name TransfersTable = ''transfers''"
  by (simp_all add: table_defs)

lemma table_keys [simp]:
  "st_PrimaryKey AccountsTable = ''address''" "st_PrimaryKey BlocksTable = ''height''"
  "st_PrimaryKey RestoreHistoriesTable = ''id''" "st_PrimaryKey TransactionsTable = ''id''"
  "st_PrimaryKey TransfersTable = ''id''"
  by (simp_all add: table_defs)

lemma table_name_inj:
  "t \<in> set Tables \<Longrightarrow> u \<in> set Tables \<Longrightarrow> st_Name t = st_Name u \<Longrightarrow> t = u"
  by (erule Tables_cases; erule Tables_cases; simp)

lemma table_columns_distinct: "t \<in> set Tables \<Longrightarrow> distinct (map sc_Name (st_Columns t))"
  by (erule Tables_cases) (simp_all add: table_defs column_defs)

lemma table_key_column:
  "t \<in> set Tables \<Longrightarrow> \<exists>c \<in> set (st_Columns t). sc_Name c = st_PrimaryKey t"
  by (erule Tables_cases) (simp_all add: table_defs column_defs)

lemma col_map_entries:
  "col (map (\<lambda>(c, v). (c, f c v)) r) c = (if c \<in> fst ` set r then f c (col r c) else VNull)"
  by (induction r) (auto simp: col_def)

lemma col_not_in: "c \<notin> fst ` set r \<Longrightarrow> col r c = VNull"
  by (auto simp: col_def split: option.splits dest: map_of_SomeD intro: rev_image_eqI)

lemma col_columns:
  assumes "distinct (map sc_Name cs)" "k \<in> set cs"
  shows "col (map (\<lambda>c. (sc_Name c, f c)) cs) (sc_Name k) = f k"
proof -
  have "map_of (map (\<lambda>c. (sc_Name c, f c)) cs) (sc_Name k) = Some (f k)"
    using assms by (intro map_of_is_SomeI) (auto simp: comp_def)
  then show ?thesis by (simp add: col_def)
qed

lemma col_new_row:
  assumes "t \<in> set Tables" "c \<in> set (st_Columns t)"
  shows "col (new_row t k sp) (sc_Name c) =
    (if sc_Name c = st_PrimaryKey t then k else field_value sp c)"
  unfolding new_row_def by (subst col_columns) (auto simp: assms table_columns_distinct)

lemma col_new_row_key: "t \<in> set Tables \<Longrightarrow> col (new_row t k sp) (st_PrimaryKey t) = k"
  using table_key_column [of t] col_new_row [of t _ k sp] by fastforce

lemma row_ok_new_row:
  assumes "t \<in> set Tables" "wf_spec t sp" "key_of sp v k"
  shows "row_ok t (new_row t k sp)"
proof -
  have "column_ok c (col (new_row t k sp) (sc_Name c))" if "c \<in> set (st_Columns t)" for c
  proof (cases "sc_Name c = st_PrimaryKey t")
    case True
    then have "value_ok (sc_Type c) k" using assms that
      by (auto simp: wf_spec_def key_of_def list_all_iff split: option.splits)
    then show ?thesis using True by (simp add: col_new_row_key assms column_ok_def)
  next
    case False
    then show ?thesis using assms that by (simp add: col_new_row wf_spec_def list_all_iff)
  qed
  then show ?thesis by (simp add: row_ok_def list_all_iff new_row_def)
qed

lemma row_ok_names: "row_ok t r \<Longrightarrow> has_column t c \<Longrightarrow> c \<in> fst ` set r"
  unfolding row_ok_def has_column_def list_ex_iff
  by (metis image_eqI list.set_map)

lemma col_add_row:
  "col (add_row adds r) c = (if c \<in> fst ` set r then
     (case map_of (map (\<lambda>(n, ty, w). (n, w)) adds) c of None \<Rightarrow> col r c
      | Some w \<Rightarrow> add_value (col r c) w) else VNull)"
  unfolding add_row_def by (subst col_map_entries) simp

lemma col_merge_row:
  "col (merge_row cs new old) c =
     (if c \<in> fst ` set old then if c \<in> set cs then col new c else col old c else VNull)"
  unfolding merge_row_def by (subst col_map_entries) simp

lemma fst_add_row [simp]: "map fst (add_row adds r) = map fst r"
  by (simp add: add_row_def comp_def case_prod_unfold)

lemma fst_merge_row [simp]: "map fst (merge_row cs new old) = map fst old"
  by (simp add: merge_row_def comp_def case_prod_unfold)

lemma add_value_ok:
  "value_ok TypeFloat64 v \<Longrightarrow> value_ok TypeFloat64 w \<Longrightarrow> value_ok TypeFloat64 (add_value v w)"
  by (cases v; cases w) (auto simp: add_value_def)

lemma project_all:
  assumes "t \<in> set Tables" "row_ok t r"
  shows "project (map sc_Name (st_Columns t)) r = r"
proof -
  have "map fst r = map sc_Name (st_Columns t)" using assms(2) by (simp add: row_ok_def)
  moreover have "distinct (map fst r)" using calculation assms(1) table_columns_distinct by simp
  moreover have "distinct (map fst q) \<Longrightarrow> project (map fst q) q = q" for q :: row
  proof (induction q)
    case (Cons p q)
    then have "col (p # q) c = col q c" if "c \<in> set (map fst q)" for c
      using that by (cases p) (metis col_def distinct.simps(2) fst_conv list.simps(9) map_of_Cons_code(2))
    then have "map (\<lambda>c. (c, col (p # q) c)) (map fst q) = project (map fst q) q"
      unfolding map_eq_conv project_def by blast
    then have "map (\<lambda>c. (c, col (p # q) c)) (map fst q) = q"
      using Cons by simp
    moreover have "(fst p, col (p # q) (fst p)) = p" by (simp add: col_def)
    ultimately show ?case by (simp only: project_def list.map)
  qed (simp add: project_def)
  ultimately show ?thesis by metis
qed

lemma table_of_known: "t \<in> set Tables \<Longrightarrow> table_of (st_Name t) = Some t"
  by (erule Tables_cases) (simp_all add: table_of_def Tables_def)

lemma table_of_Some: "table_of n = Some t \<Longrightarrow> t \<in> set Tables \<and> st_Name t = n"
  by (auto simp: table_of_def find_Some_iff)

section \<open>Every statement keeps the database well formed\<close>

lemma db_okD: "db_ok d \<Longrightarrow> t \<in> set Tables \<Longrightarrow> table_ok d t"
  by (simp add: db_ok_def list_all_iff)

lemma db_ok_row: "db_ok d \<Longrightarrow> t \<in> set Tables \<Longrightarrow> r \<in> d (st_Name t) \<Longrightarrow> row_ok t r"
  using db_okD by (auto simp: table_ok_def)

lemma db_ok_key:
  "db_ok d \<Longrightarrow> t \<in> set Tables \<Longrightarrow> r \<in> d (st_Name t) \<Longrightarrow> q \<in> d (st_Name t)
    \<Longrightarrow> col r (st_PrimaryKey t) = col q (st_PrimaryKey t) \<Longrightarrow> r = q"
  using db_okD by (fastforce simp: table_ok_def inj_on_def)

lemma db_ok_upd:
  assumes "db_ok d" "t \<in> set Tables" "finite R" "\<forall>r \<in> R. row_ok t r"
    "inj_on (\<lambda>r. col r (st_PrimaryKey t)) R"
  shows "db_ok (d(st_Name t := R))"
proof -
  have "table_ok (d(st_Name t := R)) u" if "u \<in> set Tables" for u
  proof (cases "u = t")
    case True
    then show ?thesis using assms by (simp add: table_ok_def)
  next
    case False
    then have "st_Name u \<noteq> st_Name t" using table_name_inj assms(2) that by blast
    then show ?thesis using db_okD [OF assms(1) that] by (simp add: table_ok_def)
  qed
  then show ?thesis by (simp add: db_ok_def list_all_iff)
qed

lemma db_insert_ok:
  assumes "db_ok d" "t \<in> set Tables" "row_ok t r"
    "\<forall>q \<in> d (st_Name t). col q (st_PrimaryKey t) \<noteq> col r (st_PrimaryKey t)"
  shows "db_ok (db_insert t r d)"
  unfolding db_insert_def
  by (rule db_ok_upd) (use assms db_okD [OF assms(1,2)] in \<open>auto simp: table_ok_def\<close>)

lemma create_step_ok:
  assumes "create_step t sp d res d'" "t \<in> set Tables" "wf_spec t sp" "db_ok d"
  shows "db_ok d'"
proof (cases res)
  case (Inl e)
  then show ?thesis using assms by (cases e) (auto simp: create_step_def)
next
  case (Inr v)
  then obtain k where "key_of sp v k" "insert_ok t d (new_row t k sp)"
    "d' = db_insert t (new_row t k sp) d"
    using assms(1) by (auto simp: create_step_def)
  then show ?thesis using assms
    by (auto simp: insert_ok_def intro!: db_insert_ok row_ok_new_row)
qed

lemma insert_all_ok:
  assumes "insert_all t sps ks d = Some d'" "t \<in> set Tables" "db_ok d"
    "\<forall>sp \<in> set sps. wf_spec t sp" "keys_of sps vs ks"
  shows "db_ok d'"
  using assms
proof (induction t sps ks d arbitrary: vs rule: insert_all.induct)
  case (2 t sp sps k ks d)
  from 2(6) obtain v vs' where vs: "vs = v # vs'" "key_of sp v k" "keys_of sps vs' ks"
    by (cases vs) (auto simp: keys_of_def All_less_Suc2)
  from 2(2) have i: "insert_ok t d (new_row t k sp)"
    and r: "insert_all t sps ks (db_insert t (new_row t k sp) d) = Some d'"
    by (auto split: if_splits)
  have "db_ok (db_insert t (new_row t k sp) d)"
    by (rule db_insert_ok) (use 2 vs i in \<open>auto simp: insert_ok_def intro!: row_ok_new_row\<close>)
  then show ?case using 2(1) [OF i r] 2 vs by simp
qed auto

lemma batch_step_ok:
  assumes "batch_step t sps d res d'" "t \<in> set Tables" "wf_batch t sps" "db_ok d"
  shows "db_ok d'"
proof (cases res)
  case (Inl e)
  then show ?thesis using assms by (cases e) (auto simp: batch_step_def)
next
  case (Inr vs)
  then show ?thesis using assms insert_all_ok [of t sps _ d d' vs]
    by (auto simp: batch_step_def wf_batch_def list_all_iff)
qed

lemma map_of_adds:
  "map_of (map (\<lambda>(n, ty, w). (n, w)) adds) c = Some w \<Longrightarrow> \<exists>ty. (c, ty, w) \<in> set adds"
  by (auto dest!: map_of_SomeD)

lemma map_of_adds_None:
  "map_of (map (\<lambda>(n, ty, w). (n, w)) adds) c = None \<longleftrightarrow> c \<notin> fst ` set adds"
  by (force simp: map_of_eq_None_iff image_iff)

lemma add_row_other: "c \<notin> fst ` set adds \<Longrightarrow> c \<in> fst ` set r \<Longrightarrow> col (add_row adds r) c = col r c"
  by (simp add: col_add_row map_of_adds_None [THEN iffD2])

lemma has_column_key: "t \<in> set Tables \<Longrightarrow> has_column t (st_PrimaryKey t)"
  using table_key_column by (fastforce simp: has_column_def list_ex_iff)

lemma col_update_row:
  "col (update_row us r) c = (if c \<in> fst ` set r then
     (case map_of (map (\<lambda>(n, ty, w). (n, w)) (us_Set us)) c of Some w \<Rightarrow> w
      | None \<Rightarrow> if c \<in> set (map fst (us_Clear us)) then VNull
         else (case map_of (map (\<lambda>(n, ty, w). (n, w)) (us_Add us)) c of None \<Rightarrow> col r c
           | Some w \<Rightarrow> add_value (col r c) w)) else VNull)"
  unfolding update_row_def by (subst col_map_entries) simp

lemma fst_update_row [simp]: "map fst (update_row us r) = map fst r"
  by (simp add: update_row_def comp_def case_prod_unfold)

lemma same_column: "t \<in> set Tables \<Longrightarrow> c \<in> set (st_Columns t) \<Longrightarrow> k \<in> set (st_Columns t)
    \<Longrightarrow> sc_Name k = sc_Name c \<Longrightarrow> k = c"
  using table_columns_distinct by (metis distinct_map inj_on_def)

lemma wf_update_entries:
  assumes "wf_update t us"
  shows "(c, ty, v) \<in> set (us_Set us) \<Longrightarrow> value_ok ty v \<and> (\<exists>k \<in> set (st_Columns t). sc_Name k = c \<and> sc_Type k = ty)"
    and "(c, ty) \<in> set (us_Clear us) \<Longrightarrow> \<exists>k \<in> set (st_Columns t). sc_Name k = c \<and> sc_Nullable k"
    and "(c, ty, v) \<in> set (us_Add us) \<Longrightarrow> value_ok TypeFloat64 v
      \<and> (\<exists>k \<in> set (st_Columns t). sc_Name k = c \<and> sc_Type k = TypeFloat64)"
  using assms unfolding wf_update_def list_all_iff list_ex_iff by fast+

lemma row_ok_update_row:
  assumes "t \<in> set Tables" "wf_update t us" "row_ok t r"
  shows "row_ok t (update_row us r)"
proof -
  have "column_ok c (col (update_row us r) (sc_Name c))" if c: "c \<in> set (st_Columns t)" for c
  proof -
    have mem: "sc_Name c \<in> fst ` set r" and old: "column_ok c (col r (sc_Name c))"
      using assms(3) c row_ok_names [OF assms(3), of "sc_Name c"]
      by (auto simp: row_ok_def list_all_iff has_column_def list_ex_iff)
    note same = same_column [OF assms(1) c]
    have set_ok: "column_ok c w" if hit: "map_of (map (\<lambda>(n, ty, w). (n, w)) (us_Set us)) (sc_Name c) = Some w" for w
    proof -
      obtain ty where "(sc_Name c, ty, w) \<in> set (us_Set us)" using hit by (blast dest: map_of_adds)
      then obtain k where "value_ok ty w" "k \<in> set (st_Columns t)" "sc_Name k = sc_Name c" "sc_Type k = ty"
        using wf_update_entries(1) [OF assms(2)] by blast
      then show ?thesis using same by (auto simp: column_ok_def)
    qed
    have clear_ok: "column_ok c VNull" if hit: "sc_Name c \<in> set (map fst (us_Clear us))"
    proof -
      obtain ty where "(sc_Name c, ty) \<in> set (us_Clear us)" using hit by auto
      then obtain k where "k \<in> set (st_Columns t)" "sc_Name k = sc_Name c" "sc_Nullable k"
        using wf_update_entries(2) [OF assms(2)] by blast
      then show ?thesis using same by (auto simp: column_ok_def)
    qed
    have add_ok: "column_ok c (add_value (col r (sc_Name c)) w)"
      if hit: "map_of (map (\<lambda>(n, ty, w). (n, w)) (us_Add us)) (sc_Name c) = Some w" for w
    proof -
      obtain ty where "(sc_Name c, ty, w) \<in> set (us_Add us)" using hit by (blast dest: map_of_adds)
      then obtain k where k: "value_ok TypeFloat64 w" "k \<in> set (st_Columns t)"
        "sc_Name k = sc_Name c" "sc_Type k = TypeFloat64"
        using wf_update_entries(3) [OF assms(2)] by blast
      have "k = c" using k same by blast
      then show ?thesis
        using old k by (cases "col r (sc_Name c)"; cases w) (auto simp: column_ok_def add_value_def)
    qed
    show ?thesis using mem old set_ok clear_ok add_ok by (simp add: col_update_row split: option.split)
  qed
  then show ?thesis using assms(3) by (simp add: row_ok_def list_all_iff)
qed

lemma update_row_other:
  "c \<notin> fst ` set (us_Set us) \<Longrightarrow> c \<notin> fst ` set (us_Clear us) \<Longrightarrow> c \<notin> fst ` set (us_Add us)
    \<Longrightarrow> c \<in> fst ` set r \<Longrightarrow> col (update_row us r) c = col r c"
  by (simp add: col_update_row map_of_adds_None [THEN iffD2])

lemma wf_update_key:
  "wf_update t us \<Longrightarrow> st_PrimaryKey t \<notin> fst ` set (us_Set us)"
  "wf_update t us \<Longrightarrow> st_PrimaryKey t \<notin> fst ` set (us_Clear us)"
  "wf_update t us \<Longrightarrow> st_PrimaryKey t \<notin> fst ` set (us_Add us)"
  by (auto simp: wf_update_def list_all_iff plain_column_def)

lemma key_update_row:
  assumes "t \<in> set Tables" "wf_update t us" "row_ok t r"
  shows "col (update_row us r) (st_PrimaryKey t) = col r (st_PrimaryKey t)"
  by (rule update_row_other [OF wf_update_key [OF assms(2)]])
    (use assms in \<open>blast intro: row_ok_names has_column_key\<close>)

lemma inj_on_replace:
  assumes "inj_on k R" "H \<subseteq> R" "\<And>r. r \<in> H \<Longrightarrow> k (f r) = k r"
  shows "inj_on k ((R - H) \<union> f ` H)"
proof (rule inj_onI)
  fix x y
  have pre: "\<exists>x0 \<in> R. k x0 = k x \<and> x = (if x0 \<in> H then f x0 else x0)"
    if "x \<in> (R - H) \<union> f ` H" for x
    using that assms(2,3) by auto
  assume "x \<in> (R - H) \<union> f ` H" "y \<in> (R - H) \<union> f ` H" and k: "k x = k y"
  then obtain x0 y0 where "x0 \<in> R" "k x0 = k x" "x = (if x0 \<in> H then f x0 else x0)"
    "y0 \<in> R" "k y0 = k y" "y = (if y0 \<in> H then f y0 else y0)"
    using pre by meson
  moreover have "x0 = y0" using calculation k inj_onD [OF assms(1)] by metis
  ultimately show "x = y" by simp
qed

lemma update_step_ok:
  assumes "update_step us d res d'" "t \<in> set Tables" "wf_update t us" "db_ok d"
  shows "db_ok d'"
proof (cases res)
  case (Inl e)
  then show ?thesis using assms by (auto simp: update_step_def Let_def)
next
  case (Inr n)
  define H where "H = {r \<in> d (st_Name t). satisfies (us_Predicate us) r}"
  have d': "d' = d(st_Name t := (d (st_Name t) - H) \<union> update_row us ` H)"
    using assms(1,3) Inr by (simp add: update_step_def wf_update_def H_def Let_def)
  have tok: "table_ok d t" using assms by (simp add: db_okD)
  have rok: "row_ok t r" if "r \<in> d (st_Name t)" for r using tok that by (simp add: table_ok_def)
  show ?thesis unfolding d'
  proof (rule db_ok_upd [OF assms(4,2)])
    show "inj_on (\<lambda>r. col r (st_PrimaryKey t)) ((d (st_Name t) - H) \<union> update_row us ` H)"
      by (rule inj_on_replace) (use tok rok assms in \<open>auto simp: H_def table_ok_def key_update_row\<close>)
  qed (use tok rok assms in \<open>auto simp: H_def table_ok_def row_ok_update_row\<close>)
qed

lemma row_ok_merge_row:
  assumes "row_ok t old" "row_ok t new"
  shows "row_ok t (merge_row cs new old)"
proof -
  have "fst ` set old = set (map fst old)" by simp
  also have "\<dots> = sc_Name ` set (st_Columns t)" using assms(1) by (simp add: row_ok_def del: set_map) simp
  finally have "fst ` set old = sc_Name ` set (st_Columns t)" .
  then show ?thesis using assms by (auto simp: row_ok_def list_all_iff col_merge_row)
qed

lemma upsert_step_ok:
  assumes "upsert_step t sp d res d'" "t \<in> set Tables" "wf_upsert t sp" "db_ok d"
  shows "db_ok d'"
proof (cases res)
  case (Inl e)
  then show ?thesis using assms by (auto simp: upsert_step_def)
next
  case (Inr v)
  then obtain k where k: "key_of sp v k"
    and d': "d' = db_upsert t (excluded_columns sp) (new_row t k sp) d"
    using assms(1) by (auto simp: upsert_step_def)
  define r where "r = new_row t k sp"
  define cs where "cs = excluded_columns sp"
  define S where "S = {q \<in> d (st_Name t). col q (st_PrimaryKey t) = col r (st_PrimaryKey t)}"
  have rk: "row_ok t r" unfolding r_def using assms k by (intro row_ok_new_row) (auto simp: wf_upsert_def)
  have tok: "table_ok d t" using assms by (simp add: db_okD)
  have rok: "row_ok t q" if "q \<in> d (st_Name t)" for q using tok that by (simp add: table_ok_def)
  have nk: "st_PrimaryKey t \<notin> set cs" using assms(3) by (auto simp: wf_upsert_def cs_def list_all_iff)
  show ?thesis
  proof (cases "S = {}")
    case True
    then have "d' = db_insert t r d"
      unfolding d' db_upsert_def Let_def S_def r_def by simp
    moreover have "\<forall>q \<in> d (st_Name t). col q (st_PrimaryKey t) \<noteq> col r (st_PrimaryKey t)"
      using True by (auto simp: S_def)
    ultimately show ?thesis using db_insert_ok [OF assms(4,2) rk] by simp
  next
    case False
    have key: "col (merge_row cs r q) (st_PrimaryKey t) = col q (st_PrimaryKey t)" if "q \<in> S" for q
    proof -
      have "st_PrimaryKey t \<in> fst ` set q"
        using that rok assms(2) by (auto simp: S_def intro: row_ok_names has_column_key)
      then show ?thesis using nk by (simp add: col_merge_row)
    qed
    have "db_ok (d(st_Name t := (d (st_Name t) - S) \<union> merge_row cs r ` S))"
    proof (rule db_ok_upd [OF assms(4,2)])
      show "inj_on (\<lambda>r. col r (st_PrimaryKey t)) ((d (st_Name t) - S) \<union> merge_row cs r ` S)"
        by (rule inj_on_replace) (use tok key in \<open>auto simp: S_def table_ok_def\<close>)
    qed (use tok rok rk in \<open>auto simp: S_def table_ok_def row_ok_merge_row\<close>)
    moreover have "d' = d(st_Name t := (d (st_Name t) - S) \<union> merge_row cs r ` S)"
      using False unfolding d' db_upsert_def Let_def S_def r_def cs_def by (rule if_not_P)
    ultimately show ?thesis by simp
  qed
qed

section \<open>Generated keys\<close>

text \<open>Where the database generates the key, no constraint depends on which one it takes.\<close>

lemma generated_key_tables:
  assumes "t \<in> set Tables" "wf_spec t sp" "cs_ID sp = None"
  shows "(\<forall>ix \<in> set (st_Indexes t). \<not> ix_Unique ix)
    \<and> (\<forall>fk \<in> set (st_ForeignKeys t). fk_Column fk \<noteq> st_PrimaryKey t
        \<and> (\<exists>c \<in> set (st_Columns t). sc_Name c = fk_Column fk))"
  using assms by (elim Tables_cases) (simp_all add: wf_spec_def table_defs column_defs)

lemma insert_ok_other_key:
  assumes "t \<in> set Tables" "wf_spec t sp" "cs_ID sp = None" "insert_ok t d (new_row t k sp)"
    "\<forall>q \<in> d (st_Name t). col q (st_PrimaryKey t) \<noteq> k'"
  shows "insert_ok t d (new_row t k' sp)"
proof -
  have "col (new_row t k' sp) (fk_Column fk) = col (new_row t k sp) (fk_Column fk)"
    if fk: "fk \<in> set (st_ForeignKeys t)" for fk
  proof -
    obtain c where "c \<in> set (st_Columns t)" "sc_Name c = fk_Column fk" "sc_Name c \<noteq> st_PrimaryKey t"
      using generated_key_tables [OF assms(1-3)] fk by metis
    then show ?thesis using col_new_row [OF assms(1), of c] by metis
  qed
  then show ?thesis using assms generated_key_tables [OF assms(1-3)]
    by (auto simp: insert_ok_def fk_ok_def col_new_row_key)
qed

text \<open>With generated keys only the foreign keys matter, and they look at other tables.\<close>

lemma generated_fk_tables:
  assumes "t \<in> set Tables" "wf_spec t sp" "cs_ID sp = None" "fk \<in> set (st_ForeignKeys t)"
  shows "fk_RefTable fk \<noteq> st_Name t"
  using assms by (elim Tables_cases) (auto simp: wf_spec_def table_defs column_defs)

definition fks_ok :: "sql_table \<Rightarrow> db \<Rightarrow> create_spec \<Rightarrow> bool" where
  "fks_ok t d sp \<longleftrightarrow> (\<forall>fk \<in> set (st_ForeignKeys t). fk_ok d (new_row t VNull sp) fk)"

lemma new_row_fk_column:
  assumes "t \<in> set Tables" "wf_spec t sp" "cs_ID sp = None" "fk \<in> set (st_ForeignKeys t)"
  shows "col (new_row t k sp) (fk_Column fk) = col (new_row t k' sp) (fk_Column fk)"
proof -
  obtain c where "c \<in> set (st_Columns t)" "sc_Name c = fk_Column fk" "sc_Name c \<noteq> st_PrimaryKey t"
    using generated_key_tables [OF assms(1-3)] assms(4) by metis
  then show ?thesis using col_new_row [OF assms(1), of c] by metis
qed

lemma insert_ok_generated:
  assumes "t \<in> set Tables" "wf_spec t sp" "cs_ID sp = None"
  shows "insert_ok t d (new_row t k sp) \<longleftrightarrow>
    (\<forall>q \<in> d (st_Name t). col q (st_PrimaryKey t) \<noteq> k) \<and> fks_ok t d sp"
  using generated_key_tables [OF assms] new_row_fk_column [OF assms, of _ k VNull]
  by (auto simp: insert_ok_def fks_ok_def fk_ok_def col_new_row_key [OF assms(1)])

lemma fks_ok_insert:
  assumes "t \<in> set Tables" "wf_spec t sp" "cs_ID sp = None"
  shows "fks_ok t (db_insert t r d) sp = fks_ok t d sp"
  using generated_fk_tables [OF assms] by (auto simp: fks_ok_def fk_ok_def db_insert_def)

lemma insert_all_fks:
  assumes "t \<in> set Tables" "insert_all t sps ks d = Some d'"
    "\<forall>sp \<in> set sps. wf_spec t sp \<and> cs_ID sp = None"
  shows "\<forall>sp \<in> set sps. fks_ok t d sp"
  using assms(2,3)
proof (induction sps arbitrary: ks d)
  case (Cons sp sps)
  then obtain k ks' where k: "ks = k # ks'" "insert_ok t d (new_row t k sp)"
    "insert_all t sps ks' (db_insert t (new_row t k sp) d) = Some d'"
    by (cases ks) (auto split: if_splits)
  then have "\<forall>x \<in> set sps. fks_ok t (db_insert t (new_row t k sp) d) x"
    using Cons.IH [OF k(3)] Cons.prems(2) by simp
  then show ?case using Cons.prems k assms(1) by (auto simp: fks_ok_insert insert_ok_generated)
qed simp

lemma fresh_int_key:
  assumes "finite R"
  shows "\<exists>n. \<forall>q \<in> R. col q c \<noteq> VInt n"
proof -
  have "finite {n. VInt n \<in> (\<lambda>q. col q c) ` R}"
    using assms by (intro finite_vimageI [of _ VInt, unfolded vimage_def]) (auto simp: inj_on_def)
  then obtain n where "n \<notin> {n. VInt n \<in> (\<lambda>q. col q c) ` R}"
    using ex_new_if_finite [OF infinite_UNIV_int] by blast
  then have "\<forall>q \<in> R. col q c \<noteq> VInt n" by (auto simp: image_iff)
  then show ?thesis by blast
qed

lemma generated_insertable:
  assumes "t \<in> set Tables" "\<forall>sp \<in> set sps. wf_spec t sp \<and> cs_ID sp = None \<and> fks_ok t d sp" "db_ok d"
  shows "\<exists>vs ks d'. keys_of sps vs ks \<and> insert_all t sps ks d = Some d'"
  using assms(2,3)
proof (induction sps arbitrary: d)
  case Nil
  then show ?case by (intro exI [of _ "[]"]) (simp add: keys_of_def)
next
  case (Cons sp sps)
  have "finite (d (st_Name t))" using db_okD [OF Cons.prems(2) assms(1)] by (simp add: table_ok_def)
  then obtain n where n: "\<forall>q \<in> d (st_Name t). col q (st_PrimaryKey t) \<noteq> VInt n"
    using fresh_int_key by blast
  let ?r = "new_row t (VInt n) sp"
  have ok: "insert_ok t d ?r" using Cons.prems n assms(1) by (simp add: insert_ok_generated)
  have key: "key_of sp (Some (VInt64 n)) (VInt n)" using Cons.prems by (simp add: key_of_def)
  have db: "db_ok (db_insert t ?r d)"
    using Cons.prems ok key assms(1)
    by (intro db_insert_ok row_ok_new_row) (auto simp: insert_ok_def)
  obtain vs ks d' where "keys_of sps vs ks" "insert_all t sps ks (db_insert t ?r d) = Some d'"
    using Cons.IH [OF _ db] Cons.prems assms(1) by (auto simp: fks_ok_insert)
  then have "keys_of (sp # sps) (Some (VInt64 n) # vs) (VInt n # ks)
      \<and> insert_all t (sp # sps) (VInt n # ks) d = Some d'"
    using ok key by (auto simp: keys_of_def All_less_Suc2)
  then show ?case by blast
qed

lemma insert_all_frame:
  "insert_all t sps ks d = Some d' \<Longrightarrow> n \<noteq> st_Name t \<Longrightarrow> d' n = d n"
  by (induction t sps ks d rule: insert_all.induct) (auto simp: db_insert_def split: if_splits)

section \<open>What follows for every lawful driver\<close>

context sql_driver
begin

lemma create_keeps_ok:
  "t \<in> set Tables \<Longrightarrow> wf_spec t sp \<Longrightarrow> cs_OnConflict sp = [] \<Longrightarrow> db_ok (rows s)
    \<Longrightarrow> CreateNode cl sp s = (res, s') \<Longrightarrow> db_ok (rows s')"
  using create create_step_ok by blast

lemma batch_keeps_ok:
  "t \<in> set Tables \<Longrightarrow> wf_batch t sps \<Longrightarrow> db_ok (rows s)
    \<Longrightarrow> BatchCreate cl \<lparr>bs_Nodes = sps, bs_OnConflict = []\<rparr> s = (res, s') \<Longrightarrow> db_ok (rows s')"
  using batch batch_step_ok by blast

lemma upsert_keeps_ok:
  "t \<in> set Tables \<Longrightarrow> wf_upsert t sp \<Longrightarrow> db_ok (rows s)
    \<Longrightarrow> CreateNode cl sp s = (res, s') \<Longrightarrow> db_ok (rows s')"
  using upsert upsert_step_ok by blast

lemma update_keeps_ok:
  "t \<in> set Tables \<Longrightarrow> wf_update t us \<Longrightarrow> db_ok (rows s)
    \<Longrightarrow> UpdateNodes cl us s = (res, s') \<Longrightarrow> db_ok (rows s')"
  using update update_step_ok by blast

end

end
