(* ===== verification/Repository_Laws.thy ===== *)
theory Repository_Laws
  imports Repository Database
begin

text \<open>
  What the operations of \<open>RepositoryEnt\<close> do to the database, for every driver that keeps the laws
  of \<open>sql_driver\<close>. The account table is abstracted to a ledger, a map from addresses to a token
  and a balance: a row's key is its address alone, so an address holds one token.
\<close>

section \<open>Queries of the generated client\<close>

text \<open>A generated entity reads a table: every row decodes from the columns the entity selects.\<close>

definition reads_table :: "'n ent_meta \<Rightarrow> sql_table \<Rightarrow> (row \<Rightarrow> 'n) \<Rightarrow> row set \<Rightarrow> bool" where
  "reads_table m t g R \<longleftrightarrow> t \<in> set Tables \<and> em_Table m = st_Name t
     \<and> (\<forall>r \<in> R. em_Assign m (project (em_Columns m) r) = Inr (g r))"

definition plain_query :: "sql_table \<Rightarrow> 'n ent_meta \<Rightarrow> ent_query \<Rightarrow> bool" where
  "plain_query t m q \<longleftrightarrow> wf_query t (querySpec m q) \<and> qy_Fields q = [] \<and> selector_err m q = None"

lemma distinct_singleton_list: "distinct xs \<Longrightarrow> set xs = {x} \<Longrightarrow> xs = [x]"
  by (cases xs; cases "tl xs") auto

lemma assign_rows_map:
  "(\<And>x. x \<in> set xs \<Longrightarrow> f (p x) = Inr (g x)) \<Longrightarrow> assign_rows f (map p xs) = Inr (map g xs)"
  by (induction xs) auto

lemma window_subset: "set (window k l xs) \<subseteq> set xs"
  by (auto simp: window_def Let_def dest: in_set_takeD in_set_dropD)

lemma set_window_map: "window k l (map f xs) = map f (window k l xs)"
  by (simp add: window_def Let_def drop_map take_map)

context sql_driver
begin

lemma All_answer:
  assumes "db_ok (rows s)" "reads_table m t g (rows s (st_Name t))" "plain_query t m q"
    "All m cl q s = (res, s')"
  shows "rows s' = rows s \<and> (\<forall>e. res = Inl e \<longrightarrow> (\<exists>d. e = EDriver d))
    \<and> (\<forall>es. res = Inr es \<longrightarrow> (\<exists>ms. distinct ms \<and> set ms = {r \<in> rows s (st_Name t). satisfies (qy_predicates q) r}
      \<and> ordered_by (qy_order q) ms
      \<and> es = map g (window (qs_Offset (querySpec m q)) (qs_Limit (querySpec m q)) ms)))"
proof -
  let ?Q = "querySpec m q"
  have t: "t \<in> set Tables" and wf: "wf_query t ?Q" and sel: "selector_err m q = None"
    and prep: "prepareQuery m q = None"
    using assms by (auto simp: reads_table_def plain_query_def prepareQuery_def)
  obtain qr s1 where Q: "QueryNodes cl ?Q s = (qr, s1)" by fastforce
  note law = query [OF t wf assms(1) Q]
  have tab: "qs_Table ?Q = st_Name t" "qs_Predicate ?Q = qy_predicates q" "qs_Order ?Q = qy_order q"
    "qs_Columns ?Q = em_Columns m"
    using assms(2,3) by (simp_all add: querySpec_def reads_table_def plain_query_def)
  show ?thesis
  proof (cases qr)
    case (Inl e)
    then show ?thesis using assms(4) Q law by (auto simp: All_def sqlAll_def prep sel)
  next
    case (Inr rs)
    then obtain ms where ms: "distinct ms"
      "set ms = {r \<in> rows s (st_Name t). satisfies (qy_predicates q) r}" "ordered_by (qy_order q) ms"
      "rs = map (project (em_Columns m)) (window (qs_Offset ?Q) (qs_Limit ?Q) ms)"
      using law unfolding query_answer_def tab by blast
    have sub: "r \<in> rows s (st_Name t)" if "r \<in> set (window (qs_Offset ?Q) (qs_Limit ?Q) ms)" for r
      using that window_subset ms(2) by fastforce
    have "assign_rows (em_Assign m) rs = Inr (map g (window (qs_Offset ?Q) (qs_Limit ?Q) ms))"
      unfolding ms(4) by (rule assign_rows_map) (use sub assms(2) in \<open>auto simp: reads_table_def\<close>)
    then have "res = Inr (map g (window (qs_Offset ?Q) (qs_Limit ?Q) ms))" "s' = s1"
      using assms(4) Q Inr by (auto simp: All_def sqlAll_def prep sel)
    then show ?thesis using ms law by auto
  qed
qed

text \<open>At most one row is selected when the primary key is pinned.\<close>

lemma Only_answer:
  assumes "db_ok (rows s)" "reads_table m t g (rows s (st_Name t))"
    "plain_query t m (Limit 2 q)" "qy_Offset q = None" "Only m cl q s = (res, s')"
  shows "rows s' = rows s"
    and "{r \<in> rows s (st_Name t). satisfies (qy_predicates q) r} = {r}
      \<Longrightarrow> res = Inr (g r) \<or> (\<exists>e. res = Inl (EDriver e))"
    and "{r \<in> rows s (st_Name t). satisfies (qy_predicates q) r} = {}
      \<Longrightarrow> res = Inl (ENotFound (em_Label m)) \<or> (\<exists>e. res = Inl (EDriver e))"
proof -
  obtain ar s1 where A: "All m cl (Limit 2 q) s = (ar, s1)" by fastforce
  note ans = All_answer [OF assms(1-3) A]
  have s': "s' = s1" using assms(5) A by (auto simp: Only_def split: sum.splits list.splits)
  show "rows s' = rows s" using ans s' by simp
  have lim: "qs_Limit (querySpec m (Limit 2 q)) = 2" "qs_Offset (querySpec m (Limit 2 q)) = 0"
    using assms(4) by (simp_all add: querySpec_def Limit_def)
  have preds: "qy_predicates (Limit 2 q) = qy_predicates q" by (simp add: Limit_def)
  have sel: "\<exists>ms. distinct ms \<and> set ms = {r \<in> rows s (st_Name t). satisfies (qy_predicates q) r}
      \<and> es = map g (window 0 2 ms)" if "ar = Inr es" for es
    using ans that unfolding lim preds by blast
  show "res = Inr (g r) \<or> (\<exists>e. res = Inl (EDriver e))"
    if one: "{r \<in> rows s (st_Name t). satisfies (qy_predicates q) r} = {r}"
  proof (cases ar)
    case (Inr es)
    then obtain ms where ms: "distinct ms" "set ms = {r}" "es = map g (window 0 2 ms)"
      using sel unfolding one by blast
    then have "ms = [r]" by (intro distinct_singleton_list)
    then show ?thesis using Inr A ms(3) assms(5) by (auto simp: Only_def window_def)
  qed (use ans A assms(5) in \<open>auto simp: Only_def\<close>)
  show "res = Inl (ENotFound (em_Label m)) \<or> (\<exists>e. res = Inl (EDriver e))"
    if none: "{r \<in> rows s (st_Name t). satisfies (qy_predicates q) r} = {}"
  proof (cases ar)
    case (Inr es)
    then have "es = []" using sel unfolding none by (auto simp: window_def)
    then show ?thesis using Inr A assms(5) by (auto simp: Only_def)
  qed (use ans A assms(5) in \<open>auto simp: Only_def\<close>)
qed

lemma First_answer:
  assumes "db_ok (rows s)" "reads_table m t g (rows s (st_Name t))"
    "plain_query t m (Limit 1 q)" "qy_Offset q = None" "First m cl q s = (res, s')"
  shows "rows s' = rows s"
    and "{r \<in> rows s (st_Name t). satisfies (qy_predicates q) r} = {r}
      \<Longrightarrow> res = Inr (g r) \<or> (\<exists>e. res = Inl (EDriver e))"
    and "{r \<in> rows s (st_Name t). satisfies (qy_predicates q) r} = {}
      \<Longrightarrow> res = Inl (ENotFound (em_Label m)) \<or> (\<exists>e. res = Inl (EDriver e))"
proof -
  obtain ar s1 where A: "All m cl (Limit 1 q) s = (ar, s1)" by fastforce
  note ans = All_answer [OF assms(1-3) A]
  have s': "s' = s1" using assms(5) A by (auto simp: First_def split: sum.splits list.splits)
  show "rows s' = rows s" using ans s' by simp
  have lim: "qs_Limit (querySpec m (Limit 1 q)) = 1" "qs_Offset (querySpec m (Limit 1 q)) = 0"
    using assms(4) by (simp_all add: querySpec_def Limit_def)
  have preds: "qy_predicates (Limit 1 q) = qy_predicates q" by (simp add: Limit_def)
  have sel: "\<exists>ms. distinct ms \<and> set ms = {r \<in> rows s (st_Name t). satisfies (qy_predicates q) r}
      \<and> es = map g (window 0 1 ms)" if "ar = Inr es" for es
    using ans that unfolding lim preds by blast
  show "res = Inr (g r) \<or> (\<exists>e. res = Inl (EDriver e))"
    if one: "{r \<in> rows s (st_Name t). satisfies (qy_predicates q) r} = {r}"
  proof (cases ar)
    case (Inr es)
    then obtain ms where ms: "distinct ms" "set ms = {r}" "es = map g (window 0 1 ms)"
      using sel unfolding one by blast
    then have "ms = [r]" by (intro distinct_singleton_list)
    then show ?thesis using Inr A ms(3) assms(5) by (auto simp: First_def window_def)
  qed (use ans A assms(5) in \<open>auto simp: First_def\<close>)
  show "res = Inl (ENotFound (em_Label m)) \<or> (\<exists>e. res = Inl (EDriver e))"
    if none: "{r \<in> rows s (st_Name t). satisfies (qy_predicates q) r} = {}"
  proof (cases ar)
    case (Inr es)
    then have "es = []" using sel unfolding none by (auto simp: window_def)
    then show ?thesis using Inr A assms(5) by (auto simp: First_def)
  qed (use ans A assms(5) in \<open>auto simp: First_def\<close>)
qed

end

context sql_driver_up
begin

lemma All_up:
  assumes "db_ok (rows s)" "reads_table m t g (rows s (st_Name t))" "plain_query t m q"
  shows "\<exists>es s'. All m cl q s = (Inr es, s')"
proof -
  have t: "t \<in> set Tables" and wf: "wf_query t (querySpec m q)" and sel: "selector_err m q = None"
    and prep: "prepareQuery m q = None"
    using assms by (auto simp: reads_table_def plain_query_def prepareQuery_def)
  obtain rs s1 where Q: "QueryNodes cl (querySpec m q) s = (Inr rs, s1)"
    using query_up [OF t wf assms(1)] by (metis prod.collapse)
  have tab: "qs_Table (querySpec m q) = st_Name t" "qs_Predicate (querySpec m q) = qy_predicates q"
    "qs_Columns (querySpec m q) = em_Columns m"
    using assms(2,3) by (simp_all add: querySpec_def reads_table_def plain_query_def)
  have "query_answer (querySpec m q) (rows s) rs" using query [OF t wf assms(1) Q] by blast
  then obtain ms where ms: "set ms = {r \<in> rows s (st_Name t). satisfies (qy_predicates q) r}"
    "rs = map (project (em_Columns m)) (window (qs_Offset (querySpec m q)) (qs_Limit (querySpec m q)) ms)"
    unfolding query_answer_def tab by blast
  have "em_Assign m (project (em_Columns m) r) = Inr (g r)"
    if "r \<in> set (window (qs_Offset (querySpec m q)) (qs_Limit (querySpec m q)) ms)" for r
  proof -
    have "r \<in> rows s (st_Name t)" using that window_subset [of _ _ ms] ms(1) by blast
    then show ?thesis using assms(2) by (simp add: reads_table_def)
  qed
  then have "assign_rows (em_Assign m) rs
      = Inr (map g (window (qs_Offset (querySpec m q)) (qs_Limit (querySpec m q)) ms))"
    unfolding ms(2) by (rule assign_rows_map)
  then show ?thesis using Q by (auto simp: All_def sqlAll_def prep sel)
qed

lemma Only_no_driver_err:
  assumes "db_ok (rows s)" "reads_table m t g (rows s (st_Name t))" "plain_query t m (Limit 2 q)"
  shows "fst (Only m cl q s) \<noteq> Inl (EDriver e)"
  using All_up [OF assms] by (auto simp: Only_def split: list.splits)

lemma First_no_driver_err:
  assumes "db_ok (rows s)" "reads_table m t g (rows s (st_Name t))" "plain_query t m (Limit 1 q)"
  shows "fst (First m cl q s) \<noteq> Inl (EDriver e)"
  using All_up [OF assms] by (auto simp: First_def split: list.splits)

end

end
