(* ===== verification/Ledger.thy ===== *)
theory Ledger
  imports Repository_Laws
begin

text \<open>
  The account table as a ledger. \<open>is_ledger d L\<close> says that the map \<open>L\<close> holds exactly the rows of
  the table; the account operations of \<open>RepositoryEnt\<close> are then functions of the ledger, whatever
  lawful driver runs them: look up, open an account, add to a balance.
\<close>

section \<open>The abstract ledger\<close>

type_synonym ledger = "string \<rightharpoonup> string \<times> float64"

definition led_get :: "ledger \<Rightarrow> string \<Rightarrow> string \<Rightarrow> float64 option" where
  "led_get L a t = (case L a of None \<Rightarrow> None | Some (t', x) \<Rightarrow> if t' = t then Some x else None)"

definition led_open_ok :: "ledger \<Rightarrow> string \<Rightarrow> string \<Rightarrow> bool" where
  "led_open_ok L a t \<longleftrightarrow> L a = None \<and> a \<noteq> [] \<and> t \<noteq> []"

definition led_inc :: "ledger \<Rightarrow> string \<Rightarrow> string \<Rightarrow> float64 \<Rightarrow> ledger" where
  "led_inc L a t v = (case led_get L a t of None \<Rightarrow> L | Some x \<Rightarrow> L(a \<mapsto> (t, f64_add x v)))"

section \<open>Rows of the account table\<close>

definition account_row :: "string \<Rightarrow> string \<Rightarrow> float64 \<Rightarrow> row" where
  "account_row a t x = [(''address'', VString a), (''token'', VString t), (''amount'', VFloat x)]"

definition is_ledger :: "db \<Rightarrow> ledger \<Rightarrow> bool" where
  "is_ledger d L \<longleftrightarrow> (\<forall>a t x. L a = Some (t, x) \<longleftrightarrow> account_row a t x \<in> d ''accounts'')"

lemma col_account_row [simp]:
  "col (account_row a t x) ''address'' = VString a"
  "col (account_row a t x) ''token'' = VString t"
  "col (account_row a t x) ''amount'' = VFloat x"
  by (simp_all add: account_row_def col_def)

lemma account_row_inject [simp]:
  "account_row a t x = account_row b u y \<longleftrightarrow> a = b \<and> t = u \<and> x = y"
  by (simp add: account_row_def)

lemma row_ok_account_row: "row_ok AccountsTable (account_row a t x)"
  by (simp add: row_ok_def table_defs column_defs column_ok_def account_row_def col_def)

lemma value_ok_iff:
  "value_ok TypeString v \<longleftrightarrow> (\<exists>x. v = VString x)"
  "value_ok TypeFloat64 v \<longleftrightarrow> (\<exists>f. v = VFloat f)"
  "value_ok TypeInt v \<longleftrightarrow> (\<exists>n. v = VInt n)"
  "value_ok TypeTime v \<longleftrightarrow> (\<exists>n. v = VTime n)"
  "value_ok TypeBool v \<longleftrightarrow> (\<exists>b. v = VBool b)"
  by (cases v; simp)+

lemma row_ok_accountE:
  assumes "row_ok AccountsTable r"
  obtains a t x where "r = account_row a t x"
proof -
  have names: "map fst r = [''address'', ''token'', ''amount'']"
    and ok: "value_ok TypeString (col r ''address'')" "value_ok TypeString (col r ''token'')"
      "value_ok TypeFloat64 (col r ''amount'')"
    using assms by (simp_all add: row_ok_def table_defs column_defs column_ok_def)
  obtain v1 v2 v3 where r: "r = [(''address'', v1), (''token'', v2), (''amount'', v3)]"
    using names by (auto simp: map_eq_Cons_conv)
  obtain a t x where "v1 = VString a" "v2 = VString t" "v3 = VFloat x"
    using ok by (auto simp: r col_def value_ok_iff)
  then show thesis using that r by (simp add: account_row_def)
qed

lemma accounts_are_rows:
  "db_ok d \<Longrightarrow> r \<in> d ''accounts'' \<Longrightarrow> \<exists>a t x. r = account_row a t x"
  using db_ok_row [of d AccountsTable r] by (auto elim: row_ok_accountE)

lemma account_row_key:
  "db_ok d \<Longrightarrow> account_row a t x \<in> d ''accounts'' \<Longrightarrow> account_row a u y \<in> d ''accounts''
    \<Longrightarrow> t = u \<and> x = y"
  using db_ok_key [of d AccountsTable "account_row a t x" "account_row a u y"] by simp

lemma is_ledger_ex: "db_ok d \<Longrightarrow> \<exists>L. is_ledger d L"
proof -
  assume d: "db_ok d"
  have "\<exists>v. \<forall>t x. v = Some (t, x) \<longleftrightarrow> account_row a t x \<in> d ''accounts''" for a
  proof (cases "\<exists>t x. account_row a t x \<in> d ''accounts''")
    case True
    then obtain t x where m: "account_row a t x \<in> d ''accounts''" by blast
    have "Some (t, x) = Some (u, y) \<longleftrightarrow> account_row a u y \<in> d ''accounts''" for u y
      using m account_row_key [OF d m, of u y] by auto
    then show ?thesis by blast
  next
    case False
    then show ?thesis by (intro exI [of _ None]) auto
  qed
  then show ?thesis unfolding is_ledger_def by (intro choice) blast
qed

lemma is_ledger_unique: "is_ledger d L \<Longrightarrow> is_ledger d L' \<Longrightarrow> L = L'"
proof (rule ext)
  fix a
  assume "is_ledger d L" "is_ledger d L'"
  then have "L a = Some (t, x) \<longleftrightarrow> L' a = Some (t, x)" for t x by (simp add: is_ledger_def)
  then show "L a = L' a" by (cases "L a"; cases "L' a") auto
qed

lemma is_ledger_frame: "d' ''accounts'' = d ''accounts'' \<Longrightarrow> is_ledger d' L = is_ledger d L"
  by (simp add: is_ledger_def)

lemma is_ledger_None:
  "db_ok d \<Longrightarrow> is_ledger d L \<Longrightarrow> L a = None \<Longrightarrow> r \<in> d ''accounts''
    \<Longrightarrow> col r ''address'' \<noteq> VString a"
  using accounts_are_rows [of d r] unfolding is_ledger_def
  by (metis col_account_row(1) ent_value.inject(3) option.distinct(1))

lemma account_assign:
  "em_Assign account_meta (account_row a t x) = Inr \<lparr>ea_ID = a, ea_Token = t, ea_Amount = x\<rparr>"
  by (simp add: account_meta_def account_row_def Account_scanValues_def Account_assignValues_def
    account_names zero_account_def)

definition row_account :: "row \<Rightarrow> ent_account" where
  "row_account r = (case (col r ''address'', col r ''token'', col r ''amount'') of
     (VString a, VString t, VFloat x) \<Rightarrow> \<lparr>ea_ID = a, ea_Token = t, ea_Amount = x\<rparr>
   | _ \<Rightarrow> zero_account)"

lemma account_columns: "account_Columns = map sc_Name (st_Columns AccountsTable)"
  by (simp add: account_Columns_def account_names table_defs column_defs)

lemma reads_accounts:
  assumes "db_ok d"
  shows "reads_table account_meta AccountsTable row_account (d (st_Name AccountsTable))"
proof -
  have "em_Assign account_meta (project (em_Columns account_meta) r) = Inr (row_account r)"
    if mem: "r \<in> d ''accounts''" for r
  proof -
    obtain a t x where r: "r = account_row a t x" using accounts_are_rows [OF assms mem] by blast
    have "project (em_Columns account_meta) r = r"
      using project_all [OF Tables_members(1) row_ok_account_row] unfolding r
      by (simp add: account_meta_def account_columns)
    then show ?thesis by (simp add: r account_assign row_account_def)
  qed
  then show ?thesis by (simp add: reads_table_def) (simp add: account_meta_def account_names)
qed

section \<open>The account operations on the ledger\<close>

lemma account_query_preds:
  "a \<noteq> [] \<Longrightarrow> t \<noteq> [] \<Longrightarrow> qy_predicates (account_query a t)
    = [FieldEQ ''address'' (VString a), FieldEQ ''token'' (VString t)]"
  by (simp add: account_query_def Query_def Where_def account_IDEQ_def account_TokenEQ_def
    account_names)

lemma account_query_plain:
  "plain_query AccountsTable account_meta (Limit 2 (account_query a t))"
  "qy_Offset (account_query a t) = None"
  by (auto simp: plain_query_def wf_query_def querySpec_def account_query_def Query_def Where_def
    Limit_def account_IDEQ_def account_TokenEQ_def account_names account_meta_def
    account_Columns_def has_column_def table_defs column_defs selector_err_def
    List.map_filter_simps Let_def)

lemma selected_account:
  assumes "db_ok d" "is_ledger d L" "a \<noteq> []" "t \<noteq> []"
  shows "{r \<in> d ''accounts''. satisfies (qy_predicates (account_query a t)) r} =
    (case led_get L a t of None \<Rightarrow> {} | Some x \<Rightarrow> {account_row a t x})"
proof -
  have "r \<in> d ''accounts'' \<and> satisfies (qy_predicates (account_query a t)) r \<longleftrightarrow>
      (\<exists>x. r = account_row a t x \<and> L a = Some (t, x))" for r
    using assms accounts_are_rows [OF assms(1), of r]
    by (auto simp: account_query_preds satisfies_def is_ledger_def)
  then show ?thesis
    by (auto simp: led_get_def split: option.splits if_splits)
qed

context sql_driver
begin

lemma GetAccount_answer:
  assumes "db_ok (rows s)" "is_ledger (rows s) L" "a \<noteq> []" "t \<noteq> []"
    "RepositoryEnt_GetAccount cl a t s = (res, s')"
  shows "rows s' = rows s" "res = Inr (map_option (\<lambda>x. \<lparr>ac_Address = a, ac_Token = t, ac_Amount = x,
      ac_CreatedAt = zero_time\<rparr>) (led_get L a t)) \<or> res = Inl (EMsg ''failed to get account'')"
    "res = Inl e \<Longrightarrow> \<exists>d. fst (Only account_meta cl (account_query a t) s) = Inl (EDriver d)"
proof -
  obtain qr s1 where Q: "Only account_meta cl (account_query a t) s = (qr, s1)" by fastforce
  note ans = Only_answer [OF assms(1) reads_accounts [OF assms(1)] account_query_plain Q]
  have s': "s' = s1" using assms(5) Q
    by (auto simp: RepositoryEnt_GetAccount_def AccountQuery_Only_def split: sum.splits if_splits)
  show "rows s' = rows s" using ans(1) s' by simp
  have qr: "qr = (case led_get L a t of None \<Rightarrow> Inl (ENotFound (em_Label account_meta))
      | Some x \<Rightarrow> Inr (row_account (account_row a t x))) \<or> (\<exists>e. qr = Inl (EDriver e))"
    using selected_account [OF assms(1-4)] ans(2,3)
    by (cases "led_get L a t") auto
  show "res = Inr (map_option (\<lambda>x. \<lparr>ac_Address = a, ac_Token = t, ac_Amount = x,
      ac_CreatedAt = zero_time\<rparr>) (led_get L a t)) \<or> res = Inl (EMsg ''failed to get account'')"
    using qr assms(5) Q by (auto simp: RepositoryEnt_GetAccount_def AccountQuery_Only_def
      row_account_def split: option.splits)
  show "\<exists>d. fst (Only account_meta cl (account_query a t) s) = Inl (EDriver d)" if "res = Inl e"
    using qr assms(5) Q that by (auto simp: RepositoryEnt_GetAccount_def AccountQuery_Only_def
      split: option.splits)
qed

end

section \<open>Opening an account\<close>

definition account_spec :: "string \<Rightarrow> string \<Rightarrow> float64 \<Rightarrow> create_spec" where
  "account_spec a t x = \<lparr>cs_Table = ''accounts'', cs_IDSpec = (''address'', TypeString),
     cs_ID = Some (VString a),
     cs_Fields = [(''token'', TypeString, VString t), (''amount'', TypeFloat64, VFloat x)],
     cs_Edges = [], cs_OnConflict = []\<rparr>"

definition account_builder :: "account \<Rightarrow> account_create" where
  "account_builder acc = AccountCreate_SetAmount (ac_Amount acc)
     (AccountCreate_SetToken (ac_Token acc)
     (AccountCreate_SetID (ac_Address acc) AccountClient_Create))"

lemma account_builder_spec:
  "snd (AccountCreate_createSpec (account_builder acc))
     = account_spec (ac_Address acc) (ac_Token acc) (ac_Amount acc)"
  by (simp add: account_builder_def account_create_defs account_mutation_defs newAccountMutation_def
    account_spec_def NewCreateSpec_def account_names Let_def ids_of_def)

lemma account_builder_check:
  "AccountCreate_check cl (account_builder acc) = None \<longleftrightarrow>
     NotEmpty cl (ac_Token acc) \<and> NotEmpty cl (ac_Address acc)"
  by (simp add: account_builder_def account_create_defs account_mutation_defs newAccountMutation_def)

lemma account_builder_check_err:
  "AccountCreate_check cl (account_builder acc) = Some e \<Longrightarrow> \<exists>n m. e = EValidation n m"
  by (auto simp: account_builder_def account_create_defs account_mutation_defs newAccountMutation_def
    split: if_splits)

lemma account_spec_wf: "wf_spec AccountsTable (account_spec a t x)"
  by (simp add: wf_spec_def account_spec_def table_defs column_defs column_ok_def field_value_def)

lemma account_spec_row: "new_row AccountsTable (VString a) (account_spec a t x) = account_row a t x"
  by (simp add: new_row_def account_spec_def table_defs column_defs field_value_def account_row_def)

lemma account_insert_ok:
  assumes "db_ok d" "is_ledger d L"
  shows "insert_ok AccountsTable d (account_row a t x) \<longleftrightarrow> L a = None"
proof
  assume "insert_ok AccountsTable d (account_row a t x)"
  then have "account_row a u y \<notin> d ''accounts''" for u y
    by (auto simp: insert_ok_def)
  then show "L a = None" using assms(2) unfolding is_ledger_def by (metis not_None_eq surj_pair)
next
  assume "L a = None"
  then have "\<forall>q \<in> d ''accounts''. col q ''address'' \<noteq> VString a"
    using is_ledger_None [OF assms] by blast
  then show "insert_ok AccountsTable d (account_row a t x)"
    by (auto simp: insert_ok_def AccountsTable_def)
qed

lemma is_ledger_insert:
  assumes "db_ok d" "is_ledger d L" "L a = None"
  shows "is_ledger (db_insert AccountsTable (account_row a t x) d) (L(a \<mapsto> (t, x)))"
  using assms(2,3) by (auto simp: is_ledger_def db_insert_def) (metis option.distinct(1))+

context sql_driver
begin

lemma AddAccount_answer:
  assumes "db_ok (rows s)" "is_ledger (rows s) L" "RepositoryEnt_AddAccount cl acc s = (res, s')"
  shows "db_ok (rows s')"
    and "res = Inr () \<Longrightarrow> led_open_ok L (ac_Address acc) (ac_Token acc)
      \<and> is_ledger (rows s') (L(ac_Address acc \<mapsto> (ac_Token acc, ac_Amount acc)))"
    and "res \<noteq> Inr () \<Longrightarrow> res = Inl (EMsg ''failed to add account'') \<and> rows s' = rows s"
    and "\<And>n. n \<noteq> ''accounts'' \<Longrightarrow> rows s' n = rows s n"
proof -
  let ?a = "ac_Address acc" and ?t = "ac_Token acc" and ?x = "ac_Amount acc"
  have op: "RepositoryEnt_AddAccount cl acc s = (case AccountCreate_Save cl (account_builder acc) s of
        (Inl e, s') \<Rightarrow> (Inl (logger_Errorf ''failed to add account'' e), s')
      | (Inr _, s') \<Rightarrow> (Inr (), s'))"
    by (simp add: RepositoryEnt_AddAccount_def account_builder_def)
  have "db_ok (rows s')
    \<and> (res = Inr () \<longrightarrow> led_open_ok L ?a ?t \<and> is_ledger (rows s') (L(?a \<mapsto> (?t, ?x))))
    \<and> (res \<noteq> Inr () \<longrightarrow> res = Inl (EMsg ''failed to add account'') \<and> rows s' = rows s)
    \<and> (\<forall>n. n \<noteq> ''accounts'' \<longrightarrow> rows s' n = rows s n)"
  proof (cases "AccountCreate_check cl (account_builder acc)")
    case (Some e)
    then have "res = Inl (logger_Errorf ''failed to add account'' e)" "s' = s"
      using assms(3) unfolding op by (auto simp: AccountCreate_Save_def AccountCreate_sqlSave_def)
    moreover have "logger_Errorf ''failed to add account'' e = EMsg ''failed to add account''"
      using account_builder_check_err [OF Some] by auto
    ultimately show ?thesis using assms(1) by simp
  next
    case None
    then have ne: "?a \<noteq> []" "?t \<noteq> []" by (auto simp: account_builder_check not_empty)
    obtain r s1 where C: "CreateNode cl (account_spec ?a ?t ?x) s = (r, s1)" by fastforce
    note law = create [OF Tables_members(1) account_spec_wf _ assms(1) C]
    have oc: "cs_OnConflict (account_spec ?a ?t ?x) = []" by (simp add: account_spec_def)
    show ?thesis
    proof (cases r)
      case (Inl e)
      then have "rows s1 = rows s" using law [OF oc] by (cases e) (auto simp: create_step_def)
      moreover have "res = Inl (EMsg ''failed to add account'')" "s' = s1"
        using assms(3) None C Inl account_builder_spec [of acc] unfolding op
        by (auto simp: AccountCreate_Save_def AccountCreate_sqlSave_def wrap_create_err_def
          split: prod.splits sql_err.splits)
      ultimately show ?thesis using assms(1) by simp
    next
      case (Inr v)
      then have v: "v = Some (VString ?a)" and
        ins: "insert_ok AccountsTable (rows s) (account_row ?a ?t ?x)"
          "rows s1 = db_insert AccountsTable (account_row ?a ?t ?x) (rows s)"
        using law [OF oc] account_spec_row [of ?a ?t ?x]
        by (auto simp: create_step_def key_of_def) (auto simp: account_spec_def)
      have "res = Inr ()" "s' = s1"
        using assms(3) None C Inr v account_builder_spec [of acc] unfolding op
        by (auto simp: AccountCreate_Save_def AccountCreate_sqlSave_def split: prod.splits)
      moreover have "db_ok (rows s1)"
        using create_step_ok [OF law [OF oc] Tables_members(1) account_spec_wf assms(1)] .
      moreover have "L ?a = None" using ins(1) account_insert_ok [OF assms(1,2)] by blast
      ultimately show ?thesis
        using ne ins(2) is_ledger_insert [OF assms(1,2)] by (simp add: led_open_ok_def db_insert_def)
    qed
  qed
  then show "db_ok (rows s')"
    and "res = Inr () \<Longrightarrow> led_open_ok L ?a ?t \<and> is_ledger (rows s') (L(?a \<mapsto> (?t, ?x)))"
    and "res \<noteq> Inr () \<Longrightarrow> res = Inl (EMsg ''failed to add account'') \<and> rows s' = rows s"
    and "\<And>n. n \<noteq> ''accounts'' \<Longrightarrow> rows s' n = rows s n"
    by blast+
qed

end

context sql_driver_up
begin

lemma AddAccount_up:
  assumes "db_ok (rows s)" "is_ledger (rows s) L" "led_open_ok L (ac_Address acc) (ac_Token acc)"
  shows "fst (RepositoryEnt_AddAccount cl acc s) = Inr ()"
proof -
  let ?a = "ac_Address acc" and ?t = "ac_Token acc" and ?x = "ac_Amount acc"
  have chk: "AccountCreate_check cl (account_builder acc) = None"
    using assms(3) by (simp add: account_builder_check not_empty led_open_ok_def)
  obtain r s1 where C: "CreateNode cl (account_spec ?a ?t ?x) s = (r, s1)" by fastforce
  have oc: "cs_OnConflict (account_spec ?a ?t ?x) = []" by (simp add: account_spec_def)
  have step: "create_step AccountsTable (account_spec ?a ?t ?x) (rows s) r (rows s1)"
    using create [OF Tables_members(1) account_spec_wf oc assms(1) C] .
  have "insertable AccountsTable (rows s) (account_spec ?a ?t ?x)"
    unfolding insertable_def
    using assms(3) account_insert_ok [OF assms(1,2)] account_spec_row [of ?a ?t ?x]
    by (intro exI [of _ "Some (VString ?a)"] exI [of _ "VString ?a"])
      (simp add: key_of_def account_spec_def led_open_ok_def)
  moreover have "answered r" using create_up [OF Tables_members(1) account_spec_wf oc assms(1)] C
    by (metis fst_conv)
  ultimately obtain v where r: "r = Inr v" using step
    by (auto simp: answered_def create_step_def split: sum.splits sql_err.splits)
  then have "v = Some (VString ?a)" using step
    by (auto simp: create_step_def key_of_def account_spec_def)
  then show ?thesis using C r chk account_builder_spec [of acc]
    by (auto simp: RepositoryEnt_AddAccount_def account_builder_def [symmetric]
      AccountCreate_Save_def AccountCreate_sqlSave_def split: prod.splits)
qed

end

section \<open>Adding to a balance\<close>

definition balance_update :: "string \<Rightarrow> string \<Rightarrow> float64 \<Rightarrow> update_spec" where
  "balance_update a t v = \<lparr>us_Table = ''accounts'', us_Columns = [''address'', ''token'', ''amount''],
     us_IDSpec = (''address'', TypeString),
     us_Predicate = [FieldEQ ''address'' (VString a), FieldEQ ''token'' (VString t)],
     us_Set = [], us_Add = [(''amount'', TypeFloat64, VFloat v)], us_Clear = [], us_Append = [],
     us_ClearEdges = [], us_AddEdges = []\<rparr>"

definition increment_builder :: "string \<Rightarrow> string \<Rightarrow> float64 \<Rightarrow> account_update" where
  "increment_builder a t v = AccountUpdate_AddAmount v
     (AccountUpdate_Where [account_IDEQ a, account_TokenEQ t] AccountClient_Update)"

lemma increment_builder_spec: "AccountUpdate_spec (increment_builder a t v) = balance_update a t v"
  by (simp add: increment_builder_def account_update_defs account_mutation_defs
    newAccountMutation_def balance_update_def account_names account_IDEQ_def account_TokenEQ_def
    account_Columns_def ids_of_def)

lemma increment_builder_check: "AccountUpdate_check cl (increment_builder a t v) = None"
  by (simp add: increment_builder_def account_update_defs account_mutation_defs
    newAccountMutation_def)

lemma balance_update_wf: "wf_update AccountsTable (balance_update a t v)"
  by (simp add: wf_update_def balance_update_def table_defs column_defs has_column_def
    plain_column_def)

lemma add_account_row:
  "add_row [(''amount'', TypeFloat64, VFloat v)] (account_row a t x) = account_row a t (f64_add x v)"
  by (simp add: add_row_def account_row_def add_value_def)

lemma balance_update_ledger:
  assumes "db_ok d" "is_ledger d L" "update_step (balance_update a t v) d (Inr n) d'"
  shows "is_ledger d' (led_inc L a t v)"
    and "n = (if led_get L a t = None then 0 else 1)"
    and "m \<noteq> ''accounts'' \<Longrightarrow> d' m = d m"
proof -
  have sel: "{r \<in> d ''accounts''. satisfies (us_Predicate (balance_update a t v)) r} =
      (case led_get L a t of None \<Rightarrow> {} | Some x \<Rightarrow> {account_row a t x})"
  proof -
    have "r \<in> d ''accounts'' \<and> satisfies (us_Predicate (balance_update a t v)) r \<longleftrightarrow>
        (\<exists>x. r = account_row a t x \<and> L a = Some (t, x))" for r
      using assms(2) accounts_are_rows [OF assms(1), of r]
      by (auto simp: balance_update_def satisfies_def is_ledger_def)
    then show ?thesis by (auto simp: led_get_def split: option.splits if_splits)
  qed
  have upd: "us_Table (balance_update a t v) = ''accounts''"
    "update_row (balance_update a t v) = add_row [(''amount'', TypeFloat64, VFloat v)]"
    by (simp_all add: balance_update_def update_row_adds)
  note step = assms(3) [unfolded update_step_def upd sel Let_def sum.case]
  show "n = (if led_get L a t = None then 0 else 1)" "m \<noteq> ''accounts'' \<Longrightarrow> d' m = d m"
    using step by (auto split: option.splits)
  show "is_ledger d' (led_inc L a t v)"
  proof (cases "led_get L a t")
    case None
    then show ?thesis using step assms(2) by (simp add: led_inc_def is_ledger_def)
  next
    case (Some x)
    then have La: "L a = Some (t, x)" by (auto simp: led_get_def split: option.splits if_splits)
    have "d' ''accounts'' = (d ''accounts'' - {account_row a t x}) \<union> {account_row a t (f64_add x v)}"
      using step Some by (simp add: add_account_row)
    then show ?thesis using assms(2) La Some account_row_key [OF assms(1)]
      unfolding is_ledger_def led_inc_def by auto
  qed
qed

context sql_driver
begin

lemma Increment_answer:
  assumes "db_ok (rows s)" "is_ledger (rows s) L"
    "RepositoryEnt_IncrementAccountBalance cl a t n s = (res, s')"
  shows "db_ok (rows s')"
    and "res = Inr () \<Longrightarrow> is_ledger (rows s') (led_inc L a t (f64_of_int n))"
    and "res \<noteq> Inr () \<Longrightarrow> (\<exists>m. res = Inl (EMsg m)) \<and> rows s' = rows s"
    and "\<And>m. m \<noteq> ''accounts'' \<Longrightarrow> rows s' m = rows s m"
proof -
  obtain r s1 where U: "UpdateNodes cl (balance_update a t (f64_of_int n)) s = (r, s1)" by fastforce
  have step: "update_step (balance_update a t (f64_of_int n)) (rows s) r (rows s1)"
    using update [OF Tables_members(1) balance_update_wf assms(1) U] .
  have op: "res = (case r of Inl e \<Rightarrow> Inl (EMsg (case e of SqlNotFound m \<Rightarrow> ''account with token not found''
      | _ \<Rightarrow> ''failed to increment account balance'')) | Inr k \<Rightarrow> Inr ())" "s' = s1"
    using assms(3) U increment_builder_spec [of a t "f64_of_int n"]
      increment_builder_check [of cl a t "f64_of_int n"]
    by (auto simp: RepositoryEnt_IncrementAccountBalance_def increment_builder_def [symmetric]
      AccountUpdate_Save_def AccountUpdate_sqlSave_def split: sum.splits sql_err.splits)
  show "db_ok (rows s')"
    using update_step_ok [OF step Tables_members(1) balance_update_wf assms(1)] op(2) by simp
  show "is_ledger (rows s') (led_inc L a t (f64_of_int n))" if "res = Inr ()"
    using balance_update_ledger(1) [OF assms(1,2), of a t "f64_of_int n" _ "rows s1"] step op that
    by (auto split: sum.splits)
  show "(\<exists>m. res = Inl (EMsg m)) \<and> rows s' = rows s" if "res \<noteq> Inr ()"
    using step op that by (auto simp: update_step_def Let_def split: sum.splits)
  show "\<And>m. m \<noteq> ''accounts'' \<Longrightarrow> rows s' m = rows s m"
    using step op balance_update_ledger(3) [OF assms(1,2), of a t "f64_of_int n" _ "rows s1"]
    by (cases r) (auto simp: update_step_def Let_def)
qed

end

context sql_driver_up
begin

lemma Increment_up:
  assumes "db_ok (rows s)"
  shows "fst (RepositoryEnt_IncrementAccountBalance cl a t n s) = Inr ()"
proof -
  obtain k s1 where "UpdateNodes cl (balance_update a t (f64_of_int n)) s = (Inr k, s1)"
    using update_up [OF Tables_members(1) balance_update_wf assms] by (metis prod.collapse)
  then show ?thesis using increment_builder_spec [of a t "f64_of_int n"]
      increment_builder_check [of cl a t "f64_of_int n"]
    by (auto simp: RepositoryEnt_IncrementAccountBalance_def increment_builder_def [symmetric]
      AccountUpdate_Save_def AccountUpdate_sqlSave_def)
qed

end

end
