(* ===== verification/Journal.thy ===== *)
theory Journal
  imports Ledger
begin

text \<open>
  The append-only tables: blocks, transactions and transfers, under the operations
  \<^verbatim>\<open>AddBlock\<close>, \<^verbatim>\<open>AddTransactions\<close> and \<^verbatim>\<open>AddTransfers\<close> of \<open>RepositoryEnt\<close> over a lawful driver.
  None of them touches the ledger.
\<close>

section \<open>Blocks\<close>

definition block_spec :: "block \<Rightarrow> go_time \<Rightarrow> create_spec" where
  "block_spec b now = \<lparr>cs_Table = ''blocks'', cs_IDSpec = (''height'', TypeInt),
     cs_ID = Some (VInt (b_Height b)),
     cs_Fields = [(''hash'', TypeString, VString (b_Hash b)), (''time'', TypeTime, VTime (b_Time b)),
       (''total_txs'', TypeInt, VInt (b_TotalTxs b)), (''num_txs'', TypeInt, VInt (b_NumTxs b)),
       (''created_at'', TypeTime, VTime now)],
     cs_Edges = [], cs_OnConflict = []\<rparr>"

definition block_row :: "block \<Rightarrow> go_time \<Rightarrow> row" where
  "block_row b now = [(''height'', VInt (b_Height b)), (''hash'', VString (b_Hash b)),
     (''time'', VTime (b_Time b)), (''total_txs'', VInt (b_TotalTxs b)),
     (''num_txs'', VInt (b_NumTxs b)), (''created_at'', VTime now)]"

definition has_block :: "db \<Rightarrow> int \<Rightarrow> bool" where
  "has_block d h \<longleftrightarrow> (\<exists>r \<in> d ''blocks''. col r ''height'' = VInt h)"

lemma block_builder_spec:
  "snd (BlockCreate_createSpec (BlockCreate_defaults cl n (block_builder now b))) = block_spec b now"
  by (simp add: block_builder_def block_create_defs block_mutation_defs newBlockMutation_def
    block_spec_def NewCreateSpec_def block_names Let_def ids_of_def)

lemma block_builder_node:
  "eb_ID (fst (BlockCreate_createSpec (BlockCreate_defaults cl n (block_builder now b)))) = b_Height b"
  by (simp add: block_builder_def block_create_defs block_mutation_defs newBlockMutation_def Let_def
    zero_block_def)

lemma block_builder_check:
  "BlockCreate_check cl (BlockCreate_defaults cl n (block_builder now b)) =
     (if NotEmpty cl (b_Hash b) then None
      else Some (EValidation ''hash'' ''ent: validator failed for field''))"
  by (simp add: block_builder_def block_create_defs block_mutation_defs newBlockMutation_def Let_def)

lemma block_spec_wf: "wf_spec BlocksTable (block_spec b now)"
  by (simp add: wf_spec_def block_spec_def table_defs column_defs column_ok_def field_value_def)

lemma block_spec_row: "new_row BlocksTable (VInt (b_Height b)) (block_spec b now) = block_row b now"
  by (simp add: new_row_def block_spec_def table_defs column_defs field_value_def block_row_def)

lemma col_block_row: "col (block_row b now) ''height'' = VInt (b_Height b)"
  by (simp add: block_row_def col_def)

lemma block_insert_ok: "insert_ok BlocksTable d (block_row b now) \<longleftrightarrow> \<not> has_block d (b_Height b)"
  unfolding insert_ok_def has_block_def table_names table_keys col_block_row
  by (auto simp: BlocksTable_def)

context sql_driver
begin

lemma AddBlock_answer:
  assumes "db_ok (rows s)" "RepositoryEnt_AddBlock cl (Some b) s = (res, s')"
  shows "db_ok (rows s')"
    and "res = Inr False \<Longrightarrow> b_Hash b \<noteq> [] \<and> \<not> has_block (rows s) (b_Height b)
      \<and> rows s' = db_insert BlocksTable (block_row b (Now cl 0 s)) (rows s)"
    and "res = Inr True \<Longrightarrow> b_Hash b \<noteq> [] \<and> has_block (rows s) (b_Height b) \<and> rows s' = rows s"
    and "res = Inl e \<Longrightarrow> e = EMsg ''failed to add block'' \<and> rows s' = rows s"
proof -
  let ?now = "Now cl 0 s"
  let ?B = "BlockCreate_defaults cl ?now (block_builder ?now b)"
  have "db_ok (rows s')
    \<and> (res = Inr False \<longrightarrow> b_Hash b \<noteq> [] \<and> \<not> has_block (rows s) (b_Height b)
        \<and> rows s' = db_insert BlocksTable (block_row b ?now) (rows s))
    \<and> (res = Inr True \<longrightarrow> b_Hash b \<noteq> [] \<and> has_block (rows s) (b_Height b) \<and> rows s' = rows s)
    \<and> (\<forall>e. res = Inl e \<longrightarrow> e = EMsg ''failed to add block'' \<and> rows s' = rows s)"
  proof (cases "b_Hash b = []")
    case True
    then show ?thesis using assms block_builder_check [of cl ?now ?now b]
      by (auto simp: RepositoryEnt_AddBlock_def BlockCreate_Save_def BlockCreate_sqlSave_def not_empty)
  next
    case False
    then have chk: "BlockCreate_check cl ?B = None" by (simp add: block_builder_check not_empty)
    obtain r s1 where C: "CreateNode cl (block_spec b ?now) s = (r, s1)" by fastforce
    have oc: "cs_OnConflict (block_spec b ?now) = []" by (simp add: block_spec_def)
    note step = create [OF Tables_members(2) block_spec_wf oc assms(1) C]
    obtain nd where nd: "BlockCreate_createSpec ?B = (nd, block_spec b ?now)" "eb_ID nd = b_Height b"
      using block_builder_spec [of cl ?now ?now b] block_builder_node [of cl ?now ?now b]
      by (metis prod.collapse)
    have save: "BlockCreate_Save cl (block_builder ?now b) s =
        (case r of Inl e \<Rightarrow> (Inl (wrap_create_err e), s1)
         | Inr idv \<Rightarrow> if idv = Some (VInt (b_Height b)) then (Inr nd, s1)
             else (case idv of Some (VInt64 i) \<Rightarrow> (Inr (nd\<lparr>eb_ID := i\<rparr>), s1)
               | _ \<Rightarrow> (Inl (EPanic ''interface conversion: not an int64''), s1)))"
      unfolding nd(2) [symmetric]
      using chk C nd(1) by (simp add: BlockCreate_Save_def BlockCreate_sqlSave_def)
    have key: "key_of (block_spec b ?now) v k \<longleftrightarrow>
        k = VInt (b_Height b) \<and> v = Some (VInt (b_Height b))" for v k
      by (auto simp: key_of_def block_spec_def)
    have ins: "insertable BlocksTable (rows s) (block_spec b ?now) \<longleftrightarrow> \<not> has_block (rows s) (b_Height b)"
      by (simp add: insertable_def key block_spec_row block_insert_ok)
    have ok: "db_ok (rows s1)"
      by (rule create_step_ok [OF step Tables_members(2) block_spec_wf assms(1)])
    show ?thesis
    proof (cases r)
      case (Inl e)
      then show ?thesis using assms save step ins False
        by (cases e) (auto simp: RepositoryEnt_AddBlock_def create_step_def wrap_create_err_def)
    next
      case (Inr v)
      then have v: "v = Some (VInt (b_Height b))" and
        s1: "rows s1 = db_insert BlocksTable (block_row b ?now) (rows s)"
        "\<not> has_block (rows s) (b_Height b)"
        using step by (auto simp: create_step_def key block_spec_row block_insert_ok)
      have "res = Inr False" "s' = s1"
        using assms(2) save Inr v by (auto simp: RepositoryEnt_AddBlock_def)
      then show ?thesis using ok s1 False by simp
    qed
  qed
  then show "db_ok (rows s')"
    and "res = Inr False \<Longrightarrow> b_Hash b \<noteq> [] \<and> \<not> has_block (rows s) (b_Height b)
      \<and> rows s' = db_insert BlocksTable (block_row b (Now cl 0 s)) (rows s)"
    and "res = Inr True \<Longrightarrow> b_Hash b \<noteq> [] \<and> has_block (rows s) (b_Height b) \<and> rows s' = rows s"
    and "res = Inl e \<Longrightarrow> e = EMsg ''failed to add block'' \<and> rows s' = rows s"
    by blast+
qed

end

context sql_driver_up
begin

lemma AddBlock_up:
  assumes "db_ok (rows s)" "b_Hash b \<noteq> []"
  shows "\<exists>ex. fst (RepositoryEnt_AddBlock cl (Some b) s) = Inr ex"
proof -
  let ?now = "Now cl 0 s"
  let ?B = "BlockCreate_defaults cl ?now (block_builder ?now b)"
  have chk: "BlockCreate_check cl ?B = None" using assms(2) by (simp add: block_builder_check not_empty)
  obtain r s1 where C: "CreateNode cl (block_spec b ?now) s = (r, s1)" by fastforce
  have oc: "cs_OnConflict (block_spec b ?now) = []" by (simp add: block_spec_def)
  have "answered r" using create_up [OF Tables_members(2) block_spec_wf oc assms(1)] C
    by (metis fst_conv)
  moreover have "r = Inr v \<Longrightarrow> v = Some (VInt (b_Height b))" for v
    using create [OF Tables_members(2) block_spec_wf oc assms(1) C]
    by (auto simp: create_step_def key_of_def block_spec_def)
  ultimately show ?thesis
    using chk C block_builder_spec [of cl ?now ?now b] block_builder_node [of cl ?now ?now b]
    by (auto simp: RepositoryEnt_AddBlock_def BlockCreate_Save_def BlockCreate_sqlSave_def answered_def
      wrap_create_err_def split: prod.splits sum.splits sql_err.splits)
qed

end

section \<open>Bulk inserts with generated keys\<close>

lemma bulk_ids_Inr:
  "(\<And>n v. n \<in> set ns \<Longrightarrow> v \<in> set vs \<Longrightarrow> \<exists>m. f n v = Inr m) \<Longrightarrow> \<exists>ms. bulk_ids f ns vs = Inr ms"
proof (induction f ns vs rule: bulk_ids.induct)
  case (1 f n ns v vs)
  obtain m where m: "f n v = Inr m" using 1(2) [of n v] by auto
  then obtain ms where "bulk_ids f ns vs = Inr ms" using 1(1) [OF m] 1(2) by fastforce
  then show ?case using m by simp
qed auto

definition generated_specs :: "sql_table \<Rightarrow> create_spec list \<Rightarrow> bool" where
  "generated_specs t sps \<longleftrightarrow> t \<in> set Tables \<and> sps \<noteq> []
     \<and> (\<forall>sp \<in> set sps. wf_spec t sp \<and> cs_ID sp = None \<and> cs_OnConflict sp = [])"

lemma generated_wf_batch: "generated_specs t sps \<Longrightarrow> wf_batch t sps"
  by (simp add: generated_specs_def wf_batch_def list_all_iff)

context sql_driver
begin

lemma batch_generated:
  assumes "generated_specs t sps" "db_ok (rows s)"
    "BatchCreate cl \<lparr>bs_Nodes = sps, bs_OnConflict = []\<rparr> s = (r, s1)"
  shows "db_ok (rows s1)" "n \<noteq> st_Name t \<Longrightarrow> rows s1 n = rows s n"
    "r = Inr vs \<Longrightarrow> \<forall>sp \<in> set sps. fks_ok t (rows s) sp"
    "r = Inr vs \<Longrightarrow> \<forall>v \<in> set vs. \<exists>k. v = Some (VInt64 k)"
    "r = Inl e \<Longrightarrow> rows s1 = rows s"
proof -
  have t: "t \<in> set Tables" and wf: "\<forall>sp \<in> set sps. wf_spec t sp \<and> cs_ID sp = None"
    using assms(1) by (auto simp: generated_specs_def)
  note step = batch [OF t generated_wf_batch [OF assms(1)] assms(2,3)]
  show "db_ok (rows s1)" by (rule batch_step_ok [OF step t generated_wf_batch [OF assms(1)] assms(2)])
  show err: "rows s1 = rows s" if "r = Inl e" for e
    using step that by (cases e) (auto simp: batch_step_def)
  have ok: "\<exists>ks. keys_of sps vs ks \<and> insert_all t sps ks (rows s) = Some (rows s1)" if "r = Inr vs" for vs
    using step that by (auto simp: batch_step_def)
  show "rows s1 n = rows s n" if "n \<noteq> st_Name t"
    using err ok insert_all_frame that by (cases r) metis+
  show "\<forall>sp \<in> set sps. fks_ok t (rows s) sp" if "r = Inr vs"
    using ok [OF that] insert_all_fks [OF t _ wf] by blast
  show "\<forall>v \<in> set vs. \<exists>k. v = Some (VInt64 k)" if rv: "r = Inr vs"
  proof -
    obtain ks where "keys_of sps vs ks" using ok rv by blast
    then show ?thesis using wf by (auto simp: keys_of_def key_of_def in_set_conv_nth) fastforce
  qed
qed

end

context sql_driver_up
begin

lemma batch_generated_up:
  assumes "generated_specs t sps" "db_ok (rows s)"
    "BatchCreate cl \<lparr>bs_Nodes = sps, bs_OnConflict = []\<rparr> s = (r, s1)"
  shows "(\<exists>vs. r = Inr vs) \<longleftrightarrow> (\<forall>sp \<in> set sps. fks_ok t (rows s) sp)"
    "r = Inl e \<Longrightarrow> \<exists>m. e = SqlConstraint m"
proof -
  have t: "t \<in> set Tables" and wf: "\<forall>sp \<in> set sps. wf_spec t sp \<and> cs_ID sp = None"
    using assms(1) by (auto simp: generated_specs_def)
  note step = batch [OF t generated_wf_batch [OF assms(1)] assms(2,3)]
  have ans: "answered r" using batch_up [OF t generated_wf_batch [OF assms(1)] assms(2)] assms(3)
    by (metis fst_conv)
  show con: "\<exists>m. e = SqlConstraint m" if "r = Inl e" for e
    using ans that by (cases e) (auto simp: answered_def)
  show "(\<exists>vs. r = Inr vs) \<longleftrightarrow> (\<forall>sp \<in> set sps. fks_ok t (rows s) sp)"
  proof
    assume "\<exists>vs. r = Inr vs"
    then show "\<forall>sp \<in> set sps. fks_ok t (rows s) sp" using batch_generated(3) [OF assms] by blast
  next
    assume fk: "\<forall>sp \<in> set sps. fks_ok t (rows s) sp"
    show "\<exists>vs. r = Inr vs"
    proof (cases r)
      case (Inl e)
      then obtain m where "r = Inl (SqlConstraint m)" using con by blast
      then have "\<not> (\<exists>vs ks d. keys_of sps vs ks \<and> insert_all t sps ks (rows s) = Some d)"
        using step by (simp add: batch_step_def)
      then show ?thesis using generated_insertable [OF t _ assms(2)] wf fk by blast
    qed simp
  qed
qed

end

lemma first_err_Some: "first_err es = Some e \<Longrightarrow> Some e \<in> set es"
  by (induction es rule: first_err.induct) auto

section \<open>Transfers\<close>

definition transfer_spec :: "(string \<Rightarrow> string) \<Rightarrow> go_time \<Rightarrow> transaction \<Rightarrow> transfer \<Rightarrow> create_spec" where
  "transfer_spec uni now tx t = \<lparr>cs_Table = ''transfers'', cs_IDSpec = (''id'', TypeInt),
     cs_ID = None,
     cs_Fields = [(''hash'', TypeString, VString (tx_Hash tx)),
         (''func'', TypeString, VString (to_lower uni (tr_Func t)))] @
       (if tr_FromAddress t \<noteq> [] then [(''from_address'', TypeString, VString (tr_FromAddress t))]
        else []) @
       (if tr_ToAddress t \<noteq> [] then [(''to_address'', TypeString, VString (tr_ToAddress t))] else []) @
       [(''token'', TypeString, VString (tr_Token t)), (''amount'', TypeFloat64, VFloat (tr_Amount t)),
        (''denom'', TypeString, VString (tr_Denom t)), (''created_at'', TypeTime, VTime now)],
     cs_Edges = [], cs_OnConflict = []\<rparr>"

definition transfer_valid :: "'s ent_client \<Rightarrow> transaction \<Rightarrow> transfer \<Rightarrow> bool" where
  "transfer_valid cl tx t \<longleftrightarrow> NotEmpty cl (tx_Hash tx) \<and> NotEmpty cl (to_lower (UniLower cl) (tr_Func t))
     \<and> NotEmpty cl (tr_Token t) \<and> Positive cl (tr_Amount t) \<and> NotEmpty cl (tr_Denom t)"

definition transfer_refs :: "ledger \<Rightarrow> transfer \<Rightarrow> bool" where
  "transfer_refs L t \<longleftrightarrow> (tr_FromAddress t \<noteq> [] \<longrightarrow> L (tr_FromAddress t) \<noteq> None)
     \<and> (tr_ToAddress t \<noteq> [] \<longrightarrow> L (tr_ToAddress t) \<noteq> None)"

lemmas transfer_builder_defs = transfer_builder_def transfer_create_defs transfer_mutation_defs
  newTransferMutation_def

lemma transfer_builder_spec:
  "snd (TransferCreate_createSpec (TransferCreate_defaults cl n (transfer_builder uni now tx t)))
     = transfer_spec uni now tx t"
  by (simp add: transfer_builder_defs transfer_spec_def NewCreateSpec_def transfer_names Let_def)

lemma transfer_builder_node:
  "ef_ID (fst (TransferCreate_createSpec (TransferCreate_defaults cl n (transfer_builder uni now tx t))))
     = 0"
  by (simp add: transfer_builder_defs Let_def zero_transfer_def)

lemma transfer_builder_check:
  "TransferCreate_check cl (TransferCreate_defaults cl n (transfer_builder (UniLower cl) now tx t)) = None
     \<longleftrightarrow> transfer_valid cl tx t"
  by (simp add: transfer_builder_defs Let_def transfer_valid_def)

lemma transfer_builder_check_err:
  "TransferCreate_check cl (TransferCreate_defaults cl n (transfer_builder uni now tx t)) = Some e
     \<Longrightarrow> \<exists>f m. e = EValidation f m"
  by (auto simp: transfer_builder_defs Let_def split: if_splits)

lemma transfer_spec_generated:
  "wf_spec TransfersTable (transfer_spec uni now tx t) \<and> cs_ID (transfer_spec uni now tx t) = None
     \<and> cs_OnConflict (transfer_spec uni now tx t) = []"
  by (simp add: wf_spec_def transfer_spec_def table_defs column_defs column_ok_def field_value_def
    edge_value_def)

lemma transfer_spec_fks:
  assumes "db_ok d" "is_ledger d L"
  shows "fks_ok TransfersTable d (transfer_spec uni now tx t) \<longleftrightarrow> transfer_refs L t"
proof -
  have acc: "(\<exists>q \<in> d ''accounts''. col q ''address'' = VString a) \<longleftrightarrow> L a \<noteq> None" for a
    using accounts_are_rows [OF assms(1)] is_ledger_None [OF assms] assms(2)
    unfolding is_ledger_def by (metis col_account_row(1) not_None_eq surj_pair)
  have row: "col (new_row TransfersTable k (transfer_spec uni now tx t)) ''from_address'' =
      (if tr_FromAddress t = [] then VNull else VString (tr_FromAddress t))"
    "col (new_row TransfersTable k (transfer_spec uni now tx t)) ''to_address'' =
      (if tr_ToAddress t = [] then VNull else VString (tr_ToAddress t))" for k
    by (simp_all add: new_row_def transfer_spec_def table_defs column_defs field_value_def
      edge_value_def col_def)
  have fks: "st_ForeignKeys TransfersTable =
      [\<lparr>fk_Column = ''to_address'', fk_RefTable = ''accounts'', fk_RefColumn = ''address'', fk_OnDelete = SetNull\<rparr>,
       \<lparr>fk_Column = ''from_address'', fk_RefTable = ''accounts'', fk_RefColumn = ''address'', fk_OnDelete = SetNull\<rparr>]"
    by (simp add: TransfersTable_def)
  show ?thesis by (auto simp: fks_ok_def fks fk_ok_def row acc transfer_refs_def)
qed

abbreviation transfer_take_id :: "ent_transfer \<Rightarrow> ent_value option \<Rightarrow> err + ent_transfer" where
  "transfer_take_id \<equiv> \<lambda>n v. if v = None \<or> ef_ID n \<noteq> 0 then Inr n
     else case v of Some (VInt64 i) \<Rightarrow> Inr (n\<lparr>ef_ID := i\<rparr>)
     | _ \<Rightarrow> Inl (EPanic ''interface conversion: not an int64'')"

definition transfer_specs :: "'s ent_client \<Rightarrow> 's \<Rightarrow> transaction \<Rightarrow> transfer list \<Rightarrow> create_spec list" where
  "transfer_specs cl s tx ts =
     map (\<lambda>i. transfer_spec (UniLower cl) (Now cl i s) tx (ts ! i)) [0..<length ts]"

lemma transfer_bulk:
  assumes "ts \<noteq> []"
  shows "\<exists>nodes. (\<forall>n \<in> set nodes. ef_ID n = 0) \<and>
    RepositoryEnt_AddTransfers cl tx ts s =
      (if \<forall>t \<in> set ts. transfer_valid cl tx t then
         (case BatchCreate cl \<lparr>bs_Nodes = transfer_specs cl s tx ts, bs_OnConflict = []\<rparr> s of
            (Inl e, s') \<Rightarrow> (Inl (EMsg ''failed to add transfers''), s')
          | (Inr ids, s') \<Rightarrow>
             (case bulk_ids transfer_take_id nodes ids of
                Inl e \<Rightarrow> (Inl (logger_Errorf ''failed to add transfers'' e), s')
              | Inr _ \<Rightarrow> (Inr (), s')))
       else (Inl (EMsg ''failed to add transfers''), s))"
proof -
  define bd where "bd i = transfer_builder (UniLower cl) (Now cl i s) tx (ts ! i)" for i
  define bs where "bs = map (\<lambda>i. TransferCreate_defaults cl (Now cl i s) (bd i)) [0..<length ts]"
  define nodes where "nodes = map (\<lambda>b. fst (TransferCreate_createSpec b)) bs"
  have nz: "\<forall>n \<in> set nodes. ef_ID n = 0"
    by (auto simp: nodes_def bs_def bd_def transfer_builder_node)
  have specs: "map (\<lambda>b. snd (TransferCreate_createSpec b)) bs = transfer_specs cl s tx ts"
    by (simp add: bs_def bd_def transfer_builder_spec transfer_specs_def)
  have chk: "first_err (map (TransferCreate_check cl) bs) = None \<longleftrightarrow> (\<forall>t \<in> set ts. transfer_valid cl tx t)"
    by (auto simp: first_err_None bs_def bd_def transfer_builder_check all_set_conv_all_nth)
  have chk_err: "\<exists>f m. e = EValidation f m" if "first_err (map (TransferCreate_check cl) bs) = Some e" for e
    using first_err_Some [OF that] by (auto simp: bs_def bd_def dest: transfer_builder_check_err [OF sym])
  have ne: "bs \<noteq> []" using assms by (simp add: bs_def)
  have bulk: "TransferCreateBulk_Save cl (TransferClient_CreateBulk (map bd [0..<length ts])) s =
      (case first_err (map (TransferCreate_check cl) bs) of Some e \<Rightarrow> (Inl e, s)
      | None \<Rightarrow>
        (case BatchCreate cl \<lparr>bs_Nodes = transfer_specs cl s tx ts, bs_OnConflict = []\<rparr> s of
           (Inl e, s') \<Rightarrow> (Inl (wrap_create_err e), s')
         | (Inr ids, s') \<Rightarrow>
             (bulk_ids transfer_take_id nodes ids, s')))"
  proof -
    have "map (\<lambda>i. TransferCreate_defaults cl (Now cl i s) (map bd [0..<length ts] ! i))
        [0..<length (map bd [0..<length ts])] = bs" by (simp add: bs_def)
    then show ?thesis using ne
      by (simp only: TransferCreateBulk_plain Let_def specs nodes_def if_False)
  qed
  have op: "RepositoryEnt_AddTransfers cl tx ts s =
      (case TransferCreateBulk_Save cl (TransferClient_CreateBulk (map bd [0..<length ts])) s of
        (Inl e, s') \<Rightarrow> (Inl (logger_Errorf ''failed to add transfers'' e), s')
      | (Inr _, s') \<Rightarrow> (Inr (), s'))"
    by (simp add: RepositoryEnt_AddTransfers_def bd_def [abs_def])
  show ?thesis
  proof (rule exI [of _ nodes], intro conjI)
    show "\<forall>n \<in> set nodes. ef_ID n = 0" by (rule nz)
  next
    show "RepositoryEnt_AddTransfers cl tx ts s =
      (if \<forall>t \<in> set ts. transfer_valid cl tx t then
         (case BatchCreate cl \<lparr>bs_Nodes = transfer_specs cl s tx ts, bs_OnConflict = []\<rparr> s of
            (Inl e, s') \<Rightarrow> (Inl (EMsg ''failed to add transfers''), s')
          | (Inr ids, s') \<Rightarrow>
             (case bulk_ids transfer_take_id nodes ids of
                Inl e \<Rightarrow> (Inl (logger_Errorf ''failed to add transfers'' e), s')
              | Inr _ \<Rightarrow> (Inr (), s')))
       else (Inl (EMsg ''failed to add transfers''), s))"
    proof (cases "first_err (map (TransferCreate_check cl) bs)")
      case None
      then show ?thesis using chk unfolding op bulk
        by (auto simp: wrap_create_err_def split: prod.split sum.split sql_err.split)
    next
      case (Some e)
      then show ?thesis using chk chk_err [OF Some] unfolding op bulk by auto
    qed
  qed
qed

lemma bulk_ids_transfer:
  fixes nodes :: "ent_transfer list"
  assumes "\<forall>n \<in> set nodes. ef_ID n = 0" "\<forall>v \<in> set vs. \<exists>k. v = Some (VInt64 k)"
  shows "\<exists>ms. bulk_ids transfer_take_id nodes vs = Inr ms"
  by (rule bulk_ids_Inr) (use assms in fastforce)

lemma transfer_specs_generated: "ts \<noteq> [] \<Longrightarrow> generated_specs TransfersTable (transfer_specs cl s tx ts)"
  by (auto simp: generated_specs_def transfer_specs_def transfer_spec_generated)

lemma transfer_specs_fks:
  assumes "db_ok d" "is_ledger d L"
  shows "(\<forall>sp \<in> set (transfer_specs cl s tx ts). fks_ok TransfersTable d sp)
    \<longleftrightarrow> (\<forall>t \<in> set ts. transfer_refs L t)"
  by (auto simp: transfer_specs_def transfer_spec_fks [OF assms] all_set_conv_all_nth)

context sql_driver
begin

lemma AddTransfers_answer:
  assumes "db_ok (rows s)" "is_ledger (rows s) L" "RepositoryEnt_AddTransfers cl tx ts s = (res, s')"
  shows "db_ok (rows s')"
    and "n \<noteq> ''transfers'' \<Longrightarrow> rows s' n = rows s n"
    and "res = Inr () \<Longrightarrow> \<forall>t \<in> set ts. transfer_valid cl tx t \<and> transfer_refs L t"
    and "res = Inl e \<Longrightarrow> e = EMsg ''failed to add transfers'' \<and> rows s' = rows s"
proof -
  have "db_ok (rows s') \<and> (\<forall>n. n \<noteq> ''transfers'' \<longrightarrow> rows s' n = rows s n)
    \<and> (res = Inr () \<longrightarrow> (\<forall>t \<in> set ts. transfer_valid cl tx t \<and> transfer_refs L t))
    \<and> (\<forall>e. res = Inl e \<longrightarrow> e = EMsg ''failed to add transfers'' \<and> rows s' = rows s)"
  proof (cases "ts = []")
    case True
    then show ?thesis using assms
      by (auto simp: RepositoryEnt_AddTransfers_def TransferCreateBulk_plain)
  next
    case False
    obtain nodes where nz: "\<forall>n \<in> set nodes. ef_ID n = 0" and
      op: "RepositoryEnt_AddTransfers cl tx ts s =
      (if \<forall>t \<in> set ts. transfer_valid cl tx t then
         (case BatchCreate cl \<lparr>bs_Nodes = transfer_specs cl s tx ts, bs_OnConflict = []\<rparr> s of
            (Inl e, s') \<Rightarrow> (Inl (EMsg ''failed to add transfers''), s')
          | (Inr ids, s') \<Rightarrow>
             (case bulk_ids transfer_take_id nodes ids of
                Inl e \<Rightarrow> (Inl (logger_Errorf ''failed to add transfers'' e), s')
              | Inr _ \<Rightarrow> (Inr (), s')))
       else (Inl (EMsg ''failed to add transfers''), s))"
      using transfer_bulk [OF False, of cl tx s] by blast
    obtain r s1 where B: "BatchCreate cl \<lparr>bs_Nodes = transfer_specs cl s tx ts, bs_OnConflict = []\<rparr> s
      = (r, s1)" by fastforce
    note ans = batch_generated [OF transfer_specs_generated [OF False] assms(1) B]
    show ?thesis
    proof (cases "\<forall>t \<in> set ts. transfer_valid cl tx t")
      case False
      then have "res = Inl (EMsg ''failed to add transfers'')" "s' = s"
        using op assms(3) by (simp_all only: if_False prod.inject)
      then show ?thesis using assms(1) by simp
    next
      case valid: True
      show ?thesis
      proof (cases r)
        case (Inl e)
        then have "res = Inl (EMsg ''failed to add transfers'')" "s' = s1"
          using op assms(3) B valid by auto
        then show ?thesis using ans(5) [OF Inl] assms(1) by simp
      next
        case (Inr vs)
        obtain ms where "bulk_ids transfer_take_id nodes vs = Inr ms"
          using bulk_ids_transfer [OF nz ans(4) [OF Inr]] by blast
        then have "res = Inr ()" "s' = s1" using op assms(3) B valid Inr by auto
        then show ?thesis
          using ans(1,2) ans(3) [OF Inr] valid transfer_specs_fks [OF assms(1,2), of cl s tx ts] by auto
      qed
    qed
  qed
  then show "db_ok (rows s')"
    and "n \<noteq> ''transfers'' \<Longrightarrow> rows s' n = rows s n"
    and "res = Inr () \<Longrightarrow> \<forall>t \<in> set ts. transfer_valid cl tx t \<and> transfer_refs L t"
    and "res = Inl e \<Longrightarrow> e = EMsg ''failed to add transfers'' \<and> rows s' = rows s"
    by blast+
qed

end

context sql_driver_up
begin

lemma AddTransfers_up:
  assumes "db_ok (rows s)" "is_ledger (rows s) L"
    "\<forall>t \<in> set ts. transfer_valid cl tx t \<and> transfer_refs L t"
  shows "fst (RepositoryEnt_AddTransfers cl tx ts s) = Inr ()"
proof (cases "ts = []")
  case True
  then show ?thesis by (simp add: RepositoryEnt_AddTransfers_def TransferCreateBulk_plain)
next
  case False
  obtain r s1 where B: "BatchCreate cl \<lparr>bs_Nodes = transfer_specs cl s tx ts, bs_OnConflict = []\<rparr> s
    = (r, s1)" by fastforce
  note gen = transfer_specs_generated [OF False, of cl s tx]
  obtain vs where r: "r = Inr vs"
    using batch_generated_up(1) [OF gen assms(1) B] transfer_specs_fks [OF assms(1,2), of cl s tx ts]
      assms(3) by blast
  show ?thesis
    using transfer_bulk [OF False, of cl tx s] B r assms(3)
      bulk_ids_transfer [OF _ batch_generated(4) [OF gen assms(1) B r]] by fastforce
qed

end

section \<open>Transactions\<close>

definition transaction_spec :: "go_time \<Rightarrow> int \<Rightarrow> transaction \<Rightarrow> create_spec" where
  "transaction_spec now h tx = \<lparr>cs_Table = ''transactions'', cs_IDSpec = (''id'', TypeInt),
     cs_ID = None,
     cs_Fields = [(''index'', TypeInt, VInt (tx_Index tx)), (''hash'', TypeString, VString (tx_Hash tx)),
       (''success'', TypeBool, VBool (tx_Success tx)),
       (''block_height'', TypeInt, VInt (tx_BlockHeight tx)),
       (''gas_wanted'', TypeFloat64, VFloat (tx_GasWanted tx)),
       (''gas_used'', TypeFloat64, VFloat (tx_GasUsed tx)), (''memo'', TypeString, VString (tx_Memo tx)),
       (''gas_fee'', TypeJSON, VGasFee (gas_fee_to_schema (tx_GasFee tx))),
       (''messages'', TypeJSON, VMessages (convertMessagesToSchema (tx_Messages tx))),
       (''response'', TypeJSON, VResponse (convertResponseToSchema (tx_Response tx))),
       (''created_at'', TypeTime, VTime now)],
     cs_Edges = [\<lparr>es_Rel = M2O, es_Inverse = True, es_Table = ''transactions'',
       es_Columns = [''block_transactions''], es_Bidi = False, es_IDSpec = (''height'', TypeInt),
       es_Nodes = [h]\<rparr>],
     cs_OnConflict = []\<rparr>"

definition transaction_row :: "int \<Rightarrow> go_time \<Rightarrow> int \<Rightarrow> transaction \<Rightarrow> row" where
  "transaction_row k now h tx = [(''id'', VInt k), (''index'', VInt (tx_Index tx)),
     (''hash'', VString (tx_Hash tx)), (''success'', VBool (tx_Success tx)),
     (''block_height'', VInt (tx_BlockHeight tx)), (''gas_wanted'', VFloat (tx_GasWanted tx)),
     (''gas_used'', VFloat (tx_GasUsed tx)), (''memo'', VString (tx_Memo tx)),
     (''gas_fee'', VGasFee (gas_fee_to_schema (tx_GasFee tx))),
     (''messages'', VMessages (convertMessagesToSchema (tx_Messages tx))),
     (''response'', VResponse (convertResponseToSchema (tx_Response tx))),
     (''created_at'', VTime now), (''block_transactions'', VInt h)]"

lemmas transaction_builder_defs = transaction_builder_def transaction_create_defs
  transaction_mutation_defs newTransactionMutation_def

lemma transaction_builder_spec:
  "snd (TransactionCreate_createSpec (TransactionCreate_defaults cl n (transaction_builder now h tx)))
     = transaction_spec now h tx"
  by (simp add: transaction_builder_defs transaction_spec_def NewCreateSpec_def transaction_names Let_def)

lemma transaction_builder_check:
  "TransactionCreate_check cl (TransactionCreate_defaults cl n (transaction_builder now h tx)) =
     (if NotEmpty cl (tx_Hash tx) then None
      else Some (EValidation ''hash'' ''ent: validator failed for field''))"
  by (simp add: transaction_builder_defs Let_def)

lemma transaction_builder_check_None:
  "TransactionCreate_check cl (TransactionCreate_defaults cl n (transaction_builder now h tx)) = None
     \<longleftrightarrow> NotEmpty cl (tx_Hash tx)"
  by (simp add: transaction_builder_check)

lemma transaction_spec_generated:
  "wf_spec TransactionsTable (transaction_spec now h tx) \<and> cs_ID (transaction_spec now h tx) = None
     \<and> cs_OnConflict (transaction_spec now h tx) = []"
  by (simp add: wf_spec_def transaction_spec_def table_defs column_defs column_ok_def field_value_def
    edge_value_def)

lemma transaction_spec_row:
  "new_row TransactionsTable (VInt k) (transaction_spec now h tx) = transaction_row k now h tx"
  by (simp add: new_row_def transaction_spec_def table_defs column_defs field_value_def edge_value_def
    transaction_row_def)

lemma transaction_spec_fks:
  "fks_ok TransactionsTable d (transaction_spec now h tx) \<longleftrightarrow> has_block d h"
proof -
  have "col (new_row TransactionsTable k (transaction_spec now h tx)) ''block_transactions'' = VInt h" for k
    by (simp add: new_row_def transaction_spec_def table_defs column_defs field_value_def
      edge_value_def col_def)
  moreover have "st_ForeignKeys TransactionsTable = [\<lparr>fk_Column = ''block_transactions'',
      fk_RefTable = ''blocks'', fk_RefColumn = ''height'', fk_OnDelete = SetNull\<rparr>]" by (simp add: TransactionsTable_def)
  ultimately show ?thesis by (simp add: fks_ok_def fk_ok_def has_block_def)
qed

definition transaction_specs :: "'s ent_client \<Rightarrow> 's \<Rightarrow> int \<Rightarrow> transaction list \<Rightarrow> create_spec list" where
  "transaction_specs cl s h txs =
     map (\<lambda>i. transaction_spec (Now cl i s) h (txs ! i)) [0..<length txs]"

abbreviation transaction_take_id :: "ent_transaction \<Rightarrow> ent_value option \<Rightarrow> err + ent_transaction" where
  "transaction_take_id \<equiv> \<lambda>n v. if v = None then Inr n
     else case v of Some (VInt64 i) \<Rightarrow> Inr (n\<lparr>et_ID := i\<rparr>)
     | _ \<Rightarrow> Inl (EPanic ''interface conversion: not an int64'')"

lemma transaction_bulk:
  assumes "txs \<noteq> []"
  shows "\<exists>nodes. RepositoryEnt_AddTransactions cl h txs s =
      (if \<forall>tx \<in> set txs. NotEmpty cl (tx_Hash tx) then
         (case BatchCreate cl \<lparr>bs_Nodes = transaction_specs cl s h txs, bs_OnConflict = []\<rparr> s of
            (Inl e, s') \<Rightarrow> (case e of SqlConstraint m \<Rightarrow> (Inr (), s')
              | _ \<Rightarrow> (Inl (EMsg ''failed to add transactions''), s'))
          | (Inr ids, s') \<Rightarrow>
             (case bulk_ids transaction_take_id nodes ids of
                Inl e \<Rightarrow> if IsConstraintError e then (Inr (), s')
                  else (Inl (logger_Errorf ''failed to add transactions'' e), s')
              | Inr _ \<Rightarrow> (Inr (), s')))
       else (Inl (EMsg ''failed to add transactions''), s))"
proof -
  define bd where "bd i = transaction_builder (Now cl i s) h (txs ! i)" for i
  define bs where "bs = map (\<lambda>i. TransactionCreate_defaults cl (Now cl i s) (bd i)) [0..<length txs]"
  define nodes where "nodes = map (\<lambda>b. fst (TransactionCreate_createSpec b)) bs"
  have specs: "map (\<lambda>b. snd (TransactionCreate_createSpec b)) bs = transaction_specs cl s h txs"
    by (simp add: bs_def bd_def transaction_builder_spec transaction_specs_def)
  have chk: "first_err (map (TransactionCreate_check cl) bs) = None
      \<longleftrightarrow> (\<forall>tx \<in> set txs. NotEmpty cl (tx_Hash tx))"
    by (auto simp: first_err_None bs_def bd_def transaction_builder_check_None all_set_conv_all_nth)
  have chk_err: "\<exists>f m. e = EValidation f m"
    if "first_err (map (TransactionCreate_check cl) bs) = Some e" for e
    using first_err_Some [OF that] by (auto simp: bs_def bd_def transaction_builder_check split: if_splits)
  have ne: "bs \<noteq> []" using assms by (simp add: bs_def)
  have bulk: "TransactionCreateBulk_Save cl (TransactionClient_CreateBulk (map bd [0..<length txs])) s =
      (case first_err (map (TransactionCreate_check cl) bs) of Some e \<Rightarrow> (Inl e, s)
      | None \<Rightarrow>
        (case BatchCreate cl \<lparr>bs_Nodes = transaction_specs cl s h txs, bs_OnConflict = []\<rparr> s of
           (Inl e, s') \<Rightarrow> (Inl (wrap_create_err e), s')
         | (Inr ids, s') \<Rightarrow> (bulk_ids transaction_take_id nodes ids, s')))"
  proof -
    have "map (\<lambda>i. TransactionCreate_defaults cl (Now cl i s) (map bd [0..<length txs] ! i))
        [0..<length (map bd [0..<length txs])] = bs" by (simp add: bs_def)
    then show ?thesis using ne
      by (simp only: TransactionCreateBulk_plain Let_def specs nodes_def if_False)
  qed
  have op: "RepositoryEnt_AddTransactions cl h txs s =
      (case TransactionCreateBulk_Save cl (TransactionClient_CreateBulk (map bd [0..<length txs])) s of
        (Inl e, s') \<Rightarrow> if IsConstraintError e then (Inr (), s')
          else (Inl (logger_Errorf ''failed to add transactions'' e), s')
      | (Inr _, s') \<Rightarrow> (Inr (), s'))"
    using assms by (simp add: RepositoryEnt_AddTransactions_def bd_def [abs_def])
  show ?thesis
  proof (rule exI [of _ nodes], cases "first_err (map (TransactionCreate_check cl) bs)")
    case None
    then show "RepositoryEnt_AddTransactions cl h txs s =
      (if \<forall>tx \<in> set txs. NotEmpty cl (tx_Hash tx) then
         (case BatchCreate cl \<lparr>bs_Nodes = transaction_specs cl s h txs, bs_OnConflict = []\<rparr> s of
            (Inl e, s') \<Rightarrow> (case e of SqlConstraint m \<Rightarrow> (Inr (), s')
              | _ \<Rightarrow> (Inl (EMsg ''failed to add transactions''), s'))
          | (Inr ids, s') \<Rightarrow>
             (case bulk_ids transaction_take_id nodes ids of
                Inl e \<Rightarrow> if IsConstraintError e then (Inr (), s')
                  else (Inl (logger_Errorf ''failed to add transactions'' e), s')
              | Inr _ \<Rightarrow> (Inr (), s')))
       else (Inl (EMsg ''failed to add transactions''), s))"
      using chk unfolding op bulk
      by (auto simp: wrap_create_err_def split: prod.split sum.split sql_err.split)
  next
    case (Some e)
    then show "RepositoryEnt_AddTransactions cl h txs s =
      (if \<forall>tx \<in> set txs. NotEmpty cl (tx_Hash tx) then
         (case BatchCreate cl \<lparr>bs_Nodes = transaction_specs cl s h txs, bs_OnConflict = []\<rparr> s of
            (Inl e, s') \<Rightarrow> (case e of SqlConstraint m \<Rightarrow> (Inr (), s')
              | _ \<Rightarrow> (Inl (EMsg ''failed to add transactions''), s'))
          | (Inr ids, s') \<Rightarrow>
             (case bulk_ids transaction_take_id nodes ids of
                Inl e \<Rightarrow> if IsConstraintError e then (Inr (), s')
                  else (Inl (logger_Errorf ''failed to add transactions'' e), s')
              | Inr _ \<Rightarrow> (Inr (), s')))
       else (Inl (EMsg ''failed to add transactions''), s))"
      using chk chk_err [OF Some] unfolding op bulk by auto
  qed
qed

lemma transaction_specs_generated:
  "txs \<noteq> [] \<Longrightarrow> generated_specs TransactionsTable (transaction_specs cl s h txs)"
  by (auto simp: generated_specs_def transaction_specs_def transaction_spec_generated)

lemma transaction_specs_fks:
  "txs \<noteq> [] \<Longrightarrow> (\<forall>sp \<in> set (transaction_specs cl s h txs). fks_ok TransactionsTable d sp)
    \<longleftrightarrow> has_block d h"
  by (auto simp: transaction_specs_def transaction_spec_fks)

text \<open>The rows a batch leaves behind.\<close>

lemma insert_all_rows:
  "insert_all t sps ks d = Some d' \<Longrightarrow>
    d' (st_Name t) = d (st_Name t) \<union> {new_row t k sp | k sp. (sp, k) \<in> set (zip sps ks)}"
proof (induction t sps ks d rule: insert_all.induct)
  case (2 t sp sps k ks d)
  then have i: "insert_ok t d (new_row t k sp)"
    and r: "insert_all t sps ks (db_insert t (new_row t k sp) d) = Some d'"
    by (auto split: if_splits)
  show ?case using "2.IH" [OF i r] by (auto simp: db_insert_def)
qed auto

definition stored_transactions :: "db \<Rightarrow> int \<Rightarrow> transaction list \<Rightarrow> db \<Rightarrow> bool" where
  "stored_transactions d h txs d' \<longleftrightarrow>
     d ''transactions'' \<subseteq> d' ''transactions'' \<and>
     (\<forall>tx \<in> set txs. \<exists>k now. transaction_row k now h tx \<in> d' ''transactions'') \<and>
     (\<forall>r \<in> d' ''transactions'' - d ''transactions''.
        \<exists>k now. \<exists>tx \<in> set txs. r = transaction_row k now h tx)"

lemma stored_batch:
  assumes "keys_of (transaction_specs cl s h txs) vs ks"
    "insert_all TransactionsTable (transaction_specs cl s h txs) ks d = Some d'"
  shows "stored_transactions d h txs d'"
proof -
  let ?sps = "transaction_specs cl s h txs"
  let ?new = "\<lambda>i. new_row TransactionsTable (ks ! i) (?sps ! i)"
  have len: "length ?sps = length txs" "length ks = length txs"
    using assms(1) by (auto simp: keys_of_def transaction_specs_def)
  have row: "\<exists>k now. ?new i = transaction_row k now h (txs ! i)" if "i < length txs" for i
  proof -
    have sp: "?sps ! i = transaction_spec (Now cl i s) h (txs ! i)"
      using that by (simp add: transaction_specs_def)
    have "key_of (?sps ! i) (vs ! i) (ks ! i)" using assms(1) that len by (simp add: keys_of_def)
    then obtain n where "ks ! i = VInt n" unfolding sp by (auto simp: key_of_def transaction_spec_generated)
    then show ?thesis unfolding sp using transaction_spec_row by metis
  qed
  have "{new_row TransactionsTable k sp | k sp. (sp, k) \<in> set (zip ?sps ks)} = ?new ` {..<length txs}"
    unfolding set_zip len by auto
  then have new: "d' ''transactions'' = d ''transactions'' \<union> ?new ` {..<length txs}"
    using insert_all_rows [OF assms(2)] by simp
  show ?thesis
    unfolding stored_transactions_def
  proof (intro conjI ballI)
    fix tx
    assume "tx \<in> set txs"
    then obtain i where i: "i < length txs" "tx = txs ! i" by (auto simp: in_set_conv_nth)
    then have "?new i \<in> d' ''transactions''" by (simp add: new)
    then show "\<exists>k now. transaction_row k now h tx \<in> d' ''transactions''" using row [OF i(1)] i(2) by metis
  next
    fix r
    assume "r \<in> d' ''transactions'' - d ''transactions''"
    then obtain i where i: "i < length txs" "r = ?new i" by (auto simp: new)
    then show "\<exists>k now. \<exists>tx \<in> set txs. r = transaction_row k now h tx" using row [OF i(1)] nth_mem by metis
  qed (simp add: new)
qed

context sql_driver
begin

lemma AddTransactions_answer:
  assumes "db_ok (rows s)" "RepositoryEnt_AddTransactions cl h txs s = (res, s')"
  shows "db_ok (rows s')"
    and "n \<noteq> ''transactions'' \<Longrightarrow> rows s' n = rows s n"
    and "res = Inr () \<Longrightarrow> \<forall>tx \<in> set txs. tx_Hash tx \<noteq> []"
    and "res = Inr () \<Longrightarrow> has_block (rows s) h \<Longrightarrow> stored_transactions (rows s) h txs (rows s')"
    and "res = Inr () \<Longrightarrow> \<not> has_block (rows s) h \<Longrightarrow> rows s' = rows s"
    and "res = Inl e \<Longrightarrow> e = EMsg ''failed to add transactions'' \<and> rows s' = rows s"
proof -
  have "db_ok (rows s') \<and> (\<forall>n. n \<noteq> ''transactions'' \<longrightarrow> rows s' n = rows s n)
    \<and> (res = Inr () \<longrightarrow> (\<forall>tx \<in> set txs. tx_Hash tx \<noteq> [])
        \<and> (if has_block (rows s) h then stored_transactions (rows s) h txs (rows s')
           else rows s' = rows s))
    \<and> (\<forall>e. res = Inl e \<longrightarrow> e = EMsg ''failed to add transactions'' \<and> rows s' = rows s)"
  proof (cases "txs = []")
    case True
    then show ?thesis using assms
      by (auto simp: RepositoryEnt_AddTransactions_def stored_transactions_def)
  next
    case False
    obtain nodes where op: "RepositoryEnt_AddTransactions cl h txs s =
      (if \<forall>tx \<in> set txs. NotEmpty cl (tx_Hash tx) then
         (case BatchCreate cl \<lparr>bs_Nodes = transaction_specs cl s h txs, bs_OnConflict = []\<rparr> s of
            (Inl e, s') \<Rightarrow> (case e of SqlConstraint m \<Rightarrow> (Inr (), s')
              | _ \<Rightarrow> (Inl (EMsg ''failed to add transactions''), s'))
          | (Inr ids, s') \<Rightarrow>
             (case bulk_ids transaction_take_id nodes ids of
                Inl e \<Rightarrow> if IsConstraintError e then (Inr (), s')
                  else (Inl (logger_Errorf ''failed to add transactions'' e), s')
              | Inr _ \<Rightarrow> (Inr (), s')))
       else (Inl (EMsg ''failed to add transactions''), s))"
      using transaction_bulk [OF False, of cl h s] by blast
    let ?sps = "transaction_specs cl s h txs"
    note gen = transaction_specs_generated [OF False, of cl s h]
    obtain r s1 where B: "BatchCreate cl \<lparr>bs_Nodes = ?sps, bs_OnConflict = []\<rparr> s = (r, s1)"
      by fastforce
    note ans = batch_generated [OF gen assms(1) B]
    have step: "batch_step TransactionsTable ?sps (rows s) r (rows s1)"
      using batch [OF Tables_members(4) generated_wf_batch [OF gen] assms(1) B] .
    show ?thesis
    proof (cases "\<forall>tx \<in> set txs. NotEmpty cl (tx_Hash tx)")
      case invalid: False
      then have "res = Inl (EMsg ''failed to add transactions'')" "s' = s"
        using op assms(2) by (simp_all only: if_False prod.inject)
      then show ?thesis using assms(1) by simp
    next
      case valid: True
      have hashes: "\<forall>tx \<in> set txs. tx_Hash tx \<noteq> []" using valid by (simp add: not_empty)
      show ?thesis
      proof (cases r)
        case (Inl e)
        have unch: "rows s1 = rows s" by (rule ans(5) [OF Inl])
        show ?thesis
        proof (cases e)
          case (SqlConstraint m)
          then have "res = Inr ()" "s' = s1" using op assms(2) B valid Inl by auto
          moreover have "\<not> has_block (rows s) h"
          proof
            assume "has_block (rows s) h"
            then have "\<forall>sp \<in> set ?sps. wf_spec TransactionsTable sp \<and> cs_ID sp = None
                \<and> fks_ok TransactionsTable (rows s) sp"
              using gen transaction_specs_fks [OF False, of cl s h "rows s"]
              by (auto simp: generated_specs_def)
            then show False using generated_insertable [OF Tables_members(4) _ assms(1)] step Inl
                SqlConstraint by (auto simp: batch_step_def)
          qed
          ultimately show ?thesis using unch hashes assms(1) by simp
        next
          case (SqlNotFound m)
          then have "res = Inl (EMsg ''failed to add transactions'')" "s' = s1"
            using op assms(2) B valid Inl by auto
          then show ?thesis using unch assms(1) by simp
        next
          case (SqlOther m)
          then have "res = Inl (EMsg ''failed to add transactions'')" "s' = s1"
            using op assms(2) B valid Inl by auto
          then show ?thesis using unch assms(1) by simp
        qed
      next
        case (Inr vs)
        have ids: "\<exists>ms. bulk_ids transaction_take_id nodes vs = Inr ms"
          by (rule bulk_ids_Inr) (use ans(4) [OF Inr] in fastforce)
        then have res: "res = Inr ()" "s' = s1" using op assms(2) B valid Inr by auto
        have blk: "has_block (rows s) h"
          using ans(3) [OF Inr] transaction_specs_fks [OF False, of cl s h "rows s"] by simp
        have "stored_transactions (rows s) h txs (rows s1)"
          using step Inr stored_batch by (auto simp: batch_step_def)
        then show ?thesis using res ans(1,2) hashes blk by simp
      qed
    qed
  qed
  then show "db_ok (rows s')"
    and "n \<noteq> ''transactions'' \<Longrightarrow> rows s' n = rows s n"
    and "res = Inr () \<Longrightarrow> \<forall>tx \<in> set txs. tx_Hash tx \<noteq> []"
    and "res = Inr () \<Longrightarrow> has_block (rows s) h \<Longrightarrow> stored_transactions (rows s) h txs (rows s')"
    and "res = Inr () \<Longrightarrow> \<not> has_block (rows s) h \<Longrightarrow> rows s' = rows s"
    and "res = Inl e \<Longrightarrow> e = EMsg ''failed to add transactions'' \<and> rows s' = rows s"
    by auto
qed

end

context sql_driver_up
begin

lemma AddTransactions_up:
  assumes "db_ok (rows s)" "\<forall>tx \<in> set txs. tx_Hash tx \<noteq> []"
  shows "fst (RepositoryEnt_AddTransactions cl h txs s) = Inr ()"
proof (cases "txs = []")
  case True
  then show ?thesis by (simp add: RepositoryEnt_AddTransactions_def)
next
  case False
  note gen = transaction_specs_generated [OF False, of cl s h]
  obtain r s1 where B: "BatchCreate cl \<lparr>bs_Nodes = transaction_specs cl s h txs, bs_OnConflict = []\<rparr> s
    = (r, s1)" by fastforce
  have valid: "\<forall>tx \<in> set txs. NotEmpty cl (tx_Hash tx)" using assms(2) by (simp add: not_empty)
  show ?thesis
  proof (cases r)
    case (Inl e)
    then obtain m where "r = Inl (SqlConstraint m)" using batch_generated_up(2) [OF gen assms(1) B] by blast
    then show ?thesis using transaction_bulk [OF False, of cl h s] B valid by auto
  next
    case (Inr vs)
    obtain nodes where op: "RepositoryEnt_AddTransactions cl h txs s =
      (if \<forall>tx \<in> set txs. NotEmpty cl (tx_Hash tx) then
         (case BatchCreate cl \<lparr>bs_Nodes = transaction_specs cl s h txs, bs_OnConflict = []\<rparr> s of
            (Inl e, s') \<Rightarrow> (case e of SqlConstraint m \<Rightarrow> (Inr (), s')
              | _ \<Rightarrow> (Inl (EMsg ''failed to add transactions''), s'))
          | (Inr ids, s') \<Rightarrow>
             (case bulk_ids transaction_take_id nodes ids of
                Inl e \<Rightarrow> if IsConstraintError e then (Inr (), s')
                  else (Inl (logger_Errorf ''failed to add transactions'' e), s')
              | Inr _ \<Rightarrow> (Inr (), s')))
       else (Inl (EMsg ''failed to add transactions''), s))"
      using transaction_bulk [OF False, of cl h s] by blast
    have "\<exists>ms. bulk_ids transaction_take_id nodes vs = Inr ms"
      by (rule bulk_ids_Inr) (use batch_generated(4) [OF gen assms(1) B Inr] in fastforce)
    then show ?thesis using op B valid Inr by auto
  qed
qed

end

end
