(* ===== verification/Event_Processor.thy ===== *)
theory Event_Processor
  imports Journal
begin

text \<open>
  The event processor (\<^verbatim>\<open>cmd/event-processor/service/service.go\<close>): it takes a block with its
  transactions from the message broker, stores both, and books the token events the
  transactions carry on the accounts.

  The operations are defined over any \<open>repository\<close>. The locale \<open>account_store\<close> states what they
  rely on; \<open>Event_Ledger\<close> proves it of \<open>RepositoryEnt\<close>. Their meaning is given by functions on
  the abstract ledger, \<open>led_mint\<close> to \<open>led_block\<close>.
\<close>

section \<open>The service\<close>

record block_with_txs =
  bwt_Block :: "block option"
  bwt_Transactions :: "transaction list"

text \<open>\<open>sv_Now\<close> is \<^verbatim>\<open>time.Now()\<close>, \<open>sv_UniLower\<close> the runtime's Unicode tables.\<close>

record 's ep_service =
  sv_repo :: "'s repository"
  sv_Now :: "'s \<Rightarrow> go_time"
  sv_UniLower :: "string \<Rightarrow> string"

definition UNIT_NAME :: string where
  "UNIT_NAME = ''ugnot''"

definition TOPIC_BLOCK_WITH_TXS :: string where
  "TOPIC_BLOCK_WITH_TXS = ''block_with_txs''"

definition ep_NewService :: "'s ent_client \<Rightarrow> 's ep_service" where
  "ep_NewService cl = \<lparr>sv_repo = RepositoryEnt cl, sv_Now = Now cl 0, sv_UniLower = UniLower cl\<rparr>"

text \<open>A fallible step whose error is logged and replaced, or logged and wrapped, and sequencing.\<close>

definition io_logged :: "string \<Rightarrow> ('s, 'a) io \<Rightarrow> ('s, 'a) io" where
  "io_logged msg m s = (case m s of (Inl e, s') \<Rightarrow> (Inl (logger_Errorf msg e), s')
     | (Inr x, s') \<Rightarrow> (Inr x, s'))"

definition io_wrapped :: "string \<Rightarrow> ('s, 'a) io \<Rightarrow> ('s, 'a) io" where
  "io_wrapped msg m s = (case m s of (Inl e, s') \<Rightarrow> (Inl (logger_Errorf_w msg e), s')
     | (Inr x, s') \<Rightarrow> (Inr x, s'))"

definition io_then :: "('s, 'a) io \<Rightarrow> ('a \<Rightarrow> ('s, 'b) io) \<Rightarrow> ('s, 'b) io" where
  "io_then m f s = (case m s of (Inl e, s') \<Rightarrow> (Inl e, s') | (Inr x, s') \<Rightarrow> f x s')"

definition handleMintEvent :: "'s ep_service \<Rightarrow> transaction \<Rightarrow> string \<Rightarrow> string \<Rightarrow> int \<Rightarrow> ('s, unit) io" where
  "handleMintEvent sv tx pkg toAddress v s =
     (if toAddress = [] then (Inr (), s)
      else io_then (GetAccount (sv_repo sv) toAddress pkg) (\<lambda>toAccount.
        io_then (\<lambda>s1. if toAccount = None
             then io_logged ''Failed to add account'' (AddAccount (sv_repo sv)
               \<lparr>ac_Address = toAddress, ac_Token = pkg, ac_Amount = F64 0, ac_CreatedAt = sv_Now sv s1\<rparr>) s1
             else (Inr (), s1)) (\<lambda>_.
        io_logged ''Failed to increment balance for account''
          (IncrementAccountBalance (sv_repo sv) toAddress pkg v))) s)"

definition handleBurnEvent :: "'s ep_service \<Rightarrow> transaction \<Rightarrow> string \<Rightarrow> string \<Rightarrow> int \<Rightarrow> ('s, unit) io" where
  "handleBurnEvent sv tx pkg fromAddress v s =
     (if fromAddress = [] then (Inr (), s)
      else io_then (GetAccount (sv_repo sv) fromAddress pkg) (\<lambda>fromAccount.
        io_then (\<lambda>s1. if fromAccount = None
             then io_logged ''Failed to add account'' (AddAccount (sv_repo sv)
               \<lparr>ac_Address = fromAddress, ac_Token = pkg, ac_Amount = F64 0, ac_CreatedAt = sv_Now sv s1\<rparr>) s1
             else (Inr (), s1)) (\<lambda>_.
        io_logged ''Failed to decrement balance for account''
          (IncrementAccountBalance (sv_repo sv) fromAddress pkg (wrap64 (- v))))) s)"

definition handleTransferEvent :: "'s ep_service \<Rightarrow> transaction \<Rightarrow> string \<Rightarrow> string \<Rightarrow> string \<Rightarrow> int
    \<Rightarrow> ('s, unit) io" where
  "handleTransferEvent sv tx pkg fromAddress toAddress v s =
     io_then (GetAccount (sv_repo sv) fromAddress pkg) (\<lambda>fromAccount.
     io_then (\<lambda>s1. if fromAccount = None
          then io_logged ''Failed to add account'' (AddAccount (sv_repo sv)
            \<lparr>ac_Address = fromAddress, ac_Token = pkg, ac_Amount = F64 0, ac_CreatedAt = zero_time\<rparr>) s1
          else (Inr (), s1)) (\<lambda>_.
     io_then (GetAccount (sv_repo sv) toAddress pkg) (\<lambda>toAccount.
     io_then (\<lambda>s2. if toAccount = None
          then io_logged ''Failed to add account'' (AddAccount (sv_repo sv)
            \<lparr>ac_Address = toAddress, ac_Token = pkg, ac_Amount = F64 0, ac_CreatedAt = zero_time\<rparr>) s2
          else (Inr (), s2)) (\<lambda>_.
     io_then (io_logged ''Failed to decrement balance for account''
       (IncrementAccountBalance (sv_repo sv) fromAddress pkg (wrap64 (- v)))) (\<lambda>_.
     io_logged ''Failed to increment balance for account''
       (IncrementAccountBalance (sv_repo sv) toAddress pkg v)))))) s"

text \<open>The loop over an event's attributes: the last \<^verbatim>\<open>from\<close>, \<^verbatim>\<open>to\<close> and \<^verbatim>\<open>value\<close> win.\<close>

fun scan_attrs :: "attr list \<Rightarrow> string \<Rightarrow> string \<Rightarrow> int \<Rightarrow> num_err + string \<times> string \<times> int" where
  "scan_attrs [] from to v = Inr (from, to, v)"
| "scan_attrs (a # as) from to v =
     (if at_Key a = ''from'' then scan_attrs as (at_Value a) to v
      else if at_Key a = ''to'' then scan_attrs as from (at_Value a) v
      else if at_Key a = ''value'' then
        (case parse_int (at_Value a) of Inl e \<Rightarrow> Inl e | Inr n \<Rightarrow> scan_attrs as from to n)
      else scan_attrs as from to v)"

definition event_parties :: "event \<Rightarrow> num_err + string \<times> string \<times> int" where
  "event_parties e = scan_attrs (ev_Attrs e) [] [] 0"

definition dispatch_event :: "'s ep_service \<Rightarrow> transaction \<Rightarrow> event \<Rightarrow> string \<Rightarrow> string \<Rightarrow> int
    \<Rightarrow> ('s, unit) io" where
  "dispatch_event sv tx e fromAddress toAddress v =
     (let fn = to_lower (sv_UniLower sv) (ev_Func e) in
      if fn = ''mint'' then io_logged ''Failed to handle mint event''
        (handleMintEvent sv tx (ev_PkgPath e) toAddress v)
      else if fn = ''burn'' then io_logged ''Failed to handle burn event''
        (handleBurnEvent sv tx (ev_PkgPath e) fromAddress v)
      else if fn = ''transfer'' then io_logged ''Failed to handle transfer event''
        (handleTransferEvent sv tx (ev_PkgPath e) fromAddress toAddress v)
      else (\<lambda>s. (Inr (), s)))"

definition event_transfer :: "go_time \<Rightarrow> event \<Rightarrow> string \<Rightarrow> string \<Rightarrow> int \<Rightarrow> transfer" where
  "event_transfer now e fromAddress toAddress v =
     \<lparr>tr_Func = ev_Func e, tr_FromAddress = fromAddress, tr_ToAddress = toAddress,
      tr_Token = ev_PkgPath e, tr_Amount = f64_of_int v, tr_Denom = UNIT_NAME, tr_CreatedAt = now\<rparr>"

definition is_transfer_event :: "(string \<Rightarrow> string) \<Rightarrow> event \<Rightarrow> bool" where
  "is_transfer_event uni e \<longleftrightarrow> to_lower uni (ev_Type e) = ''transfer''"

fun process_events :: "'s ep_service \<Rightarrow> transaction \<Rightarrow> event list \<Rightarrow> transfer list
    \<Rightarrow> ('s, transfer list) io" where
  "process_events sv tx [] transfers s = (Inr transfers, s)"
| "process_events sv tx (e # es) transfers s =
     (if is_transfer_event (sv_UniLower sv) e then
        (case event_parties e of
           Inl err \<Rightarrow> (Inl (EMsg ''Invalid 'value' attribute in transfer event''), s)
         | Inr (fromAddress, toAddress, v) \<Rightarrow>
             (case dispatch_event sv tx e fromAddress toAddress v s of
                (Inl err, s') \<Rightarrow> (Inl err, s')
              | (Inr _, s') \<Rightarrow> process_events sv tx es
                  (transfers @ [event_transfer (sv_Now sv s') e fromAddress toAddress v]) s'))
      else process_events sv tx es transfers s)"

fun parseAndProcessTransactions :: "'s ep_service \<Rightarrow> transaction list \<Rightarrow> ('s, unit) io" where
  "parseAndProcessTransactions sv [] s = (Inr (), s)"
| "parseAndProcessTransactions sv (tx # txs) s =
     (case process_events sv tx (rs_Events (tx_Response tx)) [] s of
        (Inl e, s') \<Rightarrow> (Inl e, s')
      | (Inr transfers, s') \<Rightarrow>
          (case AddTransfers (sv_repo sv) tx transfers s' of
             (Inl e, s'') \<Rightarrow> (Inl (logger_Errorf ''Failed to add transfers for transaction'' e), s'')
           | (Inr _, s'') \<Rightarrow> parseAndProcessTransactions sv txs s''))"

text \<open>A message whose \<^verbatim>\<open>block\<close> is \<^verbatim>\<open>null\<close> decodes to a nil pointer, which \<^verbatim>\<open>AddBlock\<close> dereferences.\<close>

definition ProcessBlockWithTransactions :: "'s ep_service \<Rightarrow> block_with_txs \<Rightarrow> ('s, unit) io" where
  "ProcessBlockWithTransactions sv m s =
     (case AddBlock (sv_repo sv) (bwt_Block m) s of
        (Inl e, s1) \<Rightarrow> (Inl (if bwt_Block m = None then EPanic ''nil pointer dereference''
           else logger_Errorf_w ''failed to add block'' e), s1)
      | (Inr already, s1) \<Rightarrow>
        (case bwt_Block m of None \<Rightarrow> (Inl (EPanic ''nil pointer dereference''), s1)
         | Some b \<Rightarrow>
            if already then (Inr (), s1)
            else
              (case AddTransactions (sv_repo sv) (b_Height b) (bwt_Transactions m) s1 of
                 (Inl e, s2) \<Rightarrow> (Inl (logger_Errorf_w ''failed to add transactions for block'' e), s2)
               | (Inr _, s2) \<Rightarrow>
                   io_wrapped ''failed to parse and process transactions for block''
                     (parseAndProcessTransactions sv (bwt_Transactions m)) s2)))"

section \<open>The meaning on the ledger\<close>

text \<open>The first component says whether the step succeeds; a failing step keeps what it has done.\<close>

definition led_ensure :: "string \<Rightarrow> string \<Rightarrow> ledger \<Rightarrow> bool \<times> ledger" where
  "led_ensure a t L =
     (if led_get L a t \<noteq> None then (True, L)
      else if led_open_ok L a t then (True, L(a \<mapsto> (t, F64 0))) else (False, L))"

definition led_mint :: "string \<Rightarrow> string \<Rightarrow> int \<Rightarrow> ledger \<Rightarrow> bool \<times> ledger" where
  "led_mint t a v L = (if a = [] then (True, L)
     else case led_ensure a t L of (ok, L1) \<Rightarrow>
       if ok then (True, led_inc L1 a t (f64_of_int v)) else (False, L1))"

definition led_transfer :: "string \<Rightarrow> string \<Rightarrow> string \<Rightarrow> int \<Rightarrow> ledger \<Rightarrow> bool \<times> ledger" where
  "led_transfer t a b v L =
     (case led_ensure a t L of (ok1, L1) \<Rightarrow> if \<not> ok1 then (False, L1) else
      case led_ensure b t L1 of (ok2, L2) \<Rightarrow> if \<not> ok2 then (False, L2) else
      (True, led_inc (led_inc L2 a t (f64_of_int (wrap64 (- v)))) b t (f64_of_int v)))"

definition led_event :: "(string \<Rightarrow> string) \<Rightarrow> event \<Rightarrow> string \<Rightarrow> string \<Rightarrow> int \<Rightarrow> ledger \<Rightarrow> bool \<times> ledger" where
  "led_event uni e a b v L =
     (let fn = to_lower uni (ev_Func e) in
      if fn = ''mint'' then led_mint (ev_PkgPath e) b v L
      else if fn = ''burn'' then led_mint (ev_PkgPath e) a (wrap64 (- v)) L
      else if fn = ''transfer'' then led_transfer (ev_PkgPath e) a b v L
      else (True, L))"

text \<open>What a transfer row needs to be stored: the fields the schema validates, a positive amount, and
  accounts for the addresses it names.\<close>

definition entry_ok :: "(string \<Rightarrow> string) \<Rightarrow> transaction \<Rightarrow> ledger \<Rightarrow> event \<times> string \<times> string \<times> int \<Rightarrow> bool" where
  "entry_ok uni tx L = (\<lambda>(e, a, b, v). tx_Hash tx \<noteq> [] \<and> to_lower uni (ev_Func e) \<noteq> []
     \<and> ev_PkgPath e \<noteq> [] \<and> 1 \<le> v \<and> (a \<noteq> [] \<longrightarrow> L a \<noteq> None) \<and> (b \<noteq> [] \<longrightarrow> L b \<noteq> None))"

fun led_events :: "(string \<Rightarrow> string) \<Rightarrow> event list \<Rightarrow> (event \<times> string \<times> string \<times> int) list \<Rightarrow> ledger
    \<Rightarrow> (event \<times> string \<times> string \<times> int) list option \<times> ledger" where
  "led_events uni [] acc L = (Some acc, L)"
| "led_events uni (e # es) acc L =
     (if is_transfer_event uni e then
        (case event_parties e of Inl err \<Rightarrow> (None, L)
         | Inr (a, b, v) \<Rightarrow>
             (case led_event uni e a b v L of (ok, L1) \<Rightarrow>
                if ok then led_events uni es (acc @ [(e, a, b, v)]) L1 else (None, L1)))
      else led_events uni es acc L)"

fun led_txs :: "(string \<Rightarrow> string) \<Rightarrow> transaction list \<Rightarrow> ledger \<Rightarrow> bool \<times> ledger" where
  "led_txs uni [] L = (True, L)"
| "led_txs uni (tx # txs) L =
     (case led_events uni (rs_Events (tx_Response tx)) [] L of
        (None, L1) \<Rightarrow> (False, L1)
      | (Some entries, L1) \<Rightarrow>
          if list_all (entry_ok uni tx L1) entries then led_txs uni txs L1 else (False, L1))"

definition led_block :: "(string \<Rightarrow> string) \<Rightarrow> bool \<Rightarrow> block \<Rightarrow> transaction list \<Rightarrow> ledger \<Rightarrow> bool \<times> ledger" where
  "led_block uni known b txs L =
     (if b_Hash b = [] then (False, L)
      else if known then (True, L)
      else if list_ex (\<lambda>tx. tx_Hash tx = []) txs then (False, L)
      else led_txs uni txs L)"

text \<open>Events for which the address and token filters of \<^verbatim>\<open>GetAccount\<close> are both present.\<close>

definition event_named :: "(string \<Rightarrow> string) \<Rightarrow> event \<Rightarrow> bool" where
  "event_named uni e \<longleftrightarrow> (is_transfer_event uni e \<longrightarrow> ev_PkgPath e \<noteq> [] \<and>
     (to_lower uni (ev_Func e) = ''transfer'' \<longrightarrow>
        (case event_parties e of Inl err \<Rightarrow> True | Inr (a, b, v) \<Rightarrow> a \<noteq> [] \<and> b \<noteq> [])))"

definition tx_named :: "(string \<Rightarrow> string) \<Rightarrow> transaction \<Rightarrow> bool" where
  "tx_named uni tx \<longleftrightarrow> list_all (event_named uni) (rs_Events (tx_Response tx))"

end
