(* ===== verification/Mem_Driver.thy ===== *)
theory Mem_Driver
  imports Database
begin

text \<open>
  A concrete driver for the generated client: tables as lists of rows in memory, with the keys,
  unique indexes and foreign keys of \<^verbatim>\<open>ent/migrate/schema.go\<close> enforced. It is no part of the
  program. It shows that the laws of \<open>sql_driver_up\<close> can hold together, and it is the database
  on which the development runs the program's operations on concrete inputs.
\<close>

type_synonym mem = "string \<Rightarrow> row list"

definition mem_rows :: "mem \<Rightarrow> db" where
  "mem_rows s = (\<lambda>n. set (s n))"

definition mem_empty :: mem where
  "mem_empty = (\<lambda>n. [])"

definition int_key :: "string \<Rightarrow> row \<Rightarrow> int" where
  "int_key c r = (case col r c of VInt n \<Rightarrow> n | _ \<Rightarrow> 0)"

definition fresh_key :: "string \<Rightarrow> row list \<Rightarrow> int" where
  "fresh_key c rs = 1 + foldr max (map (int_key c) rs) 0"

definition mem_key :: "sql_table \<Rightarrow> create_spec \<Rightarrow> mem \<Rightarrow> ent_value \<times> ent_value option" where
  "mem_key t sp s = (case cs_ID sp of Some k \<Rightarrow> (k, Some k)
     | None \<Rightarrow> (let n = fresh_key (st_PrimaryKey t) (s (st_Name t)) in (VInt n, Some (VInt64 n))))"

definition mem_insert :: "sql_table \<Rightarrow> row \<Rightarrow> mem \<Rightarrow> mem" where
  "mem_insert t r s = s(st_Name t := s (st_Name t) @ [r])"

definition mem_insert1 :: "sql_table \<Rightarrow> create_spec \<Rightarrow> mem \<Rightarrow> (ent_value option \<times> mem) option" where
  "mem_insert1 t sp s =
     (let (k, v) = mem_key t sp s; r = new_row t k sp in
      if insert_ok t (mem_rows s) r then Some (v, mem_insert t r s) else None)"

fun mem_inserts :: "sql_table \<Rightarrow> create_spec list \<Rightarrow> mem
    \<Rightarrow> (ent_value option list \<times> mem) option" where
  "mem_inserts t [] s = Some ([], s)"
| "mem_inserts t (sp # sps) s =
     (case mem_insert1 t sp s of None \<Rightarrow> None
      | Some (v, s') \<Rightarrow> (case mem_inserts t sps s' of None \<Rightarrow> None
         | Some (vs, s'') \<Rightarrow> Some (v # vs, s'')))"

definition mem_upsert :: "sql_table \<Rightarrow> create_spec \<Rightarrow> mem \<Rightarrow> ent_value option \<times> mem" where
  "mem_upsert t sp s =
     (let (k, v) = mem_key t sp s; r = new_row t k sp; n = st_Name t; p = st_PrimaryKey t;
          cs = excluded_columns sp in
      (v, if list_ex (\<lambda>q. col q p = col r p) (s n)
          then s(n := map (\<lambda>q. if col q p = col r p then merge_row cs r q else q) (s n))
          else mem_insert t r s))"

definition mem_create :: "create_spec \<Rightarrow> mem \<Rightarrow> (sql_err + ent_value option) \<times> mem" where
  "mem_create sp s =
     (case table_of (cs_Table sp) of None \<Rightarrow> (Inl (SqlOther ''no such table''), s)
      | Some t \<Rightarrow>
          if cs_OnConflict sp = [] then
            (case mem_insert1 t sp s of None \<Rightarrow> (Inl (SqlConstraint ''constraint failed''), s)
             | Some (v, s') \<Rightarrow> (Inr v, s'))
          else (let (v, s') = mem_upsert t sp s in (Inr v, s')))"

definition mem_batch :: "batch_spec \<Rightarrow> mem \<Rightarrow> (sql_err + ent_value option list) \<times> mem" where
  "mem_batch b s =
     (case bs_Nodes b of [] \<Rightarrow> (Inr [], s)
      | sp # _ \<Rightarrow>
        (case table_of (cs_Table sp) of None \<Rightarrow> (Inl (SqlOther ''no such table''), s)
         | Some t \<Rightarrow>
             (case mem_inserts t (bs_Nodes b) s of
                None \<Rightarrow> (Inl (SqlConstraint ''constraint failed''), s)
              | Some (vs, s') \<Rightarrow> (Inr vs, s'))))"

definition mem_update :: "update_spec \<Rightarrow> mem \<Rightarrow> (sql_err + int) \<times> mem" where
  "mem_update us s =
     (let n = us_Table us; hit = satisfies (us_Predicate us) in
      (Inr (int (length (remdups (filter hit (s n))))),
       s(n := map (\<lambda>r. if hit r then update_row us r else r) (s n))))"

definition order_rows :: "order_term list \<Rightarrow> row list \<Rightarrow> row list" where
  "order_rows os rs = (case os of [] \<Rightarrow> rs
     | OrdAsc c # _ \<Rightarrow> sort_key (int_key c) rs
     | OrdDesc c # _ \<Rightarrow> sort_key (\<lambda>r. - int_key c r) rs)"

definition mem_query :: "query_spec \<Rightarrow> mem \<Rightarrow> (sql_err + row list) \<times> mem" where
  "mem_query q s =
     (Inr (map (project (qs_Columns q)) (window (qs_Offset q) (qs_Limit q)
        (order_rows (qs_Order q)
          (remdups (filter (satisfies (qs_Predicate q)) (s (qs_Table q))))))), s)"

definition sum_column :: "string \<Rightarrow> row list \<Rightarrow> float64" where
  "sum_column c rs = fold (\<lambda>r acc. case col r c of VFloat f \<Rightarrow> f64_add acc f | _ \<Rightarrow> acc) rs (F64 0)"

definition mem_groups :: "group_spec \<Rightarrow> mem \<Rightarrow> (sql_err + row list) \<times> mem" where
  "mem_groups g s =
     (let sel = filter (satisfies (gs_Predicate g)) (s (gs_Table g));
          keys = remdups (map (project (gs_Group g)) sel) in
      (Inr (map (\<lambda>k. k @ map (\<lambda>(c, n). (n, VFloat (sum_column c
          (filter (\<lambda>r. project (gs_Group g) r = k) sel)))) (gs_Sum g)) keys), s))"

definition mem_client :: "mem ent_client" where
  "mem_client = \<lparr>CreateNode = mem_create, BatchCreate = mem_batch, UpdateNodes = mem_update,
     QueryNodes = mem_query, QueryGroups = mem_groups, NotEmpty = (\<lambda>x. x \<noteq> []),
     Positive = (\<lambda>f. case f of F64 q \<Rightarrow> 1 / 1000000 \<le> q | F64_NInf \<Rightarrow> False | _ \<Rightarrow> True),
     Now = (\<lambda>i s. 0), InitTime = 0, UniLower = (\<lambda>x. x)\<rparr>"

section \<open>It is a lawful driver\<close>

lemma mem_rows_insert: "mem_rows (mem_insert t r s) = db_insert t r (mem_rows s)"
  by (rule ext) (simp add: mem_rows_def mem_insert_def db_insert_def)

lemma mem_key_of: "mem_key t sp s = (k, v) \<Longrightarrow> key_of sp v k"
  by (auto simp: mem_key_def key_of_def Let_def split: option.splits)

lemma fresh_key_new: "r \<in> set rs \<Longrightarrow> col r c \<noteq> VInt (fresh_key c rs)"
proof -
  assume r: "r \<in> set rs"
  have "n \<le> foldr max ns 0" if "n \<in> set ns" for n and ns :: "int list"
    using that by (induction ns) auto
  then have "int_key c r \<le> foldr max (map (int_key c) rs) 0" using r by auto
  then show ?thesis by (auto simp: fresh_key_def int_key_def)
qed

lemma mem_insert1_complete:
  assumes "t \<in> set Tables" "wf_spec t sp" "insertable t (mem_rows s) sp"
  shows "\<exists>v s'. mem_insert1 t sp s = Some (v, s')"
proof -
  obtain v k where k: "key_of sp v k" "insert_ok t (mem_rows s) (new_row t k sp)"
    using assms(3) by (auto simp: insertable_def)
  show ?thesis
  proof (cases "cs_ID sp")
    case (Some i)
    then show ?thesis using k by (auto simp: mem_insert1_def mem_key_def key_of_def)
  next
    case None
    let ?n = "VInt (fresh_key (st_PrimaryKey t) (s (st_Name t)))"
    have "insert_ok t (mem_rows s) (new_row t ?n sp)"
      by (rule insert_ok_other_key [OF assms(1,2) None k(2)])
        (auto simp: mem_rows_def dest: fresh_key_new)
    then show ?thesis using None by (auto simp: mem_insert1_def mem_key_def Let_def)
  qed
qed

lemma mem_insert1_sound:
  assumes "mem_insert1 t sp s = Some (v, s')"
  shows "\<exists>k. key_of sp v k \<and> insert_ok t (mem_rows s) (new_row t k sp)
    \<and> mem_rows s' = db_insert t (new_row t k sp) (mem_rows s)"
proof -
  obtain k v' where "mem_key t sp s = (k, v')" by fastforce
  then show ?thesis using assms mem_key_of [of t sp s k v']
    by (auto simp: mem_insert1_def Let_def mem_rows_insert split: if_splits)
qed

lemma mem_inserts_sound:
  "mem_inserts t sps s = Some (vs, s') \<Longrightarrow>
    \<exists>ks. keys_of sps vs ks \<and> insert_all t sps ks (mem_rows s) = Some (mem_rows s')"
proof (induction sps arbitrary: s vs s')
  case Nil
  then show ?case by (auto simp: keys_of_def)
next
  case (Cons sp sps)
  then obtain v s1 vs1 where 1: "mem_insert1 t sp s = Some (v, s1)"
    "mem_inserts t sps s1 = Some (vs1, s')" "vs = v # vs1"
    by (auto split: option.splits)
  obtain k where k: "key_of sp v k" "insert_ok t (mem_rows s) (new_row t k sp)"
    "mem_rows s1 = db_insert t (new_row t k sp) (mem_rows s)"
    using mem_insert1_sound [OF 1(1)] by blast
  obtain ks where "keys_of sps vs1 ks" "insert_all t sps ks (mem_rows s1) = Some (mem_rows s')"
    using Cons.IH [OF 1(2)] by blast
  then have "keys_of (sp # sps) vs (k # ks)
      \<and> insert_all t (sp # sps) (k # ks) (mem_rows s) = Some (mem_rows s')"
    using k 1 by (auto simp: keys_of_def All_less_Suc2)
  then show ?case by blast
qed

lemma mem_inserts_given:
  assumes "list_all (\<lambda>sp. cs_ID sp \<noteq> None) sps" "keys_of sps vs ks"
    "insert_all t sps ks (mem_rows s) = Some d"
  shows "mem_inserts t sps s \<noteq> None"
  using assms
proof (induction sps arbitrary: s vs ks)
  case (Cons sp sps)
  from Cons.prems(2) obtain v vs' k ks' where ks: "vs = v # vs'" "ks = k # ks'" "key_of sp v k"
    "keys_of sps vs' ks'"
    by (cases vs; cases ks) (auto simp: keys_of_def All_less_Suc2)
  have key: "mem_key t sp s = (k, v)" using Cons.prems(1) ks(3)
    by (auto simp: mem_key_def key_of_def)
  have ok: "insert_ok t (mem_rows s) (new_row t k sp)"
    and rest: "insert_all t sps ks' (mem_rows (mem_insert t (new_row t k sp) s)) = Some d"
    using Cons.prems(3) ks by (auto simp: mem_rows_insert split: if_splits)
  have "mem_inserts t sps (mem_insert t (new_row t k sp) s) \<noteq> None"
    using Cons.IH [OF _ ks(4) rest] Cons.prems(1) by simp
  then show ?case using key ok by (auto simp: mem_insert1_def)
qed simp

lemma mem_inserts_generated:
  assumes "t \<in> set Tables" "\<forall>sp \<in> set sps. wf_spec t sp \<and> cs_ID sp = None \<and> fks_ok t (mem_rows s) sp"
  shows "mem_inserts t sps s \<noteq> None"
  using assms(2)
proof (induction sps arbitrary: s)
  case (Cons sp sps)
  let ?k = "VInt (fresh_key (st_PrimaryKey t) (s (st_Name t)))"
  have "insert_ok t (mem_rows s) (new_row t ?k sp)"
    using Cons.prems assms(1) fresh_key_new by (simp add: insert_ok_generated mem_rows_def)
  then have 1: "mem_insert1 t sp s = Some (Some (VInt64 (fresh_key (st_PrimaryKey t) (s (st_Name t)))),
      mem_insert t (new_row t ?k sp) s)"
    using Cons.prems by (simp add: mem_insert1_def mem_key_def Let_def)
  have "mem_inserts t sps (mem_insert t (new_row t ?k sp) s) \<noteq> None"
    using Cons.prems assms(1) by (intro Cons.IH) (simp add: mem_rows_insert fks_ok_insert)
  then show ?case by (auto simp: 1)
qed simp

lemma mem_inserts_complete:
  assumes "t \<in> set Tables" "wf_batch t sps" "keys_of sps vs ks"
    "insert_all t sps ks (mem_rows s) = Some d"
  shows "mem_inserts t sps s \<noteq> None"
proof (cases "list_all (\<lambda>sp. cs_ID sp = None) sps")
  case True
  then have "\<forall>sp \<in> set sps. wf_spec t sp \<and> cs_ID sp = None"
    using assms(2) by (simp add: wf_batch_def list_all_iff)
  then show ?thesis using insert_all_fks [OF assms(1,4)] mem_inserts_generated [OF assms(1)] by blast
next
  case False
  then have "list_all (\<lambda>sp. cs_ID sp \<noteq> None) sps" using assms(2) by (simp add: wf_batch_def)
  then show ?thesis using assms(3,4) by (rule mem_inserts_given)
qed

lemma wf_spec_table: "wf_spec t sp \<Longrightarrow> cs_Table sp = st_Name t"
  by (simp add: wf_spec_def)

lemma mem_create_step:
  assumes "t \<in> set Tables" "wf_spec t sp" "cs_OnConflict sp = []" "mem_create sp s = (res, s')"
  shows "create_step t sp (mem_rows s) res (mem_rows s') \<and> answered res"
proof (cases "mem_insert1 t sp s")
  case None
  then have "\<not> insertable t (mem_rows s) sp" using mem_insert1_complete [OF assms(1,2), of s] by auto
  then show ?thesis using None assms
    by (auto simp: mem_create_def wf_spec_table table_of_known create_step_def answered_def)
next
  case (Some vs')
  obtain v s1 where vs': "vs' = (v, s1)" by fastforce
  with Some assms have "res = Inr v" "s' = s1"
    by (auto simp: mem_create_def wf_spec_table table_of_known)
  then show ?thesis using mem_insert1_sound [of t sp s v s1] Some vs'
    by (auto simp: create_step_def answered_def)
qed

lemma mem_batch_step:
  assumes "t \<in> set Tables" "wf_batch t sps"
    "mem_batch \<lparr>bs_Nodes = sps, bs_OnConflict = []\<rparr> s = (res, s')"
  shows "batch_step t sps (mem_rows s) res (mem_rows s') \<and> answered res"
proof -
  obtain sp sps' where sps: "sps = sp # sps'" "cs_Table sp = st_Name t"
    using assms(2) by (cases sps) (auto simp: wf_batch_def wf_spec_table)
  show ?thesis
  proof (cases "mem_inserts t sps s")
    case None
    then have "res = Inl (SqlConstraint ''constraint failed'')" "s' = s"
      using assms sps by (auto simp: mem_batch_def table_of_known)
    moreover have "\<not> (\<exists>vs ks d. keys_of sps vs ks \<and> insert_all t sps ks (mem_rows s) = Some d)"
      using None mem_inserts_complete [OF assms(1,2), of _ _ s] by blast
    ultimately show ?thesis by (simp add: batch_step_def answered_def)
  next
    case (Some p)
    obtain vs s1 where p: "p = (vs, s1)" by fastforce
    then have "res = Inr vs" "s' = s1" using assms sps Some
      by (auto simp: mem_batch_def table_of_known)
    then show ?thesis using mem_inserts_sound [of t sps s vs s1] Some p
      by (auto simp: batch_step_def answered_def)
  qed
qed

lemma mem_update_step:
  assumes "mem_update us s = (res, s')"
  shows "update_step us (mem_rows s) res (mem_rows s') \<and> (\<exists>n. res = Inr n)"
proof -
  let ?hit = "{r \<in> set (s (us_Table us)). satisfies (us_Predicate us) r}"
  have "card ?hit = length (remdups (filter (satisfies (us_Predicate us)) (s (us_Table us))))"
    by (metis length_remdups_card_conv set_filter)
  moreover have "mem_rows (s(us_Table us := map (\<lambda>r. if satisfies (us_Predicate us) r
        then update_row us r else r) (s (us_Table us))))
      = (mem_rows s)(us_Table us := (mem_rows s (us_Table us) - ?hit) \<union> update_row us ` ?hit)"
    by (rule ext) (auto simp: mem_rows_def)
  ultimately show ?thesis using assms
    by (auto simp: update_step_def mem_update_def mem_rows_def Let_def)
qed

lemma mem_upsert_step:
  assumes "t \<in> set Tables" "wf_upsert t sp" "mem_create sp s = (res, s')"
  shows "upsert_step t sp (mem_rows s) res (mem_rows s') \<and> (\<exists>v. res = Inr v)"
proof -
  let ?n = "st_Name t" and ?p = "st_PrimaryKey t" and ?cs = "excluded_columns sp"
  obtain k v where kv: "mem_key t sp s = (k, v)" by fastforce
  define r where "r = new_row t k sp"
  have "cs_OnConflict sp \<noteq> []" "cs_Table sp = ?n"
    using assms(2) by (auto simp: wf_upsert_def wf_spec_table)
  then have res: "res = Inr v" and s': "s' = (if list_ex (\<lambda>q. col q ?p = col r ?p) (s ?n)
      then s(?n := map (\<lambda>q. if col q ?p = col r ?p then merge_row ?cs r q else q) (s ?n))
      else mem_insert t r s)"
    using assms(1,3) kv
    by (auto simp: mem_create_def table_of_known mem_upsert_def Let_def r_def)
  let ?S = "{q \<in> set (s ?n). col q ?p = col r ?p}"
  have "mem_rows s' = db_upsert t ?cs r (mem_rows s)"
  proof (cases "?S = {}")
    case True
    then have "\<not> list_ex (\<lambda>q. col q ?p = col r ?p) (s ?n)" by (auto simp: list_ex_iff)
    moreover have "db_upsert t ?cs r (mem_rows s) = db_insert t r (mem_rows s)"
      unfolding db_upsert_def Let_def mem_rows_def using True by (rule if_P)
    ultimately show ?thesis unfolding s' by (simp add: mem_rows_insert)
  next
    case False
    then have "list_ex (\<lambda>q. col q ?p = col r ?p) (s ?n)" by (auto simp: list_ex_iff)
    moreover have "db_upsert t ?cs r (mem_rows s)
        = (mem_rows s)(?n := (mem_rows s ?n - ?S) \<union> merge_row ?cs r ` ?S)"
      unfolding db_upsert_def Let_def mem_rows_def using False by (rule if_not_P)
    moreover have "mem_rows (s(?n := map (\<lambda>q. if col q ?p = col r ?p then merge_row ?cs r q else q) (s ?n)))
        = (mem_rows s)(?n := (mem_rows s ?n - ?S) \<union> merge_row ?cs r ` ?S)"
      by (rule ext) (auto simp: mem_rows_def)
    ultimately show ?thesis unfolding s' by simp
  qed
  then show ?thesis using res mem_key_of [OF kv] by (auto simp: upsert_step_def r_def)
qed

lemma order_rows_ordered: "ordered_by os (order_rows os rs)"
proof -
  have s: "sorted_wrt (\<lambda>a b. f a \<le> f b) (sort_key f xs)" for f :: "row \<Rightarrow> int" and xs
    using sorted_sort_key [of f xs] by (simp add: sorted_map)
  have le: "int_key c a \<le> int_key c b \<Longrightarrow> key_le (col a c) (col b c)" for a b c
    by (auto simp: key_le_def int_key_def split: ent_value.splits)
  have "sorted_wrt (\<lambda>a b. key_le (col a c) (col b c)) (sort_key (int_key c) rs)" for c
    by (rule sorted_wrt_mono_rel [OF _ s]) (rule le)
  moreover have "sorted_wrt (\<lambda>a b. key_le (col b c) (col a c)) (sort_key (\<lambda>r. - int_key c r) rs)" for c
    by (rule sorted_wrt_mono_rel [OF _ s [of "\<lambda>r. - int_key c r"]]) (rule le, simp)
  ultimately show ?thesis
    by (auto simp: ordered_by_def order_rows_def split: list.splits order_term.splits)
qed

lemma order_rows_perm: "set (order_rows os rs) = set rs" "distinct (order_rows os rs) = distinct rs"
  by (auto simp: order_rows_def split: list.splits order_term.splits)

lemma mem_query_answer:
  assumes "mem_query q s = (res, s')"
  shows "s' = s \<and> (\<exists>rs. res = Inr rs \<and> query_answer q (mem_rows s) rs)"
proof -
  let ?ms = "order_rows (qs_Order q) (remdups (filter (satisfies (qs_Predicate q)) (s (qs_Table q))))"
  have "distinct ?ms" "set ?ms = {r \<in> mem_rows s (qs_Table q). satisfies (qs_Predicate q) r}"
    by (auto simp: order_rows_perm mem_rows_def)
  then show ?thesis using assms order_rows_ordered unfolding mem_query_def query_answer_def by blast
qed

interpretation mem: sql_driver_up mem_client mem_rows
proof unfold_locales
  fix i show "Positive mem_client (F64 (of_int i)) \<longleftrightarrow> 1 \<le> i"
  proof -
    have "(1 / 1000000 \<le> (of_int i :: rat)) \<longleftrightarrow> 1 \<le> i"
    proof (cases "1 \<le> i")
      case True
      then have "(1::rat) \<le> of_int i" by simp
      then show ?thesis using True by linarith
    next
      case False
      then have "(of_int i :: rat) \<le> 0" by simp
      then show ?thesis using False by linarith
    qed
    then show ?thesis by (simp add: mem_client_def)
  qed
next
  fix t sp and s :: mem
  assume "t \<in> set Tables" "wf_upsert t sp"
  then show "\<exists>v. fst (CreateNode mem_client sp s) = Inr v"
    using mem_upsert_step [of t sp s] by (cases "mem_create sp s") (auto simp: mem_client_def)
next
  fix t sp and s :: mem
  assume "t \<in> set Tables" "wf_spec t sp" "cs_OnConflict sp = []"
  then show "answered (fst (CreateNode mem_client sp s))"
    using mem_create_step [of t sp s] by (cases "mem_create sp s") (auto simp: mem_client_def)
next
  fix t sps and s :: mem
  assume "t \<in> set Tables" "wf_batch t sps"
  then show "answered (fst (BatchCreate mem_client \<lparr>bs_Nodes = sps, bs_OnConflict = []\<rparr> s))"
    using mem_batch_step [of t sps s]
    by (cases "mem_batch \<lparr>bs_Nodes = sps, bs_OnConflict = []\<rparr> s") (auto simp: mem_client_def)
next
  fix us and s :: mem
  show "\<exists>n. fst (UpdateNodes mem_client us s) = Inr n"
    using mem_update_step [of us s] by (cases "mem_update us s") (auto simp: mem_client_def)
next
  fix q and s :: mem
  show "\<exists>rs. fst (QueryNodes mem_client q s) = Inr rs"
    using mem_query_answer [of q s] by (cases "mem_query q s") (auto simp: mem_client_def)
next
  fix q qr and s s' :: mem
  assume "QueryNodes mem_client q s = (qr, s')"
  then show "mem_rows s' = mem_rows s \<and> (\<forall>rs. qr = Inr rs \<longrightarrow> query_answer q (mem_rows s) rs)"
    using mem_query_answer [of q s qr s'] by (auto simp: mem_client_def)
qed (auto simp: mem_client_def dest: mem_create_step mem_batch_step mem_update_step mem_upsert_step)

end
