(* ===== verification/Event_Ledger.thy ===== *)
theory Event_Ledger
  imports Event_Processor Mem_Driver
begin

text \<open>
  The event processor refines the abstract ledger. \<open>account_store\<close> is the contract between the
  service and its repository, as the service uses it; \<open>RepositoryEnt\<close> keeps it over every lawful
  driver that answers.
\<close>

definition opened_account :: "account \<Rightarrow> ledger \<Rightarrow> ledger" where
  "opened_account acc L = L(ac_Address acc \<mapsto> (ac_Token acc, ac_Amount acc))"

lemma scan_attrs_range: "in_int64 v \<Longrightarrow> scan_attrs as a b v = Inr (a', b', v') \<Longrightarrow> in_int64 v'"
  by (induction "as" a b v rule: scan_attrs.induct)
    (auto split: if_splits sum.splits dest: parse_int_range)

lemma event_parties_range: "event_parties e = Inr (a, b, v) \<Longrightarrow> in_int64 v"
  unfolding event_parties_def by (rule scan_attrs_range) (auto simp: in_int64_def min_int64_def max_int64_def)

locale account_store =
  fixes repo :: "'s repository" and inv :: "'s \<Rightarrow> bool" and led :: "'s \<Rightarrow> ledger \<Rightarrow> bool"
    and known :: "'s \<Rightarrow> int \<Rightarrow> bool" and uni :: "string \<Rightarrow> string"
  assumes get: "inv s \<Longrightarrow> led s L \<Longrightarrow> a \<noteq> [] \<Longrightarrow> t \<noteq> [] \<Longrightarrow> GetAccount repo a t s = (r0, s')
      \<Longrightarrow> inv s' \<and> led s' L \<and> (\<exists>acc. r0 = Inr acc \<and> (acc = None \<longleftrightarrow> led_get L a t = None))"
    and add: "inv s \<Longrightarrow> led s L \<Longrightarrow> AddAccount repo acc s = (r1, s')
      \<Longrightarrow> inv s' \<and> (if led_open_ok L (ac_Address acc) (ac_Token acc)
           then r1 = Inr () \<and> led s' (opened_account acc L)
           else (\<exists>m. r1 = Inl (EMsg m)) \<and> led s' L)"
    and inc: "inv s \<Longrightarrow> led s L \<Longrightarrow> IncrementAccountBalance repo a t n s = (r2, s')
      \<Longrightarrow> inv s' \<and> r2 = Inr () \<and> led s' (led_inc L a t (f64_of_int n))"
    and transfers: "inv s \<Longrightarrow> led s L
      \<Longrightarrow> ts = map (\<lambda>(now, e, a, b, v). event_transfer now e a b v) es
      \<Longrightarrow> list_all (\<lambda>(now, e, a, b, v). in_int64 v) es
      \<Longrightarrow> AddTransfers repo tx ts s = (r3, s')
      \<Longrightarrow> inv s' \<and> led s' L \<and> (if list_all (entry_ok uni tx L) (map snd es) then r3 = Inr ()
           else \<exists>m. r3 = Inl (EMsg m))"
    and block: "inv s \<Longrightarrow> led s L \<Longrightarrow> AddBlock repo (Some b) s = (r4, s')
      \<Longrightarrow> inv s' \<and> led s' L \<and> (if b_Hash b = [] then \<exists>m. r4 = Inl (EMsg m)
           else r4 = Inr (known s (b_Height b)))"
    and txs: "inv s \<Longrightarrow> led s L \<Longrightarrow> AddTransactions repo h xs s = (r5, s')
      \<Longrightarrow> inv s' \<and> led s' L \<and> (if list_ex (\<lambda>tx. tx_Hash tx = []) xs then \<exists>m. r5 = Inl (EMsg m)
           else r5 = Inr ())"
begin

text \<open>A step of the service against a step of the ledger: same outcome, same ledger, and an error
  that is no panic.\<close>

definition agrees :: "(err + 'a) \<times> 's \<Rightarrow> bool \<times> ledger \<Rightarrow> bool" where
  "agrees out spec \<longleftrightarrow> inv (snd out) \<and> led (snd out) (snd spec)
     \<and> (if fst spec then isl (fst out) = False else \<exists>e. fst out = Inl e \<and> \<not> is_panic e)"

lemma agreesI:
  "inv s' \<Longrightarrow> led s' L' \<Longrightarrow> (if ok then \<not> isl r else \<exists>e. r = Inl e \<and> \<not> is_panic e) \<Longrightarrow> agrees (r, s') (ok, L')"
  by (auto simp: agrees_def)

lemma agrees_logged: "agrees (m s) spec \<Longrightarrow> agrees (io_logged msg m s) spec"
  by (cases "m s"; cases "fst (m s)") (auto simp: agrees_def io_logged_def split: if_splits sum.splits)

lemma agrees_wrapped: "agrees (m s) spec \<Longrightarrow> agrees (io_wrapped msg m s) spec"
  by (cases "m s"; cases "fst (m s)") (auto simp: agrees_def io_wrapped_def split: if_splits sum.splits)

lemma ensure_account:
  assumes "inv s" "led s L" "a \<noteq> []" "t \<noteq> []"
    and acc: "\<And>s1. ac_Address (acc s1) = a \<and> ac_Token (acc s1) = t \<and> ac_Amount (acc s1) = F64 0"
    and k: "\<And>s' L'. inv s' \<Longrightarrow> led s' L' \<Longrightarrow> led_ensure a t L = (True, L') \<Longrightarrow> agrees (k s') (spec L')"
  shows "agrees (io_then (GetAccount repo a t) (\<lambda>x. io_then (\<lambda>s1. if x = None
      then io_logged msg (AddAccount repo (acc s1)) s1 else (Inr (), s1)) (\<lambda>_. k)) s)
    (case led_ensure a t L of (ok, L1) \<Rightarrow> if ok then spec L1 else (False, L1))"
proof -
  obtain r0 s1 where G: "GetAccount repo a t s = (r0, s1)" by fastforce
  obtain x where 1: "inv s1" "led s1 L" "r0 = Inr x" "x = None \<longleftrightarrow> led_get L a t = None"
    using get [OF assms(1-4) G] by (elim conjE exE, intro that)
  show ?thesis
  proof (cases x)
    case (Some y)
    then have "led_ensure a t L = (True, L)" using 1 by (simp add: led_ensure_def)
    then show ?thesis using G 1 Some k by (simp add: io_then_def)
  next
    case None
    obtain r1 s2 where A: "AddAccount repo (acc s1) s1 = (r1, s2)" by fastforce
    note law = add [OF 1(1,2) A]
    have open_eq: "opened_account (acc s1) L = L(a \<mapsto> (t, F64 0))" using acc by (simp add: opened_account_def)
    show ?thesis
    proof (cases "led_open_ok L a t")
      case True
      then have "led_ensure a t L = (True, L(a \<mapsto> (t, F64 0)))" using 1 None by (simp add: led_ensure_def)
      moreover have "inv s2" "r1 = Inr ()" "led s2 (L(a \<mapsto> (t, F64 0)))"
        using law True acc open_eq by auto
      ultimately show ?thesis using G 1 None A k by (simp add: io_then_def io_logged_def)
    next
      case False
      then have "led_ensure a t L = (False, L)" using 1 None by (simp add: led_ensure_def)
      moreover have "inv s2" "\<exists>m. r1 = Inl (EMsg m)" "led s2 L" using law False acc by auto
      ultimately show ?thesis using G 1 None A by (auto simp: io_then_def io_logged_def agrees_def)
    qed
  qed
qed

lemma increment_agrees:
  "inv s \<Longrightarrow> led s L \<Longrightarrow>
    agrees (io_logged msg (IncrementAccountBalance repo a t n) s) (True, led_inc L a t (f64_of_int n))"
  using inc [of s L a t n]
  by (cases "IncrementAccountBalance repo a t n s") (auto simp: agrees_def io_logged_def)

lemma mint_agrees:
  assumes "sv_repo sv = repo" "inv s" "led s L" "pkg \<noteq> []"
  shows "agrees (handleMintEvent sv tx pkg a v s) (led_mint pkg a v L)"
proof (cases "a = []")
  case True
  then show ?thesis using assms by (simp add: handleMintEvent_def led_mint_def agrees_def)
next
  case False
  show ?thesis
    unfolding handleMintEvent_def led_mint_def assms(1)
    using ensure_account [OF assms(2,3) False assms(4), where spec = "\<lambda>L1. (True, led_inc L1 a pkg (f64_of_int v))"
      and acc = "\<lambda>s1. \<lparr>ac_Address = a, ac_Token = pkg, ac_Amount = F64 0, ac_CreatedAt = sv_Now sv s1\<rparr>"
      and k = "io_logged ''Failed to increment balance for account'' (IncrementAccountBalance repo a pkg v)"
      and msg = "''Failed to add account''"] increment_agrees False
    by simp
qed

lemma burn_agrees:
  assumes "sv_repo sv = repo" "inv s" "led s L" "pkg \<noteq> []"
  shows "agrees (handleBurnEvent sv tx pkg a v s) (led_mint pkg a (wrap64 (- v)) L)"
proof (cases "a = []")
  case True
  then show ?thesis using assms by (simp add: handleBurnEvent_def led_mint_def agrees_def)
next
  case False
  show ?thesis
    unfolding handleBurnEvent_def led_mint_def assms(1)
    using ensure_account [OF assms(2,3) False assms(4),
        where spec = "\<lambda>L1. (True, led_inc L1 a pkg (f64_of_int (wrap64 (- v))))"
      and acc = "\<lambda>s1. \<lparr>ac_Address = a, ac_Token = pkg, ac_Amount = F64 0, ac_CreatedAt = sv_Now sv s1\<rparr>"
      and k = "io_logged ''Failed to decrement balance for account''
        (IncrementAccountBalance repo a pkg (wrap64 (- v)))"
      and msg = "''Failed to add account''"] increment_agrees False
    by simp
qed

lemma transfer_agrees:
  assumes "sv_repo sv = repo" "inv s" "led s L" "pkg \<noteq> []" "a \<noteq> []" "b \<noteq> []"
  shows "agrees (handleTransferEvent sv tx pkg a b v s) (led_transfer pkg a b v L)"
proof -
  let ?pay = "io_then (io_logged ''Failed to decrement balance for account''
       (IncrementAccountBalance repo a pkg (wrap64 (- v)))) (\<lambda>_.
     io_logged ''Failed to increment balance for account'' (IncrementAccountBalance repo b pkg v))"
  let ?acc = "\<lambda>a s1. \<lparr>ac_Address = a, ac_Token = pkg, ac_Amount = F64 0, ac_CreatedAt = zero_time\<rparr>"
  let ?open = "\<lambda>b x s1. if x = None then io_logged ''Failed to add account'' (AddAccount repo (?acc b s1)) s1
      else (Inr (), s1)"
  let ?spec2 = "\<lambda>L2. (True, led_inc (led_inc L2 a pkg (f64_of_int (wrap64 (- v)))) b pkg (f64_of_int v))"
  let ?spec1 = "\<lambda>L1. case led_ensure b pkg L1 of (ok, L2) \<Rightarrow> if ok then ?spec2 L2 else (False, L2)"
  have pay: "agrees (?pay s1) (?spec2 L1)" if "inv s1" "led s1 L1" for s1 L1
  proof -
    obtain r s2 where I: "IncrementAccountBalance repo a pkg (wrap64 (- v)) s1 = (r, s2)" by fastforce
    have "inv s2" "r = Inr ()" "led s2 (led_inc L1 a pkg (f64_of_int (wrap64 (- v))))"
      using inc [OF that I] by auto
    then show ?thesis using increment_agrees I by (simp add: io_then_def io_logged_def)
  qed
  have second: "agrees (io_then (GetAccount repo b pkg) (\<lambda>x. io_then (?open b x) (\<lambda>_. ?pay)) s1) (?spec1 L1)"
    if "inv s1" "led s1 L1" for s1 L1
    by (rule ensure_account [OF that assms(6,4), where acc = "?acc b"]) (use pay in auto)
  have "agrees (io_then (GetAccount repo a pkg) (\<lambda>x. io_then (?open a x) (\<lambda>_.
      io_then (GetAccount repo b pkg) (\<lambda>x. io_then (?open b x) (\<lambda>_. ?pay)))) s)
    (case led_ensure a pkg L of (ok, L1) \<Rightarrow> if ok then ?spec1 L1 else (False, L1))"
    by (rule ensure_account [OF assms(2,3,5,4), where acc = "?acc a"]) (use second in auto)
  moreover have "(case led_ensure a pkg L of (ok, L1) \<Rightarrow> if ok then ?spec1 L1 else (False, L1))
      = led_transfer pkg a b v L"
    by (simp add: led_transfer_def split: prod.split)
  ultimately show ?thesis unfolding handleTransferEvent_def assms(1) by simp
qed

lemma dispatch_agrees:
  assumes "sv_repo sv = repo" "sv_UniLower sv = uni" "inv s" "led s L" "is_transfer_event uni e"
    "event_named uni e" "event_parties e = Inr (a, b, v)"
  shows "agrees (dispatch_event sv tx e a b v s) (led_event uni e a b v L)"
proof -
  have named: "ev_PkgPath e \<noteq> []" "to_lower uni (ev_Func e) = ''transfer'' \<Longrightarrow> a \<noteq> [] \<and> b \<noteq> []"
    using assms(5-7) by (auto simp: event_named_def)
  have none: "agrees (Inr (), s) (True, L)" using assms(3,4) by (simp add: agrees_def)
  show ?thesis
    using mint_agrees [OF assms(1,3,4) named(1)] burn_agrees [OF assms(1,3,4) named(1)]
      transfer_agrees [OF assms(1,3,4) named(1)] named(2) none assms(2)
    by (simp add: dispatch_event_def led_event_def Let_def agrees_logged)
qed

definition events_agree :: "(err + transfer list) \<times> 's
    \<Rightarrow> (event \<times> string \<times> string \<times> int) list option \<times> ledger \<Rightarrow> bool" where
  "events_agree out spec \<longleftrightarrow> inv (snd out) \<and> led (snd out) (snd spec) \<and>
     (case fst spec of None \<Rightarrow> \<exists>e. fst out = Inl e \<and> \<not> is_panic e
      | Some entries \<Rightarrow> \<exists>es. fst out = Inr (map (\<lambda>(now, e, a, b, v). event_transfer now e a b v) es)
          \<and> entries = map snd es \<and> list_all (\<lambda>(now, e, a, b, v). in_int64 v) es)"

lemma process_events_agrees:
  assumes "sv_repo sv = repo" "sv_UniLower sv = uni" "inv s" "led s L" "list_all (event_named uni) evs"
    "list_all (\<lambda>(now, e, a, b, v). in_int64 v) es"
  shows "events_agree
    (process_events sv tx evs (map (\<lambda>(now, e, a, b, v). event_transfer now e a b v) es) s)
    (led_events uni evs (map snd es) L)"
  using assms(3-6)
proof (induction evs arbitrary: s L es)
  case Nil
  then show ?case by (auto simp: events_agree_def)
next
  case (Cons e evs)
  show ?case
  proof (cases "is_transfer_event uni e")
    case False
    then show ?thesis using Cons assms(2) by simp
  next
    case True
    show ?thesis
    proof (cases "event_parties e")
      case (Inl err)
      then show ?thesis using True Cons.prems assms(2) by (simp add: events_agree_def)
    next
      case (Inr p)
      obtain a b v where p: "p = (a, b, v)" by (cases p)
      obtain r s' where D: "dispatch_event sv tx e a b v s = (r, s')" by fastforce
      obtain ok L' where E: "led_event uni e a b v L = (ok, L')" by fastforce
      have ag: "agrees (r, s') (ok, L')"
        using dispatch_agrees [OF assms(1,2) Cons.prems(1,2) True, of a b v tx] Cons.prems(3) Inr p D E
        by simp
      show ?thesis
      proof (cases ok)
        case False
        then obtain err where "r = Inl err" "\<not> is_panic err" using ag by (auto simp: agrees_def)
        then show ?thesis using True Inr p D E False ag assms(2)
          by (simp add: events_agree_def agrees_def)
      next
        case okT: True
        then obtain u where r: "r = Inr u" using ag by (cases r) (auto simp: agrees_def)
        have inv': "inv s'" "led s' L'" using ag by (auto simp: agrees_def)
        have v: "in_int64 v" using event_parties_range Inr p by blast
        let ?es = "es @ [(sv_Now sv s', e, a, b, v)]"
        have "events_agree
            (process_events sv tx evs (map (\<lambda>(now, e, a, b, v). event_transfer now e a b v) ?es) s')
            (led_events uni evs (map snd ?es) L')"
          by (rule Cons.IH) (use inv' Cons.prems v in auto)
        then show ?thesis using True Inr p D E okT r assms(2) by simp
      qed
    qed
  qed
qed

lemma parse_agrees:
  assumes "sv_repo sv = repo" "sv_UniLower sv = uni" "inv s" "led s L" "list_all (tx_named uni) xs"
  shows "agrees (parseAndProcessTransactions sv xs s) (led_txs uni xs L)"
  using assms(3-5)
proof (induction xs arbitrary: s L)
  case Nil
  then show ?case by (simp add: agrees_def)
next
  case (Cons tx xs)
  obtain r s1 where P: "process_events sv tx (rs_Events (tx_Response tx)) [] s = (r, s1)" by fastforce
  obtain q L1 where E: "led_events uni (rs_Events (tx_Response tx)) [] L = (q, L1)" by fastforce
  have ev: "events_agree (r, s1) (q, L1)"
    using process_events_agrees [OF assms(1,2) Cons.prems(1,2), of "rs_Events (tx_Response tx)" "[]" tx]
      Cons.prems(3) P E by (simp add: tx_named_def)
  then have inv1: "inv s1" "led s1 L1" by (auto simp: events_agree_def)
  show ?case
  proof (cases q)
    case None
    then obtain err where "r = Inl err" "\<not> is_panic err" using ev by (auto simp: events_agree_def)
    then show ?thesis using P E None inv1 by (simp add: agrees_def)
  next
    case (Some entries)
    then obtain es where r: "r = Inr (map (\<lambda>(now, e, a, b, v). event_transfer now e a b v) es)"
      and es: "entries = map snd es" "list_all (\<lambda>(now, e, a, b, v). in_int64 v) es"
      using ev by (auto simp: events_agree_def)
    obtain r3 s2 where T: "AddTransfers repo tx (map (\<lambda>(now, e, a, b, v). event_transfer now e a b v) es) s1
      = (r3, s2)" by fastforce
    note law = transfers [OF inv1 refl es(2) T]
    show ?thesis
    proof (cases "list_all (entry_ok uni tx L1) entries")
      case True
      then show ?thesis using law es P E Some r T Cons.IH [of s2 L1] Cons.prems(3) assms(1) by simp
    next
      case False
      then obtain m where "r3 = Inl (EMsg m)" using law es by auto
      then show ?thesis using law es P E Some r T False assms(1) by (simp add: agrees_def)
    qed
  qed
qed

theorem process_agrees:
  assumes "sv_repo sv = repo" "sv_UniLower sv = uni" "inv s" "led s L" "bwt_Block m = Some b"
    "list_all (tx_named uni) (bwt_Transactions m)"
  shows "agrees (ProcessBlockWithTransactions sv m s)
    (led_block uni (known s (b_Height b)) b (bwt_Transactions m) L)"
proof -
  obtain r s1 where B: "AddBlock repo (Some b) s = (r, s1)" by fastforce
  note lawB = block [OF assms(3,4) B]
  obtain q s2 where T: "AddTransactions repo (b_Height b) (bwt_Transactions m) s1 = (q, s2)" by fastforce
  note lawT = txs [OF lawB [THEN conjunct1] lawB [THEN conjunct2, THEN conjunct1] T]
  have rest: "agrees (io_wrapped msg (parseAndProcessTransactions sv (bwt_Transactions m)) s2)
      (led_txs uni (bwt_Transactions m) L)" for msg
    using lawT assms(1,2,6) by (intro agrees_wrapped parse_agrees) auto
  show ?thesis
  proof (cases "b_Hash b = [] \<or> known s (b_Height b)")
    case True
    then show ?thesis using lawB B assms(1,5)
      by (auto simp: ProcessBlockWithTransactions_def led_block_def agrees_def)
  next
    case False
    then have r: "r = Inr False" using lawB by simp
    show ?thesis
    proof (cases "list_ex (\<lambda>tx. tx_Hash tx = []) (bwt_Transactions m)")
      case True
      then obtain e where "q = Inl (EMsg e)" using lawT by auto
      then show ?thesis using True False B T r lawT assms(1,5)
        by (auto simp: ProcessBlockWithTransactions_def led_block_def agrees_def)
    next
      case noempty: False
      then have "q = Inr ()" using lawT by simp
      then show ?thesis using noempty False B T r rest assms(1,5)
        by (simp add: ProcessBlockWithTransactions_def led_block_def)
    qed
  qed
qed

end

section \<open>\<open>RepositoryEnt\<close> is an account store\<close>

lemma event_transfer_valid:
  assumes "sql_driver cl rows" "in_int64 v" "is_ledger d L"
  shows "transfer_valid cl tx (event_transfer now e a b v) \<and> transfer_refs L (event_transfer now e a b v)
    \<longleftrightarrow> entry_ok (UniLower cl) tx L (e, a, b, v)"
proof -
  obtain m where m: "f64_of_int v = F64 (of_int m)" "1 \<le> m \<longleftrightarrow> 1 \<le> v"
    using f64_of_int_sign [OF assms(2)] by blast
  have "Positive cl (f64_of_int v) \<longleftrightarrow> 1 \<le> v"
    using m sql_driver.positive [OF assms(1), of m] by simp
  then show ?thesis
    using sql_driver.not_empty [OF assms(1)]
    by (auto simp: transfer_valid_def transfer_refs_def event_transfer_def entry_ok_def UNIT_NAME_def)
qed

lemma list_all_entries:
  assumes "sql_driver cl rows" "is_ledger d L" "list_all (\<lambda>(now, e, a, b, v). in_int64 v) es"
  shows "(\<forall>t \<in> set (map (\<lambda>(now, e, a, b, v). event_transfer now e a b v) es).
      transfer_valid cl tx t \<and> transfer_refs L t)
    \<longleftrightarrow> list_all (entry_ok (UniLower cl) tx L) (map snd es)"
  using assms(3)
proof (induction es)
  case (Cons x es)
  obtain now e a b v where x: "x = (now, e, a, b, v)" by (cases x)
  show ?case
    using Cons event_transfer_valid [OF assms(1) _ assms(2), of v tx now e a b] by (simp add: x)
qed simp

context sql_driver_up
begin

lemma store_get:
  assumes "db_ok (rows s)" "is_ledger (rows s) L" "a \<noteq> []" "t \<noteq> []"
    "GetAccount (RepositoryEnt cl) a t s = (r, s')"
  shows "db_ok (rows s') \<and> is_ledger (rows s') L
    \<and> (\<exists>acc. r = Inr acc \<and> (acc = None \<longleftrightarrow> led_get L a t = None))"
proof -
  have G: "RepositoryEnt_GetAccount cl a t s = (r, s')" using assms(5) by (simp add: RepositoryEnt_def)
  note ans = GetAccount_answer [OF assms(1-4) G]
  have "r \<noteq> Inl e" for e
  proof
    assume "r = Inl e"
    then obtain d where "fst (Only account_meta cl (account_query a t) s) = Inl (EDriver d)"
      using ans(3) by blast
    then show False
      using Only_no_driver_err [OF assms(1) reads_accounts [OF assms(1)] account_query_plain(1)] by blast
  qed
  then show ?thesis using ans(1,2) assms(1,2) by auto
qed

lemma store_add:
  assumes "db_ok (rows s)" "is_ledger (rows s) L" "AddAccount (RepositoryEnt cl) acc s = (r, s')"
  shows "db_ok (rows s') \<and> (if led_open_ok L (ac_Address acc) (ac_Token acc)
    then r = Inr () \<and> is_ledger (rows s') (opened_account acc L)
    else (\<exists>m. r = Inl (EMsg m)) \<and> is_ledger (rows s') L)"
proof -
  have A: "RepositoryEnt_AddAccount cl acc s = (r, s')" using assms(3) by (simp add: RepositoryEnt_def)
  note ans = AddAccount_answer [OF assms(1,2) A]
  show ?thesis
  proof (cases "led_open_ok L (ac_Address acc) (ac_Token acc)")
    case True
    then have "r = Inr ()" using AddAccount_up [OF assms(1,2) True] A by simp
    then show ?thesis using ans True by (simp add: opened_account_def)
  next
    case False
    then have "r \<noteq> Inr ()" using ans(2) by blast
    then show ?thesis using ans(1,3) False assms(2) by auto
  qed
qed

lemma store_inc:
  assumes "db_ok (rows s)" "is_ledger (rows s) L"
    "IncrementAccountBalance (RepositoryEnt cl) a t n s = (r, s')"
  shows "db_ok (rows s') \<and> r = Inr () \<and> is_ledger (rows s') (led_inc L a t (f64_of_int n))"
proof -
  have A: "RepositoryEnt_IncrementAccountBalance cl a t n s = (r, s')"
    using assms(3) by (simp add: RepositoryEnt_def)
  have "r = Inr ()" using Increment_up [OF assms(1), of a t n] A by simp
  then show ?thesis using Increment_answer [OF assms(1,2) A] by simp
qed

lemma store_transfers:
  assumes "db_ok (rows s)" "is_ledger (rows s) L" "list_all (\<lambda>(now, e, a, b, v). in_int64 v) es"
    "AddTransfers (RepositoryEnt cl) tx (map (\<lambda>(now, e, a, b, v). event_transfer now e a b v) es) s = (r, s')"
  shows "db_ok (rows s') \<and> is_ledger (rows s') L
    \<and> (if list_all (entry_ok (UniLower cl) tx L) (map snd es) then r = Inr () else \<exists>m. r = Inl (EMsg m))"
proof -
  let ?ts = "map (\<lambda>(now, e, a, b, v). event_transfer now e a b v) es"
  have A: "RepositoryEnt_AddTransfers cl tx ?ts s = (r, s')" using assms(4) by (simp add: RepositoryEnt_def)
  note ans = AddTransfers_answer [OF assms(1,2) A]
  note valid = list_all_entries [OF sql_driver_axioms assms(2,3), of tx]
  have "is_ledger (rows s') L" using ans(2) assms(2) by (simp add: is_ledger_def)
  moreover have "if list_all (entry_ok (UniLower cl) tx L) (map snd es) then r = Inr ()
      else \<exists>m. r = Inl (EMsg m)"
  proof (cases "list_all (entry_ok (UniLower cl) tx L) (map snd es)")
    case True
    then show ?thesis using AddTransfers_up [OF assms(1,2)] valid A by (metis fst_conv)
  next
    case False
    then have "r \<noteq> Inr ()" using ans(3) valid by blast
    then show ?thesis using ans(4) False by (cases r) auto
  qed
  ultimately show ?thesis using ans(1) by simp
qed

lemma store_block:
  assumes "db_ok (rows s)" "is_ledger (rows s) L" "AddBlock (RepositoryEnt cl) (Some b) s = (r, s')"
  shows "db_ok (rows s') \<and> is_ledger (rows s') L \<and> (if b_Hash b = [] then \<exists>m. r = Inl (EMsg m)
    else r = Inr (has_block (rows s) (b_Height b)))"
proof -
  have A: "RepositoryEnt_AddBlock cl (Some b) s = (r, s')" using assms(3) by (simp add: RepositoryEnt_def)
  note ans = AddBlock_answer [OF assms(1) A]
  show ?thesis
  proof (cases r)
    case (Inl e)
    then show ?thesis using ans(1,4) assms(2) AddBlock_up [OF assms(1), of b] A by auto
  next
    case (Inr ex)
    have "rows s' ''accounts'' = rows s ''accounts''"
      using ans(2,3) Inr by (cases ex) (auto simp: db_insert_def)
    then have "is_ledger (rows s') L" using assms(2) by (simp add: is_ledger_def)
    then show ?thesis using ans(1-3) Inr by (cases ex) auto
  qed
qed

lemma store_txs:
  assumes "db_ok (rows s)" "is_ledger (rows s) L" "AddTransactions (RepositoryEnt cl) h xs s = (r, s')"
  shows "db_ok (rows s') \<and> is_ledger (rows s') L \<and> (if list_ex (\<lambda>tx. tx_Hash tx = []) xs
    then \<exists>m. r = Inl (EMsg m) else r = Inr ())"
proof -
  have A: "RepositoryEnt_AddTransactions cl h xs s = (r, s')" using assms(3) by (simp add: RepositoryEnt_def)
  note ans = AddTransactions_answer [OF assms(1) A]
  have "is_ledger (rows s') L" using ans(2) assms(2) by (simp add: is_ledger_def)
  moreover have "if list_ex (\<lambda>tx. tx_Hash tx = []) xs then \<exists>m. r = Inl (EMsg m) else r = Inr ()"
  proof (cases "list_ex (\<lambda>tx. tx_Hash tx = []) xs")
    case True
    then have "r \<noteq> Inr ()" using ans(3) by (auto simp: list_ex_iff)
    then show ?thesis using ans(6) True by (cases r) auto
  next
    case False
    then have "r = Inr ()" using AddTransactions_up [OF assms(1), of xs h] A
      by (simp add: list_ex_iff)
    then show ?thesis using False by simp
  qed
  ultimately show ?thesis using ans(1) by simp
qed

lemma account_store_ent:
  "account_store (RepositoryEnt cl) (\<lambda>s. db_ok (rows s)) (\<lambda>s. is_ledger (rows s))
     (\<lambda>s. has_block (rows s)) (UniLower cl)"
  by unfold_locales
    ((rule store_get; assumption), (rule store_add; assumption), (rule store_inc; assumption),
     (simp only:, rule store_transfers; assumption), (rule store_block; assumption),
     (rule store_txs; assumption))

end

text \<open>The same contract with a stored block carried along: none of the operations removes it.\<close>

context sql_driver_up
begin

lemma blocks_frame: "d' ''blocks'' = d ''blocks'' \<Longrightarrow> has_block d' h = has_block d h"
  by (simp add: has_block_def)

lemma store_blocks_frame:
  assumes "db_ok (rows s)" "is_ledger (rows s) L"
  shows "a \<noteq> [] \<Longrightarrow> t \<noteq> [] \<Longrightarrow> GetAccount (RepositoryEnt cl) a t s = (r0, s')
      \<Longrightarrow> rows s' ''blocks'' = rows s ''blocks''"
    and "AddAccount (RepositoryEnt cl) acc s = (r1, s') \<Longrightarrow> rows s' ''blocks'' = rows s ''blocks''"
    and "IncrementAccountBalance (RepositoryEnt cl) a t n s = (r2, s')
      \<Longrightarrow> rows s' ''blocks'' = rows s ''blocks''"
    and "AddTransfers (RepositoryEnt cl) tx ts s = (r3, s') \<Longrightarrow> rows s' ''blocks'' = rows s ''blocks''"
    and "AddTransactions (RepositoryEnt cl) h xs s = (r5, s') \<Longrightarrow> rows s' ''blocks'' = rows s ''blocks''"
  using GetAccount_answer(1) [OF assms, of a t r0 s'] AddAccount_answer(4) [OF assms, of acc r1 s']
    Increment_answer(4) [OF assms, of a t n r2 s'] AddTransfers_answer(2) [OF assms, of tx ts r3 s']
    AddTransactions_answer(2) [OF assms(1), of h xs r5 s']
  by (auto simp: RepositoryEnt_def)

lemma AddBlock_keeps_blocks:
  assumes "db_ok (rows s)" "AddBlock (RepositoryEnt cl) (Some b) s = (r, s')" "has_block (rows s) h"
  shows "has_block (rows s') h"
proof -
  have A: "RepositoryEnt_AddBlock cl (Some b) s = (r, s')" using assms(2) by (simp add: RepositoryEnt_def)
  note ans = AddBlock_answer [OF assms(1) A]
  show ?thesis
  proof (cases r)
    case (Inr ex)
    then show ?thesis using ans(2,3) assms(3)
      by (cases ex) (auto simp: has_block_def db_insert_def)
  qed (use ans(4) assms(3) in auto)
qed

lemma account_store_with_block:
  "account_store (RepositoryEnt cl) (\<lambda>s. db_ok (rows s) \<and> has_block (rows s) h0) (\<lambda>s. is_ledger (rows s))
     (\<lambda>s. has_block (rows s)) (UniLower cl)"
proof (unfold_locales, goal_cases)
  case (1 s L a t r s')
  then show ?case using store_get [of s L a t r s'] store_blocks_frame(1) [of s L a t r s'] blocks_frame
    by blast
next
  case (2 s L acc r s')
  then show ?case using store_add [of s L acc r s'] store_blocks_frame(2) [of s L acc r s'] blocks_frame
    by metis
next
  case (3 s L a t n r s')
  then show ?case using store_inc [of s L a t n r s'] store_blocks_frame(3) [of s L a t n r s'] blocks_frame
    by blast
next
  case (4 s L ts es tx r s')
  then show ?case using store_transfers [of s L es tx r s'] store_blocks_frame(4) [of s L tx ts r s']
      blocks_frame by metis
next
  case (5 s L b r s')
  then show ?case using store_block [of s L b r s'] AddBlock_keeps_blocks [of s b r s' h0] by blast
next
  case (6 s L h xs r s')
  then show ?case using store_txs [of s L h xs r s'] store_blocks_frame(5) [of s L h xs r s'] blocks_frame
    by metis
qed

lemma process_stores_block:
  assumes "db_ok (rows s)" "is_ledger (rows s) L" "bwt_Block m = Some b" "b_Hash b \<noteq> []"
    "list_all (tx_named (UniLower cl)) (bwt_Transactions m)"
    "ProcessBlockWithTransactions (ep_NewService cl) m s = (r, s')"
  shows "has_block (rows s') (b_Height b)"
proof -
  obtain r1 s1 where B: "AddBlock (RepositoryEnt cl) (Some b) s = (r1, s1)" by fastforce
  have A: "RepositoryEnt_AddBlock cl (Some b) s = (r1, s1)" using B by (simp add: RepositoryEnt_def)
  note lawB = store_block [OF assms(1,2) B]
  note ans = AddBlock_answer [OF assms(1) A]
  have sv: "sv_repo (ep_NewService cl) = RepositoryEnt cl" "sv_UniLower (ep_NewService cl) = UniLower cl"
    by (simp_all add: ep_NewService_def)
  have r1: "r1 = Inr (has_block (rows s) (b_Height b))" using lawB assms(4) by simp
  then have blk1: "has_block (rows s1) (b_Height b)"
    using ans(2,3) by (cases "has_block (rows s) (b_Height b)")
      (auto simp: has_block_def db_insert_def col_block_row)
  show ?thesis
  proof (cases "has_block (rows s) (b_Height b)")
    case True
    then show ?thesis using assms(3,6) B r1 blk1 sv by (simp add: ProcessBlockWithTransactions_def)
  next
    case False
    obtain q s2 where T: "AddTransactions (RepositoryEnt cl) (b_Height b) (bwt_Transactions m) s1 = (q, s2)"
      by fastforce
    note store = account_store_with_block [of "b_Height b"]
    note lawT = account_store.txs [OF store _ _ T, of L]
    have inv1: "db_ok (rows s1) \<and> has_block (rows s1) (b_Height b)" "is_ledger (rows s1) L"
      using lawB blk1 by auto
    have inv2: "db_ok (rows s2) \<and> has_block (rows s2) (b_Height b)" "is_ledger (rows s2) L"
      using lawT [OF inv1] by auto
    have parse: "account_store.agrees (\<lambda>s. db_ok (rows s) \<and> has_block (rows s) (b_Height b))
        (\<lambda>s. is_ledger (rows s)) (io_wrapped msg (parseAndProcessTransactions (ep_NewService cl)
          (bwt_Transactions m)) s2) (led_txs (UniLower cl) (bwt_Transactions m) L)" for msg
      by (intro account_store.agrees_wrapped [OF store] account_store.parse_agrees [OF store sv inv2 assms(5)])
    show ?thesis
      using assms(3,6) B r1 False sv T inv2
        parse [of "''failed to parse and process transactions for block''"]
      by (auto simp: ProcessBlockWithTransactions_def account_store.agrees_def [OF store]
        split: sum.splits)
  qed
qed

end

interpretation mem_store: account_store "RepositoryEnt mem_client" "\<lambda>s. db_ok (mem_rows s)"
    "\<lambda>s. is_ledger (mem_rows s)" "\<lambda>s. has_block (mem_rows s)" "UniLower mem_client"
  by (rule mem.account_store_ent)

lemma process_step:
  assumes "sql_driver_up cl rows" "db_ok (rows s)" "is_ledger (rows s) L" "bwt_Block m = Some b"
    "list_all (tx_named (UniLower cl)) (bwt_Transactions m)"
    "ProcessBlockWithTransactions (ep_NewService cl) m s = (r, s')"
    "led_block (UniLower cl) (has_block (rows s) (b_Height b)) b (bwt_Transactions m) L = (ok, L')"
  shows "db_ok (rows s') \<and> is_ledger (rows s') L' \<and> (if ok then r = Inr () else \<exists>e. r = Inl e \<and> \<not> is_panic e)"
proof -
  note store = sql_driver_up.account_store_ent [OF assms(1)]
  have "account_store.agrees (\<lambda>s. db_ok (rows s)) (\<lambda>s. is_ledger (rows s)) (r, s') (ok, L')"
    using account_store.process_agrees [OF store _ _ assms(2,3,4,5), of "ep_NewService cl"] assms(6,7)
    by (simp add: ep_NewService_def)
  then show ?thesis
    by (cases r) (auto simp: account_store.agrees_def [OF store] split: if_splits)
qed

end
