(* ===== verification/Readback.thy ===== *)
theory Readback
  imports Journal
begin

text \<open>
  What is read back of what was stored: \<^verbatim>\<open>GetBlock\<close> after \<^verbatim>\<open>AddBlock\<close>, \<^verbatim>\<open>GetTransaction\<close> after
  \<^verbatim>\<open>AddTransactions\<close>, and the restorer's checkpoint, over a lawful driver.
\<close>

section \<open>Blocks\<close>

definition row_block :: "row \<Rightarrow> ent_block" where
  "row_block r = (case em_Assign block_meta r of Inr e \<Rightarrow> e | Inl e \<Rightarrow> zero_block)"

lemma value_okE:
  "value_ok TypeString v \<Longrightarrow> (\<And>x. v = VString x \<Longrightarrow> P) \<Longrightarrow> P"
  "value_ok TypeInt v \<Longrightarrow> (\<And>n. v = VInt n \<Longrightarrow> P) \<Longrightarrow> P"
  "value_ok TypeTime v \<Longrightarrow> (\<And>t. v = VTime t \<Longrightarrow> P) \<Longrightarrow> P"
  by (auto simp: value_ok_iff)

lemma row_ok_blockE:
  assumes "row_ok BlocksTable r"
  obtains b now where "r = block_row b now"
proof -
  have names: "map fst r = [''height'', ''hash'', ''time'', ''total_txs'', ''num_txs'', ''created_at'']"
    and ok: "value_ok TypeInt (col r ''height'')" "value_ok TypeString (col r ''hash'')"
      "value_ok TypeTime (col r ''time'')" "value_ok TypeInt (col r ''total_txs'')"
      "value_ok TypeInt (col r ''num_txs'')" "value_ok TypeTime (col r ''created_at'')"
    using assms by (simp_all add: row_ok_def table_defs column_defs column_ok_def)
  obtain v1 v2 v3 v4 v5 v6 where r: "r = [(''height'', v1), (''hash'', v2), (''time'', v3),
      (''total_txs'', v4), (''num_txs'', v5), (''created_at'', v6)]"
    using names by (auto simp: map_eq_Cons_conv)
  obtain h x t n k now where "v1 = VInt h" "v2 = VString x" "v3 = VTime t" "v4 = VInt n" "v5 = VInt k"
    "v6 = VTime now" using ok by (auto simp: r col_def value_ok_iff)
  then have "r = block_row \<lparr>b_Hash = x, b_Height = h, b_Time = t, b_TotalTxs = n, b_NumTxs = k\<rparr> now"
    by (simp add: r block_row_def)
  then show thesis by (rule that)
qed

lemma block_assign: "em_Assign block_meta (block_row b now) = Inr \<lparr>eb_ID = b_Height b, eb_Hash = b_Hash b,
    eb_Time = b_Time b, eb_TotalTxs = b_TotalTxs b, eb_NumTxs = b_NumTxs b, eb_CreatedAt = now\<rparr>"
  by (simp add: block_meta_def block_row_def Block_scanValues_def Block_assignValues_def block_names
    zero_block_def)

lemma block_of_row: "block_of_ent (row_block (block_row b now)) = b"
  by (simp add: row_block_def block_assign block_of_ent_def)

lemma block_columns: "block_Columns = map sc_Name (st_Columns BlocksTable)"
  by (simp add: block_Columns_def block_names table_defs column_defs)

lemma reads_blocks:
  assumes "db_ok d"
  shows "reads_table block_meta BlocksTable row_block (d (st_Name BlocksTable))"
proof -
  have "em_Assign block_meta (project (em_Columns block_meta) r) = Inr (row_block r)"
    if "r \<in> d ''blocks''" for r
  proof -
    have ok: "row_ok BlocksTable r" using db_ok_row [OF assms Tables_members(2)] that by simp
    then obtain b now where r: "r = block_row b now" by (rule row_ok_blockE)
    have "project (em_Columns block_meta) r = r"
      using project_all [OF Tables_members(2) ok] by (simp add: block_meta_def block_columns)
    then show ?thesis by (simp add: r row_block_def block_assign)
  qed
  then show ?thesis by (simp add: reads_table_def) (simp add: block_meta_def block_names)
qed

lemma block_query_plain:
  "plain_query BlocksTable block_meta (Limit 2 (Where [block_IDEQ h] Query))"
  "qy_Offset (Where [block_IDEQ h] Query) = None"
  "qy_predicates (Where [block_IDEQ h] Query) = [FieldEQ ''height'' (VInt h)]"
  by (auto simp: plain_query_def wf_query_def querySpec_def Query_def Where_def Limit_def block_IDEQ_def
    block_names block_meta_def block_Columns_def has_column_def table_defs column_defs selector_err_def
    List.map_filter_simps)

context sql_driver_up
begin

lemma GetBlock_stored:
  assumes "db_ok (rows s)" "block_row b now \<in> rows s ''blocks''"
    "RepositoryEnt_GetBlock cl (b_Height b) s = (r, s')"
  shows "r = Inr b \<and> rows s' = rows s"
proof -
  let ?q = "Where [block_IDEQ (b_Height b)] Query"
  obtain q s1 where Q: "Only block_meta cl ?q s = (q, s1)" by fastforce
  note ans = Only_answer [OF assms(1) reads_blocks [OF assms(1)] block_query_plain(1,2) Q]
  have one: "{x \<in> rows s (st_Name BlocksTable). satisfies (qy_predicates ?q) x} = {block_row b now}"
  proof (intro set_eqI iffI)
    fix x
    assume "x \<in> {x \<in> rows s (st_Name BlocksTable). satisfies (qy_predicates ?q) x}"
    then have "x \<in> rows s (st_Name BlocksTable)" "col x ''height'' = VInt (b_Height b)"
      by (simp_all add: block_query_plain(3) satisfies_def)
    then have "x = block_row b now"
      using assms(2) by (intro db_ok_key [OF assms(1) Tables_members(2)]) (simp_all add: col_block_row)
    then show "x \<in> {block_row b now}" by simp
  qed (use assms(2) in \<open>simp add: block_query_plain(3) satisfies_def col_block_row\<close>)
  have "q \<noteq> Inl (EDriver e)" for e
    using Only_no_driver_err [OF assms(1) reads_blocks [OF assms(1)] block_query_plain(1)] Q
    by (metis fst_conv)
  then have "q = Inr (row_block (block_row b now))" using ans(2) [OF one] by blast
  then show ?thesis using assms(3) Q ans(1)
    by (auto simp: RepositoryEnt_GetBlock_def BlockQuery_Only_def block_of_row)
qed

end

section \<open>Transactions\<close>

definition tx_rows_ok :: "db \<Rightarrow> bool" where
  "tx_rows_ok d \<longleftrightarrow> (\<forall>r \<in> d ''transactions''. \<exists>k now h tx. r = transaction_row k now h tx)"

lemma stored_tx_rows_ok: "tx_rows_ok d \<Longrightarrow> stored_transactions d h txs d' \<Longrightarrow> tx_rows_ok d'"
  unfolding tx_rows_ok_def stored_transactions_def by (metis DiffI)

definition row_transaction :: "row \<Rightarrow> ent_transaction" where
  "row_transaction r = (case em_Assign transaction_meta (project transaction_Columns r) of
     Inr e \<Rightarrow> e | Inl e \<Rightarrow> zero_transaction)"

lemma transaction_assign:
  "\<exists>e. em_Assign transaction_meta (project transaction_Columns (transaction_row k now h tx)) = Inr e
    \<and> transaction_of_ent e = tx"
  by (simp add: transaction_meta_def transaction_row_def transaction_Columns_def project_def col_def
    Transaction_scanValues_def Transaction_assignValues_def transaction_names zero_transaction_def
    transaction_of_ent_def)

lemma transaction_of_row: "transaction_of_ent (row_transaction (transaction_row k now h tx)) = tx"
  using transaction_assign [of k now h tx] by (auto simp: row_transaction_def)

lemma reads_transactions:
  assumes "tx_rows_ok d"
  shows "reads_table transaction_meta TransactionsTable row_transaction (d (st_Name TransactionsTable))"
proof -
  have "em_Assign transaction_meta (project (em_Columns transaction_meta) r) = Inr (row_transaction r)"
    if "r \<in> d ''transactions''" for r
  proof -
    obtain k now h tx where r: "r = transaction_row k now h tx"
      using assms \<open>r \<in> d ''transactions''\<close> by (auto simp: tx_rows_ok_def)
    obtain e where "em_Assign transaction_meta (project transaction_Columns r) = Inr e"
      using transaction_assign [of k now h tx] unfolding r by blast
    then show ?thesis by (simp add: row_transaction_def) (simp add: transaction_meta_def)
  qed
  then show ?thesis by (simp add: reads_table_def) (simp add: transaction_meta_def transaction_names)
qed

lemma transaction_query_plain:
  "plain_query TransactionsTable transaction_meta (Limit 2 (Where [transaction_HashEQ x] Query))"
  "qy_Offset (Where [transaction_HashEQ x] Query) = None"
  "qy_predicates (Where [transaction_HashEQ x] Query) = [FieldEQ ''hash'' (VString x)]"
  by (auto simp: plain_query_def wf_query_def querySpec_def Query_def Where_def Limit_def
    transaction_HashEQ_def transaction_names transaction_meta_def transaction_Columns_def has_column_def
    table_defs column_defs selector_err_def List.map_filter_simps)

lemma col_transaction_row [simp]: "col (transaction_row k now h tx) ''hash'' = VString (tx_Hash tx)"
  by (simp add: transaction_row_def col_def)

context sql_driver_up
begin

lemma GetTransaction_stored:
  assumes "db_ok (rows s)" "tx_rows_ok (rows s)" "transaction_row k now h tx \<in> rows s ''transactions''"
    "\<forall>r \<in> rows s ''transactions''. col r ''hash'' = VString (tx_Hash tx) \<longrightarrow> r = transaction_row k now h tx"
    "RepositoryEnt_GetTransaction cl (tx_Hash tx) s = (r, s')"
  shows "r = Inr tx \<and> rows s' = rows s"
proof -
  let ?q = "Where [transaction_HashEQ (tx_Hash tx)] Query"
  obtain q s1 where Q: "Only transaction_meta cl ?q s = (q, s1)" by fastforce
  note ans = Only_answer [OF assms(1) reads_transactions [OF assms(2)] transaction_query_plain(1,2) Q]
  have one: "{x \<in> rows s (st_Name TransactionsTable). satisfies (qy_predicates ?q) x}
      = {transaction_row k now h tx}"
  proof (intro set_eqI iffI)
    fix x
    assume "x \<in> {x \<in> rows s (st_Name TransactionsTable). satisfies (qy_predicates ?q) x}"
    then have "x \<in> rows s ''transactions''" "col x ''hash'' = VString (tx_Hash tx)"
      by (simp_all add: transaction_query_plain(3) satisfies_def)
    then show "x \<in> {transaction_row k now h tx}" using assms(4) by blast
  qed (use assms(3) in \<open>simp add: transaction_query_plain(3) satisfies_def\<close>)
  have "q \<noteq> Inl (EDriver e)" for e
    using Only_no_driver_err [OF assms(1) reads_transactions [OF assms(2)] transaction_query_plain(1)] Q
    by (metis fst_conv)
  then have "q = Inr (row_transaction (transaction_row k now h tx))" using ans(2) [OF one] by blast
  then show ?thesis using assms(5) Q ans(1)
    by (auto simp: RepositoryEnt_GetTransaction_def TransactionQuery_Only_def transaction_of_row)
qed

end

section \<open>The restorer's checkpoint\<close>

definition restore_row :: "int \<Rightarrow> int \<Rightarrow> int \<Rightarrow> int \<Rightarrow> row" where
  "restore_row k a b c = [(''id'', VInt k), (''restore_range_start'', VInt a),
     (''restore_range_end'', VInt b), (''being_block'', VInt c)]"

lemma row_ok_restoreE:
  assumes "row_ok RestoreHistoriesTable r"
  obtains k a b c where "r = restore_row k a b c"
proof -
  have names: "map fst r = [''id'', ''restore_range_start'', ''restore_range_end'', ''being_block'']"
    and ok: "value_ok TypeInt (col r ''id'')" "value_ok TypeInt (col r ''restore_range_start'')"
      "value_ok TypeInt (col r ''restore_range_end'')" "value_ok TypeInt (col r ''being_block'')"
    using assms by (simp_all add: row_ok_def table_defs column_defs column_ok_def)
  obtain v1 v2 v3 v4 where r: "r = [(''id'', v1), (''restore_range_start'', v2),
      (''restore_range_end'', v3), (''being_block'', v4)]"
    using names by (auto simp: map_eq_Cons_conv)
  obtain k a b c where "v1 = VInt k" "v2 = VInt a" "v3 = VInt b" "v4 = VInt c"
    using ok by (auto simp: r col_def value_ok_iff)
  then show thesis using that by (simp add: r restore_row_def)
qed

definition restore_spec :: "int \<Rightarrow> int \<Rightarrow> create_spec" where
  "restore_spec a b = \<lparr>cs_Table = ''restore_histories'', cs_IDSpec = (''id'', TypeInt),
     cs_ID = Some (VInt 1),
     cs_Fields = [(''restore_range_start'', TypeInt, VInt a), (''restore_range_end'', TypeInt, VInt b),
       (''being_block'', TypeInt, VInt 0)],
     cs_Edges = [],
     cs_OnConflict = [ConflictColumns [''id''], ResolveWith [SetExcluded ''restore_range_start''],
       ResolveWith [SetExcluded ''restore_range_end''], ResolveWith [SetExcluded ''being_block'']]\<rparr>"

lemmas restore_builder_defs = restoring_history_builder_def restorehistory_create_defs
  RestoreHistoryCreate_OnConflictColumns_def RestoreHistoryUpsertOne_Update_def
  RestoreHistoryUpsertOne_UpdateRestoreRangeStart_def RestoreHistoryUpsertOne_UpdateRestoreRangeEnd_def
  RestoreHistoryUpsertOne_UpdateBeingBlock_def RestoreHistoryUpsert_UpdateRestoreRangeStart_def
  RestoreHistoryUpsert_UpdateRestoreRangeEnd_def RestoreHistoryUpsert_UpdateBeingBlock_def
  restorehistory_mutation_defs newRestoreHistoryMutation_def
  restorehistory_names

lemma restore_builder_spec:
  "snd (RestoreHistoryCreate_createSpec (restoring_history_builder a b)) = restore_spec a b"
  "eh_ID (fst (RestoreHistoryCreate_createSpec (restoring_history_builder a b))) = 1"
  "RestoreHistoryCreate_check cl (restoring_history_builder a b) = None"
  "hcb_conflict (restoring_history_builder a b) \<noteq> []"
  by (simp_all add: restore_builder_defs restore_spec_def NewCreateSpec_def Let_def)

lemma restore_spec_wf: "wf_upsert RestoreHistoriesTable (restore_spec a b)"
  by (simp add: wf_upsert_def wf_spec_def restore_spec_def table_defs column_defs column_ok_def
    field_value_def excluded_columns_def has_column_def)

lemma restore_spec_row:
  "new_row RestoreHistoriesTable (VInt 1) (restore_spec a b) = restore_row 1 a b 0"
  by (simp add: new_row_def restore_spec_def table_defs column_defs field_value_def restore_row_def)

lemma col_restore_row [simp]:
  "col (restore_row k a b c) ''id'' = VInt k"
  "col (restore_row k a b c) ''restore_range_start'' = VInt a"
  by (simp_all add: restore_row_def col_def)

lemma restore_merge:
  "merge_row [''restore_range_start'', ''restore_range_end'', ''being_block''] (restore_row k a b c)
     (restore_row k' a' b' c') = restore_row k' a b c"
  by (simp add: merge_row_def restore_row_def col_def)

lemma restore_upsert_rows:
  assumes "db_ok d" "upsert_step RestoreHistoriesTable (restore_spec a b) d (Inr v) d'"
  shows "{r \<in> d' ''restore_histories''. col r ''id'' = VInt 1} = {restore_row 1 a b 0}"
proof -
  let ?cs = "[''restore_range_start'', ''restore_range_end'', ''being_block'']"
  let ?same = "{q \<in> d ''restore_histories''. col q ''id'' = VInt 1}"
  have "excluded_columns (restore_spec a b) = ?cs"
    by (simp add: excluded_columns_def restore_spec_def)
  then have d': "d' = db_upsert RestoreHistoriesTable ?cs (restore_row 1 a b 0) d"
    using assms(2) by (auto simp: upsert_step_def key_of_def restore_spec_row)
      (auto simp: restore_spec_def restore_spec_row [unfolded restore_spec_def])
  have "d' ''restore_histories'' = (d ''restore_histories'' - ?same) \<union> {restore_row 1 a b 0}"
  proof (cases "?same = {}")
    case True
    then have "d' = db_insert RestoreHistoriesTable (restore_row 1 a b 0) d"
      unfolding d' db_upsert_def Let_def by simp
    then have "d' ''restore_histories'' = insert (restore_row 1 a b 0) (d ''restore_histories'')"
      by (simp add: db_insert_def)
    then show ?thesis using True by blast
  next
    case False
    have "merge_row ?cs (restore_row 1 a b 0) q = restore_row 1 a b 0" if "q \<in> ?same" for q
    proof -
      have "row_ok RestoreHistoriesTable q"
        using db_ok_row [OF assms(1) Tables_members(3), of q] \<open>q \<in> ?same\<close> by simp
      then obtain k a' b' c' where "q = restore_row k a' b' c'" by (rule row_ok_restoreE)
      then show ?thesis using that by (simp add: restore_merge)
    qed
    then have "merge_row ?cs (restore_row 1 a b 0) ` ?same = {restore_row 1 a b 0}" using False by auto
    moreover have "d' = d(''restore_histories'' := (d ''restore_histories'' - ?same)
        \<union> merge_row ?cs (restore_row 1 a b 0) ` ?same)"
      using False unfolding d' db_upsert_def Let_def by (simp only: table_names table_keys
        col_restore_row if_False)
    ultimately show ?thesis by simp
  qed
  then show ?thesis by auto
qed

definition row_restore :: "row \<Rightarrow> ent_restorehistory" where
  "row_restore r = (case em_Assign restorehistory_meta r of Inr e \<Rightarrow> e | Inl e \<Rightarrow> zero_restorehistory)"

lemma restore_assign:
  "em_Assign restorehistory_meta (restore_row k a b c) = Inr \<lparr>eh_ID = k, eh_RestoreRangeStart = a,
     eh_RestoreRangeEnd = b, eh_BeingBlock = c\<rparr>"
  by (simp add: restorehistory_meta_def restore_row_def RestoreHistory_scanValues_def
    RestoreHistory_assignValues_def restorehistory_names zero_restorehistory_def)

lemma restore_columns: "restorehistory_Columns = map sc_Name (st_Columns RestoreHistoriesTable)"
  by (simp add: restorehistory_Columns_def restorehistory_names table_defs column_defs)

lemma reads_restore:
  assumes "db_ok d"
  shows "reads_table restorehistory_meta RestoreHistoriesTable row_restore
    (d (st_Name RestoreHistoriesTable))"
proof -
  have "em_Assign restorehistory_meta (project (em_Columns restorehistory_meta) r) = Inr (row_restore r)"
    if mem: "r \<in> d ''restore_histories''" for r
  proof -
    have ok: "row_ok RestoreHistoriesTable r" using db_ok_row [OF assms Tables_members(3)] mem by simp
    then obtain k a b c where r: "r = restore_row k a b c" by (rule row_ok_restoreE)
    have "project (em_Columns restorehistory_meta) r = r"
      using project_all [OF Tables_members(3) ok] by (simp add: restorehistory_meta_def restore_columns)
    then show ?thesis by (simp add: r row_restore_def restore_assign)
  qed
  then show ?thesis by (simp add: reads_table_def) (simp add: restorehistory_meta_def restorehistory_names)
qed

lemma restore_query_plain:
  "plain_query RestoreHistoriesTable restorehistory_meta (Limit 1 (Where [restorehistory_IDEQ 1] Query))"
  "qy_Offset (Where [restorehistory_IDEQ 1] Query) = None"
  "qy_predicates (Where [restorehistory_IDEQ 1] Query) = [FieldEQ ''id'' (VInt 1)]"
  by (auto simp: plain_query_def wf_query_def querySpec_def Query_def Where_def Limit_def
    restorehistory_IDEQ_def restorehistory_names restorehistory_meta_def restorehistory_Columns_def
    has_column_def table_defs column_defs selector_err_def List.map_filter_simps)

context sql_driver_up
begin

lemma SaveRestoringHistory_answer:
  assumes "db_ok (rows s)" "RepositoryBsEnt_SaveRestoringHistory cl a b s = (r, s')"
  shows "r = Inr () \<and> db_ok (rows s')
    \<and> {q \<in> rows s' ''restore_histories''. col q ''id'' = VInt 1} = {restore_row 1 a b 0}"
proof -
  obtain v s1 where C: "CreateNode cl (restore_spec a b) s = (Inr v, s1)"
    using upsert_up [OF Tables_members(3) restore_spec_wf assms(1)] by (metis prod.collapse)
  have step: "upsert_step RestoreHistoriesTable (restore_spec a b) (rows s) (Inr v) (rows s1)"
    using upsert [OF Tables_members(3) restore_spec_wf assms(1) C] .
  have v: "v = Some (VInt 1)" using step by (auto simp: upsert_step_def key_of_def restore_spec_def)
  obtain nd where nd: "RestoreHistoryCreate_createSpec (restoring_history_builder a b)
      = (nd, restore_spec a b)" "eh_ID nd = 1"
    using restore_builder_spec(1,2) [of a b] by (metis prod.collapse)
  have "RestoreHistoryUpsertOne_Exec cl (restoring_history_builder a b) s = (Inr (), s1)"
    using C v nd restore_builder_spec(3) [of cl a b] restore_builder_spec(4) [of a b]
    by (simp add: RestoreHistoryUpsertOne_Exec_def RestoreHistoryCreate_Exec_def drop_result_def RestoreHistoryCreate_Save_def
      RestoreHistoryCreate_sqlSave_def)
  then have "r = Inr ()" "s' = s1" using assms(2) by (simp_all add: RepositoryBsEnt_SaveRestoringHistory_def)
  then show ?thesis
    using upsert_keeps_ok [OF Tables_members(3) restore_spec_wf assms(1) C]
      restore_upsert_rows [OF assms(1) step] by simp
qed

lemma GetNotSequentialBlockNum_answer:
  assumes "db_ok (rows s)" "RepositoryBsEnt_GetNotSequentialBlockNum cl n s = (r, s')"
  shows "rows s' = rows s"
    and "{q \<in> rows s ''restore_histories''. col q ''id'' = VInt 1} = {restore_row 1 a b c} \<Longrightarrow> r = Inr a"
    and "{q \<in> rows s ''restore_histories''. col q ''id'' = VInt 1} = {} \<Longrightarrow> r = Inr 1"
proof -
  let ?q = "Where [restorehistory_IDEQ 1] Query"
  obtain q s1 where Q: "First restorehistory_meta cl ?q s = (q, s1)" by fastforce
  note ans = First_answer [OF assms(1) reads_restore [OF assms(1)] restore_query_plain(1,2) Q]
  have sel: "{x \<in> rows s (st_Name RestoreHistoriesTable). satisfies (qy_predicates ?q) x}
      = {q \<in> rows s ''restore_histories''. col q ''id'' = VInt 1}"
    by (auto simp: restore_query_plain(3) satisfies_def)
  have noerr: "q \<noteq> Inl (EDriver e)" for e
    using First_no_driver_err [OF assms(1) reads_restore [OF assms(1)] restore_query_plain(1)] Q
    by (metis fst_conv)
  have op: "(r, s') = (case q of Inl e \<Rightarrow> if IsNotFound e then (Inr 1, s1)
      else (Inl (logger_Errorf ''Error querying restoring history'' e), s1)
      | Inr h \<Rightarrow> (Inr (eh_RestoreRangeStart h), s1))"
    using assms(2) Q by (simp add: RepositoryBsEnt_GetNotSequentialBlockNum_def
      RestoreHistoryQuery_First_def split: sum.splits)
  show "rows s' = rows s" using ans(1) op by (auto split: sum.splits if_splits)
  show "r = Inr a" if "{q \<in> rows s ''restore_histories''. col q ''id'' = VInt 1} = {restore_row 1 a b c}"
  proof -
    have "q = Inr (row_restore (restore_row 1 a b c))"
      using ans(2) [unfolded sel, OF that] noerr by blast
    then show ?thesis using op by (simp add: row_restore_def restore_assign)
  qed
  show "r = Inr 1" if "{q \<in> rows s ''restore_histories''. col q ''id'' = VInt 1} = {}"
  proof -
    have "q = Inl (ENotFound (em_Label restorehistory_meta))"
      using ans(3) [unfolded sel, OF that] noerr by blast
    then show ?thesis using op by simp
  qed
qed

end

end
