(* ===== verification/Demo.thy ===== *)
theory Demo
  imports Event_Ledger Readback
begin

text \<open>Concrete inputs for the witnesses: an event, a transaction that carries it, a block.\<close>

definition demo_event :: "string \<Rightarrow> string \<Rightarrow> string \<Rightarrow> string \<Rightarrow> event" where
  "demo_event fn from to v = \<lparr>ev_Type = ''Transfer'', ev_Func = fn, ev_PkgPath = ''gno.land/r/foo'',
     ev_Attrs = [\<lparr>at_Key = ''from'', at_Value = from\<rparr>, \<lparr>at_Key = ''to'', at_Value = to\<rparr>,
       \<lparr>at_Key = ''value'', at_Value = v\<rparr>]\<rparr>"

definition demo_tx :: "string \<Rightarrow> event list \<Rightarrow> transaction" where
  "demo_tx hash es = \<lparr>tx_Index = 0, tx_Hash = hash, tx_Success = True, tx_BlockHeight = 7,
     tx_GasWanted = F64 0, tx_GasUsed = F64 0, tx_Memo = [],
     tx_GasFee = \<lparr>gf_Amount = F64 0, gf_Denom = []\<rparr>, tx_Messages = [],
     tx_Response = \<lparr>rs_Log = [], rs_Info = [], rs_Error = [], rs_Data = [], rs_Events = es\<rparr>\<rparr>"

definition demo_block :: block where
  "demo_block = \<lparr>b_Hash = ''h7'', b_Height = 7, b_Time = 0, b_TotalTxs = 1, b_NumTxs = 1\<rparr>"

definition demo_message :: "event list \<Rightarrow> block_with_txs" where
  "demo_message es = \<lparr>bwt_Block = Some demo_block, bwt_Transactions = [demo_tx ''t1'' es]\<rparr>"

lemmas demo_defs = demo_event_def demo_tx_def demo_block_def demo_message_def

lemma mem_empty_ok: "db_ok (mem_rows mem_empty)"
  by (simp add: db_ok_def Tables_def table_ok_def mem_rows_def mem_empty_def)

lemma mem_empty_ledger: "is_ledger (mem_rows mem_empty) Map.empty"
  by (simp add: is_ledger_def mem_rows_def mem_empty_def)

lemma mem_empty_blocks: "\<not> has_block (mem_rows mem_empty) h"
  by (simp add: has_block_def mem_rows_def mem_empty_def)

lemma demo_mint_named: "list_all (tx_named (\<lambda>x. x)) (bwt_Transactions (demo_message [demo_event ''Mint'' [] ''g1a'' ''5'']))"
  by code_simp

lemma demo_parties: "event_parties (demo_event fn a b v) =
    (case parse_int v of Inl e \<Rightarrow> Inl e | Inr n \<Rightarrow> Inr (a, b, n))"
  by (simp add: event_parties_def demo_event_def split: sum.split)

lemma parse_5: "parse_int ''5'' = Inr 5"
  by code_simp

lemma demo_is_transfer: "is_transfer_event (\<lambda>x. x) (demo_event fn a b v)"
proof -
  have "to_lower (\<lambda>x. x) ''Transfer'' = ''transfer''" by code_simp
  then show ?thesis by (simp add: is_transfer_event_def demo_event_def)
qed

lemma lower_funcs: "to_lower (\<lambda>x. x) ''Mint'' = ''mint''" "to_lower (\<lambda>x. x) ''Transfer'' = ''transfer''"
  "to_lower (\<lambda>x. x) ''Burn'' = ''burn''"
  by code_simp+

lemma f64_small: "f64_of_int 5 = F64 5" "f64_of_int (- 5) = F64 (- 5)" "f64_round 5 = F64 5"
  using f64_of_int_exact [of 5] f64_of_int_exact [of "- 5"] f64_round_exact_small [of 5] by simp_all

lemma demo_mint_block:
  "led_block (\<lambda>x. x) False demo_block (bwt_Transactions (demo_message [demo_event ''Mint'' [] ''g1a'' ''5'']))
     Map.empty = (True, [''g1a'' \<mapsto> (''gno.land/r/foo'', F64 5)])"
proof -
  have "led_event (\<lambda>x. x) (demo_event ''Mint'' [] ''g1a'' ''5'') [] ''g1a'' 5 Map.empty
      = (True, [''g1a'' \<mapsto> (''gno.land/r/foo'', F64 5)])"
    by (simp add: led_event_def demo_event_def lower_funcs led_mint_def led_ensure_def led_get_def
      led_open_ok_def led_inc_def f64_small)
  then show ?thesis
    by (simp add: led_block_def demo_message_def demo_block_def demo_tx_def demo_is_transfer demo_parties
      parse_5 entry_ok_def lower_funcs) (simp add: demo_event_def lower_funcs)
qed

definition demo_block_store :: mem where
  "demo_block_store = mem_empty(''blocks'' := [block_row demo_block 0])"

lemma demo_block_store_ok: "db_ok (mem_rows demo_block_store)" "has_block (mem_rows demo_block_store) 7"
    "is_ledger (mem_rows demo_block_store) Map.empty"
  by (simp_all add: db_ok_def Tables_def table_ok_def mem_rows_def demo_block_store_def mem_empty_def
    has_block_def is_ledger_def block_row_def demo_block_def col_def row_ok_def table_defs column_defs
    column_ok_def)

lemma parse_0: "parse_int ''0'' = Inr 0"
  by code_simp

lemma demo_zero_named: "list_all (tx_named (\<lambda>x. x)) (bwt_Transactions (demo_message [demo_event ''Mint'' [] ''g1a'' ''0'']))"
  by code_simp

lemma demo_zero_block:
  "led_block (\<lambda>x. x) False demo_block (bwt_Transactions (demo_message [demo_event ''Mint'' [] ''g1a'' ''0'']))
     Map.empty = (False, [''g1a'' \<mapsto> (''gno.land/r/foo'', F64 0)])"
proof -
  have z: "f64_of_int 0 = F64 0" "f64_round 0 = F64 0" by (simp_all add: f64_of_int_def f64_round_def)
  have "led_event (\<lambda>x. x) (demo_event ''Mint'' [] ''g1a'' ''0'') [] ''g1a'' 0 Map.empty
      = (True, [''g1a'' \<mapsto> (''gno.land/r/foo'', F64 0)])"
    by (simp add: led_event_def demo_event_def lower_funcs led_mint_def led_ensure_def led_get_def
      led_open_ok_def led_inc_def z)
  then show ?thesis
    by (simp add: led_block_def demo_message_def demo_block_def demo_tx_def demo_is_transfer demo_parties
      parse_0 entry_ok_def)
qed

definition demo_accounts :: mem where
  "demo_accounts = mem_empty(''accounts'' :=
     [account_row ''g1a'' ''gno.land/r/foo'' (F64 10), account_row ''g1b'' ''gno.land/r/foo'' (F64 20)])"

lemma demo_accounts_ok: "db_ok (mem_rows demo_accounts)"
  "is_ledger (mem_rows demo_accounts) [''g1a'' \<mapsto> (''gno.land/r/foo'', F64 10), ''g1b'' \<mapsto> (''gno.land/r/foo'', F64 20)]"
  by (auto simp: db_ok_def Tables_def table_ok_def mem_rows_def demo_accounts_def mem_empty_def
    has_block_def is_ledger_def account_row_def col_def row_ok_def table_defs column_defs
    column_ok_def inj_on_def)

end
