(* ===== verification/Balances.thy ===== *)
theory Balances
  imports Demo
begin

text \<open>
  Properties of the balance operations of the event processor and the repository: what a mint books,
  the one-token-per-address restriction of the schema, increments, and the precision of \<^verbatim>\<open>float64\<close>.
\<close>

definition demo_ledger :: ledger where
  "demo_ledger = [''g1a'' \<mapsto> (''gno.land/r/foo'', F64 10), ''g1b'' \<mapsto> (''gno.land/r/foo'', F64 20)]"

lemmas demo_ledger_ok = demo_accounts_ok [folded demo_ledger_def]

lemma nbits_54: "nbits 9007199254740993 = 54"
  by (simp add: nbits.simps)

lemma f64_add_lost: "f64_add (F64 (2 ^ 53)) (f64_of_int 1) = F64 (2 ^ 53)"
proof -
  have il: "ilog2 (9007199254740993 :: rat) = 53"
    using quotient_of_int [of 9007199254740993]
    by (simp add: ilog2_def nbits_54 nbits_1 pow2_def)
  have fl: "\<lfloor>9007199254740993 / 2 :: rat\<rfloor> = 4503599627370496" by (simp add: floor_eq_iff)
  have "round_half_even (9007199254740993 / 2) = 4503599627370496"
    by (simp add: round_half_even_def fl Let_def)
  then have "f64_round 9007199254740993 = F64 9007199254740992"
    using pow2_1024_big [of "2 ^ 53"] by (simp add: f64_round_def il pow2_nonneg_exp Let_def)
  moreover have "f64_of_int 1 = F64 1" using f64_of_int_exact [of 1] by simp
  ultimately show ?thesis by simp
qed

text \<open>
  The first mint to an address opens its account and books exactly the amount, as long as it stays
  below \<open>2 ^ 53\<close>.
\<close>

lemma mint_opens_account:
  assumes "sql_driver_up cl rows" "db_ok (rows s)" "is_ledger (rows s) L"
    "t \<noteq> []" "a \<noteq> []" "L a = None" "\<bar>v\<bar> < 2 ^ 53"
    "handleMintEvent (ep_NewService cl) tx t a v s = (r, s')"
  shows "r = Inr () \<and> is_ledger (rows s') (L(a \<mapsto> (t, F64 (of_int v))))"
proof -
  note store = sql_driver_up.account_store_ent [OF assms(1)]
  have ag: "account_store.agrees (\<lambda>s. db_ok (rows s)) (\<lambda>s. is_ledger (rows s)) (r, s')
      (led_mint t a v L)"
    using account_store.mint_agrees [OF store _ assms(2,3,4), of "ep_NewService cl" tx a v] assms(8)
    by (simp add: ep_NewService_def)
  have "led_mint t a v L = (True, L(a \<mapsto> (t, F64 (of_int v))))"
    using assms(4-7) f64_add_exact [of 0 v]
    by (simp add: led_mint_def led_ensure_def led_get_def led_open_ok_def led_inc_def f64_of_int_exact
      del: f64_add.simps)
  then show ?thesis using ag by (cases r) (auto simp: account_store.agrees_def [OF store])
qed

text \<open>
  C23. An address holds one token only. A mint of another token to an address that has an account
  fails and leaves every balance as it was: the primary key of \<^verbatim>\<open>accounts\<close> is the address alone,
  although the table's unique index is on address and token.
\<close>

theorem second_token_rejected:
  assumes "sql_driver_up cl rows" "db_ok (rows s)" "is_ledger (rows s) L"
    "t \<noteq> []" "a \<noteq> []" "L a = Some (t', x)" "t' \<noteq> t"
    "handleMintEvent (ep_NewService cl) tx t a v s = (r, s')"
  shows "(\<exists>e. r = Inl e \<and> \<not> is_panic e) \<and> is_ledger (rows s') L"
proof -
  note store = sql_driver_up.account_store_ent [OF assms(1)]
  have ag: "account_store.agrees (\<lambda>s. db_ok (rows s)) (\<lambda>s. is_ledger (rows s)) (r, s')
      (led_mint t a v L)"
    using account_store.mint_agrees [OF store _ assms(2,3,4), of "ep_NewService cl" tx a v] assms(8)
    by (simp add: ep_NewService_def)
  have "led_mint t a v L = (False, L)"
    using assms(4-7) by (simp add: led_mint_def led_ensure_def led_get_def led_open_ok_def)
  then show ?thesis using ag by (cases r) (auto simp: account_store.agrees_def [OF store])
qed

theorem second_token_rejected_witness:
  "\<exists>e s'. handleMintEvent (ep_NewService mem_client) (demo_tx [] []) ''gno.land/r/bar'' ''g1a'' 5 demo_accounts = (Inl e, s')
    \<and> is_ledger (mem_rows s') demo_ledger"
proof -
  obtain r s' where P: "handleMintEvent (ep_NewService mem_client) (demo_tx [] []) ''gno.land/r/bar'' ''g1a'' 5 demo_accounts = (r, s')"
    by fastforce
  have "(\<exists>e. r = Inl e \<and> \<not> is_panic e) \<and> is_ledger (mem_rows s') demo_ledger"
    by (rule second_token_rejected [OF mem.sql_driver_up_axioms demo_ledger_ok _ _ _ _ P,
          of "''gno.land/r/foo''" "F64 10"])
      (simp_all add: demo_ledger_def)
  then show ?thesis using P by auto
qed

text \<open>
  \<^verbatim>\<open>IncrementAccountBalance\<close> always answers success and changes at most the one balance it names;
  when the address holds no such token, it changes nothing and still answers success.
\<close>

lemma increment_is_local:
  assumes "sql_driver_up cl rows" "db_ok (rows s)" "is_ledger (rows s) L"
    "RepositoryEnt_IncrementAccountBalance cl a t n s = (r, s')"
  shows "r = Inr () \<and> is_ledger (rows s') (case L a of Some (t', x) \<Rightarrow>
      if t' = t then L(a \<mapsto> (t, f64_add x (f64_of_int n))) else L | None \<Rightarrow> L)
    \<and> (\<forall>m. m \<noteq> ''accounts'' \<longrightarrow> rows s' m = rows s m)"
proof -
  note d = sql_driver_up.axioms(1) [OF assms(1)]
  have r: "r = Inr ()" using sql_driver_up.Increment_up [OF assms(1,2)] assms(4) by (metis fst_conv)
  have "led_inc L a t (f64_of_int n) = (case L a of Some (t', x) \<Rightarrow>
      if t' = t then L(a \<mapsto> (t, f64_add x (f64_of_int n))) else L | None \<Rightarrow> L)"
    by (auto simp: led_inc_def led_get_def split: option.splits)
  then show ?thesis using sql_driver.Increment_answer(2,4) [OF d assms(2-4)] r by auto
qed

definition demo_rich :: mem where
  "demo_rich = mem_empty(''accounts'' := [account_row ''g1r'' ''gno.land/r/foo'' (F64 (2 ^ 53))])"

lemma demo_rich_ok: "db_ok (mem_rows demo_rich)"
  "is_ledger (mem_rows demo_rich) [''g1r'' \<mapsto> (''gno.land/r/foo'', F64 (2 ^ 53))]"
  by (auto simp: db_ok_def Tables_def table_ok_def mem_rows_def demo_rich_def mem_empty_def
    is_ledger_def account_row_def col_def row_ok_def table_defs column_defs column_ok_def inj_on_def)

text \<open>
  C24. Balances are \<^verbatim>\<open>float64\<close>: at \<open>2 ^ 53\<close> an increment by one succeeds and is lost.
\<close>

theorem increment_lost_above_2_53:
  assumes "sql_driver_up cl rows" "db_ok (rows s)" "is_ledger (rows s) L"
    "L a = Some (t, F64 (2 ^ 53))"
    "RepositoryEnt_IncrementAccountBalance cl a t 1 s = (r, s')"
  shows "r = Inr () \<and> is_ledger (rows s') L"
proof -
  have "f64_add (F64 (2 ^ 53)) (f64_of_int 1) = F64 (2 ^ 53)" by (rule f64_add_lost)
  then have "led_inc L a t (f64_of_int 1) = L"
    using assms(4) by (auto simp: led_inc_def led_get_def fun_eq_iff simp del: f64_add.simps)
  then show ?thesis
    using sql_driver.Increment_answer(2) [OF sql_driver_up.axioms(1) [OF assms(1)] assms(2,3,5)]
      sql_driver_up.Increment_up [OF assms(1,2), of a t 1] assms(5) by simp
qed

theorem increment_lost_above_2_53_witness:
  "\<exists>s'. RepositoryEnt_IncrementAccountBalance mem_client ''g1r'' ''gno.land/r/foo'' 1 demo_rich = (Inr (), s')
    \<and> is_ledger (mem_rows s') [''g1r'' \<mapsto> (''gno.land/r/foo'', F64 (2 ^ 53))]"
proof -
  obtain r s' where P: "RepositoryEnt_IncrementAccountBalance mem_client ''g1r'' ''gno.land/r/foo'' 1 demo_rich = (r, s')"
    by fastforce
  have "r = Inr () \<and> is_ledger (mem_rows s') [''g1r'' \<mapsto> (''gno.land/r/foo'', F64 (2 ^ 53))]"
    by (rule increment_lost_above_2_53 [OF mem.sql_driver_up_axioms demo_rich_ok _ P]) simp
  then show ?thesis using P by simp
qed

end
