(* ===== verification/History.thy ===== *)
theory History
  imports Demo
begin

text \<open>
  Properties of what the repository stores: blocks, transactions, transfers and the restorer's
  checkpoint are written once or not at all and are read back as they were written; no sequence of
  writes breaks the schema's constraints or loses history.
\<close>

section \<open>Blocks\<close>

text \<open>
  \<^verbatim>\<open>AddBlock\<close> of a block with a hash answers whether its height was taken; it adds the block's row
  exactly when it was not, and touches nothing else.
\<close>

lemma add_block_inserts_once:
  assumes "sql_driver_up cl rows" "db_ok (rows s)" "b_Hash b \<noteq> []"
    "RepositoryEnt_AddBlock cl (Some b) s = (r, s')"
  shows "r = Inr (has_block (rows s) (b_Height b)) \<and>
    rows s' = (if has_block (rows s) (b_Height b) then rows s
      else db_insert BlocksTable (block_row b (Now cl 0 s)) (rows s))"
proof -
  obtain ex where r: "r = Inr ex" using sql_driver_up.AddBlock_up [OF assms(1-3)] assms(4) by auto
  show ?thesis
    using sql_driver.AddBlock_answer(2,3) [OF sql_driver_up.axioms(1) [OF assms(1)] assms(2,4)] r
    by (cases ex) auto
qed

text \<open>
  Round trip of a block: a new block that was added is read back unchanged by \<^verbatim>\<open>GetBlock\<close>.
\<close>

lemma block_round_trip:
  assumes "sql_driver_up cl rows" "db_ok (rows s)" "b_Hash b \<noteq> []" "\<not> has_block (rows s) (b_Height b)"
    "RepositoryEnt_AddBlock cl (Some b) s = (r, s1)"
    "RepositoryEnt_GetBlock cl (b_Height b) s1 = (q, s2)"
  shows "r = Inr False \<and> q = Inr b"
proof -
  note d = sql_driver_up.axioms(1) [OF assms(1)]
  obtain ex where "r = Inr ex" using sql_driver_up.AddBlock_up [OF assms(1-3)] assms(5) by auto
  then have r: "r = Inr False" using sql_driver.AddBlock_answer(3) [OF d assms(2,5)] assms(4) by (cases ex) auto
  have "block_row b (Now cl 0 s) \<in> rows s1 ''blocks''"
    using sql_driver.AddBlock_answer(2) [OF d assms(2,5) r] by (simp add: db_insert_def BlocksTable_def)
  then show ?thesis
    using sql_driver_up.GetBlock_stored [OF assms(1) sql_driver.AddBlock_answer(1) [OF d assms(2,5)] _ assms(6)] r
    by blast
qed

section \<open>Transactions\<close>



text \<open>
  C20. Round trip of a transaction: one row with the hash is read back as the transaction that was
  stored, through the conversion to the stored JSON structs and back.
\<close>

theorem transaction_round_trip:
  assumes "sql_driver_up cl rows" "db_ok (rows s)" "tx_rows_ok (rows s)"
    "{q \<in> rows s ''transactions''. col q ''hash'' = VString (tx_Hash tx)} = {transaction_row k now h tx}"
    "RepositoryEnt_GetTransaction cl (tx_Hash tx) s = (r, s')"
  shows "r = Inr tx \<and> rows s' = rows s"
  using assms(4) by (intro sql_driver_up.GetTransaction_stored [OF assms(1-3) _ _ assms(5), of k now h]) blast+

definition demo_tx_store :: mem where
  "demo_tx_store = demo_block_store(''transactions'' := [transaction_row 1 0 7 (demo_tx ''t1'' [])])"

lemma demo_tx_store_ok: "db_ok (mem_rows demo_tx_store)" "tx_rows_ok (mem_rows demo_tx_store)"
  "{q \<in> mem_rows demo_tx_store ''transactions''. col q ''hash'' = VString ''t1''} = {transaction_row 1 0 7 (demo_tx ''t1'' [])}"
  subgoal by (simp add: db_ok_def Tables_def table_ok_def mem_rows_def demo_tx_store_def demo_block_store_def mem_empty_def
    block_row_def demo_block_def transaction_row_def col_def row_ok_def table_defs column_defs
    column_ok_def fk_ok_def)
  subgoal by (auto simp: tx_rows_ok_def mem_rows_def demo_tx_store_def)
  subgoal by (auto simp: mem_rows_def demo_tx_store_def demo_tx_def)
  done

theorem transaction_round_trip_witness:
  "\<exists>s'. RepositoryEnt_GetTransaction mem_client ''t1'' demo_tx_store = (Inr (demo_tx ''t1'' []), s')"
proof -
  obtain r s' where P: "RepositoryEnt_GetTransaction mem_client (tx_Hash (demo_tx ''t1'' [])) demo_tx_store = (r, s')" by fastforce
  have "r = Inr (demo_tx ''t1'' []) \<and> mem_rows s' = mem_rows demo_tx_store"
    by (rule transaction_round_trip [OF mem.sql_driver_up_axioms demo_tx_store_ok(1,2) _ P, of 1 0 7])
      (use demo_tx_store_ok(3) in \<open>simp add: demo_tx_def\<close>)
  then show ?thesis using P by (simp add: demo_tx_def)
qed

section \<open>Transfers\<close>




section \<open>The checkpoint\<close>

text \<open>
  C21. Round trip of the restorer's checkpoint: the last range saved is the one read back.
\<close>

theorem checkpoint_round_trip:
  assumes "sql_driver_up cl rows" "db_ok (rows s)"
    "RepositoryBsEnt_SaveRestoringHistory cl a b s = (r, s1)"
    "RepositoryBsEnt_GetNotSequentialBlockNum cl n s1 = (q, s2)"
  shows "r = Inr () \<and> q = Inr a"
  using sql_driver_up.SaveRestoringHistory_answer [OF assms(1-3)]
    sql_driver_up.GetNotSequentialBlockNum_answer(2) [OF assms(1) _ assms(4)] by blast

theorem checkpoint_round_trip_witness:
  "\<exists>s1. RepositoryBsEnt_SaveRestoringHistory mem_client 101 201 mem_empty = (Inr (), s1)
    \<and> fst (RepositoryBsEnt_GetNotSequentialBlockNum mem_client 1 s1) = Inr 101"
proof -
  obtain r s1 where P: "RepositoryBsEnt_SaveRestoringHistory mem_client 101 201 mem_empty = (r, s1)" by fastforce
  obtain q s2 where Q: "RepositoryBsEnt_GetNotSequentialBlockNum mem_client 1 s1 = (q, s2)" by fastforce
  show ?thesis using checkpoint_round_trip [OF mem.sql_driver_up_axioms mem_empty_ok P Q] P Q by auto
qed

section \<open>What every sequence of writes keeps\<close>

text \<open>The writes the services issue, in any order and with any outcome.\<close>

inductive repo_write :: "'s ent_client \<Rightarrow> 's \<Rightarrow> 's \<Rightarrow> bool" for cl where
  write_block: "RepositoryEnt_AddBlock cl (Some b) s = (rb, s') \<Longrightarrow> repo_write cl s s'"
| write_transactions: "RepositoryEnt_AddTransactions cl h txs s = (ru, s') \<Longrightarrow> repo_write cl s s'"
| write_account: "RepositoryEnt_AddAccount cl acc s = (ru, s') \<Longrightarrow> repo_write cl s s'"
| write_balance: "RepositoryEnt_IncrementAccountBalance cl a t n s = (ru, s') \<Longrightarrow> repo_write cl s s'"
| write_transfers: "RepositoryEnt_AddTransfers cl tx ts s = (ru, s') \<Longrightarrow> repo_write cl s s'"

definition same_token :: "ledger \<Rightarrow> ledger \<Rightarrow> bool" where
  "same_token L L' \<longleftrightarrow> (\<forall>a t x. L a = Some (t, x) \<longrightarrow> (\<exists>y. L' a = Some (t, y)))"

lemma same_token_refl [simp]: "same_token L L"
  by (simp add: same_token_def)

lemma same_token_trans: "same_token L1 L2 \<Longrightarrow> same_token L2 L3 \<Longrightarrow> same_token L1 L3"
  unfolding same_token_def by blast

lemma same_token_steps:
  "led_open_ok L a t \<Longrightarrow> same_token L (L(a \<mapsto> (t, x)))"
  "same_token L (led_inc L a t x)"
  by (auto simp: same_token_def led_open_ok_def led_inc_def led_get_def split: option.splits)

text \<open>One write keeps the database consistent, only adds blocks and transactions, and neither closes
  an account nor changes the token it holds.\<close>

definition grows :: "db \<Rightarrow> db \<Rightarrow> bool" where
  "grows d d' \<longleftrightarrow> db_ok d' \<and> d ''blocks'' \<subseteq> d' ''blocks'' \<and> d ''transactions'' \<subseteq> d' ''transactions''
     \<and> (\<forall>L. is_ledger d L \<longrightarrow> (\<exists>L'. is_ledger d' L' \<and> same_token L L'))"

lemma growsI:
  "db_ok d' \<Longrightarrow> d ''blocks'' \<subseteq> d' ''blocks'' \<Longrightarrow> d ''transactions'' \<subseteq> d' ''transactions''
    \<Longrightarrow> is_ledger d L \<Longrightarrow> is_ledger d' L' \<Longrightarrow> same_token L L' \<Longrightarrow> grows d d'"
  unfolding grows_def using is_ledger_unique by blast

lemma grows_same: "db_ok d \<Longrightarrow> d' = d \<Longrightarrow> grows d d'"
  by (auto simp: grows_def)

lemma grows_trans: "grows d1 d2 \<Longrightarrow> grows d2 d3 \<Longrightarrow> grows d1 d3"
  unfolding grows_def by (intro conjI; (blast intro: same_token_trans)?)

context sql_driver
begin

lemma write_grows:
  assumes "repo_write cl s s'" "db_ok (rows s)"
  shows "grows (rows s) (rows s')"
  using assms
proof (cases rule: repo_write.cases)
  case (write_block b rb)
  note ans = AddBlock_answer [OF assms(2) write_block]
  obtain L where L: "is_ledger (rows s) L" using is_ledger_ex [OF assms(2)] by blast
  show ?thesis
  proof (cases "rb = Inr False")
    case True
    then have r: "rows s' = db_insert BlocksTable (block_row b (Now cl 0 s)) (rows s)" using ans(2) by blast
    have "is_ledger (rows s') L" using L
      by (subst is_ledger_frame [of "rows s'" "rows s"]) (simp_all add: r db_insert_def BlocksTable_def)
    then show ?thesis using ans(1) L
      by (intro growsI [of _ _ L L]) (auto simp: r db_insert_def BlocksTable_def)
  next
    case False
    then have "rows s' = rows s" using ans(3,4) by (cases rb) auto
    then show ?thesis by (rule grows_same [OF assms(2)])
  qed
next
  case (write_transactions h txs ru)
  note ans = AddTransactions_answer [OF assms(2) write_transactions]
  obtain L where L: "is_ledger (rows s) L" using is_ledger_ex [OF assms(2)] by blast
  have "is_ledger (rows s') L" using L ans(2) by (subst is_ledger_frame [of "rows s'" "rows s"]) simp_all
  moreover have "rows s ''transactions'' \<subseteq> rows s' ''transactions''"
  proof (cases ru)
    case (Inr u)
    then show ?thesis using ans(4,5)
      by (cases "has_block (rows s) h") (simp_all add: stored_transactions_def)
  qed (use ans(6) in auto)
  ultimately show ?thesis using ans(1,2) L by (intro growsI [of _ _ L L]) simp_all
next
  case (write_account acc ru)
  obtain L where L: "is_ledger (rows s) L" using is_ledger_ex [OF assms(2)] by blast
  note ans = AddAccount_answer [OF assms(2) L write_account]
  show ?thesis
  proof (cases "ru = Inr ()")
    case True
    then show ?thesis using ans(1,2,4) L same_token_steps(1) by (intro growsI [OF _ _ _ L]) auto
  qed (use ans(3) assms(2) in \<open>auto intro: grows_same\<close>)
next
  case (write_balance a t n ru)
  obtain L where L: "is_ledger (rows s) L" using is_ledger_ex [OF assms(2)] by blast
  note ans = Increment_answer [OF assms(2) L write_balance]
  show ?thesis
  proof (cases "ru = Inr ()")
    case True
    then show ?thesis using ans(1,2,4) L same_token_steps(2) by (intro growsI [OF _ _ _ L]) auto
  qed (use ans(3) assms(2) in \<open>auto intro: grows_same\<close>)
next
  case (write_transfers tx ts ru)
  obtain L where L: "is_ledger (rows s) L" using is_ledger_ex [OF assms(2)] by blast
  note ans = AddTransfers_answer [OF assms(2) L write_transfers]
  have "is_ledger (rows s') L" using L ans(2) by (subst is_ledger_frame [of "rows s'" "rows s"]) simp_all
  then show ?thesis using ans(1,2) L by (intro growsI [of _ _ L L]) simp_all
qed

lemma writes_grow: "(repo_write cl)\<^sup>*\<^sup>* s s' \<Longrightarrow> db_ok (rows s) \<Longrightarrow> grows (rows s) (rows s')"
proof (induction rule: rtranclp_induct)
  case base
  then show ?case by (intro grows_same) simp_all
next
  case (step s1 s2)
  then have g: "grows (rows s) (rows s1)" by blast
  then have "grows (rows s1) (rows s2)" using step.hyps(2) by (intro write_grows) (simp_all add: grows_def)
  then show ?case by (rule grows_trans [OF g])
qed

end



end
