(* ===== verification/Message_Codec.thy ===== *)
theory Message_Codec
  imports Event_Processor
begin

text \<open>
  The messages on the wire: \<^verbatim>\<open>json.Marshal\<close> of a \<^verbatim>\<open>msgbroker.BlockWithTransactions\<close> in the block
  synchronizer and \<^verbatim>\<open>json.Unmarshal\<close> in the event processor, driven by the \<^verbatim>\<open>json\<close> tags of
  \<^verbatim>\<open>model/model.go\<close> and \<^verbatim>\<open>externals/msgbroker/msgbroker.go\<close>.

  A message is its JSON value; a number is its literal. \<^verbatim>\<open>encoding/json\<close> writes a value as text and
  reads it back unchanged. What it leaves to other packages is the record \<open>json_lib\<close>: the literal of a
  \<^verbatim>\<open>float64\<close> (none for NaN and the infinities), the text of a \<^verbatim>\<open>time.Time\<close> (none outside the years 0 to
  9999), their parsers, and the replacement of invalid UTF-8 in a string.

  A struct is read by the rules of the package: members are matched by name up to ASCII case, unknown
  members are skipped, an absent or null member leaves the zero value, a value of another kind is an
  error. Objects with a repeated member are read by its last occurrence. A nil and an empty slice are
  not distinguished.
\<close>

section \<open>Values\<close>

datatype json = JNull | JBool bool | JNum string | JStr string | JArr "json list"
  | JObj "(string \<times> json) list"

record json_lib =
  jl_Float :: "float64 \<Rightarrow> string option"
  jl_ParseFloat :: "string \<Rightarrow> float64 option"
  jl_Time :: "go_time \<Rightarrow> string option"
  jl_ParseTime :: "string \<Rightarrow> go_time option"
  jl_String :: "string \<Rightarrow> string"

definition opt_list :: "('a \<Rightarrow> 'b option) \<Rightarrow> 'a list \<Rightarrow> 'b list option" where
  "opt_list f xs = those (map f xs)"

lemma opt_list_simps [simp]:
  "opt_list f [] = Some []"
  "opt_list f (x # xs) = (case f x of None \<Rightarrow> None
     | Some y \<Rightarrow> map_option (Cons y) (opt_list f xs))"
  by (simp_all add: opt_list_def split: option.split)

lemma opt_list_cong [fundef_cong]:
  "xs = ys \<Longrightarrow> (\<And>x. x \<in> set ys \<Longrightarrow> f x = g x) \<Longrightarrow> opt_list f xs = opt_list g ys"
  unfolding opt_list_def by (simp cong: map_cong)

lemma opt_list_inverse:
  "(\<And>x y. x \<in> set xs \<Longrightarrow> f x = Some y \<Longrightarrow> g y = Some x) \<Longrightarrow> opt_list f xs = Some ys
    \<Longrightarrow> opt_list g ys = Some xs"
proof (induction xs arbitrary: ys)
  case (Cons x xs)
  then obtain y zs where y: "f x = Some y" "opt_list f xs = Some zs" "ys = y # zs"
    by (auto split: option.splits)
  then have "g y = Some x" "opt_list g zs = Some xs"
    using Cons.IH [of zs] Cons.prems(1) by simp_all
  then show ?case using y by simp
qed simp

lemma opt_list_total:
  "(\<And>x. x \<in> set xs \<Longrightarrow> f x \<noteq> None) \<Longrightarrow> opt_list f xs \<noteq> None"
  by (induction xs) (auto split: option.splits)

section \<open>Encoding\<close>

definition json_str :: "json_lib \<Rightarrow> string \<Rightarrow> json option" where
  "json_str lib s = Some (JStr (jl_String lib s))"

definition json_int :: "int \<Rightarrow> json option" where
  "json_int n = Some (JNum (show_int n))"

definition json_float :: "json_lib \<Rightarrow> float64 \<Rightarrow> json option" where
  "json_float lib x = map_option JNum (jl_Float lib x)"

definition json_time :: "json_lib \<Rightarrow> go_time \<Rightarrow> json option" where
  "json_time lib t = map_option JStr (jl_Time lib t)"

definition json_list :: "('a \<Rightarrow> json option) \<Rightarrow> 'a list \<Rightarrow> json option" where
  "json_list f xs = map_option JArr (opt_list f xs)"

lemma json_list_cong [fundef_cong]:
  "xs = ys \<Longrightarrow> (\<And>x. x \<in> set ys \<Longrightarrow> f x = g x) \<Longrightarrow> json_list f xs = json_list g ys"
  unfolding json_list_def by (simp cong: opt_list_cong)

definition json_member :: "string \<times> json option \<Rightarrow> (string \<times> json) option" where
  "json_member m = map_option (Pair (fst m)) (snd m)"

definition json_obj :: "(string \<times> json option) list \<Rightarrow> json option" where
  "json_obj ms = map_option JObj (opt_list json_member ms)"

fun json_any :: "json_lib \<Rightarrow> any \<Rightarrow> json option" where
  "json_any lib ANil = Some JNull"
| "json_any lib (ABool b) = Some (JBool b)"
| "json_any lib (ANum x) = json_float lib x"
| "json_any lib (AInt n) = json_int n"
| "json_any lib (AStr s) = json_str lib s"
| "json_any lib (AArr xs) = json_list (json_any lib) xs"
| "json_any lib (AMap kvs) = map_option JObj (opt_list
     (\<lambda>kv. map_option (Pair (jl_String lib (fst kv))) (json_any lib (snd kv))) kvs)"

definition json_any_map :: "json_lib \<Rightarrow> (string \<times> any) list \<Rightarrow> json option" where
  "json_any_map lib kvs = json_any lib (AMap kvs)"

definition json_block :: "json_lib \<Rightarrow> block \<Rightarrow> json option" where
  "json_block lib b = json_obj [(''hash'', json_str lib (b_Hash b)),
     (''height'', json_int (b_Height b)), (''time'', json_time lib (b_Time b)),
     (''total_txs'', json_int (b_TotalTxs b)), (''num_txs'', json_int (b_NumTxs b))]"

definition json_gas_fee :: "json_lib \<Rightarrow> gas_fee \<Rightarrow> json option" where
  "json_gas_fee lib g = json_obj [(''amount'', json_float lib (gf_Amount g)),
     (''denom'', json_str lib (gf_Denom g))]"

definition json_message :: "json_lib \<Rightarrow> message \<Rightarrow> json option" where
  "json_message lib m = json_obj [(''route'', json_str lib (ms_Route m)),
     (''typeUrl'', json_str lib (ms_TypeUrl m)), (''value'', json_any_map lib (ms_Value m))]"

definition json_attr :: "json_lib \<Rightarrow> attr \<Rightarrow> json option" where
  "json_attr lib a = json_obj [(''key'', json_str lib (at_Key a)), (''value'', json_str lib (at_Value a))]"

definition json_event :: "json_lib \<Rightarrow> event \<Rightarrow> json option" where
  "json_event lib e = json_obj [(''type'', json_str lib (ev_Type e)),
     (''func'', json_str lib (ev_Func e)), (''pkg_path'', json_str lib (ev_PkgPath e)),
     (''attrs'', json_list (json_attr lib) (ev_Attrs e))]"

definition json_response :: "json_lib \<Rightarrow> response \<Rightarrow> json option" where
  "json_response lib r = json_obj [(''log'', json_str lib (rs_Log r)),
     (''info'', json_str lib (rs_Info r)), (''error'', json_str lib (rs_Error r)),
     (''data'', json_str lib (rs_Data r)), (''events'', json_list (json_event lib) (rs_Events r))]"

definition json_transaction :: "json_lib \<Rightarrow> transaction \<Rightarrow> json option" where
  "json_transaction lib t = json_obj [(''index'', json_int (tx_Index t)),
     (''hash'', json_str lib (tx_Hash t)), (''success'', Some (JBool (tx_Success t))),
     (''block_height'', json_int (tx_BlockHeight t)),
     (''gas_wanted'', json_float lib (tx_GasWanted t)), (''gas_used'', json_float lib (tx_GasUsed t)),
     (''memo'', json_str lib (tx_Memo t)), (''gas_fee'', json_gas_fee lib (tx_GasFee t)),
     (''messages'', json_list (json_message lib) (tx_Messages t)),
     (''response'', json_response lib (tx_Response t))]"

definition Marshal :: "json_lib \<Rightarrow> block_with_txs \<Rightarrow> json option" where
  "Marshal lib m = json_obj
     [(''block'', case bwt_Block m of None \<Rightarrow> Some JNull | Some b \<Rightarrow> json_block lib b),
      (''transactions'', json_list (json_transaction lib) (bwt_Transactions m))]"

section \<open>Decoding\<close>

definition get_member :: "(string \<times> json) list \<Rightarrow> string \<Rightarrow> json" where
  "get_member ms k = (case filter (\<lambda>m. map ascii_lower (fst m) = map ascii_lower k) (rev ms) of
     [] \<Rightarrow> JNull | m # _ \<Rightarrow> snd m)"

fun get_str :: "json \<Rightarrow> string option" where
  "get_str JNull = Some []"
| "get_str (JStr s) = Some s"
| "get_str j = None"

fun get_int :: "json \<Rightarrow> int option" where
  "get_int JNull = Some 0"
| "get_int (JNum l) = (case parse_int l of Inl e \<Rightarrow> None | Inr n \<Rightarrow> Some n)"
| "get_int j = None"

fun get_bool :: "json \<Rightarrow> bool option" where
  "get_bool JNull = Some False"
| "get_bool (JBool b) = Some b"
| "get_bool j = None"

fun get_float :: "json_lib \<Rightarrow> json \<Rightarrow> float64 option" where
  "get_float lib JNull = Some (F64 0)"
| "get_float lib (JNum l) = jl_ParseFloat lib l"
| "get_float lib j = None"

fun get_time :: "json_lib \<Rightarrow> json \<Rightarrow> go_time option" where
  "get_time lib JNull = Some zero_time"
| "get_time lib (JStr s) = jl_ParseTime lib s"
| "get_time lib j = None"

fun get_list :: "(json \<Rightarrow> 'a option) \<Rightarrow> json \<Rightarrow> 'a list option" where
  "get_list f JNull = Some []"
| "get_list f (JArr js) = opt_list f js"
| "get_list f j = None"

fun get_members :: "json \<Rightarrow> (string \<times> json) list option" where
  "get_members JNull = Some []"
| "get_members (JObj ms) = Some ms"
| "get_members j = None"

fun get_any :: "json_lib \<Rightarrow> json \<Rightarrow> any option" where
  "get_any lib JNull = Some ANil"
| "get_any lib (JBool b) = Some (ABool b)"
| "get_any lib (JNum l) = map_option ANum (jl_ParseFloat lib l)"
| "get_any lib (JStr s) = Some (AStr s)"
| "get_any lib (JArr js) = map_option AArr (opt_list (get_any lib) js)"
| "get_any lib (JObj ms) = map_option AMap (opt_list
     (\<lambda>m. map_option (Pair (fst m)) (get_any lib (snd m))) ms)"

definition get_any_map :: "json_lib \<Rightarrow> json \<Rightarrow> (string \<times> any) list option" where
  "get_any_map lib j = (case j of JNull \<Rightarrow> Some []
     | JObj ms \<Rightarrow> opt_list (\<lambda>m. map_option (Pair (fst m)) (get_any lib (snd m))) ms
     | _ \<Rightarrow> None)"

definition get_block :: "json_lib \<Rightarrow> json \<Rightarrow> block option" where
  "get_block lib j = Option.bind (get_members j) (\<lambda>ms.
     Option.bind (get_str (get_member ms ''hash'')) (\<lambda>hash.
     Option.bind (get_int (get_member ms ''height'')) (\<lambda>height.
     Option.bind (get_time lib (get_member ms ''time'')) (\<lambda>time.
     Option.bind (get_int (get_member ms ''total_txs'')) (\<lambda>total.
     Option.bind (get_int (get_member ms ''num_txs'')) (\<lambda>num.
     Some \<lparr>b_Hash = hash, b_Height = height, b_Time = time, b_TotalTxs = total, b_NumTxs = num\<rparr>))))))"

definition get_gas_fee :: "json_lib \<Rightarrow> json \<Rightarrow> gas_fee option" where
  "get_gas_fee lib j = Option.bind (get_members j) (\<lambda>ms.
     Option.bind (get_float lib (get_member ms ''amount'')) (\<lambda>amount.
     Option.bind (get_str (get_member ms ''denom'')) (\<lambda>denom.
     Some \<lparr>gf_Amount = amount, gf_Denom = denom\<rparr>)))"

definition get_message :: "json_lib \<Rightarrow> json \<Rightarrow> message option" where
  "get_message lib j = Option.bind (get_members j) (\<lambda>ms.
     Option.bind (get_str (get_member ms ''route'')) (\<lambda>route.
     Option.bind (get_str (get_member ms ''typeUrl'')) (\<lambda>url.
     Option.bind (get_any_map lib (get_member ms ''value'')) (\<lambda>v.
     Some \<lparr>ms_Route = route, ms_TypeUrl = url, ms_Value = v\<rparr>))))"

definition get_attr :: "json \<Rightarrow> attr option" where
  "get_attr j = Option.bind (get_members j) (\<lambda>ms.
     Option.bind (get_str (get_member ms ''key'')) (\<lambda>k.
     Option.bind (get_str (get_member ms ''value'')) (\<lambda>v.
     Some \<lparr>at_Key = k, at_Value = v\<rparr>)))"

definition get_event :: "json \<Rightarrow> event option" where
  "get_event j = Option.bind (get_members j) (\<lambda>ms.
     Option.bind (get_str (get_member ms ''type'')) (\<lambda>type.
     Option.bind (get_str (get_member ms ''func'')) (\<lambda>fn.
     Option.bind (get_str (get_member ms ''pkg_path'')) (\<lambda>pkg.
     Option.bind (get_list get_attr (get_member ms ''attrs'')) (\<lambda>attrs.
     Some \<lparr>ev_Type = type, ev_Func = fn, ev_PkgPath = pkg, ev_Attrs = attrs\<rparr>)))))"

definition get_response :: "json \<Rightarrow> response option" where
  "get_response j = Option.bind (get_members j) (\<lambda>ms.
     Option.bind (get_str (get_member ms ''log'')) (\<lambda>lg.
     Option.bind (get_str (get_member ms ''info'')) (\<lambda>info.
     Option.bind (get_str (get_member ms ''error'')) (\<lambda>er.
     Option.bind (get_str (get_member ms ''data'')) (\<lambda>data.
     Option.bind (get_list get_event (get_member ms ''events'')) (\<lambda>events.
     Some \<lparr>rs_Log = lg, rs_Info = info, rs_Error = er, rs_Data = data, rs_Events = events\<rparr>))))))"

definition get_transaction :: "json_lib \<Rightarrow> json \<Rightarrow> transaction option" where
  "get_transaction lib j = Option.bind (get_members j) (\<lambda>ms.
     Option.bind (get_int (get_member ms ''index'')) (\<lambda>index.
     Option.bind (get_str (get_member ms ''hash'')) (\<lambda>hash.
     Option.bind (get_bool (get_member ms ''success'')) (\<lambda>success.
     Option.bind (get_int (get_member ms ''block_height'')) (\<lambda>height.
     Option.bind (get_float lib (get_member ms ''gas_wanted'')) (\<lambda>wanted.
     Option.bind (get_float lib (get_member ms ''gas_used'')) (\<lambda>used.
     Option.bind (get_str (get_member ms ''memo'')) (\<lambda>memo.
     Option.bind (get_gas_fee lib (get_member ms ''gas_fee'')) (\<lambda>fee.
     Option.bind (get_list (get_message lib) (get_member ms ''messages'')) (\<lambda>messages.
     Option.bind (get_response (get_member ms ''response'')) (\<lambda>resp.
     Some \<lparr>tx_Index = index, tx_Hash = hash, tx_Success = success, tx_BlockHeight = height,
       tx_GasWanted = wanted, tx_GasUsed = used, tx_Memo = memo, tx_GasFee = fee,
       tx_Messages = messages, tx_Response = resp\<rparr>)))))))))))"

definition Unmarshal :: "json_lib \<Rightarrow> json \<Rightarrow> block_with_txs option" where
  "Unmarshal lib j = Option.bind (get_members j) (\<lambda>ms.
     Option.bind (case get_member ms ''block'' of JNull \<Rightarrow> Some None
       | b \<Rightarrow> map_option Some (get_block lib b)) (\<lambda>b.
     Option.bind (get_list (get_transaction lib) (get_member ms ''transactions'')) (\<lambda>txs.
     Some \<lparr>bwt_Block = b, bwt_Transactions = txs\<rparr>)))"

section \<open>Round trip\<close>

text \<open>What the library promises of its formatters and parsers.\<close>

definition json_lib_ok :: "json_lib \<Rightarrow> bool" where
  "json_lib_ok lib \<longleftrightarrow> (\<forall>x l. jl_Float lib x = Some l \<longrightarrow> jl_ParseFloat lib l = Some x)
     \<and> (\<forall>t s. jl_Time lib t = Some s \<longrightarrow> jl_ParseTime lib s = Some t)"

text \<open>The values that survive: valid UTF-8, integers of 64 bits, and dynamic values as the decoder
  makes them (its numbers are \<^verbatim>\<open>float64\<close>).\<close>

definition str_ok :: "json_lib \<Rightarrow> string \<Rightarrow> bool" where
  "str_ok lib s \<longleftrightarrow> jl_String lib s = s"

fun any_ok :: "json_lib \<Rightarrow> any \<Rightarrow> bool" where
  "any_ok lib (AInt n) \<longleftrightarrow> False"
| "any_ok lib (AStr s) \<longleftrightarrow> str_ok lib s"
| "any_ok lib (AArr xs) \<longleftrightarrow> list_all (any_ok lib) xs"
| "any_ok lib (AMap kvs) \<longleftrightarrow> list_all (\<lambda>kv. str_ok lib (fst kv) \<and> any_ok lib (snd kv)) kvs"
| "any_ok lib v \<longleftrightarrow> True"

definition block_ok :: "json_lib \<Rightarrow> block \<Rightarrow> bool" where
  "block_ok lib b \<longleftrightarrow> str_ok lib (b_Hash b) \<and> in_int64 (b_Height b) \<and> in_int64 (b_TotalTxs b)
     \<and> in_int64 (b_NumTxs b)"

definition message_ok :: "json_lib \<Rightarrow> message \<Rightarrow> bool" where
  "message_ok lib m \<longleftrightarrow> str_ok lib (ms_Route m) \<and> str_ok lib (ms_TypeUrl m)
     \<and> list_all (\<lambda>kv. str_ok lib (fst kv) \<and> any_ok lib (snd kv)) (ms_Value m)"

definition event_ok :: "json_lib \<Rightarrow> event \<Rightarrow> bool" where
  "event_ok lib e \<longleftrightarrow> str_ok lib (ev_Type e) \<and> str_ok lib (ev_Func e) \<and> str_ok lib (ev_PkgPath e)
     \<and> list_all (\<lambda>a. str_ok lib (at_Key a) \<and> str_ok lib (at_Value a)) (ev_Attrs e)"

definition response_ok :: "json_lib \<Rightarrow> response \<Rightarrow> bool" where
  "response_ok lib r \<longleftrightarrow> str_ok lib (rs_Log r) \<and> str_ok lib (rs_Info r) \<and> str_ok lib (rs_Error r)
     \<and> str_ok lib (rs_Data r) \<and> list_all (event_ok lib) (rs_Events r)"

definition transaction_ok :: "json_lib \<Rightarrow> transaction \<Rightarrow> bool" where
  "transaction_ok lib t \<longleftrightarrow> in_int64 (tx_Index t) \<and> str_ok lib (tx_Hash t) \<and> in_int64 (tx_BlockHeight t)
     \<and> str_ok lib (tx_Memo t) \<and> str_ok lib (gf_Denom (tx_GasFee t))
     \<and> list_all (message_ok lib) (tx_Messages t) \<and> response_ok lib (tx_Response t)"

definition bwt_ok :: "json_lib \<Rightarrow> block_with_txs \<Rightarrow> bool" where
  "bwt_ok lib m \<longleftrightarrow> (case bwt_Block m of None \<Rightarrow> True | Some b \<Rightarrow> block_ok lib b)
     \<and> list_all (transaction_ok lib) (bwt_Transactions m)"

lemma lower_chars [simp]:
  "ascii_lower CHR ''a'' = CHR ''a''" "ascii_lower CHR ''b'' = CHR ''b''"
  "ascii_lower CHR ''c'' = CHR ''c''" "ascii_lower CHR ''d'' = CHR ''d''"
  "ascii_lower CHR ''e'' = CHR ''e''" "ascii_lower CHR ''f'' = CHR ''f''"
  "ascii_lower CHR ''g'' = CHR ''g''" "ascii_lower CHR ''h'' = CHR ''h''"
  "ascii_lower CHR ''i'' = CHR ''i''" "ascii_lower CHR ''k'' = CHR ''k''"
  "ascii_lower CHR ''l'' = CHR ''l''" "ascii_lower CHR ''m'' = CHR ''m''"
  "ascii_lower CHR ''n'' = CHR ''n''" "ascii_lower CHR ''o'' = CHR ''o''"
  "ascii_lower CHR ''p'' = CHR ''p''" "ascii_lower CHR ''r'' = CHR ''r''"
  "ascii_lower CHR ''s'' = CHR ''s''" "ascii_lower CHR ''t'' = CHR ''t''"
  "ascii_lower CHR ''u'' = CHR ''u''" "ascii_lower CHR ''v'' = CHR ''v''"
  "ascii_lower CHR ''w'' = CHR ''w''" "ascii_lower CHR ''x'' = CHR ''x''"
  "ascii_lower CHR ''y'' = CHR ''y''" "ascii_lower CHR ''_'' = CHR ''_''"
  by (simp_all add: ascii_lower_def)

lemma lower_U [simp]: "ascii_lower CHR ''U'' = CHR ''u''"
  by code_simp

lemma json_objE:
  assumes "json_obj ms = Some j"
  obtains os where "j = JObj os" "opt_list json_member ms = Some os"
  using assms by (auto simp: json_obj_def)

lemma json_member_Some [simp]: "json_member (k, v) = (case v of None \<Rightarrow> None | Some x \<Rightarrow> Some (k, x))"
  by (simp add: json_member_def split: option.split)

lemma int_back: "in_int64 n \<Longrightarrow> parse_int (show_int n) = Inr n"
  by (rule parse_show_int)

lemmas json_leaves = json_str_def json_int_def json_float_def json_time_def json_list_def str_ok_def

lemma attr_back:
  assumes "str_ok lib (at_Key a) \<and> str_ok lib (at_Value a)" "json_attr lib a = Some j"
  shows "get_attr j = Some a"
  using assms by (auto simp: json_attr_def get_attr_def json_leaves get_member_def elim!: json_objE)

lemma list_back:
  assumes "\<And>x j. x \<in> set xs \<Longrightarrow> f x = Some j \<Longrightarrow> g j = Some x" "json_list f xs = Some j"
  shows "get_list g j = Some xs"
  using assms opt_list_inverse [of xs f g] by (auto simp: json_list_def)

lemma event_back:
  assumes "event_ok lib e" "json_event lib e = Some j"
  shows "get_event j = Some e"
proof -
  obtain ja where ja: "json_list (json_attr lib) (ev_Attrs e) = Some ja"
    using assms(2) by (auto simp: json_event_def elim!: json_objE split: option.splits)
  have "get_list get_attr ja = Some (ev_Attrs e)"
    using assms(1) attr_back by (intro list_back [OF _ ja]) (auto simp: event_ok_def list_all_iff)
  then show ?thesis using assms ja
    by (auto simp: json_event_def get_event_def event_ok_def json_str_def str_ok_def get_member_def
      elim!: json_objE)
qed

lemma any_back:
  assumes "json_lib_ok lib"
  shows "any_ok lib v \<Longrightarrow> json_any lib v = Some j \<Longrightarrow> get_any lib j = Some v"
proof (induction v arbitrary: j)
  case (AArr xs)
  obtain js where js: "j = JArr js" "opt_list (json_any lib) xs = Some js"
    using AArr.prems by (auto simp: json_list_def)
  have "opt_list (get_any lib) js = Some xs"
    using AArr.IH AArr.prems(1) by (intro opt_list_inverse [OF _ js(2)]) (auto simp: list_all_iff)
  then show ?case using js by simp
next
  case (AMap kvs)
  let ?f = "\<lambda>kv. map_option (Pair (jl_String lib (fst kv))) (json_any lib (snd kv))"
  let ?g = "\<lambda>m. map_option (Pair (fst m)) (get_any lib (snd m))"
  obtain ms where ms: "j = JObj ms" "opt_list ?f kvs = Some ms" using AMap.prems by auto
  have "opt_list ?g ms = Some kvs"
  proof (rule opt_list_inverse [OF _ ms(2)])
    fix x y
    assume x: "x \<in> set kvs" and "?f x = Some y"
    then obtain jv where "json_any lib (snd x) = Some jv" "y = (jl_String lib (fst x), jv)" by auto
    moreover have "str_ok lib (fst x) \<and> any_ok lib (snd x)"
      using x AMap.prems(1) by (simp add: list_all_iff)
    moreover have "snd x \<in> Basic_BNFs.snds x" by (cases x) simp
    ultimately show "?g y = Some x" using AMap.IH [OF x, of "snd x" jv] by (simp add: str_ok_def)
  qed
  then show ?case using ms by simp
qed (use assms in \<open>auto simp: json_leaves json_lib_ok_def\<close>)

lemma any_map_back:
  assumes "json_lib_ok lib" "list_all (\<lambda>kv. str_ok lib (fst kv) \<and> any_ok lib (snd kv)) kvs"
    "json_any_map lib kvs = Some j"
  shows "get_any_map lib j = Some kvs"
proof -
  have "get_any lib j = Some (AMap kvs)"
    using any_back [OF assms(1), of "AMap kvs" j] assms(2,3) by (simp add: json_any_map_def)
  then show ?thesis using assms(3) by (auto simp: json_any_map_def get_any_map_def)
qed

lemma message_back:
  assumes "json_lib_ok lib" "message_ok lib m" "json_message lib m = Some j"
  shows "get_message lib j = Some m"
proof -
  obtain jv where jv: "json_any_map lib (ms_Value m) = Some jv"
    using assms(3) by (auto simp: json_message_def elim!: json_objE split: option.splits)
  have "get_any_map lib jv = Some (ms_Value m)"
    using any_map_back [OF assms(1) _ jv] assms(2) by (simp add: message_ok_def)
  then show ?thesis using assms(2,3) jv
    by (auto simp: json_message_def get_message_def message_ok_def json_str_def str_ok_def
      get_member_def elim!: json_objE)
qed

lemma gas_fee_back:
  assumes "json_lib_ok lib" "str_ok lib (gf_Denom g)" "json_gas_fee lib g = Some j"
  shows "get_gas_fee lib j = Some g"
  using assms by (auto simp: json_gas_fee_def get_gas_fee_def json_leaves get_member_def
    json_lib_ok_def elim!: json_objE split: option.splits)

lemma response_back:
  assumes "response_ok lib r" "json_response lib r = Some j"
  shows "get_response j = Some r"
proof -
  obtain je where je: "json_list (json_event lib) (rs_Events r) = Some je"
    using assms(2) by (auto simp: json_response_def elim!: json_objE split: option.splits)
  have "get_list get_event je = Some (rs_Events r)"
    using assms(1) event_back by (intro list_back [OF _ je]) (auto simp: response_ok_def list_all_iff)
  then show ?thesis using assms je
    by (auto simp: json_response_def get_response_def response_ok_def json_str_def str_ok_def
      get_member_def elim!: json_objE)
qed

lemma block_back:
  assumes "json_lib_ok lib" "block_ok lib b" "json_block lib b = Some j"
  shows "get_block lib j = Some b"
  using assms by (auto simp: json_block_def get_block_def json_leaves get_member_def block_ok_def
    json_lib_ok_def int_back elim!: json_objE split: option.splits)

lemma transaction_back:
  assumes "json_lib_ok lib" "transaction_ok lib t" "json_transaction lib t = Some j"
  shows "get_transaction lib j = Some t"
proof -
  obtain jw ju jg jm jr where js: "json_float lib (tx_GasWanted t) = Some jw"
      "json_float lib (tx_GasUsed t) = Some ju" "json_gas_fee lib (tx_GasFee t) = Some jg"
      "json_list (json_message lib) (tx_Messages t) = Some jm" "json_response lib (tx_Response t) = Some jr"
    using assms(3) by (auto simp: json_transaction_def elim!: json_objE split: option.splits)
  have fl: "get_float lib jw = Some (tx_GasWanted t)" "get_float lib ju = Some (tx_GasUsed t)"
    using js(1,2) assms(1) by (auto simp: json_float_def json_lib_ok_def)
  have ms: "get_list (get_message lib) jm = Some (tx_Messages t)"
    using assms(1,2) message_back by (intro list_back [OF _ js(4)]) (auto simp: transaction_ok_def list_all_iff)
  have rest: "get_gas_fee lib jg = Some (tx_GasFee t)" "get_response jr = Some (tx_Response t)"
    using gas_fee_back [OF assms(1) _ js(3)] response_back [OF _ js(5)] assms(2)
    by (simp_all add: transaction_ok_def)
  have j: "j = JObj [(''index'', JNum (show_int (tx_Index t))), (''hash'', JStr (tx_Hash t)),
      (''success'', JBool (tx_Success t)), (''block_height'', JNum (show_int (tx_BlockHeight t))),
      (''gas_wanted'', jw), (''gas_used'', ju), (''memo'', JStr (tx_Memo t)), (''gas_fee'', jg),
      (''messages'', jm), (''response'', jr)]"
    using assms(2,3) js by (auto simp: json_transaction_def json_int_def json_str_def str_ok_def
      transaction_ok_def elim!: json_objE)
  have ints: "get_int (JNum (show_int (tx_Index t))) = Some (tx_Index t)"
      "get_int (JNum (show_int (tx_BlockHeight t))) = Some (tx_BlockHeight t)"
    using assms(2) by (simp_all add: transaction_ok_def int_back)
  show ?thesis unfolding j get_transaction_def
    by (simp add: get_member_def ints fl ms rest del: get_int.simps)
qed

lemma Marshal_back:
  assumes "json_lib_ok lib" "bwt_ok lib m" "Marshal lib m = Some j"
  shows "Unmarshal lib j = Some m"
proof -
  obtain jt where jt: "json_list (json_transaction lib) (bwt_Transactions m) = Some jt"
    using assms(3) by (auto simp: Marshal_def elim!: json_objE split: option.splits)
  have txs: "get_list (get_transaction lib) jt = Some (bwt_Transactions m)"
    using assms(1,2) transaction_back by (intro list_back [OF _ jt]) (auto simp: bwt_ok_def list_all_iff)
  show ?thesis
  proof (cases "bwt_Block m")
    case None
    then show ?thesis using assms(3) jt txs
      by (auto simp: Marshal_def Unmarshal_def get_member_def elim!: json_objE)
  next
    case (Some b)
    then obtain jb where jb: "json_block lib b = Some jb"
      using assms(3) by (auto simp: Marshal_def elim!: json_objE split: option.splits)
    have "get_block lib jb = Some b"
      using block_back [OF assms(1) _ jb] assms(2) Some by (simp add: bwt_ok_def)
    moreover obtain os where "jb = JObj os" using jb by (auto simp: json_block_def elim!: json_objE)
    ultimately show ?thesis using assms(3) jt txs Some jb
      by (auto simp: Marshal_def Unmarshal_def get_member_def elim!: json_objE)
  qed
qed

end
