(* ===== verification/Synchronizer.thy ===== *)
theory Synchronizer
  imports Message_Codec
begin

text \<open>
  The block synchronizer (\<^verbatim>\<open>cmd/block-synchronizer/service/service.go\<close>): it polls blocks and
  transactions from a GraphQL endpoint, subscribes to new blocks over a websocket, and publishes each
  block with its transactions on the message broker.

  \<open>bs_service\<close> is the service over a world state \<open>'s\<close>. The GraphQL client (\<^verbatim>\<open>machinebox/graphql\<close>), the
  broker and the websocket (\<^verbatim>\<open>gorilla/websocket\<close>) are third-party: the two queries are parameters
  by their bounds, the websocket is the list of what each turn of the read loop meets.
\<close>

section \<open>The service\<close>

text \<open>A block as the endpoint returns it: the time is still text.\<close>

record raw_block =
  rb_Hash :: string
  rb_Height :: int
  rb_Time :: string
  rb_TotalTxs :: int
  rb_NumTxs :: int

record 's bs_service =
  bs_repo :: "'s repository"
  bs_repoBs :: "'s repository_bs"
  bs_Publish :: "string \<Rightarrow> json \<Rightarrow> ('s, unit) io"
  bs_RunBlocks :: "int \<Rightarrow> int \<Rightarrow> ('s, raw_block list) io"
  bs_RunTransactions :: "int \<Rightarrow> int \<Rightarrow> ('s, transaction list) io"
  bs_ParseTime :: "string \<Rightarrow> go_time option"
  bs_ParseTimeZ :: "string \<Rightarrow> go_time option"
  bs_json :: json_lib

text \<open>\<^verbatim>\<open>NewService\<close> builds both repositories over one database; the broker and the endpoint are the ones
  it connects to.\<close>

definition bs_NewService :: "'s ent_client \<Rightarrow> (string \<Rightarrow> json \<Rightarrow> ('s, unit) io)
    \<Rightarrow> (int \<Rightarrow> int \<Rightarrow> ('s, raw_block list) io) \<Rightarrow> (int \<Rightarrow> int \<Rightarrow> ('s, transaction list) io)
    \<Rightarrow> (string \<Rightarrow> go_time option) \<Rightarrow> (string \<Rightarrow> go_time option) \<Rightarrow> json_lib \<Rightarrow> 's bs_service" where
  "bs_NewService cl publish run_blocks run_transactions parse parseZ lib =
     \<lparr>bs_repo = RepositoryEnt cl, bs_repoBs = RepositoryBsEnt cl, bs_Publish = publish,
      bs_RunBlocks = run_blocks, bs_RunTransactions = run_transactions, bs_ParseTime = parse,
      bs_ParseTimeZ = parseZ, bs_json = lib\<rparr>"

definition topicBlockWithTxs :: string where
  "topicBlockWithTxs = ''block_with_txs''"

section \<open>Polling\<close>

definition block_of_raw :: "'s bs_service \<Rightarrow> raw_block \<Rightarrow> block" where
  "block_of_raw sv b = \<lparr>b_Hash = rb_Hash b, b_Height = rb_Height b,
     b_Time = (case bs_ParseTime sv (rb_Time b) of None \<Rightarrow> zero_time | Some t \<Rightarrow> t),
     b_TotalTxs = rb_TotalTxs b, b_NumTxs = rb_NumTxs b\<rparr>"

definition PollBlocks :: "'s bs_service \<Rightarrow> int \<Rightarrow> int \<Rightarrow> ('s, block list) io" where
  "PollBlocks sv offset limit s =
     (case bs_RunBlocks sv offset (wrap64 (offset + limit + 1)) s of
        (Inl e, s') \<Rightarrow> (Inl (EMsg ''failed to execute GraphQL query''), s')
      | (Inr bs, s') \<Rightarrow> (Inr (map (block_of_raw sv) bs), s'))"

text \<open>The response struct of \<^verbatim>\<open>PollTransactions\<close> has the fields of \<^verbatim>\<open>model.Transaction\<close> and is copied
  field by field.\<close>

definition transaction_of_raw :: "transaction \<Rightarrow> transaction" where
  "transaction_of_raw t =
     \<lparr>tx_Index = tx_Index t, tx_Hash = tx_Hash t, tx_Success = tx_Success t,
      tx_BlockHeight = tx_BlockHeight t, tx_GasWanted = tx_GasWanted t, tx_GasUsed = tx_GasUsed t,
      tx_Memo = tx_Memo t,
      tx_GasFee = \<lparr>gf_Amount = gf_Amount (tx_GasFee t), gf_Denom = gf_Denom (tx_GasFee t)\<rparr>,
      tx_Messages = map (\<lambda>m. \<lparr>ms_Route = ms_Route m, ms_TypeUrl = ms_TypeUrl m,
        ms_Value = ms_Value m\<rparr>) (tx_Messages t),
      tx_Response = \<lparr>rs_Log = rs_Log (tx_Response t), rs_Info = rs_Info (tx_Response t),
        rs_Error = rs_Error (tx_Response t), rs_Data = rs_Data (tx_Response t),
        rs_Events = map (\<lambda>e. \<lparr>ev_Type = ev_Type e, ev_Func = ev_Func e, ev_PkgPath = ev_PkgPath e,
          ev_Attrs = ev_Attrs e\<rparr>) (rs_Events (tx_Response t))\<rparr>\<rparr>"

definition PollTransactions :: "'s bs_service \<Rightarrow> int \<Rightarrow> int \<Rightarrow> ('s, transaction list) io" where
  "PollTransactions sv blockOffset limit s =
     (case bs_RunTransactions sv blockOffset (wrap64 (blockOffset + limit + 1)) s of
        (Inl e, s') \<Rightarrow> (Inl (EMsg ''failed to execute GraphQL query''), s')
      | (Inr ts, s') \<Rightarrow> (Inr (map transaction_of_raw ts), s'))"

lemma transaction_of_raw_id [simp]: "transaction_of_raw t = t"
  by (simp add: transaction_of_raw_def map_idI)

definition bs_GetHighestBlock :: "'s bs_service \<Rightarrow> ('s, block) io" where
  "bs_GetHighestBlock sv s =
     (case GetBlocks (bs_repo sv) 0 1 s of
        (Inl e, s') \<Rightarrow> (Inl e, s')
      | (Inr [], s') \<Rightarrow> (Inl (EMsg ''no blocks found in database''), s')
      | (Inr (b # bs), s') \<Rightarrow> (Inr b, s'))"

definition GetMissingBlocks :: "'s bs_service \<Rightarrow> ('s, block list) io" where
  "GetMissingBlocks sv s = (Inl (EPanic ''unimplemented''), s)"

definition GetBlocksMissingTxCount :: "'s bs_service \<Rightarrow> ('s, block list) io" where
  "GetBlocksMissingTxCount sv s = (Inl (EPanic ''unimplemented''), s)"

section \<open>Restoring\<close>

definition assemble :: "block list \<Rightarrow> transaction list \<Rightarrow> block_with_txs list" where
  "assemble blocks transactions = map (\<lambda>b. \<lparr>bwt_Block = Some b,
     bwt_Transactions = filter (\<lambda>tx. tx_BlockHeight tx = b_Height b) transactions\<rparr>) blocks"

text \<open>A message that cannot be marshalled or published is logged and skipped.\<close>

fun publish_all :: "'s bs_service \<Rightarrow> block_with_txs list \<Rightarrow> 's \<Rightarrow> 's" where
  "publish_all sv [] s = s"
| "publish_all sv (m # ms) s =
     (case Marshal (bs_json sv) m of None \<Rightarrow> publish_all sv ms s
      | Some j \<Rightarrow> publish_all sv ms (snd (bs_Publish sv topicBlockWithTxs j s)))"

text \<open>One turn of the loop; the answer says whether the loop goes on.\<close>

definition restore_window :: "'s bs_service \<Rightarrow> int \<Rightarrow> ('s, bool) io" where
  "restore_window sv i s =
     (case PollBlocks sv i 100 s of
        (Inl e, s1) \<Rightarrow> (Inl (logger_Errorf ''failed to poll blocks'' e), s1)
      | (Inr blocks, s1) \<Rightarrow>
          if blocks = [] then (Inr False, s1)
          else
            (case SaveRestoringHistory (bs_repoBs sv) i (i + 100) s1 of
               (Inl e, s2) \<Rightarrow> (Inl (logger_Errorf ''failed to save restoring history for block'' e), s2)
             | (Inr _, s2) \<Rightarrow>
                 (case PollTransactions sv i 100 s2 of
                    (Inl e, s3) \<Rightarrow> (Inl (logger_Errorf ''failed to poll transactions for block'' e), s3)
                  | (Inr transactions, s3) \<Rightarrow>
                      (Inr True, publish_all sv (assemble blocks transactions) s3))))"

text \<open>\<^verbatim>\<open>i\<close> stays below the height plus 100, far from the end of an \<^verbatim>\<open>int\<close>.\<close>

function restore_loop :: "'s bs_service \<Rightarrow> int \<Rightarrow> int \<Rightarrow> ('s, unit) io" where
  "restore_loop sv height i s =
     (if i < height then
        (case restore_window sv i s of
           (Inl e, s') \<Rightarrow> (Inl e, s')
         | (Inr go_on, s') \<Rightarrow> if go_on then restore_loop sv height (i + 100) s' else (Inr (), s'))
      else (Inr (), s))"
  by pat_completeness auto
termination by (relation "measure (\<lambda>(sv, height, i, s). nat (height - i))") auto

declare restore_loop.simps [simp del]

definition restore_from :: "'s bs_service \<Rightarrow> int \<Rightarrow> ('s, unit) io" where
  "restore_from sv height s =
     (case GetNotSequentialBlockNum (bs_repoBs sv) height s of
        (Inl e, s') \<Rightarrow> (Inl (logger_Errorf ''failed to get not sequential block number'' e), s')
      | (Inr i, s') \<Rightarrow> restore_loop sv height i s')"

section \<open>The subscription\<close>

definition getString :: "(string \<times> any) list \<Rightarrow> string \<Rightarrow> string" where
  "getString m key = (case map_of m key of Some (AStr v) \<Rightarrow> v | _ \<Rightarrow> [])"

definition getInt :: "(string \<times> any) list \<Rightarrow> string \<Rightarrow> int" where
  "getInt m key = (case map_of m key of Some (ANum v) \<Rightarrow> f64_to_int64 v | Some (AInt v) \<Rightarrow> v | _ \<Rightarrow> 0)"

definition frame_block :: "'s bs_service \<Rightarrow> (string \<times> any) list \<Rightarrow> block" where
  "frame_block sv m = \<lparr>b_Hash = getString m ''hash'', b_Height = getInt m ''height'',
     b_Time = (case map_of m ''time'' of
        Some (AStr t) \<Rightarrow> (case bs_ParseTime sv t of Some x \<Rightarrow> x
          | None \<Rightarrow> (case bs_ParseTimeZ sv t of Some x \<Rightarrow> x | None \<Rightarrow> zero_time))
      | _ \<Rightarrow> zero_time),
     b_TotalTxs = getInt m ''total_txs'', b_NumTxs = getInt m ''num_txs''\<rparr>"

text \<open>What a message asks for: nothing, a pong, a block to hand on, or the end of the subscription.\<close>

datatype frame = FSkip | FPing | FBlock block | FError | FComplete

definition next_frame :: "'s bs_service \<Rightarrow> (string \<times> any) list \<Rightarrow> frame" where
  "next_frame sv msg =
     (case map_of msg ''payload'' of
        Some (AMap payload) \<Rightarrow>
          if map_of payload ''errors'' \<noteq> None then FSkip
          else (case map_of payload ''data'' of
             Some (AMap data) \<Rightarrow>
               (case map_of data ''getBlocks'' of
                  Some (AMap getBlocks) \<Rightarrow> FBlock (frame_block sv getBlocks)
                | _ \<Rightarrow> FSkip)
           | _ \<Rightarrow> FSkip)
      | _ \<Rightarrow> FSkip)"

definition classify :: "'s bs_service \<Rightarrow> string \<Rightarrow> (string \<times> any) list \<Rightarrow> frame" where
  "classify sv subscriptionID msg =
     (case map_of msg ''type'' of
        Some (AStr ty) \<Rightarrow>
          if ty = ''ping'' then FPing
          else if ty = ''next'' then next_frame sv msg
          else if ty = ''error'' then
            (if map_of msg ''id'' = Some (AStr subscriptionID) then FError else FSkip)
          else if ty = ''complete'' then FComplete
          else FSkip
      | _ \<Rightarrow> FSkip)"

text \<open>One turn of the read loop: whether the context is done at its start, what the read yields,
  whether a pong can be written, and what the final \<^verbatim>\<open>select\<close> finds: room in the channel, the
  context done, and the runtime's choice when both are.\<close>

datatype ws_read = WsFrame "(string \<times> any) list" | WsTimeout | WsClosed | WsFailed

record ws_turn =
  wt_Done :: bool
  wt_Read :: ws_read
  wt_PongOk :: bool
  wt_Room :: bool
  wt_Canceled :: bool
  wt_PickDone :: bool

datatype ws_result = WsRunning | WsReturned "err option"

fun ws_loop :: "'s bs_service \<Rightarrow> string \<Rightarrow> bool \<Rightarrow> ws_turn list \<Rightarrow> block list
    \<Rightarrow> ws_result \<times> block list" where
  "ws_loop sv sid once [] ch = (WsRunning, ch)"
| "ws_loop sv sid once (t # ts) ch =
     (if wt_Done t then (WsReturned (Some ECanceled), ch)
      else case wt_Read t of
        WsClosed \<Rightarrow> (WsReturned None, ch)
      | WsTimeout \<Rightarrow> ws_loop sv sid once ts ch
      | WsFailed \<Rightarrow> (WsReturned (Some (EMsg ''failed to read WebSocket message'')), ch)
      | WsFrame msg \<Rightarrow>
          (case classify sv sid msg of
             FSkip \<Rightarrow> ws_loop sv sid once ts ch
           | FPing \<Rightarrow> if wt_PongOk t then ws_loop sv sid once ts ch
               else (WsReturned (Some (EMsg ''failed to send pong'')), ch)
           | FError \<Rightarrow> (WsReturned (Some (EMsg ''subscription error'')), ch)
           | FComplete \<Rightarrow> (WsReturned None, ch)
           | FBlock b \<Rightarrow>
               if wt_Room t \<and> \<not> (wt_Canceled t \<and> wt_PickDone t) then
                 (if once then (WsReturned None, ch @ [b]) else ws_loop sv sid once ts (ch @ [b]))
               else if wt_Canceled t then (WsReturned (Some ECanceled), ch)
               else ws_loop sv sid once ts ch))"

text \<open>The handshake: each step can fail, and the acknowledgement must be one.\<close>

record ws_conn =
  wc_UrlOk :: bool
  wc_DialOk :: bool
  wc_InitOk :: bool
  wc_Ack :: "(string \<times> any) list option"
  wc_SubscribeOk :: bool
  wc_ID :: string
  wc_Turns :: "ws_turn list"

definition SubscribeLastestBlock :: "'s bs_service \<Rightarrow> ws_conn \<Rightarrow> bool \<Rightarrow> ws_result \<times> block list" where
  "SubscribeLastestBlock sv c once =
     (if \<not> wc_UrlOk c then (WsReturned (Some (EMsg ''failed to parse URL'')), [])
      else if \<not> wc_DialOk c then (WsReturned (Some (EMsg ''failed to connect to WebSocket'')), [])
      else if \<not> wc_InitOk c then (WsReturned (Some (EMsg ''failed to send connection init'')), [])
      else case wc_Ack c of
        None \<Rightarrow> (WsReturned (Some (EMsg ''failed to read connection ack'')), [])
      | Some ack \<Rightarrow>
          if map_of ack ''type'' \<noteq> Some (AStr ''connection_ack'')
          then (WsReturned (Some (EMsg ''expected connection_ack'')), [])
          else if \<not> wc_SubscribeOk c then (WsReturned (Some (EMsg ''failed to send subscription'')), [])
          else ws_loop sv (wc_ID c) once (wc_Turns c) [])"

text \<open>\<^verbatim>\<open>RestoreMissingBlockAndTransactions\<close> first waits for one block of the subscription, which runs to
  its end in the same goroutine, and then selects between the context and the channel. \<open>None\<close> is a
  call that never returns; \<open>canceled\<close> says that the context is done and that \<^verbatim>\<open>select\<close> takes that case.
  A context that is done leaves the zero block, of height 0.\<close>

definition RestoreMissingBlockAndTransactions :: "'s bs_service \<Rightarrow> ws_conn \<Rightarrow> bool \<Rightarrow> 's
    \<Rightarrow> ((err + unit) \<times> 's) option" where
  "RestoreMissingBlockAndTransactions sv c canceled s =
     (case SubscribeLastestBlock sv c True of
        (WsRunning, ch) \<Rightarrow> None
      | (WsReturned (Some e), ch) \<Rightarrow> Some (Inl (logger_Errorf ''failed to subscribe to latest block'' e), s)
      | (WsReturned None, ch) \<Rightarrow>
          if canceled then Some (restore_from sv 0 s)
          else (case ch of [] \<Rightarrow> None | b # _ \<Rightarrow> Some (restore_from sv (b_Height b) s)))"

section \<open>The live path\<close>

definition bs_processBlockWithTransactions :: "'s bs_service \<Rightarrow> block \<Rightarrow> ('s, unit) io" where
  "bs_processBlockWithTransactions sv b s =
     (case PollTransactions sv (b_Height b) 1 s of
        (Inl e, s') \<Rightarrow> (Inl (EWrap ''failed to poll transactions for block'' e), s')
      | (Inr transactions, s') \<Rightarrow>
          (case Marshal (bs_json sv) \<lparr>bwt_Block = Some b, bwt_Transactions = transactions\<rparr> of
             None \<Rightarrow> (Inl (EMsg ''failed to marshal block with transactions''), s')
           | Some j \<Rightarrow>
               (case bs_Publish sv topicBlockWithTxs j s' of
                  (Inl e, s'') \<Rightarrow> (Inl (EWrap ''failed to publish block with transactions'' e), s'')
                | (Inr _, s'') \<Rightarrow> (Inr (), s''))))"

end
