(* ===== verification/Restore.thy ===== *)
theory Restore
  imports Synchronizer
begin

text \<open>
  What the restorer publishes. The locale \<open>block_source\<close> states what it relies on: an endpoint that
  answers a query by the blocks (transactions) of a chain that lie strictly between the bounds, and a
  checkpoint that is read back as it was saved. Every call may fail at any time; \<open>sent\<close> is the list of
  the messages handed to the broker, whatever it answered. \<open>restored\<close> is the reference: the blocks of the windows of 100
  heights, up to the first empty one.
\<close>

section \<open>The windows\<close>

definition in_window :: "int \<Rightarrow> int \<Rightarrow> block list \<Rightarrow> block list" where
  "in_window i n bs = filter (\<lambda>b. i < b_Height b \<and> b_Height b < i + n + 1) bs"

function restored :: "block list \<Rightarrow> int \<Rightarrow> int \<Rightarrow> block list" where
  "restored chain height i =
     (if i < height \<and> in_window i 100 chain \<noteq> []
      then in_window i 100 chain @ restored chain height (i + 100) else [])"
  by pat_completeness auto
termination by (relation "measure (\<lambda>(chain, height, i). nat (height - i))") auto

declare restored.simps [simp del]

definition gapless :: "block list \<Rightarrow> int \<Rightarrow> int \<Rightarrow> bool" where
  "gapless chain i j \<longleftrightarrow> (\<forall>h. i < h \<and> h \<le> j \<longrightarrow> h \<in> b_Height ` set chain)"

lemma restored_above: "b \<in> set (restored chain height i) \<Longrightarrow> b \<in> set chain \<and> i < b_Height b"
proof (induction chain height i rule: restored.induct)
  case (1 chain height i)
  show ?case
  proof (cases "i < height \<and> in_window i 100 chain \<noteq> []")
    case True
    then have "b \<in> set (in_window i 100 chain) \<or> b \<in> set (restored chain height (i + 100))"
      using "1.prems" by (subst (asm) restored.simps) simp
    then show ?thesis using "1.IH" [OF True] by (auto simp: in_window_def)
  qed (use "1.prems" in \<open>subst (asm) restored.simps, auto\<close>)
qed

lemma restored_covers:
  assumes "gapless chain i height" "b \<in> set chain" "i < b_Height b" "b_Height b \<le> height"
  shows "b \<in> set (restored chain height i)"
  using assms
proof (induction chain height i rule: restored.induct)
  case (1 chain height i)
  have lt: "i < height" using "1.prems"(3,4) by simp
  then have "i + 1 \<in> b_Height ` set chain" using "1.prems"(1) by (simp add: gapless_def)
  then obtain x where "x \<in> set chain" "b_Height x = i + 1" by auto
  then have ne: "in_window i 100 chain \<noteq> []" by (auto simp: in_window_def filter_empty_conv intro!: bexI [of _ x])
  show ?case
  proof (cases "b_Height b < i + 101")
    case True
    then have "b \<in> set (in_window i 100 chain)" using "1.prems" by (simp add: in_window_def)
    then show ?thesis using lt ne by (subst restored.simps) simp
  next
    case False
    moreover have "gapless chain (i + 100) height" using "1.prems"(1) by (auto simp: gapless_def)
    ultimately have "b \<in> set (restored chain height (i + 100))"
      using "1.IH" lt ne "1.prems"(2,4) by simp
    then show ?thesis using lt ne by (subst restored.simps) simp
  qed
qed

section \<open>The messages\<close>

definition wire :: "'s bs_service \<Rightarrow> block_with_txs list \<Rightarrow> (string \<times> json) list" where
  "wire sv ms = List.map_filter (\<lambda>m. map_option (Pair topicBlockWithTxs) (Marshal (bs_json sv) m)) ms"

lemma wire_simps [simp]:
  "wire sv [] = []"
  "wire sv (m # ms) = (case Marshal (bs_json sv) m of None \<Rightarrow> wire sv ms
     | Some j \<Rightarrow> (topicBlockWithTxs, j) # wire sv ms)"
  "wire sv (ms @ ns) = wire sv ms @ wire sv ns"
  by (simp_all add: wire_def List.map_filter_def split: option.split)

lemma in_wire: "m \<in> set ms \<Longrightarrow> Marshal (bs_json sv) m = Some j \<Longrightarrow> (topicBlockWithTxs, j) \<in> set (wire sv ms)"
  by (force simp: wire_def List.map_filter_def)

text \<open>Inside a window a block finds all its transactions.\<close>

lemma assemble_window:
  assumes "\<And>b. b \<in> set bs \<Longrightarrow> i < b_Height b \<and> b_Height b < j"
  shows "assemble bs (filter (\<lambda>t. i < tx_BlockHeight t \<and> tx_BlockHeight t < j) ts) = assemble bs ts"
  using assms by (auto simp: assemble_def intro!: filter_cong)

lemma assemble_append: "assemble (bs @ cs) ts = assemble bs ts @ assemble cs ts"
  by (simp add: assemble_def)

section \<open>The restorer over a block source\<close>

locale block_source =
  fixes sv :: "'s bs_service" and good :: "'s \<Rightarrow> bool" and chain :: "'s \<Rightarrow> block list"
    and txs :: "'s \<Rightarrow> transaction list" and sent :: "'s \<Rightarrow> (string \<times> json) list" and chk :: "'s \<Rightarrow> int"
  assumes run_blocks: "good s \<Longrightarrow> bs_RunBlocks sv gt lt s = (rb, s') \<Longrightarrow>
      good s' \<and> chain s' = chain s \<and> txs s' = txs s \<and> sent s' = sent s \<and> chk s' = chk s
      \<and> (\<forall>bs. rb = Inr bs \<longrightarrow> map (block_of_raw sv) bs = filter (\<lambda>b. gt < b_Height b \<and> b_Height b < lt) (chain s))"
    and run_transactions: "good s \<Longrightarrow> bs_RunTransactions sv gt lt s = (rt, s') \<Longrightarrow>
      good s' \<and> chain s' = chain s \<and> txs s' = txs s \<and> sent s' = sent s \<and> chk s' = chk s
      \<and> (\<forall>ts. rt = Inr ts \<longrightarrow> ts = filter (\<lambda>t. gt < tx_BlockHeight t \<and> tx_BlockHeight t < lt) (txs s))"
    and publish: "good s \<Longrightarrow> bs_Publish sv topic j s = (ru, s') \<Longrightarrow>
      good s' \<and> chain s' = chain s \<and> txs s' = txs s \<and> chk s' = chk s
      \<and> sent s' = sent s @ [(topic, j)]"
    and save: "good s \<Longrightarrow> SaveRestoringHistory (bs_repoBs sv) a b s = (ru, s') \<Longrightarrow>
      good s' \<and> chain s' = chain s \<and> txs s' = txs s \<and> sent s' = sent s
      \<and> chk s' = (if ru = Inr () then a else chk s)"
    and load: "good s \<Longrightarrow> GetNotSequentialBlockNum (bs_repoBs sv) n s = (rn, s') \<Longrightarrow>
      good s' \<and> chain s' = chain s \<and> txs s' = txs s \<and> sent s' = sent s \<and> chk s' = chk s
      \<and> (\<forall>a. rn = Inr a \<longrightarrow> a = chk s)"
begin

lemma publish_all_sent:
  "good s \<Longrightarrow> good (publish_all sv ms s) \<and> chain (publish_all sv ms s) = chain s
    \<and> txs (publish_all sv ms s) = txs s \<and> chk (publish_all sv ms s) = chk s
    \<and> sent (publish_all sv ms s) = sent s @ wire sv ms"
proof (induction ms arbitrary: s)
  case Nil
  then show ?case by simp
next
  case (Cons m ms)
  show ?case
  proof (cases "Marshal (bs_json sv) m")
    case None
    then show ?thesis using Cons by simp
  next
    case (Some j)
    obtain r s1 where P: "bs_Publish sv topicBlockWithTxs j s = (r, s1)" by fastforce
    show ?thesis using Cons.IH [of s1] publish [OF Cons.prems P] Some P by simp
  qed
qed

lemma poll_blocks:
  assumes "good s" "in_int64 (i + n + 1)" "PollBlocks sv i n s = (r, s')"
  shows "good s' \<and> chain s' = chain s \<and> txs s' = txs s \<and> sent s' = sent s \<and> chk s' = chk s
    \<and> (\<forall>bs. r = Inr bs \<longrightarrow> bs = in_window i n (chain s))"
proof -
  obtain q s1 where Q: "bs_RunBlocks sv i (i + n + 1) s = (q, s1)" by fastforce
  show ?thesis using run_blocks [OF assms(1) Q] assms(2,3) Q
    by (auto simp: PollBlocks_def in_window_def split: sum.splits)
qed

lemma poll_transactions:
  assumes "good s" "in_int64 (i + n + 1)" "PollTransactions sv i n s = (r, s')"
  shows "good s' \<and> chain s' = chain s \<and> txs s' = txs s \<and> sent s' = sent s \<and> chk s' = chk s
    \<and> (\<forall>ts. r = Inr ts \<longrightarrow> ts = filter (\<lambda>t. i < tx_BlockHeight t \<and> tx_BlockHeight t < i + n + 1) (txs s))"
proof -
  obtain q s1 where Q: "bs_RunTransactions sv i (i + n + 1) s = (q, s1)" by fastforce
  show ?thesis using run_transactions [OF assms(1) Q] assms(2,3) Q
    by (auto simp: PollTransactions_def map_idI split: sum.splits)
qed

text \<open>A turn of the loop: it ends the loop on an empty window; otherwise it moves the checkpoint to its
  start and publishes its blocks, or fails with nothing published.\<close>

lemma window_step:
  assumes "good s" "in_int64 (i + 101)" "restore_window sv i s = (r, s')"
  shows "good s' \<and> chain s' = chain s \<and> txs s' = txs s
    \<and> (case r of Inl e \<Rightarrow> sent s' = sent s \<and> (chk s' = chk s \<or> chk s' = i)
       | Inr False \<Rightarrow> in_window i 100 (chain s) = [] \<and> sent s' = sent s \<and> chk s' = chk s
       | Inr True \<Rightarrow> in_window i 100 (chain s) \<noteq> [] \<and> chk s' = i
           \<and> sent s' = sent s @ wire sv (assemble (in_window i 100 (chain s)) (txs s)))"
proof -
  have rng: "in_int64 (i + 100 + 1)" using assms(2) by (simp add: ac_simps)
  obtain rb s1 where B: "PollBlocks sv i 100 s = (rb, s1)" by fastforce
  note b = poll_blocks [OF assms(1) rng B]
  show ?thesis
  proof (cases rb)
    case (Inl e)
    then show ?thesis using assms(3) B b by (auto simp: restore_window_def)
  next
    case (Inr bs)
    show ?thesis
    proof (cases "bs = []")
      case True
      then show ?thesis using assms(3) B b Inr by (auto simp: restore_window_def)
    next
      case ne: False
      have bs: "bs = in_window i 100 (chain s)" using b Inr by simp
      obtain ru s2 where S: "SaveRestoringHistory (bs_repoBs sv) i (i + 100) s1 = (ru, s2)" by fastforce
      have good1: "good s1" using b by blast
      note sv = save [OF good1 S]
      show ?thesis
      proof (cases ru)
        case (Inl e)
        then show ?thesis using assms(3) B b S sv ne \<open>rb = Inr bs\<close> by (auto simp: restore_window_def)
      next
        case (Inr u)
        obtain rt s3 where T: "PollTransactions sv i 100 s2 = (rt, s3)" by fastforce
        have good2: "good s2" using sv by blast
        note t = poll_transactions [OF good2 rng T]
        show ?thesis
        proof (cases rt)
          case (Inl e)
          then show ?thesis using assms(3) B b S sv ne T t \<open>rb = Inr bs\<close> \<open>ru = Inr u\<close>
            by (auto simp: restore_window_def)
        next
          case (Inr ts)
          have ts: "ts = filter (\<lambda>t. i < tx_BlockHeight t \<and> tx_BlockHeight t < i + 100 + 1) (txs s)"
            using t Inr sv b by simp
          have asm: "assemble bs ts = assemble bs (txs s)"
            unfolding ts bs by (rule assemble_window) (auto simp: in_window_def)
          have good3: "good s3" using t by blast
          have end_eq: "r = Inr True" "s' = publish_all sv (assemble bs ts) s3"
            using assms(3) B S T ne \<open>rb = Inr bs\<close> \<open>ru = Inr u\<close> Inr by (simp_all add: restore_window_def)
          show ?thesis using publish_all_sent [OF good3, of "assemble bs ts"] b sv t ne \<open>ru = Inr u\<close>
            unfolding end_eq asm by (simp add: bs)
        qed
      qed
    qed
  qed
qed

text \<open>The loop: what it has sent is a sequence of whole windows; a call that ends without an error has
  sent them all; and however it ends, no block between the start and the checkpoint is missing.\<close>

lemma loop_sent:
  assumes "good s" "in_int64 i" "height + 200 \<le> max_int64" "restore_loop sv height i s = (r, s')"
  shows "good s' \<and> chain s' = chain s \<and> txs s' = txs s
    \<and> (\<exists>bs. sent s' = sent s @ wire sv (assemble bs (txs s))
        \<and> (r = Inr () \<longrightarrow> bs = restored (chain s) height i)
        \<and> (chk s' = chk s \<or> i \<le> chk s' \<and> (\<forall>b \<in> set (chain s). i < b_Height b \<and> b_Height b \<le> chk s' \<longrightarrow> b \<in> set bs)))"
  using assms
proof (induction "nat (height - i)" arbitrary: i s r s' rule: less_induct)
  case less
  show ?case
  proof (cases "i < height")
    case False
    then show ?thesis using less.prems
      by (auto simp: restore_loop.simps [of sv] restored.simps [of _ height i] assemble_def intro!: exI [of _ "[]"])
  next
    case lt: True
    have rng: "in_int64 (i + 101)" using less.prems(2,3) lt by (simp add: in_int64_def)
    obtain q s1 where W: "restore_window sv i s = (q, s1)" by fastforce
    note w = window_step [OF less.prems(1) rng W]
    consider (err) e where "q = Inl e" | (stop) "q = Inr False" | (more) "q = Inr True"
      by (cases q) (auto simp: bool.nchotomy)
    then show ?thesis
    proof cases
      case err
      then show ?thesis using less.prems(4) W w lt
        by (auto simp: restore_loop.simps [of sv] assemble_def intro!: exI [of _ "[]"])
    next
      case stop
      then show ?thesis using less.prems(4) W w lt
        by (auto simp: restore_loop.simps [of sv] restored.simps [of _ height i] assemble_def
          intro!: exI [of _ "[]"])
    next
      case more
      let ?win = "in_window i 100 (chain s)"
      have L: "restore_loop sv height (i + 100) s1 = (r, s')"
        using less.prems(4) W more lt by (simp add: restore_loop.simps [of sv height i])
      have w1: "good s1" "chain s1 = chain s" "txs s1 = txs s" "?win \<noteq> []" "chk s1 = i"
          "sent s1 = sent s @ wire sv (assemble ?win (txs s))"
        using w more by simp_all
      have i100: "in_int64 (i + 100)" using less.prems(2,3) lt by (simp add: in_int64_def)
      obtain bs where bs: "good s'" "chain s' = chain s" "txs s' = txs s"
          "sent s' = sent s1 @ wire sv (assemble bs (txs s))"
          "r = Inr () \<longrightarrow> bs = restored (chain s) height (i + 100)"
          "chk s' = i \<or> i + 100 \<le> chk s' \<and> (\<forall>b \<in> set (chain s). i + 100 < b_Height b
             \<and> b_Height b \<le> chk s' \<longrightarrow> b \<in> set bs)"
        using less.hyps [OF _ w1(1) i100 less.prems(3) L] lt w1 by auto
      have "\<forall>b \<in> set (chain s). i < b_Height b \<and> b_Height b \<le> chk s' \<longrightarrow> b \<in> set (?win @ bs)"
        using bs(6) by (auto simp: in_window_def)
      moreover have "i \<le> chk s'" using bs(6) by auto
      moreover have "r = Inr () \<longrightarrow> ?win @ bs = restored (chain s) height i"
        using bs(5) lt w1(4) by (subst restored.simps) simp
      ultimately show ?thesis using bs(1-4) w1(6)
        by (intro conjI exI [of _ "?win @ bs"]) (simp_all add: assemble_append)
    qed
  qed
qed

lemma restore_sent:
  assumes "good s" "in_int64 (chk s)" "height + 200 \<le> max_int64" "restore_from sv height s = (r, s')"
  shows "good s' \<and> chain s' = chain s \<and> txs s' = txs s
    \<and> (\<exists>bs. sent s' = sent s @ wire sv (assemble bs (txs s))
        \<and> (r = Inr () \<longrightarrow> bs = restored (chain s) height (chk s))
        \<and> (\<forall>b \<in> set (chain s). chk s < b_Height b \<and> b_Height b \<le> chk s' \<longrightarrow> b \<in> set bs))"
proof -
  obtain q s1 where G: "GetNotSequentialBlockNum (bs_repoBs sv) height s = (q, s1)" by fastforce
  note g = load [OF assms(1) G]
  show ?thesis
  proof (cases q)
    case (Inl e)
    then show ?thesis using assms(4) G g by (auto simp: restore_from_def assemble_def intro!: exI [of _ "[]"])
  next
    case (Inr i)
    then have "restore_loop sv height (chk s) s1 = (r, s')" using assms(4) G g by (simp add: restore_from_def)
    from loop_sent [OF _ assms(2,3) this] g show ?thesis by auto
  qed
qed

text \<open>The live path publishes the block with the transactions of the next height.\<close>

lemma live_sent:
  assumes "good s" "in_int64 (b_Height b + 2)" "in_int64 (b_Height b)"
    "bs_processBlockWithTransactions sv b s = (r, s')"
  shows "sent s' = sent s \<or> sent s' = sent s @ wire sv [\<lparr>bwt_Block = Some b,
      bwt_Transactions = filter (\<lambda>t. tx_BlockHeight t = b_Height b + 1) (txs s)\<rparr>]"
    and "r = Inr () \<Longrightarrow> \<exists>j. sent s' = sent s @ [(topicBlockWithTxs, j)] \<and> Marshal (bs_json sv)
      \<lparr>bwt_Block = Some b, bwt_Transactions = filter (\<lambda>t. tx_BlockHeight t = b_Height b + 1) (txs s)\<rparr> = Some j"
proof -
  obtain q s1 where T: "PollTransactions sv (b_Height b) 1 s = (q, s1)" by fastforce
  have rng: "in_int64 (b_Height b + 1 + 1)" using assms(2) by (simp add: ac_simps)
  note t = poll_transactions [OF assms(1) rng T]
  have same: "(b_Height b < tx_BlockHeight x \<and> tx_BlockHeight x < b_Height b + 1 + 1)
      = (tx_BlockHeight x = b_Height b + 1)" for x by auto
  have ts: "ts = filter (\<lambda>t. tx_BlockHeight t = b_Height b + 1) (txs s)" if q: "q = Inr ts" for ts
  proof -
    have "ts = filter (\<lambda>x. b_Height b < tx_BlockHeight x \<and> tx_BlockHeight x < b_Height b + 1 + 1) (txs s)"
      using t q by blast
    then show ?thesis by (simp only: same)
  qed
  have good1: "good s1" using t by blast
  let ?m = "\<lparr>bwt_Block = Some b, bwt_Transactions = filter (\<lambda>t. tx_BlockHeight t = b_Height b + 1) (txs s)\<rparr>"
  have "(sent s' = sent s \<or> sent s' = sent s @ wire sv [?m]) \<and> (r = Inr () \<longrightarrow>
      (\<exists>j. sent s' = sent s @ [(topicBlockWithTxs, j)] \<and> Marshal (bs_json sv) ?m = Some j))"
  proof (cases q)
    case (Inl e)
    then show ?thesis using assms(4) T t by (auto simp: bs_processBlockWithTransactions_def)
  next
    case (Inr u)
    then have q: "q = Inr (filter (\<lambda>t. tx_BlockHeight t = b_Height b + 1) (txs s))" using ts by simp
    show ?thesis
    proof (cases "Marshal (bs_json sv) ?m")
      case None
      then show ?thesis using assms(4) T t q by (auto simp: bs_processBlockWithTransactions_def)
    next
      case (Some j)
      obtain p s2 where P: "bs_Publish sv topicBlockWithTxs j s1 = (p, s2)" by fastforce
      show ?thesis using assms(4) T t q Some P publish [OF good1 P]
        by (cases p) (auto simp: bs_processBlockWithTransactions_def)
    qed
  qed
  then show "sent s' = sent s \<or> sent s' = sent s @ wire sv [?m]"
    "r = Inr () \<Longrightarrow> \<exists>j. sent s' = sent s @ [(topicBlockWithTxs, j)] \<and> Marshal (bs_json sv) ?m = Some j"
    by blast+
qed

end

section \<open>What the restorer ignores\<close>

text \<open>A broker that leaves the same states behind but answers every publication with an error.\<close>

definition refusing :: "err \<Rightarrow> 's bs_service \<Rightarrow> 's bs_service" where
  "refusing e sv = sv\<lparr>bs_Publish := (\<lambda>topic j s. (Inl e, snd (bs_Publish sv topic j s)))\<rparr>"

lemma refusing_fields [simp]:
  "bs_repoBs (refusing e sv) = bs_repoBs sv" "bs_json (refusing e sv) = bs_json sv"
  "PollBlocks (refusing e sv) = PollBlocks sv" "PollTransactions (refusing e sv) = PollTransactions sv"
  by (auto simp: refusing_def PollBlocks_def PollTransactions_def block_of_raw_def fun_eq_iff
    split: sum.splits prod.splits)

lemma publish_all_refusing [simp]: "publish_all (refusing e sv) ms s = publish_all sv ms s"
  by (induction ms arbitrary: s) (simp_all add: refusing_def split: option.split)

lemma restore_window_refusing: "restore_window (refusing e sv) i s = restore_window sv i s"
  unfolding restore_window_def refusing_fields publish_all_refusing by (rule refl)

lemma restore_loop_refusing: "restore_loop (refusing e sv) height i s = restore_loop sv height i s"
proof (induction sv height i s rule: restore_loop.induct)
  case (1 sv height i s)
  then show ?case
    by (subst (1 2) restore_loop.simps) (auto simp: restore_window_refusing split: prod.splits sum.splits)
qed

end
