(* ===== verification/World.thy ===== *)
theory World
  imports Restore Demo
begin

text \<open>
  A concrete world for the block synchronizer: the in-memory database of \<open>Mem_Driver\<close>, an endpoint
  that serves a fixed chain, and a broker that keeps what is published. It is no part of the program;
  on it the laws of \<open>block_source\<close> are proved for the service \<open>bs_NewService\<close> builds, with the
  repository's own checkpoint operations.
\<close>

record world =
  wd_db :: mem
  wd_raw :: "raw_block list"
  wd_txs :: "transaction list"
  wd_sent :: "(string \<times> json) list"

definition on_db :: "(mem \<Rightarrow> 'a \<times> mem) \<Rightarrow> world \<Rightarrow> 'a \<times> world" where
  "on_db f w = (fst (f (wd_db w)), w\<lparr>wd_db := snd (f (wd_db w))\<rparr>)"

definition world_client :: "world ent_client" where
  "world_client = \<lparr>CreateNode = (\<lambda>sp. on_db (CreateNode mem_client sp)),
     BatchCreate = (\<lambda>b. on_db (BatchCreate mem_client b)),
     UpdateNodes = (\<lambda>u. on_db (UpdateNodes mem_client u)),
     QueryNodes = (\<lambda>q. on_db (QueryNodes mem_client q)),
     QueryGroups = (\<lambda>g. on_db (QueryGroups mem_client g)),
     NotEmpty = NotEmpty mem_client, Positive = Positive mem_client,
     Now = (\<lambda>i w. Now mem_client i (wd_db w)), InitTime = InitTime mem_client,
     UniLower = UniLower mem_client\<rparr>"

definition world_rows :: "world \<Rightarrow> db" where
  "world_rows w = mem_rows (wd_db w)"

lemma on_db_result: "on_db f w = (r, w') \<Longrightarrow> f (wd_db w) = (r, wd_db w')"
  by (cases "f (wd_db w)") (auto simp: on_db_def)

interpretation world: sql_driver_up world_client world_rows
proof unfold_locales
  fix t sp and w w' :: world and r
  assume a: "t \<in> set Tables" "wf_spec t sp" "cs_OnConflict sp = []" "db_ok (world_rows w)"
    "CreateNode world_client sp w = (r, w')"
  have "CreateNode mem_client sp (wd_db w) = (r, wd_db w')"
    using a(5) by (intro on_db_result) (simp add: world_client_def)
  then show "create_step t sp (world_rows w) r (world_rows w')"
    unfolding world_rows_def by (rule mem.create [OF a(1-3) a(4) [unfolded world_rows_def]])
next
  fix t sps and w w' :: world and r
  assume a: "t \<in> set Tables" "wf_batch t sps" "db_ok (world_rows w)"
    "BatchCreate world_client \<lparr>bs_Nodes = sps, bs_OnConflict = []\<rparr> w = (r, w')"
  have "BatchCreate mem_client \<lparr>bs_Nodes = sps, bs_OnConflict = []\<rparr> (wd_db w) = (r, wd_db w')"
    using a(4) by (intro on_db_result) (simp add: world_client_def)
  then show "batch_step t sps (world_rows w) r (world_rows w')"
    unfolding world_rows_def by (rule mem.batch [OF a(1,2) a(3) [unfolded world_rows_def]])
next
  fix t sp and w w' :: world and r
  assume a: "t \<in> set Tables" "wf_upsert t sp" "db_ok (world_rows w)"
    "CreateNode world_client sp w = (r, w')"
  have "CreateNode mem_client sp (wd_db w) = (r, wd_db w')"
    using a(4) by (intro on_db_result) (simp add: world_client_def)
  then show "upsert_step t sp (world_rows w) r (world_rows w')"
    unfolding world_rows_def by (rule mem.upsert [OF a(1,2) a(3) [unfolded world_rows_def]])
next
  fix t us and w w' :: world and n
  assume a: "t \<in> set Tables" "wf_update t us" "db_ok (world_rows w)"
    "UpdateNodes world_client us w = (n, w')"
  have "UpdateNodes mem_client us (wd_db w) = (n, wd_db w')"
    using a(4) by (intro on_db_result) (simp add: world_client_def)
  then show "update_step us (world_rows w) n (world_rows w')"
    unfolding world_rows_def by (rule mem.update [OF a(1,2) a(3) [unfolded world_rows_def]])
next
  fix t q and w w' :: world and r
  assume a: "t \<in> set Tables" "wf_query t q" "db_ok (world_rows w)"
    "QueryNodes world_client q w = (r, w')"
  have "QueryNodes mem_client q (wd_db w) = (r, wd_db w')"
    using a(4) by (intro on_db_result) (simp add: world_client_def)
  then show "world_rows w' = world_rows w \<and> (\<forall>rs. r = Inr rs \<longrightarrow> query_answer q (world_rows w) rs)"
    unfolding world_rows_def by (rule mem.query [OF a(1,2) a(3) [unfolded world_rows_def]])
qed (simp_all add: world_client_def on_db_def world_rows_def mem.not_empty mem.positive
  mem.create_up mem.upsert_up mem.batch_up mem.update_up mem.query_up)

section \<open>The checkpoint\<close>

definition world_chk :: "world \<Rightarrow> int" where
  "world_chk w = (case List.find (\<lambda>r. col r ''id'' = VInt 1) (wd_db w ''restore_histories'') of
     None \<Rightarrow> 1 | Some r \<Rightarrow> int_key ''restore_range_start'' r)"

lemma restore_rows_one:
  assumes "db_ok d" "r \<in> d ''restore_histories''" "col r ''id'' = VInt 1"
  obtains a b c where "r = restore_row 1 a b c"
    "{q \<in> d ''restore_histories''. col q ''id'' = VInt 1} = {restore_row 1 a b c}"
proof -
  have "row_ok RestoreHistoriesTable r" using assms(1,2) by (auto simp: db_ok_def table_ok_def Tables_def)
  then obtain k a b c where r: "r = restore_row k a b c" by (rule row_ok_restoreE)
  then have "k = 1" using assms(3) by simp
  moreover have "{q \<in> d ''restore_histories''. col q ''id'' = VInt 1} = {r}"
  proof (intro set_eqI iffI)
    fix q
    assume "q \<in> {q \<in> d ''restore_histories''. col q ''id'' = VInt 1}"
    then have "q = r" using assms
      by (intro db_ok_key [OF assms(1) Tables_members(3)]) simp_all
    then show "q \<in> {r}" by simp
  qed (use assms in simp)
  ultimately show thesis using that r by simp
qed

lemma world_chk_row:
  assumes "{q \<in> world_rows w ''restore_histories''. col q ''id'' = VInt 1} = {restore_row 1 a b c}"
  shows "world_chk w = a"
proof -
  have in1: "restore_row 1 a b c \<in> set (wd_db w ''restore_histories'')"
    using assms by (auto simp: world_rows_def mem_rows_def)
  then obtain r where f: "List.find (\<lambda>r. col r ''id'' = VInt 1) (wd_db w ''restore_histories'') = Some r"
    by (cases "List.find (\<lambda>r. col r ''id'' = VInt 1) (wd_db w ''restore_histories'')")
      (auto simp: find_None_iff)
  then have "r \<in> {q \<in> world_rows w ''restore_histories''. col q ''id'' = VInt 1}"
    by (auto simp: find_Some_iff world_rows_def mem_rows_def)
  then show ?thesis using f assms by (simp add: world_chk_def int_key_def)
qed

lemma world_chk_none:
  assumes "{q \<in> world_rows w ''restore_histories''. col q ''id'' = VInt 1} = {}"
  shows "world_chk w = 1"
  using assms by (auto simp: world_chk_def world_rows_def mem_rows_def find_Some_iff split: option.split)

lemma world_get_chk:
  assumes "db_ok (world_rows w)" "RepositoryBsEnt_GetNotSequentialBlockNum world_client n w = (r, w')"
  shows "r = Inr (world_chk w)"
proof (cases "{q \<in> world_rows w ''restore_histories''. col q ''id'' = VInt 1} = {}")
  case True
  then show ?thesis
    using sql_driver_up.GetNotSequentialBlockNum_answer(3) [OF world.sql_driver_up_axioms assms] world_chk_none
    by simp
next
  case False
  then obtain r0 where "r0 \<in> world_rows w ''restore_histories''" "col r0 ''id'' = VInt 1" by blast
  then obtain a b c where "{q \<in> world_rows w ''restore_histories''. col q ''id'' = VInt 1} = {restore_row 1 a b c}"
    by (rule restore_rows_one [OF assms(1)])
  then show ?thesis
    using sql_driver_up.GetNotSequentialBlockNum_answer(2) [OF world.sql_driver_up_axioms assms] world_chk_row
    by simp
qed

lemma world_frame:
  "RepositoryBsEnt_GetNotSequentialBlockNum world_client n w = (r, w') \<Longrightarrow>
     wd_raw w' = wd_raw w \<and> wd_txs w' = wd_txs w \<and> wd_sent w' = wd_sent w"
  "RepositoryBsEnt_SaveRestoringHistory world_client a b w = (ru, w') \<Longrightarrow>
     wd_raw w' = wd_raw w \<and> wd_txs w' = wd_txs w \<and> wd_sent w' = wd_sent w"
  by (auto simp: RepositoryBsEnt_GetNotSequentialBlockNum_def RestoreHistoryQuery_First_def First_def
      All_def sqlAll_def world_client_def on_db_def RepositoryBsEnt_SaveRestoringHistory_def
      RestoreHistoryUpsertOne_Exec_def RestoreHistoryCreate_Exec_def drop_result_def RestoreHistoryCreate_Save_def RestoreHistoryCreate_sqlSave_def
      split: sum.splits option.splits list.splits if_splits prod.splits sql_err.splits ent_value.splits)

section \<open>The service in the world\<close>

text \<open>Formatters for the demonstration: integral numbers and times in decimal.\<close>

definition demo_float :: "float64 \<Rightarrow> string option" where
  "demo_float x = (case x of F64 q \<Rightarrow>
     if q = of_int \<lfloor>q\<rfloor> \<and> in_int64 \<lfloor>q\<rfloor> then Some (show_int \<lfloor>q\<rfloor>) else None | _ \<Rightarrow> None)"

definition demo_lib :: json_lib where
  "demo_lib = \<lparr>jl_Float = demo_float,
     jl_ParseFloat = (\<lambda>s. case parse_int s of Inl e \<Rightarrow> None | Inr n \<Rightarrow> Some (F64 (of_int n))),
     jl_Time = (\<lambda>t. if in_int64 t then Some (show_int t) else None),
     jl_ParseTime = (\<lambda>s. case parse_int s of Inl e \<Rightarrow> None | Inr n \<Rightarrow> Some n),
     jl_String = (\<lambda>s. s)\<rparr>"

lemma demo_lib_ok: "json_lib_ok demo_lib"
  by (auto simp: json_lib_ok_def demo_lib_def demo_float_def parse_show_int split: float64.splits if_splits)

definition world_publish :: "string \<Rightarrow> json \<Rightarrow> (world, unit) io" where
  "world_publish topic j w = (Inr (), w\<lparr>wd_sent := wd_sent w @ [(topic, j)]\<rparr>)"

definition world_blocks :: "int \<Rightarrow> int \<Rightarrow> (world, raw_block list) io" where
  "world_blocks gt lt w = (Inr (filter (\<lambda>b. gt < rb_Height b \<and> rb_Height b < lt) (wd_raw w)), w)"

definition world_transactions :: "int \<Rightarrow> int \<Rightarrow> (world, transaction list) io" where
  "world_transactions gt lt w =
     (Inr (filter (\<lambda>t. gt < tx_BlockHeight t \<and> tx_BlockHeight t < lt) (wd_txs w)), w)"

definition world_service :: "world bs_service" where
  "world_service = bs_NewService world_client world_publish world_blocks world_transactions
     (jl_ParseTime demo_lib) (\<lambda>s. None) demo_lib"

definition world_good :: "world \<Rightarrow> bool" where
  "world_good w \<longleftrightarrow> db_ok (world_rows w)"

definition world_chain :: "world \<Rightarrow> block list" where
  "world_chain w = map (block_of_raw world_service) (wd_raw w)"

lemma world_service_simps [simp]:
  "bs_repoBs world_service = RepositoryBsEnt world_client" "bs_repo world_service = RepositoryEnt world_client"
  "bs_Publish world_service = world_publish" "bs_RunBlocks world_service = world_blocks"
  "bs_RunTransactions world_service = world_transactions" "bs_json world_service = demo_lib"
  by (simp_all add: world_service_def bs_NewService_def)

interpretation world_source: block_source world_service world_good world_chain wd_txs wd_sent world_chk
proof unfold_locales
  fix gt lt w rb w'
  assume "world_good w" "bs_RunBlocks world_service gt lt w = (rb, w')"
  then show "world_good w' \<and> world_chain w' = world_chain w \<and> wd_txs w' = wd_txs w
      \<and> wd_sent w' = wd_sent w \<and> world_chk w' = world_chk w \<and> (\<forall>bs. rb = Inr bs
        \<longrightarrow> map (block_of_raw world_service) bs = filter (\<lambda>b. gt < b_Height b \<and> b_Height b < lt) (world_chain w))"
    by (auto simp: world_blocks_def world_chain_def filter_map comp_def block_of_raw_def)
next
  fix gt lt w rt w'
  assume "world_good w" "bs_RunTransactions world_service gt lt w = (rt, w')"
  then show "world_good w' \<and> world_chain w' = world_chain w \<and> wd_txs w' = wd_txs w
      \<and> wd_sent w' = wd_sent w \<and> world_chk w' = world_chk w \<and> (\<forall>ts. rt = Inr ts
        \<longrightarrow> ts = filter (\<lambda>t. gt < tx_BlockHeight t \<and> tx_BlockHeight t < lt) (wd_txs w))"
    by (auto simp: world_transactions_def)
next
  fix topic j w ru w'
  assume "world_good w" "bs_Publish world_service topic j w = (ru, w')"
  then show "world_good w' \<and> world_chain w' = world_chain w \<and> wd_txs w' = wd_txs w
      \<and> world_chk w' = world_chk w \<and> wd_sent w' = wd_sent w @ [(topic, j)]"
    by (auto simp: world_publish_def world_good_def world_rows_def world_chain_def world_chk_def)
next
  fix a b w ru w'
  assume g: "world_good w" and "SaveRestoringHistory (bs_repoBs world_service) a b w = (ru, w')"
  then have S: "RepositoryBsEnt_SaveRestoringHistory world_client a b w = (ru, w')"
    by (simp add: RepositoryBsEnt_def)
  note ans = sql_driver_up.SaveRestoringHistory_answer [OF world.sql_driver_up_axioms g [unfolded world_good_def] S]
  have "world_chk w' = a" by (rule world_chk_row) (use ans in blast)
  then show "world_good w' \<and> world_chain w' = world_chain w \<and> wd_txs w' = wd_txs w \<and> wd_sent w' = wd_sent w
      \<and> world_chk w' = (if ru = Inr () then a else world_chk w)"
    using ans world_frame(2) [OF S] by (simp add: world_good_def world_chain_def)
next
  fix n w rn w'
  assume g: "world_good w" and "GetNotSequentialBlockNum (bs_repoBs world_service) n w = (rn, w')"
  then have G: "RepositoryBsEnt_GetNotSequentialBlockNum world_client n w = (rn, w')"
    by (simp add: RepositoryBsEnt_def)
  have rows: "world_rows w' = world_rows w"
    by (rule sql_driver_up.GetNotSequentialBlockNum_answer(1) [OF world.sql_driver_up_axioms g [unfolded world_good_def] G])
  have "wd_db w' = wd_db w"
    using G by (auto simp: RepositoryBsEnt_GetNotSequentialBlockNum_def RestoreHistoryQuery_First_def
      First_def All_def sqlAll_def world_client_def on_db_def mem_client_def mem_query_def
      split: sum.splits option.splits list.splits if_splits prod.splits)
  then have "world_chk w' = world_chk w" by (simp add: world_chk_def)
  then show "world_good w' \<and> world_chain w' = world_chain w \<and> wd_txs w' = wd_txs w \<and> wd_sent w' = wd_sent w
      \<and> world_chk w' = world_chk w \<and> (\<forall>a. rn = Inr a \<longrightarrow> a = world_chk w)"
    using world_get_chk [OF g [unfolded world_good_def] G] world_frame(1) [OF G] rows g
    by (simp add: world_good_def world_chain_def)
qed

definition demo_raw :: "int \<Rightarrow> raw_block" where
  "demo_raw h = \<lparr>rb_Hash = ''h'' @ show_int h, rb_Height = h, rb_Time = show_int h,
     rb_TotalTxs = 0, rb_NumTxs = 0\<rparr>"

definition demo_world :: world where
  "demo_world = \<lparr>wd_db = mem_empty, wd_raw = map demo_raw [1, 2, 3],
     wd_txs = [(demo_tx ''t2'' [])\<lparr>tx_BlockHeight := 2\<rparr>, (demo_tx ''t3'' [])\<lparr>tx_BlockHeight := 3\<rparr>],
     wd_sent = []\<rparr>"

lemma demo_world_good: "world_good demo_world" "world_chk demo_world = 1"
  using mem_empty_ok
  by (simp_all add: world_good_def world_rows_def demo_world_def world_chk_def mem_empty_def)

definition demo_sync_block :: "int \<Rightarrow> block" where
  "demo_sync_block h = \<lparr>b_Hash = ''h'' @ show_int h, b_Height = h, b_Time = h, b_TotalTxs = 0, b_NumTxs = 0\<rparr>"

lemma demo_block_of_raw: "in_int64 h \<Longrightarrow> block_of_raw world_service (demo_raw h) = demo_sync_block h"
  by (simp add: block_of_raw_def demo_raw_def world_service_def bs_NewService_def demo_lib_def
    parse_show_int demo_sync_block_def)

lemma demo_chain: "world_chain demo_world = map demo_sync_block [1, 2, 3]"
  by (simp add: world_chain_def demo_world_def demo_block_of_raw in_int64_def min_int64_def max_int64_def)

definition demo_far :: world where
  "demo_far = \<lparr>wd_db = mem_empty, wd_raw = map demo_raw [2, 102], wd_txs = [], wd_sent = []\<rparr>"

lemma demo_far_good: "world_good demo_far" "world_chk demo_far = 1"
  using mem_empty_ok
  by (simp_all add: world_good_def world_rows_def demo_far_def world_chk_def mem_empty_def)

lemma demo_far_chain: "world_chain demo_far = map demo_sync_block [2, 102]"
  by (simp add: world_chain_def demo_far_def demo_block_of_raw in_int64_def min_int64_def max_int64_def)

end
