(* ===== verification/Worker_Pool.thy ===== *)
theory Worker_Pool
  imports Message_Codec "HOL-Library.Multiset"
begin

text \<open>
  The worker pools of the two services: \<^verbatim>\<open>SubscribeAndHandle\<close> and \<^verbatim>\<open>messageWorker\<close> of the event processor
  (channel of 100, 5 workers), \<^verbatim>\<open>SubscribeAndPush\<close> and \<^verbatim>\<open>blockWorker\<close> of the block synchronizer (channel of
  1000, 10 workers). The producer's non-blocking send, the workers and the shutdown are the steps of
  a transition system over a \<open>pool\<close>: the buffered channel, what each worker is busy with, whether the
  context is done and the channel closed. The last four fields only record what happened.
\<close>

section \<open>The pool\<close>

record 'm pool =
  pl_Queue :: "'m list"
  pl_Busy :: "nat \<rightharpoonup> 'm"
  pl_Stopped :: "nat list"
  pl_Done :: bool
  pl_Closed :: bool
  pl_Panic :: bool
  pl_Offered :: "'m list"
  pl_Started :: "'m list"
  pl_Finished :: "'m list"
  pl_Dropped :: "'m list"

definition new_pool :: "'m pool" where
  "new_pool = \<lparr>pl_Queue = [], pl_Busy = Map.empty, pl_Stopped = [], pl_Done = False, pl_Closed = False,
     pl_Panic = False, pl_Offered = [], pl_Started = [], pl_Finished = [], pl_Dropped = []\<rparr>"

text \<open>\<^verbatim>\<open>select { case workCh <- m: default: }\<close>. A send on a closed channel panics; on a full one the default
  branch drops the message.\<close>

definition offer :: "nat \<Rightarrow> 'm \<Rightarrow> 'm pool \<Rightarrow> 'm pool" where
  "offer cap m p =
     (if pl_Closed p then p\<lparr>pl_Panic := True\<rparr>
      else if length (pl_Queue p) < cap
      then p\<lparr>pl_Queue := pl_Queue p @ [m], pl_Offered := pl_Offered p @ [m]\<rparr>
      else p\<lparr>pl_Offered := pl_Offered p @ [m], pl_Dropped := pl_Dropped p @ [m]\<rparr>)"

text \<open>A worker receives, and a worker is done with its message (errors are logged).\<close>

definition work_start :: "nat \<Rightarrow> 'm pool \<Rightarrow> 'm pool" where
  "work_start i p = (case pl_Queue p of [] \<Rightarrow> p
     | m # q \<Rightarrow> p\<lparr>pl_Queue := q, pl_Busy := (pl_Busy p)(i \<mapsto> m), pl_Started := pl_Started p @ [m]\<rparr>)"

definition work_finish :: "nat \<Rightarrow> 'm pool \<Rightarrow> 'm pool" where
  "work_finish i p = (case pl_Busy p i of None \<Rightarrow> p
     | Some m \<Rightarrow> p\<lparr>pl_Busy := (pl_Busy p)(i := None), pl_Finished := pl_Finished p @ [m]\<rparr>)"

definition work_stop :: "nat \<Rightarrow> 'm pool \<Rightarrow> 'm pool" where
  "work_stop i p = p\<lparr>pl_Stopped := i # pl_Stopped p\<rparr>"

definition pool_close :: "'m pool \<Rightarrow> 'm pool" where
  "pool_close p = p\<lparr>pl_Closed := True\<rparr>"

definition pool_cancel :: "'m pool \<Rightarrow> 'm pool" where
  "pool_cancel p = p\<lparr>pl_Done := True\<rparr>"

text \<open>A waiting worker whose context is done and whose channel has a message may do either. The
  synchronizer's producer closes the channel itself and sends no more; the producers of the event
  processor are the broker's pollers, which do not know of it: \<open>late\<close> says that sends may follow the
  close.\<close>

inductive pool_step :: "bool \<Rightarrow> nat \<Rightarrow> nat \<Rightarrow> 'm pool \<Rightarrow> 'm pool \<Rightarrow> bool" for late cap n where
  pool_offer: "\<not> pl_Panic p \<Longrightarrow> late \<or> \<not> pl_Closed p \<Longrightarrow> pool_step late cap n p (offer cap m p)"
| pool_start: "\<not> pl_Panic p \<Longrightarrow> i < n \<Longrightarrow> i \<notin> set (pl_Stopped p) \<Longrightarrow> pl_Busy p i = None
    \<Longrightarrow> pl_Queue p \<noteq> [] \<Longrightarrow> pool_step late cap n p (work_start i p)"
| pool_finish: "\<not> pl_Panic p \<Longrightarrow> i < n \<Longrightarrow> pl_Busy p i \<noteq> None \<Longrightarrow> pool_step late cap n p (work_finish i p)"
| pool_stop: "\<not> pl_Panic p \<Longrightarrow> i < n \<Longrightarrow> i \<notin> set (pl_Stopped p) \<Longrightarrow> pl_Busy p i = None
    \<Longrightarrow> pl_Done p \<or> pl_Closed p \<and> pl_Queue p = [] \<Longrightarrow> pool_step late cap n p (work_stop i p)"
| pool_cancel: "\<not> pl_Panic p \<Longrightarrow> pool_step late cap n p (pool_cancel p)"
| pool_close: "\<not> pl_Panic p \<Longrightarrow> pl_Done p \<Longrightarrow> pool_step late cap n p (pool_close p)"

inductive_cases pool_stepE: "pool_step late cap n p q"

definition pool_reachable :: "bool \<Rightarrow> nat \<Rightarrow> nat \<Rightarrow> 'm pool \<Rightarrow> bool" where
  "pool_reachable late cap n p \<longleftrightarrow> (pool_step late cap n)\<^sup>*\<^sup>* new_pool p"

lemmas pool_ops = offer_def work_start_def work_finish_def work_stop_def pool_close_def pool_cancel_def

section \<open>The handlers that feed the pools\<close>

definition ep_capacity :: nat where
  "ep_capacity = 100"

definition ep_workers :: nat where
  "ep_workers = 5"

definition bs_capacity :: nat where
  "bs_capacity = 1000"

definition bs_workers :: nat where
  "bs_workers = 10"

text \<open>The event processor's subscription handler. Dropping a message logs its block's height, which
  panics on a message without a block.\<close>

definition SubscribeAndHandle_handler :: "json_lib \<Rightarrow> json option \<Rightarrow> block_with_txs pool
    \<Rightarrow> (err + unit) \<times> block_with_txs pool" where
  "SubscribeAndHandle_handler lib message p =
     (case Option.bind message (Unmarshal lib) of
        None \<Rightarrow> (Inl (EMsg ''Failed to unmarshal message''), p)
      | Some m \<Rightarrow>
          if pl_Closed p then (Inl (EPanic ''send on closed channel''), offer ep_capacity m p)
          else if length (pl_Queue p) < ep_capacity then (Inr (), offer ep_capacity m p)
          else if bwt_Block m = None
          then (Inl (EPanic ''nil pointer dereference''), (offer ep_capacity m p)\<lparr>pl_Panic := True\<rparr>)
          else (Inr (), offer ep_capacity m p))"

text \<open>The synchronizer's loop hands a block of the subscription to its pool.\<close>

definition SubscribeAndPush_block :: "block \<Rightarrow> block pool \<Rightarrow> block pool" where
  "SubscribeAndPush_block b p = offer bs_capacity b p"

section \<open>Invariants\<close>

definition busy_mset :: "nat \<Rightarrow> (nat \<rightharpoonup> 'm) \<Rightarrow> 'm multiset" where
  "busy_mset n b = mset (List.map_filter b [0..<n])"

lemma busy_mset_empty [simp]: "busy_mset n Map.empty = {#}"
  by (induction n) (simp_all add: busy_mset_def List.map_filter_def)

lemma busy_mset_Suc:
  "busy_mset (Suc n) b = busy_mset n b + (case b n of None \<Rightarrow> {#} | Some m \<Rightarrow> {#m#})"
  by (simp add: busy_mset_def List.map_filter_def split: option.split)

lemma busy_mset_0 [simp]: "busy_mset 0 b = {#}"
  by (simp add: busy_mset_def List.map_filter_def)

lemma busy_mset_other: "n \<le> i \<Longrightarrow> busy_mset n (b(i := v)) = busy_mset n b"
  by (induction n) (simp_all add: busy_mset_Suc)

lemma busy_mset_start: "i < n \<Longrightarrow> b i = None \<Longrightarrow> busy_mset n (b(i \<mapsto> m)) = add_mset m (busy_mset n b)"
proof (induction n)
  case (Suc n)
  then show ?case by (cases "i = n") (simp_all add: busy_mset_Suc busy_mset_other del: fun_upd_apply, simp_all)
qed simp

lemma busy_mset_finish: "i < n \<Longrightarrow> b i = Some m \<Longrightarrow> add_mset m (busy_mset n (b(i := None))) = busy_mset n b"
proof (induction n)
  case (Suc n)
  then show ?case by (cases "i = n") (simp_all add: busy_mset_Suc busy_mset_other del: fun_upd_apply, simp_all)
qed simp

text \<open>The channel stays within its capacity and is closed only when the context is done; what was
  started is busy or finished; and the messages started and queued, in their order, are the offered
  ones without the dropped ones.\<close>

definition pool_inv :: "bool \<Rightarrow> nat \<Rightarrow> nat \<Rightarrow> 'm pool \<Rightarrow> bool" where
  "pool_inv late cap n p \<longleftrightarrow> length (pl_Queue p) \<le> cap \<and> (pl_Closed p \<longrightarrow> pl_Done p)
     \<and> (pl_Panic p \<longrightarrow> late \<and> pl_Closed p) \<and> (pl_Stopped p \<noteq> [] \<longrightarrow> pl_Done p)
     \<and> (pl_Dropped p = [] \<or> cap < length (pl_Offered p))
     \<and> mset (pl_Started p) = busy_mset n (pl_Busy p) + mset (pl_Finished p)
     \<and> mset (pl_Offered p) = mset (pl_Started p) + mset (pl_Queue p) + mset (pl_Dropped p)
     \<and> subseq (pl_Started p @ pl_Queue p) (pl_Offered p)"

lemma pool_inv_new: "pool_inv late cap n new_pool"
  by (simp add: pool_inv_def new_pool_def)

lemma subseq_snoc: "subseq xs ys \<Longrightarrow> subseq (xs @ [x]) (ys @ [x])"
  by (rule list_emb_append_mono) simp_all

lemma subseq_weaken: "subseq xs ys \<Longrightarrow> subseq xs (ys @ [x])"
  by (rule subseq_order.trans [of _ ys]) (auto intro: list_emb_append2 simp: subseq_append_iff)

lemma pool_inv_step: "pool_step late cap n p q \<Longrightarrow> pool_inv late cap n p \<Longrightarrow> pool_inv late cap n q"
proof (induction rule: pool_step.induct)
  case (pool_offer p m)
  then have "size (mset (pl_Offered p)) = size (mset (pl_Started p) + mset (pl_Queue p) + mset (pl_Dropped p))"
    by (simp only: pool_inv_def)
  then have "length (pl_Queue p) \<le> length (pl_Offered p)" by simp
  then show ?case using pool_offer subseq_snoc [of "pl_Started p @ pl_Queue p" "pl_Offered p" m]
    by (auto simp: pool_inv_def offer_def subseq_weaken)
next
  case (pool_start p i)
  then obtain m q where q: "pl_Queue p = m # q" by (cases "pl_Queue p") auto
  then show ?case using pool_start by (auto simp: pool_inv_def work_start_def busy_mset_start)
next
  case (pool_finish p i)
  then obtain m where m: "pl_Busy p i = Some m" by auto
  then show ?case using pool_finish busy_mset_finish [of i n "pl_Busy p" m]
    by (auto simp: pool_inv_def work_finish_def)
qed (auto simp: pool_inv_def work_stop_def pool_cancel_def pool_close_def)

lemma pool_reachable_inv:
  assumes "pool_reachable late cap n p"
  shows "pool_inv late cap n p"
proof -
  have "(pool_step late cap n)\<^sup>*\<^sup>* new_pool p" using assms by (simp add: pool_reachable_def)
  then show ?thesis by (induction rule: rtranclp_induct) (auto intro: pool_inv_new pool_inv_step)
qed

section \<open>Draining\<close>

lemma drain_busy:
  assumes "pool_inv late cap n p" "\<not> pl_Panic p" "k \<le> n"
  shows "\<exists>q. (pool_step late cap n)\<^sup>*\<^sup>* p q \<and> (\<forall>i < k. pl_Busy q i = None) \<and> pl_Queue q = pl_Queue p
    \<and> pl_Offered q = pl_Offered p \<and> pl_Dropped q = pl_Dropped p \<and> pl_Stopped q = pl_Stopped p \<and> \<not> pl_Panic q"
  using assms(3)
proof (induction k)
  case 0
  then show ?case using assms(2) by auto
next
  case (Suc k)
  then obtain q where q: "(pool_step late cap n)\<^sup>*\<^sup>* p q" "\<forall>i < k. pl_Busy q i = None" "pl_Queue q = pl_Queue p"
    "pl_Offered q = pl_Offered p" "pl_Dropped q = pl_Dropped p" "pl_Stopped q = pl_Stopped p" "\<not> pl_Panic q"
    by auto
  show ?case
  proof (cases "pl_Busy q k")
    case None
    then have "\<forall>i < Suc k. pl_Busy q i = None" using q(2) less_Suc_eq by auto
    then show ?thesis using q by blast
  next
    case (Some m)
    then have "pool_step late cap n q (work_finish k q)" using q(7) Suc.prems by (intro pool_finish) auto
    then have "(pool_step late cap n)\<^sup>*\<^sup>* p (work_finish k q)" using q(1) by simp
    moreover have "\<forall>i < Suc k. pl_Busy (work_finish k q) i = None"
      using q(2) Some by (simp add: work_finish_def less_Suc_eq)
    ultimately show ?thesis using q Some by (intro exI [of _ "work_finish k q"]) (simp add: work_finish_def)
  qed
qed

lemma drain_queue:
  assumes "0 < n" "0 \<notin> set (pl_Stopped p)" "\<not> pl_Panic p" "\<forall>i < n. pl_Busy p i = None"
  shows "\<exists>q. (pool_step late cap n)\<^sup>*\<^sup>* p q \<and> (\<forall>i < n. pl_Busy q i = None) \<and> pl_Queue q = []
    \<and> pl_Offered q = pl_Offered p \<and> pl_Dropped q = pl_Dropped p"
  using assms(2-)
proof (induction "length (pl_Queue p)" arbitrary: p)
  case 0
  then show ?case by auto
next
  case (Suc k)
  then obtain m ms where ms: "pl_Queue p = m # ms" "length ms = k" by (cases "pl_Queue p") auto
  let ?p1 = "work_start 0 p" and ?p2 = "work_finish 0 (work_start 0 p)"
  have "pool_step late cap n p ?p1" using Suc.prems assms(1) ms by (intro pool_start) auto
  moreover have "pool_step late cap n ?p1 ?p2"
    using Suc.prems assms(1) ms by (intro pool_finish) (auto simp: work_start_def)
  ultimately have step: "(pool_step late cap n)\<^sup>*\<^sup>* p ?p2" by simp
  have "k = length (pl_Queue ?p2)" "0 \<notin> set (pl_Stopped ?p2)" "\<not> pl_Panic ?p2" "\<forall>i < n. pl_Busy ?p2 i = None"
    using Suc.prems ms by (simp_all add: work_start_def work_finish_def)
  from Suc.hyps(1) [OF this] obtain q where "(pool_step late cap n)\<^sup>*\<^sup>* ?p2 q"
    "\<forall>i < n. pl_Busy q i = None" "pl_Queue q = []" "pl_Offered q = pl_Offered ?p2" "pl_Dropped q = pl_Dropped ?p2"
    by blast
  moreover have "pl_Offered ?p2 = pl_Offered p" "pl_Dropped ?p2 = pl_Dropped p"
    using ms by (simp_all add: work_start_def work_finish_def)
  ultimately show ?case using step by (metis rtranclp_trans)
qed

lemma busy_mset_idle: "\<forall>i < n. b i = None \<Longrightarrow> busy_mset n b = {#}"
  by (induction n) (simp_all add: busy_mset_Suc)

lemma pool_drains:
  assumes "pool_reachable late cap n p" "\<not> pl_Done p" "0 < n"
  shows "\<exists>q. (pool_step late cap n)\<^sup>*\<^sup>* p q \<and> pl_Offered q = pl_Offered p \<and> pl_Dropped q = pl_Dropped p
    \<and> mset (pl_Offered q) = mset (pl_Finished q) + mset (pl_Dropped q)"
proof -
  note inv = pool_reachable_inv [OF assms(1)]
  have "\<not> pl_Panic p" using inv assms(2) by (auto simp: pool_inv_def)
  then obtain q1 where q1: "(pool_step late cap n)\<^sup>*\<^sup>* p q1" "\<forall>i < n. pl_Busy q1 i = None"
    "pl_Offered q1 = pl_Offered p" "pl_Dropped q1 = pl_Dropped p" "pl_Stopped q1 = pl_Stopped p" "\<not> pl_Panic q1"
    using drain_busy [OF inv _ order_refl] by blast
  have "0 \<notin> set (pl_Stopped q1)" using inv assms(2) q1(5) by (auto simp: pool_inv_def)
  then obtain q where q: "(pool_step late cap n)\<^sup>*\<^sup>* q1 q" "\<forall>i < n. pl_Busy q i = None" "pl_Queue q = []"
    "pl_Offered q = pl_Offered p" "pl_Dropped q = pl_Dropped p"
    using drain_queue [where late = late and cap = cap, OF assms(3) _ q1(6,2)] q1(3,4) by auto
  have steps: "(pool_step late cap n)\<^sup>*\<^sup>* p q" using q1(1) q(1) by (rule rtranclp_trans)
  then have "pool_reachable late cap n q" using assms(1)
    unfolding pool_reachable_def by (meson rtranclp_trans)
  then have "mset (pl_Offered q) = mset (pl_Finished q) + mset (pl_Dropped q)"
    using pool_reachable_inv [of late cap n q] busy_mset_idle [OF q(2)] q(3) by (auto simp: pool_inv_def)
  then show ?thesis using steps q(4,5) by blast
qed

end
