(* ===== verification/Live_Loop.thy ===== *)
theory Live_Loop
  imports Synchronizer Worker_Pool
begin

text \<open>
  \<^verbatim>\<open>SubscribeAndPush\<close> of the block synchronizer as the goroutines it is: the subscription, which sends blocks
  into the channel \<^verbatim>\<open>ch\<close>, the loop, which takes them out and offers them to the worker pool, and the workers.
  A step is one turn of one goroutine, or the end of the context; a \<^verbatim>\<open>select\<close> with more than one case ready
  may take any of them. The loop closes both channels when the context is done. The pool is that of
  \<open>Worker_Pool\<close>, whose \<open>pl_Done\<close> is the state of the context; the last two fields record what happened.
\<close>

section \<open>The goroutines\<close>

datatype sub_phase = SubStart | SubTop | SubReading | SubEnded "err option"

record live =
  lv_Ch :: "block list"
  lv_ChClosed :: bool
  lv_Sub :: sub_phase
  lv_Main :: "err option option"
  lv_Pool :: "block pool"
  lv_Panic :: bool
  lv_Received :: "block list"
  lv_Missed :: "block list"

definition ch_capacity :: nat where
  "ch_capacity = 100"

definition new_live :: live where
  "new_live = \<lparr>lv_Ch = [], lv_ChClosed = False, lv_Sub = SubStart, lv_Main = None, lv_Pool = new_pool,
     lv_Panic = False, lv_Received = [], lv_Missed = []\<rparr>"

text \<open>The \<^verbatim>\<open>select\<close> at the top of the read loop has a default case, so it looks at the context and goes on.\<close>

definition sub_top :: "live \<Rightarrow> live" where
  "sub_top l = l\<lparr>lv_Sub := (if pl_Done (lv_Pool l) then SubEnded (Some ECanceled) else SubReading)\<rparr>"

text \<open>\<^verbatim>\<open>select { case ch <- block: case <-ctx.Done(): default: }\<close>: a closed channel is ready, and the send panics.
  \<open>pick\<close> is the choice of the runtime when both cases are ready.\<close>

definition sub_select :: "bool \<Rightarrow> block \<Rightarrow> live \<Rightarrow> live" where
  "sub_select pick b l =
     (let ready = lv_ChClosed l \<or> length (lv_Ch l) < ch_capacity; canceled = pl_Done (lv_Pool l);
          l1 = l\<lparr>lv_Received := lv_Received l @ [b]\<rparr> in
      if ready \<and> \<not> (canceled \<and> pick) then
        (if lv_ChClosed l then l1\<lparr>lv_Panic := True, lv_Missed := lv_Missed l @ [b]\<rparr>
         else l1\<lparr>lv_Ch := lv_Ch l @ [b], lv_Sub := SubTop\<rparr>)
      else if canceled then l1\<lparr>lv_Sub := SubEnded (Some ECanceled), lv_Missed := lv_Missed l @ [b]\<rparr>
      else l1\<lparr>lv_Sub := SubTop, lv_Missed := lv_Missed l @ [b]\<rparr>)"

definition sub_read :: "'s bs_service \<Rightarrow> string \<Rightarrow> ws_read \<Rightarrow> bool \<Rightarrow> bool \<Rightarrow> live \<Rightarrow> live" where
  "sub_read sv sid r pong pick l =
     (case r of
        WsClosed \<Rightarrow> l\<lparr>lv_Sub := SubEnded None\<rparr>
      | WsTimeout \<Rightarrow> l\<lparr>lv_Sub := SubTop\<rparr>
      | WsFailed \<Rightarrow> l\<lparr>lv_Sub := SubEnded (Some (EMsg ''failed to read WebSocket message''))\<rparr>
      | WsFrame msg \<Rightarrow>
          (case classify sv sid msg of
             FSkip \<Rightarrow> l\<lparr>lv_Sub := SubTop\<rparr>
           | FPing \<Rightarrow> l\<lparr>lv_Sub := (if pong then SubTop else SubEnded (Some (EMsg ''failed to send pong'')))\<rparr>
           | FError \<Rightarrow> l\<lparr>lv_Sub := SubEnded (Some (EMsg ''subscription error''))\<rparr>
           | FComplete \<Rightarrow> l\<lparr>lv_Sub := SubEnded None\<rparr>
           | FBlock b \<Rightarrow> sub_select pick b l))"

text \<open>The loop: the context is done, a block arrived, or the channel is closed.\<close>

definition main_canceled :: "live \<Rightarrow> live" where
  "main_canceled l = l\<lparr>lv_ChClosed := True, lv_Pool := pool_close (lv_Pool l), lv_Main := Some (Some ECanceled)\<rparr>"

definition main_receive :: "live \<Rightarrow> live" where
  "main_receive l = (case lv_Ch l of [] \<Rightarrow> l
     | b # q \<Rightarrow> l\<lparr>lv_Ch := q, lv_Pool := SubscribeAndPush_block b (lv_Pool l)\<rparr>)"

definition main_closed :: "live \<Rightarrow> live" where
  "main_closed l = l\<lparr>lv_Pool := pool_close (lv_Pool l), lv_Main := Some None\<rparr>"

definition on_pool :: "(block pool \<Rightarrow> block pool) \<Rightarrow> live \<Rightarrow> live" where
  "on_pool f l = l\<lparr>lv_Pool := f (lv_Pool l)\<rparr>"

definition live_up :: "live \<Rightarrow> bool" where
  "live_up l \<longleftrightarrow> \<not> lv_Panic l \<and> \<not> pl_Panic (lv_Pool l)"

definition waiting :: "nat \<Rightarrow> live \<Rightarrow> bool" where
  "waiting i l \<longleftrightarrow> i < bs_workers \<and> i \<notin> set (pl_Stopped (lv_Pool l)) \<and> pl_Busy (lv_Pool l) i = None"

inductive live_step :: "'s bs_service \<Rightarrow> string \<Rightarrow> live \<Rightarrow> live \<Rightarrow> bool" for sv sid where
  live_connect: "live_up l \<Longrightarrow> lv_Sub l = SubStart \<Longrightarrow> live_step sv sid l (l\<lparr>lv_Sub := SubTop\<rparr>)"
| live_refused: "live_up l \<Longrightarrow> lv_Sub l = SubStart \<Longrightarrow> live_step sv sid l (l\<lparr>lv_Sub := SubEnded (Some e)\<rparr>)"
| live_top: "live_up l \<Longrightarrow> lv_Sub l = SubTop \<Longrightarrow> live_step sv sid l (sub_top l)"
| live_read: "live_up l \<Longrightarrow> lv_Sub l = SubReading \<Longrightarrow> live_step sv sid l (sub_read sv sid r pong pick l)"
| live_canceled: "live_up l \<Longrightarrow> lv_Main l = None \<Longrightarrow> pl_Done (lv_Pool l) \<Longrightarrow> live_step sv sid l (main_canceled l)"
| live_receive: "live_up l \<Longrightarrow> lv_Main l = None \<Longrightarrow> lv_Ch l \<noteq> [] \<Longrightarrow> live_step sv sid l (main_receive l)"
| live_closed: "live_up l \<Longrightarrow> lv_Main l = None \<Longrightarrow> lv_ChClosed l \<Longrightarrow> lv_Ch l = []
    \<Longrightarrow> live_step sv sid l (main_closed l)"
| live_start: "live_up l \<Longrightarrow> waiting i l \<Longrightarrow> pl_Queue (lv_Pool l) \<noteq> []
    \<Longrightarrow> live_step sv sid l (on_pool (work_start i) l)"
| live_finish: "live_up l \<Longrightarrow> i < bs_workers \<Longrightarrow> pl_Busy (lv_Pool l) i \<noteq> None
    \<Longrightarrow> live_step sv sid l (on_pool (work_finish i) l)"
| live_stop: "live_up l \<Longrightarrow> waiting i l
    \<Longrightarrow> pl_Done (lv_Pool l) \<or> pl_Closed (lv_Pool l) \<and> pl_Queue (lv_Pool l) = []
    \<Longrightarrow> live_step sv sid l (on_pool (work_stop i) l)"
| live_cancel: "live_up l \<Longrightarrow> live_step sv sid l (on_pool pool_cancel l)"

definition live_reachable :: "'s bs_service \<Rightarrow> string \<Rightarrow> live \<Rightarrow> bool" where
  "live_reachable sv sid l \<longleftrightarrow> (live_step sv sid)\<^sup>*\<^sup>* new_live l"

section \<open>Invariants\<close>

text \<open>The loop alone closes the channels, and only when the context is done; what was received is, in its
  order, what the pool was offered and what waits in \<^verbatim>\<open>ch\<close>, less what was missed.\<close>

definition live_inv :: "live \<Rightarrow> bool" where
  "live_inv l \<longleftrightarrow> (lv_ChClosed l \<longleftrightarrow> lv_Main l \<noteq> None) \<and> (pl_Closed (lv_Pool l) \<longleftrightarrow> lv_Main l \<noteq> None)
     \<and> lv_Main l \<noteq> Some None \<and> (lv_Panic l \<longrightarrow> lv_ChClosed l) \<and> length (lv_Ch l) \<le> ch_capacity
     \<and> mset (lv_Received l) = mset (pl_Offered (lv_Pool l)) + mset (lv_Ch l) + mset (lv_Missed l)
     \<and> subseq (pl_Offered (lv_Pool l) @ lv_Ch l) (lv_Received l)
     \<and> pool_inv False bs_capacity bs_workers (lv_Pool l)"

lemma live_inv_new: "live_inv new_live"
  using pool_inv_new [of False bs_capacity bs_workers] by (simp add: live_inv_def new_live_def, simp add: new_pool_def)

lemma sub_select_inv: "live_inv l \<Longrightarrow> live_inv (sub_select pick b l)"
  using subseq_snoc [of "pl_Offered (lv_Pool l) @ lv_Ch l" "lv_Received l" b]
  by (auto simp: live_inv_def sub_select_def Let_def subseq_weaken)

lemma offer_record:
  "\<not> pl_Closed p \<Longrightarrow> pl_Offered (offer cap b p) = pl_Offered p @ [b]"
  "pl_Closed (offer cap b p) = pl_Closed p" "pl_Done (offer cap b p) = pl_Done p"
  by (auto simp: offer_def)

lemma pool_records:
  "pl_Offered (work_start i p) = pl_Offered p" "pl_Closed (work_start i p) = pl_Closed p"
  "pl_Offered (work_finish i p) = pl_Offered p" "pl_Closed (work_finish i p) = pl_Closed p"
  "pl_Offered (work_stop i p) = pl_Offered p" "pl_Closed (work_stop i p) = pl_Closed p"
  "pl_Offered (pool_cancel p) = pl_Offered p" "pl_Closed (pool_cancel p) = pl_Closed p"
  "pl_Done (work_start i p) = pl_Done p" "pl_Done (work_finish i p) = pl_Done p" "pl_Done (work_stop i p) = pl_Done p"
  by (auto simp: work_start_def work_finish_def work_stop_def pool_cancel_def split: list.split option.split)

lemma live_inv_step:
  assumes "live_step sv sid l l'" "live_inv l"
  shows "live_inv l'"
proof -
  note pool = pool_inv_step [of False bs_capacity bs_workers "lv_Pool l"]
  have inv: "pool_inv False bs_capacity bs_workers (lv_Pool l)" using assms(2) by (simp add: live_inv_def)
  have on: "live_inv (on_pool f l)"
    if "pool_step False bs_capacity bs_workers (lv_Pool l) (f (lv_Pool l))"
      "pl_Offered (f (lv_Pool l)) = pl_Offered (lv_Pool l)" "pl_Closed (f (lv_Pool l)) = pl_Closed (lv_Pool l)" for f
    using assms(2) pool [OF that(1) inv] that(2,3) by (auto simp: live_inv_def on_pool_def)
  show ?thesis using assms(1)
  proof cases
    case live_connect
    then show ?thesis using assms(2) by (auto simp: live_inv_def)
  next
    case live_refused
    then show ?thesis using assms(2) by (auto simp: live_inv_def)
  next
    case live_top
    then show ?thesis using assms(2) by (auto simp: live_inv_def sub_top_def)
  next
    case (live_read r pong pick)
    then show ?thesis using assms(2) sub_select_inv [OF assms(2)]
      by (auto simp: sub_read_def live_inv_def split: ws_read.split frame.split)
  next
    case live_canceled
    then have "pool_step False bs_capacity bs_workers (lv_Pool l) (pool_close (lv_Pool l))"
      by (intro pool_close) (simp_all add: live_up_def)
    then show ?thesis using live_canceled assms(2) pool inv
      by (auto simp: live_inv_def main_canceled_def pool_close_def)
  next
    case live_receive
    then obtain b q where q: "lv_Ch l = b # q" by (cases "lv_Ch l") auto
    have opened: "\<not> pl_Closed (lv_Pool l)" using live_receive assms(2) by (simp add: live_inv_def)
    then have "pool_step False bs_capacity bs_workers (lv_Pool l) (offer bs_capacity b (lv_Pool l))"
      using live_receive by (intro pool_offer) (simp_all add: live_up_def)
    then show ?thesis using live_receive q opened assms(2) pool inv
      by (auto simp: live_inv_def main_receive_def SubscribeAndPush_block_def offer_record)
  next
    case live_closed
    then show ?thesis using assms(2) by (auto simp: live_inv_def)
  next
    case (live_start i)
    then show ?thesis using on [of "work_start i"] pool_start [of "lv_Pool l" i bs_workers]
      by (auto simp: live_up_def waiting_def pool_records)
  next
    case (live_finish i)
    then show ?thesis using on [of "work_finish i"] pool_finish [of "lv_Pool l" i bs_workers]
      by (auto simp: live_up_def pool_records)
  next
    case (live_stop i)
    then show ?thesis using on [of "work_stop i"] pool_stop [of "lv_Pool l" i bs_workers]
      by (auto simp: live_up_def waiting_def pool_records)
  next
    case live_cancel
    then show ?thesis using on [of pool_cancel] pool_cancel [of "lv_Pool l"]
      by (auto simp: live_up_def pool_records)
  qed
qed

lemma live_reachable_inv: "live_reachable sv sid l \<Longrightarrow> live_inv l"
  unfolding live_reachable_def by (induction rule: rtranclp_induct) (auto intro: live_inv_new live_inv_step)

section \<open>The end of the subscription\<close>

lemma ended_step:
  assumes "live_step sv sid l l'" "live_inv l" "lv_Sub l = SubEnded e" "\<not> pl_Done (lv_Pool l')"
  shows "lv_Sub l' = SubEnded e \<and> lv_Received l' = lv_Received l"
  using assms
  by cases (auto simp: live_inv_def main_receive_def SubscribeAndPush_block_def offer_record on_pool_def pool_records
    pool_cancel_def main_canceled_def pool_close_def split: list.splits)

lemma done_stays: "live_step sv sid l l' \<Longrightarrow> pl_Done (lv_Pool l) \<Longrightarrow> pl_Done (lv_Pool l')"
  by (erule live_step.cases)
    (auto simp: sub_top_def sub_read_def sub_select_def Let_def main_receive_def SubscribeAndPush_block_def
      offer_record on_pool_def pool_records pool_cancel_def main_canceled_def main_closed_def pool_close_def
      split: list.splits ws_read.splits frame.splits)

lemma not_done_open: "live_inv l \<Longrightarrow> \<not> pl_Done (lv_Pool l) \<Longrightarrow> lv_Main l = None \<and> \<not> lv_Panic l \<and> \<not> pl_Panic (lv_Pool l)"
  by (auto simp: live_inv_def pool_inv_def)

lemma ended_forever:
  assumes "(live_step sv sid)\<^sup>*\<^sup>* l l'" "live_inv l" "lv_Sub l = SubEnded e" "\<not> pl_Done (lv_Pool l')"
  shows "lv_Main l' = None \<and> lv_Sub l' = SubEnded e \<and> lv_Received l' = lv_Received l"
proof -
  have "live_inv l' \<and> (\<not> pl_Done (lv_Pool l') \<longrightarrow> lv_Sub l' = SubEnded e \<and> lv_Received l' = lv_Received l)"
    using assms(1)
  proof (induction rule: rtranclp_induct)
    case (step y z)
    then show ?case using live_inv_step [of sv sid y z] ended_step [of sv sid y z e] done_stays [of sv sid y z] by auto
  qed (use assms in simp)
  then show ?thesis using assms(4) not_done_open [of l'] by simp
qed

section \<open>Shutdown\<close>

text \<open>The subscription waits for a message, the context ends, the loop closes \<^verbatim>\<open>ch\<close>, and the message arrives.\<close>

lemma shutdown_panics:
  assumes "classify sv sid msg = FBlock b"
  shows "\<exists>l. live_reachable sv sid l \<and> lv_Panic l"
proof -
  let ?l1 = "new_live\<lparr>lv_Sub := SubTop\<rparr>"
  let ?l2 = "sub_top ?l1"
  let ?l3 = "on_pool pool_cancel ?l2"
  let ?l4 = "main_canceled ?l3"
  let ?l5 = "sub_read sv sid (WsFrame msg) True False ?l4"
  have up: "live_up new_live" "live_up ?l1" "live_up ?l2" "live_up ?l3" "live_up ?l4"
    by (simp_all add: live_up_def new_live_def sub_top_def on_pool_def main_canceled_def pool_cancel_def
      pool_close_def new_pool_def)
  have 1: "live_step sv sid new_live ?l1" by (rule live_connect [OF up(1)]) (simp add: new_live_def)
  have 2: "live_step sv sid ?l1 ?l2" by (rule live_top [OF up(2)]) simp
  have 3: "live_step sv sid ?l2 ?l3" by (rule live_cancel [OF up(3)])
  have 4: "live_step sv sid ?l3 ?l4"
    by (rule live_canceled [OF up(4)]) (simp_all add: on_pool_def sub_top_def new_live_def pool_cancel_def)
  have 5: "live_step sv sid ?l4 ?l5"
    by (rule live_read [OF up(5)]) (simp add: on_pool_def sub_top_def new_live_def main_canceled_def new_pool_def)
  have "(live_step sv sid)\<^sup>*\<^sup>* new_live ?l5"
    by (rule converse_rtranclp_into_rtranclp [of "live_step sv sid", OF 1], rule converse_rtranclp_into_rtranclp [of "live_step sv sid", OF 2],
      rule converse_rtranclp_into_rtranclp [of "live_step sv sid", OF 3], rule converse_rtranclp_into_rtranclp [of "live_step sv sid", OF 4],
      rule r_into_rtranclp [of "live_step sv sid", OF 5])
  moreover have "lv_Panic ?l5"
    using assms by (simp add: sub_read_def sub_select_def main_canceled_def)
  ultimately show ?thesis by (auto simp: live_reachable_def)
qed

end
