(* ===== verification/Publishing.thy ===== *)
theory Publishing
  imports World Live_Loop
begin

text \<open>
  Properties of the block synchronizer: what the restorer and the live path publish, the message
  format, the subscription, and the loop that hands its blocks to the workers.
\<close>

section \<open>The message format\<close>

text \<open>
  C13. Round trip of a message: what the synchronizer marshals the event processor unmarshals to the
  same block and transactions, for messages of valid UTF-8, 64-bit integers and decoded values.
\<close>

theorem message_round_trip:
  assumes "json_lib_ok lib" "bwt_ok lib m" "Marshal lib m = Some j"
  shows "Unmarshal lib j = Some m"
  by (rule Marshal_back [OF assms])

theorem message_round_trip_witness:
  "\<exists>j. Marshal demo_lib (demo_message [demo_event ''Mint'' [] ''g1a'' ''5'']) = Some j
    \<and> Unmarshal demo_lib j = Some (demo_message [demo_event ''Mint'' [] ''g1a'' ''5''])"
proof -
  let ?m = "demo_message [demo_event ''Mint'' [] ''g1a'' ''5'']"
  have ok: "bwt_ok demo_lib ?m"
    by (simp add: bwt_ok_def demo_defs block_ok_def transaction_ok_def response_ok_def event_ok_def
      str_ok_def demo_lib_def in_int64_def min_int64_def max_int64_def)
  have "Marshal demo_lib ?m \<noteq> None"
    by (simp add: Marshal_def json_obj_def demo_defs json_block_def json_transaction_def json_leaves
      json_gas_fee_def json_response_def json_event_def json_attr_def demo_lib_def demo_float_def
      in_int64_def min_int64_def max_int64_def)
  then show ?thesis using message_round_trip [OF demo_lib_ok ok] by blast
qed

section \<open>Restoring\<close>

text \<open>
  C2. A restore that succeeds has handed to the broker every block above the checkpoint up to the latest
  height, each with all its transactions, when the endpoint's chain has no gap there.
\<close>

theorem restore_publishes_all:
  assumes "block_source sv good chain txs sent chk" "good s" "in_int64 (chk s)"
    "height + 200 \<le> max_int64" "gapless (chain s) (chk s) height"
    "restore_from sv height s = (Inr (), s')"
    "b \<in> set (chain s)" "chk s < b_Height b" "b_Height b \<le> height"
    "Marshal (bs_json sv) \<lparr>bwt_Block = Some b,
       bwt_Transactions = filter (\<lambda>t. tx_BlockHeight t = b_Height b) (txs s)\<rparr> = Some j"
  shows "(topicBlockWithTxs, j) \<in> set (sent s')"
proof -
  have s': "sent s' = sent s @ wire sv (assemble (restored (chain s) height (chk s)) (txs s))"
    using block_source.restore_sent [OF assms(1-4,6)] by auto
  have "b \<in> set (restored (chain s) height (chk s))" by (rule restored_covers [OF assms(5,7-9)])
  then show ?thesis using in_wire [OF _ assms(10)] by (force simp: s' assemble_def)
qed

lemma world_window:
  assumes "world_good w" "in_int64 (i + 101)" "restore_window world_service i w = (r, w')"
  shows "r = Inr (in_window i 100 (world_chain w) \<noteq> [])"
proof -
  have "r \<noteq> Inl e" for e
  proof -
    obtain u w2 where S: "RepositoryBsEnt_SaveRestoringHistory world_client i (i + 100) w = (u, w2)" by fastforce
    have "u = Inr ()"
      using sql_driver_up.SaveRestoringHistory_answer [OF world.sql_driver_up_axioms assms(1) [unfolded world_good_def] S]
      by blast
    then show ?thesis using assms(3) S
      by (auto simp: restore_window_def PollBlocks_def PollTransactions_def world_blocks_def
        world_transactions_def RepositoryBsEnt_def split: if_splits)
  qed
  then show ?thesis using world_source.window_step [OF assms] by (cases r) (auto split: bool.splits)
qed

lemma world_load:
  assumes "world_good w"
  obtains w1 where "GetNotSequentialBlockNum (bs_repoBs world_service) n w = (Inr (world_chk w), w1)"
    "world_good w1" "world_chain w1 = world_chain w"
proof -
  obtain q w1 where G: "RepositoryBsEnt_GetNotSequentialBlockNum world_client n w = (q, w1)" by fastforce
  have q: "q = Inr (world_chk w)" by (rule world_get_chk [OF assms [unfolded world_good_def] G])
  have G2: "GetNotSequentialBlockNum (bs_repoBs world_service) n w = (Inr (world_chk w), w1)"
    using G q by (simp add: RepositoryBsEnt_def)
  show thesis using that G2 world_source.load [OF assms G2] by blast
qed

lemma demo_restore: "\<exists>w'. restore_from world_service 3 demo_world = (Inr (), w')"
proof -
  obtain w1 where G: "GetNotSequentialBlockNum (bs_repoBs world_service) 3 demo_world = (Inr (world_chk demo_world), w1)"
    "world_good w1" "world_chain w1 = world_chain demo_world"
    by (rule world_load [OF demo_world_good(1)])
  obtain r w2 where W: "restore_window world_service 1 w1 = (r, w2)" by fastforce
  have "r = Inr True" using world_window [OF G(2) _ W] G(3)
    by (simp add: demo_chain demo_sync_block_def in_window_def in_int64_def min_int64_def max_int64_def)
  then have "restore_loop world_service 3 1 w1 = (Inr (), w2)"
    using W by (simp add: restore_loop.simps [of _ _ 1] restore_loop.simps [of _ _ 101])
  then show ?thesis using G(1) by (simp add: restore_from_def demo_world_good(2))
qed

theorem restore_publishes_all_witness:
  "\<exists>w' j. restore_from world_service 3 demo_world = (Inr (), w') \<and> (topicBlockWithTxs, j) \<in> set (wd_sent w')
    \<and> Marshal demo_lib \<lparr>bwt_Block = Some (demo_sync_block 2),
      bwt_Transactions = [(demo_tx ''t2'' [])\<lparr>tx_BlockHeight := 2\<rparr>]\<rparr> = Some j"
proof -
  obtain w' where R: "restore_from world_service 3 demo_world = (Inr (), w')" using demo_restore by blast
  have txs: "filter (\<lambda>t. tx_BlockHeight t = 2) (wd_txs demo_world) = [(demo_tx ''t2'' [])\<lparr>tx_BlockHeight := 2\<rparr>]"
    by (simp add: demo_world_def)
  have "Marshal demo_lib \<lparr>bwt_Block = Some (demo_sync_block 2),
      bwt_Transactions = [(demo_tx ''t2'' [])\<lparr>tx_BlockHeight := 2\<rparr>]\<rparr> \<noteq> None"
    by (simp add: Marshal_def json_obj_def demo_tx_def demo_sync_block_def json_block_def json_transaction_def
      json_leaves json_gas_fee_def json_response_def json_event_def json_attr_def demo_lib_def demo_float_def
      in_int64_def min_int64_def max_int64_def)
  then obtain j where j: "Marshal demo_lib \<lparr>bwt_Block = Some (demo_sync_block 2),
      bwt_Transactions = [(demo_tx ''t2'' [])\<lparr>tx_BlockHeight := 2\<rparr>]\<rparr> = Some j" by blast
  have "(topicBlockWithTxs, j) \<in> set (wd_sent w')"
    by (rule restore_publishes_all [OF world_source.block_source_axioms demo_world_good(1) _ _ _ R,
          of "demo_sync_block 2"])
      (use j txs in \<open>auto simp: demo_world_good demo_chain demo_sync_block_def gapless_def in_int64_def
        min_int64_def max_int64_def\<close>)
  then show ?thesis using R j by blast
qed

text \<open>
  C3. The checkpoint never runs ahead of the messages: however a restore ends, an error in any call
  included, every block above the old checkpoint up to the new one has been handed to the broker.
\<close>

theorem checkpoint_never_ahead:
  assumes "block_source sv good chain txs sent chk" "good s" "in_int64 (chk s)"
    "height + 200 \<le> max_int64" "restore_from sv height s = (r, s')"
    "b \<in> set (chain s)" "chk s < b_Height b" "b_Height b \<le> chk s'"
    "Marshal (bs_json sv) \<lparr>bwt_Block = Some b,
       bwt_Transactions = filter (\<lambda>t. tx_BlockHeight t = b_Height b) (txs s)\<rparr> = Some j"
  shows "(topicBlockWithTxs, j) \<in> set (sent s')"
proof -
  obtain bs where bs: "sent s' = sent s @ wire sv (assemble bs (txs s))" "b \<in> set bs"
    using block_source.restore_sent [OF assms(1-5)] assms(6-8) by blast
  then show ?thesis using in_wire [OF _ assms(9)] by (force simp: assemble_def)
qed

lemma demo_restore_far: "\<exists>w'. restore_from world_service 103 demo_far = (Inr (), w') \<and> world_chk w' = 101"
proof -
  obtain w1 where G: "GetNotSequentialBlockNum (bs_repoBs world_service) 103 demo_far = (Inr (world_chk demo_far), w1)"
    "world_good w1" "world_chain w1 = world_chain demo_far"
    by (rule world_load [OF demo_far_good(1)])
  obtain r w2 where W: "restore_window world_service 1 w1 = (r, w2)" by fastforce
  have r: "r = Inr True" using world_window [OF G(2) _ W] G(3)
    by (simp add: demo_far_chain demo_sync_block_def in_window_def in_int64_def min_int64_def max_int64_def)
  have w2: "world_good w2" "world_chain w2 = world_chain demo_far"
    using world_source.window_step [OF G(2) _ W] r G(3)
    by (simp_all add: in_int64_def min_int64_def max_int64_def)
  obtain q w3 where V: "restore_window world_service 101 w2 = (q, w3)" by fastforce
  have q: "q = Inr True" using world_window [OF w2(1) _ V] w2(2)
    by (simp add: demo_far_chain demo_sync_block_def in_window_def in_int64_def min_int64_def max_int64_def)
  have "world_chk w3 = 101" using world_source.window_step [OF w2(1) _ V] q
    by (simp add: in_int64_def min_int64_def max_int64_def)
  moreover have "restore_loop world_service 103 1 w1 = (Inr (), w3)"
    using W r V q by (simp add: restore_loop.simps [of _ _ 1] restore_loop.simps [of _ _ 101]
      restore_loop.simps [of _ _ 201])
  ultimately show ?thesis using G(1) by (simp add: restore_from_def demo_far_good(2))
qed

theorem checkpoint_never_ahead_witness:
  "\<exists>w' j. restore_from world_service 103 demo_far = (Inr (), w') \<and> world_chk w' = 101
    \<and> (topicBlockWithTxs, j) \<in> set (wd_sent w')
    \<and> Marshal demo_lib \<lparr>bwt_Block = Some (demo_sync_block 2), bwt_Transactions = []\<rparr> = Some j"
proof -
  obtain w' where R: "restore_from world_service 103 demo_far = (Inr (), w')" "world_chk w' = 101"
    using demo_restore_far by blast
  have "Marshal demo_lib \<lparr>bwt_Block = Some (demo_sync_block 2), bwt_Transactions = []\<rparr> \<noteq> None"
    by (simp add: Marshal_def json_obj_def demo_sync_block_def json_block_def json_leaves demo_lib_def
      in_int64_def min_int64_def max_int64_def)
  then obtain j where j: "Marshal demo_lib \<lparr>bwt_Block = Some (demo_sync_block 2), bwt_Transactions = []\<rparr> = Some j"
    by blast
  have txs: "wd_txs demo_far = []" by (simp add: demo_far_def)
  have "(topicBlockWithTxs, j) \<in> set (wd_sent w')"
    by (rule checkpoint_never_ahead [OF world_source.block_source_axioms demo_far_good(1) _ _ R(1),
          of "demo_sync_block 2"])
      (use j txs R(2) in \<open>simp_all add: demo_far_good demo_far_chain demo_sync_block_def in_int64_def
        min_int64_def max_int64_def\<close>)
  then show ?thesis using R j by blast
qed

text \<open>
  The windows start strictly above the checkpoint: no restore publishes a block at or below it. With
  no checkpoint stored the repository answers 1, so block 1 is never restored.
\<close>

lemma restore_skips_start:
  assumes "block_source sv good chain txs sent chk" "good s" "in_int64 (chk s)"
    "height + 200 \<le> max_int64" "restore_from sv height s = (Inr (), s')"
  shows "\<exists>ms. sent s' = sent s @ wire sv ms \<and> (\<forall>m \<in> set ms. \<exists>b \<in> set (chain s). bwt_Block m = Some b \<and> chk s < b_Height b)"
proof -
  have s': "sent s' = sent s @ wire sv (assemble (restored (chain s) height (chk s)) (txs s))"
    using block_source.restore_sent [OF assms] by auto
  have "\<forall>m \<in> set (assemble (restored (chain s) height (chk s)) (txs s)).
      \<exists>b \<in> set (chain s). bwt_Block m = Some b \<and> chk s < b_Height b"
    using restored_above by (fastforce simp: assemble_def)
  then show ?thesis using s' by blast
qed

text \<open>
  C25. The live path polls the transactions above the block's height: the message of a new block carries
  the transactions of the next height and none of its own.
\<close>

theorem live_block_gets_next_transactions:
  assumes "block_source sv good chain txs sent chk" "good s" "in_int64 (b_Height b)" "in_int64 (b_Height b + 2)"
    "bs_processBlockWithTransactions sv b s = (Inr (), s')"
  shows "\<exists>j. sent s' = sent s @ [(topicBlockWithTxs, j)] \<and> Marshal (bs_json sv) \<lparr>bwt_Block = Some b,
      bwt_Transactions = filter (\<lambda>t. tx_BlockHeight t = b_Height b + 1) (txs s)\<rparr> = Some j"
  by (rule block_source.live_sent(2) [OF assms(1,2,4,3,5)]) simp

theorem live_block_gets_next_transactions_witness:
  "\<exists>w' j. bs_processBlockWithTransactions world_service (demo_sync_block 2) demo_world = (Inr (), w')
    \<and> wd_sent w' = [(topicBlockWithTxs, j)] \<and> Marshal demo_lib \<lparr>bwt_Block = Some (demo_sync_block 2),
      bwt_Transactions = [(demo_tx ''t3'' [])\<lparr>tx_BlockHeight := 3\<rparr>]\<rparr> = Some j"
proof -
  have "Marshal demo_lib \<lparr>bwt_Block = Some (demo_sync_block 2),
      bwt_Transactions = [(demo_tx ''t3'' [])\<lparr>tx_BlockHeight := 3\<rparr>]\<rparr> \<noteq> None"
    by (simp add: Marshal_def json_obj_def demo_tx_def demo_sync_block_def json_block_def json_transaction_def
      json_leaves json_gas_fee_def json_response_def json_event_def json_attr_def demo_lib_def demo_float_def
      in_int64_def min_int64_def max_int64_def)
  then have "fst (bs_processBlockWithTransactions world_service (demo_sync_block 2) demo_world) = Inr ()"
    by (auto simp: bs_processBlockWithTransactions_def PollTransactions_def world_transactions_def
      world_publish_def demo_world_def in_int64_def min_int64_def max_int64_def demo_sync_block_def)
  then obtain w' where P: "bs_processBlockWithTransactions world_service (demo_sync_block 2) demo_world = (Inr (), w')"
    by (metis prod.collapse)
  show ?thesis
    using live_block_gets_next_transactions [OF world_source.block_source_axioms demo_world_good(1) _ _ P] P
    by (simp add: demo_world_def demo_sync_block_def in_int64_def min_int64_def max_int64_def)
qed

text \<open>
  A restore ignores what the broker answers: with a broker that refuses every message it returns
  the same answer and leaves the same state, its checkpoint included. The blocks of all windows but the
  last are then at or below the new checkpoint, where no later restore looks.
\<close>

lemma refused_publications_are_ignored:
  "restore_from (refusing e sv) height s = restore_from sv height s"
  unfolding restore_from_def refusing_fields restore_loop_refusing by (rule refl)

section \<open>The subscription\<close>

lemma ws_once: "ws_loop sv sid True ts ch = (r, ch') \<Longrightarrow> ch' = ch \<or> (\<exists>b. ch' = ch @ [b] \<and> r = WsReturned None)"
  by (induction ts arbitrary: ch) (auto split: if_splits ws_read.splits frame.splits)

text \<open>
  With the \<^verbatim>\<open>once\<close> flag the subscription hands on at most one block, and returns without an error as
  soon as it has.
\<close>

lemma subscribe_once:
  "length (snd (SubscribeLastestBlock sv c True)) \<le> 1
    \<and> (snd (SubscribeLastestBlock sv c True) = [] \<or> fst (SubscribeLastestBlock sv c True) = WsReturned None)"
proof -
  obtain r ch where W: "ws_loop sv (wc_ID c) True (wc_Turns c) [] = (r, ch)" by fastforce
  show ?thesis using ws_once [OF W] W by (auto simp: SubscribeLastestBlock_def split: option.split)
qed





definition demo_next :: "int \<Rightarrow> (string \<times> any) list" where
  "demo_next h = [(''type'', AStr ''next''), (''payload'', AMap [(''data'', AMap [(''getBlocks'',
     AMap [(''hash'', AStr (''h'' @ show_int h)), (''height'', AInt h), (''time'', AStr (show_int h))])])])]"



lemma demo_classify:
  "in_int64 h \<Longrightarrow> classify world_service ''sub'' (demo_next h) = FBlock (demo_sync_block h)"
  "classify world_service ''sub'' [(''type'', AStr ''ping'')] = FPing"
  "classify world_service ''sub'' [(''type'', AStr ''complete'')] = FComplete"
  by (simp_all add: classify_def next_frame_def demo_next_def frame_block_def getString_def getInt_def
    world_service_def bs_NewService_def demo_lib_def parse_show_int demo_sync_block_def)


text \<open>
  A restore waits for ever when the subscription ends, or is closed, before a block arrived and the
  context is never done: nobody closes the channel it waits on. The branch for a closed channel is
  unreachable.
\<close>

lemma restore_waits_after_complete:
  assumes "list_all (\<lambda>t. \<not> wt_Done t \<and> wt_Read t = WsTimeout) ts" "\<not> wt_Done t"
    "wt_Read t = WsClosed \<or> (\<exists>m. wt_Read t = WsFrame m \<and> classify sv (wc_ID c) m = FComplete)"
    "wc_UrlOk c" "wc_DialOk c" "wc_InitOk c" "wc_Ack c = Some ack"
    "map_of ack ''type'' = Some (AStr ''connection_ack'')" "wc_SubscribeOk c" "wc_Turns c = ts @ t # us"
  shows "RestoreMissingBlockAndTransactions sv c False s = None"
proof -
  have "ws_loop sv (wc_ID c) True (ts @ t # us) [] = (WsReturned None, [])"
    using assms(1) by (induction ts) (use assms(2,3) in auto)
  then show ?thesis using assms(4-10)
    by (simp add: RestoreMissingBlockAndTransactions_def SubscribeLastestBlock_def)
qed

section \<open>The live loop\<close>



text \<open>
  C31. The shutdown of the live path can crash the service: when the context ends, \<^verbatim>\<open>SubscribeAndPush\<close> closes the
  channel its subscription still sends on. A block that arrives then makes both cases of the \<^verbatim>\<open>select\<close> ready, and
  the send on the closed channel panics if the runtime takes it.
\<close>

theorem live_shutdown_panics:
  assumes "classify sv sid msg = FBlock b"
  shows "\<exists>l. live_reachable sv sid l \<and> lv_Panic l"
  by (rule shutdown_panics [OF assms])

theorem live_shutdown_panics_witness:
  "\<exists>l. live_reachable world_service ''sub'' l \<and> lv_Panic l"
  by (rule live_shutdown_panics [OF demo_classify(1) [of 5]]) (simp add: in_int64_def min_int64_def max_int64_def)



end
