(* ===== verification/Broker.thy ===== *)
theory Broker
  imports Worker_Pool
begin

text \<open>
  The message broker (\<^verbatim>\<open>externals/msgbroker/msgbroker_localstack.go\<close>): topics and queues created on
  demand over SNS and SQS, a poller per subscriber, and the handling of one received message. The AWS
  calls are third-party: \<open>'s aws\<close> holds them as operations on a remote state \<open>'s\<close>. The mutex makes
  \<^verbatim>\<open>Publish\<close> and \<^verbatim>\<open>Subscribe\<close> atomic.
\<close>

section \<open>State\<close>

text \<open>A received message: its receipt handle and its body. \<open>aw_ParseEnvelope\<close> is \<^verbatim>\<open>json.Unmarshal\<close> of a
  body into the SNS envelope: an error, or the value of its \<^verbatim>\<open>Message\<close> member (empty when the member is
  absent).\<close>

record 's aws =
  aw_CreateTopic :: "string \<Rightarrow> ('s, string) io"
  aw_CreateQueue :: "string \<Rightarrow> ('s, string) io"
  aw_GetQueueArn :: "string \<Rightarrow> ('s, string) io"
  aw_SetQueuePolicy :: "string \<Rightarrow> string \<Rightarrow> string \<Rightarrow> ('s, unit) io"
  aw_SnsSubscribe :: "string \<Rightarrow> string \<Rightarrow> ('s, unit) io"
  aw_SnsPublish :: "string \<Rightarrow> string \<Rightarrow> ('s, unit) io"
  aw_Receive :: "string \<Rightarrow> ('s, (string \<times> string) list) io"
  aw_Delete :: "string \<Rightarrow> string \<Rightarrow> ('s, unit) io"
  aw_DeleteQueue :: "string \<Rightarrow> ('s, unit) io"
  aw_DeleteTopic :: "string \<Rightarrow> ('s, unit) io"
  aw_QueueName :: "string \<Rightarrow> 's \<Rightarrow> string"
  aw_ParseEnvelope :: "string \<Rightarrow> string option"

record 's msgbroker =
  mb_topicArns :: "string \<rightharpoonup> string"
  mb_queueUrls :: "string \<rightharpoonup> string"
  mb_subscribers :: "string \<Rightarrow> nat"
  mb_pollers :: "(string \<times> string) list"
  mb_remote :: 's

definition NewMsgBroker :: "'s \<Rightarrow> 's msgbroker" where
  "NewMsgBroker s = \<lparr>mb_topicArns = Map.empty, mb_queueUrls = Map.empty, mb_subscribers = (\<lambda>t. 0),
     mb_pollers = [], mb_remote = s\<rparr>"

text \<open>A remote call made by the broker.\<close>

definition remote :: "('s, 'a) io \<Rightarrow> ('s msgbroker, 'a) io" where
  "remote f m = (case f (mb_remote m) of (r, s) \<Rightarrow> (r, m\<lparr>mb_remote := s\<rparr>))"

section \<open>Operations\<close>

definition createTopic :: "'s aws \<Rightarrow> string \<Rightarrow> ('s msgbroker, string) io" where
  "createTopic aw topic = remote (aw_CreateTopic aw topic)"

definition createQueue :: "'s aws \<Rightarrow> string \<Rightarrow> ('s msgbroker, string) io" where
  "createQueue aw name = remote (aw_CreateQueue aw name)"

text \<open>The part \<^verbatim>\<open>Publish\<close> and \<^verbatim>\<open>Subscribe\<close> share: the topic's ARN, created and remembered if new.\<close>

definition ensure_topic :: "'s aws \<Rightarrow> string \<Rightarrow> ('s msgbroker, string) io" where
  "ensure_topic aw topic m =
     (case mb_topicArns m topic of Some arn \<Rightarrow> (Inr arn, m)
      | None \<Rightarrow>
        (case createTopic aw topic m of
           (Inl e, m') \<Rightarrow> (Inl (EWrap ''failed to create topic'' e), m')
         | (Inr arn, m') \<Rightarrow> (Inr arn, m'\<lparr>mb_topicArns := (mb_topicArns m')(topic \<mapsto> arn)\<rparr>)))"

definition Publish :: "'s aws \<Rightarrow> string \<Rightarrow> string \<Rightarrow> ('s msgbroker, unit) io" where
  "Publish aw topic message m =
     (case ensure_topic aw topic m of
        (Inl e, m') \<Rightarrow> (Inl e, m')
      | (Inr arn, m') \<Rightarrow> io_wrapped ''failed to publish message to topic'' (remote (aw_SnsPublish aw arn message)) m')"

definition subscribeQueueToTopic :: "'s aws \<Rightarrow> string \<Rightarrow> string \<Rightarrow> ('s msgbroker, unit) io" where
  "subscribeQueueToTopic aw topicArn queueUrl =
     io_then (io_wrapped ''failed to get queue attributes'' (remote (aw_GetQueueArn aw queueUrl))) (\<lambda>queueArn.
     io_then (io_wrapped ''failed to set queue policy'' (remote (aw_SetQueuePolicy aw queueUrl queueArn topicArn))) (\<lambda>_.
     io_wrapped ''failed to subscribe to topic'' (remote (aw_SnsSubscribe aw topicArn queueArn))))"

text \<open>The handler is registered and its poller started only after the queue is subscribed; a queue that
  was created before a later step failed stays.\<close>

definition Subscribe :: "'s aws \<Rightarrow> string \<Rightarrow> ('s msgbroker, unit) io" where
  "Subscribe aw topic m =
     (case ensure_topic aw topic m of
        (Inl e, m1) \<Rightarrow> (Inl e, m1)
      | (Inr arn, m1) \<Rightarrow>
          (let name = aw_QueueName aw topic (mb_remote m1) in
           case createQueue aw name m1 of
             (Inl e, m2) \<Rightarrow> (Inl (EWrap ''failed to create queue for topic'' e), m2)
           | (Inr url, m2) \<Rightarrow>
               (let m3 = m2\<lparr>mb_queueUrls := (mb_queueUrls m2)(name \<mapsto> url)\<rparr> in
                case subscribeQueueToTopic aw arn url m3 of
                  (Inl e, m4) \<Rightarrow> (Inl (EWrap ''failed to subscribe queue to topic'' e), m4)
                | (Inr _, m4) \<Rightarrow>
                    (Inr (), m4\<lparr>mb_subscribers := (mb_subscribers m4)(topic := mb_subscribers m4 topic + 1),
                       mb_pollers := mb_pollers m4 @ [(topic, url)]\<rparr>))))"

text \<open>One received message: unwrapped, handed to the handler (over its own state \<open>'h\<close>), and deleted
  when the handler has no error. A body that is not an SNS envelope is handed on as it is.\<close>

definition message_body :: "'s aws \<Rightarrow> string \<Rightarrow> string" where
  "message_body aw body = (case aw_ParseEnvelope aw body of None \<Rightarrow> body | Some x \<Rightarrow> x)"

definition processMessage :: "'s aws \<Rightarrow> (string \<Rightarrow> ('h, unit) io) \<Rightarrow> string \<Rightarrow> string \<times> string
    \<Rightarrow> 'h \<times> 's \<Rightarrow> 'h \<times> 's" where
  "processMessage aw handler queueUrl msg = (\<lambda>(h, s).
     (case handler (message_body aw (snd msg)) h of
        (Inl e, h') \<Rightarrow> (h', s)
      | (Inr _, h') \<Rightarrow> (h', snd (aw_Delete aw queueUrl (fst msg) s))))"

fun process_batch :: "'s aws \<Rightarrow> (string \<Rightarrow> ('h, unit) io) \<Rightarrow> string \<Rightarrow> (string \<times> string) list
    \<Rightarrow> 'h \<times> 's \<Rightarrow> 'h \<times> 's" where
  "process_batch aw handler queueUrl [] st = st"
| "process_batch aw handler queueUrl (msg # msgs) st =
     process_batch aw handler queueUrl msgs (processMessage aw handler queueUrl msg st)"

text \<open>The poller: a turn per element of the list, which says whether the context is done at its start; a
  receive error is logged and retried.\<close>

fun pollMessages :: "'s aws \<Rightarrow> (string \<Rightarrow> ('h, unit) io) \<Rightarrow> string \<Rightarrow> bool list \<Rightarrow> 'h \<times> 's \<Rightarrow> 'h \<times> 's" where
  "pollMessages aw handler queueUrl [] st = st"
| "pollMessages aw handler queueUrl (done # turns) st =
     (if done then st
      else case aw_Receive aw queueUrl (snd st) of
        (Inl e, s') \<Rightarrow> pollMessages aw handler queueUrl turns (fst st, s')
      | (Inr msgs, s') \<Rightarrow> pollMessages aw handler queueUrl turns
          (process_batch aw handler queueUrl msgs (fst st, s')))"

text \<open>\<^verbatim>\<open>cleanup\<close> deletes every queue and topic it knows; failures are logged.\<close>

fun delete_all :: "(string \<Rightarrow> ('s, unit) io) \<Rightarrow> string list \<Rightarrow> 's \<Rightarrow> 's" where
  "delete_all f [] s = s"
| "delete_all f (x # xs) s = delete_all f xs (snd (f x s))"

definition cleanup :: "'s aws \<Rightarrow> string list \<Rightarrow> string list \<Rightarrow> 's msgbroker \<Rightarrow> 's msgbroker" where
  "cleanup aw queueUrls topicArns m = m\<lparr>mb_remote :=
     delete_all (aw_DeleteTopic aw) topicArns (delete_all (aw_DeleteQueue aw) queueUrls (mb_remote m))\<rparr>"

section \<open>What the queues promise\<close>

text \<open>The documented behaviour of SNS and SQS the broker relies on: a queue subscribed to a topic gets
  every message published to it, in an envelope; receiving leaves a message in the queue; a message
  goes only when it is deleted by its receipt handle. \<open>stored\<close> are the messages of a queue, \<open>subs\<close> the
  subscriptions.\<close>

locale pubsub =
  fixes aw :: "'s aws" and stored :: "'s \<Rightarrow> string \<Rightarrow> (string \<times> string) set"
    and subs :: "'s \<Rightarrow> (string \<times> string) set" and qarn :: "string \<Rightarrow> string"
  assumes create_topic: "aw_CreateTopic aw topic s = (rs, s') \<Longrightarrow> stored s' = stored s \<and> subs s' = subs s"
    and create_queue: "aw_CreateQueue aw name s = (rs, s') \<Longrightarrow> (\<forall>u. stored s u \<subseteq> stored s' u) \<and> subs s' = subs s"
    and queue_arn: "aw_GetQueueArn aw u s = (rs, s') \<Longrightarrow>
      stored s' = stored s \<and> subs s' = subs s \<and> (\<forall>a. rs = Inr a \<longrightarrow> a = qarn u)"
    and set_policy: "aw_SetQueuePolicy aw u a arn s = (ru, s') \<Longrightarrow> stored s' = stored s \<and> subs s' = subs s"
    and sns_subscribe: "aw_SnsSubscribe aw arn a s = (ru, s') \<Longrightarrow>
      stored s' = stored s \<and> subs s \<subseteq> subs s' \<and> (ru = Inr () \<longrightarrow> (arn, a) \<in> subs s')"
    and sns_publish: "aw_SnsPublish aw arn x s = (ru, s') \<Longrightarrow>
      subs s' = subs s \<and> (\<forall>u. stored s u \<subseteq> stored s' u)
      \<and> (ru = Inr () \<longrightarrow> (\<forall>u. (arn, qarn u) \<in> subs s \<longrightarrow>
          (\<exists>r b. (r, b) \<in> stored s' u \<and> aw_ParseEnvelope aw b = Some x)))"
    and receive: "aw_Receive aw u s = (rm, s') \<Longrightarrow>
      stored s' = stored s \<and> subs s' = subs s \<and> (\<forall>ms. rm = Inr ms \<longrightarrow> set ms \<subseteq> stored s u)"
    and delete: "aw_Delete aw u h s = (ru, s') \<Longrightarrow> subs s' = subs s
      \<and> (\<forall>v. v \<noteq> u \<longrightarrow> stored s' v = stored s v)
      \<and> stored s' u = (if ru = Inr () then {m \<in> stored s u. fst m \<noteq> h} else stored s u)"
    and receipts: "(h, b) \<in> stored s u \<Longrightarrow> (h, b') \<in> stored s u \<Longrightarrow> b = b'"
begin

text \<open>Every poller's queue is subscribed to its topic.\<close>

definition broker_inv :: "'s msgbroker \<Rightarrow> bool" where
  "broker_inv m \<longleftrightarrow> (\<forall>(t, u) \<in> set (mb_pollers m). \<exists>arn. mb_topicArns m t = Some arn
     \<and> (arn, qarn u) \<in> subs (mb_remote m))"

lemma broker_inv_new: "broker_inv (NewMsgBroker s)"
  by (simp add: broker_inv_def NewMsgBroker_def)

lemma broker_inv_mono:
  assumes "broker_inv m" "mb_pollers m' = mb_pollers m" "mb_topicArns m \<subseteq>\<^sub>m mb_topicArns m'"
    "subs (mb_remote m) \<subseteq> subs (mb_remote m')"
  shows "broker_inv m'"
proof -
  have "\<exists>arn. mb_topicArns m' t = Some arn \<and> (arn, qarn u) \<in> subs (mb_remote m')"
    if tu: "(t, u) \<in> set (mb_pollers m')" for t u
  proof -
    have "(t, u) \<in> set (mb_pollers m)" using tu assms(2) by simp
    then obtain arn where arn: "mb_topicArns m t = Some arn" "(arn, qarn u) \<in> subs (mb_remote m)"
      using assms(1) unfolding broker_inv_def by blast
    have "mb_topicArns m' t = Some arn" using assms(3) arn(1) by (metis domI map_le_def)
    then show ?thesis using arn(2) assms(4) by blast
  qed
  then show ?thesis unfolding broker_inv_def by blast
qed

lemma ensure_topic_inv:
  assumes "ensure_topic aw topic m = (r, m')" "broker_inv m"
  shows "broker_inv m'" "mb_pollers m' = mb_pollers m" "r = Inr arn \<Longrightarrow> mb_topicArns m' topic = Some arn"
    "mb_topicArns m topic = Some arn \<Longrightarrow> r = Inr arn \<and> m' = m"
    "subs (mb_remote m') = subs (mb_remote m)" "stored (mb_remote m') = stored (mb_remote m)"
proof -
  have all: "broker_inv m' \<and> mb_pollers m' = mb_pollers m \<and> (\<forall>arn. r = Inr arn \<longrightarrow> mb_topicArns m' topic = Some arn)
    \<and> (\<forall>arn. mb_topicArns m topic = Some arn \<longrightarrow> r = Inr arn \<and> m' = m)
    \<and> subs (mb_remote m') = subs (mb_remote m) \<and> stored (mb_remote m') = stored (mb_remote m)"
  proof (cases "mb_topicArns m topic")
    case (Some a)
    then show ?thesis using assms by (auto simp: ensure_topic_def)
  next
    case None
    obtain q s' where C: "aw_CreateTopic aw topic (mb_remote m) = (q, s')" by fastforce
    note law = create_topic [OF C]
    show ?thesis
    proof (cases q)
      case (Inl e)
      have "broker_inv (m\<lparr>mb_remote := s'\<rparr>)" by (rule broker_inv_mono [OF assms(2)]) (simp_all add: law)
      moreover have "r = Inl (EWrap ''failed to create topic'' e)" "m' = m\<lparr>mb_remote := s'\<rparr>"
        using assms(1) None C Inl by (simp_all add: ensure_topic_def createTopic_def remote_def)
      ultimately show ?thesis using None law by simp
    next
      case (Inr a)
      have le: "mb_topicArns m \<subseteq>\<^sub>m (mb_topicArns m)(topic \<mapsto> a)" using None by (auto simp: map_le_def)
      have "broker_inv (m\<lparr>mb_remote := s', mb_topicArns := (mb_topicArns m)(topic \<mapsto> a)\<rparr>)"
        by (rule broker_inv_mono [OF assms(2)]) (use le in \<open>simp_all add: law\<close>)
      moreover have "r = Inr a" "m' = m\<lparr>mb_remote := s', mb_topicArns := (mb_topicArns m)(topic \<mapsto> a)\<rparr>"
        using assms(1) None C Inr by (simp_all add: ensure_topic_def createTopic_def remote_def)
      ultimately show ?thesis using None law by simp
    qed
  qed
  show "broker_inv m'" "mb_pollers m' = mb_pollers m" "r = Inr arn \<Longrightarrow> mb_topicArns m' topic = Some arn"
    "mb_topicArns m topic = Some arn \<Longrightarrow> r = Inr arn \<and> m' = m"
    "subs (mb_remote m') = subs (mb_remote m)" "stored (mb_remote m') = stored (mb_remote m)"
    using all by blast+
qed

lemma Publish_inv:
  assumes "Publish aw topic x m = (r, m')" "broker_inv m"
  shows "broker_inv m'" "mb_pollers m' = mb_pollers m"
    "r = Inr () \<Longrightarrow> (topic, u) \<in> set (mb_pollers m)
      \<Longrightarrow> \<exists>h b. (h, b) \<in> stored (mb_remote m') u \<and> message_body aw b = x"
    "stored (mb_remote m) v \<subseteq> stored (mb_remote m') v"
proof -
  obtain q m1 where E: "ensure_topic aw topic m = (q, m1)" by fastforce
  note e = ensure_topic_inv [OF E assms(2)]
  have all: "broker_inv m' \<and> mb_pollers m' = mb_pollers m
    \<and> (r = Inr () \<longrightarrow> (topic, u) \<in> set (mb_pollers m)
      \<longrightarrow> (\<exists>h b. (h, b) \<in> stored (mb_remote m') u \<and> message_body aw b = x))
    \<and> stored (mb_remote m) v \<subseteq> stored (mb_remote m') v"
  proof (cases q)
    case (Inl er)
    then show ?thesis using assms E e by (auto simp: Publish_def)
  next
    case (Inr arn)
    obtain p s2 where P: "aw_SnsPublish aw arn x (mb_remote m1) = (p, s2)" by fastforce
    note law = sns_publish [OF P]
    have m': "m' = m1\<lparr>mb_remote := s2\<rparr>" "r = Inr () \<longleftrightarrow> p = Inr ()"
      using assms(1) E Inr P by (auto simp: Publish_def io_wrapped_def remote_def split: sum.splits)
    have "broker_inv m'" unfolding m'(1) by (rule broker_inv_mono [OF e(1)]) (simp_all add: law)
    moreover have "\<exists>h b. (h, b) \<in> stored s2 u \<and> message_body aw b = x"
      if r: "r = Inr ()" and u: "(topic, u) \<in> set (mb_pollers m)"
    proof -
      have "mb_topicArns m1 topic = Some arn" by (rule e(3) [OF Inr])
      then have "(arn, qarn u) \<in> subs (mb_remote m1)"
        using e(1,2) u by (fastforce simp: broker_inv_def)
      then obtain h b where "(h, b) \<in> stored s2 u" "aw_ParseEnvelope aw b = Some x"
        using law m'(2) r by blast
      then show ?thesis by (intro exI [of _ h] exI [of _ b]) (simp add: message_body_def)
    qed
    ultimately show ?thesis using e(2,6) law m'(1) by auto
  qed
  show "broker_inv m'" "mb_pollers m' = mb_pollers m" "stored (mb_remote m) v \<subseteq> stored (mb_remote m') v"
    "r = Inr () \<Longrightarrow> (topic, u) \<in> set (mb_pollers m)
      \<Longrightarrow> \<exists>h b. (h, b) \<in> stored (mb_remote m') u \<and> message_body aw b = x"
    using all by blast+
qed

lemma subscribeQueueToTopic_step:
  assumes "subscribeQueueToTopic aw arn u m = (r, m')"
  shows "\<exists>s'. m' = m\<lparr>mb_remote := s'\<rparr> \<and> subs (mb_remote m) \<subseteq> subs s' \<and> (r = Inr () \<longrightarrow> (arn, qarn u) \<in> subs s')"
proof -
  obtain qa s1 where A: "aw_GetQueueArn aw u (mb_remote m) = (qa, s1)" by fastforce
  note a = queue_arn [OF A]
  show ?thesis
  proof (cases qa)
    case (Inl e)
    then show ?thesis using assms A a
      by (auto simp: subscribeQueueToTopic_def io_then_def io_wrapped_def remote_def)
  next
    case (Inr w)
    then have w: "w = qarn u" using a by simp
    obtain qp s2 where P: "aw_SetQueuePolicy aw u w arn s1 = (qp, s2)" by fastforce
    note p = set_policy [OF P]
    show ?thesis
    proof (cases qp)
      case (Inl e)
      then show ?thesis using assms A a P p Inr
        by (auto simp: subscribeQueueToTopic_def io_then_def io_wrapped_def remote_def)
    next
      case (Inr v)
      obtain qs s3 where S: "aw_SnsSubscribe aw arn w s2 = (qs, s3)" by fastforce
      note s = sns_subscribe [OF S]
      have "m' = m\<lparr>mb_remote := s3\<rparr>" "r = Inr () \<longleftrightarrow> qs = Inr ()"
        using assms A P S Inr \<open>qa = Inr w\<close>
        by (auto simp: subscribeQueueToTopic_def io_then_def io_wrapped_def remote_def split: sum.splits)
      then show ?thesis using a p s w by auto
    qed
  qed
qed

lemma Subscribe_inv:
  assumes "Subscribe aw topic m = (r, m')" "broker_inv m"
  shows "broker_inv m' \<and> (if r = Inr () then \<exists>u. mb_pollers m' = mb_pollers m @ [(topic, u)]
      else mb_pollers m' = mb_pollers m)"
proof -
  obtain q m1 where E: "ensure_topic aw topic m = (q, m1)" by fastforce
  note e = ensure_topic_inv [OF E assms(2)]
  show ?thesis
  proof (cases q)
    case (Inl er)
    then show ?thesis using assms E e by (auto simp: Subscribe_def)
  next
    case (Inr arn)
    let ?n = "aw_QueueName aw topic (mb_remote m1)"
    obtain qu s2 where C: "aw_CreateQueue aw ?n (mb_remote m1) = (qu, s2)" by fastforce
    note c = create_queue [OF C]
    show ?thesis
    proof (cases qu)
      case (Inl er)
      have "broker_inv (m1\<lparr>mb_remote := s2\<rparr>)" by (rule broker_inv_mono [OF e(1)]) (simp_all add: c)
      then show ?thesis using assms E e C Inl Inr by (auto simp: Subscribe_def createQueue_def remote_def)
    next
      case (Inr url)
      let ?m3 = "m1\<lparr>mb_remote := s2, mb_queueUrls := (mb_queueUrls m1)(?n \<mapsto> url)\<rparr>"
      obtain qs m4 where S: "subscribeQueueToTopic aw arn url ?m3 = (qs, m4)" by fastforce
      obtain s4 where s4: "m4 = ?m3\<lparr>mb_remote := s4\<rparr>" "subs s2 \<subseteq> subs s4" "qs = Inr () \<longrightarrow> (arn, qarn url) \<in> subs s4"
        using subscribeQueueToTopic_step [OF S] by auto
      have inv4: "broker_inv m4" unfolding s4(1) by (rule broker_inv_mono [OF e(1)]) (use s4(2) c in auto)
      have arn: "mb_topicArns m4 topic = Some arn" using e(3) [OF \<open>q = Inr arn\<close>] s4(1) by simp
      show ?thesis
      proof (cases qs)
        case (Inl er)
        then show ?thesis using assms E e C Inr S inv4 s4(1) \<open>q = Inr arn\<close>
          by (auto simp: Subscribe_def createQueue_def remote_def Let_def)
      next
        case (Inr u)
        then have m': "r = Inr ()" "m' = m4\<lparr>mb_subscribers := (mb_subscribers m4)(topic := mb_subscribers m4 topic + 1),
            mb_pollers := mb_pollers m4 @ [(topic, url)]\<rparr>"
          using assms(1) E C S \<open>q = Inr arn\<close> \<open>qu = Inr url\<close>
          by (simp_all add: Subscribe_def createQueue_def remote_def Let_def)
        have "broker_inv m'" using inv4 arn s4 Inr unfolding m'(2) broker_inv_def by auto
        then show ?thesis using m' e(2) s4(1) by simp
      qed
    qed
  qed
qed

end

section \<open>Delivery\<close>

text \<open>A handler that keeps what it accepted: the contract between the broker and a subscriber.\<close>

locale accepting_handler =
  fixes handler :: "string \<Rightarrow> ('h, unit) io" and decode :: "string \<Rightarrow> 'x option" and seen :: "'h \<Rightarrow> 'x list"
  assumes accepts: "handler x h = (Inr (), h') \<Longrightarrow> \<exists>y. decode x = Some y \<and> seen h' = seen h @ [y]"
    and rejects: "handler x h = (Inl e, h') \<Longrightarrow> set (seen h) \<subseteq> set (seen h')"

locale delivery = pubsub aw stored subs qarn + accepting_handler handler decode seen
  for aw :: "'s aws" and stored subs qarn and handler :: "string \<Rightarrow> ('h, unit) io" and decode :: "string \<Rightarrow> 'x option"
    and seen
begin

text \<open>A message leaves the queue only after the handler has accepted it.\<close>

definition acked :: "string \<Rightarrow> 's \<Rightarrow> 'h \<times> 's \<Rightarrow> bool" where
  "acked u s st \<longleftrightarrow> (\<forall>m \<in> stored s u - stored (snd st) u.
     \<exists>y \<in> set (seen (fst st)). decode (message_body aw (snd m)) = Some y)"

lemma seen_grows: "handler x h = (r, h') \<Longrightarrow> set (seen h) \<subseteq> set (seen h')"
  using accepts rejects by (cases r) fastforce+

lemma processMessage_acked:
  assumes "acked u s0 (h, s)" "msg \<in> stored s0 u" "processMessage aw handler u msg (h, s) = (h', s')"
  shows "acked u s0 (h', s')" "set (seen h) \<subseteq> set (seen h')"
proof -
  obtain r h1 where H: "handler (message_body aw (snd msg)) h = (r, h1)" by fastforce
  have both: "acked u s0 (h', s') \<and> set (seen h) \<subseteq> set (seen h')"
  proof (cases r)
    case (Inl e)
    then have "h' = h1" "s' = s" using assms(3) H by (simp_all add: processMessage_def)
    then show ?thesis using assms(1) seen_grows [OF H] by (auto simp: acked_def)
  next
    case (Inr v)
    obtain d s1 where D: "aw_Delete aw u (fst msg) s = (d, s1)" by fastforce
    have st: "h' = h1" "s' = s1" using assms(3) H D Inr by (simp_all add: processMessage_def)
    obtain y where y: "decode (message_body aw (snd msg)) = Some y" "seen h1 = seen h @ [y]"
      using accepts H Inr by (metis old.unit.exhaust)
    have "\<exists>y \<in> set (seen h1). decode (message_body aw (snd m)) = Some y"
      if m: "m \<in> stored s0 u - stored s1 u" for m
    proof (cases "m \<in> stored s u")
      case True
      then have "fst m = fst msg" using delete [OF D] m by (auto split: if_splits)
      then have "snd m = snd msg" using receipts [of "fst m" "snd m" s0 u "snd msg"] assms(2) m
        by (metis DiffD1 prod.collapse)
      then show ?thesis using y by simp
    next
      case False
      then show ?thesis using assms(1) m y(2) by (auto simp: acked_def)
    qed
    then show ?thesis using st y(2) by (auto simp: acked_def)
  qed
  show "acked u s0 (h', s')" "set (seen h) \<subseteq> set (seen h')" using both by blast+
qed

lemma process_batch_acked:
  "acked u s0 st \<Longrightarrow> set msgs \<subseteq> stored s0 u \<Longrightarrow> acked u s0 (process_batch aw handler u msgs st)"
proof (induction msgs arbitrary: st)
  case (Cons msg msgs)
  obtain h s where st: "st = (h, s)" by fastforce
  obtain h' s' where P: "processMessage aw handler u msg (h, s) = (h', s')" by fastforce
  have "acked u s0 (h', s')" using processMessage_acked(1) [OF _ _ P] Cons.prems st by simp
  then show ?case using Cons.IH [of "(h', s')"] Cons.prems(2) P st by simp
qed simp

lemma process_batch_shrinks: "stored (snd (process_batch aw handler u msgs st)) u \<subseteq> stored (snd st) u"
proof (induction msgs arbitrary: st)
  case (Cons msg msgs)
  obtain h s where st: "st = (h, s)" by fastforce
  obtain h' s' where P: "processMessage aw handler u msg (h, s) = (h', s')" by fastforce
  have "stored s' u \<subseteq> stored s u"
  proof (cases "fst (handler (message_body aw (snd msg)) h)")
    case (Inl e)
    then show ?thesis using P by (auto simp: processMessage_def split: prod.splits)
  next
    case (Inr v)
    then have "s' = snd (aw_Delete aw u (fst msg) s)" using P by (auto simp: processMessage_def split: prod.splits)
    then show ?thesis using delete [of u "fst msg" s "fst (aw_Delete aw u (fst msg) s)" s'] by auto
  qed
  then show ?case using Cons.IH [of "(h', s')"] P st by auto
qed simp

lemma pollMessages_acked:
  "acked u s0 st \<Longrightarrow> stored (snd st) u \<subseteq> stored s0 u \<Longrightarrow> acked u s0 (pollMessages aw handler u turns st)"
proof (induction turns arbitrary: st)
  case (Cons d turns)
  obtain h s where st: "st = (h, s)" by fastforce
  obtain r s1 where R: "aw_Receive aw u s = (r, s1)" by fastforce
  note law = receive [OF R]
  have a1: "acked u s0 (h, s1)" "stored s1 u \<subseteq> stored s0 u" using Cons.prems st law by (simp_all add: acked_def)
  show ?case
  proof (cases d)
    case True
    then show ?thesis using Cons.prems by simp
  next
    case False
    show ?thesis
    proof (cases r)
      case (Inl e)
      then show ?thesis using Cons.IH [of "(h, s1)"] a1 False st R by simp
    next
      case (Inr msgs)
      have "set msgs \<subseteq> stored s0 u" using law Inr Cons.prems(2) st by auto
      note a2 = process_batch_acked [OF a1(1) this]
      have "stored (snd (process_batch aw handler u msgs (h, s1))) u \<subseteq> stored s0 u"
        using process_batch_shrinks [of u msgs "(h, s1)"] a1(2) by auto
      then show ?thesis using Cons.IH [OF a2] False st R Inr by simp
    qed
  qed
qed simp

lemma poll_at_least_once:
  assumes "m \<in> stored s u" "pollMessages aw handler u turns (h, s) = (h', s')" "m \<notin> stored s' u"
  shows "\<exists>y \<in> set (seen h'). decode (message_body aw (snd m)) = Some y"
proof -
  have "acked u s (h, s)" by (simp add: acked_def)
  then have "acked u s (h', s')" using pollMessages_acked [of u s "(h, s)" turns] assms(2) by simp
  then show ?thesis using assms by (auto simp: acked_def)
qed

end

end
