(* ===== verification/Delivery.thy ===== *)
theory Delivery
  imports Broker World
begin

text \<open>
  Properties of the worker pools and the broker, and of both together: from a published message to
  the pool of the event processor. The in-memory queues \<open>mem_aws\<close> stand for SNS and SQS in the
  witnesses.
\<close>

section \<open>Worker pools\<close>

text \<open>
  C18. In every reachable state of a pool the channel is within its capacity, and the offered messages
  are exactly the finished, busy, queued and dropped ones: none is lost otherwise, none is processed
  twice.
\<close>

theorem pool_conserves_messages:
  assumes "pool_reachable late cap n p"
  shows "length (pl_Queue p) \<le> cap \<and>
    mset (pl_Offered p) = mset (pl_Finished p) + busy_mset n (pl_Busy p) + mset (pl_Queue p) + mset (pl_Dropped p)"
  using pool_reachable_inv [OF assms] by (simp add: pool_inv_def ac_simps)

definition demo_pool :: "nat pool" where
  "demo_pool = work_start 0 (offer ep_capacity 8 (offer ep_capacity 7 new_pool))"

lemma demo_pool_reachable: "pool_reachable late ep_capacity ep_workers demo_pool"
proof -
  let ?p1 = "offer ep_capacity (7::nat) new_pool" and ?p2 = "offer ep_capacity 8 (offer ep_capacity (7::nat) new_pool)"
  have "pool_step late ep_capacity ep_workers new_pool ?p1" by (rule pool_offer) (simp_all add: new_pool_def)
  moreover have "pool_step late ep_capacity ep_workers ?p1 ?p2"
    by (rule pool_offer) (simp_all add: new_pool_def offer_def)
  moreover have "pool_step late ep_capacity ep_workers ?p2 demo_pool" unfolding demo_pool_def
    by (rule pool_start) (simp_all add: new_pool_def offer_def ep_workers_def ep_capacity_def)
  ultimately show ?thesis unfolding pool_reachable_def
    by (intro rtranclp.rtrancl_into_rtrancl [OF rtranclp.rtrancl_into_rtrancl [OF r_into_rtranclp]])
qed

theorem pool_conserves_messages_witness:
  "mset (pl_Offered demo_pool) = mset (pl_Finished demo_pool) + busy_mset ep_workers (pl_Busy demo_pool)
    + mset (pl_Queue demo_pool) + mset (pl_Dropped demo_pool) \<and> pl_Offered demo_pool = [7, 8]"
  using pool_conserves_messages [OF demo_pool_reachable]
  by (simp add: demo_pool_def offer_def work_start_def new_pool_def ep_capacity_def)

text \<open>
  Workers start the accepted messages in the order they were offered, whatever the interleaving.
\<close>

lemma pool_starts_in_order:
  assumes "pool_reachable late cap n p"
  shows "subseq (pl_Started p @ pl_Queue p) (pl_Offered p)"
  using pool_reachable_inv [OF assms] by (simp add: pool_inv_def)

text \<open>
  A pool drops nothing before it was offered more messages than its channel holds: 100 in the event
  processor, 1000 in the synchronizer.
\<close>

lemma pool_keeps_a_burst:
  assumes "pool_reachable late cap n p" "length (pl_Offered p) \<le> cap"
  shows "pl_Dropped p = []"
  using pool_reachable_inv [OF assms(1)] assms(2) by (auto simp: pool_inv_def)

text \<open>
  C19. Every accepted message can be processed: from every state reachable before the context is done,
  the workers can go on to a state where all offered messages are finished, except the dropped ones.
\<close>

theorem pool_can_drain:
  assumes "pool_reachable late cap n p" "\<not> pl_Done p" "0 < n"
  shows "\<exists>q. (pool_step late cap n)\<^sup>*\<^sup>* p q \<and> pl_Dropped q = pl_Dropped p
    \<and> mset (pl_Offered p) = mset (pl_Finished q) + mset (pl_Dropped p)"
  using pool_drains [OF assms] by metis

theorem pool_can_drain_witness:
  "\<exists>q. (pool_step True ep_capacity ep_workers)\<^sup>*\<^sup>* demo_pool q \<and> mset (pl_Finished q) = {#7, 8#}"
  using pool_can_drain [OF demo_pool_reachable [of True]]
  by (auto simp: demo_pool_def offer_def work_start_def new_pool_def ep_capacity_def ep_workers_def)

text \<open>
  The synchronizer's pool never panics: its producer closes the channel itself and sends no more.
\<close>

lemma synchronizer_pool_never_panics:
  assumes "pool_reachable False bs_capacity bs_workers p"
  shows "\<not> pl_Panic p"
  using pool_reachable_inv [OF assms] by (simp add: pool_inv_def)

text \<open>
  The event processor can panic on shutdown: \<^verbatim>\<open>SubscribeAndHandle\<close> closes the channel when its context
  is done while the broker's pollers, which run under a context of their own, go on; the handler then
  sends on the closed channel.
\<close>

lemma event_processor_panics_on_shutdown:
  "\<exists>p. pool_reachable True ep_capacity ep_workers p \<and> \<not> pl_Panic p
    \<and> fst (SubscribeAndHandle_handler lib (Some (JObj [])) p) = Inl (EPanic ''send on closed channel'')
    \<and> pl_Panic (snd (SubscribeAndHandle_handler lib (Some (JObj [])) p))"
proof -
  let ?p1 = "pool_cancel (new_pool :: block_with_txs pool)"
  have "pool_step True ep_capacity ep_workers new_pool ?p1"
    by (rule pool_step.pool_cancel) (simp add: new_pool_def)
  moreover have "pool_step True ep_capacity ep_workers ?p1 (pool_close ?p1)"
    by (rule pool_step.pool_close) (simp_all add: new_pool_def pool_cancel_def)
  ultimately have "pool_reachable True ep_capacity ep_workers (pool_close ?p1)"
    unfolding pool_reachable_def by (rule rtranclp.rtrancl_into_rtrancl [OF r_into_rtranclp])
  moreover have "Unmarshal lib (JObj []) = Some \<lparr>bwt_Block = None, bwt_Transactions = []\<rparr>"
    by (simp add: Unmarshal_def get_member_def)
  ultimately show ?thesis
    by (intro exI [of _ "pool_close ?p1"])
      (simp add: SubscribeAndHandle_handler_def pool_ops new_pool_def)
qed

section \<open>In-memory queues\<close>

text \<open>Queues by their URL, which is also their ARN; a message is put into every queue subscribed to its
  topic under a fresh receipt handle, in an envelope.\<close>

record mem_sqs =
  ms_Queues :: "string \<Rightarrow> (string \<times> string) list"
  ms_Subs :: "(string \<times> string) list"

definition fresh_receipt :: "(string \<times> string) list \<Rightarrow> string" where
  "fresh_receipt q = CHR ''r'' # concat (map fst q)"

definition envelope :: "string \<Rightarrow> string" where
  "envelope x = ''sns:'' @ x"

definition mem_sns_publish :: "string \<Rightarrow> string \<Rightarrow> (mem_sqs, unit) io" where
  "mem_sns_publish arn x s = (Inr (), s\<lparr>ms_Queues := (\<lambda>u.
     if (arn, u) \<in> set (ms_Subs s)
     then ms_Queues s u @ [(fresh_receipt (ms_Queues s u), envelope x)] else ms_Queues s u)\<rparr>)"

definition mem_aws :: "mem_sqs aws" where
  "mem_aws = \<lparr>aw_CreateTopic = (\<lambda>t s. (Inr (''arn:'' @ t), s)),
     aw_CreateQueue = (\<lambda>n s. (Inr (''url:'' @ n), s)),
     aw_GetQueueArn = (\<lambda>u s. (Inr u, s)), aw_SetQueuePolicy = (\<lambda>u a arn s. (Inr (), s)),
     aw_SnsSubscribe = (\<lambda>arn a s. (Inr (), s\<lparr>ms_Subs := (arn, a) # ms_Subs s\<rparr>)),
     aw_SnsPublish = mem_sns_publish,
     aw_Receive = (\<lambda>u s. (Inr (take 10 (filter (\<lambda>m. map_of (ms_Queues s u) (fst m) = Some (snd m))
        (ms_Queues s u))), s)),
     aw_Delete = (\<lambda>u h s. (Inr (), s\<lparr>ms_Queues := (ms_Queues s)(u :=
        filter (\<lambda>m. fst m \<noteq> h) (ms_Queues s u))\<rparr>)),
     aw_DeleteQueue = (\<lambda>u s. (Inr (), s)), aw_DeleteTopic = (\<lambda>t s. (Inr (), s)),
     aw_QueueName = (\<lambda>t s. t @ ''-queue-'' @ show_int (int (length (ms_Subs s)))),
     aw_ParseEnvelope = (\<lambda>b. if has_prefix b ''sns:'' then Some (trim_prefix b ''sns:'') else None)\<rparr>"

definition mem_stored :: "mem_sqs \<Rightarrow> string \<Rightarrow> (string \<times> string) set" where
  "mem_stored s u = {(h, b). map_of (ms_Queues s u) h = Some b}"

lemma fresh_receipt_new: "map_of q (fresh_receipt q) = None"
proof -
  have "length (fst m) < length (fresh_receipt q)" if "m \<in> set q" for m
    using that by (induction q) (auto simp: fresh_receipt_def)
  then show ?thesis by (force simp: map_of_eq_None_iff)
qed

lemma parse_envelope: "aw_ParseEnvelope mem_aws (envelope x) = Some x"
proof -
  have "has_prefix (envelope x) ''sns:''" "trim_prefix (envelope x) ''sns:'' = x"
    unfolding envelope_def by (rule has_prefix_append, rule trim_prefix_append)
  then show ?thesis by (simp add: mem_aws_def)
qed

lemma mem_publish_stored:
  assumes "mem_sns_publish arn x s = (r, s')"
  shows "mem_stored s u \<subseteq> mem_stored s' u"
    "(arn, u) \<in> set (ms_Subs s) \<Longrightarrow> (fresh_receipt (ms_Queues s u), envelope x) \<in> mem_stored s' u"
  using assms fresh_receipt_new [of "ms_Queues s u"]
  by (auto simp: mem_sns_publish_def mem_stored_def map_add_Some_iff)

lemma map_of_filter_key: "map_of (filter (\<lambda>m. fst m \<noteq> h) q) k = (if k = h then None else map_of q k)"
  by (induction q) auto

interpretation mem_queue: pubsub mem_aws mem_stored "\<lambda>s. set (ms_Subs s)" "\<lambda>u. u"
proof unfold_locales
  fix arn x s ru s'
  assume "aw_SnsPublish mem_aws arn x s = (ru, s')"
  then have P: "mem_sns_publish arn x s = (ru, s')" by (simp add: mem_aws_def)
  have "ms_Subs s' = ms_Subs s" using P by (auto simp: mem_sns_publish_def)
  then show "set (ms_Subs s') = set (ms_Subs s) \<and> (\<forall>u. mem_stored s u \<subseteq> mem_stored s' u)
    \<and> (ru = Inr () \<longrightarrow> (\<forall>u. (arn, u) \<in> set (ms_Subs s) \<longrightarrow>
        (\<exists>r b. (r, b) \<in> mem_stored s' u \<and> aw_ParseEnvelope mem_aws b = Some x)))"
    using mem_publish_stored [OF P] parse_envelope [of x] by (simp, blast)
next
  fix u s rm s'
  assume "aw_Receive mem_aws u s = (rm, s')"
  then show "mem_stored s' = mem_stored s \<and> set (ms_Subs s') = set (ms_Subs s)
      \<and> (\<forall>ms. rm = Inr ms \<longrightarrow> set ms \<subseteq> mem_stored s u)"
    by (auto simp: mem_aws_def mem_stored_def dest!: in_set_takeD)
next
  fix u h s ru s'
  assume "aw_Delete mem_aws u h s = (ru, s')"
  then show "set (ms_Subs s') = set (ms_Subs s) \<and> (\<forall>v. v \<noteq> u \<longrightarrow> mem_stored s' v = mem_stored s v)
      \<and> mem_stored s' u = (if ru = Inr () then {m \<in> mem_stored s u. fst m \<noteq> h} else mem_stored s u)"
    by (auto simp: mem_aws_def mem_stored_def map_of_filter_key split: if_splits)
qed (auto simp: mem_aws_def mem_stored_def)

section \<open>Delivery to the event processor\<close>

text \<open>The subscription handler over a text: \<open>parse\<close> reads it as a JSON value.\<close>

definition ep_text_handler :: "json_lib \<Rightarrow> (string \<Rightarrow> json option) \<Rightarrow> string \<Rightarrow> (block_with_txs pool, unit) io" where
  "ep_text_handler lib parse x = SubscribeAndHandle_handler lib (parse x)"

definition ep_decode :: "json_lib \<Rightarrow> (string \<Rightarrow> json option) \<Rightarrow> string \<Rightarrow> block_with_txs option" where
  "ep_decode lib parse x = Option.bind (parse x) (Unmarshal lib)"

interpretation ep_handler: accepting_handler "ep_text_handler lib parse" "ep_decode lib parse" pl_Offered
  for lib parse
  by unfold_locales (auto simp: ep_text_handler_def ep_decode_def SubscribeAndHandle_handler_def offer_def
    split: option.splits if_splits)

lemma ep_delivery: "pubsub aw stored subs qarn \<Longrightarrow>
    delivery aw stored subs qarn (ep_text_handler lib parse) (ep_decode lib parse) pl_Offered"
  by (intro delivery.intro ep_handler.accepting_handler_axioms)

interpretation mem_delivery: delivery mem_aws mem_stored "\<lambda>s. set (ms_Subs s)" "\<lambda>u. u"
    "ep_text_handler lib parse" "ep_decode lib parse" pl_Offered for lib parse
  by (rule ep_delivery [OF mem_queue.pubsub_axioms])








text \<open>
  C8. At least once, up to the pool: whatever the poller does, a message leaves its queue only when the
  event processor has decoded it and offered it to its worker pool.
\<close>

theorem message_leaves_only_when_offered:
  assumes "pubsub aw stored subs qarn" "msg \<in> stored s u"
    "pollMessages aw (ep_text_handler lib parse) u turns (p, s) = (p', s')" "msg \<notin> stored s' u"
  shows "\<exists>m \<in> set (pl_Offered p'). Option.bind (parse (message_body aw (snd msg))) (Unmarshal lib) = Some m"
  using delivery.poll_at_least_once [OF ep_delivery [OF assms(1)] assms(2-4)] by (simp add: ep_decode_def)

definition demo_queue :: mem_sqs where
  "demo_queue = \<lparr>ms_Queues = (\<lambda>u. [(''r'', envelope ''text''), (''rr'', envelope ''garbage'')]), ms_Subs = []\<rparr>"

definition demo_parse :: "string \<Rightarrow> json option" where
  "demo_parse x = (if x = ''text'' then Some (JObj []) else None)"

theorem message_leaves_only_when_offered_witness:
  "\<exists>p' s'. pollMessages mem_aws (ep_text_handler demo_lib demo_parse) ''q'' [False] (new_pool, demo_queue) = (p', s')
    \<and> mem_stored s' ''q'' = {(''rr'', envelope ''garbage'')}
    \<and> \<lparr>bwt_Block = None, bwt_Transactions = []\<rparr> \<in> set (pl_Offered p')"
proof -
  obtain p' s' where P: "pollMessages mem_aws (ep_text_handler demo_lib demo_parse) ''q'' [False] (new_pool, demo_queue) = (p', s')"
    by fastforce
  have un: "Unmarshal demo_lib (JObj []) = Some \<lparr>bwt_Block = None, bwt_Transactions = []\<rparr>"
    by (simp add: Unmarshal_def get_member_def)
  have env: "aw_ParseEnvelope mem_aws (envelope x) = Some x" for x by (rule parse_envelope)
  have s': "ms_Queues s' ''q'' = [(''rr'', envelope ''garbage'')]"
    using P by (simp add: processMessage_def message_body_def env)
      (auto simp: mem_aws_def demo_queue_def ep_text_handler_def SubscribeAndHandle_handler_def demo_parse_def un
        new_pool_def ep_capacity_def processMessage_def message_body_def env [unfolded mem_aws_def, simplified])
  have "(''r'', envelope ''text'') \<in> mem_stored demo_queue ''q''" "(''r'', envelope ''text'') \<notin> mem_stored s' ''q''"
    using s' by (simp_all add: mem_stored_def demo_queue_def)
  from message_leaves_only_when_offered [OF mem_queue.pubsub_axioms this(1) P this(2)]
  have "\<lparr>bwt_Block = None, bwt_Transactions = []\<rparr> \<in> set (pl_Offered p')"
    using un by (simp add: message_body_def env demo_parse_def)
  moreover have "mem_stored s' ''q'' = {(''rr'', envelope ''garbage'')}"
    by (auto simp: mem_stored_def s' split: if_splits)
  ultimately show ?thesis using P by blast
qed

text \<open>A message the event processor cannot decode is never deleted: handling it changes neither the pool
  nor the queue, so the queue delivers it again until it expires.\<close>

lemma undecodable_message_stays:
  assumes "Option.bind (parse (message_body aw (snd msg))) (Unmarshal lib) = None"
  shows "processMessage aw (ep_text_handler lib parse) u msg (p, s) = (p, s)"
  using assms by (simp add: processMessage_def ep_text_handler_def SubscribeAndHandle_handler_def)

text \<open>
  A full pool loses messages: the handler answers success for the message it drops, so the broker
  deletes it and nobody will deliver it again.
\<close>

lemma full_pool_loses_message:
  assumes "Option.bind (parse (message_body aw (snd msg))) (Unmarshal lib) = Some m" "bwt_Block m \<noteq> None"
    "\<not> pl_Closed p" "length (pl_Queue p) = ep_capacity"
  shows "processMessage aw (ep_text_handler lib parse) u msg (p, s) =
    (p\<lparr>pl_Offered := pl_Offered p @ [m], pl_Dropped := pl_Dropped p @ [m]\<rparr>, snd (aw_Delete aw u (fst msg) s))"
  using assms by (auto simp: processMessage_def ep_text_handler_def SubscribeAndHandle_handler_def offer_def)

definition demo_full_pool :: "block_with_txs pool" where
  "demo_full_pool = new_pool\<lparr>pl_Queue := replicate 100 (demo_message []), pl_Offered := replicate 100 (demo_message [])\<rparr>"

definition demo_json_block :: json where
  "demo_json_block = JObj [(''block'', JObj [(''hash'', JStr ''h7'')]), (''transactions'', JNull)]"

lemma demo_unmarshal: "Unmarshal lib demo_json_block = Some \<lparr>bwt_Block = Some \<lparr>b_Hash = ''h7'',
    b_Height = 0, b_Time = zero_time, b_TotalTxs = 0, b_NumTxs = 0\<rparr>, bwt_Transactions = []\<rparr>"
  by (simp add: Unmarshal_def demo_json_block_def get_member_def get_block_def)

text \<open>
  The topic is created once: after a publication that succeeded, any later one, to the same topic,
  makes no other remote call than the publication itself.
\<close>

lemma topic_created_once:
  assumes "Publish aw topic x m = (Inr (), m1)"
  shows "\<exists>arn. mb_topicArns m1 topic = Some arn \<and> Publish aw topic y m1 =
    io_wrapped ''failed to publish message to topic'' (remote (aw_SnsPublish aw arn y)) m1"
proof -
  obtain q m2 where E: "ensure_topic aw topic m = (q, m2)" by fastforce
  then obtain arn where arn: "q = Inr arn" using assms by (cases q) (auto simp: Publish_def)
  have m2: "mb_topicArns m2 topic = Some arn"
    using E arn by (auto simp: ensure_topic_def split: option.splits sum.splits prod.splits)
  have "mb_topicArns m1 = mb_topicArns m2"
    using assms E arn by (auto simp: Publish_def io_wrapped_def remote_def split: prod.splits sum.splits)
  then show ?thesis using m2 by (simp add: Publish_def ensure_topic_def)
qed

section \<open>From the synchronizer to the pool\<close>




end
