(* ===== verification/Rest.thy ===== *)
theory Rest
  imports Ledger Message_Codec
begin

text \<open>
  The REST indexer: the service (\<^verbatim>\<open>cmd/indexer-rest/service/service.go\<close>), and the routes and the cache
  of the controller (\<^verbatim>\<open>cmd/indexer-rest/controller/controller.go\<close>).

  The web framework (\<^verbatim>\<open>gin\<close>) and the cache (\<^verbatim>\<open>freecache\<close>) are third-party. A request is its method,
  path and raw query; \<open>QueryValue\<close> is the first value of a query parameter and \<open>BindOk\<close> whether the
  binding of the query succeeds. The cache is a state \<open>'c\<close> with a lookup and a store that may refuse.
\<close>

section \<open>The service\<close>

definition rest_GetTokenBalances :: "'s repository \<Rightarrow> string \<Rightarrow> ('s, token_balance list) io" where
  "rest_GetTokenBalances repo address =
     io_logged ''Failed to get account balances for address'' (GetBalances repo address)"

definition rest_GetTokenAccountBalances :: "'s repository \<Rightarrow> string \<Rightarrow> string \<Rightarrow> ('s, account list) io" where
  "rest_GetTokenAccountBalances repo token address =
     io_logged ''Failed to get token balances for address and token'' (GetAccounts repo address token)"

definition rest_GetTransferHistory :: "'s repository \<Rightarrow> string \<Rightarrow> ('s, transfer list) io" where
  "rest_GetTransferHistory repo address = GetTransfers repo address address []"

section \<open>The controller\<close>

record http_request =
  rq_Method :: string
  rq_Path :: string
  rq_RawQuery :: string

text \<open>Status and body; a handler that writes nothing leaves status 200 and no body.\<close>

record http_response =
  hr_Status :: int
  hr_Body :: "json option"

record ('s, 'c) controller =
  ct_repo :: "'s repository"
  ct_String :: "string \<Rightarrow> string"
  ct_QueryValue :: "string \<Rightarrow> string \<Rightarrow> string"
  ct_BindOk :: "string \<Rightarrow> bool"
  ct_CacheGet :: "string \<Rightarrow> 'c \<Rightarrow> json option"
  ct_CacheSet :: "string \<Rightarrow> json \<Rightarrow> int \<Rightarrow> 'c \<Rightarrow> bool \<times> 'c"

definition respond :: "int \<Rightarrow> json \<Rightarrow> http_response" where
  "respond status body = \<lparr>hr_Status = status, hr_Body = Some body\<rparr>"

definition no_response :: http_response where
  "no_response = \<lparr>hr_Status = 200, hr_Body = None\<rparr>"

definition error_body :: "string \<Rightarrow> json" where
  "error_body msg = JObj [(''error'', JStr msg)]"

definition json_amount :: "float64 \<Rightarrow> json" where
  "json_amount x = JNum (show_int (f64_to_int64 x))"

definition balances_json :: "('s, 'c) controller \<Rightarrow> token_balance list \<Rightarrow> json" where
  "balances_json c bs = JObj [(''balances'', JArr (map (\<lambda>b. JObj
     [(''tokenPath'', JStr (ct_String c (tb_Token b))), (''amount'', json_amount (tb_Amount b))]) bs))]"

definition account_balances_json :: "('s, 'c) controller \<Rightarrow> account list \<Rightarrow> json" where
  "account_balances_json c as = JObj [(''accountBalances'', JArr (map (\<lambda>a. JObj
     [(''address'', JStr (ct_String c (ac_Address a))), (''tokenPath'', JStr (ct_String c (ac_Token a))),
      (''amount'', json_amount (ac_Amount a))]) as))]"

definition transfers_json :: "('s, 'c) controller \<Rightarrow> transfer list \<Rightarrow> json" where
  "transfers_json c ts = JObj [(''transfers'', JArr (map (\<lambda>t. JObj
     [(''fromAddress'', JStr (ct_String c (tr_FromAddress t))),
      (''toAddress'', JStr (ct_String c (tr_ToAddress t))), (''token'', JStr (ct_String c (tr_Token t))),
      (''amount'', json_amount (tr_Amount t))]) ts))]"

definition ct_GetTokenBalances :: "('s, 'c) controller \<Rightarrow> http_request \<Rightarrow> 's \<Rightarrow> http_response \<times> 's" where
  "ct_GetTokenBalances c rq s =
     (if \<not> ct_BindOk c (rq_RawQuery rq) then (respond 400 (error_body ''Invalid request''), s)
      else case rest_GetTokenBalances (ct_repo c) (ct_QueryValue c (rq_RawQuery rq) ''address'') s of
        (Inl e, s') \<Rightarrow> (respond 500 (error_body ''Failed to get account balances''), s')
      | (Inr bs, s') \<Rightarrow> (respond 200 (balances_json c bs), s'))"

text \<open>The other two handlers answer a failed lookup with nothing. The third declares a request struct
  and never binds it: its address is empty.\<close>

definition ct_GetTokenAccountBalances :: "('s, 'c) controller \<Rightarrow> http_request \<Rightarrow> string \<Rightarrow> 's
    \<Rightarrow> http_response \<times> 's" where
  "ct_GetTokenAccountBalances c rq tokenPath s =
     (case rest_GetTokenAccountBalances (ct_repo c) tokenPath (ct_QueryValue c (rq_RawQuery rq) ''address'') s of
        (Inl e, s') \<Rightarrow> (no_response, s')
      | (Inr as, s') \<Rightarrow> (respond 200 (account_balances_json c as), s'))"

definition ct_GetTransferHistory :: "('s, 'c) controller \<Rightarrow> http_request \<Rightarrow> 's \<Rightarrow> http_response \<times> 's" where
  "ct_GetTransferHistory c rq s =
     (let address = [] in
      case rest_GetTransferHistory (ct_repo c) address s of
        (Inl e, s') \<Rightarrow> (no_response, s')
      | (Inr ts, s') \<Rightarrow> (respond 200 (transfers_json c ts), s'))"

text \<open>The parameter \<^verbatim>\<open>any\<close> of the route \<^verbatim>\<open>/tokens/*any\<close> is the rest of the path with its slash.\<close>

definition handleTokenRoutes :: "('s, 'c) controller \<Rightarrow> http_request \<Rightarrow> string \<Rightarrow> 's \<Rightarrow> http_response \<times> 's" where
  "handleTokenRoutes c rq path s =
     (if path = ''/balances'' then ct_GetTokenBalances c rq s
      else if path = ''/transfer-history'' then ct_GetTransferHistory c rq s
      else if has_suffix path ''/balances'' then
        (let tokenPath = trim_suffix path ''/balances'' in
         if tokenPath = [] then (respond 400 (error_body ''Token path cannot be empty''), s)
         else let tokenPath' = (if has_prefix tokenPath ''/'' then trim_prefix tokenPath ''/'' else tokenPath) in
           ct_GetTokenAccountBalances c rq tokenPath' s)
      else (respond 404 (error_body ''endpoint not found''), s))"

text \<open>Only \<^verbatim>\<open>GET /tokens/...\<close> is registered; for anything else the framework answers 404.\<close>

definition route :: "('s, 'c) controller \<Rightarrow> http_request \<Rightarrow> 's \<Rightarrow> http_response \<times> 's" where
  "route c rq s =
     (if rq_Method rq = ''GET'' \<and> has_prefix (rq_Path rq) ''/tokens/''
      then handleTokenRoutes c rq (drop 7 (rq_Path rq)) s
      else (respond 404 (JStr ''404 page not found''), s))"

definition getMemcacheKey :: "http_request \<Rightarrow> string" where
  "getMemcacheKey rq = rq_Path rq @ ''?'' @ rq_RawQuery rq"

definition findFromLocalCache :: "('s, 'c) controller \<Rightarrow> string \<Rightarrow> 'c \<Rightarrow> json option" where
  "findFromLocalCache c key cache = ct_CacheGet c key cache"

text \<open>The two middlewares around the routes: a hit is answered from the cache; a miss runs the handler
  and keeps a non-empty 200 for 60 seconds. A refused store is logged.\<close>

definition serve :: "('s, 'c) controller \<Rightarrow> http_request \<Rightarrow> 's \<times> 'c \<Rightarrow> http_response \<times> 's \<times> 'c" where
  "serve c rq = (\<lambda>(s, cache).
     if rq_Method rq \<noteq> ''GET'' then (case route c rq s of (r, s') \<Rightarrow> (r, s', cache))
     else (case findFromLocalCache c (getMemcacheKey rq) cache of
        Some body \<Rightarrow> (respond 200 body, s, cache)
      | None \<Rightarrow>
          (case route c rq s of (r, s') \<Rightarrow>
             (r, s', case hr_Body r of
                None \<Rightarrow> cache
              | Some body \<Rightarrow> if hr_Status r = 200
                  then snd (ct_CacheSet c (getMemcacheKey rq) body 60 cache) else cache))))"

section \<open>Routing\<close>

lemma trim_suffix_not_empty:
  "has_suffix path sfx \<Longrightarrow> path \<noteq> sfx \<Longrightarrow> trim_suffix path sfx \<noteq> []"
  by (auto simp: has_suffix_def trim_suffix_def)

section \<open>The cache\<close>

text \<open>What the controller relies on: a lookup yields what was stored under the key last, or nothing.\<close>

locale response_cache =
  fixes get :: "string \<Rightarrow> 'c \<Rightarrow> json option" and put :: "string \<Rightarrow> json \<Rightarrow> int \<Rightarrow> 'c \<Rightarrow> bool \<times> 'c"
  assumes get_put: "put k v ttl c = (ok, c') \<Longrightarrow> get k' c' = Some w \<Longrightarrow> (k' = k \<and> w = v) \<or> get k' c = Some w"
begin

definition cached_ok :: "('k \<Rightarrow> json \<Rightarrow> bool) \<Rightarrow> (string \<Rightarrow> 'k) \<Rightarrow> 'c \<Rightarrow> bool" where
  "cached_ok P f c \<longleftrightarrow> (\<forall>k v. get k c = Some v \<longrightarrow> P (f k) v)"

lemma cached_ok_put: "cached_ok P f c \<Longrightarrow> P (f k) v \<Longrightarrow> put k v ttl c = (ok, c') \<Longrightarrow> cached_ok P f c'"
  unfolding cached_ok_def using get_put by blast

end

text \<open>The runs of the server: requests, changes of the database by others, and evictions. \<open>answers\<close>
  collects what the routes answered to which key.\<close>

record ('s, 'c) rest_state =
  rt_db :: 's
  rt_cache :: 'c
  rt_answers :: "(string \<times> http_response) list"

inductive rest_step :: "('s, 'c) controller \<Rightarrow> ('s, 'c) rest_state \<Rightarrow> ('s, 'c) rest_state \<Rightarrow> bool" for c where
  rest_serve: "serve c rq (rt_db st, rt_cache st) = (r, s', cache') \<Longrightarrow>
    rest_step c st \<lparr>rt_db = s', rt_cache = cache', rt_answers =
      (if rq_Method rq = ''GET'' \<and> findFromLocalCache c (getMemcacheKey rq) (rt_cache st) = None
       then (getMemcacheKey rq, r) # rt_answers st else rt_answers st)\<rparr>"
| rest_database: "rest_step c st (st\<lparr>rt_db := s'\<rparr>)"
| rest_evict: "(\<And>k v. ct_CacheGet c k cache' = Some v \<Longrightarrow> ct_CacheGet c k (rt_cache st) = Some v) \<Longrightarrow>
    rest_step c st (st\<lparr>rt_cache := cache'\<rparr>)"

definition rest_inv :: "('s, 'c) controller \<Rightarrow> ('s, 'c) rest_state \<Rightarrow> bool" where
  "rest_inv c st \<longleftrightarrow> (\<forall>k v. ct_CacheGet c k (rt_cache st) = Some v \<longrightarrow> (k, respond 200 v) \<in> set (rt_answers st))"

lemma response_eq: "r = respond 200 b \<longleftrightarrow> hr_Status r = 200 \<and> hr_Body r = Some b"
  by (cases r) (simp add: respond_def)

lemma rest_inv_step:
  assumes "response_cache (ct_CacheGet c) (ct_CacheSet c)" "rest_step c st st'" "rest_inv c st"
  shows "rest_inv c st'"
  using assms(2)
proof cases
  case (rest_serve rq r s' cache')
  show ?thesis
  proof (cases "rq_Method rq = ''GET'' \<and> findFromLocalCache c (getMemcacheKey rq) (rt_cache st) = None")
    case False
    then have "cache' = rt_cache st" using rest_serve(2)
      by (auto simp: serve_def split: prod.splits option.splits if_splits)
    then show ?thesis using assms(3) False rest_serve(1) by (auto simp: rest_inv_def)
  next
    case True
    let ?k = "getMemcacheKey rq"
    have "ct_CacheGet c k cache' = Some v \<Longrightarrow> (k, respond 200 v) \<in> set ((?k, r) # rt_answers st)" for k v
    proof -
      assume g: "ct_CacheGet c k cache' = Some v"
      have "cache' = rt_cache st \<or> (\<exists>b. r = respond 200 b \<and> cache' = snd (ct_CacheSet c ?k b 60 (rt_cache st)))"
        using rest_serve(2) True
        by (auto simp: serve_def response_eq split: prod.splits option.splits if_splits)
      then show ?thesis
      proof (elim disjE exE conjE)
        assume "cache' = rt_cache st"
        then show ?thesis using assms(3) g by (simp add: rest_inv_def)
      next
        fix b
        assume r: "r = respond 200 b" and "cache' = snd (ct_CacheSet c ?k b 60 (rt_cache st))"
        then obtain ok where p: "ct_CacheSet c ?k b 60 (rt_cache st) = (ok, cache')" by (metis prod.collapse)
        from response_cache.get_put [OF assms(1) p g] show ?thesis
          using assms(3) r by (auto simp: rest_inv_def)
      qed
    qed
    then show ?thesis using True rest_serve(1) by (simp add: rest_inv_def)
  qed
qed (use assms(3) in \<open>auto simp: rest_inv_def\<close>)

lemma rest_inv_reachable:
  assumes "response_cache (ct_CacheGet c) (ct_CacheSet c)" "(rest_step c)\<^sup>*\<^sup>* st0 st" "rest_inv c st0"
  shows "rest_inv c st"
  using assms(2) by (induction rule: rtranclp_induct) (auto intro: assms(3) rest_inv_step [OF assms(1)])

section \<open>Account balances\<close>

lemma account_query_all_plain: "plain_query AccountsTable account_meta (account_query a t)"
  by (auto simp: plain_query_def wf_query_def querySpec_def account_query_def Query_def Where_def
    account_IDEQ_def account_TokenEQ_def account_names account_meta_def
    account_Columns_def has_column_def table_defs column_defs selector_err_def
    List.map_filter_simps Let_def)

lemma GetAccounts_answer:
  assumes "sql_driver_up cl rows" "db_ok (rows s)" "is_ledger (rows s) L" "a \<noteq> []" "t \<noteq> []"
    "RepositoryEnt_GetAccounts cl a t s = (r, s')"
  shows "r = Inr (case led_get L a t of None \<Rightarrow> []
      | Some x \<Rightarrow> [\<lparr>ac_Address = a, ac_Token = t, ac_Amount = x, ac_CreatedAt = zero_time\<rparr>]) \<and> rows s' = rows s"
proof -
  note d = sql_driver_up.axioms(1) [OF assms(1)]
  obtain q s1 where Q: "All account_meta cl (account_query a t) s = (q, s1)" by fastforce
  obtain es where es: "q = Inr es"
    using sql_driver_up.All_up [OF assms(1,2) reads_accounts [OF assms(2)] account_query_all_plain [of a t]] Q by fastforce
  have win: "qs_Offset (querySpec account_meta (account_query a t)) = 0"
    "qs_Limit (querySpec account_meta (account_query a t)) = 0"
    by (simp_all add: querySpec_def account_query_def Query_def Where_def Let_def)
  obtain ms where ms: "distinct ms" "set ms = (case led_get L a t of None \<Rightarrow> {} | Some x \<Rightarrow> {account_row a t x})"
    "es = map row_account (window 0 0 ms)" and rows: "rows s1 = rows s"
    using sql_driver.All_answer [OF d assms(2) reads_accounts [OF assms(2)] account_query_all_plain Q] es
      selected_account [OF assms(2-5)] unfolding win by auto
  have "es = (case led_get L a t of None \<Rightarrow> [] | Some x \<Rightarrow> [row_account (account_row a t x)])"
  proof (cases "led_get L a t")
    case None
    then show ?thesis using ms by (simp add: window_def)
  next
    case (Some x)
    then have "ms = [account_row a t x]" using ms(1,2) by (intro distinct_singleton_list) simp_all
    then show ?thesis using ms(3) Some by (simp add: window_def)
  qed
  then show ?thesis using assms(6) Q es rows
    by (auto simp: RepositoryEnt_GetAccounts_def AccountQuery_All_def account_of_ent_def row_account_def
      split: option.splits)
qed

end
