(* ===== verification/Serving.thy ===== *)
theory Serving
  imports Rest Demo
begin

text \<open>
  Properties of the REST indexer: what an account query answers, what the cache may serve, and how the
  routes treat errors and unusual paths.
\<close>

section \<open>A controller over the in-memory database\<close>

definition demo_query_value :: "string \<Rightarrow> string \<Rightarrow> string" where
  "demo_query_value raw k = (if has_prefix raw (k @ ''='') then trim_prefix raw (k @ ''='') else [])"

type_synonym demo_cache = "string \<Rightarrow> json option"

definition demo_cache_get :: "string \<Rightarrow> demo_cache \<Rightarrow> json option" where
  "demo_cache_get k c = c k"

definition demo_cache_put :: "string \<Rightarrow> json \<Rightarrow> int \<Rightarrow> demo_cache \<Rightarrow> bool \<times> demo_cache" where
  "demo_cache_put k v ttl c = (True, c(k := Some v))"

interpretation demo_cache: response_cache demo_cache_get demo_cache_put
  by unfold_locales (auto simp: demo_cache_get_def demo_cache_put_def split: if_splits)

definition demo_controller :: "(mem, demo_cache) controller" where
  "demo_controller = \<lparr>ct_repo = RepositoryEnt mem_client, ct_String = (\<lambda>s. s), ct_QueryValue = demo_query_value,
     ct_BindOk = (\<lambda>raw. True), ct_CacheGet = demo_cache_get, ct_CacheSet = demo_cache_put\<rparr>"

definition demo_get :: "string \<Rightarrow> string \<Rightarrow> http_request" where
  "demo_get path raw = \<lparr>rq_Method = ''GET'', rq_Path = path, rq_RawQuery = raw\<rparr>"

section \<open>Answers\<close>

lemma account_route:
  assumes "t \<noteq> []"
  shows "handleTokenRoutes c rq (''/'' @ t @ ''/balances'') s = ct_GetTokenAccountBalances c rq t s"
proof -
  let ?path = "''/'' @ t @ ''/balances''"
  have suf: "has_suffix ?path ''/balances''" "trim_suffix ?path ''/balances'' = ''/'' @ t"
    using has_suffix_append [of "''/'' @ t" "''/balances''"] trim_suffix_append [of "''/'' @ t" "''/balances''"]
    by simp_all
  have pre: "has_prefix (''/'' @ t) ''/''" "trim_prefix (''/'' @ t) ''/'' = t"
    using has_prefix_append [of "''/''" t] trim_prefix_append [of "''/''" t] by simp_all
  have ne: "?path \<noteq> ''/balances''"
  proof
    assume "?path = ''/balances''"
    then have "length ?path = length ''/balances''" by (rule arg_cong)
    then show False using assms by simp
  qed
  have th: "?path \<noteq> ''/transfer-history''"
  proof
    assume "?path = ''/transfer-history''"
    then have "last ?path = last ''/transfer-history''" by (rule arg_cong)
    then show False by simp
  qed
  show ?thesis using ne th suf pre by (simp add: handleTokenRoutes_def Let_def)
qed

lemma json_amount_exact: "\<bar>n\<bar> < 2 ^ 53 \<Longrightarrow> json_amount (F64 (of_int n)) = JNum (show_int n)"
  by (simp add: json_amount_def f64_to_int64_of_int in_int64_def min_int64_def max_int64_def abs_less_iff)

lemma account_balances_answer:
  assumes "sql_driver_up cl rows" "db_ok (rows s)" "is_ledger (rows s) L" "ct_repo c = RepositoryEnt cl"
    "t \<noteq> []" "ct_QueryValue c (rq_RawQuery rq) ''address'' = a" "a \<noteq> []"
  shows "fst (handleTokenRoutes c rq (''/'' @ t @ ''/balances'') s) =
    respond 200 (account_balances_json c (case led_get L a t of None \<Rightarrow> []
      | Some x \<Rightarrow> [\<lparr>ac_Address = a, ac_Token = t, ac_Amount = x, ac_CreatedAt = zero_time\<rparr>]))"
proof -
  obtain r s' where G: "RepositoryEnt_GetAccounts cl a t s = (r, s')" by fastforce
  then show ?thesis using GetAccounts_answer [OF assms(1-3,7,5) G] assms(4,6)
    unfolding account_route [OF assms(5)]
    by (simp add: ct_GetTokenAccountBalances_def rest_GetTokenAccountBalances_def io_logged_def RepositoryEnt_def)
qed

text \<open>
  C15. A query for the balance of an address in a token answers with the ledger: one entry with the exact
  amount when the address holds the token, below \<open>2 ^ 53\<close>, and no entry when it does not.
\<close>

theorem account_balance_is_ledger:
  assumes "sql_driver_up cl rows" "db_ok (rows s)" "is_ledger (rows s) L" "ct_repo c = RepositoryEnt cl"
    "t \<noteq> []" "ct_QueryValue c (rq_RawQuery rq) ''address'' = a" "a \<noteq> []"
    "led_get L a t = map_option (\<lambda>n. F64 (of_int n)) bal" "\<And>n. bal = Some n \<Longrightarrow> \<bar>n\<bar> < 2 ^ 53"
  shows "fst (handleTokenRoutes c rq (''/'' @ t @ ''/balances'') s) =
    respond 200 (JObj [(''accountBalances'', JArr (case bal of None \<Rightarrow> []
      | Some n \<Rightarrow> [JObj [(''address'', JStr (ct_String c a)), (''tokenPath'', JStr (ct_String c t)),
          (''amount'', JNum (show_int n))]]))])"
  using account_balances_answer [OF assms(1-7)] assms(8,9)
  by (cases bal) (simp_all add: account_balances_json_def json_amount_exact)

definition demo_balance_request :: http_request where
  "demo_balance_request = demo_get ''/tokens/gno.land/r/foo/balances'' ''address=g1a''"

lemma demo_balance_request:
  "ct_QueryValue demo_controller (rq_RawQuery demo_balance_request) ''address'' = ''g1a''"
  "ct_repo demo_controller = RepositoryEnt mem_client" "ct_String demo_controller x = x"
  by (simp_all add: demo_controller_def demo_balance_request_def demo_query_value_def demo_get_def has_prefix_def
    trim_prefix_def)

theorem account_balance_is_ledger_witness:
  "fst (handleTokenRoutes demo_controller demo_balance_request (''/'' @ ''gno.land/r/foo'' @ ''/balances'') demo_accounts) =
     respond 200 (JObj [(''accountBalances'', JArr [JObj [(''address'', JStr ''g1a''),
      (''tokenPath'', JStr ''gno.land/r/foo''), (''amount'', JNum (show_int 10))]])])
   \<and> fst (handleTokenRoutes demo_controller demo_balance_request (''/'' @ ''gno.land/r/bar'' @ ''/balances'') demo_accounts) =
     respond 200 (JObj [(''accountBalances'', JArr [])])"
  using account_balance_is_ledger [OF mem.sql_driver_up_axioms demo_accounts_ok demo_balance_request(2) _
      demo_balance_request(1), of "''gno.land/r/foo''" "Some 10"]
    account_balance_is_ledger [OF mem.sql_driver_up_axioms demo_accounts_ok demo_balance_request(2) _
      demo_balance_request(1), of "''gno.land/r/bar''" None]
  by (simp add: led_get_def demo_balance_request(3))

text \<open>The served demonstration: the first request is a miss, and its answer goes to the cache.\<close>

definition demo_body :: json where
  "demo_body = JObj [(''accountBalances'', JArr [JObj [(''address'', JStr ''g1a''),
      (''tokenPath'', JStr ''gno.land/r/foo''), (''amount'', json_amount (F64 10))]])]"

lemma demo_route: "fst (route demo_controller demo_balance_request demo_accounts) = respond 200 demo_body"
proof -
  have "fst (handleTokenRoutes demo_controller demo_balance_request (''/'' @ ''gno.land/r/foo'' @ ''/balances'') demo_accounts)
      = respond 200 demo_body"
    using account_balances_answer [OF mem.sql_driver_up_axioms demo_accounts_ok demo_balance_request(2) _
      demo_balance_request(1), of "''gno.land/r/foo''"]
    by (simp add: led_get_def demo_balance_request(3) account_balances_json_def demo_body_def)
  moreover have "drop 7 (rq_Path demo_balance_request) = ''/'' @ ''gno.land/r/foo'' @ ''/balances''"
    "rq_Method demo_balance_request = ''GET''" "has_prefix (rq_Path demo_balance_request) ''/tokens/''"
    by (simp_all add: demo_balance_request_def demo_get_def has_prefix_def)
  ultimately show ?thesis by (simp only: route_def simp_thms if_True)
qed

lemma demo_serve:
  "serve demo_controller demo_balance_request (demo_accounts, Map.empty) =
    (respond 200 demo_body, snd (route demo_controller demo_balance_request demo_accounts),
     [getMemcacheKey demo_balance_request \<mapsto> demo_body])"
proof -
  obtain s' where r: "route demo_controller demo_balance_request demo_accounts = (respond 200 demo_body, s')"
    using demo_route by (metis prod.collapse)
  have "rq_Method demo_balance_request = ''GET''" by (simp add: demo_balance_request_def demo_get_def)
  then show ?thesis using r
    by (simp add: serve_def findFromLocalCache_def demo_controller_def demo_cache_get_def demo_cache_put_def respond_def)
qed

definition demo_served :: "(mem, demo_cache) rest_state" where
  "demo_served = \<lparr>rt_db = snd (route demo_controller demo_balance_request demo_accounts),
     rt_cache = [getMemcacheKey demo_balance_request \<mapsto> demo_body],
     rt_answers = [(getMemcacheKey demo_balance_request, respond 200 demo_body)]\<rparr>"

lemma demo_served:
  "(rest_step demo_controller)\<^sup>*\<^sup>* \<lparr>rt_db = demo_accounts, rt_cache = Map.empty, rt_answers = []\<rparr> demo_served"
proof (rule r_into_rtranclp)
  let ?st = "\<lparr>rt_db = demo_accounts, rt_cache = Map.empty, rt_answers = []\<rparr> :: (mem, demo_cache) rest_state"
  have "serve demo_controller demo_balance_request (rt_db ?st, rt_cache ?st) = (respond 200 demo_body,
      snd (route demo_controller demo_balance_request demo_accounts), [getMemcacheKey demo_balance_request \<mapsto> demo_body])"
    using demo_serve by simp
  from rest_step.rest_serve [OF this]
  show "rest_step demo_controller ?st demo_served"
    by (simp add: demo_served_def demo_balance_request_def demo_get_def findFromLocalCache_def demo_controller_def
      demo_cache_get_def)
qed

text \<open>
  C16. The cache never changes an answer: in any run from an empty cache, with the database changing and
  entries being evicted, what the cache holds for a key is what the routes once answered with
  status 200 to a request with that key, path and query joined by a question mark. No error is ever
  served from it.
\<close>

theorem cache_serves_past_answers:
  assumes "response_cache (ct_CacheGet c) (ct_CacheSet c)" "\<And>k. ct_CacheGet c k cache0 = None"
    "(rest_step c)\<^sup>*\<^sup>* \<lparr>rt_db = s0, rt_cache = cache0, rt_answers = []\<rparr> st"
    "findFromLocalCache c (getMemcacheKey rq) (rt_cache st) = Some body"
  shows "(getMemcacheKey rq, respond 200 body) \<in> set (rt_answers st)"
proof -
  have "rest_inv c \<lparr>rt_db = s0, rt_cache = cache0, rt_answers = []\<rparr>" using assms(2) by (simp add: rest_inv_def)
  from rest_inv_reachable [OF assms(1,3) this] assms(4) show ?thesis
    by (simp add: rest_inv_def findFromLocalCache_def)
qed

theorem cache_serves_past_answers_witness:
  "(getMemcacheKey demo_balance_request, respond 200 demo_body) \<in> set (rt_answers demo_served)"
  using cache_serves_past_answers [of demo_controller Map.empty, OF _ _ demo_served,
      of demo_balance_request demo_body] demo_cache.response_cache_axioms
  by (simp add: demo_controller_def findFromLocalCache_def demo_cache_get_def demo_served_def)

text \<open>
  Only a 200 with a body is cached: a request answered otherwise, or answered from the cache, leaves the
  cache as it was.
\<close>

lemma errors_are_not_cached:
  assumes "serve c rq (s, cache) = (r, s', cache')" "cache' \<noteq> cache"
  shows "hr_Status r = 200 \<and> (\<exists>body. hr_Body r = Some body) \<and> rq_Method rq = ''GET''
    \<and> findFromLocalCache c (getMemcacheKey rq) cache = None"
  using assms by (auto simp: serve_def split: prod.splits option.splits if_splits)

text \<open>The transfer history ignores the query: the answer is that for the empty address, whatever address
  is asked for.\<close>

lemma transfer_history_ignores_address:
  "handleTokenRoutes c rq ''/transfer-history'' s =
    (case GetTransfers (ct_repo c) [] [] [] s of (Inl e, s') \<Rightarrow> (no_response, s')
     | (Inr ts, s') \<Rightarrow> (respond 200 (transfers_json c ts), s'))"
  by (simp add: handleTokenRoutes_def ct_GetTransferHistory_def rest_GetTransferHistory_def)

text \<open>
  A failed lookup of account balances is answered with status 200 and no body, while the same failure
  for the balances of all tokens is a 500.
\<close>

lemma failed_lookup_answers_empty_200:
  assumes "GetAccounts (ct_repo c) (ct_QueryValue c (rq_RawQuery rq) ''address'') t s = (Inl e, s')"
    "GetBalances (ct_repo c) (ct_QueryValue c (rq_RawQuery rq) ''address'') s = (Inl e', s'')"
    "ct_BindOk c (rq_RawQuery rq)"
  shows "fst (ct_GetTokenAccountBalances c rq t s) = no_response
    \<and> hr_Status (fst (handleTokenRoutes c rq ''/balances'' s)) = 500"
  using assms by (simp add: handleTokenRoutes_def ct_GetTokenAccountBalances_def ct_GetTokenBalances_def
    rest_GetTokenAccountBalances_def rest_GetTokenBalances_def io_logged_def respond_def)

definition demo_down :: "(mem, demo_cache) controller" where
  "demo_down = demo_controller\<lparr>ct_repo := (RepositoryEnt mem_client)
     \<lparr>GetAccounts := (\<lambda>a t s. (Inl (EMsg ''no connection''), s)), GetBalances := (\<lambda>a s. (Inl (EMsg ''no connection''), s))\<rparr>\<rparr>"

text \<open>
  The check for an empty token path can never fire: no path is answered by its 400. A path with two
  slashes reaches the lookup with an empty token, which lists the accounts of every token.
\<close>

lemma token_path_check_is_dead:
  "fst (handleTokenRoutes c rq path s) \<noteq> respond 400 (error_body ''Token path cannot be empty'')
    \<and> handleTokenRoutes c rq ''//balances'' s = ct_GetTokenAccountBalances c rq [] s"
proof -
  have "fst (handleTokenRoutes c rq path s) \<noteq> respond 400 (error_body ''Token path cannot be empty'')"
    using trim_suffix_not_empty [of path "''/balances''"]
    by (auto simp: handleTokenRoutes_def Let_def ct_GetTokenBalances_def ct_GetTransferHistory_def
      ct_GetTokenAccountBalances_def respond_def no_response_def error_body_def split: sum.splits prod.splits)
  moreover have "handleTokenRoutes c rq ''//balances'' s = ct_GetTokenAccountBalances c rq [] s"
    by (simp add: handleTokenRoutes_def Let_def has_suffix_def trim_suffix_def has_prefix_def trim_prefix_def)
  ultimately show ?thesis by blast
qed

end
