(* ===== verification/Interleaving.thy ===== *)
theory Interleaving
  imports History
begin

text \<open>
  The workers of the event processor run side by side, and the database runs one statement at a time.
  This theory states the service once more as a program that pauses at every call of its
  repository (\<open>process_prog\<close>), proves that run alone it is \<open>ProcessBlockWithTransactions\<close>, and lets any
  number of such programs take turns, one call at a time, in every order (\<open>workers\<close>). Each call is one
  SQL statement or reads the clock.
\<close>

section \<open>Programs that pause at their calls\<close>

datatype 'a prog =
    Done 'a
  | CallAddBlock "block option" "err + bool \<Rightarrow> 'a prog"
  | CallAddTransactions int "transaction list" "err + unit \<Rightarrow> 'a prog"
  | CallGetAccount string string "err + account option \<Rightarrow> 'a prog"
  | CallAddAccount account "err + unit \<Rightarrow> 'a prog"
  | CallIncrement string string int "err + unit \<Rightarrow> 'a prog"
  | CallAddTransfers transaction "transfer list" "err + unit \<Rightarrow> 'a prog"
  | CallNow "go_time \<Rightarrow> 'a prog"

primrec prog_bind :: "'a prog \<Rightarrow> ('a \<Rightarrow> 'b prog) \<Rightarrow> 'b prog" where
  "prog_bind (Done x) f = f x"
| "prog_bind (CallAddBlock b k) f = CallAddBlock b (\<lambda>r. prog_bind (k r) f)"
| "prog_bind (CallAddTransactions h txs k) f = CallAddTransactions h txs (\<lambda>r. prog_bind (k r) f)"
| "prog_bind (CallGetAccount a t k) f = CallGetAccount a t (\<lambda>r. prog_bind (k r) f)"
| "prog_bind (CallAddAccount acc k) f = CallAddAccount acc (\<lambda>r. prog_bind (k r) f)"
| "prog_bind (CallIncrement a t n k) f = CallIncrement a t n (\<lambda>r. prog_bind (k r) f)"
| "prog_bind (CallAddTransfers tx ts k) f = CallAddTransfers tx ts (\<lambda>r. prog_bind (k r) f)"
| "prog_bind (CallNow k) f = CallNow (\<lambda>r. prog_bind (k r) f)"

definition prog_then :: "(err + 'a) prog \<Rightarrow> ('a \<Rightarrow> (err + 'b) prog) \<Rightarrow> (err + 'b) prog" where
  "prog_then p f = prog_bind p (\<lambda>r. case r of Inl e \<Rightarrow> Done (Inl e) | Inr x \<Rightarrow> f x)"

definition err_map :: "(err \<Rightarrow> err) \<Rightarrow> err + 'a \<Rightarrow> err + 'a" where
  "err_map f r = (case r of Inl e \<Rightarrow> Inl (f e) | Inr x \<Rightarrow> Inr x)"

definition prog_err :: "(err \<Rightarrow> err) \<Rightarrow> (err + 'a) prog \<Rightarrow> (err + 'a) prog" where
  "prog_err f p = prog_bind p (\<lambda>r. Done (err_map f r))"

section \<open>The event processor as a program\<close>

definition open_prog :: "bool \<Rightarrow> string \<Rightarrow> string \<Rightarrow> account option \<Rightarrow> (err + unit) prog" where
  "open_prog stamped a t acc =
     (if acc \<noteq> None then Done (Inr ())
      else prog_err (logger_Errorf ''Failed to add account'')
        (if stamped then CallNow (\<lambda>now. CallAddAccount
             \<lparr>ac_Address = a, ac_Token = t, ac_Amount = F64 0, ac_CreatedAt = now\<rparr> Done)
         else CallAddAccount
             \<lparr>ac_Address = a, ac_Token = t, ac_Amount = F64 0, ac_CreatedAt = zero_time\<rparr> Done))"

definition ensure_prog :: "bool \<Rightarrow> string \<Rightarrow> string \<Rightarrow> (err + unit) prog" where
  "ensure_prog stamped a t = prog_then (CallGetAccount a t Done) (open_prog stamped a t)"

definition increment_prog :: "string \<Rightarrow> string \<Rightarrow> string \<Rightarrow> int \<Rightarrow> (err + unit) prog" where
  "increment_prog msg a t n = prog_err (logger_Errorf msg) (CallIncrement a t n Done)"

definition mint_prog :: "string \<Rightarrow> string \<Rightarrow> int \<Rightarrow> (err + unit) prog" where
  "mint_prog pkg toAddress v =
     (if toAddress = [] then Done (Inr ())
      else prog_then (ensure_prog True toAddress pkg) (\<lambda>_.
        increment_prog ''Failed to increment balance for account'' toAddress pkg v))"

definition burn_prog :: "string \<Rightarrow> string \<Rightarrow> int \<Rightarrow> (err + unit) prog" where
  "burn_prog pkg fromAddress v =
     (if fromAddress = [] then Done (Inr ())
      else prog_then (ensure_prog True fromAddress pkg) (\<lambda>_.
        increment_prog ''Failed to decrement balance for account'' fromAddress pkg (wrap64 (- v))))"

definition transfer_prog :: "string \<Rightarrow> string \<Rightarrow> string \<Rightarrow> int \<Rightarrow> (err + unit) prog" where
  "transfer_prog pkg fromAddress toAddress v =
     prog_then (ensure_prog False fromAddress pkg) (\<lambda>_.
     prog_then (ensure_prog False toAddress pkg) (\<lambda>_.
     prog_then (increment_prog ''Failed to decrement balance for account'' fromAddress pkg (wrap64 (- v))) (\<lambda>_.
     increment_prog ''Failed to increment balance for account'' toAddress pkg v)))"

definition dispatch_prog :: "(string \<Rightarrow> string) \<Rightarrow> event \<Rightarrow> string \<Rightarrow> string \<Rightarrow> int \<Rightarrow> (err + unit) prog" where
  "dispatch_prog uni e fromAddress toAddress v =
     (let fn = to_lower uni (ev_Func e) in
      if fn = ''mint'' then prog_err (logger_Errorf ''Failed to handle mint event'')
        (mint_prog (ev_PkgPath e) toAddress v)
      else if fn = ''burn'' then prog_err (logger_Errorf ''Failed to handle burn event'')
        (burn_prog (ev_PkgPath e) fromAddress v)
      else if fn = ''transfer'' then prog_err (logger_Errorf ''Failed to handle transfer event'')
        (transfer_prog (ev_PkgPath e) fromAddress toAddress v)
      else Done (Inr ()))"

fun events_prog :: "(string \<Rightarrow> string) \<Rightarrow> event list \<Rightarrow> transfer list \<Rightarrow> (err + transfer list) prog" where
  "events_prog uni [] transfers = Done (Inr transfers)"
| "events_prog uni (e # es) transfers =
     (if is_transfer_event uni e then
        (case event_parties e of
           Inl err \<Rightarrow> Done (Inl (EMsg ''Invalid 'value' attribute in transfer event''))
         | Inr (fromAddress, toAddress, v) \<Rightarrow>
             prog_then (dispatch_prog uni e fromAddress toAddress v) (\<lambda>_. CallNow (\<lambda>now.
               events_prog uni es (transfers @ [event_transfer now e fromAddress toAddress v]))))
      else events_prog uni es transfers)"

fun transactions_prog :: "(string \<Rightarrow> string) \<Rightarrow> transaction list \<Rightarrow> (err + unit) prog" where
  "transactions_prog uni [] = Done (Inr ())"
| "transactions_prog uni (tx # txs) =
     prog_then (events_prog uni (rs_Events (tx_Response tx)) []) (\<lambda>transfers.
     prog_then (prog_err (logger_Errorf ''Failed to add transfers for transaction'')
       (CallAddTransfers tx transfers Done)) (\<lambda>_. transactions_prog uni txs))"

definition book_prog :: "(string \<Rightarrow> string) \<Rightarrow> block \<Rightarrow> transaction list \<Rightarrow> (err + unit) prog" where
  "book_prog uni b txs =
     prog_then (prog_err (logger_Errorf_w ''failed to add transactions for block'')
       (CallAddTransactions (b_Height b) txs Done)) (\<lambda>_.
     prog_err (logger_Errorf_w ''failed to parse and process transactions for block'')
       (transactions_prog uni txs))"

definition process_prog :: "(string \<Rightarrow> string) \<Rightarrow> block_with_txs \<Rightarrow> (err + unit) prog" where
  "process_prog uni m = CallAddBlock (bwt_Block m) (\<lambda>r.
     (case r of
        Inl e \<Rightarrow> Done (Inl (if bwt_Block m = None then EPanic ''nil pointer dereference''
          else logger_Errorf_w ''failed to add block'' e))
      | Inr already \<Rightarrow>
          (case bwt_Block m of None \<Rightarrow> Done (Inl (EPanic ''nil pointer dereference''))
           | Some b \<Rightarrow> if already then Done (Inr ()) else book_prog uni b (bwt_Transactions m))))"

section \<open>Run alone\<close>

primrec run_prog :: "'s ep_service \<Rightarrow> 'a prog \<Rightarrow> 's \<Rightarrow> 'a \<times> 's" where
  "run_prog sv (Done x) s = (x, s)"
| "run_prog sv (CallAddBlock b k) s = (case AddBlock (sv_repo sv) b s of (r, s') \<Rightarrow> run_prog sv (k r) s')"
| "run_prog sv (CallAddTransactions h txs k) s =
     (case AddTransactions (sv_repo sv) h txs s of (r, s') \<Rightarrow> run_prog sv (k r) s')"
| "run_prog sv (CallGetAccount a t k) s = (case GetAccount (sv_repo sv) a t s of (r, s') \<Rightarrow> run_prog sv (k r) s')"
| "run_prog sv (CallAddAccount acc k) s = (case AddAccount (sv_repo sv) acc s of (r, s') \<Rightarrow> run_prog sv (k r) s')"
| "run_prog sv (CallIncrement a t n k) s =
     (case IncrementAccountBalance (sv_repo sv) a t n s of (r, s') \<Rightarrow> run_prog sv (k r) s')"
| "run_prog sv (CallAddTransfers tx ts k) s =
     (case AddTransfers (sv_repo sv) tx ts s of (r, s') \<Rightarrow> run_prog sv (k r) s')"
| "run_prog sv (CallNow k) s = run_prog sv (k (sv_Now sv s)) s"

lemma run_bind: "run_prog sv (prog_bind p f) s = (case run_prog sv p s of (x, s') \<Rightarrow> run_prog sv (f x) s')"
  by (induction p arbitrary: s) (simp_all split: prod.split)

lemma run_then: "run_prog sv (prog_then p f) = io_then (run_prog sv p) (\<lambda>x. run_prog sv (f x))"
  by (rule ext) (simp add: prog_then_def run_bind io_then_def split: prod.split sum.split)

lemma run_logged: "run_prog sv (prog_err (logger_Errorf msg) p) = io_logged msg (run_prog sv p)"
  by (rule ext) (simp add: prog_err_def err_map_def run_bind io_logged_def split: prod.split sum.split)

lemma run_wrapped: "run_prog sv (prog_err (logger_Errorf_w msg) p) = io_wrapped msg (run_prog sv p)"
  by (rule ext) (simp add: prog_err_def err_map_def run_bind io_wrapped_def split: prod.split sum.split)

lemma run_calls:
  "run_prog sv (CallGetAccount a t Done) = GetAccount (sv_repo sv) a t"
  "run_prog sv (CallAddAccount acc Done) = AddAccount (sv_repo sv) acc"
  "run_prog sv (CallIncrement a t n Done) = IncrementAccountBalance (sv_repo sv) a t n"
  "run_prog sv (CallAddTransfers tx ts Done) = AddTransfers (sv_repo sv) tx ts"
  "run_prog sv (CallAddTransactions h txs Done) = AddTransactions (sv_repo sv) h txs"
  by (rule ext, simp split: prod.split)+

lemmas run_simps = run_then run_logged run_wrapped run_calls

lemma run_open:
  "run_prog sv (open_prog stamped a t acc) s = (if acc = None
     then io_logged ''Failed to add account'' (AddAccount (sv_repo sv) \<lparr>ac_Address = a, ac_Token = t,
       ac_Amount = F64 0, ac_CreatedAt = if stamped then sv_Now sv s else zero_time\<rparr>) s
     else (Inr (), s))"
  by (simp add: open_prog_def run_simps io_logged_def split: prod.split)

lemma run_mint: "run_prog sv (mint_prog pkg a v) s = handleMintEvent sv tx pkg a v s"
  by (simp add: mint_prog_def ensure_prog_def increment_prog_def handleMintEvent_def run_simps io_then_def
    run_open split: prod.split sum.split)

lemma run_burn: "run_prog sv (burn_prog pkg a v) s = handleBurnEvent sv tx pkg a v s"
  by (simp add: burn_prog_def ensure_prog_def increment_prog_def handleBurnEvent_def run_simps io_then_def
    run_open split: prod.split sum.split)

lemma run_transfer: "run_prog sv (transfer_prog pkg a b v) s = handleTransferEvent sv tx pkg a b v s"
  by (simp add: transfer_prog_def ensure_prog_def increment_prog_def handleTransferEvent_def run_simps
    io_then_def run_open split: prod.split sum.split)

lemma run_dispatch:
  "run_prog sv (dispatch_prog (sv_UniLower sv) e a b v) s = dispatch_event sv tx e a b v s"
  using run_mint [of sv "ev_PkgPath e" b v _ tx] run_burn [of sv "ev_PkgPath e" a v _ tx]
    run_transfer [of sv "ev_PkgPath e" a b v _ tx]
  by (simp add: dispatch_prog_def dispatch_event_def run_simps io_logged_def Let_def)

lemma run_events: "run_prog sv (events_prog (sv_UniLower sv) es ts) s = process_events sv tx es ts s"
proof (induction es arbitrary: ts s)
  case (Cons e es)
  then show ?case
    by (simp add: run_simps io_then_def run_dispatch [where tx = tx] split: sum.split prod.split)
qed simp

lemma run_transactions:
  "run_prog sv (transactions_prog (sv_UniLower sv) txs) s = parseAndProcessTransactions sv txs s"
proof (induction txs arbitrary: s)
  case (Cons tx txs)
  then show ?case
    by (simp add: run_simps io_then_def io_logged_def run_events [where tx = tx] split: sum.split prod.split)
qed simp

lemma run_process:
  "run_prog sv (process_prog (sv_UniLower sv) m) s = ProcessBlockWithTransactions sv m s"
  by (auto simp: process_prog_def book_prog_def ProcessBlockWithTransactions_def run_simps io_then_def
    io_wrapped_def run_transactions split: sum.split prod.split option.split)

section \<open>Side by side\<close>

text \<open>A call that was made, with its answer.\<close>

datatype call =
    AddedBlock "block option" "err + bool"
  | AddedTransactions int "transaction list" "err + unit"
  | GotAccount string string "err + account option"
  | AddedAccount account "err + unit"
  | Incremented string string int "err + unit"
  | AddedTransfers transaction "transfer list" "err + unit"
  | ReadClock go_time

fun call_step :: "'s ep_service \<Rightarrow> 'a prog \<Rightarrow> 's \<Rightarrow> (call \<times> 'a prog \<times> 's) option" where
  "call_step sv (Done x) s = None"
| "call_step sv (CallAddBlock b k) s =
     (case AddBlock (sv_repo sv) b s of (r, s') \<Rightarrow> Some (AddedBlock b r, k r, s'))"
| "call_step sv (CallAddTransactions h txs k) s =
     (case AddTransactions (sv_repo sv) h txs s of (r, s') \<Rightarrow> Some (AddedTransactions h txs r, k r, s'))"
| "call_step sv (CallGetAccount a t k) s =
     (case GetAccount (sv_repo sv) a t s of (r, s') \<Rightarrow> Some (GotAccount a t r, k r, s'))"
| "call_step sv (CallAddAccount acc k) s =
     (case AddAccount (sv_repo sv) acc s of (r, s') \<Rightarrow> Some (AddedAccount acc r, k r, s'))"
| "call_step sv (CallIncrement a t n k) s =
     (case IncrementAccountBalance (sv_repo sv) a t n s of (r, s') \<Rightarrow> Some (Incremented a t n r, k r, s'))"
| "call_step sv (CallAddTransfers tx ts k) s =
     (case AddTransfers (sv_repo sv) tx ts s of (r, s') \<Rightarrow> Some (AddedTransfers tx ts r, k r, s'))"
| "call_step sv (CallNow k) s = Some (ReadClock (sv_Now sv s), k (sv_Now sv s), s)"

text \<open>A run: at each step one program makes its next call.\<close>

inductive workers :: "'s ep_service \<Rightarrow> 'a prog list \<Rightarrow> 's \<Rightarrow> (nat \<times> call) list \<Rightarrow> 'a prog list \<Rightarrow> 's \<Rightarrow> bool"
  for sv ps s where
  workers_start: "workers sv ps s [] ps s"
| workers_call: "workers sv ps s tr qs s1 \<Longrightarrow> i < length qs \<Longrightarrow> call_step sv (qs ! i) s1 = Some (c, q, s2)
    \<Longrightarrow> workers sv ps s (tr @ [(i, c)]) (qs[i := q]) s2"

definition calls_of :: "nat \<Rightarrow> (nat \<times> call) list \<Rightarrow> call list" where
  "calls_of i tr = map snd (filter (\<lambda>e. fst e = i) tr)"

lemma calls_of_simps [simp]:
  "calls_of i [] = []"
  "calls_of i (tr @ [(j, c)]) = calls_of i tr @ (if j = i then [c] else [])"
  by (simp_all add: calls_of_def)

text \<open>A program and the calls it has made determine where it stands.\<close>

fun answer :: "'a prog \<Rightarrow> call \<Rightarrow> 'a prog option" where
  "answer (CallAddBlock b k) (AddedBlock b' r) = (if b' = b then Some (k r) else None)"
| "answer (CallAddTransactions h txs k) (AddedTransactions h' txs' r) =
     (if h' = h \<and> txs' = txs then Some (k r) else None)"
| "answer (CallGetAccount a t k) (GotAccount a' t' r) = (if a' = a \<and> t' = t then Some (k r) else None)"
| "answer (CallAddAccount acc k) (AddedAccount acc' r) = (if acc' = acc then Some (k r) else None)"
| "answer (CallIncrement a t n k) (Incremented a' t' n' r) =
     (if a' = a \<and> t' = t \<and> n' = n then Some (k r) else None)"
| "answer (CallAddTransfers tx ts k) (AddedTransfers tx' ts' r) =
     (if tx' = tx \<and> ts' = ts then Some (k r) else None)"
| "answer (CallNow k) (ReadClock now) = Some (k now)"
| "answer p c = None"

fun follows :: "'a prog \<Rightarrow> call list \<Rightarrow> 'a prog option" where
  "follows p [] = Some p"
| "follows p (c # cs) = Option.bind (answer p c) (\<lambda>q. follows q cs)"

lemma follows_append: "follows p (cs @ ds) = Option.bind (follows p cs) (\<lambda>q. follows q ds)"
  by (induction cs arbitrary: p) (auto split: Option.bind_split)

lemma call_step_answer: "call_step sv p s = Some (c, q, s') \<Longrightarrow> answer p c = Some q"
  by (cases p) (auto split: prod.splits)

lemma workers_length: "workers sv ps s tr qs s' \<Longrightarrow> length qs = length ps"
  by (induction rule: workers.induct) simp_all

lemma workers_indices: "workers sv ps s tr qs s' \<Longrightarrow> (i, c) \<in> set tr \<Longrightarrow> i < length ps"
  by (induction rule: workers.induct) (auto dest: workers_length)

lemma workers_follow:
  "workers sv ps s tr qs s' \<Longrightarrow> i < length ps \<Longrightarrow> follows (ps ! i) (calls_of i tr) = Some (qs ! i)"
proof (induction rule: workers.induct)
  case (workers_call tr qs s1 j c q s2)
  then show ?case
    by (cases "j = i") (simp_all add: follows_append call_step_answer)
qed simp

section \<open>What the calls do to the database\<close>

definition call_ledger :: "call \<Rightarrow> ledger \<Rightarrow> ledger" where
  "call_ledger c L = (case c of
     AddedAccount acc r \<Rightarrow> if isl r then L else L(ac_Address acc \<mapsto> (ac_Token acc, ac_Amount acc))
   | Incremented a t n r \<Rightarrow> if isl r then L else led_inc L a t (f64_of_int n)
   | _ \<Rightarrow> L)"

definition booked :: "int \<Rightarrow> call \<Rightarrow> bool" where
  "booked h c \<longleftrightarrow> (case c of AddedBlock b r \<Rightarrow> r = Inr False \<and> map_option b_Height b = Some h | _ \<Rightarrow> False)"

definition opens :: "call \<Rightarrow> string option" where
  "opens c = (case c of AddedAccount acc r \<Rightarrow> if isl r then None else Some (ac_Address acc) | _ \<Rightarrow> None)"

text \<open>One call over a lawful driver.\<close>

definition call_effect :: "db \<Rightarrow> ledger \<Rightarrow> call \<Rightarrow> db \<Rightarrow> bool" where
  "call_effect d L c d' \<longleftrightarrow> db_ok d' \<and> is_ledger d' (call_ledger c L) \<and> grows d d'
     \<and> (\<forall>h. has_block d' h \<longleftrightarrow> has_block d h \<or> booked h c)
     \<and> (\<forall>h. booked h c \<longrightarrow> \<not> has_block d h)
     \<and> (\<forall>a. opens c = Some a \<longrightarrow> L a = None)"

lemma call_effect_frame:
  assumes "db_ok d" "is_ledger d L" "db_ok d'" "d' ''accounts'' = d ''accounts''" "d' ''blocks'' = d ''blocks''"
    "d ''transactions'' \<subseteq> d' ''transactions''" "call_ledger c L = L" "\<And>h. \<not> booked h c" "opens c = None"
  shows "call_effect d L c d'"
proof -
  have L: "is_ledger d' L" using is_ledger_frame [of d' d L] assms(2,4) by blast
  have g: "grows d d'" by (rule growsI [OF assms(3) equalityD2 [OF assms(5)] assms(6,2) L]) simp
  have "has_block d' h = has_block d h" for h by (simp add: has_block_def assms(5))
  then show ?thesis using L g assms(3,7-9) by (simp add: call_effect_def)
qed

context sql_driver
begin

lemma GetAccount_frame: "db_ok (rows s) \<Longrightarrow> RepositoryEnt_GetAccount cl a t s = (r, s') \<Longrightarrow> rows s' = rows s"
proof -
  assume d: "db_ok (rows s)" and G: "RepositoryEnt_GetAccount cl a t s = (r, s')"
  obtain qr s1 where Q: "Only account_meta cl (account_query a t) s = (qr, s1)" by fastforce
  have "rows s1 = rows s"
    using Only_answer [OF d reads_accounts [OF d] account_query_plain Q] by blast
  then show ?thesis using G Q
    by (auto simp: RepositoryEnt_GetAccount_def AccountQuery_Only_def split: sum.splits if_splits)
qed

lemma call_step_effect:
  assumes "sv_repo sv = RepositoryEnt cl" "db_ok (rows s)" "is_ledger (rows s) L"
    "call_step sv p s = Some (c, q, s')"
  shows "call_effect (rows s) L c (rows s')"
proof (cases p)
  case (Done x)
  then show ?thesis using assms(4) by simp
next
  case (CallNow k)
  then show ?thesis using assms by (intro call_effect_frame) (auto simp: call_ledger_def booked_def opens_def)
next
  case (CallGetAccount a t k)
  then obtain r where G: "RepositoryEnt_GetAccount cl a t s = (r, s')" and c: "c = GotAccount a t r"
    using assms(1,4) by (auto simp: RepositoryEnt_def split: prod.splits)
  show ?thesis using GetAccount_frame [OF assms(2) G] assms(2,3) c
    by (intro call_effect_frame) (auto simp: call_ledger_def booked_def opens_def)
next
  case (CallAddTransfers tx ts k)
  then obtain r where T: "RepositoryEnt_AddTransfers cl tx ts s = (r, s')" and c: "c = AddedTransfers tx ts r"
    using assms(1,4) by (auto simp: RepositoryEnt_def split: prod.splits)
  note ans = AddTransfers_answer [OF assms(2,3) T]
  show ?thesis using ans(1,2) assms(2,3) c
    by (intro call_effect_frame) (simp_all add: call_ledger_def booked_def opens_def)
next
  case (CallAddTransactions h txs k)
  then obtain r where T: "RepositoryEnt_AddTransactions cl h txs s = (r, s')" and c: "c = AddedTransactions h txs r"
    using assms(1,4) by (auto simp: RepositoryEnt_def split: prod.splits)
  note ans = AddTransactions_answer [OF assms(2) T]
  have "grows (rows s) (rows s')" by (rule write_grows [OF write_transactions [OF T] assms(2)])
  then have "rows s ''transactions'' \<subseteq> rows s' ''transactions''" by (simp add: grows_def)
  then show ?thesis using ans(1,2) assms(2,3) c
    by (intro call_effect_frame) (simp_all add: call_ledger_def booked_def opens_def)
next
  case (CallAddBlock b k)
  then obtain r where B: "RepositoryEnt_AddBlock cl b s = (r, s')" and c: "c = AddedBlock b r"
    using assms(1,4) by (auto simp: RepositoryEnt_def split: prod.splits)
  show ?thesis
  proof (cases "r = Inr False")
    case False
    have "rows s' = rows s"
    proof (cases b)
      case None
      then show ?thesis using B by (simp add: RepositoryEnt_AddBlock_def)
    next
      case (Some x)
      then show ?thesis using AddBlock_answer(3,4) [OF assms(2) B [unfolded Some]] False by (cases r) auto
    qed
    then show ?thesis using assms(2,3) c False
      by (intro call_effect_frame) (simp_all add: call_ledger_def booked_def opens_def)
  next
    case True
    then obtain x where b: "b = Some x" using B by (cases b) (auto simp: RepositoryEnt_AddBlock_def)
    note ans = AddBlock_answer [OF assms(2) B [unfolded b]]
    have r: "\<not> has_block (rows s) (b_Height x)"
      "rows s' = db_insert BlocksTable (block_row x (Now cl 0 s)) (rows s)" using ans(2) True by blast+
    have L: "is_ledger (rows s') L" using assms(3)
      by (subst is_ledger_frame [of "rows s'" "rows s"]) (simp_all add: r(2) db_insert_def BlocksTable_def)
    have g: "grows (rows s) (rows s')" by (rule write_grows [OF write_block [OF B [unfolded b]] assms(2)])
    have "has_block (rows s') h \<longleftrightarrow> has_block (rows s) h \<or> h = b_Height x" for h
      by (auto simp: r(2) has_block_def db_insert_def col_block_row BlocksTable_def)
    moreover have "booked h c \<longleftrightarrow> h = b_Height x" for h using c True b by (auto simp: booked_def)
    moreover have "call_ledger c L = L" "opens c = None" using c by (simp_all add: call_ledger_def opens_def)
    ultimately show ?thesis using ans(1) L g r(1) by (simp add: call_effect_def)
  qed
next
  case (CallAddAccount acc k)
  then obtain r where A: "RepositoryEnt_AddAccount cl acc s = (r, s')" and c: "c = AddedAccount acc r"
    using assms(1,4) by (auto simp: RepositoryEnt_def split: prod.splits)
  note ans = AddAccount_answer [OF assms(2,3) A]
  have blk: "has_block (rows s') h = has_block (rows s) h" for h using ans(4) by (simp add: has_block_def)
  have g: "grows (rows s) (rows s')" by (rule write_grows [OF write_account [OF A] assms(2)])
  show ?thesis
  proof (cases r)
    case (Inl e)
    then show ?thesis using ans(1,3) assms(3) c g by (simp add: call_effect_def call_ledger_def booked_def opens_def)
  next
    case (Inr u)
    then show ?thesis using ans(1,2) c g blk
      by (auto simp: call_effect_def call_ledger_def booked_def opens_def led_open_ok_def)
  qed
next
  case (CallIncrement a t n k)
  then obtain r where A: "RepositoryEnt_IncrementAccountBalance cl a t n s = (r, s')" and c: "c = Incremented a t n r"
    using assms(1,4) by (auto simp: RepositoryEnt_def split: prod.splits)
  note ans = Increment_answer [OF assms(2,3) A]
  have blk: "has_block (rows s') h = has_block (rows s) h" for h using ans(4) by (simp add: has_block_def)
  have g: "grows (rows s) (rows s')" by (rule write_grows [OF write_balance [OF A] assms(2)])
  show ?thesis
  proof (cases r)
    case (Inl e)
    then show ?thesis using ans(1,3) assms(3) c g by (auto simp: call_effect_def call_ledger_def booked_def opens_def)
  next
    case (Inr u)
    then show ?thesis using ans(1,2) c g blk
      by (auto simp: call_effect_def call_ledger_def booked_def opens_def)
  qed
qed

end

section \<open>What a run does\<close>

lemma call_ledger_open: "L a \<noteq> None \<Longrightarrow> call_ledger c L a \<noteq> None"
  by (auto simp: call_ledger_def led_inc_def split: call.split option.split)

lemma fold_ledger_open: "L a \<noteq> None \<Longrightarrow> fold (\<lambda>e. call_ledger (snd e)) tr L a \<noteq> None"
  by (induction tr arbitrary: L) (simp_all add: call_ledger_open del: not_None_eq)

text \<open>The books of a run: the ledger of its calls in their order, the blocks it booked, no block booked
  twice, no account opened twice.\<close>

definition run_effect :: "db \<Rightarrow> ledger \<Rightarrow> (nat \<times> call) list \<Rightarrow> db \<Rightarrow> bool" where
  "run_effect d L tr d' \<longleftrightarrow> db_ok d' \<and> is_ledger d' (fold (\<lambda>e. call_ledger (snd e)) tr L) \<and> grows d d'
     \<and> (\<forall>h. has_block d' h \<longleftrightarrow> has_block d h \<or> (\<exists>e \<in> set tr. booked h (snd e)))
     \<and> (\<forall>h. length (filter (\<lambda>e. booked h (snd e)) tr) \<le> (if has_block d h then 0 else 1))
     \<and> (\<forall>a. L a \<noteq> None \<longrightarrow> (\<forall>e \<in> set tr. opens (snd e) \<noteq> Some a))"

lemma run_effect_start: "db_ok d \<Longrightarrow> is_ledger d L \<Longrightarrow> run_effect d L [] d"
  by (simp add: run_effect_def grows_same)

lemma run_effect_snoc:
  assumes "run_effect d L tr d1" "call_effect d1 (fold (\<lambda>e. call_ledger (snd e)) tr L) c d2"
  shows "run_effect d L (tr @ [(i, c)]) d2"
proof -
  let ?L1 = "fold (\<lambda>e. call_ledger (snd e)) tr L"
  have blk: "has_block d1 h \<longleftrightarrow> has_block d h \<or> (\<exists>e \<in> set tr. booked h (snd e))" for h
    using assms(1) by (simp add: run_effect_def)
  have len: "length (filter (\<lambda>e. booked h (snd e)) tr) \<le> (if has_block d h then 0 else 1)" for h
    using assms(1) by (simp add: run_effect_def)
  have g: "grows d d2" by (rule grows_trans [of d d1]) (use assms in \<open>simp_all add: run_effect_def call_effect_def\<close>)
  have "length (filter (\<lambda>e. booked h (snd e)) (tr @ [(i, c)])) \<le> (if has_block d h then 0 else 1)" for h
  proof (cases "booked h c")
    case True
    then have "\<not> has_block d1 h" using assms(2) by (simp add: call_effect_def)
    then have "filter (\<lambda>e. booked h (snd e)) tr = []" "\<not> has_block d h"
      using blk [of h] by (auto simp: filter_empty_conv)
    then show ?thesis using True by simp
  qed (use len [of h] in simp)
  moreover have "\<forall>a. L a \<noteq> None \<longrightarrow> (\<forall>e \<in> set (tr @ [(i, c)]). opens (snd e) \<noteq> Some a)"
  proof (intro allI impI)
    fix a
    assume "L a \<noteq> None"
    then have "?L1 a \<noteq> None" by (rule fold_ledger_open)
    then have "opens c \<noteq> Some a" using assms(2) by (auto simp: call_effect_def)
    then show "\<forall>e \<in> set (tr @ [(i, c)]). opens (snd e) \<noteq> Some a"
      using assms(1) \<open>L a \<noteq> None\<close> by (simp add: run_effect_def)
  qed
  moreover have "\<forall>h. has_block d2 h \<longleftrightarrow> has_block d h \<or> (\<exists>e \<in> set (tr @ [(i, c)]). booked h (snd e))"
    using assms(2) blk by (auto simp: call_effect_def)
  ultimately show ?thesis using assms(2) g unfolding run_effect_def call_effect_def by simp
qed

context sql_driver
begin

lemma workers_effect:
  assumes "workers sv ps s tr qs s'" "sv_repo sv = RepositoryEnt cl" "db_ok (rows s)" "is_ledger (rows s) L"
  shows "run_effect (rows s) L tr (rows s')"
  using assms
proof (induction rule: workers.induct)
  case workers_start
  then show ?case by (simp add: run_effect_start)
next
  case (workers_call tr qs s1 i c q s2)
  then have run: "run_effect (rows s) L tr (rows s1)" by blast
  then have "call_effect (rows s1) (fold (\<lambda>e. call_ledger (snd e)) tr L) c (rows s2)"
    using call_step_effect [OF workers_call.prems(1) _ _ workers_call.hyps(3)] by (simp add: run_effect_def)
  then show ?case by (rule run_effect_snoc [OF run])
qed

end

section \<open>Sums\<close>

definition credit :: "string \<Rightarrow> string \<Rightarrow> call \<Rightarrow> int" where
  "credit a t c = (case c of Incremented a' t' n r \<Rightarrow> if a' = a \<and> t' = t \<and> \<not> isl r then n else 0 | _ \<Rightarrow> 0)"

lemma call_ledger_credit:
  assumes "L a = Some (t, F64 (of_int x))" "opens c \<noteq> Some a" "\<bar>x\<bar> + \<bar>credit a t c\<bar> < 2 ^ 53"
  shows "call_ledger c L a = Some (t, F64 (of_int (x + credit a t c)))"
proof (cases c)
  case (Incremented a' t' n r)
  have ok: "\<bar>n\<bar> < 2 ^ 53 \<Longrightarrow> \<bar>x + n\<bar> < 2 ^ 53 \<Longrightarrow> f64_add (F64 (of_int x)) (f64_of_int n) = F64 (of_int (x + n))"
    using f64_add_exact [of x n] f64_of_int_exact [of n] by simp
  show ?thesis
  proof (cases "a' = a \<and> t' = t \<and> \<not> isl r")
    case True
    then have b: "\<bar>n\<bar> < 2 ^ 53" "\<bar>x + n\<bar> < 2 ^ 53" using assms(3) Incremented by (auto simp: credit_def)
    show ?thesis using True assms(1) Incremented ok [OF b]
      by (simp add: call_ledger_def credit_def led_inc_def led_get_def del: f64_add.simps of_int_add)
  next
    case False
    then show ?thesis using assms(1) Incremented
      by (auto simp: call_ledger_def credit_def led_inc_def led_get_def split: option.split)
  qed
qed (use assms in \<open>auto simp: call_ledger_def credit_def opens_def split: if_splits\<close>)

lemma fold_ledger_credit:
  assumes "L a = Some (t, F64 (of_int x))" "\<forall>e \<in> set tr. opens (snd e) \<noteq> Some a"
    "\<bar>x\<bar> + (\<Sum>e \<leftarrow> tr. \<bar>credit a t (snd e)\<bar>) < 2 ^ 53"
  shows "fold (\<lambda>e. call_ledger (snd e)) tr L a = Some (t, F64 (of_int (x + (\<Sum>e \<leftarrow> tr. credit a t (snd e)))))"
  using assms
proof (induction tr arbitrary: L x)
  case (Cons e tr)
  have pos: "0 \<le> (\<Sum>e \<leftarrow> tr. \<bar>credit a t (snd e)\<bar>)" by (rule sum_list_nonneg) auto
  then have "\<bar>x\<bar> + \<bar>credit a t (snd e)\<bar> < 2 ^ 53" using Cons.prems(3) by simp
  then have "call_ledger (snd e) L a = Some (t, F64 (of_int (x + credit a t (snd e))))"
    using Cons.prems(1,2) by (intro call_ledger_credit) simp_all
  moreover have "\<bar>x + credit a t (snd e)\<bar> + (\<Sum>e \<leftarrow> tr. \<bar>credit a t (snd e)\<bar>) < 2 ^ 53"
    using Cons.prems(3) by simp
  ultimately show ?case using Cons.IH [of "call_ledger (snd e) L" "x + credit a t (snd e)"] Cons.prems(2)
    by (simp add: add.assoc del: of_int_add)
qed simp

section \<open>Where a booking stands\<close>

lemma process_calls:
  assumes "follows (process_prog uni m) (c # cs) = Some p"
  shows "\<exists>r. c = AddedBlock (bwt_Block m) r \<and> (cs \<noteq> [] \<longrightarrow> r = Inr False \<and> bwt_Block m \<noteq> None)"
proof -
  obtain r where c: "c = AddedBlock (bwt_Block m) r"
    using assms by (cases c) (auto simp: process_prog_def split: if_splits)
  have "r = Inr False \<and> bwt_Block m \<noteq> None" if ne: "cs \<noteq> []"
  proof -
    obtain d ds where cs: "cs = d # ds" using ne by (cases cs) auto
    have fin: "follows (Done x) cs = None" for x :: "err + unit" by (simp add: cs)
    show ?thesis using assms c fin by (auto simp: process_prog_def split: sum.splits option.splits if_splits)
  qed
  then show ?thesis using c by blast
qed

section \<open>A schedule\<close>

text \<open>The run of a given order of turns; a turn of a finished program is skipped.\<close>

fun schedule :: "'s ep_service \<Rightarrow> nat list \<Rightarrow> 'a prog list \<Rightarrow> 's \<Rightarrow> (nat \<times> call) list \<times> 'a prog list \<times> 's" where
  "schedule sv [] ps s = ([], ps, s)"
| "schedule sv (i # is) ps s =
     (case (if i < length ps then call_step sv (ps ! i) s else None) of
        None \<Rightarrow> schedule sv is ps s
      | Some (c, q, s') \<Rightarrow> (case schedule sv is (ps[i := q]) s' of (tr, out) \<Rightarrow> ((i, c) # tr, out)))"

lemma schedule_workers:
  "workers sv ps0 s0 tr0 ps s \<Longrightarrow> schedule sv is ps s = (tr, qs, s') \<Longrightarrow> workers sv ps0 s0 (tr0 @ tr) qs s'"
proof (induction "is" arbitrary: tr0 ps s tr)
  case (Cons i "is")
  show ?case
  proof (cases "if i < length ps then call_step sv (ps ! i) s else None")
    case None
    then show ?thesis using Cons by simp
  next
    case (Some out)
    then obtain c q s1 where o: "out = (c, q, s1)" "i < length ps" "call_step sv (ps ! i) s = Some (c, q, s1)"
      by (cases out) (auto split: if_splits)
    obtain tr1 out1 where S: "schedule sv is (ps[i := q]) s1 = (tr1, out1)"
      by (cases "schedule sv is (ps[i := q]) s1")
    have w: "workers sv ps0 s0 (tr0 @ [(i, c)]) (ps[i := q]) s1" using workers_call [OF Cons.prems(1) o(2,3)] .
    have "tr = (i, c) # tr1" "out1 = (qs, s')" using Cons.prems(2) o S by simp_all
    then show ?thesis using Cons.IH [OF w] S by simp
  qed
qed simp

lemma schedule_run: "schedule sv is ps s = (tr, qs, s') \<Longrightarrow> workers sv ps s tr qs s'"
  using schedule_workers [OF workers_start] by simp

end
