(* ===== verification/Concurrency.thy ===== *)
theory Concurrency
  imports Interleaving
begin

text \<open>
  Properties of the event processor's workers side by side: a block is booked by one of them, their
  increments add up, and what goes wrong when two of them meet a new address.
\<close>










lemma new_service_repo [simp]: "sv_repo (ep_NewService cl) = RepositoryEnt cl"
  by (simp add: ep_NewService_def)





end
