(* ===== verification/Ent_Where.thy ===== *)
theory Ent_Where
  imports Ent_Account Ent_Block Ent_RestoreHistory Ent_Transaction Ent_Transfer
begin

text \<open>
  The predicates of the five entities (\<^verbatim>\<open>ent/*/where.go\<close>) and the steps along their edges, in the order
  the code has them. Those the repository calls are in the theories of the entities. A list of
  arguments stands for a variadic parameter.
\<close>

section \<open>\<^verbatim>\<open>ent/account/where.go\<close>\<close>

definition account_TransfersToInverseTable :: string where
  "account_TransfersToInverseTable = ''transfers''"

definition account_TransferFieldID :: string where
  "account_TransferFieldID = ''id''"

definition account_TransfersToTable :: string where
  "account_TransfersToTable = ''transfers''"

definition account_TransfersToColumn :: string where
  "account_TransfersToColumn = ''to_address''"

definition account_TransfersFromInverseTable :: string where
  "account_TransfersFromInverseTable = ''transfers''"

definition account_TransfersFromTable :: string where
  "account_TransfersFromTable = ''transfers''"

definition account_TransfersFromColumn :: string where
  "account_TransfersFromColumn = ''from_address''"

definition account_newTransfersToStep :: graph_step where
  "account_newTransfersToStep = \<lparr>gst_From = (account_Table, account_FieldID),
     gst_To = Some (account_TransfersToInverseTable, account_TransferFieldID), gst_Rel = O2M, gst_Inverse = False,
     gst_Table = account_TransfersToTable, gst_Column = account_TransfersToColumn\<rparr>"

definition account_newTransfersFromStep :: graph_step where
  "account_newTransfersFromStep = \<lparr>gst_From = (account_Table, account_FieldID),
     gst_To = Some (account_TransfersFromInverseTable, account_TransferFieldID), gst_Rel = O2M, gst_Inverse = False,
     gst_Table = account_TransfersFromTable, gst_Column = account_TransfersFromColumn\<rparr>"

definition account_ID :: "string \<Rightarrow> pred" where
  "account_ID k = FieldEQ account_FieldID (VString k)"

definition account_IDNEQ :: "string \<Rightarrow> pred" where
  "account_IDNEQ k = FieldNEQ account_FieldID (VString k)"

definition account_IDIn :: "string list \<Rightarrow> pred" where
  "account_IDIn ids = FieldIn account_FieldID (map VString ids)"

definition account_IDNotIn :: "string list \<Rightarrow> pred" where
  "account_IDNotIn ids = FieldNotIn account_FieldID (map VString ids)"

definition account_IDGT :: "string \<Rightarrow> pred" where
  "account_IDGT k = FieldGT account_FieldID (VString k)"

definition account_IDGTE :: "string \<Rightarrow> pred" where
  "account_IDGTE k = FieldGTE account_FieldID (VString k)"

definition account_IDLT :: "string \<Rightarrow> pred" where
  "account_IDLT k = FieldLT account_FieldID (VString k)"

definition account_IDLTE :: "string \<Rightarrow> pred" where
  "account_IDLTE k = FieldLTE account_FieldID (VString k)"

definition account_IDEqualFold :: "string \<Rightarrow> pred" where
  "account_IDEqualFold k = FieldEqualFold account_FieldID k"

definition account_IDContainsFold :: "string \<Rightarrow> pred" where
  "account_IDContainsFold k = FieldContainsFold account_FieldID k"

definition account_Token :: "string \<Rightarrow> pred" where
  "account_Token v = FieldEQ account_FieldToken (VString v)"

definition account_Amount :: "float64 \<Rightarrow> pred" where
  "account_Amount v = FieldEQ account_FieldAmount (VFloat v)"

definition account_TokenNEQ :: "string \<Rightarrow> pred" where
  "account_TokenNEQ v = FieldNEQ account_FieldToken (VString v)"

definition account_TokenIn :: "string list \<Rightarrow> pred" where
  "account_TokenIn vs = FieldIn account_FieldToken (map VString vs)"

definition account_TokenNotIn :: "string list \<Rightarrow> pred" where
  "account_TokenNotIn vs = FieldNotIn account_FieldToken (map VString vs)"

definition account_TokenGT :: "string \<Rightarrow> pred" where
  "account_TokenGT v = FieldGT account_FieldToken (VString v)"

definition account_TokenGTE :: "string \<Rightarrow> pred" where
  "account_TokenGTE v = FieldGTE account_FieldToken (VString v)"

definition account_TokenLT :: "string \<Rightarrow> pred" where
  "account_TokenLT v = FieldLT account_FieldToken (VString v)"

definition account_TokenLTE :: "string \<Rightarrow> pred" where
  "account_TokenLTE v = FieldLTE account_FieldToken (VString v)"

definition account_TokenContains :: "string \<Rightarrow> pred" where
  "account_TokenContains v = FieldContains account_FieldToken v"

definition account_TokenHasPrefix :: "string \<Rightarrow> pred" where
  "account_TokenHasPrefix v = FieldHasPrefix account_FieldToken v"

definition account_TokenHasSuffix :: "string \<Rightarrow> pred" where
  "account_TokenHasSuffix v = FieldHasSuffix account_FieldToken v"

definition account_TokenEqualFold :: "string \<Rightarrow> pred" where
  "account_TokenEqualFold v = FieldEqualFold account_FieldToken v"

definition account_TokenContainsFold :: "string \<Rightarrow> pred" where
  "account_TokenContainsFold v = FieldContainsFold account_FieldToken v"

definition account_AmountEQ :: "float64 \<Rightarrow> pred" where
  "account_AmountEQ v = FieldEQ account_FieldAmount (VFloat v)"

definition account_AmountNEQ :: "float64 \<Rightarrow> pred" where
  "account_AmountNEQ v = FieldNEQ account_FieldAmount (VFloat v)"

definition account_AmountIn :: "float64 list \<Rightarrow> pred" where
  "account_AmountIn vs = FieldIn account_FieldAmount (map VFloat vs)"

definition account_AmountNotIn :: "float64 list \<Rightarrow> pred" where
  "account_AmountNotIn vs = FieldNotIn account_FieldAmount (map VFloat vs)"

definition account_AmountGT :: "float64 \<Rightarrow> pred" where
  "account_AmountGT v = FieldGT account_FieldAmount (VFloat v)"

definition account_AmountGTE :: "float64 \<Rightarrow> pred" where
  "account_AmountGTE v = FieldGTE account_FieldAmount (VFloat v)"

definition account_AmountLT :: "float64 \<Rightarrow> pred" where
  "account_AmountLT v = FieldLT account_FieldAmount (VFloat v)"

definition account_AmountLTE :: "float64 \<Rightarrow> pred" where
  "account_AmountLTE v = FieldLTE account_FieldAmount (VFloat v)"

definition account_HasTransfersTo :: pred where
  "account_HasTransfersTo = HasNeighbors \<lparr>gst_From = (account_Table, account_FieldID), gst_To = None,
     gst_Rel = O2M, gst_Inverse = False, gst_Table = account_TransfersToTable, gst_Column = account_TransfersToColumn\<rparr>"

definition account_HasTransfersToWith :: "pred list \<Rightarrow> pred" where
  "account_HasTransfersToWith preds = HasNeighborsWith account_newTransfersToStep preds"

definition account_HasTransfersFrom :: pred where
  "account_HasTransfersFrom = HasNeighbors \<lparr>gst_From = (account_Table, account_FieldID), gst_To = None,
     gst_Rel = O2M, gst_Inverse = False, gst_Table = account_TransfersFromTable, gst_Column = account_TransfersFromColumn\<rparr>"

definition account_HasTransfersFromWith :: "pred list \<Rightarrow> pred" where
  "account_HasTransfersFromWith preds = HasNeighborsWith account_newTransfersFromStep preds"

definition account_And :: "pred list \<Rightarrow> pred" where
  "account_And predicates = AndPredicates predicates"

definition account_Or :: "pred list \<Rightarrow> pred" where
  "account_Or predicates = OrPredicates predicates"

definition account_Not :: "pred \<Rightarrow> pred" where
  "account_Not p = NotPredicates p"

lemmas account_where_defs = account_TransfersToInverseTable_def account_TransferFieldID_def account_TransfersToTable_def
  account_TransfersToColumn_def account_TransfersFromInverseTable_def account_TransfersFromTable_def
  account_TransfersFromColumn_def account_newTransfersToStep_def account_newTransfersFromStep_def
  account_ID_def account_IDNEQ_def account_IDIn_def
  account_IDNotIn_def account_IDGT_def account_IDGTE_def
  account_IDLT_def account_IDLTE_def account_IDEqualFold_def
  account_IDContainsFold_def account_Token_def account_Amount_def
  account_TokenNEQ_def account_TokenIn_def account_TokenNotIn_def
  account_TokenGT_def account_TokenGTE_def account_TokenLT_def
  account_TokenLTE_def account_TokenContains_def account_TokenHasPrefix_def
  account_TokenHasSuffix_def account_TokenEqualFold_def account_TokenContainsFold_def
  account_AmountEQ_def account_AmountNEQ_def account_AmountIn_def
  account_AmountNotIn_def account_AmountGT_def account_AmountGTE_def
  account_AmountLT_def account_AmountLTE_def account_HasTransfersTo_def
  account_HasTransfersToWith_def account_HasTransfersFrom_def account_HasTransfersFromWith_def
  account_And_def account_Or_def account_Not_def

section \<open>\<^verbatim>\<open>ent/block/where.go\<close>\<close>

definition block_TransactionsInverseTable :: string where
  "block_TransactionsInverseTable = ''transactions''"

definition block_TransactionFieldID :: string where
  "block_TransactionFieldID = ''id''"

definition block_TransactionsTable :: string where
  "block_TransactionsTable = ''transactions''"

definition block_TransactionsColumn :: string where
  "block_TransactionsColumn = ''block_transactions''"

definition block_newTransactionsStep :: graph_step where
  "block_newTransactionsStep = \<lparr>gst_From = (block_Table, block_FieldID),
     gst_To = Some (block_TransactionsInverseTable, block_TransactionFieldID), gst_Rel = O2M, gst_Inverse = False,
     gst_Table = block_TransactionsTable, gst_Column = block_TransactionsColumn\<rparr>"

definition block_ID :: "int \<Rightarrow> pred" where
  "block_ID k = FieldEQ block_FieldID (VInt k)"

definition block_IDNEQ :: "int \<Rightarrow> pred" where
  "block_IDNEQ k = FieldNEQ block_FieldID (VInt k)"

definition block_IDIn :: "int list \<Rightarrow> pred" where
  "block_IDIn ids = FieldIn block_FieldID (map VInt ids)"

definition block_IDNotIn :: "int list \<Rightarrow> pred" where
  "block_IDNotIn ids = FieldNotIn block_FieldID (map VInt ids)"

definition block_IDGT :: "int \<Rightarrow> pred" where
  "block_IDGT k = FieldGT block_FieldID (VInt k)"

definition block_IDGTE :: "int \<Rightarrow> pred" where
  "block_IDGTE k = FieldGTE block_FieldID (VInt k)"

definition block_IDLT :: "int \<Rightarrow> pred" where
  "block_IDLT k = FieldLT block_FieldID (VInt k)"

definition block_IDLTE :: "int \<Rightarrow> pred" where
  "block_IDLTE k = FieldLTE block_FieldID (VInt k)"

definition block_Hash :: "string \<Rightarrow> pred" where
  "block_Hash v = FieldEQ block_FieldHash (VString v)"

definition block_Time :: "go_time \<Rightarrow> pred" where
  "block_Time v = FieldEQ block_FieldTime (VTime v)"

definition block_TotalTxs :: "int \<Rightarrow> pred" where
  "block_TotalTxs v = FieldEQ block_FieldTotalTxs (VInt v)"

definition block_NumTxs :: "int \<Rightarrow> pred" where
  "block_NumTxs v = FieldEQ block_FieldNumTxs (VInt v)"

definition block_CreatedAt :: "go_time \<Rightarrow> pred" where
  "block_CreatedAt v = FieldEQ block_FieldCreatedAt (VTime v)"

definition block_HashEQ :: "string \<Rightarrow> pred" where
  "block_HashEQ v = FieldEQ block_FieldHash (VString v)"

definition block_HashNEQ :: "string \<Rightarrow> pred" where
  "block_HashNEQ v = FieldNEQ block_FieldHash (VString v)"

definition block_HashIn :: "string list \<Rightarrow> pred" where
  "block_HashIn vs = FieldIn block_FieldHash (map VString vs)"

definition block_HashNotIn :: "string list \<Rightarrow> pred" where
  "block_HashNotIn vs = FieldNotIn block_FieldHash (map VString vs)"

definition block_HashGT :: "string \<Rightarrow> pred" where
  "block_HashGT v = FieldGT block_FieldHash (VString v)"

definition block_HashGTE :: "string \<Rightarrow> pred" where
  "block_HashGTE v = FieldGTE block_FieldHash (VString v)"

definition block_HashLT :: "string \<Rightarrow> pred" where
  "block_HashLT v = FieldLT block_FieldHash (VString v)"

definition block_HashLTE :: "string \<Rightarrow> pred" where
  "block_HashLTE v = FieldLTE block_FieldHash (VString v)"

definition block_HashContains :: "string \<Rightarrow> pred" where
  "block_HashContains v = FieldContains block_FieldHash v"

definition block_HashHasPrefix :: "string \<Rightarrow> pred" where
  "block_HashHasPrefix v = FieldHasPrefix block_FieldHash v"

definition block_HashHasSuffix :: "string \<Rightarrow> pred" where
  "block_HashHasSuffix v = FieldHasSuffix block_FieldHash v"

definition block_HashEqualFold :: "string \<Rightarrow> pred" where
  "block_HashEqualFold v = FieldEqualFold block_FieldHash v"

definition block_HashContainsFold :: "string \<Rightarrow> pred" where
  "block_HashContainsFold v = FieldContainsFold block_FieldHash v"

definition block_TimeEQ :: "go_time \<Rightarrow> pred" where
  "block_TimeEQ v = FieldEQ block_FieldTime (VTime v)"

definition block_TimeNEQ :: "go_time \<Rightarrow> pred" where
  "block_TimeNEQ v = FieldNEQ block_FieldTime (VTime v)"

definition block_TimeIn :: "go_time list \<Rightarrow> pred" where
  "block_TimeIn vs = FieldIn block_FieldTime (map VTime vs)"

definition block_TimeNotIn :: "go_time list \<Rightarrow> pred" where
  "block_TimeNotIn vs = FieldNotIn block_FieldTime (map VTime vs)"

definition block_TimeGT :: "go_time \<Rightarrow> pred" where
  "block_TimeGT v = FieldGT block_FieldTime (VTime v)"

definition block_TimeGTE :: "go_time \<Rightarrow> pred" where
  "block_TimeGTE v = FieldGTE block_FieldTime (VTime v)"

definition block_TimeLT :: "go_time \<Rightarrow> pred" where
  "block_TimeLT v = FieldLT block_FieldTime (VTime v)"

definition block_TimeLTE :: "go_time \<Rightarrow> pred" where
  "block_TimeLTE v = FieldLTE block_FieldTime (VTime v)"

definition block_TotalTxsEQ :: "int \<Rightarrow> pred" where
  "block_TotalTxsEQ v = FieldEQ block_FieldTotalTxs (VInt v)"

definition block_TotalTxsNEQ :: "int \<Rightarrow> pred" where
  "block_TotalTxsNEQ v = FieldNEQ block_FieldTotalTxs (VInt v)"

definition block_TotalTxsIn :: "int list \<Rightarrow> pred" where
  "block_TotalTxsIn vs = FieldIn block_FieldTotalTxs (map VInt vs)"

definition block_TotalTxsNotIn :: "int list \<Rightarrow> pred" where
  "block_TotalTxsNotIn vs = FieldNotIn block_FieldTotalTxs (map VInt vs)"

definition block_TotalTxsGT :: "int \<Rightarrow> pred" where
  "block_TotalTxsGT v = FieldGT block_FieldTotalTxs (VInt v)"

definition block_TotalTxsGTE :: "int \<Rightarrow> pred" where
  "block_TotalTxsGTE v = FieldGTE block_FieldTotalTxs (VInt v)"

definition block_TotalTxsLT :: "int \<Rightarrow> pred" where
  "block_TotalTxsLT v = FieldLT block_FieldTotalTxs (VInt v)"

definition block_TotalTxsLTE :: "int \<Rightarrow> pred" where
  "block_TotalTxsLTE v = FieldLTE block_FieldTotalTxs (VInt v)"

definition block_NumTxsEQ :: "int \<Rightarrow> pred" where
  "block_NumTxsEQ v = FieldEQ block_FieldNumTxs (VInt v)"

definition block_NumTxsNEQ :: "int \<Rightarrow> pred" where
  "block_NumTxsNEQ v = FieldNEQ block_FieldNumTxs (VInt v)"

definition block_NumTxsIn :: "int list \<Rightarrow> pred" where
  "block_NumTxsIn vs = FieldIn block_FieldNumTxs (map VInt vs)"

definition block_NumTxsNotIn :: "int list \<Rightarrow> pred" where
  "block_NumTxsNotIn vs = FieldNotIn block_FieldNumTxs (map VInt vs)"

definition block_NumTxsGT :: "int \<Rightarrow> pred" where
  "block_NumTxsGT v = FieldGT block_FieldNumTxs (VInt v)"

definition block_NumTxsGTE :: "int \<Rightarrow> pred" where
  "block_NumTxsGTE v = FieldGTE block_FieldNumTxs (VInt v)"

definition block_NumTxsLT :: "int \<Rightarrow> pred" where
  "block_NumTxsLT v = FieldLT block_FieldNumTxs (VInt v)"

definition block_NumTxsLTE :: "int \<Rightarrow> pred" where
  "block_NumTxsLTE v = FieldLTE block_FieldNumTxs (VInt v)"

definition block_CreatedAtEQ :: "go_time \<Rightarrow> pred" where
  "block_CreatedAtEQ v = FieldEQ block_FieldCreatedAt (VTime v)"

definition block_CreatedAtNEQ :: "go_time \<Rightarrow> pred" where
  "block_CreatedAtNEQ v = FieldNEQ block_FieldCreatedAt (VTime v)"

definition block_CreatedAtIn :: "go_time list \<Rightarrow> pred" where
  "block_CreatedAtIn vs = FieldIn block_FieldCreatedAt (map VTime vs)"

definition block_CreatedAtNotIn :: "go_time list \<Rightarrow> pred" where
  "block_CreatedAtNotIn vs = FieldNotIn block_FieldCreatedAt (map VTime vs)"

definition block_CreatedAtGT :: "go_time \<Rightarrow> pred" where
  "block_CreatedAtGT v = FieldGT block_FieldCreatedAt (VTime v)"

definition block_CreatedAtGTE :: "go_time \<Rightarrow> pred" where
  "block_CreatedAtGTE v = FieldGTE block_FieldCreatedAt (VTime v)"

definition block_CreatedAtLT :: "go_time \<Rightarrow> pred" where
  "block_CreatedAtLT v = FieldLT block_FieldCreatedAt (VTime v)"

definition block_CreatedAtLTE :: "go_time \<Rightarrow> pred" where
  "block_CreatedAtLTE v = FieldLTE block_FieldCreatedAt (VTime v)"

definition block_HasTransactions :: pred where
  "block_HasTransactions = HasNeighbors \<lparr>gst_From = (block_Table, block_FieldID), gst_To = None,
     gst_Rel = O2M, gst_Inverse = False, gst_Table = block_TransactionsTable, gst_Column = block_TransactionsColumn\<rparr>"

definition block_HasTransactionsWith :: "pred list \<Rightarrow> pred" where
  "block_HasTransactionsWith preds = HasNeighborsWith block_newTransactionsStep preds"

definition block_And :: "pred list \<Rightarrow> pred" where
  "block_And predicates = AndPredicates predicates"

definition block_Or :: "pred list \<Rightarrow> pred" where
  "block_Or predicates = OrPredicates predicates"

definition block_Not :: "pred \<Rightarrow> pred" where
  "block_Not p = NotPredicates p"

lemmas block_where_defs = block_TransactionsInverseTable_def block_TransactionFieldID_def block_TransactionsTable_def
  block_TransactionsColumn_def block_newTransactionsStep_def block_ID_def
  block_IDNEQ_def block_IDIn_def block_IDNotIn_def
  block_IDGT_def block_IDGTE_def block_IDLT_def
  block_IDLTE_def block_Hash_def block_Time_def
  block_TotalTxs_def block_NumTxs_def block_CreatedAt_def
  block_HashEQ_def block_HashNEQ_def block_HashIn_def
  block_HashNotIn_def block_HashGT_def block_HashGTE_def
  block_HashLT_def block_HashLTE_def block_HashContains_def
  block_HashHasPrefix_def block_HashHasSuffix_def block_HashEqualFold_def
  block_HashContainsFold_def block_TimeEQ_def block_TimeNEQ_def
  block_TimeIn_def block_TimeNotIn_def block_TimeGT_def
  block_TimeGTE_def block_TimeLT_def block_TimeLTE_def
  block_TotalTxsEQ_def block_TotalTxsNEQ_def block_TotalTxsIn_def
  block_TotalTxsNotIn_def block_TotalTxsGT_def block_TotalTxsGTE_def
  block_TotalTxsLT_def block_TotalTxsLTE_def block_NumTxsEQ_def
  block_NumTxsNEQ_def block_NumTxsIn_def block_NumTxsNotIn_def
  block_NumTxsGT_def block_NumTxsGTE_def block_NumTxsLT_def
  block_NumTxsLTE_def block_CreatedAtEQ_def block_CreatedAtNEQ_def
  block_CreatedAtIn_def block_CreatedAtNotIn_def block_CreatedAtGT_def
  block_CreatedAtGTE_def block_CreatedAtLT_def block_CreatedAtLTE_def
  block_HasTransactions_def block_HasTransactionsWith_def block_And_def
  block_Or_def block_Not_def

section \<open>\<^verbatim>\<open>ent/restorehistory/where.go\<close>\<close>

definition restorehistory_ID :: "int \<Rightarrow> pred" where
  "restorehistory_ID k = FieldEQ restorehistory_FieldID (VInt k)"

definition restorehistory_IDNEQ :: "int \<Rightarrow> pred" where
  "restorehistory_IDNEQ k = FieldNEQ restorehistory_FieldID (VInt k)"

definition restorehistory_IDIn :: "int list \<Rightarrow> pred" where
  "restorehistory_IDIn ids = FieldIn restorehistory_FieldID (map VInt ids)"

definition restorehistory_IDNotIn :: "int list \<Rightarrow> pred" where
  "restorehistory_IDNotIn ids = FieldNotIn restorehistory_FieldID (map VInt ids)"

definition restorehistory_IDGT :: "int \<Rightarrow> pred" where
  "restorehistory_IDGT k = FieldGT restorehistory_FieldID (VInt k)"

definition restorehistory_IDGTE :: "int \<Rightarrow> pred" where
  "restorehistory_IDGTE k = FieldGTE restorehistory_FieldID (VInt k)"

definition restorehistory_IDLT :: "int \<Rightarrow> pred" where
  "restorehistory_IDLT k = FieldLT restorehistory_FieldID (VInt k)"

definition restorehistory_IDLTE :: "int \<Rightarrow> pred" where
  "restorehistory_IDLTE k = FieldLTE restorehistory_FieldID (VInt k)"

definition restorehistory_RestoreRangeStart :: "int \<Rightarrow> pred" where
  "restorehistory_RestoreRangeStart v = FieldEQ restorehistory_FieldRestoreRangeStart (VInt v)"

definition restorehistory_RestoreRangeEnd :: "int \<Rightarrow> pred" where
  "restorehistory_RestoreRangeEnd v = FieldEQ restorehistory_FieldRestoreRangeEnd (VInt v)"

definition restorehistory_BeingBlock :: "int \<Rightarrow> pred" where
  "restorehistory_BeingBlock v = FieldEQ restorehistory_FieldBeingBlock (VInt v)"

definition restorehistory_RestoreRangeStartEQ :: "int \<Rightarrow> pred" where
  "restorehistory_RestoreRangeStartEQ v = FieldEQ restorehistory_FieldRestoreRangeStart (VInt v)"

definition restorehistory_RestoreRangeStartNEQ :: "int \<Rightarrow> pred" where
  "restorehistory_RestoreRangeStartNEQ v = FieldNEQ restorehistory_FieldRestoreRangeStart (VInt v)"

definition restorehistory_RestoreRangeStartIn :: "int list \<Rightarrow> pred" where
  "restorehistory_RestoreRangeStartIn vs = FieldIn restorehistory_FieldRestoreRangeStart (map VInt vs)"

definition restorehistory_RestoreRangeStartNotIn :: "int list \<Rightarrow> pred" where
  "restorehistory_RestoreRangeStartNotIn vs = FieldNotIn restorehistory_FieldRestoreRangeStart (map VInt vs)"

definition restorehistory_RestoreRangeStartGT :: "int \<Rightarrow> pred" where
  "restorehistory_RestoreRangeStartGT v = FieldGT restorehistory_FieldRestoreRangeStart (VInt v)"

definition restorehistory_RestoreRangeStartGTE :: "int \<Rightarrow> pred" where
  "restorehistory_RestoreRangeStartGTE v = FieldGTE restorehistory_FieldRestoreRangeStart (VInt v)"

definition restorehistory_RestoreRangeStartLT :: "int \<Rightarrow> pred" where
  "restorehistory_RestoreRangeStartLT v = FieldLT restorehistory_FieldRestoreRangeStart (VInt v)"

definition restorehistory_RestoreRangeStartLTE :: "int \<Rightarrow> pred" where
  "restorehistory_RestoreRangeStartLTE v = FieldLTE restorehistory_FieldRestoreRangeStart (VInt v)"

definition restorehistory_RestoreRangeEndEQ :: "int \<Rightarrow> pred" where
  "restorehistory_RestoreRangeEndEQ v = FieldEQ restorehistory_FieldRestoreRangeEnd (VInt v)"

definition restorehistory_RestoreRangeEndNEQ :: "int \<Rightarrow> pred" where
  "restorehistory_RestoreRangeEndNEQ v = FieldNEQ restorehistory_FieldRestoreRangeEnd (VInt v)"

definition restorehistory_RestoreRangeEndIn :: "int list \<Rightarrow> pred" where
  "restorehistory_RestoreRangeEndIn vs = FieldIn restorehistory_FieldRestoreRangeEnd (map VInt vs)"

definition restorehistory_RestoreRangeEndNotIn :: "int list \<Rightarrow> pred" where
  "restorehistory_RestoreRangeEndNotIn vs = FieldNotIn restorehistory_FieldRestoreRangeEnd (map VInt vs)"

definition restorehistory_RestoreRangeEndGT :: "int \<Rightarrow> pred" where
  "restorehistory_RestoreRangeEndGT v = FieldGT restorehistory_FieldRestoreRangeEnd (VInt v)"

definition restorehistory_RestoreRangeEndGTE :: "int \<Rightarrow> pred" where
  "restorehistory_RestoreRangeEndGTE v = FieldGTE restorehistory_FieldRestoreRangeEnd (VInt v)"

definition restorehistory_RestoreRangeEndLT :: "int \<Rightarrow> pred" where
  "restorehistory_RestoreRangeEndLT v = FieldLT restorehistory_FieldRestoreRangeEnd (VInt v)"

definition restorehistory_RestoreRangeEndLTE :: "int \<Rightarrow> pred" where
  "restorehistory_RestoreRangeEndLTE v = FieldLTE restorehistory_FieldRestoreRangeEnd (VInt v)"

definition restorehistory_BeingBlockEQ :: "int \<Rightarrow> pred" where
  "restorehistory_BeingBlockEQ v = FieldEQ restorehistory_FieldBeingBlock (VInt v)"

definition restorehistory_BeingBlockNEQ :: "int \<Rightarrow> pred" where
  "restorehistory_BeingBlockNEQ v = FieldNEQ restorehistory_FieldBeingBlock (VInt v)"

definition restorehistory_BeingBlockIn :: "int list \<Rightarrow> pred" where
  "restorehistory_BeingBlockIn vs = FieldIn restorehistory_FieldBeingBlock (map VInt vs)"

definition restorehistory_BeingBlockNotIn :: "int list \<Rightarrow> pred" where
  "restorehistory_BeingBlockNotIn vs = FieldNotIn restorehistory_FieldBeingBlock (map VInt vs)"

definition restorehistory_BeingBlockGT :: "int \<Rightarrow> pred" where
  "restorehistory_BeingBlockGT v = FieldGT restorehistory_FieldBeingBlock (VInt v)"

definition restorehistory_BeingBlockGTE :: "int \<Rightarrow> pred" where
  "restorehistory_BeingBlockGTE v = FieldGTE restorehistory_FieldBeingBlock (VInt v)"

definition restorehistory_BeingBlockLT :: "int \<Rightarrow> pred" where
  "restorehistory_BeingBlockLT v = FieldLT restorehistory_FieldBeingBlock (VInt v)"

definition restorehistory_BeingBlockLTE :: "int \<Rightarrow> pred" where
  "restorehistory_BeingBlockLTE v = FieldLTE restorehistory_FieldBeingBlock (VInt v)"

definition restorehistory_And :: "pred list \<Rightarrow> pred" where
  "restorehistory_And predicates = AndPredicates predicates"

definition restorehistory_Or :: "pred list \<Rightarrow> pred" where
  "restorehistory_Or predicates = OrPredicates predicates"

definition restorehistory_Not :: "pred \<Rightarrow> pred" where
  "restorehistory_Not p = NotPredicates p"

lemmas restorehistory_where_defs = restorehistory_ID_def restorehistory_IDNEQ_def restorehistory_IDIn_def
  restorehistory_IDNotIn_def restorehistory_IDGT_def restorehistory_IDGTE_def
  restorehistory_IDLT_def restorehistory_IDLTE_def restorehistory_RestoreRangeStart_def
  restorehistory_RestoreRangeEnd_def restorehistory_BeingBlock_def restorehistory_RestoreRangeStartEQ_def
  restorehistory_RestoreRangeStartNEQ_def restorehistory_RestoreRangeStartIn_def restorehistory_RestoreRangeStartNotIn_def
  restorehistory_RestoreRangeStartGT_def restorehistory_RestoreRangeStartGTE_def restorehistory_RestoreRangeStartLT_def
  restorehistory_RestoreRangeStartLTE_def restorehistory_RestoreRangeEndEQ_def restorehistory_RestoreRangeEndNEQ_def
  restorehistory_RestoreRangeEndIn_def restorehistory_RestoreRangeEndNotIn_def restorehistory_RestoreRangeEndGT_def
  restorehistory_RestoreRangeEndGTE_def restorehistory_RestoreRangeEndLT_def restorehistory_RestoreRangeEndLTE_def
  restorehistory_BeingBlockEQ_def restorehistory_BeingBlockNEQ_def restorehistory_BeingBlockIn_def
  restorehistory_BeingBlockNotIn_def restorehistory_BeingBlockGT_def restorehistory_BeingBlockGTE_def
  restorehistory_BeingBlockLT_def restorehistory_BeingBlockLTE_def restorehistory_And_def
  restorehistory_Or_def restorehistory_Not_def

section \<open>\<^verbatim>\<open>ent/transaction/where.go\<close>\<close>

definition transaction_BlockInverseTable :: string where
  "transaction_BlockInverseTable = ''blocks''"

definition transaction_BlockFieldID :: string where
  "transaction_BlockFieldID = ''height''"

definition transaction_BlockTable :: string where
  "transaction_BlockTable = ''transactions''"

definition transaction_BlockColumn :: string where
  "transaction_BlockColumn = ''block_transactions''"

definition transaction_newBlockStep :: graph_step where
  "transaction_newBlockStep = \<lparr>gst_From = (transaction_Table, transaction_FieldID),
     gst_To = Some (transaction_BlockInverseTable, transaction_BlockFieldID), gst_Rel = M2O, gst_Inverse = True,
     gst_Table = transaction_BlockTable, gst_Column = transaction_BlockColumn\<rparr>"

definition transaction_ID :: "int \<Rightarrow> pred" where
  "transaction_ID k = FieldEQ transaction_FieldID (VInt k)"

definition transaction_IDEQ :: "int \<Rightarrow> pred" where
  "transaction_IDEQ k = FieldEQ transaction_FieldID (VInt k)"

definition transaction_IDNEQ :: "int \<Rightarrow> pred" where
  "transaction_IDNEQ k = FieldNEQ transaction_FieldID (VInt k)"

definition transaction_IDIn :: "int list \<Rightarrow> pred" where
  "transaction_IDIn ids = FieldIn transaction_FieldID (map VInt ids)"

definition transaction_IDNotIn :: "int list \<Rightarrow> pred" where
  "transaction_IDNotIn ids = FieldNotIn transaction_FieldID (map VInt ids)"

definition transaction_IDGT :: "int \<Rightarrow> pred" where
  "transaction_IDGT k = FieldGT transaction_FieldID (VInt k)"

definition transaction_IDGTE :: "int \<Rightarrow> pred" where
  "transaction_IDGTE k = FieldGTE transaction_FieldID (VInt k)"

definition transaction_IDLT :: "int \<Rightarrow> pred" where
  "transaction_IDLT k = FieldLT transaction_FieldID (VInt k)"

definition transaction_IDLTE :: "int \<Rightarrow> pred" where
  "transaction_IDLTE k = FieldLTE transaction_FieldID (VInt k)"

definition transaction_Index :: "int \<Rightarrow> pred" where
  "transaction_Index v = FieldEQ transaction_FieldIndex (VInt v)"

definition transaction_Hash :: "string \<Rightarrow> pred" where
  "transaction_Hash v = FieldEQ transaction_FieldHash (VString v)"

definition transaction_Success :: "bool \<Rightarrow> pred" where
  "transaction_Success v = FieldEQ transaction_FieldSuccess (VBool v)"

definition transaction_BlockHeight :: "int \<Rightarrow> pred" where
  "transaction_BlockHeight v = FieldEQ transaction_FieldBlockHeight (VInt v)"

definition transaction_GasWanted :: "float64 \<Rightarrow> pred" where
  "transaction_GasWanted v = FieldEQ transaction_FieldGasWanted (VFloat v)"

definition transaction_GasUsed :: "float64 \<Rightarrow> pred" where
  "transaction_GasUsed v = FieldEQ transaction_FieldGasUsed (VFloat v)"

definition transaction_Memo :: "string \<Rightarrow> pred" where
  "transaction_Memo v = FieldEQ transaction_FieldMemo (VString v)"

definition transaction_CreatedAt :: "go_time \<Rightarrow> pred" where
  "transaction_CreatedAt v = FieldEQ transaction_FieldCreatedAt (VTime v)"

definition transaction_IndexEQ :: "int \<Rightarrow> pred" where
  "transaction_IndexEQ v = FieldEQ transaction_FieldIndex (VInt v)"

definition transaction_IndexNEQ :: "int \<Rightarrow> pred" where
  "transaction_IndexNEQ v = FieldNEQ transaction_FieldIndex (VInt v)"

definition transaction_IndexIn :: "int list \<Rightarrow> pred" where
  "transaction_IndexIn vs = FieldIn transaction_FieldIndex (map VInt vs)"

definition transaction_IndexNotIn :: "int list \<Rightarrow> pred" where
  "transaction_IndexNotIn vs = FieldNotIn transaction_FieldIndex (map VInt vs)"

definition transaction_IndexGT :: "int \<Rightarrow> pred" where
  "transaction_IndexGT v = FieldGT transaction_FieldIndex (VInt v)"

definition transaction_IndexGTE :: "int \<Rightarrow> pred" where
  "transaction_IndexGTE v = FieldGTE transaction_FieldIndex (VInt v)"

definition transaction_IndexLT :: "int \<Rightarrow> pred" where
  "transaction_IndexLT v = FieldLT transaction_FieldIndex (VInt v)"

definition transaction_IndexLTE :: "int \<Rightarrow> pred" where
  "transaction_IndexLTE v = FieldLTE transaction_FieldIndex (VInt v)"

definition transaction_HashNEQ :: "string \<Rightarrow> pred" where
  "transaction_HashNEQ v = FieldNEQ transaction_FieldHash (VString v)"

definition transaction_HashIn :: "string list \<Rightarrow> pred" where
  "transaction_HashIn vs = FieldIn transaction_FieldHash (map VString vs)"

definition transaction_HashNotIn :: "string list \<Rightarrow> pred" where
  "transaction_HashNotIn vs = FieldNotIn transaction_FieldHash (map VString vs)"

definition transaction_HashGT :: "string \<Rightarrow> pred" where
  "transaction_HashGT v = FieldGT transaction_FieldHash (VString v)"

definition transaction_HashGTE :: "string \<Rightarrow> pred" where
  "transaction_HashGTE v = FieldGTE transaction_FieldHash (VString v)"

definition transaction_HashLT :: "string \<Rightarrow> pred" where
  "transaction_HashLT v = FieldLT transaction_FieldHash (VString v)"

definition transaction_HashLTE :: "string \<Rightarrow> pred" where
  "transaction_HashLTE v = FieldLTE transaction_FieldHash (VString v)"

definition transaction_HashContains :: "string \<Rightarrow> pred" where
  "transaction_HashContains v = FieldContains transaction_FieldHash v"

definition transaction_HashHasPrefix :: "string \<Rightarrow> pred" where
  "transaction_HashHasPrefix v = FieldHasPrefix transaction_FieldHash v"

definition transaction_HashHasSuffix :: "string \<Rightarrow> pred" where
  "transaction_HashHasSuffix v = FieldHasSuffix transaction_FieldHash v"

definition transaction_HashEqualFold :: "string \<Rightarrow> pred" where
  "transaction_HashEqualFold v = FieldEqualFold transaction_FieldHash v"

definition transaction_HashContainsFold :: "string \<Rightarrow> pred" where
  "transaction_HashContainsFold v = FieldContainsFold transaction_FieldHash v"

definition transaction_SuccessEQ :: "bool \<Rightarrow> pred" where
  "transaction_SuccessEQ v = FieldEQ transaction_FieldSuccess (VBool v)"

definition transaction_SuccessNEQ :: "bool \<Rightarrow> pred" where
  "transaction_SuccessNEQ v = FieldNEQ transaction_FieldSuccess (VBool v)"

definition transaction_BlockHeightNEQ :: "int \<Rightarrow> pred" where
  "transaction_BlockHeightNEQ v = FieldNEQ transaction_FieldBlockHeight (VInt v)"

definition transaction_BlockHeightIn :: "int list \<Rightarrow> pred" where
  "transaction_BlockHeightIn vs = FieldIn transaction_FieldBlockHeight (map VInt vs)"

definition transaction_BlockHeightNotIn :: "int list \<Rightarrow> pred" where
  "transaction_BlockHeightNotIn vs = FieldNotIn transaction_FieldBlockHeight (map VInt vs)"

definition transaction_BlockHeightGT :: "int \<Rightarrow> pred" where
  "transaction_BlockHeightGT v = FieldGT transaction_FieldBlockHeight (VInt v)"

definition transaction_BlockHeightGTE :: "int \<Rightarrow> pred" where
  "transaction_BlockHeightGTE v = FieldGTE transaction_FieldBlockHeight (VInt v)"

definition transaction_BlockHeightLT :: "int \<Rightarrow> pred" where
  "transaction_BlockHeightLT v = FieldLT transaction_FieldBlockHeight (VInt v)"

definition transaction_BlockHeightLTE :: "int \<Rightarrow> pred" where
  "transaction_BlockHeightLTE v = FieldLTE transaction_FieldBlockHeight (VInt v)"

definition transaction_GasWantedEQ :: "float64 \<Rightarrow> pred" where
  "transaction_GasWantedEQ v = FieldEQ transaction_FieldGasWanted (VFloat v)"

definition transaction_GasWantedNEQ :: "float64 \<Rightarrow> pred" where
  "transaction_GasWantedNEQ v = FieldNEQ transaction_FieldGasWanted (VFloat v)"

definition transaction_GasWantedIn :: "float64 list \<Rightarrow> pred" where
  "transaction_GasWantedIn vs = FieldIn transaction_FieldGasWanted (map VFloat vs)"

definition transaction_GasWantedNotIn :: "float64 list \<Rightarrow> pred" where
  "transaction_GasWantedNotIn vs = FieldNotIn transaction_FieldGasWanted (map VFloat vs)"

definition transaction_GasWantedGT :: "float64 \<Rightarrow> pred" where
  "transaction_GasWantedGT v = FieldGT transaction_FieldGasWanted (VFloat v)"

definition transaction_GasWantedGTE :: "float64 \<Rightarrow> pred" where
  "transaction_GasWantedGTE v = FieldGTE transaction_FieldGasWanted (VFloat v)"

definition transaction_GasWantedLT :: "float64 \<Rightarrow> pred" where
  "transaction_GasWantedLT v = FieldLT transaction_FieldGasWanted (VFloat v)"

definition transaction_GasWantedLTE :: "float64 \<Rightarrow> pred" where
  "transaction_GasWantedLTE v = FieldLTE transaction_FieldGasWanted (VFloat v)"

definition transaction_GasUsedEQ :: "float64 \<Rightarrow> pred" where
  "transaction_GasUsedEQ v = FieldEQ transaction_FieldGasUsed (VFloat v)"

definition transaction_GasUsedNEQ :: "float64 \<Rightarrow> pred" where
  "transaction_GasUsedNEQ v = FieldNEQ transaction_FieldGasUsed (VFloat v)"

definition transaction_GasUsedIn :: "float64 list \<Rightarrow> pred" where
  "transaction_GasUsedIn vs = FieldIn transaction_FieldGasUsed (map VFloat vs)"

definition transaction_GasUsedNotIn :: "float64 list \<Rightarrow> pred" where
  "transaction_GasUsedNotIn vs = FieldNotIn transaction_FieldGasUsed (map VFloat vs)"

definition transaction_GasUsedGT :: "float64 \<Rightarrow> pred" where
  "transaction_GasUsedGT v = FieldGT transaction_FieldGasUsed (VFloat v)"

definition transaction_GasUsedGTE :: "float64 \<Rightarrow> pred" where
  "transaction_GasUsedGTE v = FieldGTE transaction_FieldGasUsed (VFloat v)"

definition transaction_GasUsedLT :: "float64 \<Rightarrow> pred" where
  "transaction_GasUsedLT v = FieldLT transaction_FieldGasUsed (VFloat v)"

definition transaction_GasUsedLTE :: "float64 \<Rightarrow> pred" where
  "transaction_GasUsedLTE v = FieldLTE transaction_FieldGasUsed (VFloat v)"

definition transaction_MemoEQ :: "string \<Rightarrow> pred" where
  "transaction_MemoEQ v = FieldEQ transaction_FieldMemo (VString v)"

definition transaction_MemoNEQ :: "string \<Rightarrow> pred" where
  "transaction_MemoNEQ v = FieldNEQ transaction_FieldMemo (VString v)"

definition transaction_MemoIn :: "string list \<Rightarrow> pred" where
  "transaction_MemoIn vs = FieldIn transaction_FieldMemo (map VString vs)"

definition transaction_MemoNotIn :: "string list \<Rightarrow> pred" where
  "transaction_MemoNotIn vs = FieldNotIn transaction_FieldMemo (map VString vs)"

definition transaction_MemoGT :: "string \<Rightarrow> pred" where
  "transaction_MemoGT v = FieldGT transaction_FieldMemo (VString v)"

definition transaction_MemoGTE :: "string \<Rightarrow> pred" where
  "transaction_MemoGTE v = FieldGTE transaction_FieldMemo (VString v)"

definition transaction_MemoLT :: "string \<Rightarrow> pred" where
  "transaction_MemoLT v = FieldLT transaction_FieldMemo (VString v)"

definition transaction_MemoLTE :: "string \<Rightarrow> pred" where
  "transaction_MemoLTE v = FieldLTE transaction_FieldMemo (VString v)"

definition transaction_MemoContains :: "string \<Rightarrow> pred" where
  "transaction_MemoContains v = FieldContains transaction_FieldMemo v"

definition transaction_MemoHasPrefix :: "string \<Rightarrow> pred" where
  "transaction_MemoHasPrefix v = FieldHasPrefix transaction_FieldMemo v"

definition transaction_MemoHasSuffix :: "string \<Rightarrow> pred" where
  "transaction_MemoHasSuffix v = FieldHasSuffix transaction_FieldMemo v"

definition transaction_MemoIsNil :: pred where
  "transaction_MemoIsNil = FieldIsNull transaction_FieldMemo"

definition transaction_MemoNotNil :: pred where
  "transaction_MemoNotNil = FieldNotNull transaction_FieldMemo"

definition transaction_MemoEqualFold :: "string \<Rightarrow> pred" where
  "transaction_MemoEqualFold v = FieldEqualFold transaction_FieldMemo v"

definition transaction_MemoContainsFold :: "string \<Rightarrow> pred" where
  "transaction_MemoContainsFold v = FieldContainsFold transaction_FieldMemo v"

definition transaction_GasFeeIsNil :: pred where
  "transaction_GasFeeIsNil = FieldIsNull transaction_FieldGasFee"

definition transaction_GasFeeNotNil :: pred where
  "transaction_GasFeeNotNil = FieldNotNull transaction_FieldGasFee"

definition transaction_MessagesIsNil :: pred where
  "transaction_MessagesIsNil = FieldIsNull transaction_FieldMessages"

definition transaction_MessagesNotNil :: pred where
  "transaction_MessagesNotNil = FieldNotNull transaction_FieldMessages"

definition transaction_ResponseIsNil :: pred where
  "transaction_ResponseIsNil = FieldIsNull transaction_FieldResponse"

definition transaction_ResponseNotNil :: pred where
  "transaction_ResponseNotNil = FieldNotNull transaction_FieldResponse"

definition transaction_CreatedAtEQ :: "go_time \<Rightarrow> pred" where
  "transaction_CreatedAtEQ v = FieldEQ transaction_FieldCreatedAt (VTime v)"

definition transaction_CreatedAtNEQ :: "go_time \<Rightarrow> pred" where
  "transaction_CreatedAtNEQ v = FieldNEQ transaction_FieldCreatedAt (VTime v)"

definition transaction_CreatedAtIn :: "go_time list \<Rightarrow> pred" where
  "transaction_CreatedAtIn vs = FieldIn transaction_FieldCreatedAt (map VTime vs)"

definition transaction_CreatedAtNotIn :: "go_time list \<Rightarrow> pred" where
  "transaction_CreatedAtNotIn vs = FieldNotIn transaction_FieldCreatedAt (map VTime vs)"

definition transaction_CreatedAtGT :: "go_time \<Rightarrow> pred" where
  "transaction_CreatedAtGT v = FieldGT transaction_FieldCreatedAt (VTime v)"

definition transaction_CreatedAtGTE :: "go_time \<Rightarrow> pred" where
  "transaction_CreatedAtGTE v = FieldGTE transaction_FieldCreatedAt (VTime v)"

definition transaction_CreatedAtLT :: "go_time \<Rightarrow> pred" where
  "transaction_CreatedAtLT v = FieldLT transaction_FieldCreatedAt (VTime v)"

definition transaction_CreatedAtLTE :: "go_time \<Rightarrow> pred" where
  "transaction_CreatedAtLTE v = FieldLTE transaction_FieldCreatedAt (VTime v)"

definition transaction_HasBlock :: pred where
  "transaction_HasBlock = HasNeighbors \<lparr>gst_From = (transaction_Table, transaction_FieldID), gst_To = None,
     gst_Rel = M2O, gst_Inverse = True, gst_Table = transaction_BlockTable, gst_Column = transaction_BlockColumn\<rparr>"

definition transaction_HasBlockWith :: "pred list \<Rightarrow> pred" where
  "transaction_HasBlockWith preds = HasNeighborsWith transaction_newBlockStep preds"

definition transaction_And :: "pred list \<Rightarrow> pred" where
  "transaction_And predicates = AndPredicates predicates"

definition transaction_Or :: "pred list \<Rightarrow> pred" where
  "transaction_Or predicates = OrPredicates predicates"

definition transaction_Not :: "pred \<Rightarrow> pred" where
  "transaction_Not p = NotPredicates p"

lemmas transaction_where_defs = transaction_BlockInverseTable_def transaction_BlockFieldID_def transaction_BlockTable_def
  transaction_BlockColumn_def transaction_newBlockStep_def transaction_ID_def
  transaction_IDEQ_def transaction_IDNEQ_def transaction_IDIn_def
  transaction_IDNotIn_def transaction_IDGT_def transaction_IDGTE_def
  transaction_IDLT_def transaction_IDLTE_def transaction_Index_def
  transaction_Hash_def transaction_Success_def transaction_BlockHeight_def
  transaction_GasWanted_def transaction_GasUsed_def transaction_Memo_def
  transaction_CreatedAt_def transaction_IndexEQ_def transaction_IndexNEQ_def
  transaction_IndexIn_def transaction_IndexNotIn_def transaction_IndexGT_def
  transaction_IndexGTE_def transaction_IndexLT_def transaction_IndexLTE_def
  transaction_HashNEQ_def transaction_HashIn_def transaction_HashNotIn_def
  transaction_HashGT_def transaction_HashGTE_def transaction_HashLT_def
  transaction_HashLTE_def transaction_HashContains_def transaction_HashHasPrefix_def
  transaction_HashHasSuffix_def transaction_HashEqualFold_def transaction_HashContainsFold_def
  transaction_SuccessEQ_def transaction_SuccessNEQ_def transaction_BlockHeightNEQ_def
  transaction_BlockHeightIn_def transaction_BlockHeightNotIn_def transaction_BlockHeightGT_def
  transaction_BlockHeightGTE_def transaction_BlockHeightLT_def transaction_BlockHeightLTE_def
  transaction_GasWantedEQ_def transaction_GasWantedNEQ_def transaction_GasWantedIn_def
  transaction_GasWantedNotIn_def transaction_GasWantedGT_def transaction_GasWantedGTE_def
  transaction_GasWantedLT_def transaction_GasWantedLTE_def transaction_GasUsedEQ_def
  transaction_GasUsedNEQ_def transaction_GasUsedIn_def transaction_GasUsedNotIn_def
  transaction_GasUsedGT_def transaction_GasUsedGTE_def transaction_GasUsedLT_def
  transaction_GasUsedLTE_def transaction_MemoEQ_def transaction_MemoNEQ_def
  transaction_MemoIn_def transaction_MemoNotIn_def transaction_MemoGT_def
  transaction_MemoGTE_def transaction_MemoLT_def transaction_MemoLTE_def
  transaction_MemoContains_def transaction_MemoHasPrefix_def transaction_MemoHasSuffix_def
  transaction_MemoIsNil_def transaction_MemoNotNil_def transaction_MemoEqualFold_def
  transaction_MemoContainsFold_def transaction_GasFeeIsNil_def transaction_GasFeeNotNil_def
  transaction_MessagesIsNil_def transaction_MessagesNotNil_def transaction_ResponseIsNil_def
  transaction_ResponseNotNil_def transaction_CreatedAtEQ_def transaction_CreatedAtNEQ_def
  transaction_CreatedAtIn_def transaction_CreatedAtNotIn_def transaction_CreatedAtGT_def
  transaction_CreatedAtGTE_def transaction_CreatedAtLT_def transaction_CreatedAtLTE_def
  transaction_HasBlock_def transaction_HasBlockWith_def transaction_And_def
  transaction_Or_def transaction_Not_def

section \<open>\<^verbatim>\<open>ent/transfer/where.go\<close>\<close>

definition transfer_ID :: "int \<Rightarrow> pred" where
  "transfer_ID k = FieldEQ transfer_FieldID (VInt k)"

definition transfer_IDEQ :: "int \<Rightarrow> pred" where
  "transfer_IDEQ k = FieldEQ transfer_FieldID (VInt k)"

definition transfer_IDNEQ :: "int \<Rightarrow> pred" where
  "transfer_IDNEQ k = FieldNEQ transfer_FieldID (VInt k)"

definition transfer_IDIn :: "int list \<Rightarrow> pred" where
  "transfer_IDIn ids = FieldIn transfer_FieldID (map VInt ids)"

definition transfer_IDNotIn :: "int list \<Rightarrow> pred" where
  "transfer_IDNotIn ids = FieldNotIn transfer_FieldID (map VInt ids)"

definition transfer_IDGT :: "int \<Rightarrow> pred" where
  "transfer_IDGT k = FieldGT transfer_FieldID (VInt k)"

definition transfer_IDGTE :: "int \<Rightarrow> pred" where
  "transfer_IDGTE k = FieldGTE transfer_FieldID (VInt k)"

definition transfer_IDLT :: "int \<Rightarrow> pred" where
  "transfer_IDLT k = FieldLT transfer_FieldID (VInt k)"

definition transfer_IDLTE :: "int \<Rightarrow> pred" where
  "transfer_IDLTE k = FieldLTE transfer_FieldID (VInt k)"

definition transfer_Hash :: "string \<Rightarrow> pred" where
  "transfer_Hash v = FieldEQ transfer_FieldHash (VString v)"

definition transfer_FromAddress :: "string \<Rightarrow> pred" where
  "transfer_FromAddress v = FieldEQ transfer_FieldFromAddress (VString v)"

definition transfer_ToAddress :: "string \<Rightarrow> pred" where
  "transfer_ToAddress v = FieldEQ transfer_FieldToAddress (VString v)"

definition transfer_Token :: "string \<Rightarrow> pred" where
  "transfer_Token v = FieldEQ transfer_FieldToken (VString v)"

definition transfer_Amount :: "float64 \<Rightarrow> pred" where
  "transfer_Amount v = FieldEQ transfer_FieldAmount (VFloat v)"

definition transfer_Denom :: "string \<Rightarrow> pred" where
  "transfer_Denom v = FieldEQ transfer_FieldDenom (VString v)"

definition transfer_CreatedAt :: "go_time \<Rightarrow> pred" where
  "transfer_CreatedAt v = FieldEQ transfer_FieldCreatedAt (VTime v)"

definition transfer_HashEQ :: "string \<Rightarrow> pred" where
  "transfer_HashEQ v = FieldEQ transfer_FieldHash (VString v)"

definition transfer_HashNEQ :: "string \<Rightarrow> pred" where
  "transfer_HashNEQ v = FieldNEQ transfer_FieldHash (VString v)"

definition transfer_HashIn :: "string list \<Rightarrow> pred" where
  "transfer_HashIn vs = FieldIn transfer_FieldHash (map VString vs)"

definition transfer_HashNotIn :: "string list \<Rightarrow> pred" where
  "transfer_HashNotIn vs = FieldNotIn transfer_FieldHash (map VString vs)"

definition transfer_HashGT :: "string \<Rightarrow> pred" where
  "transfer_HashGT v = FieldGT transfer_FieldHash (VString v)"

definition transfer_HashGTE :: "string \<Rightarrow> pred" where
  "transfer_HashGTE v = FieldGTE transfer_FieldHash (VString v)"

definition transfer_HashLT :: "string \<Rightarrow> pred" where
  "transfer_HashLT v = FieldLT transfer_FieldHash (VString v)"

definition transfer_HashLTE :: "string \<Rightarrow> pred" where
  "transfer_HashLTE v = FieldLTE transfer_FieldHash (VString v)"

definition transfer_HashContains :: "string \<Rightarrow> pred" where
  "transfer_HashContains v = FieldContains transfer_FieldHash v"

definition transfer_HashHasPrefix :: "string \<Rightarrow> pred" where
  "transfer_HashHasPrefix v = FieldHasPrefix transfer_FieldHash v"

definition transfer_HashHasSuffix :: "string \<Rightarrow> pred" where
  "transfer_HashHasSuffix v = FieldHasSuffix transfer_FieldHash v"

definition transfer_HashEqualFold :: "string \<Rightarrow> pred" where
  "transfer_HashEqualFold v = FieldEqualFold transfer_FieldHash v"

definition transfer_HashContainsFold :: "string \<Rightarrow> pred" where
  "transfer_HashContainsFold v = FieldContainsFold transfer_FieldHash v"

definition transfer_FuncEQ :: "string \<Rightarrow> pred" where
  "transfer_FuncEQ v = FieldEQ transfer_FieldFunc (VString v)"

definition transfer_FuncNEQ :: "string \<Rightarrow> pred" where
  "transfer_FuncNEQ v = FieldNEQ transfer_FieldFunc (VString v)"

definition transfer_FuncIn :: "string list \<Rightarrow> pred" where
  "transfer_FuncIn vs = FieldIn transfer_FieldFunc (map VString vs)"

definition transfer_FuncNotIn :: "string list \<Rightarrow> pred" where
  "transfer_FuncNotIn vs = FieldNotIn transfer_FieldFunc (map VString vs)"

definition transfer_FuncGT :: "string \<Rightarrow> pred" where
  "transfer_FuncGT v = FieldGT transfer_FieldFunc (VString v)"

definition transfer_FuncGTE :: "string \<Rightarrow> pred" where
  "transfer_FuncGTE v = FieldGTE transfer_FieldFunc (VString v)"

definition transfer_FuncLT :: "string \<Rightarrow> pred" where
  "transfer_FuncLT v = FieldLT transfer_FieldFunc (VString v)"

definition transfer_FuncLTE :: "string \<Rightarrow> pred" where
  "transfer_FuncLTE v = FieldLTE transfer_FieldFunc (VString v)"

definition transfer_FuncContains :: "string \<Rightarrow> pred" where
  "transfer_FuncContains v = FieldContains transfer_FieldFunc v"

definition transfer_FuncHasPrefix :: "string \<Rightarrow> pred" where
  "transfer_FuncHasPrefix v = FieldHasPrefix transfer_FieldFunc v"

definition transfer_FuncHasSuffix :: "string \<Rightarrow> pred" where
  "transfer_FuncHasSuffix v = FieldHasSuffix transfer_FieldFunc v"

definition transfer_FuncEqualFold :: "string \<Rightarrow> pred" where
  "transfer_FuncEqualFold v = FieldEqualFold transfer_FieldFunc v"

definition transfer_FuncContainsFold :: "string \<Rightarrow> pred" where
  "transfer_FuncContainsFold v = FieldContainsFold transfer_FieldFunc v"

definition transfer_FromAddressNEQ :: "string \<Rightarrow> pred" where
  "transfer_FromAddressNEQ v = FieldNEQ transfer_FieldFromAddress (VString v)"

definition transfer_FromAddressIn :: "string list \<Rightarrow> pred" where
  "transfer_FromAddressIn vs = FieldIn transfer_FieldFromAddress (map VString vs)"

definition transfer_FromAddressNotIn :: "string list \<Rightarrow> pred" where
  "transfer_FromAddressNotIn vs = FieldNotIn transfer_FieldFromAddress (map VString vs)"

definition transfer_FromAddressGT :: "string \<Rightarrow> pred" where
  "transfer_FromAddressGT v = FieldGT transfer_FieldFromAddress (VString v)"

definition transfer_FromAddressGTE :: "string \<Rightarrow> pred" where
  "transfer_FromAddressGTE v = FieldGTE transfer_FieldFromAddress (VString v)"

definition transfer_FromAddressLT :: "string \<Rightarrow> pred" where
  "transfer_FromAddressLT v = FieldLT transfer_FieldFromAddress (VString v)"

definition transfer_FromAddressLTE :: "string \<Rightarrow> pred" where
  "transfer_FromAddressLTE v = FieldLTE transfer_FieldFromAddress (VString v)"

definition transfer_FromAddressContains :: "string \<Rightarrow> pred" where
  "transfer_FromAddressContains v = FieldContains transfer_FieldFromAddress v"

definition transfer_FromAddressHasPrefix :: "string \<Rightarrow> pred" where
  "transfer_FromAddressHasPrefix v = FieldHasPrefix transfer_FieldFromAddress v"

definition transfer_FromAddressHasSuffix :: "string \<Rightarrow> pred" where
  "transfer_FromAddressHasSuffix v = FieldHasSuffix transfer_FieldFromAddress v"

definition transfer_FromAddressIsNil :: pred where
  "transfer_FromAddressIsNil = FieldIsNull transfer_FieldFromAddress"

definition transfer_FromAddressNotNil :: pred where
  "transfer_FromAddressNotNil = FieldNotNull transfer_FieldFromAddress"

definition transfer_FromAddressEqualFold :: "string \<Rightarrow> pred" where
  "transfer_FromAddressEqualFold v = FieldEqualFold transfer_FieldFromAddress v"

definition transfer_FromAddressContainsFold :: "string \<Rightarrow> pred" where
  "transfer_FromAddressContainsFold v = FieldContainsFold transfer_FieldFromAddress v"

definition transfer_ToAddressNEQ :: "string \<Rightarrow> pred" where
  "transfer_ToAddressNEQ v = FieldNEQ transfer_FieldToAddress (VString v)"

definition transfer_ToAddressIn :: "string list \<Rightarrow> pred" where
  "transfer_ToAddressIn vs = FieldIn transfer_FieldToAddress (map VString vs)"

definition transfer_ToAddressNotIn :: "string list \<Rightarrow> pred" where
  "transfer_ToAddressNotIn vs = FieldNotIn transfer_FieldToAddress (map VString vs)"

definition transfer_ToAddressGT :: "string \<Rightarrow> pred" where
  "transfer_ToAddressGT v = FieldGT transfer_FieldToAddress (VString v)"

definition transfer_ToAddressGTE :: "string \<Rightarrow> pred" where
  "transfer_ToAddressGTE v = FieldGTE transfer_FieldToAddress (VString v)"

definition transfer_ToAddressLT :: "string \<Rightarrow> pred" where
  "transfer_ToAddressLT v = FieldLT transfer_FieldToAddress (VString v)"

definition transfer_ToAddressLTE :: "string \<Rightarrow> pred" where
  "transfer_ToAddressLTE v = FieldLTE transfer_FieldToAddress (VString v)"

definition transfer_ToAddressContains :: "string \<Rightarrow> pred" where
  "transfer_ToAddressContains v = FieldContains transfer_FieldToAddress v"

definition transfer_ToAddressHasPrefix :: "string \<Rightarrow> pred" where
  "transfer_ToAddressHasPrefix v = FieldHasPrefix transfer_FieldToAddress v"

definition transfer_ToAddressHasSuffix :: "string \<Rightarrow> pred" where
  "transfer_ToAddressHasSuffix v = FieldHasSuffix transfer_FieldToAddress v"

definition transfer_ToAddressIsNil :: pred where
  "transfer_ToAddressIsNil = FieldIsNull transfer_FieldToAddress"

definition transfer_ToAddressNotNil :: pred where
  "transfer_ToAddressNotNil = FieldNotNull transfer_FieldToAddress"

definition transfer_ToAddressEqualFold :: "string \<Rightarrow> pred" where
  "transfer_ToAddressEqualFold v = FieldEqualFold transfer_FieldToAddress v"

definition transfer_ToAddressContainsFold :: "string \<Rightarrow> pred" where
  "transfer_ToAddressContainsFold v = FieldContainsFold transfer_FieldToAddress v"

definition transfer_TokenNEQ :: "string \<Rightarrow> pred" where
  "transfer_TokenNEQ v = FieldNEQ transfer_FieldToken (VString v)"

definition transfer_TokenIn :: "string list \<Rightarrow> pred" where
  "transfer_TokenIn vs = FieldIn transfer_FieldToken (map VString vs)"

definition transfer_TokenNotIn :: "string list \<Rightarrow> pred" where
  "transfer_TokenNotIn vs = FieldNotIn transfer_FieldToken (map VString vs)"

definition transfer_TokenGT :: "string \<Rightarrow> pred" where
  "transfer_TokenGT v = FieldGT transfer_FieldToken (VString v)"

definition transfer_TokenGTE :: "string \<Rightarrow> pred" where
  "transfer_TokenGTE v = FieldGTE transfer_FieldToken (VString v)"

definition transfer_TokenLT :: "string \<Rightarrow> pred" where
  "transfer_TokenLT v = FieldLT transfer_FieldToken (VString v)"

definition transfer_TokenLTE :: "string \<Rightarrow> pred" where
  "transfer_TokenLTE v = FieldLTE transfer_FieldToken (VString v)"

definition transfer_TokenContains :: "string \<Rightarrow> pred" where
  "transfer_TokenContains v = FieldContains transfer_FieldToken v"

definition transfer_TokenHasPrefix :: "string \<Rightarrow> pred" where
  "transfer_TokenHasPrefix v = FieldHasPrefix transfer_FieldToken v"

definition transfer_TokenHasSuffix :: "string \<Rightarrow> pred" where
  "transfer_TokenHasSuffix v = FieldHasSuffix transfer_FieldToken v"

definition transfer_TokenEqualFold :: "string \<Rightarrow> pred" where
  "transfer_TokenEqualFold v = FieldEqualFold transfer_FieldToken v"

definition transfer_TokenContainsFold :: "string \<Rightarrow> pred" where
  "transfer_TokenContainsFold v = FieldContainsFold transfer_FieldToken v"

definition transfer_AmountEQ :: "float64 \<Rightarrow> pred" where
  "transfer_AmountEQ v = FieldEQ transfer_FieldAmount (VFloat v)"

definition transfer_AmountNEQ :: "float64 \<Rightarrow> pred" where
  "transfer_AmountNEQ v = FieldNEQ transfer_FieldAmount (VFloat v)"

definition transfer_AmountIn :: "float64 list \<Rightarrow> pred" where
  "transfer_AmountIn vs = FieldIn transfer_FieldAmount (map VFloat vs)"

definition transfer_AmountNotIn :: "float64 list \<Rightarrow> pred" where
  "transfer_AmountNotIn vs = FieldNotIn transfer_FieldAmount (map VFloat vs)"

definition transfer_AmountGT :: "float64 \<Rightarrow> pred" where
  "transfer_AmountGT v = FieldGT transfer_FieldAmount (VFloat v)"

definition transfer_AmountGTE :: "float64 \<Rightarrow> pred" where
  "transfer_AmountGTE v = FieldGTE transfer_FieldAmount (VFloat v)"

definition transfer_AmountLT :: "float64 \<Rightarrow> pred" where
  "transfer_AmountLT v = FieldLT transfer_FieldAmount (VFloat v)"

definition transfer_AmountLTE :: "float64 \<Rightarrow> pred" where
  "transfer_AmountLTE v = FieldLTE transfer_FieldAmount (VFloat v)"

definition transfer_DenomEQ :: "string \<Rightarrow> pred" where
  "transfer_DenomEQ v = FieldEQ transfer_FieldDenom (VString v)"

definition transfer_DenomNEQ :: "string \<Rightarrow> pred" where
  "transfer_DenomNEQ v = FieldNEQ transfer_FieldDenom (VString v)"

definition transfer_DenomIn :: "string list \<Rightarrow> pred" where
  "transfer_DenomIn vs = FieldIn transfer_FieldDenom (map VString vs)"

definition transfer_DenomNotIn :: "string list \<Rightarrow> pred" where
  "transfer_DenomNotIn vs = FieldNotIn transfer_FieldDenom (map VString vs)"

definition transfer_DenomGT :: "string \<Rightarrow> pred" where
  "transfer_DenomGT v = FieldGT transfer_FieldDenom (VString v)"

definition transfer_DenomGTE :: "string \<Rightarrow> pred" where
  "transfer_DenomGTE v = FieldGTE transfer_FieldDenom (VString v)"

definition transfer_DenomLT :: "string \<Rightarrow> pred" where
  "transfer_DenomLT v = FieldLT transfer_FieldDenom (VString v)"

definition transfer_DenomLTE :: "string \<Rightarrow> pred" where
  "transfer_DenomLTE v = FieldLTE transfer_FieldDenom (VString v)"

definition transfer_DenomContains :: "string \<Rightarrow> pred" where
  "transfer_DenomContains v = FieldContains transfer_FieldDenom v"

definition transfer_DenomHasPrefix :: "string \<Rightarrow> pred" where
  "transfer_DenomHasPrefix v = FieldHasPrefix transfer_FieldDenom v"

definition transfer_DenomHasSuffix :: "string \<Rightarrow> pred" where
  "transfer_DenomHasSuffix v = FieldHasSuffix transfer_FieldDenom v"

definition transfer_DenomEqualFold :: "string \<Rightarrow> pred" where
  "transfer_DenomEqualFold v = FieldEqualFold transfer_FieldDenom v"

definition transfer_DenomContainsFold :: "string \<Rightarrow> pred" where
  "transfer_DenomContainsFold v = FieldContainsFold transfer_FieldDenom v"

definition transfer_CreatedAtEQ :: "go_time \<Rightarrow> pred" where
  "transfer_CreatedAtEQ v = FieldEQ transfer_FieldCreatedAt (VTime v)"

definition transfer_CreatedAtNEQ :: "go_time \<Rightarrow> pred" where
  "transfer_CreatedAtNEQ v = FieldNEQ transfer_FieldCreatedAt (VTime v)"

definition transfer_CreatedAtIn :: "go_time list \<Rightarrow> pred" where
  "transfer_CreatedAtIn vs = FieldIn transfer_FieldCreatedAt (map VTime vs)"

definition transfer_CreatedAtNotIn :: "go_time list \<Rightarrow> pred" where
  "transfer_CreatedAtNotIn vs = FieldNotIn transfer_FieldCreatedAt (map VTime vs)"

definition transfer_CreatedAtGT :: "go_time \<Rightarrow> pred" where
  "transfer_CreatedAtGT v = FieldGT transfer_FieldCreatedAt (VTime v)"

definition transfer_CreatedAtGTE :: "go_time \<Rightarrow> pred" where
  "transfer_CreatedAtGTE v = FieldGTE transfer_FieldCreatedAt (VTime v)"

definition transfer_CreatedAtLT :: "go_time \<Rightarrow> pred" where
  "transfer_CreatedAtLT v = FieldLT transfer_FieldCreatedAt (VTime v)"

definition transfer_CreatedAtLTE :: "go_time \<Rightarrow> pred" where
  "transfer_CreatedAtLTE v = FieldLTE transfer_FieldCreatedAt (VTime v)"

definition transfer_And :: "pred list \<Rightarrow> pred" where
  "transfer_And predicates = AndPredicates predicates"

definition transfer_Not :: "pred \<Rightarrow> pred" where
  "transfer_Not p = NotPredicates p"

lemmas transfer_where_defs = transfer_ID_def transfer_IDEQ_def transfer_IDNEQ_def
  transfer_IDIn_def transfer_IDNotIn_def transfer_IDGT_def
  transfer_IDGTE_def transfer_IDLT_def transfer_IDLTE_def
  transfer_Hash_def transfer_FromAddress_def transfer_ToAddress_def
  transfer_Token_def transfer_Amount_def transfer_Denom_def
  transfer_CreatedAt_def transfer_HashEQ_def transfer_HashNEQ_def
  transfer_HashIn_def transfer_HashNotIn_def transfer_HashGT_def
  transfer_HashGTE_def transfer_HashLT_def transfer_HashLTE_def
  transfer_HashContains_def transfer_HashHasPrefix_def transfer_HashHasSuffix_def
  transfer_HashEqualFold_def transfer_HashContainsFold_def transfer_FuncEQ_def
  transfer_FuncNEQ_def transfer_FuncIn_def transfer_FuncNotIn_def
  transfer_FuncGT_def transfer_FuncGTE_def transfer_FuncLT_def
  transfer_FuncLTE_def transfer_FuncContains_def transfer_FuncHasPrefix_def
  transfer_FuncHasSuffix_def transfer_FuncEqualFold_def transfer_FuncContainsFold_def
  transfer_FromAddressNEQ_def transfer_FromAddressIn_def transfer_FromAddressNotIn_def
  transfer_FromAddressGT_def transfer_FromAddressGTE_def transfer_FromAddressLT_def
  transfer_FromAddressLTE_def transfer_FromAddressContains_def transfer_FromAddressHasPrefix_def
  transfer_FromAddressHasSuffix_def transfer_FromAddressIsNil_def transfer_FromAddressNotNil_def
  transfer_FromAddressEqualFold_def transfer_FromAddressContainsFold_def transfer_ToAddressNEQ_def
  transfer_ToAddressIn_def transfer_ToAddressNotIn_def transfer_ToAddressGT_def
  transfer_ToAddressGTE_def transfer_ToAddressLT_def transfer_ToAddressLTE_def
  transfer_ToAddressContains_def transfer_ToAddressHasPrefix_def transfer_ToAddressHasSuffix_def
  transfer_ToAddressIsNil_def transfer_ToAddressNotNil_def transfer_ToAddressEqualFold_def
  transfer_ToAddressContainsFold_def transfer_TokenNEQ_def transfer_TokenIn_def
  transfer_TokenNotIn_def transfer_TokenGT_def transfer_TokenGTE_def
  transfer_TokenLT_def transfer_TokenLTE_def transfer_TokenContains_def
  transfer_TokenHasPrefix_def transfer_TokenHasSuffix_def transfer_TokenEqualFold_def
  transfer_TokenContainsFold_def transfer_AmountEQ_def transfer_AmountNEQ_def
  transfer_AmountIn_def transfer_AmountNotIn_def transfer_AmountGT_def
  transfer_AmountGTE_def transfer_AmountLT_def transfer_AmountLTE_def
  transfer_DenomEQ_def transfer_DenomNEQ_def transfer_DenomIn_def
  transfer_DenomNotIn_def transfer_DenomGT_def transfer_DenomGTE_def
  transfer_DenomLT_def transfer_DenomLTE_def transfer_DenomContains_def
  transfer_DenomHasPrefix_def transfer_DenomHasSuffix_def transfer_DenomEqualFold_def
  transfer_DenomContainsFold_def transfer_CreatedAtEQ_def transfer_CreatedAtNEQ_def
  transfer_CreatedAtIn_def transfer_CreatedAtNotIn_def transfer_CreatedAtGT_def
  transfer_CreatedAtGTE_def transfer_CreatedAtLT_def transfer_CreatedAtLTE_def
  transfer_And_def transfer_Not_def

end
