(* ===== verification/Ent_Update.thy ===== *)
theory Ent_Update
  imports Ent_Graph Ent_Where
begin

text \<open>
  The update builders of the five entities (\<^verbatim>\<open>ent/*_update.go\<close>): \<^verbatim>\<open>Update\<close> for the rows that match its
  predicates, \<^verbatim>\<open>UpdateOne\<close> for one row, which it reads back. A setter writes to the mutation; \<^verbatim>\<open>sqlSave\<close>
  checks it, turns it into a spec and hands it to \<^verbatim>\<open>sqlgraph\<close>. What the repository calls of the account's
  is in \<open>Ent_Account\<close>. A list of arguments stands for a variadic parameter, an option for a pointer.
\<close>

section \<open>\<^verbatim>\<open>ent/account_update.go\<close>\<close>

record account_update_one =
  auo_fields :: "string list"
  auo_mutation :: account_mutation

definition AccountUpdate_SetNillableToken :: "string option \<Rightarrow> account_update
    \<Rightarrow> account_update" where
  "AccountUpdate_SetNillableToken v u = (case v of None \<Rightarrow> u | Some w \<Rightarrow> AccountUpdate_SetToken w u)"

definition AccountUpdate_SetNillableAmount :: "float64 option \<Rightarrow> account_update
    \<Rightarrow> account_update" where
  "AccountUpdate_SetNillableAmount v u = (case v of None \<Rightarrow> u | Some w \<Rightarrow> AccountUpdate_SetAmount w u)"

definition AccountUpdate_AddTransfersToIDs :: "int list \<Rightarrow> account_update
    \<Rightarrow> account_update" where
  "AccountUpdate_AddTransfersToIDs ids u = u\<lparr>aub_mutation := AccountMutation_AddTransfersToIDs ids (aub_mutation u)\<rparr>"

definition AccountUpdate_AddTransfersTo :: "ent_transfer list \<Rightarrow> account_update
    \<Rightarrow> account_update" where
  "AccountUpdate_AddTransfersTo v u = AccountUpdate_AddTransfersToIDs (map ef_ID v) u"

definition AccountUpdate_AddTransfersFromIDs :: "int list \<Rightarrow> account_update
    \<Rightarrow> account_update" where
  "AccountUpdate_AddTransfersFromIDs ids u = u\<lparr>aub_mutation := AccountMutation_AddTransfersFromIDs ids (aub_mutation u)\<rparr>"

definition AccountUpdate_AddTransfersFrom :: "ent_transfer list \<Rightarrow> account_update
    \<Rightarrow> account_update" where
  "AccountUpdate_AddTransfersFrom v u = AccountUpdate_AddTransfersFromIDs (map ef_ID v) u"

definition AccountUpdate_Mutation :: "account_update \<Rightarrow> account_mutation" where
  "AccountUpdate_Mutation u = aub_mutation u"

definition AccountUpdate_ClearTransfersTo :: "account_update \<Rightarrow> account_update" where
  "AccountUpdate_ClearTransfersTo u = u\<lparr>aub_mutation := AccountMutation_ClearTransfersTo (aub_mutation u)\<rparr>"

definition AccountUpdate_RemoveTransfersToIDs :: "int list \<Rightarrow> account_update
    \<Rightarrow> account_update" where
  "AccountUpdate_RemoveTransfersToIDs ids u = u\<lparr>aub_mutation := AccountMutation_RemoveTransfersToIDs ids (aub_mutation u)\<rparr>"

definition AccountUpdate_RemoveTransfersTo :: "ent_transfer list \<Rightarrow> account_update
    \<Rightarrow> account_update" where
  "AccountUpdate_RemoveTransfersTo v u = AccountUpdate_RemoveTransfersToIDs (map ef_ID v) u"

definition AccountUpdate_ClearTransfersFrom :: "account_update \<Rightarrow> account_update" where
  "AccountUpdate_ClearTransfersFrom u = u\<lparr>aub_mutation := AccountMutation_ClearTransfersFrom (aub_mutation u)\<rparr>"

definition AccountUpdate_RemoveTransfersFromIDs :: "int list \<Rightarrow> account_update
    \<Rightarrow> account_update" where
  "AccountUpdate_RemoveTransfersFromIDs ids u = u\<lparr>aub_mutation := AccountMutation_RemoveTransfersFromIDs ids (aub_mutation u)\<rparr>"

definition AccountUpdate_RemoveTransfersFrom :: "ent_transfer list \<Rightarrow> account_update
    \<Rightarrow> account_update" where
  "AccountUpdate_RemoveTransfersFrom v u = AccountUpdate_RemoveTransfersFromIDs (map ef_ID v) u"

definition AccountUpdate_SaveX :: "'s ent_client \<Rightarrow> account_update
    \<Rightarrow> ('s, int) io" where
  "AccountUpdate_SaveX cl u = must (AccountUpdate_Save cl u)"

definition AccountUpdate_Exec :: "'s ent_client \<Rightarrow> account_update
    \<Rightarrow> ('s, unit) io" where
  "AccountUpdate_Exec cl u = drop_result (AccountUpdate_Save cl u)"

definition AccountUpdate_ExecX :: "'s ent_client \<Rightarrow> account_update
    \<Rightarrow> ('s, unit) io" where
  "AccountUpdate_ExecX cl u = must (AccountUpdate_Exec cl u)"

definition AccountUpdateOne_SetToken :: "string \<Rightarrow> account_update_one
    \<Rightarrow> account_update_one" where
  "AccountUpdateOne_SetToken v u = u\<lparr>auo_mutation := AccountMutation_SetToken v (auo_mutation u)\<rparr>"

definition AccountUpdateOne_SetNillableToken :: "string option \<Rightarrow> account_update_one
    \<Rightarrow> account_update_one" where
  "AccountUpdateOne_SetNillableToken v u = (case v of None \<Rightarrow> u | Some w \<Rightarrow> AccountUpdateOne_SetToken w u)"

definition AccountUpdateOne_SetAmount :: "float64 \<Rightarrow> account_update_one
    \<Rightarrow> account_update_one" where
  "AccountUpdateOne_SetAmount v u = u\<lparr>auo_mutation := AccountMutation_SetAmount v (AccountMutation_ResetAmount (auo_mutation u))\<rparr>"

definition AccountUpdateOne_SetNillableAmount :: "float64 option \<Rightarrow> account_update_one
    \<Rightarrow> account_update_one" where
  "AccountUpdateOne_SetNillableAmount v u = (case v of None \<Rightarrow> u | Some w \<Rightarrow> AccountUpdateOne_SetAmount w u)"

definition AccountUpdateOne_AddAmount :: "float64 \<Rightarrow> account_update_one
    \<Rightarrow> account_update_one" where
  "AccountUpdateOne_AddAmount v u = u\<lparr>auo_mutation := AccountMutation_AddAmount v (auo_mutation u)\<rparr>"

definition AccountUpdateOne_AddTransfersToIDs :: "int list \<Rightarrow> account_update_one
    \<Rightarrow> account_update_one" where
  "AccountUpdateOne_AddTransfersToIDs ids u = u\<lparr>auo_mutation := AccountMutation_AddTransfersToIDs ids (auo_mutation u)\<rparr>"

definition AccountUpdateOne_AddTransfersTo :: "ent_transfer list \<Rightarrow> account_update_one
    \<Rightarrow> account_update_one" where
  "AccountUpdateOne_AddTransfersTo v u = AccountUpdateOne_AddTransfersToIDs (map ef_ID v) u"

definition AccountUpdateOne_AddTransfersFromIDs :: "int list \<Rightarrow> account_update_one
    \<Rightarrow> account_update_one" where
  "AccountUpdateOne_AddTransfersFromIDs ids u = u\<lparr>auo_mutation := AccountMutation_AddTransfersFromIDs ids (auo_mutation u)\<rparr>"

definition AccountUpdateOne_AddTransfersFrom :: "ent_transfer list \<Rightarrow> account_update_one
    \<Rightarrow> account_update_one" where
  "AccountUpdateOne_AddTransfersFrom v u = AccountUpdateOne_AddTransfersFromIDs (map ef_ID v) u"

definition AccountUpdateOne_Mutation :: "account_update_one \<Rightarrow> account_mutation" where
  "AccountUpdateOne_Mutation u = auo_mutation u"

definition AccountUpdateOne_ClearTransfersTo :: "account_update_one
    \<Rightarrow> account_update_one" where
  "AccountUpdateOne_ClearTransfersTo u = u\<lparr>auo_mutation := AccountMutation_ClearTransfersTo (auo_mutation u)\<rparr>"

definition AccountUpdateOne_RemoveTransfersToIDs :: "int list \<Rightarrow> account_update_one
    \<Rightarrow> account_update_one" where
  "AccountUpdateOne_RemoveTransfersToIDs ids u = u\<lparr>auo_mutation := AccountMutation_RemoveTransfersToIDs ids (auo_mutation u)\<rparr>"

definition AccountUpdateOne_RemoveTransfersTo :: "ent_transfer list \<Rightarrow> account_update_one
    \<Rightarrow> account_update_one" where
  "AccountUpdateOne_RemoveTransfersTo v u = AccountUpdateOne_RemoveTransfersToIDs (map ef_ID v) u"

definition AccountUpdateOne_ClearTransfersFrom :: "account_update_one
    \<Rightarrow> account_update_one" where
  "AccountUpdateOne_ClearTransfersFrom u = u\<lparr>auo_mutation := AccountMutation_ClearTransfersFrom (auo_mutation u)\<rparr>"

definition AccountUpdateOne_RemoveTransfersFromIDs :: "int list \<Rightarrow> account_update_one
    \<Rightarrow> account_update_one" where
  "AccountUpdateOne_RemoveTransfersFromIDs ids u = u\<lparr>auo_mutation := AccountMutation_RemoveTransfersFromIDs ids (auo_mutation u)\<rparr>"

definition AccountUpdateOne_RemoveTransfersFrom :: "ent_transfer list \<Rightarrow> account_update_one
    \<Rightarrow> account_update_one" where
  "AccountUpdateOne_RemoveTransfersFrom v u = AccountUpdateOne_RemoveTransfersFromIDs (map ef_ID v) u"

definition AccountUpdateOne_Where :: "pred list \<Rightarrow> account_update_one
    \<Rightarrow> account_update_one" where
  "AccountUpdateOne_Where ps u = u\<lparr>auo_mutation := AccountMutation_Where ps (auo_mutation u)\<rparr>"

definition AccountUpdateOne_Select :: "string \<Rightarrow> string list
    \<Rightarrow> account_update_one \<Rightarrow> account_update_one" where
  "AccountUpdateOne_Select f fs u = u\<lparr>auo_fields := f # fs\<rparr>"

definition AccountUpdateOne_check :: "'s ent_client \<Rightarrow> account_update_one
    \<Rightarrow> err option" where
  "AccountUpdateOne_check cl u = 
     validate_field ''token'' (NotEmpty cl) (AccountMutation_Token (auo_mutation u))"

definition AccountUpdateOne_sqlSave :: "'s ent_graph \<Rightarrow> account_update_one
    \<Rightarrow> ('s, ent_account) io" where
  "AccountUpdateOne_sqlSave g u s = 
     (case AccountUpdateOne_check (eg_client g) u of Some e \<Rightarrow> (Inl e, s)
      | None \<Rightarrow>
        (case AccountMutation_ID (auo_mutation u) of
           None \<Rightarrow> (Inl (EValidation ''id'' ''ent: missing id for update''), s)
         | Some k \<Rightarrow>
           (case select_columns account_meta (auo_fields u) of
              Inl e \<Rightarrow> (Inl e, s)
            | Inr cs \<Rightarrow> update_one account_meta g
                \<lparr>nu_Spec = (AccountUpdate_spec \<lparr>aub_mutation = auo_mutation u\<rparr>)\<lparr>us_Columns := cs\<rparr>,
                 nu_ID = VString k\<rparr> s)))"

definition AccountUpdateOne_Save :: "'s ent_graph \<Rightarrow> account_update_one
    \<Rightarrow> ('s, ent_account) io" where
  "AccountUpdateOne_Save = AccountUpdateOne_sqlSave"

definition AccountUpdateOne_SaveX :: "'s ent_graph \<Rightarrow> account_update_one
    \<Rightarrow> ('s, ent_account) io" where
  "AccountUpdateOne_SaveX cl u = must (AccountUpdateOne_Save cl u)"

definition AccountUpdateOne_Exec :: "'s ent_graph \<Rightarrow> account_update_one
    \<Rightarrow> ('s, unit) io" where
  "AccountUpdateOne_Exec cl u = drop_result (AccountUpdateOne_Save cl u)"

definition AccountUpdateOne_ExecX :: "'s ent_graph \<Rightarrow> account_update_one
    \<Rightarrow> ('s, unit) io" where
  "AccountUpdateOne_ExecX cl u = must (AccountUpdateOne_Exec cl u)"

lemmas account_updates_defs = AccountUpdate_SetNillableToken_def AccountUpdate_SetNillableAmount_def
  AccountUpdate_AddTransfersToIDs_def AccountUpdate_AddTransfersTo_def
  AccountUpdate_AddTransfersFromIDs_def AccountUpdate_AddTransfersFrom_def
  AccountUpdate_Mutation_def AccountUpdate_ClearTransfersTo_def
  AccountUpdate_RemoveTransfersToIDs_def AccountUpdate_RemoveTransfersTo_def
  AccountUpdate_ClearTransfersFrom_def AccountUpdate_RemoveTransfersFromIDs_def
  AccountUpdate_RemoveTransfersFrom_def AccountUpdate_SaveX_def
  AccountUpdate_Exec_def AccountUpdate_ExecX_def
  AccountUpdateOne_SetToken_def AccountUpdateOne_SetNillableToken_def
  AccountUpdateOne_SetAmount_def AccountUpdateOne_SetNillableAmount_def
  AccountUpdateOne_AddAmount_def AccountUpdateOne_AddTransfersToIDs_def
  AccountUpdateOne_AddTransfersTo_def AccountUpdateOne_AddTransfersFromIDs_def
  AccountUpdateOne_AddTransfersFrom_def AccountUpdateOne_Mutation_def
  AccountUpdateOne_ClearTransfersTo_def AccountUpdateOne_RemoveTransfersToIDs_def
  AccountUpdateOne_RemoveTransfersTo_def AccountUpdateOne_ClearTransfersFrom_def
  AccountUpdateOne_RemoveTransfersFromIDs_def AccountUpdateOne_RemoveTransfersFrom_def
  AccountUpdateOne_Where_def AccountUpdateOne_Select_def
  AccountUpdateOne_check_def AccountUpdateOne_sqlSave_def
  AccountUpdateOne_Save_def AccountUpdateOne_SaveX_def
  AccountUpdateOne_Exec_def AccountUpdateOne_ExecX_def

section \<open>\<^verbatim>\<open>ent/block_update.go\<close>\<close>

record block_update =
  bub_mutation :: block_mutation

record block_update_one =
  buo_fields :: "string list"
  buo_mutation :: block_mutation

definition BlockUpdate_Where :: "pred list \<Rightarrow> block_update
    \<Rightarrow> block_update" where
  "BlockUpdate_Where ps u = u\<lparr>bub_mutation := BlockMutation_Where ps (bub_mutation u)\<rparr>"

definition BlockUpdate_SetHash :: "string \<Rightarrow> block_update
    \<Rightarrow> block_update" where
  "BlockUpdate_SetHash v u = u\<lparr>bub_mutation := BlockMutation_SetHash v (bub_mutation u)\<rparr>"

definition BlockUpdate_SetNillableHash :: "string option \<Rightarrow> block_update
    \<Rightarrow> block_update" where
  "BlockUpdate_SetNillableHash v u = (case v of None \<Rightarrow> u | Some w \<Rightarrow> BlockUpdate_SetHash w u)"

definition BlockUpdate_SetTime :: "go_time \<Rightarrow> block_update
    \<Rightarrow> block_update" where
  "BlockUpdate_SetTime v u = u\<lparr>bub_mutation := BlockMutation_SetTime v (bub_mutation u)\<rparr>"

definition BlockUpdate_SetNillableTime :: "go_time option \<Rightarrow> block_update
    \<Rightarrow> block_update" where
  "BlockUpdate_SetNillableTime v u = (case v of None \<Rightarrow> u | Some w \<Rightarrow> BlockUpdate_SetTime w u)"

definition BlockUpdate_SetTotalTxs :: "int \<Rightarrow> block_update
    \<Rightarrow> block_update" where
  "BlockUpdate_SetTotalTxs v u = u\<lparr>bub_mutation := BlockMutation_SetTotalTxs v (BlockMutation_ResetTotalTxs (bub_mutation u))\<rparr>"

definition BlockUpdate_SetNillableTotalTxs :: "int option \<Rightarrow> block_update
    \<Rightarrow> block_update" where
  "BlockUpdate_SetNillableTotalTxs v u = (case v of None \<Rightarrow> u | Some w \<Rightarrow> BlockUpdate_SetTotalTxs w u)"

definition BlockUpdate_AddTotalTxs :: "int \<Rightarrow> block_update
    \<Rightarrow> block_update" where
  "BlockUpdate_AddTotalTxs v u = u\<lparr>bub_mutation := BlockMutation_AddTotalTxs v (bub_mutation u)\<rparr>"

definition BlockUpdate_SetNumTxs :: "int \<Rightarrow> block_update
    \<Rightarrow> block_update" where
  "BlockUpdate_SetNumTxs v u = u\<lparr>bub_mutation := BlockMutation_SetNumTxs v (BlockMutation_ResetNumTxs (bub_mutation u))\<rparr>"

definition BlockUpdate_SetNillableNumTxs :: "int option \<Rightarrow> block_update
    \<Rightarrow> block_update" where
  "BlockUpdate_SetNillableNumTxs v u = (case v of None \<Rightarrow> u | Some w \<Rightarrow> BlockUpdate_SetNumTxs w u)"

definition BlockUpdate_AddNumTxs :: "int \<Rightarrow> block_update
    \<Rightarrow> block_update" where
  "BlockUpdate_AddNumTxs v u = u\<lparr>bub_mutation := BlockMutation_AddNumTxs v (bub_mutation u)\<rparr>"

definition BlockUpdate_AddTransactionIDs :: "int list \<Rightarrow> block_update
    \<Rightarrow> block_update" where
  "BlockUpdate_AddTransactionIDs ids u = u\<lparr>bub_mutation := BlockMutation_AddTransactionIDs ids (bub_mutation u)\<rparr>"

definition BlockUpdate_AddTransactions :: "ent_transaction list \<Rightarrow> block_update
    \<Rightarrow> block_update" where
  "BlockUpdate_AddTransactions v u = BlockUpdate_AddTransactionIDs (map et_ID v) u"

definition BlockUpdate_Mutation :: "block_update \<Rightarrow> block_mutation" where
  "BlockUpdate_Mutation u = bub_mutation u"

definition BlockUpdate_ClearTransactions :: "block_update \<Rightarrow> block_update" where
  "BlockUpdate_ClearTransactions u = u\<lparr>bub_mutation := BlockMutation_ClearTransactions (bub_mutation u)\<rparr>"

definition BlockUpdate_RemoveTransactionIDs :: "int list \<Rightarrow> block_update
    \<Rightarrow> block_update" where
  "BlockUpdate_RemoveTransactionIDs ids u = u\<lparr>bub_mutation := BlockMutation_RemoveTransactionIDs ids (bub_mutation u)\<rparr>"

definition BlockUpdate_RemoveTransactions :: "ent_transaction list \<Rightarrow> block_update
    \<Rightarrow> block_update" where
  "BlockUpdate_RemoveTransactions v u = BlockUpdate_RemoveTransactionIDs (map et_ID v) u"

definition BlockUpdate_check :: "'s ent_client \<Rightarrow> block_update
    \<Rightarrow> err option" where
  "BlockUpdate_check cl u = 
     validate_field ''hash'' (NotEmpty cl) (BlockMutation_Hash (bub_mutation u))"

definition block_Transactions_edge :: "int list \<Rightarrow> edge_spec" where
  "block_Transactions_edge nodes = \<lparr>es_Rel = O2M, es_Inverse = False, es_Table = block_TransactionsTable,
     es_Columns = [block_TransactionsColumn], es_Bidi = False, es_IDSpec = (transaction_FieldID, TypeInt), es_Nodes = nodes\<rparr>"

definition BlockUpdate_spec :: "block_update \<Rightarrow> update_spec" where
  "BlockUpdate_spec u = 
     (let m = bub_mutation u in
      \<lparr>us_Table = block_Table, us_Columns = block_Columns, us_IDSpec = (block_FieldID, TypeInt),
       us_Predicate = bm_predicates m,
       us_Set = set_entry block_FieldHash TypeString VString (BlockMutation_Hash m) @
         set_entry block_FieldTime TypeTime VTime (BlockMutation_Time m) @
         set_entry block_FieldTotalTxs TypeInt VInt (BlockMutation_TotalTxs m) @
         set_entry block_FieldNumTxs TypeInt VInt (BlockMutation_NumTxs m),
       us_Add = set_entry block_FieldTotalTxs TypeInt VInt (BlockMutation_AddedTotalTxs m) @
         set_entry block_FieldNumTxs TypeInt VInt (BlockMutation_AddedNumTxs m),
       us_Clear = [],
       us_Append = [],
       us_ClearEdges = clear_edge block_Transactions_edge (BlockMutation_TransactionsCleared m) @
         remove_edge block_Transactions_edge (BlockMutation_RemovedTransactionsIDs m) (BlockMutation_TransactionsCleared m),
       us_AddEdges = add_edge block_Transactions_edge (BlockMutation_TransactionsIDs m)\<rparr>)"

definition BlockUpdate_sqlSave :: "'s ent_client \<Rightarrow> block_update
    \<Rightarrow> ('s, int) io" where
  "BlockUpdate_sqlSave cl u s = 
     (case BlockUpdate_check cl u of Some e \<Rightarrow> (Inl e, s)
      | None \<Rightarrow>
        (case UpdateNodes cl (BlockUpdate_spec u) s of
           (Inl e, s') \<Rightarrow> (Inl (wrap_update_err block_Label e), s')
         | (Inr n, s') \<Rightarrow> (Inr n, s')))"

definition BlockUpdate_Save :: "'s ent_client \<Rightarrow> block_update
    \<Rightarrow> ('s, int) io" where
  "BlockUpdate_Save = BlockUpdate_sqlSave"

definition BlockUpdate_SaveX :: "'s ent_client \<Rightarrow> block_update
    \<Rightarrow> ('s, int) io" where
  "BlockUpdate_SaveX cl u = must (BlockUpdate_Save cl u)"

definition BlockUpdate_Exec :: "'s ent_client \<Rightarrow> block_update
    \<Rightarrow> ('s, unit) io" where
  "BlockUpdate_Exec cl u = drop_result (BlockUpdate_Save cl u)"

definition BlockUpdate_ExecX :: "'s ent_client \<Rightarrow> block_update
    \<Rightarrow> ('s, unit) io" where
  "BlockUpdate_ExecX cl u = must (BlockUpdate_Exec cl u)"

definition BlockUpdateOne_SetHash :: "string \<Rightarrow> block_update_one
    \<Rightarrow> block_update_one" where
  "BlockUpdateOne_SetHash v u = u\<lparr>buo_mutation := BlockMutation_SetHash v (buo_mutation u)\<rparr>"

definition BlockUpdateOne_SetNillableHash :: "string option \<Rightarrow> block_update_one
    \<Rightarrow> block_update_one" where
  "BlockUpdateOne_SetNillableHash v u = (case v of None \<Rightarrow> u | Some w \<Rightarrow> BlockUpdateOne_SetHash w u)"

definition BlockUpdateOne_SetTime :: "go_time \<Rightarrow> block_update_one
    \<Rightarrow> block_update_one" where
  "BlockUpdateOne_SetTime v u = u\<lparr>buo_mutation := BlockMutation_SetTime v (buo_mutation u)\<rparr>"

definition BlockUpdateOne_SetNillableTime :: "go_time option \<Rightarrow> block_update_one
    \<Rightarrow> block_update_one" where
  "BlockUpdateOne_SetNillableTime v u = (case v of None \<Rightarrow> u | Some w \<Rightarrow> BlockUpdateOne_SetTime w u)"

definition BlockUpdateOne_SetTotalTxs :: "int \<Rightarrow> block_update_one
    \<Rightarrow> block_update_one" where
  "BlockUpdateOne_SetTotalTxs v u = u\<lparr>buo_mutation := BlockMutation_SetTotalTxs v (BlockMutation_ResetTotalTxs (buo_mutation u))\<rparr>"

definition BlockUpdateOne_SetNillableTotalTxs :: "int option \<Rightarrow> block_update_one
    \<Rightarrow> block_update_one" where
  "BlockUpdateOne_SetNillableTotalTxs v u = (case v of None \<Rightarrow> u | Some w \<Rightarrow> BlockUpdateOne_SetTotalTxs w u)"

definition BlockUpdateOne_AddTotalTxs :: "int \<Rightarrow> block_update_one
    \<Rightarrow> block_update_one" where
  "BlockUpdateOne_AddTotalTxs v u = u\<lparr>buo_mutation := BlockMutation_AddTotalTxs v (buo_mutation u)\<rparr>"

definition BlockUpdateOne_SetNumTxs :: "int \<Rightarrow> block_update_one
    \<Rightarrow> block_update_one" where
  "BlockUpdateOne_SetNumTxs v u = u\<lparr>buo_mutation := BlockMutation_SetNumTxs v (BlockMutation_ResetNumTxs (buo_mutation u))\<rparr>"

definition BlockUpdateOne_SetNillableNumTxs :: "int option \<Rightarrow> block_update_one
    \<Rightarrow> block_update_one" where
  "BlockUpdateOne_SetNillableNumTxs v u = (case v of None \<Rightarrow> u | Some w \<Rightarrow> BlockUpdateOne_SetNumTxs w u)"

definition BlockUpdateOne_AddNumTxs :: "int \<Rightarrow> block_update_one
    \<Rightarrow> block_update_one" where
  "BlockUpdateOne_AddNumTxs v u = u\<lparr>buo_mutation := BlockMutation_AddNumTxs v (buo_mutation u)\<rparr>"

definition BlockUpdateOne_AddTransactionIDs :: "int list \<Rightarrow> block_update_one
    \<Rightarrow> block_update_one" where
  "BlockUpdateOne_AddTransactionIDs ids u = u\<lparr>buo_mutation := BlockMutation_AddTransactionIDs ids (buo_mutation u)\<rparr>"

definition BlockUpdateOne_AddTransactions :: "ent_transaction list \<Rightarrow> block_update_one
    \<Rightarrow> block_update_one" where
  "BlockUpdateOne_AddTransactions v u = BlockUpdateOne_AddTransactionIDs (map et_ID v) u"

definition BlockUpdateOne_Mutation :: "block_update_one \<Rightarrow> block_mutation" where
  "BlockUpdateOne_Mutation u = buo_mutation u"

definition BlockUpdateOne_ClearTransactions :: "block_update_one
    \<Rightarrow> block_update_one" where
  "BlockUpdateOne_ClearTransactions u = u\<lparr>buo_mutation := BlockMutation_ClearTransactions (buo_mutation u)\<rparr>"

definition BlockUpdateOne_RemoveTransactionIDs :: "int list \<Rightarrow> block_update_one
    \<Rightarrow> block_update_one" where
  "BlockUpdateOne_RemoveTransactionIDs ids u = u\<lparr>buo_mutation := BlockMutation_RemoveTransactionIDs ids (buo_mutation u)\<rparr>"

definition BlockUpdateOne_RemoveTransactions :: "ent_transaction list \<Rightarrow> block_update_one
    \<Rightarrow> block_update_one" where
  "BlockUpdateOne_RemoveTransactions v u = BlockUpdateOne_RemoveTransactionIDs (map et_ID v) u"

definition BlockUpdateOne_Where :: "pred list \<Rightarrow> block_update_one
    \<Rightarrow> block_update_one" where
  "BlockUpdateOne_Where ps u = u\<lparr>buo_mutation := BlockMutation_Where ps (buo_mutation u)\<rparr>"

definition BlockUpdateOne_Select :: "string \<Rightarrow> string list
    \<Rightarrow> block_update_one \<Rightarrow> block_update_one" where
  "BlockUpdateOne_Select f fs u = u\<lparr>buo_fields := f # fs\<rparr>"

definition BlockUpdateOne_check :: "'s ent_client \<Rightarrow> block_update_one
    \<Rightarrow> err option" where
  "BlockUpdateOne_check cl u = 
     validate_field ''hash'' (NotEmpty cl) (BlockMutation_Hash (buo_mutation u))"

definition BlockUpdateOne_sqlSave :: "'s ent_graph \<Rightarrow> block_update_one
    \<Rightarrow> ('s, ent_block) io" where
  "BlockUpdateOne_sqlSave g u s = 
     (case BlockUpdateOne_check (eg_client g) u of Some e \<Rightarrow> (Inl e, s)
      | None \<Rightarrow>
        (case BlockMutation_ID (buo_mutation u) of
           None \<Rightarrow> (Inl (EValidation ''id'' ''ent: missing id for update''), s)
         | Some k \<Rightarrow>
           (case select_columns block_meta (buo_fields u) of
              Inl e \<Rightarrow> (Inl e, s)
            | Inr cs \<Rightarrow> update_one block_meta g
                \<lparr>nu_Spec = (BlockUpdate_spec \<lparr>bub_mutation = buo_mutation u\<rparr>)\<lparr>us_Columns := cs\<rparr>,
                 nu_ID = VInt k\<rparr> s)))"

definition BlockUpdateOne_Save :: "'s ent_graph \<Rightarrow> block_update_one
    \<Rightarrow> ('s, ent_block) io" where
  "BlockUpdateOne_Save = BlockUpdateOne_sqlSave"

definition BlockUpdateOne_SaveX :: "'s ent_graph \<Rightarrow> block_update_one
    \<Rightarrow> ('s, ent_block) io" where
  "BlockUpdateOne_SaveX cl u = must (BlockUpdateOne_Save cl u)"

definition BlockUpdateOne_Exec :: "'s ent_graph \<Rightarrow> block_update_one
    \<Rightarrow> ('s, unit) io" where
  "BlockUpdateOne_Exec cl u = drop_result (BlockUpdateOne_Save cl u)"

definition BlockUpdateOne_ExecX :: "'s ent_graph \<Rightarrow> block_update_one
    \<Rightarrow> ('s, unit) io" where
  "BlockUpdateOne_ExecX cl u = must (BlockUpdateOne_Exec cl u)"

lemmas block_updates_defs = BlockUpdate_Where_def BlockUpdate_SetHash_def
  BlockUpdate_SetNillableHash_def BlockUpdate_SetTime_def
  BlockUpdate_SetNillableTime_def BlockUpdate_SetTotalTxs_def
  BlockUpdate_SetNillableTotalTxs_def BlockUpdate_AddTotalTxs_def
  BlockUpdate_SetNumTxs_def BlockUpdate_SetNillableNumTxs_def
  BlockUpdate_AddNumTxs_def BlockUpdate_AddTransactionIDs_def
  BlockUpdate_AddTransactions_def BlockUpdate_Mutation_def
  BlockUpdate_ClearTransactions_def BlockUpdate_RemoveTransactionIDs_def
  BlockUpdate_RemoveTransactions_def BlockUpdate_check_def
  block_Transactions_edge_def BlockUpdate_spec_def
  BlockUpdate_sqlSave_def BlockUpdate_Save_def
  BlockUpdate_SaveX_def BlockUpdate_Exec_def
  BlockUpdate_ExecX_def BlockUpdateOne_SetHash_def
  BlockUpdateOne_SetNillableHash_def BlockUpdateOne_SetTime_def
  BlockUpdateOne_SetNillableTime_def BlockUpdateOne_SetTotalTxs_def
  BlockUpdateOne_SetNillableTotalTxs_def BlockUpdateOne_AddTotalTxs_def
  BlockUpdateOne_SetNumTxs_def BlockUpdateOne_SetNillableNumTxs_def
  BlockUpdateOne_AddNumTxs_def BlockUpdateOne_AddTransactionIDs_def
  BlockUpdateOne_AddTransactions_def BlockUpdateOne_Mutation_def
  BlockUpdateOne_ClearTransactions_def BlockUpdateOne_RemoveTransactionIDs_def
  BlockUpdateOne_RemoveTransactions_def BlockUpdateOne_Where_def
  BlockUpdateOne_Select_def BlockUpdateOne_check_def
  BlockUpdateOne_sqlSave_def BlockUpdateOne_Save_def
  BlockUpdateOne_SaveX_def BlockUpdateOne_Exec_def
  BlockUpdateOne_ExecX_def

section \<open>\<^verbatim>\<open>ent/restorehistory_update.go\<close>\<close>

record restorehistory_update =
  hub_mutation :: restorehistory_mutation

record restorehistory_update_one =
  huo_fields :: "string list"
  huo_mutation :: restorehistory_mutation

definition RestoreHistoryUpdate_Where :: "pred list \<Rightarrow> restorehistory_update
    \<Rightarrow> restorehistory_update" where
  "RestoreHistoryUpdate_Where ps u = u\<lparr>hub_mutation := RestoreHistoryMutation_Where ps (hub_mutation u)\<rparr>"

definition RestoreHistoryUpdate_SetRestoreRangeStart :: "int \<Rightarrow> restorehistory_update
    \<Rightarrow> restorehistory_update" where
  "RestoreHistoryUpdate_SetRestoreRangeStart v u = u\<lparr>hub_mutation := RestoreHistoryMutation_SetRestoreRangeStart v (RestoreHistoryMutation_ResetRestoreRangeStart (hub_mutation u))\<rparr>"

definition RestoreHistoryUpdate_SetNillableRestoreRangeStart :: "int option \<Rightarrow> restorehistory_update
    \<Rightarrow> restorehistory_update" where
  "RestoreHistoryUpdate_SetNillableRestoreRangeStart v u = (case v of None \<Rightarrow> u | Some w \<Rightarrow> RestoreHistoryUpdate_SetRestoreRangeStart w u)"

definition RestoreHistoryUpdate_AddRestoreRangeStart :: "int \<Rightarrow> restorehistory_update
    \<Rightarrow> restorehistory_update" where
  "RestoreHistoryUpdate_AddRestoreRangeStart v u = u\<lparr>hub_mutation := RestoreHistoryMutation_AddRestoreRangeStart v (hub_mutation u)\<rparr>"

definition RestoreHistoryUpdate_SetRestoreRangeEnd :: "int \<Rightarrow> restorehistory_update
    \<Rightarrow> restorehistory_update" where
  "RestoreHistoryUpdate_SetRestoreRangeEnd v u = u\<lparr>hub_mutation := RestoreHistoryMutation_SetRestoreRangeEnd v (RestoreHistoryMutation_ResetRestoreRangeEnd (hub_mutation u))\<rparr>"

definition RestoreHistoryUpdate_SetNillableRestoreRangeEnd :: "int option \<Rightarrow> restorehistory_update
    \<Rightarrow> restorehistory_update" where
  "RestoreHistoryUpdate_SetNillableRestoreRangeEnd v u = (case v of None \<Rightarrow> u | Some w \<Rightarrow> RestoreHistoryUpdate_SetRestoreRangeEnd w u)"

definition RestoreHistoryUpdate_AddRestoreRangeEnd :: "int \<Rightarrow> restorehistory_update
    \<Rightarrow> restorehistory_update" where
  "RestoreHistoryUpdate_AddRestoreRangeEnd v u = u\<lparr>hub_mutation := RestoreHistoryMutation_AddRestoreRangeEnd v (hub_mutation u)\<rparr>"

definition RestoreHistoryUpdate_SetBeingBlock :: "int \<Rightarrow> restorehistory_update
    \<Rightarrow> restorehistory_update" where
  "RestoreHistoryUpdate_SetBeingBlock v u = u\<lparr>hub_mutation := RestoreHistoryMutation_SetBeingBlock v (RestoreHistoryMutation_ResetBeingBlock (hub_mutation u))\<rparr>"

definition RestoreHistoryUpdate_SetNillableBeingBlock :: "int option \<Rightarrow> restorehistory_update
    \<Rightarrow> restorehistory_update" where
  "RestoreHistoryUpdate_SetNillableBeingBlock v u = (case v of None \<Rightarrow> u | Some w \<Rightarrow> RestoreHistoryUpdate_SetBeingBlock w u)"

definition RestoreHistoryUpdate_AddBeingBlock :: "int \<Rightarrow> restorehistory_update
    \<Rightarrow> restorehistory_update" where
  "RestoreHistoryUpdate_AddBeingBlock v u = u\<lparr>hub_mutation := RestoreHistoryMutation_AddBeingBlock v (hub_mutation u)\<rparr>"

definition RestoreHistoryUpdate_Mutation :: "restorehistory_update
    \<Rightarrow> restorehistory_mutation" where
  "RestoreHistoryUpdate_Mutation u = hub_mutation u"

definition RestoreHistoryUpdate_spec :: "restorehistory_update \<Rightarrow> update_spec" where
  "RestoreHistoryUpdate_spec u = 
     (let m = hub_mutation u in
      \<lparr>us_Table = restorehistory_Table, us_Columns = restorehistory_Columns, us_IDSpec = (restorehistory_FieldID, TypeInt),
       us_Predicate = hm_predicates m,
       us_Set = set_entry restorehistory_FieldRestoreRangeStart TypeInt VInt (RestoreHistoryMutation_RestoreRangeStart m) @
         set_entry restorehistory_FieldRestoreRangeEnd TypeInt VInt (RestoreHistoryMutation_RestoreRangeEnd m) @
         set_entry restorehistory_FieldBeingBlock TypeInt VInt (RestoreHistoryMutation_BeingBlock m),
       us_Add = set_entry restorehistory_FieldRestoreRangeStart TypeInt VInt (RestoreHistoryMutation_AddedRestoreRangeStart m) @
         set_entry restorehistory_FieldRestoreRangeEnd TypeInt VInt (RestoreHistoryMutation_AddedRestoreRangeEnd m) @
         set_entry restorehistory_FieldBeingBlock TypeInt VInt (RestoreHistoryMutation_AddedBeingBlock m),
       us_Clear = [],
       us_Append = [],
       us_ClearEdges = [],
       us_AddEdges = []\<rparr>)"

definition RestoreHistoryUpdate_sqlSave :: "'s ent_client \<Rightarrow> restorehistory_update
    \<Rightarrow> ('s, int) io" where
  "RestoreHistoryUpdate_sqlSave cl u s = 
     ((case UpdateNodes cl (RestoreHistoryUpdate_spec u) s of
           (Inl e, s') \<Rightarrow> (Inl (wrap_update_err restorehistory_Label e), s')
         | (Inr n, s') \<Rightarrow> (Inr n, s')))"

definition RestoreHistoryUpdate_Save :: "'s ent_client \<Rightarrow> restorehistory_update
    \<Rightarrow> ('s, int) io" where
  "RestoreHistoryUpdate_Save = RestoreHistoryUpdate_sqlSave"

definition RestoreHistoryUpdate_SaveX :: "'s ent_client \<Rightarrow> restorehistory_update
    \<Rightarrow> ('s, int) io" where
  "RestoreHistoryUpdate_SaveX cl u = must (RestoreHistoryUpdate_Save cl u)"

definition RestoreHistoryUpdate_Exec :: "'s ent_client \<Rightarrow> restorehistory_update
    \<Rightarrow> ('s, unit) io" where
  "RestoreHistoryUpdate_Exec cl u = drop_result (RestoreHistoryUpdate_Save cl u)"

definition RestoreHistoryUpdate_ExecX :: "'s ent_client \<Rightarrow> restorehistory_update
    \<Rightarrow> ('s, unit) io" where
  "RestoreHistoryUpdate_ExecX cl u = must (RestoreHistoryUpdate_Exec cl u)"

definition RestoreHistoryUpdateOne_SetRestoreRangeStart :: "int \<Rightarrow> restorehistory_update_one
    \<Rightarrow> restorehistory_update_one" where
  "RestoreHistoryUpdateOne_SetRestoreRangeStart v u = u\<lparr>huo_mutation := RestoreHistoryMutation_SetRestoreRangeStart v (RestoreHistoryMutation_ResetRestoreRangeStart (huo_mutation u))\<rparr>"

definition RestoreHistoryUpdateOne_SetNillableRestoreRangeStart :: "int option \<Rightarrow> restorehistory_update_one
    \<Rightarrow> restorehistory_update_one" where
  "RestoreHistoryUpdateOne_SetNillableRestoreRangeStart v u = (case v of None \<Rightarrow> u | Some w \<Rightarrow> RestoreHistoryUpdateOne_SetRestoreRangeStart w u)"

definition RestoreHistoryUpdateOne_AddRestoreRangeStart :: "int \<Rightarrow> restorehistory_update_one
    \<Rightarrow> restorehistory_update_one" where
  "RestoreHistoryUpdateOne_AddRestoreRangeStart v u = u\<lparr>huo_mutation := RestoreHistoryMutation_AddRestoreRangeStart v (huo_mutation u)\<rparr>"

definition RestoreHistoryUpdateOne_SetRestoreRangeEnd :: "int \<Rightarrow> restorehistory_update_one
    \<Rightarrow> restorehistory_update_one" where
  "RestoreHistoryUpdateOne_SetRestoreRangeEnd v u = u\<lparr>huo_mutation := RestoreHistoryMutation_SetRestoreRangeEnd v (RestoreHistoryMutation_ResetRestoreRangeEnd (huo_mutation u))\<rparr>"

definition RestoreHistoryUpdateOne_SetNillableRestoreRangeEnd :: "int option \<Rightarrow> restorehistory_update_one
    \<Rightarrow> restorehistory_update_one" where
  "RestoreHistoryUpdateOne_SetNillableRestoreRangeEnd v u = (case v of None \<Rightarrow> u | Some w \<Rightarrow> RestoreHistoryUpdateOne_SetRestoreRangeEnd w u)"

definition RestoreHistoryUpdateOne_AddRestoreRangeEnd :: "int \<Rightarrow> restorehistory_update_one
    \<Rightarrow> restorehistory_update_one" where
  "RestoreHistoryUpdateOne_AddRestoreRangeEnd v u = u\<lparr>huo_mutation := RestoreHistoryMutation_AddRestoreRangeEnd v (huo_mutation u)\<rparr>"

definition RestoreHistoryUpdateOne_SetBeingBlock :: "int \<Rightarrow> restorehistory_update_one
    \<Rightarrow> restorehistory_update_one" where
  "RestoreHistoryUpdateOne_SetBeingBlock v u = u\<lparr>huo_mutation := RestoreHistoryMutation_SetBeingBlock v (RestoreHistoryMutation_ResetBeingBlock (huo_mutation u))\<rparr>"

definition RestoreHistoryUpdateOne_SetNillableBeingBlock :: "int option \<Rightarrow> restorehistory_update_one
    \<Rightarrow> restorehistory_update_one" where
  "RestoreHistoryUpdateOne_SetNillableBeingBlock v u = (case v of None \<Rightarrow> u | Some w \<Rightarrow> RestoreHistoryUpdateOne_SetBeingBlock w u)"

definition RestoreHistoryUpdateOne_AddBeingBlock :: "int \<Rightarrow> restorehistory_update_one
    \<Rightarrow> restorehistory_update_one" where
  "RestoreHistoryUpdateOne_AddBeingBlock v u = u\<lparr>huo_mutation := RestoreHistoryMutation_AddBeingBlock v (huo_mutation u)\<rparr>"

definition RestoreHistoryUpdateOne_Mutation :: "restorehistory_update_one
    \<Rightarrow> restorehistory_mutation" where
  "RestoreHistoryUpdateOne_Mutation u = huo_mutation u"

definition RestoreHistoryUpdateOne_Where :: "pred list \<Rightarrow> restorehistory_update_one
    \<Rightarrow> restorehistory_update_one" where
  "RestoreHistoryUpdateOne_Where ps u = u\<lparr>huo_mutation := RestoreHistoryMutation_Where ps (huo_mutation u)\<rparr>"

definition RestoreHistoryUpdateOne_Select :: "string \<Rightarrow> string list
    \<Rightarrow> restorehistory_update_one \<Rightarrow> restorehistory_update_one" where
  "RestoreHistoryUpdateOne_Select f fs u = u\<lparr>huo_fields := f # fs\<rparr>"

definition RestoreHistoryUpdateOne_sqlSave :: "'s ent_graph \<Rightarrow> restorehistory_update_one
    \<Rightarrow> ('s, ent_restorehistory) io" where
  "RestoreHistoryUpdateOne_sqlSave g u s = 
     ((case RestoreHistoryMutation_ID (huo_mutation u) of
           None \<Rightarrow> (Inl (EValidation ''id'' ''ent: missing id for update''), s)
         | Some k \<Rightarrow>
           (case select_columns restorehistory_meta (huo_fields u) of
              Inl e \<Rightarrow> (Inl e, s)
            | Inr cs \<Rightarrow> update_one restorehistory_meta g
                \<lparr>nu_Spec = (RestoreHistoryUpdate_spec \<lparr>hub_mutation = huo_mutation u\<rparr>)\<lparr>us_Columns := cs\<rparr>,
                 nu_ID = VInt k\<rparr> s)))"

definition RestoreHistoryUpdateOne_Save :: "'s ent_graph \<Rightarrow> restorehistory_update_one
    \<Rightarrow> ('s, ent_restorehistory) io" where
  "RestoreHistoryUpdateOne_Save = RestoreHistoryUpdateOne_sqlSave"

definition RestoreHistoryUpdateOne_SaveX :: "'s ent_graph \<Rightarrow> restorehistory_update_one
    \<Rightarrow> ('s, ent_restorehistory) io" where
  "RestoreHistoryUpdateOne_SaveX cl u = must (RestoreHistoryUpdateOne_Save cl u)"

definition RestoreHistoryUpdateOne_Exec :: "'s ent_graph \<Rightarrow> restorehistory_update_one
    \<Rightarrow> ('s, unit) io" where
  "RestoreHistoryUpdateOne_Exec cl u = drop_result (RestoreHistoryUpdateOne_Save cl u)"

definition RestoreHistoryUpdateOne_ExecX :: "'s ent_graph \<Rightarrow> restorehistory_update_one
    \<Rightarrow> ('s, unit) io" where
  "RestoreHistoryUpdateOne_ExecX cl u = must (RestoreHistoryUpdateOne_Exec cl u)"

lemmas restorehistory_updates_defs = RestoreHistoryUpdate_Where_def RestoreHistoryUpdate_SetRestoreRangeStart_def
  RestoreHistoryUpdate_SetNillableRestoreRangeStart_def RestoreHistoryUpdate_AddRestoreRangeStart_def
  RestoreHistoryUpdate_SetRestoreRangeEnd_def RestoreHistoryUpdate_SetNillableRestoreRangeEnd_def
  RestoreHistoryUpdate_AddRestoreRangeEnd_def RestoreHistoryUpdate_SetBeingBlock_def
  RestoreHistoryUpdate_SetNillableBeingBlock_def RestoreHistoryUpdate_AddBeingBlock_def
  RestoreHistoryUpdate_Mutation_def RestoreHistoryUpdate_spec_def
  RestoreHistoryUpdate_sqlSave_def RestoreHistoryUpdate_Save_def
  RestoreHistoryUpdate_SaveX_def RestoreHistoryUpdate_Exec_def
  RestoreHistoryUpdate_ExecX_def RestoreHistoryUpdateOne_SetRestoreRangeStart_def
  RestoreHistoryUpdateOne_SetNillableRestoreRangeStart_def RestoreHistoryUpdateOne_AddRestoreRangeStart_def
  RestoreHistoryUpdateOne_SetRestoreRangeEnd_def RestoreHistoryUpdateOne_SetNillableRestoreRangeEnd_def
  RestoreHistoryUpdateOne_AddRestoreRangeEnd_def RestoreHistoryUpdateOne_SetBeingBlock_def
  RestoreHistoryUpdateOne_SetNillableBeingBlock_def RestoreHistoryUpdateOne_AddBeingBlock_def
  RestoreHistoryUpdateOne_Mutation_def RestoreHistoryUpdateOne_Where_def
  RestoreHistoryUpdateOne_Select_def RestoreHistoryUpdateOne_sqlSave_def
  RestoreHistoryUpdateOne_Save_def RestoreHistoryUpdateOne_SaveX_def
  RestoreHistoryUpdateOne_Exec_def RestoreHistoryUpdateOne_ExecX_def

section \<open>\<^verbatim>\<open>ent/transaction_update.go\<close>\<close>

record transaction_update =
  tub_mutation :: transaction_mutation

record transaction_update_one =
  tuo_fields :: "string list"
  tuo_mutation :: transaction_mutation

definition TransactionUpdate_Where :: "pred list \<Rightarrow> transaction_update
    \<Rightarrow> transaction_update" where
  "TransactionUpdate_Where ps u = u\<lparr>tub_mutation := TransactionMutation_Where ps (tub_mutation u)\<rparr>"

definition TransactionUpdate_SetIndex :: "int \<Rightarrow> transaction_update
    \<Rightarrow> transaction_update" where
  "TransactionUpdate_SetIndex v u = u\<lparr>tub_mutation := TransactionMutation_SetIndex v (TransactionMutation_ResetIndex (tub_mutation u))\<rparr>"

definition TransactionUpdate_SetNillableIndex :: "int option \<Rightarrow> transaction_update
    \<Rightarrow> transaction_update" where
  "TransactionUpdate_SetNillableIndex v u = (case v of None \<Rightarrow> u | Some w \<Rightarrow> TransactionUpdate_SetIndex w u)"

definition TransactionUpdate_AddIndex :: "int \<Rightarrow> transaction_update
    \<Rightarrow> transaction_update" where
  "TransactionUpdate_AddIndex v u = u\<lparr>tub_mutation := TransactionMutation_AddIndex v (tub_mutation u)\<rparr>"

definition TransactionUpdate_SetHash :: "string \<Rightarrow> transaction_update
    \<Rightarrow> transaction_update" where
  "TransactionUpdate_SetHash v u = u\<lparr>tub_mutation := TransactionMutation_SetHash v (tub_mutation u)\<rparr>"

definition TransactionUpdate_SetNillableHash :: "string option \<Rightarrow> transaction_update
    \<Rightarrow> transaction_update" where
  "TransactionUpdate_SetNillableHash v u = (case v of None \<Rightarrow> u | Some w \<Rightarrow> TransactionUpdate_SetHash w u)"

definition TransactionUpdate_SetSuccess :: "bool \<Rightarrow> transaction_update
    \<Rightarrow> transaction_update" where
  "TransactionUpdate_SetSuccess v u = u\<lparr>tub_mutation := TransactionMutation_SetSuccess v (tub_mutation u)\<rparr>"

definition TransactionUpdate_SetNillableSuccess :: "bool option \<Rightarrow> transaction_update
    \<Rightarrow> transaction_update" where
  "TransactionUpdate_SetNillableSuccess v u = (case v of None \<Rightarrow> u | Some w \<Rightarrow> TransactionUpdate_SetSuccess w u)"

definition TransactionUpdate_SetBlockHeight :: "int \<Rightarrow> transaction_update
    \<Rightarrow> transaction_update" where
  "TransactionUpdate_SetBlockHeight v u = u\<lparr>tub_mutation := TransactionMutation_SetBlockHeight v (TransactionMutation_ResetBlockHeight (tub_mutation u))\<rparr>"

definition TransactionUpdate_SetNillableBlockHeight :: "int option \<Rightarrow> transaction_update
    \<Rightarrow> transaction_update" where
  "TransactionUpdate_SetNillableBlockHeight v u = (case v of None \<Rightarrow> u | Some w \<Rightarrow> TransactionUpdate_SetBlockHeight w u)"

definition TransactionUpdate_AddBlockHeight :: "int \<Rightarrow> transaction_update
    \<Rightarrow> transaction_update" where
  "TransactionUpdate_AddBlockHeight v u = u\<lparr>tub_mutation := TransactionMutation_AddBlockHeight v (tub_mutation u)\<rparr>"

definition TransactionUpdate_SetGasWanted :: "float64 \<Rightarrow> transaction_update
    \<Rightarrow> transaction_update" where
  "TransactionUpdate_SetGasWanted v u = u\<lparr>tub_mutation := TransactionMutation_SetGasWanted v (TransactionMutation_ResetGasWanted (tub_mutation u))\<rparr>"

definition TransactionUpdate_SetNillableGasWanted :: "float64 option \<Rightarrow> transaction_update
    \<Rightarrow> transaction_update" where
  "TransactionUpdate_SetNillableGasWanted v u = (case v of None \<Rightarrow> u | Some w \<Rightarrow> TransactionUpdate_SetGasWanted w u)"

definition TransactionUpdate_AddGasWanted :: "float64 \<Rightarrow> transaction_update
    \<Rightarrow> transaction_update" where
  "TransactionUpdate_AddGasWanted v u = u\<lparr>tub_mutation := TransactionMutation_AddGasWanted v (tub_mutation u)\<rparr>"

definition TransactionUpdate_SetGasUsed :: "float64 \<Rightarrow> transaction_update
    \<Rightarrow> transaction_update" where
  "TransactionUpdate_SetGasUsed v u = u\<lparr>tub_mutation := TransactionMutation_SetGasUsed v (TransactionMutation_ResetGasUsed (tub_mutation u))\<rparr>"

definition TransactionUpdate_SetNillableGasUsed :: "float64 option \<Rightarrow> transaction_update
    \<Rightarrow> transaction_update" where
  "TransactionUpdate_SetNillableGasUsed v u = (case v of None \<Rightarrow> u | Some w \<Rightarrow> TransactionUpdate_SetGasUsed w u)"

definition TransactionUpdate_AddGasUsed :: "float64 \<Rightarrow> transaction_update
    \<Rightarrow> transaction_update" where
  "TransactionUpdate_AddGasUsed v u = u\<lparr>tub_mutation := TransactionMutation_AddGasUsed v (tub_mutation u)\<rparr>"

definition TransactionUpdate_SetMemo :: "string \<Rightarrow> transaction_update
    \<Rightarrow> transaction_update" where
  "TransactionUpdate_SetMemo v u = u\<lparr>tub_mutation := TransactionMutation_SetMemo v (tub_mutation u)\<rparr>"

definition TransactionUpdate_SetNillableMemo :: "string option \<Rightarrow> transaction_update
    \<Rightarrow> transaction_update" where
  "TransactionUpdate_SetNillableMemo v u = (case v of None \<Rightarrow> u | Some w \<Rightarrow> TransactionUpdate_SetMemo w u)"

definition TransactionUpdate_ClearMemo :: "transaction_update
    \<Rightarrow> transaction_update" where
  "TransactionUpdate_ClearMemo u = u\<lparr>tub_mutation := TransactionMutation_ClearMemo (tub_mutation u)\<rparr>"

definition TransactionUpdate_SetGasFee :: "schema_gas_fee \<Rightarrow> transaction_update
    \<Rightarrow> transaction_update" where
  "TransactionUpdate_SetGasFee v u = u\<lparr>tub_mutation := TransactionMutation_SetGasFee v (tub_mutation u)\<rparr>"

definition TransactionUpdate_SetNillableGasFee :: "schema_gas_fee option \<Rightarrow> transaction_update
    \<Rightarrow> transaction_update" where
  "TransactionUpdate_SetNillableGasFee v u = (case v of None \<Rightarrow> u | Some w \<Rightarrow> TransactionUpdate_SetGasFee w u)"

definition TransactionUpdate_ClearGasFee :: "transaction_update
    \<Rightarrow> transaction_update" where
  "TransactionUpdate_ClearGasFee u = u\<lparr>tub_mutation := TransactionMutation_ClearGasFee (tub_mutation u)\<rparr>"

definition TransactionUpdate_SetMessages :: "schema_message list \<Rightarrow> transaction_update
    \<Rightarrow> transaction_update" where
  "TransactionUpdate_SetMessages v u = u\<lparr>tub_mutation := TransactionMutation_SetMessages v (tub_mutation u)\<rparr>"

definition TransactionUpdate_AppendMessages :: "schema_message list \<Rightarrow> transaction_update
    \<Rightarrow> transaction_update" where
  "TransactionUpdate_AppendMessages v u = u\<lparr>tub_mutation := TransactionMutation_AppendMessages v (tub_mutation u)\<rparr>"

definition TransactionUpdate_ClearMessages :: "transaction_update
    \<Rightarrow> transaction_update" where
  "TransactionUpdate_ClearMessages u = u\<lparr>tub_mutation := TransactionMutation_ClearMessages (tub_mutation u)\<rparr>"

definition TransactionUpdate_SetResponse :: "schema_response \<Rightarrow> transaction_update
    \<Rightarrow> transaction_update" where
  "TransactionUpdate_SetResponse v u = u\<lparr>tub_mutation := TransactionMutation_SetResponse v (tub_mutation u)\<rparr>"

definition TransactionUpdate_SetNillableResponse :: "schema_response option \<Rightarrow> transaction_update
    \<Rightarrow> transaction_update" where
  "TransactionUpdate_SetNillableResponse v u = (case v of None \<Rightarrow> u | Some w \<Rightarrow> TransactionUpdate_SetResponse w u)"

definition TransactionUpdate_ClearResponse :: "transaction_update
    \<Rightarrow> transaction_update" where
  "TransactionUpdate_ClearResponse u = u\<lparr>tub_mutation := TransactionMutation_ClearResponse (tub_mutation u)\<rparr>"

definition TransactionUpdate_SetBlockID :: "int \<Rightarrow> transaction_update
    \<Rightarrow> transaction_update" where
  "TransactionUpdate_SetBlockID v u = u\<lparr>tub_mutation := TransactionMutation_SetBlockID v (tub_mutation u)\<rparr>"

definition TransactionUpdate_SetNillableBlockID :: "int option \<Rightarrow> transaction_update
    \<Rightarrow> transaction_update" where
  "TransactionUpdate_SetNillableBlockID v u = (case v of None \<Rightarrow> u | Some w \<Rightarrow> TransactionUpdate_SetBlockID w u)"

definition TransactionUpdate_SetBlock :: "ent_block \<Rightarrow> transaction_update
    \<Rightarrow> transaction_update" where
  "TransactionUpdate_SetBlock v u = TransactionUpdate_SetBlockID (eb_ID v) u"

definition TransactionUpdate_Mutation :: "transaction_update
    \<Rightarrow> transaction_mutation" where
  "TransactionUpdate_Mutation u = tub_mutation u"

definition TransactionUpdate_ClearBlock :: "transaction_update
    \<Rightarrow> transaction_update" where
  "TransactionUpdate_ClearBlock u = u\<lparr>tub_mutation := TransactionMutation_ClearBlock (tub_mutation u)\<rparr>"

definition TransactionUpdate_check :: "'s ent_client \<Rightarrow> transaction_update
    \<Rightarrow> err option" where
  "TransactionUpdate_check cl u = 
     validate_field ''hash'' (NotEmpty cl) (TransactionMutation_Hash (tub_mutation u))"

definition transaction_Block_edge :: "int list \<Rightarrow> edge_spec" where
  "transaction_Block_edge nodes = \<lparr>es_Rel = M2O, es_Inverse = True, es_Table = transaction_BlockTable,
     es_Columns = [transaction_BlockColumn], es_Bidi = False, es_IDSpec = (block_FieldID, TypeInt), es_Nodes = nodes\<rparr>"

definition TransactionUpdate_spec :: "transaction_update \<Rightarrow> update_spec" where
  "TransactionUpdate_spec u = 
     (let m = tub_mutation u in
      \<lparr>us_Table = transaction_Table, us_Columns = transaction_Columns, us_IDSpec = (transaction_FieldID, TypeInt),
       us_Predicate = tm_predicates m,
       us_Set = set_entry transaction_FieldIndex TypeInt VInt (TransactionMutation_Index m) @
         set_entry transaction_FieldHash TypeString VString (TransactionMutation_Hash m) @
         set_entry transaction_FieldSuccess TypeBool VBool (TransactionMutation_Success m) @
         set_entry transaction_FieldBlockHeight TypeInt VInt (TransactionMutation_BlockHeight m) @
         set_entry transaction_FieldGasWanted TypeFloat64 VFloat (TransactionMutation_GasWanted m) @
         set_entry transaction_FieldGasUsed TypeFloat64 VFloat (TransactionMutation_GasUsed m) @
         set_entry transaction_FieldMemo TypeString VString (TransactionMutation_Memo m) @
         set_entry transaction_FieldGasFee TypeJSON VGasFee (TransactionMutation_GasFee m) @
         set_entry transaction_FieldMessages TypeJSON VMessages (TransactionMutation_Messages m) @
         set_entry transaction_FieldResponse TypeJSON VResponse (TransactionMutation_Response m),
       us_Add = set_entry transaction_FieldIndex TypeInt VInt (TransactionMutation_AddedIndex m) @
         set_entry transaction_FieldBlockHeight TypeInt VInt (TransactionMutation_AddedBlockHeight m) @
         set_entry transaction_FieldGasWanted TypeFloat64 VFloat (TransactionMutation_AddedGasWanted m) @
         set_entry transaction_FieldGasUsed TypeFloat64 VFloat (TransactionMutation_AddedGasUsed m),
       us_Clear = clear_entry transaction_FieldMemo TypeString (TransactionMutation_MemoCleared m) @
         clear_entry transaction_FieldGasFee TypeJSON (TransactionMutation_GasFeeCleared m) @
         clear_entry transaction_FieldMessages TypeJSON (TransactionMutation_MessagesCleared m) @
         clear_entry transaction_FieldResponse TypeJSON (TransactionMutation_ResponseCleared m),
       us_Append = append_entry transaction_FieldMessages VMessages (TransactionMutation_AppendedMessages m),
       us_ClearEdges = clear_edge transaction_Block_edge (TransactionMutation_BlockCleared m),
       us_AddEdges = add_edge transaction_Block_edge (TransactionMutation_BlockIDs m)\<rparr>)"

definition TransactionUpdate_sqlSave :: "'s ent_client \<Rightarrow> transaction_update
    \<Rightarrow> ('s, int) io" where
  "TransactionUpdate_sqlSave cl u s = 
     (case TransactionUpdate_check cl u of Some e \<Rightarrow> (Inl e, s)
      | None \<Rightarrow>
        (case UpdateNodes cl (TransactionUpdate_spec u) s of
           (Inl e, s') \<Rightarrow> (Inl (wrap_update_err transaction_Label e), s')
         | (Inr n, s') \<Rightarrow> (Inr n, s')))"

definition TransactionUpdate_Save :: "'s ent_client \<Rightarrow> transaction_update
    \<Rightarrow> ('s, int) io" where
  "TransactionUpdate_Save = TransactionUpdate_sqlSave"

definition TransactionUpdate_SaveX :: "'s ent_client \<Rightarrow> transaction_update
    \<Rightarrow> ('s, int) io" where
  "TransactionUpdate_SaveX cl u = must (TransactionUpdate_Save cl u)"

definition TransactionUpdate_Exec :: "'s ent_client \<Rightarrow> transaction_update
    \<Rightarrow> ('s, unit) io" where
  "TransactionUpdate_Exec cl u = drop_result (TransactionUpdate_Save cl u)"

definition TransactionUpdate_ExecX :: "'s ent_client \<Rightarrow> transaction_update
    \<Rightarrow> ('s, unit) io" where
  "TransactionUpdate_ExecX cl u = must (TransactionUpdate_Exec cl u)"

definition TransactionUpdateOne_SetIndex :: "int \<Rightarrow> transaction_update_one
    \<Rightarrow> transaction_update_one" where
  "TransactionUpdateOne_SetIndex v u = u\<lparr>tuo_mutation := TransactionMutation_SetIndex v (TransactionMutation_ResetIndex (tuo_mutation u))\<rparr>"

definition TransactionUpdateOne_SetNillableIndex :: "int option \<Rightarrow> transaction_update_one
    \<Rightarrow> transaction_update_one" where
  "TransactionUpdateOne_SetNillableIndex v u = (case v of None \<Rightarrow> u | Some w \<Rightarrow> TransactionUpdateOne_SetIndex w u)"

definition TransactionUpdateOne_AddIndex :: "int \<Rightarrow> transaction_update_one
    \<Rightarrow> transaction_update_one" where
  "TransactionUpdateOne_AddIndex v u = u\<lparr>tuo_mutation := TransactionMutation_AddIndex v (tuo_mutation u)\<rparr>"

definition TransactionUpdateOne_SetHash :: "string \<Rightarrow> transaction_update_one
    \<Rightarrow> transaction_update_one" where
  "TransactionUpdateOne_SetHash v u = u\<lparr>tuo_mutation := TransactionMutation_SetHash v (tuo_mutation u)\<rparr>"

definition TransactionUpdateOne_SetNillableHash :: "string option \<Rightarrow> transaction_update_one
    \<Rightarrow> transaction_update_one" where
  "TransactionUpdateOne_SetNillableHash v u = (case v of None \<Rightarrow> u | Some w \<Rightarrow> TransactionUpdateOne_SetHash w u)"

definition TransactionUpdateOne_SetSuccess :: "bool \<Rightarrow> transaction_update_one
    \<Rightarrow> transaction_update_one" where
  "TransactionUpdateOne_SetSuccess v u = u\<lparr>tuo_mutation := TransactionMutation_SetSuccess v (tuo_mutation u)\<rparr>"

definition TransactionUpdateOne_SetNillableSuccess :: "bool option \<Rightarrow> transaction_update_one
    \<Rightarrow> transaction_update_one" where
  "TransactionUpdateOne_SetNillableSuccess v u = (case v of None \<Rightarrow> u | Some w \<Rightarrow> TransactionUpdateOne_SetSuccess w u)"

definition TransactionUpdateOne_SetBlockHeight :: "int \<Rightarrow> transaction_update_one
    \<Rightarrow> transaction_update_one" where
  "TransactionUpdateOne_SetBlockHeight v u = u\<lparr>tuo_mutation := TransactionMutation_SetBlockHeight v (TransactionMutation_ResetBlockHeight (tuo_mutation u))\<rparr>"

definition TransactionUpdateOne_SetNillableBlockHeight :: "int option \<Rightarrow> transaction_update_one
    \<Rightarrow> transaction_update_one" where
  "TransactionUpdateOne_SetNillableBlockHeight v u = (case v of None \<Rightarrow> u | Some w \<Rightarrow> TransactionUpdateOne_SetBlockHeight w u)"

definition TransactionUpdateOne_AddBlockHeight :: "int \<Rightarrow> transaction_update_one
    \<Rightarrow> transaction_update_one" where
  "TransactionUpdateOne_AddBlockHeight v u = u\<lparr>tuo_mutation := TransactionMutation_AddBlockHeight v (tuo_mutation u)\<rparr>"

definition TransactionUpdateOne_SetGasWanted :: "float64 \<Rightarrow> transaction_update_one
    \<Rightarrow> transaction_update_one" where
  "TransactionUpdateOne_SetGasWanted v u = u\<lparr>tuo_mutation := TransactionMutation_SetGasWanted v (TransactionMutation_ResetGasWanted (tuo_mutation u))\<rparr>"

definition TransactionUpdateOne_SetNillableGasWanted :: "float64 option \<Rightarrow> transaction_update_one
    \<Rightarrow> transaction_update_one" where
  "TransactionUpdateOne_SetNillableGasWanted v u = (case v of None \<Rightarrow> u | Some w \<Rightarrow> TransactionUpdateOne_SetGasWanted w u)"

definition TransactionUpdateOne_AddGasWanted :: "float64 \<Rightarrow> transaction_update_one
    \<Rightarrow> transaction_update_one" where
  "TransactionUpdateOne_AddGasWanted v u = u\<lparr>tuo_mutation := TransactionMutation_AddGasWanted v (tuo_mutation u)\<rparr>"

definition TransactionUpdateOne_SetGasUsed :: "float64 \<Rightarrow> transaction_update_one
    \<Rightarrow> transaction_update_one" where
  "TransactionUpdateOne_SetGasUsed v u = u\<lparr>tuo_mutation := TransactionMutation_SetGasUsed v (TransactionMutation_ResetGasUsed (tuo_mutation u))\<rparr>"

definition TransactionUpdateOne_SetNillableGasUsed :: "float64 option \<Rightarrow> transaction_update_one
    \<Rightarrow> transaction_update_one" where
  "TransactionUpdateOne_SetNillableGasUsed v u = (case v of None \<Rightarrow> u | Some w \<Rightarrow> TransactionUpdateOne_SetGasUsed w u)"

definition TransactionUpdateOne_AddGasUsed :: "float64 \<Rightarrow> transaction_update_one
    \<Rightarrow> transaction_update_one" where
  "TransactionUpdateOne_AddGasUsed v u = u\<lparr>tuo_mutation := TransactionMutation_AddGasUsed v (tuo_mutation u)\<rparr>"

definition TransactionUpdateOne_SetMemo :: "string \<Rightarrow> transaction_update_one
    \<Rightarrow> transaction_update_one" where
  "TransactionUpdateOne_SetMemo v u = u\<lparr>tuo_mutation := TransactionMutation_SetMemo v (tuo_mutation u)\<rparr>"

definition TransactionUpdateOne_SetNillableMemo :: "string option \<Rightarrow> transaction_update_one
    \<Rightarrow> transaction_update_one" where
  "TransactionUpdateOne_SetNillableMemo v u = (case v of None \<Rightarrow> u | Some w \<Rightarrow> TransactionUpdateOne_SetMemo w u)"

definition TransactionUpdateOne_ClearMemo :: "transaction_update_one
    \<Rightarrow> transaction_update_one" where
  "TransactionUpdateOne_ClearMemo u = u\<lparr>tuo_mutation := TransactionMutation_ClearMemo (tuo_mutation u)\<rparr>"

definition TransactionUpdateOne_SetGasFee :: "schema_gas_fee \<Rightarrow> transaction_update_one
    \<Rightarrow> transaction_update_one" where
  "TransactionUpdateOne_SetGasFee v u = u\<lparr>tuo_mutation := TransactionMutation_SetGasFee v (tuo_mutation u)\<rparr>"

definition TransactionUpdateOne_SetNillableGasFee :: "schema_gas_fee option
    \<Rightarrow> transaction_update_one \<Rightarrow> transaction_update_one" where
  "TransactionUpdateOne_SetNillableGasFee v u = (case v of None \<Rightarrow> u | Some w \<Rightarrow> TransactionUpdateOne_SetGasFee w u)"

definition TransactionUpdateOne_ClearGasFee :: "transaction_update_one
    \<Rightarrow> transaction_update_one" where
  "TransactionUpdateOne_ClearGasFee u = u\<lparr>tuo_mutation := TransactionMutation_ClearGasFee (tuo_mutation u)\<rparr>"

definition TransactionUpdateOne_SetMessages :: "schema_message list \<Rightarrow> transaction_update_one
    \<Rightarrow> transaction_update_one" where
  "TransactionUpdateOne_SetMessages v u = u\<lparr>tuo_mutation := TransactionMutation_SetMessages v (tuo_mutation u)\<rparr>"

definition TransactionUpdateOne_AppendMessages :: "schema_message list \<Rightarrow> transaction_update_one
    \<Rightarrow> transaction_update_one" where
  "TransactionUpdateOne_AppendMessages v u = u\<lparr>tuo_mutation := TransactionMutation_AppendMessages v (tuo_mutation u)\<rparr>"

definition TransactionUpdateOne_ClearMessages :: "transaction_update_one
    \<Rightarrow> transaction_update_one" where
  "TransactionUpdateOne_ClearMessages u = u\<lparr>tuo_mutation := TransactionMutation_ClearMessages (tuo_mutation u)\<rparr>"

definition TransactionUpdateOne_SetResponse :: "schema_response \<Rightarrow> transaction_update_one
    \<Rightarrow> transaction_update_one" where
  "TransactionUpdateOne_SetResponse v u = u\<lparr>tuo_mutation := TransactionMutation_SetResponse v (tuo_mutation u)\<rparr>"

definition TransactionUpdateOne_SetNillableResponse :: "schema_response option
    \<Rightarrow> transaction_update_one \<Rightarrow> transaction_update_one" where
  "TransactionUpdateOne_SetNillableResponse v u = (case v of None \<Rightarrow> u | Some w \<Rightarrow> TransactionUpdateOne_SetResponse w u)"

definition TransactionUpdateOne_ClearResponse :: "transaction_update_one
    \<Rightarrow> transaction_update_one" where
  "TransactionUpdateOne_ClearResponse u = u\<lparr>tuo_mutation := TransactionMutation_ClearResponse (tuo_mutation u)\<rparr>"

definition TransactionUpdateOne_SetBlockID :: "int \<Rightarrow> transaction_update_one
    \<Rightarrow> transaction_update_one" where
  "TransactionUpdateOne_SetBlockID v u = u\<lparr>tuo_mutation := TransactionMutation_SetBlockID v (tuo_mutation u)\<rparr>"

definition TransactionUpdateOne_SetNillableBlockID :: "int option \<Rightarrow> transaction_update_one
    \<Rightarrow> transaction_update_one" where
  "TransactionUpdateOne_SetNillableBlockID v u = (case v of None \<Rightarrow> u | Some w \<Rightarrow> TransactionUpdateOne_SetBlockID w u)"

definition TransactionUpdateOne_SetBlock :: "ent_block \<Rightarrow> transaction_update_one
    \<Rightarrow> transaction_update_one" where
  "TransactionUpdateOne_SetBlock v u = TransactionUpdateOne_SetBlockID (eb_ID v) u"

definition TransactionUpdateOne_Mutation :: "transaction_update_one
    \<Rightarrow> transaction_mutation" where
  "TransactionUpdateOne_Mutation u = tuo_mutation u"

definition TransactionUpdateOne_ClearBlock :: "transaction_update_one
    \<Rightarrow> transaction_update_one" where
  "TransactionUpdateOne_ClearBlock u = u\<lparr>tuo_mutation := TransactionMutation_ClearBlock (tuo_mutation u)\<rparr>"

definition TransactionUpdateOne_Where :: "pred list \<Rightarrow> transaction_update_one
    \<Rightarrow> transaction_update_one" where
  "TransactionUpdateOne_Where ps u = u\<lparr>tuo_mutation := TransactionMutation_Where ps (tuo_mutation u)\<rparr>"

definition TransactionUpdateOne_Select :: "string \<Rightarrow> string list
    \<Rightarrow> transaction_update_one \<Rightarrow> transaction_update_one" where
  "TransactionUpdateOne_Select f fs u = u\<lparr>tuo_fields := f # fs\<rparr>"

definition TransactionUpdateOne_check :: "'s ent_client \<Rightarrow> transaction_update_one
    \<Rightarrow> err option" where
  "TransactionUpdateOne_check cl u = 
     validate_field ''hash'' (NotEmpty cl) (TransactionMutation_Hash (tuo_mutation u))"

definition TransactionUpdateOne_sqlSave :: "'s ent_graph \<Rightarrow> transaction_update_one
    \<Rightarrow> ('s, ent_transaction) io" where
  "TransactionUpdateOne_sqlSave g u s = 
     (case TransactionUpdateOne_check (eg_client g) u of Some e \<Rightarrow> (Inl e, s)
      | None \<Rightarrow>
        (case TransactionMutation_ID (tuo_mutation u) of
           None \<Rightarrow> (Inl (EValidation ''id'' ''ent: missing id for update''), s)
         | Some k \<Rightarrow>
           (case select_columns transaction_meta (tuo_fields u) of
              Inl e \<Rightarrow> (Inl e, s)
            | Inr cs \<Rightarrow> update_one transaction_meta g
                \<lparr>nu_Spec = (TransactionUpdate_spec \<lparr>tub_mutation = tuo_mutation u\<rparr>)\<lparr>us_Columns := cs\<rparr>,
                 nu_ID = VInt k\<rparr> s)))"

definition TransactionUpdateOne_Save :: "'s ent_graph \<Rightarrow> transaction_update_one
    \<Rightarrow> ('s, ent_transaction) io" where
  "TransactionUpdateOne_Save = TransactionUpdateOne_sqlSave"

definition TransactionUpdateOne_SaveX :: "'s ent_graph \<Rightarrow> transaction_update_one
    \<Rightarrow> ('s, ent_transaction) io" where
  "TransactionUpdateOne_SaveX cl u = must (TransactionUpdateOne_Save cl u)"

definition TransactionUpdateOne_Exec :: "'s ent_graph \<Rightarrow> transaction_update_one
    \<Rightarrow> ('s, unit) io" where
  "TransactionUpdateOne_Exec cl u = drop_result (TransactionUpdateOne_Save cl u)"

definition TransactionUpdateOne_ExecX :: "'s ent_graph \<Rightarrow> transaction_update_one
    \<Rightarrow> ('s, unit) io" where
  "TransactionUpdateOne_ExecX cl u = must (TransactionUpdateOne_Exec cl u)"

lemmas transaction_updates_defs = TransactionUpdate_Where_def TransactionUpdate_SetIndex_def
  TransactionUpdate_SetNillableIndex_def TransactionUpdate_AddIndex_def
  TransactionUpdate_SetHash_def TransactionUpdate_SetNillableHash_def
  TransactionUpdate_SetSuccess_def TransactionUpdate_SetNillableSuccess_def
  TransactionUpdate_SetBlockHeight_def TransactionUpdate_SetNillableBlockHeight_def
  TransactionUpdate_AddBlockHeight_def TransactionUpdate_SetGasWanted_def
  TransactionUpdate_SetNillableGasWanted_def TransactionUpdate_AddGasWanted_def
  TransactionUpdate_SetGasUsed_def TransactionUpdate_SetNillableGasUsed_def
  TransactionUpdate_AddGasUsed_def TransactionUpdate_SetMemo_def
  TransactionUpdate_SetNillableMemo_def TransactionUpdate_ClearMemo_def
  TransactionUpdate_SetGasFee_def TransactionUpdate_SetNillableGasFee_def
  TransactionUpdate_ClearGasFee_def TransactionUpdate_SetMessages_def
  TransactionUpdate_AppendMessages_def TransactionUpdate_ClearMessages_def
  TransactionUpdate_SetResponse_def TransactionUpdate_SetNillableResponse_def
  TransactionUpdate_ClearResponse_def TransactionUpdate_SetBlockID_def
  TransactionUpdate_SetNillableBlockID_def TransactionUpdate_SetBlock_def
  TransactionUpdate_Mutation_def TransactionUpdate_ClearBlock_def
  TransactionUpdate_check_def transaction_Block_edge_def
  TransactionUpdate_spec_def TransactionUpdate_sqlSave_def
  TransactionUpdate_Save_def TransactionUpdate_SaveX_def
  TransactionUpdate_Exec_def TransactionUpdate_ExecX_def
  TransactionUpdateOne_SetIndex_def TransactionUpdateOne_SetNillableIndex_def
  TransactionUpdateOne_AddIndex_def TransactionUpdateOne_SetHash_def
  TransactionUpdateOne_SetNillableHash_def TransactionUpdateOne_SetSuccess_def
  TransactionUpdateOne_SetNillableSuccess_def TransactionUpdateOne_SetBlockHeight_def
  TransactionUpdateOne_SetNillableBlockHeight_def TransactionUpdateOne_AddBlockHeight_def
  TransactionUpdateOne_SetGasWanted_def TransactionUpdateOne_SetNillableGasWanted_def
  TransactionUpdateOne_AddGasWanted_def TransactionUpdateOne_SetGasUsed_def
  TransactionUpdateOne_SetNillableGasUsed_def TransactionUpdateOne_AddGasUsed_def
  TransactionUpdateOne_SetMemo_def TransactionUpdateOne_SetNillableMemo_def
  TransactionUpdateOne_ClearMemo_def TransactionUpdateOne_SetGasFee_def
  TransactionUpdateOne_SetNillableGasFee_def TransactionUpdateOne_ClearGasFee_def
  TransactionUpdateOne_SetMessages_def TransactionUpdateOne_AppendMessages_def
  TransactionUpdateOne_ClearMessages_def TransactionUpdateOne_SetResponse_def
  TransactionUpdateOne_SetNillableResponse_def TransactionUpdateOne_ClearResponse_def
  TransactionUpdateOne_SetBlockID_def TransactionUpdateOne_SetNillableBlockID_def
  TransactionUpdateOne_SetBlock_def TransactionUpdateOne_Mutation_def
  TransactionUpdateOne_ClearBlock_def TransactionUpdateOne_Where_def
  TransactionUpdateOne_Select_def TransactionUpdateOne_check_def
  TransactionUpdateOne_sqlSave_def TransactionUpdateOne_Save_def
  TransactionUpdateOne_SaveX_def TransactionUpdateOne_Exec_def
  TransactionUpdateOne_ExecX_def

section \<open>\<^verbatim>\<open>ent/transfer_update.go\<close>\<close>

record transfer_update =
  fub_mutation :: transfer_mutation

record transfer_update_one =
  fuo_fields :: "string list"
  fuo_mutation :: transfer_mutation

definition TransferUpdate_Where :: "pred list \<Rightarrow> transfer_update
    \<Rightarrow> transfer_update" where
  "TransferUpdate_Where ps u = u\<lparr>fub_mutation := TransferMutation_Where ps (fub_mutation u)\<rparr>"

definition TransferUpdate_SetHash :: "string \<Rightarrow> transfer_update
    \<Rightarrow> transfer_update" where
  "TransferUpdate_SetHash v u = u\<lparr>fub_mutation := TransferMutation_SetHash v (fub_mutation u)\<rparr>"

definition TransferUpdate_SetNillableHash :: "string option \<Rightarrow> transfer_update
    \<Rightarrow> transfer_update" where
  "TransferUpdate_SetNillableHash v u = (case v of None \<Rightarrow> u | Some w \<Rightarrow> TransferUpdate_SetHash w u)"

definition TransferUpdate_SetFunc :: "string \<Rightarrow> transfer_update
    \<Rightarrow> transfer_update" where
  "TransferUpdate_SetFunc v u = u\<lparr>fub_mutation := TransferMutation_SetFunc v (fub_mutation u)\<rparr>"

definition TransferUpdate_SetNillableFunc :: "string option \<Rightarrow> transfer_update
    \<Rightarrow> transfer_update" where
  "TransferUpdate_SetNillableFunc v u = (case v of None \<Rightarrow> u | Some w \<Rightarrow> TransferUpdate_SetFunc w u)"

definition TransferUpdate_SetFromAddress :: "string \<Rightarrow> transfer_update
    \<Rightarrow> transfer_update" where
  "TransferUpdate_SetFromAddress v u = u\<lparr>fub_mutation := TransferMutation_SetFromAddress v (fub_mutation u)\<rparr>"

definition TransferUpdate_SetNillableFromAddress :: "string option \<Rightarrow> transfer_update
    \<Rightarrow> transfer_update" where
  "TransferUpdate_SetNillableFromAddress v u = (case v of None \<Rightarrow> u | Some w \<Rightarrow> TransferUpdate_SetFromAddress w u)"

definition TransferUpdate_ClearFromAddress :: "transfer_update \<Rightarrow> transfer_update" where
  "TransferUpdate_ClearFromAddress u = u\<lparr>fub_mutation := TransferMutation_ClearFromAddress (fub_mutation u)\<rparr>"

definition TransferUpdate_SetToAddress :: "string \<Rightarrow> transfer_update
    \<Rightarrow> transfer_update" where
  "TransferUpdate_SetToAddress v u = u\<lparr>fub_mutation := TransferMutation_SetToAddress v (fub_mutation u)\<rparr>"

definition TransferUpdate_SetNillableToAddress :: "string option \<Rightarrow> transfer_update
    \<Rightarrow> transfer_update" where
  "TransferUpdate_SetNillableToAddress v u = (case v of None \<Rightarrow> u | Some w \<Rightarrow> TransferUpdate_SetToAddress w u)"

definition TransferUpdate_ClearToAddress :: "transfer_update \<Rightarrow> transfer_update" where
  "TransferUpdate_ClearToAddress u = u\<lparr>fub_mutation := TransferMutation_ClearToAddress (fub_mutation u)\<rparr>"

definition TransferUpdate_SetToken :: "string \<Rightarrow> transfer_update
    \<Rightarrow> transfer_update" where
  "TransferUpdate_SetToken v u = u\<lparr>fub_mutation := TransferMutation_SetToken v (fub_mutation u)\<rparr>"

definition TransferUpdate_SetNillableToken :: "string option \<Rightarrow> transfer_update
    \<Rightarrow> transfer_update" where
  "TransferUpdate_SetNillableToken v u = (case v of None \<Rightarrow> u | Some w \<Rightarrow> TransferUpdate_SetToken w u)"

definition TransferUpdate_SetAmount :: "float64 \<Rightarrow> transfer_update
    \<Rightarrow> transfer_update" where
  "TransferUpdate_SetAmount v u = u\<lparr>fub_mutation := TransferMutation_SetAmount v (TransferMutation_ResetAmount (fub_mutation u))\<rparr>"

definition TransferUpdate_SetNillableAmount :: "float64 option \<Rightarrow> transfer_update
    \<Rightarrow> transfer_update" where
  "TransferUpdate_SetNillableAmount v u = (case v of None \<Rightarrow> u | Some w \<Rightarrow> TransferUpdate_SetAmount w u)"

definition TransferUpdate_AddAmount :: "float64 \<Rightarrow> transfer_update
    \<Rightarrow> transfer_update" where
  "TransferUpdate_AddAmount v u = u\<lparr>fub_mutation := TransferMutation_AddAmount v (fub_mutation u)\<rparr>"

definition TransferUpdate_SetDenom :: "string \<Rightarrow> transfer_update
    \<Rightarrow> transfer_update" where
  "TransferUpdate_SetDenom v u = u\<lparr>fub_mutation := TransferMutation_SetDenom v (fub_mutation u)\<rparr>"

definition TransferUpdate_SetNillableDenom :: "string option \<Rightarrow> transfer_update
    \<Rightarrow> transfer_update" where
  "TransferUpdate_SetNillableDenom v u = (case v of None \<Rightarrow> u | Some w \<Rightarrow> TransferUpdate_SetDenom w u)"

definition TransferUpdate_Mutation :: "transfer_update \<Rightarrow> transfer_mutation" where
  "TransferUpdate_Mutation u = fub_mutation u"

definition TransferUpdate_check :: "'s ent_client \<Rightarrow> transfer_update
    \<Rightarrow> err option" where
  "TransferUpdate_check cl u = 
     first_err [validate_field ''hash'' (NotEmpty cl) (TransferMutation_Hash (fub_mutation u)),
     validate_field ''func'' (NotEmpty cl) (TransferMutation_Func (fub_mutation u)),
     validate_field ''token'' (NotEmpty cl) (TransferMutation_Token (fub_mutation u)),
     validate_field ''amount'' (Positive cl) (TransferMutation_Amount (fub_mutation u)),
     validate_field ''denom'' (NotEmpty cl) (TransferMutation_Denom (fub_mutation u))]"

definition TransferUpdate_spec :: "transfer_update \<Rightarrow> update_spec" where
  "TransferUpdate_spec u = 
     (let m = fub_mutation u in
      \<lparr>us_Table = transfer_Table, us_Columns = transfer_Columns, us_IDSpec = (transfer_FieldID, TypeInt),
       us_Predicate = fm_predicates m,
       us_Set = set_entry transfer_FieldHash TypeString VString (TransferMutation_Hash m) @
         set_entry transfer_FieldFunc TypeString VString (TransferMutation_Func m) @
         set_entry transfer_FieldFromAddress TypeString VString (TransferMutation_FromAddress m) @
         set_entry transfer_FieldToAddress TypeString VString (TransferMutation_ToAddress m) @
         set_entry transfer_FieldToken TypeString VString (TransferMutation_Token m) @
         set_entry transfer_FieldAmount TypeFloat64 VFloat (TransferMutation_Amount m) @
         set_entry transfer_FieldDenom TypeString VString (TransferMutation_Denom m),
       us_Add = set_entry transfer_FieldAmount TypeFloat64 VFloat (TransferMutation_AddedAmount m),
       us_Clear = clear_entry transfer_FieldFromAddress TypeString (TransferMutation_FromAddressCleared m) @
         clear_entry transfer_FieldToAddress TypeString (TransferMutation_ToAddressCleared m),
       us_Append = [],
       us_ClearEdges = [],
       us_AddEdges = []\<rparr>)"

definition TransferUpdate_sqlSave :: "'s ent_client \<Rightarrow> transfer_update
    \<Rightarrow> ('s, int) io" where
  "TransferUpdate_sqlSave cl u s = 
     (case TransferUpdate_check cl u of Some e \<Rightarrow> (Inl e, s)
      | None \<Rightarrow>
        (case UpdateNodes cl (TransferUpdate_spec u) s of
           (Inl e, s') \<Rightarrow> (Inl (wrap_update_err transfer_Label e), s')
         | (Inr n, s') \<Rightarrow> (Inr n, s')))"

definition TransferUpdate_Save :: "'s ent_client \<Rightarrow> transfer_update
    \<Rightarrow> ('s, int) io" where
  "TransferUpdate_Save = TransferUpdate_sqlSave"

definition TransferUpdate_SaveX :: "'s ent_client \<Rightarrow> transfer_update
    \<Rightarrow> ('s, int) io" where
  "TransferUpdate_SaveX cl u = must (TransferUpdate_Save cl u)"

definition TransferUpdate_Exec :: "'s ent_client \<Rightarrow> transfer_update
    \<Rightarrow> ('s, unit) io" where
  "TransferUpdate_Exec cl u = drop_result (TransferUpdate_Save cl u)"

definition TransferUpdate_ExecX :: "'s ent_client \<Rightarrow> transfer_update
    \<Rightarrow> ('s, unit) io" where
  "TransferUpdate_ExecX cl u = must (TransferUpdate_Exec cl u)"

definition TransferUpdateOne_SetHash :: "string \<Rightarrow> transfer_update_one
    \<Rightarrow> transfer_update_one" where
  "TransferUpdateOne_SetHash v u = u\<lparr>fuo_mutation := TransferMutation_SetHash v (fuo_mutation u)\<rparr>"

definition TransferUpdateOne_SetNillableHash :: "string option \<Rightarrow> transfer_update_one
    \<Rightarrow> transfer_update_one" where
  "TransferUpdateOne_SetNillableHash v u = (case v of None \<Rightarrow> u | Some w \<Rightarrow> TransferUpdateOne_SetHash w u)"

definition TransferUpdateOne_SetFunc :: "string \<Rightarrow> transfer_update_one
    \<Rightarrow> transfer_update_one" where
  "TransferUpdateOne_SetFunc v u = u\<lparr>fuo_mutation := TransferMutation_SetFunc v (fuo_mutation u)\<rparr>"

definition TransferUpdateOne_SetNillableFunc :: "string option \<Rightarrow> transfer_update_one
    \<Rightarrow> transfer_update_one" where
  "TransferUpdateOne_SetNillableFunc v u = (case v of None \<Rightarrow> u | Some w \<Rightarrow> TransferUpdateOne_SetFunc w u)"

definition TransferUpdateOne_SetFromAddress :: "string \<Rightarrow> transfer_update_one
    \<Rightarrow> transfer_update_one" where
  "TransferUpdateOne_SetFromAddress v u = u\<lparr>fuo_mutation := TransferMutation_SetFromAddress v (fuo_mutation u)\<rparr>"

definition TransferUpdateOne_SetNillableFromAddress :: "string option \<Rightarrow> transfer_update_one
    \<Rightarrow> transfer_update_one" where
  "TransferUpdateOne_SetNillableFromAddress v u = (case v of None \<Rightarrow> u | Some w \<Rightarrow> TransferUpdateOne_SetFromAddress w u)"

definition TransferUpdateOne_ClearFromAddress :: "transfer_update_one
    \<Rightarrow> transfer_update_one" where
  "TransferUpdateOne_ClearFromAddress u = u\<lparr>fuo_mutation := TransferMutation_ClearFromAddress (fuo_mutation u)\<rparr>"

definition TransferUpdateOne_SetToAddress :: "string \<Rightarrow> transfer_update_one
    \<Rightarrow> transfer_update_one" where
  "TransferUpdateOne_SetToAddress v u = u\<lparr>fuo_mutation := TransferMutation_SetToAddress v (fuo_mutation u)\<rparr>"

definition TransferUpdateOne_SetNillableToAddress :: "string option \<Rightarrow> transfer_update_one
    \<Rightarrow> transfer_update_one" where
  "TransferUpdateOne_SetNillableToAddress v u = (case v of None \<Rightarrow> u | Some w \<Rightarrow> TransferUpdateOne_SetToAddress w u)"

definition TransferUpdateOne_ClearToAddress :: "transfer_update_one
    \<Rightarrow> transfer_update_one" where
  "TransferUpdateOne_ClearToAddress u = u\<lparr>fuo_mutation := TransferMutation_ClearToAddress (fuo_mutation u)\<rparr>"

definition TransferUpdateOne_SetToken :: "string \<Rightarrow> transfer_update_one
    \<Rightarrow> transfer_update_one" where
  "TransferUpdateOne_SetToken v u = u\<lparr>fuo_mutation := TransferMutation_SetToken v (fuo_mutation u)\<rparr>"

definition TransferUpdateOne_SetNillableToken :: "string option \<Rightarrow> transfer_update_one
    \<Rightarrow> transfer_update_one" where
  "TransferUpdateOne_SetNillableToken v u = (case v of None \<Rightarrow> u | Some w \<Rightarrow> TransferUpdateOne_SetToken w u)"

definition TransferUpdateOne_SetAmount :: "float64 \<Rightarrow> transfer_update_one
    \<Rightarrow> transfer_update_one" where
  "TransferUpdateOne_SetAmount v u = u\<lparr>fuo_mutation := TransferMutation_SetAmount v (TransferMutation_ResetAmount (fuo_mutation u))\<rparr>"

definition TransferUpdateOne_SetNillableAmount :: "float64 option \<Rightarrow> transfer_update_one
    \<Rightarrow> transfer_update_one" where
  "TransferUpdateOne_SetNillableAmount v u = (case v of None \<Rightarrow> u | Some w \<Rightarrow> TransferUpdateOne_SetAmount w u)"

definition TransferUpdateOne_AddAmount :: "float64 \<Rightarrow> transfer_update_one
    \<Rightarrow> transfer_update_one" where
  "TransferUpdateOne_AddAmount v u = u\<lparr>fuo_mutation := TransferMutation_AddAmount v (fuo_mutation u)\<rparr>"

definition TransferUpdateOne_SetDenom :: "string \<Rightarrow> transfer_update_one
    \<Rightarrow> transfer_update_one" where
  "TransferUpdateOne_SetDenom v u = u\<lparr>fuo_mutation := TransferMutation_SetDenom v (fuo_mutation u)\<rparr>"

definition TransferUpdateOne_SetNillableDenom :: "string option \<Rightarrow> transfer_update_one
    \<Rightarrow> transfer_update_one" where
  "TransferUpdateOne_SetNillableDenom v u = (case v of None \<Rightarrow> u | Some w \<Rightarrow> TransferUpdateOne_SetDenom w u)"

definition TransferUpdateOne_Mutation :: "transfer_update_one \<Rightarrow> transfer_mutation" where
  "TransferUpdateOne_Mutation u = fuo_mutation u"

definition TransferUpdateOne_Where :: "pred list \<Rightarrow> transfer_update_one
    \<Rightarrow> transfer_update_one" where
  "TransferUpdateOne_Where ps u = u\<lparr>fuo_mutation := TransferMutation_Where ps (fuo_mutation u)\<rparr>"

definition TransferUpdateOne_Select :: "string \<Rightarrow> string list
    \<Rightarrow> transfer_update_one \<Rightarrow> transfer_update_one" where
  "TransferUpdateOne_Select f fs u = u\<lparr>fuo_fields := f # fs\<rparr>"

definition TransferUpdateOne_check :: "'s ent_client \<Rightarrow> transfer_update_one
    \<Rightarrow> err option" where
  "TransferUpdateOne_check cl u = 
     first_err [validate_field ''hash'' (NotEmpty cl) (TransferMutation_Hash (fuo_mutation u)),
     validate_field ''func'' (NotEmpty cl) (TransferMutation_Func (fuo_mutation u)),
     validate_field ''token'' (NotEmpty cl) (TransferMutation_Token (fuo_mutation u)),
     validate_field ''amount'' (Positive cl) (TransferMutation_Amount (fuo_mutation u)),
     validate_field ''denom'' (NotEmpty cl) (TransferMutation_Denom (fuo_mutation u))]"

definition TransferUpdateOne_sqlSave :: "'s ent_graph \<Rightarrow> transfer_update_one
    \<Rightarrow> ('s, ent_transfer) io" where
  "TransferUpdateOne_sqlSave g u s = 
     (case TransferUpdateOne_check (eg_client g) u of Some e \<Rightarrow> (Inl e, s)
      | None \<Rightarrow>
        (case TransferMutation_ID (fuo_mutation u) of
           None \<Rightarrow> (Inl (EValidation ''id'' ''ent: missing id for update''), s)
         | Some k \<Rightarrow>
           (case select_columns transfer_meta (fuo_fields u) of
              Inl e \<Rightarrow> (Inl e, s)
            | Inr cs \<Rightarrow> update_one transfer_meta g
                \<lparr>nu_Spec = (TransferUpdate_spec \<lparr>fub_mutation = fuo_mutation u\<rparr>)\<lparr>us_Columns := cs\<rparr>,
                 nu_ID = VInt k\<rparr> s)))"

definition TransferUpdateOne_Save :: "'s ent_graph \<Rightarrow> transfer_update_one
    \<Rightarrow> ('s, ent_transfer) io" where
  "TransferUpdateOne_Save = TransferUpdateOne_sqlSave"

definition TransferUpdateOne_SaveX :: "'s ent_graph \<Rightarrow> transfer_update_one
    \<Rightarrow> ('s, ent_transfer) io" where
  "TransferUpdateOne_SaveX cl u = must (TransferUpdateOne_Save cl u)"

definition TransferUpdateOne_Exec :: "'s ent_graph \<Rightarrow> transfer_update_one
    \<Rightarrow> ('s, unit) io" where
  "TransferUpdateOne_Exec cl u = drop_result (TransferUpdateOne_Save cl u)"

definition TransferUpdateOne_ExecX :: "'s ent_graph \<Rightarrow> transfer_update_one
    \<Rightarrow> ('s, unit) io" where
  "TransferUpdateOne_ExecX cl u = must (TransferUpdateOne_Exec cl u)"

lemmas transfer_updates_defs = TransferUpdate_Where_def TransferUpdate_SetHash_def
  TransferUpdate_SetNillableHash_def TransferUpdate_SetFunc_def
  TransferUpdate_SetNillableFunc_def TransferUpdate_SetFromAddress_def
  TransferUpdate_SetNillableFromAddress_def TransferUpdate_ClearFromAddress_def
  TransferUpdate_SetToAddress_def TransferUpdate_SetNillableToAddress_def
  TransferUpdate_ClearToAddress_def TransferUpdate_SetToken_def
  TransferUpdate_SetNillableToken_def TransferUpdate_SetAmount_def
  TransferUpdate_SetNillableAmount_def TransferUpdate_AddAmount_def
  TransferUpdate_SetDenom_def TransferUpdate_SetNillableDenom_def
  TransferUpdate_Mutation_def TransferUpdate_check_def
  TransferUpdate_spec_def TransferUpdate_sqlSave_def
  TransferUpdate_Save_def TransferUpdate_SaveX_def
  TransferUpdate_Exec_def TransferUpdate_ExecX_def
  TransferUpdateOne_SetHash_def TransferUpdateOne_SetNillableHash_def
  TransferUpdateOne_SetFunc_def TransferUpdateOne_SetNillableFunc_def
  TransferUpdateOne_SetFromAddress_def TransferUpdateOne_SetNillableFromAddress_def
  TransferUpdateOne_ClearFromAddress_def TransferUpdateOne_SetToAddress_def
  TransferUpdateOne_SetNillableToAddress_def TransferUpdateOne_ClearToAddress_def
  TransferUpdateOne_SetToken_def TransferUpdateOne_SetNillableToken_def
  TransferUpdateOne_SetAmount_def TransferUpdateOne_SetNillableAmount_def
  TransferUpdateOne_AddAmount_def TransferUpdateOne_SetDenom_def
  TransferUpdateOne_SetNillableDenom_def TransferUpdateOne_Mutation_def
  TransferUpdateOne_Where_def TransferUpdateOne_Select_def
  TransferUpdateOne_check_def TransferUpdateOne_sqlSave_def
  TransferUpdateOne_Save_def TransferUpdateOne_SaveX_def
  TransferUpdateOne_Exec_def TransferUpdateOne_ExecX_def

end
