(* ===== verification/Ent_Query_Ops.thy ===== *)
theory Ent_Query_Ops
  imports Ent_Graph
begin

text \<open>
  The query operations beyond those the repository calls (\<^verbatim>\<open>ent/*_query.go\<close>): keys, counts, existence,
  selections, and the variants that panic. They are generated five times with the entity substituted, so
  they are stated once over an \<open>ent_meta\<close>, then instantiated. A query that runs sets its limit or fields in
  the builder it was called on; the builder is not used afterwards in what follows, so the change is not
  returned.
\<close>

section \<open>The generic operations\<close>

definition Unique :: "bool \<Rightarrow> ent_query \<Rightarrow> ent_query" where
  "Unique u q = q\<lparr>qy_Unique := Some u\<rparr>"

text \<open>A missing row is the zero value of \<^verbatim>\<open>FirstX\<close> and \<^verbatim>\<open>FirstIDX\<close>, not a panic.\<close>

definition mask_must :: "('s, 'a) io \<Rightarrow> ('s, 'a option) io" where
  "mask_must f s =
     (case f s of
        (Inr x, s') \<Rightarrow> (Inr (Some x), s')
      | (Inl e, s') \<Rightarrow> if IsNotFound e then (Inr None, s') else (Inl (EPanic (err_text e)), s'))"

definition FirstX :: "'n ent_meta \<Rightarrow> 's ent_client \<Rightarrow> ent_query \<Rightarrow> ('s, 'n option) io" where
  "FirstX m cl q = mask_must (First m cl q)"

definition OnlyX :: "'n ent_meta \<Rightarrow> 's ent_client \<Rightarrow> ent_query \<Rightarrow> ('s, 'n) io" where
  "OnlyX m cl q = must (Only m cl q)"

definition AllX :: "'n ent_meta \<Rightarrow> 's ent_client \<Rightarrow> ent_query \<Rightarrow> ('s, 'n list) io" where
  "AllX m cl q = must (All m cl q)"

text \<open>\<^verbatim>\<open>sqlQuery\<close>: unlike \<^verbatim>\<open>querySpec\<close> it selects just the fields asked for, and an offset without a limit
  brings the largest 32-bit limit.\<close>

definition sqlQuery :: "'n ent_meta \<Rightarrow> ent_query \<Rightarrow> select_spec" where
  "sqlQuery m q =
     \<lparr>ss_Table = em_Table m,
      ss_Columns = (if qy_Fields q = [] then em_Columns m else qy_Fields q),
      ss_Distinct = (qy_Unique q = Some True),
      ss_Predicate = qy_predicates q, ss_Order = qy_order q,
      ss_Offset = qy_Offset q,
      ss_Limit = (case qy_Limit q of Some l \<Rightarrow> Some l
        | None \<Rightarrow> if qy_Offset q = None then None else Some 2147483647),
      ss_Fns = []\<rparr>"

record ent_select =
  sl_query :: ent_query
  sl_fns :: "aggregate list"

definition Select :: "string list \<Rightarrow> ent_query \<Rightarrow> ent_select" where
  "Select fs q = \<lparr>sl_query = q\<lparr>qy_Fields := qy_Fields q @ fs\<rparr>, sl_fns = []\<rparr>"

definition Select_Aggregate :: "aggregate list \<Rightarrow> ent_select \<Rightarrow> ent_select" where
  "Select_Aggregate fns sl = sl\<lparr>sl_fns := sl_fns sl @ fns\<rparr>"

definition Query_Aggregate :: "aggregate list \<Rightarrow> ent_query \<Rightarrow> ent_select" where
  "Query_Aggregate fns q = Select_Aggregate fns (Select [] q)"

text \<open>With aggregates and no fields only the aggregates are selected.\<close>

definition Select_sqlScan :: "'n ent_meta \<Rightarrow> (select_spec \<Rightarrow> 's \<Rightarrow> (sql_err + 'k) \<times> 's) \<Rightarrow> ent_select
    \<Rightarrow> ('s, 'k) io" where
  "Select_sqlScan m scan sl s =
     (let sp = (sqlQuery m (sl_query sl))\<lparr>ss_Fns := sl_fns sl\<rparr>;
          sp' = (if qy_Fields (sl_query sl) = [] \<and> sl_fns sl \<noteq> [] then sp\<lparr>ss_Columns := []\<rparr> else sp) in
      case scan sp' s of (Inl e, s') \<Rightarrow> (Inl (EDriver e), s') | (Inr v, s') \<Rightarrow> (Inr v, s'))"

definition Select_Scan :: "'n ent_meta \<Rightarrow> (select_spec \<Rightarrow> 's \<Rightarrow> (sql_err + 'k) \<times> 's) \<Rightarrow> ent_select
    \<Rightarrow> ('s, 'k) io" where
  "Select_Scan m scan sl s =
     (case prepareQuery m (sl_query sl) of Some e \<Rightarrow> (Inl e, s) | None \<Rightarrow> Select_sqlScan m scan sl s)"

text \<open>The keys: strings for the accounts, integers for the others; \<open>scan\<close> is the call that reads them.\<close>

definition IDs :: "'n ent_meta \<Rightarrow> (select_spec \<Rightarrow> 's \<Rightarrow> (sql_err + 'k list) \<times> 's) \<Rightarrow> ent_query
    \<Rightarrow> ('s, 'k list) io" where
  "IDs m scan q = Select_Scan m scan (Select [fst (em_IDSpec m)] q)"

definition IDsX :: "'n ent_meta \<Rightarrow> (select_spec \<Rightarrow> 's \<Rightarrow> (sql_err + 'k list) \<times> 's) \<Rightarrow> ent_query
    \<Rightarrow> ('s, 'k list) io" where
  "IDsX m scan q = must (IDs m scan q)"

definition FirstID :: "'n ent_meta \<Rightarrow> (select_spec \<Rightarrow> 's \<Rightarrow> (sql_err + 'k list) \<times> 's) \<Rightarrow> ent_query
    \<Rightarrow> ('s, 'k) io" where
  "FirstID m scan q s =
     (case IDs m scan (Limit 1 q) s of
        (Inl e, s') \<Rightarrow> (Inl e, s')
      | (Inr ids, s') \<Rightarrow> (case ids of [] \<Rightarrow> (Inl (ENotFound (em_Label m)), s') | k # _ \<Rightarrow> (Inr k, s')))"

definition FirstIDX :: "'n ent_meta \<Rightarrow> (select_spec \<Rightarrow> 's \<Rightarrow> (sql_err + 'k list) \<times> 's) \<Rightarrow> ent_query
    \<Rightarrow> ('s, 'k option) io" where
  "FirstIDX m scan q = mask_must (FirstID m scan q)"

definition OnlyID :: "'n ent_meta \<Rightarrow> (select_spec \<Rightarrow> 's \<Rightarrow> (sql_err + 'k list) \<times> 's) \<Rightarrow> ent_query
    \<Rightarrow> ('s, 'k) io" where
  "OnlyID m scan q s =
     (case IDs m scan (Limit 2 q) s of
        (Inl e, s') \<Rightarrow> (Inl e, s')
      | (Inr ids, s') \<Rightarrow>
          (case ids of [k] \<Rightarrow> (Inr k, s')
           | [] \<Rightarrow> (Inl (ENotFound (em_Label m)), s')
           | _ \<Rightarrow> (Inl (ENotSingular (em_Label m)), s')))"

definition OnlyIDX :: "'n ent_meta \<Rightarrow> (select_spec \<Rightarrow> 's \<Rightarrow> (sql_err + 'k list) \<times> 's) \<Rightarrow> ent_query
    \<Rightarrow> ('s, 'k) io" where
  "OnlyIDX m scan q = must (OnlyID m scan q)"

definition sqlCount :: "'n ent_meta \<Rightarrow> 's ent_graph \<Rightarrow> ent_query \<Rightarrow> ('s, int) io" where
  "sqlCount m g q s =
     (let sp = (querySpec m q)\<lparr>qs_Columns := qy_Fields q\<rparr>;
          sp' = (if qy_Fields q = [] then sp else sp\<lparr>qs_Unique := (qy_Unique q = Some True)\<rparr>) in
      case selector_err m q of Some e \<Rightarrow> (Inl e, s)
      | None \<Rightarrow>
        (case CountNodes g sp' s of (Inl e, s') \<Rightarrow> (Inl (EDriver e), s') | (Inr n, s') \<Rightarrow> (Inr n, s')))"

definition Count :: "'n ent_meta \<Rightarrow> 's ent_graph \<Rightarrow> ent_query \<Rightarrow> ('s, int) io" where
  "Count m g q s = (case prepareQuery m q of Some e \<Rightarrow> (Inl e, s) | None \<Rightarrow> sqlCount m g q s)"

definition CountX :: "'n ent_meta \<Rightarrow> 's ent_graph \<Rightarrow> ent_query \<Rightarrow> ('s, int) io" where
  "CountX m g q = must (Count m g q)"

definition Exist :: "'n ent_meta \<Rightarrow> (select_spec \<Rightarrow> 's \<Rightarrow> (sql_err + 'k list) \<times> 's) \<Rightarrow> ent_query
    \<Rightarrow> ('s, bool) io" where
  "Exist m scan q s =
     (case FirstID m scan q s of
        (Inl e, s') \<Rightarrow> if IsNotFound e then (Inr False, s') else (Inl (EWrap ''ent: check existence'' e), s')
      | (Inr _, s') \<Rightarrow> (Inr True, s'))"

definition ExistX :: "'n ent_meta \<Rightarrow> (select_spec \<Rightarrow> 's \<Rightarrow> (sql_err + 'k list) \<times> 's) \<Rightarrow> ent_query
    \<Rightarrow> ('s, bool) io" where
  "ExistX m scan q = must (Exist m scan q)"

definition Clone :: "ent_query \<Rightarrow> ent_query" where
  "Clone q = \<lparr>qy_Limit = qy_Limit q, qy_Offset = qy_Offset q, qy_Unique = qy_Unique q,
     qy_Fields = qy_Fields q, qy_order = qy_order q, qy_predicates = qy_predicates q\<rparr>"

lemma Clone_same [simp]: "Clone q = q" by (simp add: Clone_def)

lemmas query_op_defs = Unique_def FirstX_def OnlyX_def AllX_def Select_def Select_Aggregate_def
  Query_Aggregate_def Select_sqlScan_def Select_Scan_def IDs_def IDsX_def FirstID_def FirstIDX_def
  OnlyID_def OnlyIDX_def sqlCount_def Count_def CountX_def Exist_def ExistX_def

section \<open>The five entities\<close>

subsection \<open>\<^verbatim>\<open>ent/account_query.go\<close>\<close>

definition AccountQuery_Where :: "pred list \<Rightarrow> ent_query \<Rightarrow> ent_query" where
  "AccountQuery_Where = Where"

definition AccountQuery_Limit :: "int \<Rightarrow> ent_query \<Rightarrow> ent_query" where
  "AccountQuery_Limit = Limit"

definition AccountQuery_Offset :: "int \<Rightarrow> ent_query \<Rightarrow> ent_query" where
  "AccountQuery_Offset = Offset"

definition AccountQuery_Unique :: "bool \<Rightarrow> ent_query \<Rightarrow> ent_query" where
  "AccountQuery_Unique = Unique"

definition AccountQuery_Order :: "order_term list \<Rightarrow> ent_query
    \<Rightarrow> ent_query" where
  "AccountQuery_Order = Order"

definition AccountQuery_FirstX :: "'s ent_client \<Rightarrow> ent_query
    \<Rightarrow> ('s, ent_account option) io" where
  "AccountQuery_FirstX = FirstX account_meta"

definition AccountQuery_FirstID :: "'s ent_graph \<Rightarrow> ent_query
    \<Rightarrow> ('s, string) io" where
  "AccountQuery_FirstID g = FirstID account_meta (SelectStrings g)"

definition AccountQuery_FirstIDX :: "'s ent_graph \<Rightarrow> ent_query
    \<Rightarrow> ('s, string option) io" where
  "AccountQuery_FirstIDX g = FirstIDX account_meta (SelectStrings g)"

definition AccountQuery_OnlyX :: "'s ent_client \<Rightarrow> ent_query
    \<Rightarrow> ('s, ent_account) io" where
  "AccountQuery_OnlyX = OnlyX account_meta"

definition AccountQuery_OnlyID :: "'s ent_graph \<Rightarrow> ent_query
    \<Rightarrow> ('s, string) io" where
  "AccountQuery_OnlyID g = OnlyID account_meta (SelectStrings g)"

definition AccountQuery_OnlyIDX :: "'s ent_graph \<Rightarrow> ent_query
    \<Rightarrow> ('s, string) io" where
  "AccountQuery_OnlyIDX g = OnlyIDX account_meta (SelectStrings g)"

definition AccountQuery_AllX :: "'s ent_client \<Rightarrow> ent_query
    \<Rightarrow> ('s, ent_account list) io" where
  "AccountQuery_AllX = AllX account_meta"

definition AccountQuery_IDs :: "'s ent_graph \<Rightarrow> ent_query
    \<Rightarrow> ('s, string list) io" where
  "AccountQuery_IDs g = IDs account_meta (SelectStrings g)"

definition AccountQuery_IDsX :: "'s ent_graph \<Rightarrow> ent_query
    \<Rightarrow> ('s, string list) io" where
  "AccountQuery_IDsX g = IDsX account_meta (SelectStrings g)"

definition AccountQuery_Count :: "'s ent_graph \<Rightarrow> ent_query
    \<Rightarrow> ('s, int) io" where
  "AccountQuery_Count = Count account_meta"

definition AccountQuery_CountX :: "'s ent_graph \<Rightarrow> ent_query
    \<Rightarrow> ('s, int) io" where
  "AccountQuery_CountX = CountX account_meta"

definition AccountQuery_Exist :: "'s ent_graph \<Rightarrow> ent_query
    \<Rightarrow> ('s, bool) io" where
  "AccountQuery_Exist g = Exist account_meta (SelectStrings g)"

definition AccountQuery_ExistX :: "'s ent_graph \<Rightarrow> ent_query
    \<Rightarrow> ('s, bool) io" where
  "AccountQuery_ExistX g = ExistX account_meta (SelectStrings g)"

definition AccountQuery_Clone :: "ent_query \<Rightarrow> ent_query" where
  "AccountQuery_Clone = Clone"

definition AccountQuery_Select :: "string list \<Rightarrow> ent_query
    \<Rightarrow> ent_select" where
  "AccountQuery_Select = Select"

definition AccountQuery_Aggregate :: "aggregate list \<Rightarrow> ent_query
    \<Rightarrow> ent_select" where
  "AccountQuery_Aggregate = Query_Aggregate"

definition AccountQuery_prepareQuery :: "ent_query \<Rightarrow> err option" where
  "AccountQuery_prepareQuery = prepareQuery account_meta"

definition AccountQuery_sqlAll :: "'s ent_client \<Rightarrow> ent_query
    \<Rightarrow> ('s, ent_account list) io" where
  "AccountQuery_sqlAll = sqlAll account_meta"

definition AccountQuery_sqlCount :: "'s ent_graph \<Rightarrow> ent_query
    \<Rightarrow> ('s, int) io" where
  "AccountQuery_sqlCount = sqlCount account_meta"

definition AccountQuery_sqlQuery :: "ent_query \<Rightarrow> select_spec" where
  "AccountQuery_sqlQuery = sqlQuery account_meta"

definition AccountSelect_Aggregate :: "aggregate list \<Rightarrow> ent_select
    \<Rightarrow> ent_select" where
  "AccountSelect_Aggregate = Select_Aggregate"

definition AccountSelect_sqlScan :: "(select_spec \<Rightarrow> 's
    \<Rightarrow> (sql_err + 'k) \<times> 's) \<Rightarrow> ent_select \<Rightarrow> ('s, 'k) io" where
  "AccountSelect_sqlScan = Select_sqlScan account_meta"

definition AccountSelect_Scan :: "(select_spec \<Rightarrow> 's
    \<Rightarrow> (sql_err + 'k) \<times> 's) \<Rightarrow> ent_select \<Rightarrow> ('s, 'k) io" where
  "AccountSelect_Scan = Select_Scan account_meta"

lemmas account_query_defs = AccountQuery_Where_def AccountQuery_Limit_def AccountQuery_Offset_def
  AccountQuery_Unique_def AccountQuery_Order_def AccountQuery_FirstX_def
  AccountQuery_FirstID_def AccountQuery_FirstIDX_def AccountQuery_OnlyX_def
  AccountQuery_OnlyID_def AccountQuery_OnlyIDX_def AccountQuery_AllX_def
  AccountQuery_IDs_def AccountQuery_IDsX_def AccountQuery_Count_def
  AccountQuery_CountX_def AccountQuery_Exist_def AccountQuery_ExistX_def
  AccountQuery_Clone_def AccountQuery_Select_def AccountQuery_Aggregate_def
  AccountQuery_prepareQuery_def AccountQuery_sqlAll_def AccountQuery_sqlCount_def
  AccountQuery_sqlQuery_def AccountSelect_Aggregate_def AccountSelect_sqlScan_def
  AccountSelect_Scan_def

subsection \<open>\<^verbatim>\<open>ent/block_query.go\<close>\<close>

definition BlockQuery_Where :: "pred list \<Rightarrow> ent_query \<Rightarrow> ent_query" where
  "BlockQuery_Where = Where"

definition BlockQuery_Limit :: "int \<Rightarrow> ent_query \<Rightarrow> ent_query" where
  "BlockQuery_Limit = Limit"

definition BlockQuery_Offset :: "int \<Rightarrow> ent_query \<Rightarrow> ent_query" where
  "BlockQuery_Offset = Offset"

definition BlockQuery_Unique :: "bool \<Rightarrow> ent_query \<Rightarrow> ent_query" where
  "BlockQuery_Unique = Unique"

definition BlockQuery_Order :: "order_term list \<Rightarrow> ent_query
    \<Rightarrow> ent_query" where
  "BlockQuery_Order = Order"

definition BlockQuery_FirstX :: "'s ent_client \<Rightarrow> ent_query
    \<Rightarrow> ('s, ent_block option) io" where
  "BlockQuery_FirstX = FirstX block_meta"

definition BlockQuery_FirstID :: "'s ent_graph \<Rightarrow> ent_query
    \<Rightarrow> ('s, int) io" where
  "BlockQuery_FirstID g = FirstID block_meta (SelectInts g)"

definition BlockQuery_FirstIDX :: "'s ent_graph \<Rightarrow> ent_query
    \<Rightarrow> ('s, int option) io" where
  "BlockQuery_FirstIDX g = FirstIDX block_meta (SelectInts g)"

definition BlockQuery_OnlyX :: "'s ent_client \<Rightarrow> ent_query
    \<Rightarrow> ('s, ent_block) io" where
  "BlockQuery_OnlyX = OnlyX block_meta"

definition BlockQuery_OnlyID :: "'s ent_graph \<Rightarrow> ent_query
    \<Rightarrow> ('s, int) io" where
  "BlockQuery_OnlyID g = OnlyID block_meta (SelectInts g)"

definition BlockQuery_OnlyIDX :: "'s ent_graph \<Rightarrow> ent_query
    \<Rightarrow> ('s, int) io" where
  "BlockQuery_OnlyIDX g = OnlyIDX block_meta (SelectInts g)"

definition BlockQuery_AllX :: "'s ent_client \<Rightarrow> ent_query
    \<Rightarrow> ('s, ent_block list) io" where
  "BlockQuery_AllX = AllX block_meta"

definition BlockQuery_IDs :: "'s ent_graph \<Rightarrow> ent_query
    \<Rightarrow> ('s, int list) io" where
  "BlockQuery_IDs g = IDs block_meta (SelectInts g)"

definition BlockQuery_IDsX :: "'s ent_graph \<Rightarrow> ent_query
    \<Rightarrow> ('s, int list) io" where
  "BlockQuery_IDsX g = IDsX block_meta (SelectInts g)"

definition BlockQuery_Count :: "'s ent_graph \<Rightarrow> ent_query
    \<Rightarrow> ('s, int) io" where
  "BlockQuery_Count = Count block_meta"

definition BlockQuery_CountX :: "'s ent_graph \<Rightarrow> ent_query
    \<Rightarrow> ('s, int) io" where
  "BlockQuery_CountX = CountX block_meta"

definition BlockQuery_Exist :: "'s ent_graph \<Rightarrow> ent_query
    \<Rightarrow> ('s, bool) io" where
  "BlockQuery_Exist g = Exist block_meta (SelectInts g)"

definition BlockQuery_ExistX :: "'s ent_graph \<Rightarrow> ent_query
    \<Rightarrow> ('s, bool) io" where
  "BlockQuery_ExistX g = ExistX block_meta (SelectInts g)"

definition BlockQuery_Clone :: "ent_query \<Rightarrow> ent_query" where
  "BlockQuery_Clone = Clone"

definition BlockQuery_Select :: "string list \<Rightarrow> ent_query \<Rightarrow> ent_select" where
  "BlockQuery_Select = Select"

definition BlockQuery_Aggregate :: "aggregate list \<Rightarrow> ent_query
    \<Rightarrow> ent_select" where
  "BlockQuery_Aggregate = Query_Aggregate"

definition BlockQuery_prepareQuery :: "ent_query \<Rightarrow> err option" where
  "BlockQuery_prepareQuery = prepareQuery block_meta"

definition BlockQuery_sqlAll :: "'s ent_client \<Rightarrow> ent_query
    \<Rightarrow> ('s, ent_block list) io" where
  "BlockQuery_sqlAll = sqlAll block_meta"

definition BlockQuery_sqlCount :: "'s ent_graph \<Rightarrow> ent_query
    \<Rightarrow> ('s, int) io" where
  "BlockQuery_sqlCount = sqlCount block_meta"

definition BlockQuery_sqlQuery :: "ent_query \<Rightarrow> select_spec" where
  "BlockQuery_sqlQuery = sqlQuery block_meta"

definition BlockSelect_Aggregate :: "aggregate list \<Rightarrow> ent_select
    \<Rightarrow> ent_select" where
  "BlockSelect_Aggregate = Select_Aggregate"

definition BlockSelect_sqlScan :: "(select_spec \<Rightarrow> 's
    \<Rightarrow> (sql_err + 'k) \<times> 's) \<Rightarrow> ent_select \<Rightarrow> ('s, 'k) io" where
  "BlockSelect_sqlScan = Select_sqlScan block_meta"

definition BlockSelect_Scan :: "(select_spec \<Rightarrow> 's
    \<Rightarrow> (sql_err + 'k) \<times> 's) \<Rightarrow> ent_select \<Rightarrow> ('s, 'k) io" where
  "BlockSelect_Scan = Select_Scan block_meta"

lemmas block_query_defs = BlockQuery_Where_def BlockQuery_Limit_def BlockQuery_Offset_def
  BlockQuery_Unique_def BlockQuery_Order_def BlockQuery_FirstX_def
  BlockQuery_FirstID_def BlockQuery_FirstIDX_def BlockQuery_OnlyX_def
  BlockQuery_OnlyID_def BlockQuery_OnlyIDX_def BlockQuery_AllX_def
  BlockQuery_IDs_def BlockQuery_IDsX_def BlockQuery_Count_def
  BlockQuery_CountX_def BlockQuery_Exist_def BlockQuery_ExistX_def
  BlockQuery_Clone_def BlockQuery_Select_def BlockQuery_Aggregate_def
  BlockQuery_prepareQuery_def BlockQuery_sqlAll_def BlockQuery_sqlCount_def
  BlockQuery_sqlQuery_def BlockSelect_Aggregate_def BlockSelect_sqlScan_def
  BlockSelect_Scan_def

subsection \<open>\<^verbatim>\<open>ent/restorehistory_query.go\<close>\<close>

definition RestoreHistoryQuery_Where :: "pred list \<Rightarrow> ent_query
    \<Rightarrow> ent_query" where
  "RestoreHistoryQuery_Where = Where"

definition RestoreHistoryQuery_Limit :: "int \<Rightarrow> ent_query \<Rightarrow> ent_query" where
  "RestoreHistoryQuery_Limit = Limit"

definition RestoreHistoryQuery_Offset :: "int \<Rightarrow> ent_query \<Rightarrow> ent_query" where
  "RestoreHistoryQuery_Offset = Offset"

definition RestoreHistoryQuery_Unique :: "bool \<Rightarrow> ent_query
    \<Rightarrow> ent_query" where
  "RestoreHistoryQuery_Unique = Unique"

definition RestoreHistoryQuery_Order :: "order_term list \<Rightarrow> ent_query
    \<Rightarrow> ent_query" where
  "RestoreHistoryQuery_Order = Order"

definition RestoreHistoryQuery_FirstX :: "'s ent_client \<Rightarrow> ent_query
    \<Rightarrow> ('s, ent_restorehistory option) io" where
  "RestoreHistoryQuery_FirstX = FirstX restorehistory_meta"

definition RestoreHistoryQuery_FirstID :: "'s ent_graph \<Rightarrow> ent_query
    \<Rightarrow> ('s, int) io" where
  "RestoreHistoryQuery_FirstID g = FirstID restorehistory_meta (SelectInts g)"

definition RestoreHistoryQuery_FirstIDX :: "'s ent_graph \<Rightarrow> ent_query
    \<Rightarrow> ('s, int option) io" where
  "RestoreHistoryQuery_FirstIDX g = FirstIDX restorehistory_meta (SelectInts g)"

definition RestoreHistoryQuery_OnlyX :: "'s ent_client \<Rightarrow> ent_query
    \<Rightarrow> ('s, ent_restorehistory) io" where
  "RestoreHistoryQuery_OnlyX = OnlyX restorehistory_meta"

definition RestoreHistoryQuery_OnlyID :: "'s ent_graph \<Rightarrow> ent_query
    \<Rightarrow> ('s, int) io" where
  "RestoreHistoryQuery_OnlyID g = OnlyID restorehistory_meta (SelectInts g)"

definition RestoreHistoryQuery_OnlyIDX :: "'s ent_graph \<Rightarrow> ent_query
    \<Rightarrow> ('s, int) io" where
  "RestoreHistoryQuery_OnlyIDX g = OnlyIDX restorehistory_meta (SelectInts g)"

definition RestoreHistoryQuery_AllX :: "'s ent_client \<Rightarrow> ent_query
    \<Rightarrow> ('s, ent_restorehistory list) io" where
  "RestoreHistoryQuery_AllX = AllX restorehistory_meta"

definition RestoreHistoryQuery_IDs :: "'s ent_graph \<Rightarrow> ent_query
    \<Rightarrow> ('s, int list) io" where
  "RestoreHistoryQuery_IDs g = IDs restorehistory_meta (SelectInts g)"

definition RestoreHistoryQuery_IDsX :: "'s ent_graph \<Rightarrow> ent_query
    \<Rightarrow> ('s, int list) io" where
  "RestoreHistoryQuery_IDsX g = IDsX restorehistory_meta (SelectInts g)"

definition RestoreHistoryQuery_Count :: "'s ent_graph \<Rightarrow> ent_query
    \<Rightarrow> ('s, int) io" where
  "RestoreHistoryQuery_Count = Count restorehistory_meta"

definition RestoreHistoryQuery_CountX :: "'s ent_graph \<Rightarrow> ent_query
    \<Rightarrow> ('s, int) io" where
  "RestoreHistoryQuery_CountX = CountX restorehistory_meta"

definition RestoreHistoryQuery_Exist :: "'s ent_graph \<Rightarrow> ent_query
    \<Rightarrow> ('s, bool) io" where
  "RestoreHistoryQuery_Exist g = Exist restorehistory_meta (SelectInts g)"

definition RestoreHistoryQuery_ExistX :: "'s ent_graph \<Rightarrow> ent_query
    \<Rightarrow> ('s, bool) io" where
  "RestoreHistoryQuery_ExistX g = ExistX restorehistory_meta (SelectInts g)"

definition RestoreHistoryQuery_Clone :: "ent_query \<Rightarrow> ent_query" where
  "RestoreHistoryQuery_Clone = Clone"

definition RestoreHistoryQuery_Select :: "string list \<Rightarrow> ent_query
    \<Rightarrow> ent_select" where
  "RestoreHistoryQuery_Select = Select"

definition RestoreHistoryQuery_Aggregate :: "aggregate list \<Rightarrow> ent_query
    \<Rightarrow> ent_select" where
  "RestoreHistoryQuery_Aggregate = Query_Aggregate"

definition RestoreHistoryQuery_prepareQuery :: "ent_query \<Rightarrow> err option" where
  "RestoreHistoryQuery_prepareQuery = prepareQuery restorehistory_meta"

definition RestoreHistoryQuery_sqlAll :: "'s ent_client \<Rightarrow> ent_query
    \<Rightarrow> ('s, ent_restorehistory list) io" where
  "RestoreHistoryQuery_sqlAll = sqlAll restorehistory_meta"

definition RestoreHistoryQuery_sqlCount :: "'s ent_graph \<Rightarrow> ent_query
    \<Rightarrow> ('s, int) io" where
  "RestoreHistoryQuery_sqlCount = sqlCount restorehistory_meta"

definition RestoreHistoryQuery_sqlQuery :: "ent_query \<Rightarrow> select_spec" where
  "RestoreHistoryQuery_sqlQuery = sqlQuery restorehistory_meta"

definition RestoreHistorySelect_Aggregate :: "aggregate list \<Rightarrow> ent_select
    \<Rightarrow> ent_select" where
  "RestoreHistorySelect_Aggregate = Select_Aggregate"

definition RestoreHistorySelect_sqlScan :: "(select_spec \<Rightarrow> 's
    \<Rightarrow> (sql_err + 'k) \<times> 's) \<Rightarrow> ent_select \<Rightarrow> ('s, 'k) io" where
  "RestoreHistorySelect_sqlScan = Select_sqlScan restorehistory_meta"

definition RestoreHistorySelect_Scan :: "(select_spec \<Rightarrow> 's
    \<Rightarrow> (sql_err + 'k) \<times> 's) \<Rightarrow> ent_select \<Rightarrow> ('s, 'k) io" where
  "RestoreHistorySelect_Scan = Select_Scan restorehistory_meta"

lemmas restorehistory_query_defs = RestoreHistoryQuery_Where_def RestoreHistoryQuery_Limit_def RestoreHistoryQuery_Offset_def
  RestoreHistoryQuery_Unique_def RestoreHistoryQuery_Order_def RestoreHistoryQuery_FirstX_def
  RestoreHistoryQuery_FirstID_def RestoreHistoryQuery_FirstIDX_def RestoreHistoryQuery_OnlyX_def
  RestoreHistoryQuery_OnlyID_def RestoreHistoryQuery_OnlyIDX_def RestoreHistoryQuery_AllX_def
  RestoreHistoryQuery_IDs_def RestoreHistoryQuery_IDsX_def RestoreHistoryQuery_Count_def
  RestoreHistoryQuery_CountX_def RestoreHistoryQuery_Exist_def RestoreHistoryQuery_ExistX_def
  RestoreHistoryQuery_Clone_def RestoreHistoryQuery_Select_def RestoreHistoryQuery_Aggregate_def
  RestoreHistoryQuery_prepareQuery_def RestoreHistoryQuery_sqlAll_def RestoreHistoryQuery_sqlCount_def
  RestoreHistoryQuery_sqlQuery_def RestoreHistorySelect_Aggregate_def RestoreHistorySelect_sqlScan_def
  RestoreHistorySelect_Scan_def

subsection \<open>\<^verbatim>\<open>ent/transaction_query.go\<close>\<close>

definition TransactionQuery_Where :: "pred list \<Rightarrow> ent_query
    \<Rightarrow> ent_query" where
  "TransactionQuery_Where = Where"

definition TransactionQuery_Limit :: "int \<Rightarrow> ent_query \<Rightarrow> ent_query" where
  "TransactionQuery_Limit = Limit"

definition TransactionQuery_Offset :: "int \<Rightarrow> ent_query \<Rightarrow> ent_query" where
  "TransactionQuery_Offset = Offset"

definition TransactionQuery_Unique :: "bool \<Rightarrow> ent_query \<Rightarrow> ent_query" where
  "TransactionQuery_Unique = Unique"

definition TransactionQuery_Order :: "order_term list \<Rightarrow> ent_query
    \<Rightarrow> ent_query" where
  "TransactionQuery_Order = Order"

definition TransactionQuery_FirstX :: "'s ent_client \<Rightarrow> ent_query
    \<Rightarrow> ('s, ent_transaction option) io" where
  "TransactionQuery_FirstX = FirstX transaction_meta"

definition TransactionQuery_FirstID :: "'s ent_graph \<Rightarrow> ent_query
    \<Rightarrow> ('s, int) io" where
  "TransactionQuery_FirstID g = FirstID transaction_meta (SelectInts g)"

definition TransactionQuery_FirstIDX :: "'s ent_graph \<Rightarrow> ent_query
    \<Rightarrow> ('s, int option) io" where
  "TransactionQuery_FirstIDX g = FirstIDX transaction_meta (SelectInts g)"

definition TransactionQuery_OnlyX :: "'s ent_client \<Rightarrow> ent_query
    \<Rightarrow> ('s, ent_transaction) io" where
  "TransactionQuery_OnlyX = OnlyX transaction_meta"

definition TransactionQuery_OnlyID :: "'s ent_graph \<Rightarrow> ent_query
    \<Rightarrow> ('s, int) io" where
  "TransactionQuery_OnlyID g = OnlyID transaction_meta (SelectInts g)"

definition TransactionQuery_OnlyIDX :: "'s ent_graph \<Rightarrow> ent_query
    \<Rightarrow> ('s, int) io" where
  "TransactionQuery_OnlyIDX g = OnlyIDX transaction_meta (SelectInts g)"

definition TransactionQuery_AllX :: "'s ent_client \<Rightarrow> ent_query
    \<Rightarrow> ('s, ent_transaction list) io" where
  "TransactionQuery_AllX = AllX transaction_meta"

definition TransactionQuery_IDs :: "'s ent_graph \<Rightarrow> ent_query
    \<Rightarrow> ('s, int list) io" where
  "TransactionQuery_IDs g = IDs transaction_meta (SelectInts g)"

definition TransactionQuery_IDsX :: "'s ent_graph \<Rightarrow> ent_query
    \<Rightarrow> ('s, int list) io" where
  "TransactionQuery_IDsX g = IDsX transaction_meta (SelectInts g)"

definition TransactionQuery_Count :: "'s ent_graph \<Rightarrow> ent_query
    \<Rightarrow> ('s, int) io" where
  "TransactionQuery_Count = Count transaction_meta"

definition TransactionQuery_CountX :: "'s ent_graph \<Rightarrow> ent_query
    \<Rightarrow> ('s, int) io" where
  "TransactionQuery_CountX = CountX transaction_meta"

definition TransactionQuery_Exist :: "'s ent_graph \<Rightarrow> ent_query
    \<Rightarrow> ('s, bool) io" where
  "TransactionQuery_Exist g = Exist transaction_meta (SelectInts g)"

definition TransactionQuery_ExistX :: "'s ent_graph \<Rightarrow> ent_query
    \<Rightarrow> ('s, bool) io" where
  "TransactionQuery_ExistX g = ExistX transaction_meta (SelectInts g)"

definition TransactionQuery_Clone :: "ent_query \<Rightarrow> ent_query" where
  "TransactionQuery_Clone = Clone"

definition TransactionQuery_Select :: "string list \<Rightarrow> ent_query
    \<Rightarrow> ent_select" where
  "TransactionQuery_Select = Select"

definition TransactionQuery_Aggregate :: "aggregate list \<Rightarrow> ent_query
    \<Rightarrow> ent_select" where
  "TransactionQuery_Aggregate = Query_Aggregate"

definition TransactionQuery_prepareQuery :: "ent_query \<Rightarrow> err option" where
  "TransactionQuery_prepareQuery = prepareQuery transaction_meta"

definition TransactionQuery_sqlAll :: "'s ent_client \<Rightarrow> ent_query
    \<Rightarrow> ('s, ent_transaction list) io" where
  "TransactionQuery_sqlAll = sqlAll transaction_meta"

definition TransactionQuery_sqlCount :: "'s ent_graph \<Rightarrow> ent_query
    \<Rightarrow> ('s, int) io" where
  "TransactionQuery_sqlCount = sqlCount transaction_meta"

definition TransactionQuery_sqlQuery :: "ent_query \<Rightarrow> select_spec" where
  "TransactionQuery_sqlQuery = sqlQuery transaction_meta"

definition TransactionSelect_Aggregate :: "aggregate list \<Rightarrow> ent_select
    \<Rightarrow> ent_select" where
  "TransactionSelect_Aggregate = Select_Aggregate"

definition TransactionSelect_sqlScan :: "(select_spec \<Rightarrow> 's
    \<Rightarrow> (sql_err + 'k) \<times> 's) \<Rightarrow> ent_select \<Rightarrow> ('s, 'k) io" where
  "TransactionSelect_sqlScan = Select_sqlScan transaction_meta"

definition TransactionSelect_Scan :: "(select_spec \<Rightarrow> 's
    \<Rightarrow> (sql_err + 'k) \<times> 's) \<Rightarrow> ent_select \<Rightarrow> ('s, 'k) io" where
  "TransactionSelect_Scan = Select_Scan transaction_meta"

lemmas transaction_query_defs = TransactionQuery_Where_def TransactionQuery_Limit_def TransactionQuery_Offset_def
  TransactionQuery_Unique_def TransactionQuery_Order_def TransactionQuery_FirstX_def
  TransactionQuery_FirstID_def TransactionQuery_FirstIDX_def TransactionQuery_OnlyX_def
  TransactionQuery_OnlyID_def TransactionQuery_OnlyIDX_def TransactionQuery_AllX_def
  TransactionQuery_IDs_def TransactionQuery_IDsX_def TransactionQuery_Count_def
  TransactionQuery_CountX_def TransactionQuery_Exist_def TransactionQuery_ExistX_def
  TransactionQuery_Clone_def TransactionQuery_Select_def TransactionQuery_Aggregate_def
  TransactionQuery_prepareQuery_def TransactionQuery_sqlAll_def TransactionQuery_sqlCount_def
  TransactionQuery_sqlQuery_def TransactionSelect_Aggregate_def TransactionSelect_sqlScan_def
  TransactionSelect_Scan_def

subsection \<open>\<^verbatim>\<open>ent/transfer_query.go\<close>\<close>

definition TransferQuery_Where :: "pred list \<Rightarrow> ent_query \<Rightarrow> ent_query" where
  "TransferQuery_Where = Where"

definition TransferQuery_Limit :: "int \<Rightarrow> ent_query \<Rightarrow> ent_query" where
  "TransferQuery_Limit = Limit"

definition TransferQuery_Offset :: "int \<Rightarrow> ent_query \<Rightarrow> ent_query" where
  "TransferQuery_Offset = Offset"

definition TransferQuery_Unique :: "bool \<Rightarrow> ent_query \<Rightarrow> ent_query" where
  "TransferQuery_Unique = Unique"

definition TransferQuery_Order :: "order_term list \<Rightarrow> ent_query
    \<Rightarrow> ent_query" where
  "TransferQuery_Order = Order"

definition TransferQuery_FirstX :: "'s ent_client \<Rightarrow> ent_query
    \<Rightarrow> ('s, ent_transfer option) io" where
  "TransferQuery_FirstX = FirstX transfer_meta"

definition TransferQuery_FirstID :: "'s ent_graph \<Rightarrow> ent_query
    \<Rightarrow> ('s, int) io" where
  "TransferQuery_FirstID g = FirstID transfer_meta (SelectInts g)"

definition TransferQuery_FirstIDX :: "'s ent_graph \<Rightarrow> ent_query
    \<Rightarrow> ('s, int option) io" where
  "TransferQuery_FirstIDX g = FirstIDX transfer_meta (SelectInts g)"

definition TransferQuery_OnlyX :: "'s ent_client \<Rightarrow> ent_query
    \<Rightarrow> ('s, ent_transfer) io" where
  "TransferQuery_OnlyX = OnlyX transfer_meta"

definition TransferQuery_OnlyID :: "'s ent_graph \<Rightarrow> ent_query
    \<Rightarrow> ('s, int) io" where
  "TransferQuery_OnlyID g = OnlyID transfer_meta (SelectInts g)"

definition TransferQuery_OnlyIDX :: "'s ent_graph \<Rightarrow> ent_query
    \<Rightarrow> ('s, int) io" where
  "TransferQuery_OnlyIDX g = OnlyIDX transfer_meta (SelectInts g)"

definition TransferQuery_AllX :: "'s ent_client \<Rightarrow> ent_query
    \<Rightarrow> ('s, ent_transfer list) io" where
  "TransferQuery_AllX = AllX transfer_meta"

definition TransferQuery_IDs :: "'s ent_graph \<Rightarrow> ent_query
    \<Rightarrow> ('s, int list) io" where
  "TransferQuery_IDs g = IDs transfer_meta (SelectInts g)"

definition TransferQuery_IDsX :: "'s ent_graph \<Rightarrow> ent_query
    \<Rightarrow> ('s, int list) io" where
  "TransferQuery_IDsX g = IDsX transfer_meta (SelectInts g)"

definition TransferQuery_Count :: "'s ent_graph \<Rightarrow> ent_query
    \<Rightarrow> ('s, int) io" where
  "TransferQuery_Count = Count transfer_meta"

definition TransferQuery_CountX :: "'s ent_graph \<Rightarrow> ent_query
    \<Rightarrow> ('s, int) io" where
  "TransferQuery_CountX = CountX transfer_meta"

definition TransferQuery_Exist :: "'s ent_graph \<Rightarrow> ent_query
    \<Rightarrow> ('s, bool) io" where
  "TransferQuery_Exist g = Exist transfer_meta (SelectInts g)"

definition TransferQuery_ExistX :: "'s ent_graph \<Rightarrow> ent_query
    \<Rightarrow> ('s, bool) io" where
  "TransferQuery_ExistX g = ExistX transfer_meta (SelectInts g)"

definition TransferQuery_Clone :: "ent_query \<Rightarrow> ent_query" where
  "TransferQuery_Clone = Clone"

definition TransferQuery_Select :: "string list \<Rightarrow> ent_query
    \<Rightarrow> ent_select" where
  "TransferQuery_Select = Select"

definition TransferQuery_Aggregate :: "aggregate list \<Rightarrow> ent_query
    \<Rightarrow> ent_select" where
  "TransferQuery_Aggregate = Query_Aggregate"

definition TransferQuery_prepareQuery :: "ent_query \<Rightarrow> err option" where
  "TransferQuery_prepareQuery = prepareQuery transfer_meta"

definition TransferQuery_sqlAll :: "'s ent_client \<Rightarrow> ent_query
    \<Rightarrow> ('s, ent_transfer list) io" where
  "TransferQuery_sqlAll = sqlAll transfer_meta"

definition TransferQuery_sqlCount :: "'s ent_graph \<Rightarrow> ent_query
    \<Rightarrow> ('s, int) io" where
  "TransferQuery_sqlCount = sqlCount transfer_meta"

definition TransferQuery_sqlQuery :: "ent_query \<Rightarrow> select_spec" where
  "TransferQuery_sqlQuery = sqlQuery transfer_meta"

definition TransferSelect_Aggregate :: "aggregate list \<Rightarrow> ent_select
    \<Rightarrow> ent_select" where
  "TransferSelect_Aggregate = Select_Aggregate"

definition TransferSelect_sqlScan :: "(select_spec \<Rightarrow> 's
    \<Rightarrow> (sql_err + 'k) \<times> 's) \<Rightarrow> ent_select \<Rightarrow> ('s, 'k) io" where
  "TransferSelect_sqlScan = Select_sqlScan transfer_meta"

definition TransferSelect_Scan :: "(select_spec \<Rightarrow> 's
    \<Rightarrow> (sql_err + 'k) \<times> 's) \<Rightarrow> ent_select \<Rightarrow> ('s, 'k) io" where
  "TransferSelect_Scan = Select_Scan transfer_meta"

lemmas transfer_query_defs = TransferQuery_Where_def TransferQuery_Limit_def TransferQuery_Offset_def
  TransferQuery_Unique_def TransferQuery_Order_def TransferQuery_FirstX_def
  TransferQuery_FirstID_def TransferQuery_FirstIDX_def TransferQuery_OnlyX_def
  TransferQuery_OnlyID_def TransferQuery_OnlyIDX_def TransferQuery_AllX_def
  TransferQuery_IDs_def TransferQuery_IDsX_def TransferQuery_Count_def
  TransferQuery_CountX_def TransferQuery_Exist_def TransferQuery_ExistX_def
  TransferQuery_Clone_def TransferQuery_Select_def TransferQuery_Aggregate_def
  TransferQuery_prepareQuery_def TransferQuery_sqlAll_def TransferQuery_sqlCount_def
  TransferQuery_sqlQuery_def TransferSelect_Aggregate_def TransferSelect_sqlScan_def
  TransferSelect_Scan_def

end
