(* ===== verification/Ent_Clients.thy ===== *)
theory Ent_Clients
  imports Ent_Update Ent_Upsert Ent_Query_Ops
begin

text \<open>
  The delete builders (\<^verbatim>\<open>ent/*_delete.go\<close>), the entity clients that make all the builders
  (\<^verbatim>\<open>ent/client.go\<close>), and the rest of the mutations (\<^verbatim>\<open>ent/mutation.go\<close>): old values, keys, and edges by name.
  A \<^verbatim>\<open>DeleteOne\<close> holds nothing but its delete builder, so it is this builder here.
\<close>

section \<open>Old values\<close>

text \<open>What a mutation of one row knows of the row's old value: nothing, the entity it was made from, or its
  key, by which the row is read at the first question and kept (\<^verbatim>\<open>sync.Once\<close>), an error included.\<close>

datatype ('k, 'n) old_value = NoOldValue | OldNode 'n | OldByID 'k "(err + 'n) option"

fun read_old :: "('k \<Rightarrow> ('s, 'n) io) \<Rightarrow> bool \<Rightarrow> ('k, 'n) old_value \<Rightarrow> 's
    \<Rightarrow> (err + 'n) \<times> ('k, 'n) old_value \<times> 's" where
  "read_old get mutated NoOldValue s = (Inl (EPanic ''nil pointer dereference''), NoOldValue, s)"
| "read_old get mutated (OldNode n) s = (Inr n, OldNode n, s)"
| "read_old get mutated (OldByID k (Some r)) s = (r, OldByID k (Some r), s)"
| "read_old get mutated (OldByID k None) s =
     (if mutated then
        (let r = Inl (EMsg ''querying old values post mutation is not allowed'') in (r, OldByID k (Some r), s))
      else (case get k s of (r, s') \<Rightarrow> (r, OldByID k (Some r), s')))"

definition old_field :: "string \<Rightarrow> ent_op \<Rightarrow> 'k option \<Rightarrow> ('k \<Rightarrow> ('s, 'n) io) \<Rightarrow> bool \<Rightarrow> ('n \<Rightarrow> 'a)
    \<Rightarrow> ('k, 'n) old_value \<Rightarrow> 's \<Rightarrow> (err + 'a) \<times> ('k, 'n) old_value \<times> 's" where
  "old_field name op k get mutated field old s =
     (if op \<noteq> OpUpdateOne then (Inl (EMsg (name @ '' is only allowed on UpdateOne operations'')), old, s)
      else if k = None \<or> old = NoOldValue then (Inl (EMsg (name @ '' requires an ID field in the mutation'')), old, s)
      else (case read_old get mutated old s of
          (Inl e, old', s') \<Rightarrow> (Inl (EWrap (''querying old value for '' @ name) e), old', s')
        | (Inr n, old', s') \<Rightarrow> (Inr (field n), old', s')))"

definition old_as :: "('a \<Rightarrow> ent_value) \<Rightarrow> (err + 'a) \<times> 'o \<times> 's \<Rightarrow> (err + ent_value) \<times> 'o \<times> 's" where
  "old_as mk r = (case r of (Inl e, old, s) \<Rightarrow> (Inl e, old, s) | (Inr x, old, s) \<Rightarrow> (Inr (mk x), old, s))"


section \<open>\<^verbatim>\<open>ent/account_delete.go\<close>\<close>

record account_delete =
  adb_mutation :: account_mutation

definition AccountDelete_Where :: "pred list \<Rightarrow> account_delete
    \<Rightarrow> account_delete" where
  "AccountDelete_Where ps d = d\<lparr>adb_mutation := AccountMutation_Where ps (adb_mutation d)\<rparr>"

definition AccountDelete_sqlExec :: "'s ent_graph \<Rightarrow> account_delete
    \<Rightarrow> ('s, int) io" where
  "AccountDelete_sqlExec g d s = 
     (case DeleteNodes g \<lparr>ds_Table = account_Table, ds_IDSpec = (account_FieldID, TypeString),
          ds_Predicate = am_predicates (adb_mutation d)\<rparr> s of
        (Inl e, s') \<Rightarrow> (Inl (wrap_create_err e), s')
      | (Inr n, s') \<Rightarrow> (Inr n, s'))"

definition AccountDelete_Exec :: "'s ent_graph \<Rightarrow> account_delete
    \<Rightarrow> ('s, int) io" where
  "AccountDelete_Exec = AccountDelete_sqlExec"

definition AccountDelete_ExecX :: "'s ent_graph \<Rightarrow> account_delete
    \<Rightarrow> ('s, int) io" where
  "AccountDelete_ExecX g d = must (AccountDelete_Exec g d)"

definition AccountDeleteOne_Where :: "pred list \<Rightarrow> account_delete
    \<Rightarrow> account_delete" where
  "AccountDeleteOne_Where ps d = d\<lparr>adb_mutation := AccountMutation_Where ps (adb_mutation d)\<rparr>"

definition AccountDeleteOne_Exec :: "'s ent_graph \<Rightarrow> account_delete
    \<Rightarrow> ('s, unit) io" where
  "AccountDeleteOne_Exec g d s = 
     (case AccountDelete_Exec g d s of
        (Inl e, s') \<Rightarrow> (Inl e, s')
      | (Inr n, s') \<Rightarrow> if n = 0 then (Inl (ENotFound account_Label), s') else (Inr (), s'))"

definition AccountDeleteOne_ExecX :: "'s ent_graph \<Rightarrow> account_delete
    \<Rightarrow> ('s, unit) io" where
  "AccountDeleteOne_ExecX g d = must (AccountDeleteOne_Exec g d)"

section \<open>The \<^verbatim>\<open>AccountClient\<close> of \<^verbatim>\<open>ent/client.go\<close>\<close>

definition withAccountID :: "string \<Rightarrow> account_mutation
    \<Rightarrow> account_mutation \<times> (string, ent_account) old_value" where
  "withAccountID k m = (m\<lparr>am_id := Some k\<rparr>, OldByID k None)"

definition withAccount :: "ent_account \<Rightarrow> account_mutation
    \<Rightarrow> account_mutation \<times> (string, ent_account) old_value" where
  "withAccount n m = (m\<lparr>am_id := Some (ea_ID n)\<rparr>, OldNode n)"

definition AccountClient_MapCreateBulk :: "nat option \<Rightarrow> (account_create
    \<Rightarrow> nat \<Rightarrow> account_create) \<Rightarrow> account_create_bulk" where
  "AccountClient_MapCreateBulk len setFunc = 
     (case len of
        None \<Rightarrow> \<lparr>abk_err = Some (EMsg ''calling to AccountClient.MapCreateBulk with wrong type, need slice''),
          abk_builders = [], abk_conflict = []\<rparr>
      | Some n \<Rightarrow> \<lparr>abk_err = None, abk_builders = map (setFunc AccountClient_Create) [0..<n],
          abk_conflict = []\<rparr>)"

definition AccountClient_UpdateOne :: "ent_account
    \<Rightarrow> account_update_one \<times> (string, ent_account) old_value" where
  "AccountClient_UpdateOne n = 
     (case withAccount n (newAccountMutation OpUpdateOne) of (m, old) \<Rightarrow> (\<lparr>auo_fields = [], auo_mutation = m\<rparr>, old))"

definition AccountClient_UpdateOneID :: "string
    \<Rightarrow> account_update_one \<times> (string, ent_account) old_value" where
  "AccountClient_UpdateOneID k = 
     (case withAccountID k (newAccountMutation OpUpdateOne) of (m, old) \<Rightarrow> (\<lparr>auo_fields = [], auo_mutation = m\<rparr>, old))"

definition AccountClient_Delete :: account_delete where
  "AccountClient_Delete = \<lparr>adb_mutation = newAccountMutation OpDelete\<rparr>"

definition AccountClient_DeleteOneID :: "string \<Rightarrow> account_delete" where
  "AccountClient_DeleteOneID k = 
     (let d = AccountDelete_Where [account_ID k] AccountClient_Delete in
      d\<lparr>adb_mutation := (adb_mutation d)\<lparr>am_id := Some k, am_op := OpDeleteOne\<rparr>\<rparr>)"

definition AccountClient_DeleteOne :: "ent_account \<Rightarrow> account_delete" where
  "AccountClient_DeleteOne n = AccountClient_DeleteOneID (ea_ID n)"

definition AccountClient_Query :: ent_query where
  "AccountClient_Query = Query"

definition AccountClient_Get :: "'s ent_client \<Rightarrow> string
    \<Rightarrow> ('s, ent_account) io" where
  "AccountClient_Get cl k = AccountQuery_Only cl (Where [account_ID k] AccountClient_Query)"

definition AccountClient_GetX :: "'s ent_client \<Rightarrow> string
    \<Rightarrow> ('s, ent_account) io" where
  "AccountClient_GetX cl k = must (AccountClient_Get cl k)"

definition AccountClient_mutate :: "'s ent_graph \<Rightarrow> account_mutation
    \<Rightarrow> ('s, ent_account + int) io" where
  "AccountClient_mutate g m s = 
     (case am_op m of
        OpCreate \<Rightarrow> (case AccountCreate_Save (eg_client g) \<lparr>acb_mutation = m, acb_conflict = []\<rparr> s of (Inl e, s') \<Rightarrow> (Inl e, s') | (Inr r, s') \<Rightarrow> (Inr (Inl r), s'))
      | OpUpdate \<Rightarrow> (case AccountUpdate_Save (eg_client g) \<lparr>aub_mutation = m\<rparr> s of (Inl e, s') \<Rightarrow> (Inl e, s') | (Inr r, s') \<Rightarrow> (Inr (Inr r), s'))
      | OpUpdateOne \<Rightarrow> (case AccountUpdateOne_Save g \<lparr>auo_fields = [], auo_mutation = m\<rparr> s of (Inl e, s') \<Rightarrow> (Inl e, s') | (Inr r, s') \<Rightarrow> (Inr (Inl r), s'))
      | _ \<Rightarrow> (case AccountDelete_Exec g \<lparr>adb_mutation = m\<rparr> s of (Inl e, s') \<Rightarrow> (Inl e, s') | (Inr r, s') \<Rightarrow> (Inr (Inr r), s')))"

section \<open>The rest of \<^verbatim>\<open>AccountMutation\<close> (\<^verbatim>\<open>ent/mutation.go\<close>)\<close>

definition AccountMutation_Op :: "account_mutation \<Rightarrow> ent_op" where
  "AccountMutation_Op m = am_op m"

definition AccountMutation_SetOp :: "ent_op \<Rightarrow> account_mutation
    \<Rightarrow> account_mutation" where
  "AccountMutation_SetOp op m = m\<lparr>am_op := op\<rparr>"

definition AccountMutation_Type :: "account_mutation \<Rightarrow> string" where
  "AccountMutation_Type m = ''Account''"

definition AccountMutation_WhereP :: "pred list \<Rightarrow> account_mutation
    \<Rightarrow> account_mutation" where
  "AccountMutation_WhereP ps m = AccountMutation_Where ps m"

definition AccountMutation_IDs :: "'s ent_graph \<Rightarrow> account_mutation
    \<Rightarrow> ('s, string list) io" where
  "AccountMutation_IDs g m s = 
     (let query = AccountQuery_IDs g (Where (am_predicates m) AccountClient_Query) in
      case am_op m of
        OpUpdateOne \<Rightarrow> (case AccountMutation_ID m of Some k \<Rightarrow> (Inr [k], s) | None \<Rightarrow> query s)
      | OpDeleteOne \<Rightarrow> (case AccountMutation_ID m of Some k \<Rightarrow> (Inr [k], s) | None \<Rightarrow> query s)
      | OpUpdate \<Rightarrow> query s
      | OpDelete \<Rightarrow> query s
      | OpCreate \<Rightarrow> (Inl (EMsg ''IDs is not allowed on OpCreate operations''), s))"

definition AccountMutation_OldToken :: "'s ent_client \<Rightarrow> account_mutation
    \<Rightarrow> (string, ent_account) old_value \<Rightarrow> 's \<Rightarrow> (err + string) \<times> (string, ent_account) old_value \<times> 's" where
  "AccountMutation_OldToken cl m = 
     old_field ''OldToken'' (am_op m) (am_id m) (AccountClient_Get cl) (am_done m) ea_Token"

definition AccountMutation_OldAmount :: "'s ent_client \<Rightarrow> account_mutation
    \<Rightarrow> (string, ent_account) old_value \<Rightarrow> 's \<Rightarrow> (err + float64) \<times> (string, ent_account) old_value \<times> 's" where
  "AccountMutation_OldAmount cl m = 
     old_field ''OldAmount'' (am_op m) (am_id m) (AccountClient_Get cl) (am_done m) ea_Amount"

definition AccountMutation_OldField :: "'s ent_client \<Rightarrow> account_mutation
    \<Rightarrow> string \<Rightarrow> (string, ent_account) old_value \<Rightarrow> 's
    \<Rightarrow> (err + ent_value) \<times> (string, ent_account) old_value \<times> 's" where
  "AccountMutation_OldField cl m name old s = 
     (if name = account_FieldToken then old_as VString (AccountMutation_OldToken cl m old s)
      else if name = account_FieldAmount then old_as VFloat (AccountMutation_OldAmount cl m old s)
      else (Inl (EMsg ''unknown Account field''), old, s))"

definition AccountMutation_AddedEdges :: "account_mutation \<Rightarrow> string list" where
  "AccountMutation_AddedEdges m = 
     (if am_transfers_to m \<noteq> None then [account_EdgeTransfersTo] else []) @
     (if am_transfers_from m \<noteq> None then [account_EdgeTransfersFrom] else [])"

definition AccountMutation_AddedIDs :: "account_mutation \<Rightarrow> string
    \<Rightarrow> int list" where
  "AccountMutation_AddedIDs m name = 
     (if name = account_EdgeTransfersTo then ids_of (am_transfers_to m)
      else if name = account_EdgeTransfersFrom then ids_of (am_transfers_from m)
      else [])"

definition AccountMutation_RemovedEdges :: "account_mutation \<Rightarrow> string list" where
  "AccountMutation_RemovedEdges m = 
     (if am_removedtransfers_to m \<noteq> None then [account_EdgeTransfersTo] else []) @
     (if am_removedtransfers_from m \<noteq> None then [account_EdgeTransfersFrom] else [])"

definition AccountMutation_RemovedIDs :: "account_mutation \<Rightarrow> string
    \<Rightarrow> int list" where
  "AccountMutation_RemovedIDs m name = 
     (if name = account_EdgeTransfersTo then ids_of (am_removedtransfers_to m)
      else if name = account_EdgeTransfersFrom then ids_of (am_removedtransfers_from m)
      else [])"

definition AccountMutation_ClearedEdges :: "account_mutation \<Rightarrow> string list" where
  "AccountMutation_ClearedEdges m = 
     (if am_clearedtransfers_to m then [account_EdgeTransfersTo] else []) @
     (if am_clearedtransfers_from m then [account_EdgeTransfersFrom] else [])"

definition AccountMutation_EdgeCleared :: "account_mutation \<Rightarrow> string
    \<Rightarrow> bool" where
  "AccountMutation_EdgeCleared m name = 
     (if name = account_EdgeTransfersTo then am_clearedtransfers_to m
      else if name = account_EdgeTransfersFrom then am_clearedtransfers_from m
      else False)"

definition AccountMutation_ClearEdge :: "account_mutation \<Rightarrow> string
    \<Rightarrow> err + account_mutation" where
  "AccountMutation_ClearEdge m name = Inl (EMsg ''unknown Account unique edge'')"

definition AccountMutation_ResetEdge :: "account_mutation \<Rightarrow> string
    \<Rightarrow> err + account_mutation" where
  "AccountMutation_ResetEdge m name = 
     (if name = account_EdgeTransfersTo then Inr (AccountMutation_ResetTransfersTo m)
      else if name = account_EdgeTransfersFrom then Inr (AccountMutation_ResetTransfersFrom m)
      else Inl (EMsg ''unknown Account edge''))"

lemmas account_client_defs = AccountDelete_Where_def AccountDelete_sqlExec_def AccountDelete_Exec_def
  AccountDelete_ExecX_def AccountDeleteOne_Where_def AccountDeleteOne_Exec_def
  AccountDeleteOne_ExecX_def withAccountID_def withAccount_def
  AccountClient_MapCreateBulk_def AccountClient_UpdateOne_def AccountClient_UpdateOneID_def
  AccountClient_Delete_def AccountClient_DeleteOneID_def AccountClient_DeleteOne_def
  AccountClient_Query_def AccountClient_Get_def AccountClient_GetX_def
  AccountClient_mutate_def AccountMutation_Op_def AccountMutation_SetOp_def
  AccountMutation_Type_def AccountMutation_WhereP_def AccountMutation_IDs_def
  AccountMutation_OldToken_def AccountMutation_OldAmount_def AccountMutation_OldField_def
  AccountMutation_AddedEdges_def AccountMutation_AddedIDs_def AccountMutation_RemovedEdges_def
  AccountMutation_RemovedIDs_def AccountMutation_ClearedEdges_def AccountMutation_EdgeCleared_def
  AccountMutation_ClearEdge_def AccountMutation_ResetEdge_def

section \<open>\<^verbatim>\<open>ent/block_delete.go\<close>\<close>

record block_delete =
  bdb_mutation :: block_mutation

definition BlockDelete_Where :: "pred list \<Rightarrow> block_delete
    \<Rightarrow> block_delete" where
  "BlockDelete_Where ps d = d\<lparr>bdb_mutation := BlockMutation_Where ps (bdb_mutation d)\<rparr>"

definition BlockDelete_sqlExec :: "'s ent_graph \<Rightarrow> block_delete
    \<Rightarrow> ('s, int) io" where
  "BlockDelete_sqlExec g d s = 
     (case DeleteNodes g \<lparr>ds_Table = block_Table, ds_IDSpec = (block_FieldID, TypeInt),
          ds_Predicate = bm_predicates (bdb_mutation d)\<rparr> s of
        (Inl e, s') \<Rightarrow> (Inl (wrap_create_err e), s')
      | (Inr n, s') \<Rightarrow> (Inr n, s'))"

definition BlockDelete_Exec :: "'s ent_graph \<Rightarrow> block_delete
    \<Rightarrow> ('s, int) io" where
  "BlockDelete_Exec = BlockDelete_sqlExec"

definition BlockDelete_ExecX :: "'s ent_graph \<Rightarrow> block_delete
    \<Rightarrow> ('s, int) io" where
  "BlockDelete_ExecX g d = must (BlockDelete_Exec g d)"

definition BlockDeleteOne_Where :: "pred list \<Rightarrow> block_delete
    \<Rightarrow> block_delete" where
  "BlockDeleteOne_Where ps d = d\<lparr>bdb_mutation := BlockMutation_Where ps (bdb_mutation d)\<rparr>"

definition BlockDeleteOne_Exec :: "'s ent_graph \<Rightarrow> block_delete
    \<Rightarrow> ('s, unit) io" where
  "BlockDeleteOne_Exec g d s = 
     (case BlockDelete_Exec g d s of
        (Inl e, s') \<Rightarrow> (Inl e, s')
      | (Inr n, s') \<Rightarrow> if n = 0 then (Inl (ENotFound block_Label), s') else (Inr (), s'))"

definition BlockDeleteOne_ExecX :: "'s ent_graph \<Rightarrow> block_delete
    \<Rightarrow> ('s, unit) io" where
  "BlockDeleteOne_ExecX g d = must (BlockDeleteOne_Exec g d)"

section \<open>The \<^verbatim>\<open>BlockClient\<close> of \<^verbatim>\<open>ent/client.go\<close>\<close>

definition withBlockID :: "int \<Rightarrow> block_mutation
    \<Rightarrow> block_mutation \<times> (int, ent_block) old_value" where
  "withBlockID k m = (m\<lparr>bm_id := Some k\<rparr>, OldByID k None)"

definition withBlock :: "ent_block \<Rightarrow> block_mutation
    \<Rightarrow> block_mutation \<times> (int, ent_block) old_value" where
  "withBlock n m = (m\<lparr>bm_id := Some (eb_ID n)\<rparr>, OldNode n)"

definition BlockClient_MapCreateBulk :: "nat option \<Rightarrow> (block_create \<Rightarrow> nat
    \<Rightarrow> block_create) \<Rightarrow> block_create_bulk" where
  "BlockClient_MapCreateBulk len setFunc = 
     (case len of
        None \<Rightarrow> \<lparr>bbk_err = Some (EMsg ''calling to BlockClient.MapCreateBulk with wrong type, need slice''),
          bbk_builders = [], bbk_conflict = []\<rparr>
      | Some n \<Rightarrow> \<lparr>bbk_err = None, bbk_builders = map (setFunc BlockClient_Create) [0..<n],
          bbk_conflict = []\<rparr>)"

definition BlockClient_Update :: block_update where
  "BlockClient_Update = \<lparr>bub_mutation = newBlockMutation OpUpdate\<rparr>"

definition BlockClient_UpdateOne :: "ent_block
    \<Rightarrow> block_update_one \<times> (int, ent_block) old_value" where
  "BlockClient_UpdateOne n = 
     (case withBlock n (newBlockMutation OpUpdateOne) of (m, old) \<Rightarrow> (\<lparr>buo_fields = [], buo_mutation = m\<rparr>, old))"

definition BlockClient_UpdateOneID :: "int
    \<Rightarrow> block_update_one \<times> (int, ent_block) old_value" where
  "BlockClient_UpdateOneID k = 
     (case withBlockID k (newBlockMutation OpUpdateOne) of (m, old) \<Rightarrow> (\<lparr>buo_fields = [], buo_mutation = m\<rparr>, old))"

definition BlockClient_Delete :: block_delete where
  "BlockClient_Delete = \<lparr>bdb_mutation = newBlockMutation OpDelete\<rparr>"

definition BlockClient_DeleteOneID :: "int \<Rightarrow> block_delete" where
  "BlockClient_DeleteOneID k = 
     (let d = BlockDelete_Where [block_ID k] BlockClient_Delete in
      d\<lparr>bdb_mutation := (bdb_mutation d)\<lparr>bm_id := Some k, bm_op := OpDeleteOne\<rparr>\<rparr>)"

definition BlockClient_DeleteOne :: "ent_block \<Rightarrow> block_delete" where
  "BlockClient_DeleteOne n = BlockClient_DeleteOneID (eb_ID n)"

definition BlockClient_Query :: ent_query where
  "BlockClient_Query = Query"

definition BlockClient_Get :: "'s ent_client \<Rightarrow> int
    \<Rightarrow> ('s, ent_block) io" where
  "BlockClient_Get cl k = BlockQuery_Only cl (Where [block_ID k] BlockClient_Query)"

definition BlockClient_GetX :: "'s ent_client \<Rightarrow> int
    \<Rightarrow> ('s, ent_block) io" where
  "BlockClient_GetX cl k = must (BlockClient_Get cl k)"

definition BlockClient_mutate :: "'s ent_graph \<Rightarrow> block_mutation
    \<Rightarrow> ('s, ent_block + int) io" where
  "BlockClient_mutate g m s = 
     (case bm_op m of
        OpCreate \<Rightarrow> (case BlockCreate_Save (eg_client g) \<lparr>bcb_mutation = m, bcb_conflict = []\<rparr> s of (Inl e, s') \<Rightarrow> (Inl e, s') | (Inr r, s') \<Rightarrow> (Inr (Inl r), s'))
      | OpUpdate \<Rightarrow> (case BlockUpdate_Save (eg_client g) \<lparr>bub_mutation = m\<rparr> s of (Inl e, s') \<Rightarrow> (Inl e, s') | (Inr r, s') \<Rightarrow> (Inr (Inr r), s'))
      | OpUpdateOne \<Rightarrow> (case BlockUpdateOne_Save g \<lparr>buo_fields = [], buo_mutation = m\<rparr> s of (Inl e, s') \<Rightarrow> (Inl e, s') | (Inr r, s') \<Rightarrow> (Inr (Inl r), s'))
      | _ \<Rightarrow> (case BlockDelete_Exec g \<lparr>bdb_mutation = m\<rparr> s of (Inl e, s') \<Rightarrow> (Inl e, s') | (Inr r, s') \<Rightarrow> (Inr (Inr r), s')))"

section \<open>The rest of \<^verbatim>\<open>BlockMutation\<close> (\<^verbatim>\<open>ent/mutation.go\<close>)\<close>

definition BlockMutation_Op :: "block_mutation \<Rightarrow> ent_op" where
  "BlockMutation_Op m = bm_op m"

definition BlockMutation_SetOp :: "ent_op \<Rightarrow> block_mutation
    \<Rightarrow> block_mutation" where
  "BlockMutation_SetOp op m = m\<lparr>bm_op := op\<rparr>"

definition BlockMutation_Type :: "block_mutation \<Rightarrow> string" where
  "BlockMutation_Type m = ''Block''"

definition BlockMutation_WhereP :: "pred list \<Rightarrow> block_mutation
    \<Rightarrow> block_mutation" where
  "BlockMutation_WhereP ps m = BlockMutation_Where ps m"

definition BlockMutation_IDs :: "'s ent_graph \<Rightarrow> block_mutation
    \<Rightarrow> ('s, int list) io" where
  "BlockMutation_IDs g m s = 
     (let query = BlockQuery_IDs g (Where (bm_predicates m) BlockClient_Query) in
      case bm_op m of
        OpUpdateOne \<Rightarrow> (case BlockMutation_ID m of Some k \<Rightarrow> (Inr [k], s) | None \<Rightarrow> query s)
      | OpDeleteOne \<Rightarrow> (case BlockMutation_ID m of Some k \<Rightarrow> (Inr [k], s) | None \<Rightarrow> query s)
      | OpUpdate \<Rightarrow> query s
      | OpDelete \<Rightarrow> query s
      | OpCreate \<Rightarrow> (Inl (EMsg ''IDs is not allowed on OpCreate operations''), s))"

definition BlockMutation_OldHash :: "'s ent_client \<Rightarrow> block_mutation
    \<Rightarrow> (int, ent_block) old_value \<Rightarrow> 's \<Rightarrow> (err + string) \<times> (int, ent_block) old_value \<times> 's" where
  "BlockMutation_OldHash cl m = 
     old_field ''OldHash'' (bm_op m) (bm_id m) (BlockClient_Get cl) (bm_done m) eb_Hash"

definition BlockMutation_OldTime :: "'s ent_client \<Rightarrow> block_mutation
    \<Rightarrow> (int, ent_block) old_value \<Rightarrow> 's \<Rightarrow> (err + go_time) \<times> (int, ent_block) old_value \<times> 's" where
  "BlockMutation_OldTime cl m = 
     old_field ''OldTime'' (bm_op m) (bm_id m) (BlockClient_Get cl) (bm_done m) eb_Time"

definition BlockMutation_OldTotalTxs :: "'s ent_client \<Rightarrow> block_mutation
    \<Rightarrow> (int, ent_block) old_value \<Rightarrow> 's \<Rightarrow> (err + int) \<times> (int, ent_block) old_value \<times> 's" where
  "BlockMutation_OldTotalTxs cl m = 
     old_field ''OldTotalTxs'' (bm_op m) (bm_id m) (BlockClient_Get cl) (bm_done m) eb_TotalTxs"

definition BlockMutation_OldNumTxs :: "'s ent_client \<Rightarrow> block_mutation
    \<Rightarrow> (int, ent_block) old_value \<Rightarrow> 's \<Rightarrow> (err + int) \<times> (int, ent_block) old_value \<times> 's" where
  "BlockMutation_OldNumTxs cl m = 
     old_field ''OldNumTxs'' (bm_op m) (bm_id m) (BlockClient_Get cl) (bm_done m) eb_NumTxs"

definition BlockMutation_OldCreatedAt :: "'s ent_client \<Rightarrow> block_mutation
    \<Rightarrow> (int, ent_block) old_value \<Rightarrow> 's \<Rightarrow> (err + go_time) \<times> (int, ent_block) old_value \<times> 's" where
  "BlockMutation_OldCreatedAt cl m = 
     old_field ''OldCreatedAt'' (bm_op m) (bm_id m) (BlockClient_Get cl) (bm_done m) eb_CreatedAt"

definition BlockMutation_OldField :: "'s ent_client \<Rightarrow> block_mutation
    \<Rightarrow> string \<Rightarrow> (int, ent_block) old_value \<Rightarrow> 's
    \<Rightarrow> (err + ent_value) \<times> (int, ent_block) old_value \<times> 's" where
  "BlockMutation_OldField cl m name old s = 
     (if name = block_FieldHash then old_as VString (BlockMutation_OldHash cl m old s)
      else if name = block_FieldTime then old_as VTime (BlockMutation_OldTime cl m old s)
      else if name = block_FieldTotalTxs then old_as VInt (BlockMutation_OldTotalTxs cl m old s)
      else if name = block_FieldNumTxs then old_as VInt (BlockMutation_OldNumTxs cl m old s)
      else if name = block_FieldCreatedAt then old_as VTime (BlockMutation_OldCreatedAt cl m old s)
      else (Inl (EMsg ''unknown Block field''), old, s))"

definition BlockMutation_AddedEdges :: "block_mutation \<Rightarrow> string list" where
  "BlockMutation_AddedEdges m = 
     (if bm_transactions m \<noteq> None then [block_EdgeTransactions] else [])"

definition BlockMutation_AddedIDs :: "block_mutation \<Rightarrow> string
    \<Rightarrow> int list" where
  "BlockMutation_AddedIDs m name = 
     (if name = block_EdgeTransactions then ids_of (bm_transactions m)
      else [])"

definition BlockMutation_RemovedEdges :: "block_mutation \<Rightarrow> string list" where
  "BlockMutation_RemovedEdges m = 
     (if bm_removedtransactions m \<noteq> None then [block_EdgeTransactions] else [])"

definition BlockMutation_RemovedIDs :: "block_mutation \<Rightarrow> string
    \<Rightarrow> int list" where
  "BlockMutation_RemovedIDs m name = 
     (if name = block_EdgeTransactions then ids_of (bm_removedtransactions m)
      else [])"

definition BlockMutation_ClearedEdges :: "block_mutation \<Rightarrow> string list" where
  "BlockMutation_ClearedEdges m = 
     (if bm_clearedtransactions m then [block_EdgeTransactions] else [])"

definition BlockMutation_EdgeCleared :: "block_mutation \<Rightarrow> string
    \<Rightarrow> bool" where
  "BlockMutation_EdgeCleared m name = 
     (if name = block_EdgeTransactions then bm_clearedtransactions m
      else False)"

definition BlockMutation_ClearEdge :: "block_mutation \<Rightarrow> string
    \<Rightarrow> err + block_mutation" where
  "BlockMutation_ClearEdge m name = Inl (EMsg ''unknown Block unique edge'')"

definition BlockMutation_ResetEdge :: "block_mutation \<Rightarrow> string
    \<Rightarrow> err + block_mutation" where
  "BlockMutation_ResetEdge m name = 
     (if name = block_EdgeTransactions then Inr (BlockMutation_ResetTransactions m)
      else Inl (EMsg ''unknown Block edge''))"

lemmas block_client_defs = BlockDelete_Where_def BlockDelete_sqlExec_def BlockDelete_Exec_def
  BlockDelete_ExecX_def BlockDeleteOne_Where_def BlockDeleteOne_Exec_def
  BlockDeleteOne_ExecX_def withBlockID_def withBlock_def
  BlockClient_MapCreateBulk_def BlockClient_Update_def BlockClient_UpdateOne_def
  BlockClient_UpdateOneID_def BlockClient_Delete_def BlockClient_DeleteOneID_def
  BlockClient_DeleteOne_def BlockClient_Query_def BlockClient_Get_def
  BlockClient_GetX_def BlockClient_mutate_def BlockMutation_Op_def
  BlockMutation_SetOp_def BlockMutation_Type_def BlockMutation_WhereP_def
  BlockMutation_IDs_def BlockMutation_OldHash_def BlockMutation_OldTime_def
  BlockMutation_OldTotalTxs_def BlockMutation_OldNumTxs_def BlockMutation_OldCreatedAt_def
  BlockMutation_OldField_def BlockMutation_AddedEdges_def BlockMutation_AddedIDs_def
  BlockMutation_RemovedEdges_def BlockMutation_RemovedIDs_def BlockMutation_ClearedEdges_def
  BlockMutation_EdgeCleared_def BlockMutation_ClearEdge_def BlockMutation_ResetEdge_def

section \<open>\<^verbatim>\<open>ent/restorehistory_delete.go\<close>\<close>

record restorehistory_delete =
  hdb_mutation :: restorehistory_mutation

definition RestoreHistoryDelete_Where :: "pred list \<Rightarrow> restorehistory_delete
    \<Rightarrow> restorehistory_delete" where
  "RestoreHistoryDelete_Where ps d = d\<lparr>hdb_mutation := RestoreHistoryMutation_Where ps (hdb_mutation d)\<rparr>"

definition RestoreHistoryDelete_sqlExec :: "'s ent_graph \<Rightarrow> restorehistory_delete
    \<Rightarrow> ('s, int) io" where
  "RestoreHistoryDelete_sqlExec g d s = 
     (case DeleteNodes g \<lparr>ds_Table = restorehistory_Table, ds_IDSpec = (restorehistory_FieldID, TypeInt),
          ds_Predicate = hm_predicates (hdb_mutation d)\<rparr> s of
        (Inl e, s') \<Rightarrow> (Inl (wrap_create_err e), s')
      | (Inr n, s') \<Rightarrow> (Inr n, s'))"

definition RestoreHistoryDelete_Exec :: "'s ent_graph \<Rightarrow> restorehistory_delete
    \<Rightarrow> ('s, int) io" where
  "RestoreHistoryDelete_Exec = RestoreHistoryDelete_sqlExec"

definition RestoreHistoryDelete_ExecX :: "'s ent_graph \<Rightarrow> restorehistory_delete
    \<Rightarrow> ('s, int) io" where
  "RestoreHistoryDelete_ExecX g d = must (RestoreHistoryDelete_Exec g d)"

definition RestoreHistoryDeleteOne_Where :: "pred list \<Rightarrow> restorehistory_delete
    \<Rightarrow> restorehistory_delete" where
  "RestoreHistoryDeleteOne_Where ps d = d\<lparr>hdb_mutation := RestoreHistoryMutation_Where ps (hdb_mutation d)\<rparr>"

definition RestoreHistoryDeleteOne_Exec :: "'s ent_graph \<Rightarrow> restorehistory_delete
    \<Rightarrow> ('s, unit) io" where
  "RestoreHistoryDeleteOne_Exec g d s = 
     (case RestoreHistoryDelete_Exec g d s of
        (Inl e, s') \<Rightarrow> (Inl e, s')
      | (Inr n, s') \<Rightarrow> if n = 0 then (Inl (ENotFound restorehistory_Label), s') else (Inr (), s'))"

definition RestoreHistoryDeleteOne_ExecX :: "'s ent_graph \<Rightarrow> restorehistory_delete
    \<Rightarrow> ('s, unit) io" where
  "RestoreHistoryDeleteOne_ExecX g d = must (RestoreHistoryDeleteOne_Exec g d)"

section \<open>The \<^verbatim>\<open>RestoreHistoryClient\<close> of \<^verbatim>\<open>ent/client.go\<close>\<close>

definition withRestoreHistoryID :: "int \<Rightarrow> restorehistory_mutation
    \<Rightarrow> restorehistory_mutation \<times> (int, ent_restorehistory) old_value" where
  "withRestoreHistoryID k m = (m\<lparr>hm_id := Some k\<rparr>, OldByID k None)"

definition withRestoreHistory :: "ent_restorehistory \<Rightarrow> restorehistory_mutation
    \<Rightarrow> restorehistory_mutation \<times> (int, ent_restorehistory) old_value" where
  "withRestoreHistory n m = (m\<lparr>hm_id := Some (eh_ID n)\<rparr>, OldNode n)"

definition RestoreHistoryClient_MapCreateBulk :: "nat option \<Rightarrow> (restorehistory_create
    \<Rightarrow> nat \<Rightarrow> restorehistory_create) \<Rightarrow> restorehistory_create_bulk" where
  "RestoreHistoryClient_MapCreateBulk len setFunc = 
     (case len of
        None \<Rightarrow> \<lparr>hbk_err = Some (EMsg ''calling to RestoreHistoryClient.MapCreateBulk with wrong type, need slice''),
          hbk_builders = [], hbk_conflict = []\<rparr>
      | Some n \<Rightarrow> \<lparr>hbk_err = None, hbk_builders = map (setFunc RestoreHistoryClient_Create) [0..<n],
          hbk_conflict = []\<rparr>)"

definition RestoreHistoryClient_Update :: restorehistory_update where
  "RestoreHistoryClient_Update = \<lparr>hub_mutation = newRestoreHistoryMutation OpUpdate\<rparr>"

definition RestoreHistoryClient_UpdateOne :: "ent_restorehistory
    \<Rightarrow> restorehistory_update_one \<times> (int, ent_restorehistory) old_value" where
  "RestoreHistoryClient_UpdateOne n = 
     (case withRestoreHistory n (newRestoreHistoryMutation OpUpdateOne) of (m, old) \<Rightarrow> (\<lparr>huo_fields = [], huo_mutation = m\<rparr>, old))"

definition RestoreHistoryClient_UpdateOneID :: "int
    \<Rightarrow> restorehistory_update_one \<times> (int, ent_restorehistory) old_value" where
  "RestoreHistoryClient_UpdateOneID k = 
     (case withRestoreHistoryID k (newRestoreHistoryMutation OpUpdateOne) of (m, old) \<Rightarrow> (\<lparr>huo_fields = [], huo_mutation = m\<rparr>, old))"

definition RestoreHistoryClient_Delete :: restorehistory_delete where
  "RestoreHistoryClient_Delete = \<lparr>hdb_mutation = newRestoreHistoryMutation OpDelete\<rparr>"

definition RestoreHistoryClient_DeleteOneID :: "int \<Rightarrow> restorehistory_delete" where
  "RestoreHistoryClient_DeleteOneID k = 
     (let d = RestoreHistoryDelete_Where [restorehistory_ID k] RestoreHistoryClient_Delete in
      d\<lparr>hdb_mutation := (hdb_mutation d)\<lparr>hm_id := Some k, hm_op := OpDeleteOne\<rparr>\<rparr>)"

definition RestoreHistoryClient_DeleteOne :: "ent_restorehistory
    \<Rightarrow> restorehistory_delete" where
  "RestoreHistoryClient_DeleteOne n = RestoreHistoryClient_DeleteOneID (eh_ID n)"

definition RestoreHistoryClient_Query :: ent_query where
  "RestoreHistoryClient_Query = Query"

definition RestoreHistoryClient_Get :: "'s ent_client \<Rightarrow> int
    \<Rightarrow> ('s, ent_restorehistory) io" where
  "RestoreHistoryClient_Get cl k = RestoreHistoryQuery_Only cl (Where [restorehistory_ID k] RestoreHistoryClient_Query)"

definition RestoreHistoryClient_GetX :: "'s ent_client \<Rightarrow> int
    \<Rightarrow> ('s, ent_restorehistory) io" where
  "RestoreHistoryClient_GetX cl k = must (RestoreHistoryClient_Get cl k)"

definition RestoreHistoryClient_mutate :: "'s ent_graph \<Rightarrow> restorehistory_mutation
    \<Rightarrow> ('s, ent_restorehistory + int) io" where
  "RestoreHistoryClient_mutate g m s = 
     (case hm_op m of
        OpCreate \<Rightarrow> (case RestoreHistoryCreate_Save (eg_client g) \<lparr>hcb_mutation = m, hcb_conflict = []\<rparr> s of (Inl e, s') \<Rightarrow> (Inl e, s') | (Inr r, s') \<Rightarrow> (Inr (Inl r), s'))
      | OpUpdate \<Rightarrow> (case RestoreHistoryUpdate_Save (eg_client g) \<lparr>hub_mutation = m\<rparr> s of (Inl e, s') \<Rightarrow> (Inl e, s') | (Inr r, s') \<Rightarrow> (Inr (Inr r), s'))
      | OpUpdateOne \<Rightarrow> (case RestoreHistoryUpdateOne_Save g \<lparr>huo_fields = [], huo_mutation = m\<rparr> s of (Inl e, s') \<Rightarrow> (Inl e, s') | (Inr r, s') \<Rightarrow> (Inr (Inl r), s'))
      | _ \<Rightarrow> (case RestoreHistoryDelete_Exec g \<lparr>hdb_mutation = m\<rparr> s of (Inl e, s') \<Rightarrow> (Inl e, s') | (Inr r, s') \<Rightarrow> (Inr (Inr r), s')))"

section \<open>The rest of \<^verbatim>\<open>RestoreHistoryMutation\<close> (\<^verbatim>\<open>ent/mutation.go\<close>)\<close>

definition RestoreHistoryMutation_Op :: "restorehistory_mutation \<Rightarrow> ent_op" where
  "RestoreHistoryMutation_Op m = hm_op m"

definition RestoreHistoryMutation_SetOp :: "ent_op \<Rightarrow> restorehistory_mutation
    \<Rightarrow> restorehistory_mutation" where
  "RestoreHistoryMutation_SetOp op m = m\<lparr>hm_op := op\<rparr>"

definition RestoreHistoryMutation_Type :: "restorehistory_mutation \<Rightarrow> string" where
  "RestoreHistoryMutation_Type m = ''RestoreHistory''"

definition RestoreHistoryMutation_WhereP :: "pred list \<Rightarrow> restorehistory_mutation
    \<Rightarrow> restorehistory_mutation" where
  "RestoreHistoryMutation_WhereP ps m = RestoreHistoryMutation_Where ps m"

definition RestoreHistoryMutation_IDs :: "'s ent_graph \<Rightarrow> restorehistory_mutation
    \<Rightarrow> ('s, int list) io" where
  "RestoreHistoryMutation_IDs g m s = 
     (let query = RestoreHistoryQuery_IDs g (Where (hm_predicates m) RestoreHistoryClient_Query) in
      case hm_op m of
        OpUpdateOne \<Rightarrow> (case RestoreHistoryMutation_ID m of Some k \<Rightarrow> (Inr [k], s) | None \<Rightarrow> query s)
      | OpDeleteOne \<Rightarrow> (case RestoreHistoryMutation_ID m of Some k \<Rightarrow> (Inr [k], s) | None \<Rightarrow> query s)
      | OpUpdate \<Rightarrow> query s
      | OpDelete \<Rightarrow> query s
      | OpCreate \<Rightarrow> (Inl (EMsg ''IDs is not allowed on OpCreate operations''), s))"

definition RestoreHistoryMutation_OldRestoreRangeStart :: "'s ent_client \<Rightarrow> restorehistory_mutation
    \<Rightarrow> (int, ent_restorehistory) old_value \<Rightarrow> 's \<Rightarrow> (err + int) \<times> (int, ent_restorehistory) old_value \<times> 's" where
  "RestoreHistoryMutation_OldRestoreRangeStart cl m = 
     old_field ''OldRestoreRangeStart'' (hm_op m) (hm_id m) (RestoreHistoryClient_Get cl) (hm_done m) eh_RestoreRangeStart"

definition RestoreHistoryMutation_OldRestoreRangeEnd :: "'s ent_client \<Rightarrow> restorehistory_mutation
    \<Rightarrow> (int, ent_restorehistory) old_value \<Rightarrow> 's \<Rightarrow> (err + int) \<times> (int, ent_restorehistory) old_value \<times> 's" where
  "RestoreHistoryMutation_OldRestoreRangeEnd cl m = 
     old_field ''OldRestoreRangeEnd'' (hm_op m) (hm_id m) (RestoreHistoryClient_Get cl) (hm_done m) eh_RestoreRangeEnd"

definition RestoreHistoryMutation_OldBeingBlock :: "'s ent_client \<Rightarrow> restorehistory_mutation
    \<Rightarrow> (int, ent_restorehistory) old_value \<Rightarrow> 's \<Rightarrow> (err + int) \<times> (int, ent_restorehistory) old_value \<times> 's" where
  "RestoreHistoryMutation_OldBeingBlock cl m = 
     old_field ''OldBeingBlock'' (hm_op m) (hm_id m) (RestoreHistoryClient_Get cl) (hm_done m) eh_BeingBlock"

definition RestoreHistoryMutation_OldField :: "'s ent_client \<Rightarrow> restorehistory_mutation
    \<Rightarrow> string \<Rightarrow> (int, ent_restorehistory) old_value \<Rightarrow> 's
    \<Rightarrow> (err + ent_value) \<times> (int, ent_restorehistory) old_value \<times> 's" where
  "RestoreHistoryMutation_OldField cl m name old s = 
     (if name = restorehistory_FieldRestoreRangeStart then old_as VInt (RestoreHistoryMutation_OldRestoreRangeStart cl m old s)
      else if name = restorehistory_FieldRestoreRangeEnd then old_as VInt (RestoreHistoryMutation_OldRestoreRangeEnd cl m old s)
      else if name = restorehistory_FieldBeingBlock then old_as VInt (RestoreHistoryMutation_OldBeingBlock cl m old s)
      else (Inl (EMsg ''unknown RestoreHistory field''), old, s))"

definition RestoreHistoryMutation_AddedEdges :: "restorehistory_mutation
    \<Rightarrow> string list" where
  "RestoreHistoryMutation_AddedEdges m = []"

definition RestoreHistoryMutation_AddedIDs :: "restorehistory_mutation \<Rightarrow> string
    \<Rightarrow> int list" where
  "RestoreHistoryMutation_AddedIDs m name = []"

definition RestoreHistoryMutation_RemovedEdges :: "restorehistory_mutation
    \<Rightarrow> string list" where
  "RestoreHistoryMutation_RemovedEdges m = []"

definition RestoreHistoryMutation_RemovedIDs :: "restorehistory_mutation \<Rightarrow> string
    \<Rightarrow> int list" where
  "RestoreHistoryMutation_RemovedIDs m name = []"

definition RestoreHistoryMutation_ClearedEdges :: "restorehistory_mutation
    \<Rightarrow> string list" where
  "RestoreHistoryMutation_ClearedEdges m = []"

definition RestoreHistoryMutation_EdgeCleared :: "restorehistory_mutation \<Rightarrow> string
    \<Rightarrow> bool" where
  "RestoreHistoryMutation_EdgeCleared m name = False"

definition RestoreHistoryMutation_ClearEdge :: "restorehistory_mutation \<Rightarrow> string
    \<Rightarrow> err + restorehistory_mutation" where
  "RestoreHistoryMutation_ClearEdge m name = Inl (EMsg ''unknown RestoreHistory unique edge'')"

definition RestoreHistoryMutation_ResetEdge :: "restorehistory_mutation \<Rightarrow> string
    \<Rightarrow> err + restorehistory_mutation" where
  "RestoreHistoryMutation_ResetEdge m name = Inl (EMsg ''unknown RestoreHistory edge'')"

lemmas restorehistory_client_defs = RestoreHistoryDelete_Where_def RestoreHistoryDelete_sqlExec_def RestoreHistoryDelete_Exec_def
  RestoreHistoryDelete_ExecX_def RestoreHistoryDeleteOne_Where_def RestoreHistoryDeleteOne_Exec_def
  RestoreHistoryDeleteOne_ExecX_def withRestoreHistoryID_def withRestoreHistory_def
  RestoreHistoryClient_MapCreateBulk_def RestoreHistoryClient_Update_def RestoreHistoryClient_UpdateOne_def
  RestoreHistoryClient_UpdateOneID_def RestoreHistoryClient_Delete_def RestoreHistoryClient_DeleteOneID_def
  RestoreHistoryClient_DeleteOne_def RestoreHistoryClient_Query_def RestoreHistoryClient_Get_def
  RestoreHistoryClient_GetX_def RestoreHistoryClient_mutate_def RestoreHistoryMutation_Op_def
  RestoreHistoryMutation_SetOp_def RestoreHistoryMutation_Type_def RestoreHistoryMutation_WhereP_def
  RestoreHistoryMutation_IDs_def RestoreHistoryMutation_OldRestoreRangeStart_def RestoreHistoryMutation_OldRestoreRangeEnd_def
  RestoreHistoryMutation_OldBeingBlock_def RestoreHistoryMutation_OldField_def RestoreHistoryMutation_AddedEdges_def
  RestoreHistoryMutation_AddedIDs_def RestoreHistoryMutation_RemovedEdges_def RestoreHistoryMutation_RemovedIDs_def
  RestoreHistoryMutation_ClearedEdges_def RestoreHistoryMutation_EdgeCleared_def RestoreHistoryMutation_ClearEdge_def
  RestoreHistoryMutation_ResetEdge_def

section \<open>\<^verbatim>\<open>ent/transaction_delete.go\<close>\<close>

record transaction_delete =
  tdb_mutation :: transaction_mutation

definition TransactionDelete_Where :: "pred list \<Rightarrow> transaction_delete
    \<Rightarrow> transaction_delete" where
  "TransactionDelete_Where ps d = d\<lparr>tdb_mutation := TransactionMutation_Where ps (tdb_mutation d)\<rparr>"

definition TransactionDelete_sqlExec :: "'s ent_graph \<Rightarrow> transaction_delete
    \<Rightarrow> ('s, int) io" where
  "TransactionDelete_sqlExec g d s = 
     (case DeleteNodes g \<lparr>ds_Table = transaction_Table, ds_IDSpec = (transaction_FieldID, TypeInt),
          ds_Predicate = tm_predicates (tdb_mutation d)\<rparr> s of
        (Inl e, s') \<Rightarrow> (Inl (wrap_create_err e), s')
      | (Inr n, s') \<Rightarrow> (Inr n, s'))"

definition TransactionDelete_Exec :: "'s ent_graph \<Rightarrow> transaction_delete
    \<Rightarrow> ('s, int) io" where
  "TransactionDelete_Exec = TransactionDelete_sqlExec"

definition TransactionDelete_ExecX :: "'s ent_graph \<Rightarrow> transaction_delete
    \<Rightarrow> ('s, int) io" where
  "TransactionDelete_ExecX g d = must (TransactionDelete_Exec g d)"

definition TransactionDeleteOne_Where :: "pred list \<Rightarrow> transaction_delete
    \<Rightarrow> transaction_delete" where
  "TransactionDeleteOne_Where ps d = d\<lparr>tdb_mutation := TransactionMutation_Where ps (tdb_mutation d)\<rparr>"

definition TransactionDeleteOne_Exec :: "'s ent_graph \<Rightarrow> transaction_delete
    \<Rightarrow> ('s, unit) io" where
  "TransactionDeleteOne_Exec g d s = 
     (case TransactionDelete_Exec g d s of
        (Inl e, s') \<Rightarrow> (Inl e, s')
      | (Inr n, s') \<Rightarrow> if n = 0 then (Inl (ENotFound transaction_Label), s') else (Inr (), s'))"

definition TransactionDeleteOne_ExecX :: "'s ent_graph \<Rightarrow> transaction_delete
    \<Rightarrow> ('s, unit) io" where
  "TransactionDeleteOne_ExecX g d = must (TransactionDeleteOne_Exec g d)"

section \<open>The \<^verbatim>\<open>TransactionClient\<close> of \<^verbatim>\<open>ent/client.go\<close>\<close>

definition withTransactionID :: "int \<Rightarrow> transaction_mutation
    \<Rightarrow> transaction_mutation \<times> (int, ent_transaction) old_value" where
  "withTransactionID k m = (m\<lparr>tm_id := Some k\<rparr>, OldByID k None)"

definition withTransaction :: "ent_transaction \<Rightarrow> transaction_mutation
    \<Rightarrow> transaction_mutation \<times> (int, ent_transaction) old_value" where
  "withTransaction n m = (m\<lparr>tm_id := Some (et_ID n)\<rparr>, OldNode n)"

definition TransactionClient_MapCreateBulk :: "nat option \<Rightarrow> (transaction_create
    \<Rightarrow> nat \<Rightarrow> transaction_create) \<Rightarrow> transaction_create_bulk" where
  "TransactionClient_MapCreateBulk len setFunc = 
     (case len of
        None \<Rightarrow> \<lparr>tbk_err = Some (EMsg ''calling to TransactionClient.MapCreateBulk with wrong type, need slice''),
          tbk_builders = [], tbk_conflict = []\<rparr>
      | Some n \<Rightarrow> \<lparr>tbk_err = None, tbk_builders = map (setFunc TransactionClient_Create) [0..<n],
          tbk_conflict = []\<rparr>)"

definition TransactionClient_Update :: transaction_update where
  "TransactionClient_Update = \<lparr>tub_mutation = newTransactionMutation OpUpdate\<rparr>"

definition TransactionClient_UpdateOne :: "ent_transaction
    \<Rightarrow> transaction_update_one \<times> (int, ent_transaction) old_value" where
  "TransactionClient_UpdateOne n = 
     (case withTransaction n (newTransactionMutation OpUpdateOne) of (m, old) \<Rightarrow> (\<lparr>tuo_fields = [], tuo_mutation = m\<rparr>, old))"

definition TransactionClient_UpdateOneID :: "int
    \<Rightarrow> transaction_update_one \<times> (int, ent_transaction) old_value" where
  "TransactionClient_UpdateOneID k = 
     (case withTransactionID k (newTransactionMutation OpUpdateOne) of (m, old) \<Rightarrow> (\<lparr>tuo_fields = [], tuo_mutation = m\<rparr>, old))"

definition TransactionClient_Delete :: transaction_delete where
  "TransactionClient_Delete = \<lparr>tdb_mutation = newTransactionMutation OpDelete\<rparr>"

definition TransactionClient_DeleteOneID :: "int \<Rightarrow> transaction_delete" where
  "TransactionClient_DeleteOneID k = 
     (let d = TransactionDelete_Where [transaction_ID k] TransactionClient_Delete in
      d\<lparr>tdb_mutation := (tdb_mutation d)\<lparr>tm_id := Some k, tm_op := OpDeleteOne\<rparr>\<rparr>)"

definition TransactionClient_DeleteOne :: "ent_transaction \<Rightarrow> transaction_delete" where
  "TransactionClient_DeleteOne n = TransactionClient_DeleteOneID (et_ID n)"

definition TransactionClient_Query :: ent_query where
  "TransactionClient_Query = Query"

definition TransactionClient_Get :: "'s ent_client \<Rightarrow> int
    \<Rightarrow> ('s, ent_transaction) io" where
  "TransactionClient_Get cl k = TransactionQuery_Only cl (Where [transaction_ID k] TransactionClient_Query)"

definition TransactionClient_GetX :: "'s ent_client \<Rightarrow> int
    \<Rightarrow> ('s, ent_transaction) io" where
  "TransactionClient_GetX cl k = must (TransactionClient_Get cl k)"

definition TransactionClient_mutate :: "'s ent_graph \<Rightarrow> transaction_mutation
    \<Rightarrow> ('s, ent_transaction + int) io" where
  "TransactionClient_mutate g m s = 
     (case tm_op m of
        OpCreate \<Rightarrow> (case TransactionCreate_Save (eg_client g) \<lparr>tcb_mutation = m, tcb_conflict = []\<rparr> s of (Inl e, s') \<Rightarrow> (Inl e, s') | (Inr r, s') \<Rightarrow> (Inr (Inl r), s'))
      | OpUpdate \<Rightarrow> (case TransactionUpdate_Save (eg_client g) \<lparr>tub_mutation = m\<rparr> s of (Inl e, s') \<Rightarrow> (Inl e, s') | (Inr r, s') \<Rightarrow> (Inr (Inr r), s'))
      | OpUpdateOne \<Rightarrow> (case TransactionUpdateOne_Save g \<lparr>tuo_fields = [], tuo_mutation = m\<rparr> s of (Inl e, s') \<Rightarrow> (Inl e, s') | (Inr r, s') \<Rightarrow> (Inr (Inl r), s'))
      | _ \<Rightarrow> (case TransactionDelete_Exec g \<lparr>tdb_mutation = m\<rparr> s of (Inl e, s') \<Rightarrow> (Inl e, s') | (Inr r, s') \<Rightarrow> (Inr (Inr r), s')))"

section \<open>The rest of \<^verbatim>\<open>TransactionMutation\<close> (\<^verbatim>\<open>ent/mutation.go\<close>)\<close>

definition TransactionMutation_Op :: "transaction_mutation \<Rightarrow> ent_op" where
  "TransactionMutation_Op m = tm_op m"

definition TransactionMutation_SetOp :: "ent_op \<Rightarrow> transaction_mutation
    \<Rightarrow> transaction_mutation" where
  "TransactionMutation_SetOp op m = m\<lparr>tm_op := op\<rparr>"

definition TransactionMutation_Type :: "transaction_mutation \<Rightarrow> string" where
  "TransactionMutation_Type m = ''Transaction''"

definition TransactionMutation_WhereP :: "pred list \<Rightarrow> transaction_mutation
    \<Rightarrow> transaction_mutation" where
  "TransactionMutation_WhereP ps m = TransactionMutation_Where ps m"

definition TransactionMutation_IDs :: "'s ent_graph \<Rightarrow> transaction_mutation
    \<Rightarrow> ('s, int list) io" where
  "TransactionMutation_IDs g m s = 
     (let query = TransactionQuery_IDs g (Where (tm_predicates m) TransactionClient_Query) in
      case tm_op m of
        OpUpdateOne \<Rightarrow> (case TransactionMutation_ID m of Some k \<Rightarrow> (Inr [k], s) | None \<Rightarrow> query s)
      | OpDeleteOne \<Rightarrow> (case TransactionMutation_ID m of Some k \<Rightarrow> (Inr [k], s) | None \<Rightarrow> query s)
      | OpUpdate \<Rightarrow> query s
      | OpDelete \<Rightarrow> query s
      | OpCreate \<Rightarrow> (Inl (EMsg ''IDs is not allowed on OpCreate operations''), s))"

definition TransactionMutation_OldIndex :: "'s ent_client \<Rightarrow> transaction_mutation
    \<Rightarrow> (int, ent_transaction) old_value \<Rightarrow> 's \<Rightarrow> (err + int) \<times> (int, ent_transaction) old_value \<times> 's" where
  "TransactionMutation_OldIndex cl m = 
     old_field ''OldIndex'' (tm_op m) (tm_id m) (TransactionClient_Get cl) (tm_done m) et_Index"

definition TransactionMutation_OldHash :: "'s ent_client \<Rightarrow> transaction_mutation
    \<Rightarrow> (int, ent_transaction) old_value \<Rightarrow> 's \<Rightarrow> (err + string) \<times> (int, ent_transaction) old_value \<times> 's" where
  "TransactionMutation_OldHash cl m = 
     old_field ''OldHash'' (tm_op m) (tm_id m) (TransactionClient_Get cl) (tm_done m) et_Hash"

definition TransactionMutation_OldSuccess :: "'s ent_client \<Rightarrow> transaction_mutation
    \<Rightarrow> (int, ent_transaction) old_value \<Rightarrow> 's \<Rightarrow> (err + bool) \<times> (int, ent_transaction) old_value \<times> 's" where
  "TransactionMutation_OldSuccess cl m = 
     old_field ''OldSuccess'' (tm_op m) (tm_id m) (TransactionClient_Get cl) (tm_done m) et_Success"

definition TransactionMutation_OldBlockHeight :: "'s ent_client \<Rightarrow> transaction_mutation
    \<Rightarrow> (int, ent_transaction) old_value \<Rightarrow> 's \<Rightarrow> (err + int) \<times> (int, ent_transaction) old_value \<times> 's" where
  "TransactionMutation_OldBlockHeight cl m = 
     old_field ''OldBlockHeight'' (tm_op m) (tm_id m) (TransactionClient_Get cl) (tm_done m) et_BlockHeight"

definition TransactionMutation_OldGasWanted :: "'s ent_client \<Rightarrow> transaction_mutation
    \<Rightarrow> (int, ent_transaction) old_value \<Rightarrow> 's \<Rightarrow> (err + float64) \<times> (int, ent_transaction) old_value \<times> 's" where
  "TransactionMutation_OldGasWanted cl m = 
     old_field ''OldGasWanted'' (tm_op m) (tm_id m) (TransactionClient_Get cl) (tm_done m) et_GasWanted"

definition TransactionMutation_OldGasUsed :: "'s ent_client \<Rightarrow> transaction_mutation
    \<Rightarrow> (int, ent_transaction) old_value \<Rightarrow> 's \<Rightarrow> (err + float64) \<times> (int, ent_transaction) old_value \<times> 's" where
  "TransactionMutation_OldGasUsed cl m = 
     old_field ''OldGasUsed'' (tm_op m) (tm_id m) (TransactionClient_Get cl) (tm_done m) et_GasUsed"

definition TransactionMutation_OldMemo :: "'s ent_client \<Rightarrow> transaction_mutation
    \<Rightarrow> (int, ent_transaction) old_value \<Rightarrow> 's \<Rightarrow> (err + string) \<times> (int, ent_transaction) old_value \<times> 's" where
  "TransactionMutation_OldMemo cl m = 
     old_field ''OldMemo'' (tm_op m) (tm_id m) (TransactionClient_Get cl) (tm_done m) et_Memo"

definition TransactionMutation_OldGasFee :: "'s ent_client \<Rightarrow> transaction_mutation
    \<Rightarrow> (int, ent_transaction) old_value \<Rightarrow> 's \<Rightarrow> (err + schema_gas_fee) \<times> (int, ent_transaction) old_value \<times> 's" where
  "TransactionMutation_OldGasFee cl m = 
     old_field ''OldGasFee'' (tm_op m) (tm_id m) (TransactionClient_Get cl) (tm_done m) et_GasFee"

definition TransactionMutation_OldMessages :: "'s ent_client \<Rightarrow> transaction_mutation
    \<Rightarrow> (int, ent_transaction) old_value \<Rightarrow> 's \<Rightarrow> (err + (schema_message list)) \<times> (int, ent_transaction) old_value \<times> 's" where
  "TransactionMutation_OldMessages cl m = 
     old_field ''OldMessages'' (tm_op m) (tm_id m) (TransactionClient_Get cl) (tm_done m) et_Messages"

definition TransactionMutation_OldResponse :: "'s ent_client \<Rightarrow> transaction_mutation
    \<Rightarrow> (int, ent_transaction) old_value \<Rightarrow> 's \<Rightarrow> (err + schema_response) \<times> (int, ent_transaction) old_value \<times> 's" where
  "TransactionMutation_OldResponse cl m = 
     old_field ''OldResponse'' (tm_op m) (tm_id m) (TransactionClient_Get cl) (tm_done m) et_Response"

definition TransactionMutation_OldCreatedAt :: "'s ent_client \<Rightarrow> transaction_mutation
    \<Rightarrow> (int, ent_transaction) old_value \<Rightarrow> 's \<Rightarrow> (err + go_time) \<times> (int, ent_transaction) old_value \<times> 's" where
  "TransactionMutation_OldCreatedAt cl m = 
     old_field ''OldCreatedAt'' (tm_op m) (tm_id m) (TransactionClient_Get cl) (tm_done m) et_CreatedAt"

definition TransactionMutation_OldField :: "'s ent_client \<Rightarrow> transaction_mutation
    \<Rightarrow> string \<Rightarrow> (int, ent_transaction) old_value \<Rightarrow> 's
    \<Rightarrow> (err + ent_value) \<times> (int, ent_transaction) old_value \<times> 's" where
  "TransactionMutation_OldField cl m name old s = 
     (if name = transaction_FieldIndex then old_as VInt (TransactionMutation_OldIndex cl m old s)
      else if name = transaction_FieldHash then old_as VString (TransactionMutation_OldHash cl m old s)
      else if name = transaction_FieldSuccess then old_as VBool (TransactionMutation_OldSuccess cl m old s)
      else if name = transaction_FieldBlockHeight then old_as VInt (TransactionMutation_OldBlockHeight cl m old s)
      else if name = transaction_FieldGasWanted then old_as VFloat (TransactionMutation_OldGasWanted cl m old s)
      else if name = transaction_FieldGasUsed then old_as VFloat (TransactionMutation_OldGasUsed cl m old s)
      else if name = transaction_FieldMemo then old_as VString (TransactionMutation_OldMemo cl m old s)
      else if name = transaction_FieldGasFee then old_as VGasFee (TransactionMutation_OldGasFee cl m old s)
      else if name = transaction_FieldMessages then old_as VMessages (TransactionMutation_OldMessages cl m old s)
      else if name = transaction_FieldResponse then old_as VResponse (TransactionMutation_OldResponse cl m old s)
      else if name = transaction_FieldCreatedAt then old_as VTime (TransactionMutation_OldCreatedAt cl m old s)
      else (Inl (EMsg ''unknown Transaction field''), old, s))"

definition TransactionMutation_AddedEdges :: "transaction_mutation \<Rightarrow> string list" where
  "TransactionMutation_AddedEdges m = 
     (if tm_block m \<noteq> None then [transaction_EdgeBlock] else [])"

definition TransactionMutation_AddedIDs :: "transaction_mutation \<Rightarrow> string
    \<Rightarrow> int list" where
  "TransactionMutation_AddedIDs m name = 
     (if name = transaction_EdgeBlock then (case tm_block m of Some k \<Rightarrow> [k] | None \<Rightarrow> [])
      else [])"

definition TransactionMutation_RemovedEdges :: "transaction_mutation
    \<Rightarrow> string list" where
  "TransactionMutation_RemovedEdges m = []"

definition TransactionMutation_RemovedIDs :: "transaction_mutation \<Rightarrow> string
    \<Rightarrow> int list" where
  "TransactionMutation_RemovedIDs m name = []"

definition TransactionMutation_ClearedEdges :: "transaction_mutation
    \<Rightarrow> string list" where
  "TransactionMutation_ClearedEdges m = 
     (if tm_clearedblock m then [transaction_EdgeBlock] else [])"

definition TransactionMutation_EdgeCleared :: "transaction_mutation \<Rightarrow> string
    \<Rightarrow> bool" where
  "TransactionMutation_EdgeCleared m name = 
     (if name = transaction_EdgeBlock then tm_clearedblock m
      else False)"

definition TransactionMutation_ClearEdge :: "transaction_mutation \<Rightarrow> string
    \<Rightarrow> err + transaction_mutation" where
  "TransactionMutation_ClearEdge m name = 
     (if name = transaction_EdgeBlock then Inr (TransactionMutation_ClearBlock m)
      else Inl (EMsg ''unknown Transaction unique edge''))"

definition TransactionMutation_ResetEdge :: "transaction_mutation \<Rightarrow> string
    \<Rightarrow> err + transaction_mutation" where
  "TransactionMutation_ResetEdge m name = 
     (if name = transaction_EdgeBlock then Inr (TransactionMutation_ResetBlock m)
      else Inl (EMsg ''unknown Transaction edge''))"

lemmas transaction_client_defs = TransactionDelete_Where_def TransactionDelete_sqlExec_def TransactionDelete_Exec_def
  TransactionDelete_ExecX_def TransactionDeleteOne_Where_def TransactionDeleteOne_Exec_def
  TransactionDeleteOne_ExecX_def withTransactionID_def withTransaction_def
  TransactionClient_MapCreateBulk_def TransactionClient_Update_def TransactionClient_UpdateOne_def
  TransactionClient_UpdateOneID_def TransactionClient_Delete_def TransactionClient_DeleteOneID_def
  TransactionClient_DeleteOne_def TransactionClient_Query_def TransactionClient_Get_def
  TransactionClient_GetX_def TransactionClient_mutate_def TransactionMutation_Op_def
  TransactionMutation_SetOp_def TransactionMutation_Type_def TransactionMutation_WhereP_def
  TransactionMutation_IDs_def TransactionMutation_OldIndex_def TransactionMutation_OldHash_def
  TransactionMutation_OldSuccess_def TransactionMutation_OldBlockHeight_def TransactionMutation_OldGasWanted_def
  TransactionMutation_OldGasUsed_def TransactionMutation_OldMemo_def TransactionMutation_OldGasFee_def
  TransactionMutation_OldMessages_def TransactionMutation_OldResponse_def TransactionMutation_OldCreatedAt_def
  TransactionMutation_OldField_def TransactionMutation_AddedEdges_def TransactionMutation_AddedIDs_def
  TransactionMutation_RemovedEdges_def TransactionMutation_RemovedIDs_def TransactionMutation_ClearedEdges_def
  TransactionMutation_EdgeCleared_def TransactionMutation_ClearEdge_def TransactionMutation_ResetEdge_def

section \<open>\<^verbatim>\<open>ent/transfer_delete.go\<close>\<close>

record transfer_delete =
  fdb_mutation :: transfer_mutation

definition TransferDelete_Where :: "pred list \<Rightarrow> transfer_delete
    \<Rightarrow> transfer_delete" where
  "TransferDelete_Where ps d = d\<lparr>fdb_mutation := TransferMutation_Where ps (fdb_mutation d)\<rparr>"

definition TransferDelete_sqlExec :: "'s ent_graph \<Rightarrow> transfer_delete
    \<Rightarrow> ('s, int) io" where
  "TransferDelete_sqlExec g d s = 
     (case DeleteNodes g \<lparr>ds_Table = transfer_Table, ds_IDSpec = (transfer_FieldID, TypeInt),
          ds_Predicate = fm_predicates (fdb_mutation d)\<rparr> s of
        (Inl e, s') \<Rightarrow> (Inl (wrap_create_err e), s')
      | (Inr n, s') \<Rightarrow> (Inr n, s'))"

definition TransferDelete_Exec :: "'s ent_graph \<Rightarrow> transfer_delete
    \<Rightarrow> ('s, int) io" where
  "TransferDelete_Exec = TransferDelete_sqlExec"

definition TransferDelete_ExecX :: "'s ent_graph \<Rightarrow> transfer_delete
    \<Rightarrow> ('s, int) io" where
  "TransferDelete_ExecX g d = must (TransferDelete_Exec g d)"

definition TransferDeleteOne_Where :: "pred list \<Rightarrow> transfer_delete
    \<Rightarrow> transfer_delete" where
  "TransferDeleteOne_Where ps d = d\<lparr>fdb_mutation := TransferMutation_Where ps (fdb_mutation d)\<rparr>"

definition TransferDeleteOne_Exec :: "'s ent_graph \<Rightarrow> transfer_delete
    \<Rightarrow> ('s, unit) io" where
  "TransferDeleteOne_Exec g d s = 
     (case TransferDelete_Exec g d s of
        (Inl e, s') \<Rightarrow> (Inl e, s')
      | (Inr n, s') \<Rightarrow> if n = 0 then (Inl (ENotFound transfer_Label), s') else (Inr (), s'))"

definition TransferDeleteOne_ExecX :: "'s ent_graph \<Rightarrow> transfer_delete
    \<Rightarrow> ('s, unit) io" where
  "TransferDeleteOne_ExecX g d = must (TransferDeleteOne_Exec g d)"

section \<open>The \<^verbatim>\<open>TransferClient\<close> of \<^verbatim>\<open>ent/client.go\<close>\<close>

definition withTransferID :: "int \<Rightarrow> transfer_mutation
    \<Rightarrow> transfer_mutation \<times> (int, ent_transfer) old_value" where
  "withTransferID k m = (m\<lparr>fm_id := Some k\<rparr>, OldByID k None)"

definition withTransfer :: "ent_transfer \<Rightarrow> transfer_mutation
    \<Rightarrow> transfer_mutation \<times> (int, ent_transfer) old_value" where
  "withTransfer n m = (m\<lparr>fm_id := Some (ef_ID n)\<rparr>, OldNode n)"

definition TransferClient_MapCreateBulk :: "nat option \<Rightarrow> (transfer_create
    \<Rightarrow> nat \<Rightarrow> transfer_create) \<Rightarrow> transfer_create_bulk" where
  "TransferClient_MapCreateBulk len setFunc = 
     (case len of
        None \<Rightarrow> \<lparr>fbk_err = Some (EMsg ''calling to TransferClient.MapCreateBulk with wrong type, need slice''),
          fbk_builders = [], fbk_conflict = []\<rparr>
      | Some n \<Rightarrow> \<lparr>fbk_err = None, fbk_builders = map (setFunc TransferClient_Create) [0..<n],
          fbk_conflict = []\<rparr>)"

definition TransferClient_Update :: transfer_update where
  "TransferClient_Update = \<lparr>fub_mutation = newTransferMutation OpUpdate\<rparr>"

definition TransferClient_UpdateOne :: "ent_transfer
    \<Rightarrow> transfer_update_one \<times> (int, ent_transfer) old_value" where
  "TransferClient_UpdateOne n = 
     (case withTransfer n (newTransferMutation OpUpdateOne) of (m, old) \<Rightarrow> (\<lparr>fuo_fields = [], fuo_mutation = m\<rparr>, old))"

definition TransferClient_UpdateOneID :: "int
    \<Rightarrow> transfer_update_one \<times> (int, ent_transfer) old_value" where
  "TransferClient_UpdateOneID k = 
     (case withTransferID k (newTransferMutation OpUpdateOne) of (m, old) \<Rightarrow> (\<lparr>fuo_fields = [], fuo_mutation = m\<rparr>, old))"

definition TransferClient_Delete :: transfer_delete where
  "TransferClient_Delete = \<lparr>fdb_mutation = newTransferMutation OpDelete\<rparr>"

definition TransferClient_DeleteOneID :: "int \<Rightarrow> transfer_delete" where
  "TransferClient_DeleteOneID k = 
     (let d = TransferDelete_Where [transfer_ID k] TransferClient_Delete in
      d\<lparr>fdb_mutation := (fdb_mutation d)\<lparr>fm_id := Some k, fm_op := OpDeleteOne\<rparr>\<rparr>)"

definition TransferClient_DeleteOne :: "ent_transfer \<Rightarrow> transfer_delete" where
  "TransferClient_DeleteOne n = TransferClient_DeleteOneID (ef_ID n)"

definition TransferClient_Query :: ent_query where
  "TransferClient_Query = Query"

definition TransferClient_Get :: "'s ent_client \<Rightarrow> int
    \<Rightarrow> ('s, ent_transfer) io" where
  "TransferClient_Get cl k = TransferQuery_Only cl (Where [transfer_ID k] TransferClient_Query)"

definition TransferClient_GetX :: "'s ent_client \<Rightarrow> int
    \<Rightarrow> ('s, ent_transfer) io" where
  "TransferClient_GetX cl k = must (TransferClient_Get cl k)"

definition TransferClient_mutate :: "'s ent_graph \<Rightarrow> transfer_mutation
    \<Rightarrow> ('s, ent_transfer + int) io" where
  "TransferClient_mutate g m s = 
     (case fm_op m of
        OpCreate \<Rightarrow> (case TransferCreate_Save (eg_client g) \<lparr>fcb_mutation = m, fcb_conflict = []\<rparr> s of (Inl e, s') \<Rightarrow> (Inl e, s') | (Inr r, s') \<Rightarrow> (Inr (Inl r), s'))
      | OpUpdate \<Rightarrow> (case TransferUpdate_Save (eg_client g) \<lparr>fub_mutation = m\<rparr> s of (Inl e, s') \<Rightarrow> (Inl e, s') | (Inr r, s') \<Rightarrow> (Inr (Inr r), s'))
      | OpUpdateOne \<Rightarrow> (case TransferUpdateOne_Save g \<lparr>fuo_fields = [], fuo_mutation = m\<rparr> s of (Inl e, s') \<Rightarrow> (Inl e, s') | (Inr r, s') \<Rightarrow> (Inr (Inl r), s'))
      | _ \<Rightarrow> (case TransferDelete_Exec g \<lparr>fdb_mutation = m\<rparr> s of (Inl e, s') \<Rightarrow> (Inl e, s') | (Inr r, s') \<Rightarrow> (Inr (Inr r), s')))"

section \<open>The rest of \<^verbatim>\<open>TransferMutation\<close> (\<^verbatim>\<open>ent/mutation.go\<close>)\<close>

definition TransferMutation_Op :: "transfer_mutation \<Rightarrow> ent_op" where
  "TransferMutation_Op m = fm_op m"

definition TransferMutation_SetOp :: "ent_op \<Rightarrow> transfer_mutation
    \<Rightarrow> transfer_mutation" where
  "TransferMutation_SetOp op m = m\<lparr>fm_op := op\<rparr>"

definition TransferMutation_Type :: "transfer_mutation \<Rightarrow> string" where
  "TransferMutation_Type m = ''Transfer''"

definition TransferMutation_WhereP :: "pred list \<Rightarrow> transfer_mutation
    \<Rightarrow> transfer_mutation" where
  "TransferMutation_WhereP ps m = TransferMutation_Where ps m"

definition TransferMutation_IDs :: "'s ent_graph \<Rightarrow> transfer_mutation
    \<Rightarrow> ('s, int list) io" where
  "TransferMutation_IDs g m s = 
     (let query = TransferQuery_IDs g (Where (fm_predicates m) TransferClient_Query) in
      case fm_op m of
        OpUpdateOne \<Rightarrow> (case TransferMutation_ID m of Some k \<Rightarrow> (Inr [k], s) | None \<Rightarrow> query s)
      | OpDeleteOne \<Rightarrow> (case TransferMutation_ID m of Some k \<Rightarrow> (Inr [k], s) | None \<Rightarrow> query s)
      | OpUpdate \<Rightarrow> query s
      | OpDelete \<Rightarrow> query s
      | OpCreate \<Rightarrow> (Inl (EMsg ''IDs is not allowed on OpCreate operations''), s))"

definition TransferMutation_OldHash :: "'s ent_client \<Rightarrow> transfer_mutation
    \<Rightarrow> (int, ent_transfer) old_value \<Rightarrow> 's \<Rightarrow> (err + string) \<times> (int, ent_transfer) old_value \<times> 's" where
  "TransferMutation_OldHash cl m = 
     old_field ''OldHash'' (fm_op m) (fm_id m) (TransferClient_Get cl) (fm_done m) ef_Hash"

definition TransferMutation_OldFunc :: "'s ent_client \<Rightarrow> transfer_mutation
    \<Rightarrow> (int, ent_transfer) old_value \<Rightarrow> 's \<Rightarrow> (err + string) \<times> (int, ent_transfer) old_value \<times> 's" where
  "TransferMutation_OldFunc cl m = 
     old_field ''OldFunc'' (fm_op m) (fm_id m) (TransferClient_Get cl) (fm_done m) ef_Func"

definition TransferMutation_OldFromAddress :: "'s ent_client \<Rightarrow> transfer_mutation
    \<Rightarrow> (int, ent_transfer) old_value \<Rightarrow> 's \<Rightarrow> (err + string) \<times> (int, ent_transfer) old_value \<times> 's" where
  "TransferMutation_OldFromAddress cl m = 
     old_field ''OldFromAddress'' (fm_op m) (fm_id m) (TransferClient_Get cl) (fm_done m) ef_FromAddress"

definition TransferMutation_OldToAddress :: "'s ent_client \<Rightarrow> transfer_mutation
    \<Rightarrow> (int, ent_transfer) old_value \<Rightarrow> 's \<Rightarrow> (err + string) \<times> (int, ent_transfer) old_value \<times> 's" where
  "TransferMutation_OldToAddress cl m = 
     old_field ''OldToAddress'' (fm_op m) (fm_id m) (TransferClient_Get cl) (fm_done m) ef_ToAddress"

definition TransferMutation_OldToken :: "'s ent_client \<Rightarrow> transfer_mutation
    \<Rightarrow> (int, ent_transfer) old_value \<Rightarrow> 's \<Rightarrow> (err + string) \<times> (int, ent_transfer) old_value \<times> 's" where
  "TransferMutation_OldToken cl m = 
     old_field ''OldToken'' (fm_op m) (fm_id m) (TransferClient_Get cl) (fm_done m) ef_Token"

definition TransferMutation_OldAmount :: "'s ent_client \<Rightarrow> transfer_mutation
    \<Rightarrow> (int, ent_transfer) old_value \<Rightarrow> 's \<Rightarrow> (err + float64) \<times> (int, ent_transfer) old_value \<times> 's" where
  "TransferMutation_OldAmount cl m = 
     old_field ''OldAmount'' (fm_op m) (fm_id m) (TransferClient_Get cl) (fm_done m) ef_Amount"

definition TransferMutation_OldDenom :: "'s ent_client \<Rightarrow> transfer_mutation
    \<Rightarrow> (int, ent_transfer) old_value \<Rightarrow> 's \<Rightarrow> (err + string) \<times> (int, ent_transfer) old_value \<times> 's" where
  "TransferMutation_OldDenom cl m = 
     old_field ''OldDenom'' (fm_op m) (fm_id m) (TransferClient_Get cl) (fm_done m) ef_Denom"

definition TransferMutation_OldCreatedAt :: "'s ent_client \<Rightarrow> transfer_mutation
    \<Rightarrow> (int, ent_transfer) old_value \<Rightarrow> 's \<Rightarrow> (err + go_time) \<times> (int, ent_transfer) old_value \<times> 's" where
  "TransferMutation_OldCreatedAt cl m = 
     old_field ''OldCreatedAt'' (fm_op m) (fm_id m) (TransferClient_Get cl) (fm_done m) ef_CreatedAt"

definition TransferMutation_OldField :: "'s ent_client \<Rightarrow> transfer_mutation
    \<Rightarrow> string \<Rightarrow> (int, ent_transfer) old_value \<Rightarrow> 's
    \<Rightarrow> (err + ent_value) \<times> (int, ent_transfer) old_value \<times> 's" where
  "TransferMutation_OldField cl m name old s = 
     (if name = transfer_FieldHash then old_as VString (TransferMutation_OldHash cl m old s)
      else if name = transfer_FieldFunc then old_as VString (TransferMutation_OldFunc cl m old s)
      else if name = transfer_FieldFromAddress then old_as VString (TransferMutation_OldFromAddress cl m old s)
      else if name = transfer_FieldToAddress then old_as VString (TransferMutation_OldToAddress cl m old s)
      else if name = transfer_FieldToken then old_as VString (TransferMutation_OldToken cl m old s)
      else if name = transfer_FieldAmount then old_as VFloat (TransferMutation_OldAmount cl m old s)
      else if name = transfer_FieldDenom then old_as VString (TransferMutation_OldDenom cl m old s)
      else if name = transfer_FieldCreatedAt then old_as VTime (TransferMutation_OldCreatedAt cl m old s)
      else (Inl (EMsg ''unknown Transfer field''), old, s))"

definition TransferMutation_AddedEdges :: "transfer_mutation \<Rightarrow> string list" where
  "TransferMutation_AddedEdges m = []"

definition TransferMutation_AddedIDs :: "transfer_mutation \<Rightarrow> string
    \<Rightarrow> int list" where
  "TransferMutation_AddedIDs m name = []"

definition TransferMutation_RemovedEdges :: "transfer_mutation \<Rightarrow> string list" where
  "TransferMutation_RemovedEdges m = []"

definition TransferMutation_RemovedIDs :: "transfer_mutation \<Rightarrow> string
    \<Rightarrow> int list" where
  "TransferMutation_RemovedIDs m name = []"

definition TransferMutation_ClearedEdges :: "transfer_mutation \<Rightarrow> string list" where
  "TransferMutation_ClearedEdges m = []"

definition TransferMutation_EdgeCleared :: "transfer_mutation \<Rightarrow> string
    \<Rightarrow> bool" where
  "TransferMutation_EdgeCleared m name = False"

definition TransferMutation_ClearEdge :: "transfer_mutation \<Rightarrow> string
    \<Rightarrow> err + transfer_mutation" where
  "TransferMutation_ClearEdge m name = Inl (EMsg ''unknown Transfer unique edge'')"

definition TransferMutation_ResetEdge :: "transfer_mutation \<Rightarrow> string
    \<Rightarrow> err + transfer_mutation" where
  "TransferMutation_ResetEdge m name = Inl (EMsg ''unknown Transfer edge'')"

lemmas transfer_client_defs = TransferDelete_Where_def TransferDelete_sqlExec_def TransferDelete_Exec_def
  TransferDelete_ExecX_def TransferDeleteOne_Where_def TransferDeleteOne_Exec_def
  TransferDeleteOne_ExecX_def withTransferID_def withTransfer_def
  TransferClient_MapCreateBulk_def TransferClient_Update_def TransferClient_UpdateOne_def
  TransferClient_UpdateOneID_def TransferClient_Delete_def TransferClient_DeleteOneID_def
  TransferClient_DeleteOne_def TransferClient_Query_def TransferClient_Get_def
  TransferClient_GetX_def TransferClient_mutate_def TransferMutation_Op_def
  TransferMutation_SetOp_def TransferMutation_Type_def TransferMutation_WhereP_def
  TransferMutation_IDs_def TransferMutation_OldHash_def TransferMutation_OldFunc_def
  TransferMutation_OldFromAddress_def TransferMutation_OldToAddress_def TransferMutation_OldToken_def
  TransferMutation_OldAmount_def TransferMutation_OldDenom_def TransferMutation_OldCreatedAt_def
  TransferMutation_OldField_def TransferMutation_AddedEdges_def TransferMutation_AddedIDs_def
  TransferMutation_RemovedEdges_def TransferMutation_RemovedIDs_def TransferMutation_ClearedEdges_def
  TransferMutation_EdgeCleared_def TransferMutation_ClearEdge_def TransferMutation_ResetEdge_def

section \<open>The client over all entities\<close>

datatype any_mutation =
    MAccount account_mutation
  | MBlock block_mutation
  | MRestoreHistory restorehistory_mutation
  | MTransaction transaction_mutation
  | MTransfer transfer_mutation

datatype any_node =
    NAccount ent_account
  | NBlock ent_block
  | NRestoreHistory ent_restorehistory
  | NTransaction ent_transaction
  | NTransfer ent_transfer

definition as_node :: "('n \<Rightarrow> any_node) \<Rightarrow> ('s, 'n + int) io \<Rightarrow> ('s, any_node + int) io" where
  "as_node mk f s = (case f s of (Inl e, s') \<Rightarrow> (Inl e, s')
     | (Inr (Inl n), s') \<Rightarrow> (Inr (Inl (mk n)), s') | (Inr (Inr k), s') \<Rightarrow> (Inr (Inr k), s'))"

fun Client_Mutate :: "'s ent_graph \<Rightarrow> any_mutation \<Rightarrow> ('s, any_node + int) io" where
  "Client_Mutate g (MAccount m) = as_node NAccount (AccountClient_mutate g m)"
| "Client_Mutate g (MBlock m) = as_node NBlock (BlockClient_mutate g m)"
| "Client_Mutate g (MRestoreHistory m) = as_node NRestoreHistory (RestoreHistoryClient_mutate g m)"
| "Client_Mutate g (MTransaction m) = as_node NTransaction (TransactionClient_mutate g m)"
| "Client_Mutate g (MTransfer m) = as_node NTransfer (TransferClient_mutate g m)"

end
