(* ===== verification/Ent_Hooks.thy ===== *)
theory Ent_Hooks
  imports Ent_Clients
begin

text \<open>
  Hooks and interceptors: the run of a builder inside the hooks of its client (\<^verbatim>\<open>withHooks\<close> in \<^verbatim>\<open>ent/ent.go\<close>, the
  \<^verbatim>\<open>Save\<close> and \<^verbatim>\<open>Exec\<close> methods), their registration (\<^verbatim>\<open>ent/client.go\<close>) and the combinators of \<^verbatim>\<open>ent/hook/hook.go\<close>.
  A mutator is a function of the mutation; a hook that changes the mutation calls the next mutator with the
  changed one. A value is a node or a number of rows, and \<open>None\<close> is Go's \<^verbatim>\<open>nil\<close>; in a list of registered
  hooks \<open>None\<close> is one that was never set. How two \<^verbatim>\<open>ent.Op\<close> match is the third-party package's: the parameter
  \<open>is_op\<close>, over masks of any type.
\<close>

type_synonym 's mutator = "any_mutation \<Rightarrow> ('s, (any_node + int) option) io"
type_synonym 's hook = "'s mutator \<Rightarrow> 's mutator"

section \<open>Running a builder inside its hooks\<close>

text \<open>The types a builder is instantiated with: its mutation and its value, each with its type assertion.\<close>

record ('m, 'v) builder_types =
  bt_mutation :: "'m \<Rightarrow> any_mutation"
  bt_as_mutation :: "any_mutation \<Rightarrow> 'm option"
  bt_value :: "'v \<Rightarrow> any_node + int"
  bt_as_value :: "any_node + int \<Rightarrow> 'v option"

definition exec_mutator :: "('m, 'v) builder_types \<Rightarrow> ('m \<Rightarrow> ('s, 'v) io) \<Rightarrow> 's mutator" where
  "exec_mutator t exec m s =
     (case bt_as_mutation t m of
        None \<Rightarrow> (Inl (EMsg ''unexpected mutation type''), s)
      | Some mt \<Rightarrow> (case exec mt s of (Inl e, s') \<Rightarrow> (Inl e, s') | (Inr v, s') \<Rightarrow> (Inr (Some (bt_value t v)), s')))"

fun wrap_hooks :: "'s hook option list \<Rightarrow> 's mutator \<Rightarrow> err + 's mutator" where
  "wrap_hooks [] mut = Inr mut"
| "wrap_hooks (h # hs) mut =
     (case wrap_hooks hs mut of
        Inl e \<Rightarrow> Inl e
      | Inr mut' \<Rightarrow>
          (case h of None \<Rightarrow> Inl (EMsg ''ent: uninitialized hook (forgotten import ent/runtime?)'')
           | Some hk \<Rightarrow> Inr (hk mut')))"

definition withHooks :: "('m, 'v) builder_types \<Rightarrow> ('m \<Rightarrow> ('s, 'v) io) \<Rightarrow> 'm \<Rightarrow> 's hook option list \<Rightarrow> ('s, 'v) io" where
  "withHooks t exec m hooks s =
     (if hooks = [] then exec m s
      else (case wrap_hooks hooks (exec_mutator t exec) of
          Inl e \<Rightarrow> (Inl e, s)
        | Inr mut \<Rightarrow>
            (case mut (bt_mutation t m) s of
               (Inl e, s') \<Rightarrow> (Inl e, s')
             | (Inr None, s') \<Rightarrow> (Inl (EMsg ''unexpected node type''), s')
             | (Inr (Some v), s') \<Rightarrow>
                 (case bt_as_value t v of None \<Rightarrow> (Inl (EMsg ''unexpected node type''), s')
                  | Some nv \<Rightarrow> (Inr nv, s')))))"

section \<open>The builders of the entities\<close>

definition node_types :: "('m \<Rightarrow> any_mutation) \<Rightarrow> (any_mutation \<Rightarrow> 'm option) \<Rightarrow> ('n \<Rightarrow> any_node)
    \<Rightarrow> (any_node \<Rightarrow> 'n option) \<Rightarrow> ('m, 'n) builder_types" where
  "node_types mk as_m mkn as_n = \<lparr>bt_mutation = mk, bt_as_mutation = as_m, bt_value = (\<lambda>n. Inl (mkn n)),
     bt_as_value = (\<lambda>v. case v of Inl n \<Rightarrow> as_n n | Inr k \<Rightarrow> None)\<rparr>"

definition count_types :: "('m \<Rightarrow> any_mutation) \<Rightarrow> (any_mutation \<Rightarrow> 'm option) \<Rightarrow> ('m, int) builder_types" where
  "count_types mk as_m = \<lparr>bt_mutation = mk, bt_as_mutation = as_m, bt_value = Inr,
     bt_as_value = (\<lambda>v. case v of Inl n \<Rightarrow> None | Inr k \<Rightarrow> Some k)\<rparr>"

definition as_AccountMutation :: "any_mutation \<Rightarrow> account_mutation option" where
  "as_AccountMutation m = (case m of MAccount x \<Rightarrow> Some x | _ \<Rightarrow> None)"

definition as_Account :: "any_node \<Rightarrow> ent_account option" where
  "as_Account n = (case n of NAccount x \<Rightarrow> Some x | _ \<Rightarrow> None)"

definition account_node_types :: "(account_mutation, ent_account) builder_types" where
  "account_node_types = node_types MAccount as_AccountMutation NAccount as_Account"

definition account_count_types :: "(account_mutation, int) builder_types" where
  "account_count_types = count_types MAccount as_AccountMutation"

definition as_BlockMutation :: "any_mutation \<Rightarrow> block_mutation option" where
  "as_BlockMutation m = (case m of MBlock x \<Rightarrow> Some x | _ \<Rightarrow> None)"

definition as_Block :: "any_node \<Rightarrow> ent_block option" where
  "as_Block n = (case n of NBlock x \<Rightarrow> Some x | _ \<Rightarrow> None)"

definition block_node_types :: "(block_mutation, ent_block) builder_types" where
  "block_node_types = node_types MBlock as_BlockMutation NBlock as_Block"

definition block_count_types :: "(block_mutation, int) builder_types" where
  "block_count_types = count_types MBlock as_BlockMutation"

definition as_RestoreHistoryMutation :: "any_mutation \<Rightarrow> restorehistory_mutation option" where
  "as_RestoreHistoryMutation m = (case m of MRestoreHistory x \<Rightarrow> Some x | _ \<Rightarrow> None)"

definition as_RestoreHistory :: "any_node \<Rightarrow> ent_restorehistory option" where
  "as_RestoreHistory n = (case n of NRestoreHistory x \<Rightarrow> Some x | _ \<Rightarrow> None)"

definition restorehistory_node_types :: "(restorehistory_mutation, ent_restorehistory) builder_types" where
  "restorehistory_node_types = node_types MRestoreHistory as_RestoreHistoryMutation NRestoreHistory as_RestoreHistory"

definition restorehistory_count_types :: "(restorehistory_mutation, int) builder_types" where
  "restorehistory_count_types = count_types MRestoreHistory as_RestoreHistoryMutation"

definition as_TransactionMutation :: "any_mutation \<Rightarrow> transaction_mutation option" where
  "as_TransactionMutation m = (case m of MTransaction x \<Rightarrow> Some x | _ \<Rightarrow> None)"

definition as_Transaction :: "any_node \<Rightarrow> ent_transaction option" where
  "as_Transaction n = (case n of NTransaction x \<Rightarrow> Some x | _ \<Rightarrow> None)"

definition transaction_node_types :: "(transaction_mutation, ent_transaction) builder_types" where
  "transaction_node_types = node_types MTransaction as_TransactionMutation NTransaction as_Transaction"

definition transaction_count_types :: "(transaction_mutation, int) builder_types" where
  "transaction_count_types = count_types MTransaction as_TransactionMutation"

definition as_TransferMutation :: "any_mutation \<Rightarrow> transfer_mutation option" where
  "as_TransferMutation m = (case m of MTransfer x \<Rightarrow> Some x | _ \<Rightarrow> None)"

definition as_Transfer :: "any_node \<Rightarrow> ent_transfer option" where
  "as_Transfer n = (case n of NTransfer x \<Rightarrow> Some x | _ \<Rightarrow> None)"

definition transfer_node_types :: "(transfer_mutation, ent_transfer) builder_types" where
  "transfer_node_types = node_types MTransfer as_TransferMutation NTransfer as_Transfer"

definition transfer_count_types :: "(transfer_mutation, int) builder_types" where
  "transfer_count_types = count_types MTransfer as_TransferMutation"

definition AccountCreate_hooked :: "'s hook option list \<Rightarrow> 's ent_client \<Rightarrow> account_create \<Rightarrow> ('s, ent_account) io" where
  "AccountCreate_hooked hooks cl c s =
     withHooks account_node_types (\<lambda>m. AccountCreate_sqlSave cl (c\<lparr>acb_mutation := m\<rparr>)) (acb_mutation c) hooks s"

definition AccountUpdate_hooked :: "'s hook option list \<Rightarrow> 's ent_client \<Rightarrow> account_update \<Rightarrow> ('s, int) io" where
  "AccountUpdate_hooked hooks cl u =
     withHooks account_count_types (\<lambda>m. AccountUpdate_sqlSave cl (u\<lparr>aub_mutation := m\<rparr>)) (aub_mutation u) hooks"

definition AccountUpdateOne_hooked :: "'s hook option list \<Rightarrow> 's ent_graph \<Rightarrow> account_update_one \<Rightarrow> ('s, ent_account) io" where
  "AccountUpdateOne_hooked hooks g u =
     withHooks account_node_types (\<lambda>m. AccountUpdateOne_sqlSave g (u\<lparr>auo_mutation := m\<rparr>)) (auo_mutation u) hooks"

definition AccountDelete_hooked :: "'s hook option list \<Rightarrow> 's ent_graph \<Rightarrow> account_delete \<Rightarrow> ('s, int) io" where
  "AccountDelete_hooked hooks g d =
     withHooks account_count_types (\<lambda>m. AccountDelete_sqlExec g (d\<lparr>adb_mutation := m\<rparr>)) (adb_mutation d) hooks"

definition BlockCreate_hooked :: "'s hook option list \<Rightarrow> 's ent_client \<Rightarrow> block_create \<Rightarrow> ('s, ent_block) io" where
  "BlockCreate_hooked hooks cl c s =
     (let c' = BlockCreate_defaults cl (Now cl 0 s) c in
      withHooks block_node_types (\<lambda>m. BlockCreate_sqlSave cl (c'\<lparr>bcb_mutation := m\<rparr>)) (bcb_mutation c') hooks s)"

definition BlockUpdate_hooked :: "'s hook option list \<Rightarrow> 's ent_client \<Rightarrow> block_update \<Rightarrow> ('s, int) io" where
  "BlockUpdate_hooked hooks cl u =
     withHooks block_count_types (\<lambda>m. BlockUpdate_sqlSave cl (u\<lparr>bub_mutation := m\<rparr>)) (bub_mutation u) hooks"

definition BlockUpdateOne_hooked :: "'s hook option list \<Rightarrow> 's ent_graph \<Rightarrow> block_update_one \<Rightarrow> ('s, ent_block) io" where
  "BlockUpdateOne_hooked hooks g u =
     withHooks block_node_types (\<lambda>m. BlockUpdateOne_sqlSave g (u\<lparr>buo_mutation := m\<rparr>)) (buo_mutation u) hooks"

definition BlockDelete_hooked :: "'s hook option list \<Rightarrow> 's ent_graph \<Rightarrow> block_delete \<Rightarrow> ('s, int) io" where
  "BlockDelete_hooked hooks g d =
     withHooks block_count_types (\<lambda>m. BlockDelete_sqlExec g (d\<lparr>bdb_mutation := m\<rparr>)) (bdb_mutation d) hooks"

definition RestoreHistoryCreate_hooked :: "'s hook option list \<Rightarrow> 's ent_client \<Rightarrow> restorehistory_create \<Rightarrow> ('s, ent_restorehistory) io" where
  "RestoreHistoryCreate_hooked hooks cl c s =
     withHooks restorehistory_node_types (\<lambda>m. RestoreHistoryCreate_sqlSave cl (c\<lparr>hcb_mutation := m\<rparr>)) (hcb_mutation c) hooks s"

definition RestoreHistoryUpdate_hooked :: "'s hook option list \<Rightarrow> 's ent_client \<Rightarrow> restorehistory_update \<Rightarrow> ('s, int) io" where
  "RestoreHistoryUpdate_hooked hooks cl u =
     withHooks restorehistory_count_types (\<lambda>m. RestoreHistoryUpdate_sqlSave cl (u\<lparr>hub_mutation := m\<rparr>)) (hub_mutation u) hooks"

definition RestoreHistoryUpdateOne_hooked :: "'s hook option list \<Rightarrow> 's ent_graph \<Rightarrow> restorehistory_update_one \<Rightarrow> ('s, ent_restorehistory) io" where
  "RestoreHistoryUpdateOne_hooked hooks g u =
     withHooks restorehistory_node_types (\<lambda>m. RestoreHistoryUpdateOne_sqlSave g (u\<lparr>huo_mutation := m\<rparr>)) (huo_mutation u) hooks"

definition RestoreHistoryDelete_hooked :: "'s hook option list \<Rightarrow> 's ent_graph \<Rightarrow> restorehistory_delete \<Rightarrow> ('s, int) io" where
  "RestoreHistoryDelete_hooked hooks g d =
     withHooks restorehistory_count_types (\<lambda>m. RestoreHistoryDelete_sqlExec g (d\<lparr>hdb_mutation := m\<rparr>)) (hdb_mutation d) hooks"

definition TransactionCreate_hooked :: "'s hook option list \<Rightarrow> 's ent_client \<Rightarrow> transaction_create \<Rightarrow> ('s, ent_transaction) io" where
  "TransactionCreate_hooked hooks cl c s =
     (let c' = TransactionCreate_defaults cl (Now cl 0 s) c in
      withHooks transaction_node_types (\<lambda>m. TransactionCreate_sqlSave cl (c'\<lparr>tcb_mutation := m\<rparr>)) (tcb_mutation c') hooks s)"

definition TransactionUpdate_hooked :: "'s hook option list \<Rightarrow> 's ent_client \<Rightarrow> transaction_update \<Rightarrow> ('s, int) io" where
  "TransactionUpdate_hooked hooks cl u =
     withHooks transaction_count_types (\<lambda>m. TransactionUpdate_sqlSave cl (u\<lparr>tub_mutation := m\<rparr>)) (tub_mutation u) hooks"

definition TransactionUpdateOne_hooked :: "'s hook option list \<Rightarrow> 's ent_graph \<Rightarrow> transaction_update_one \<Rightarrow> ('s, ent_transaction) io" where
  "TransactionUpdateOne_hooked hooks g u =
     withHooks transaction_node_types (\<lambda>m. TransactionUpdateOne_sqlSave g (u\<lparr>tuo_mutation := m\<rparr>)) (tuo_mutation u) hooks"

definition TransactionDelete_hooked :: "'s hook option list \<Rightarrow> 's ent_graph \<Rightarrow> transaction_delete \<Rightarrow> ('s, int) io" where
  "TransactionDelete_hooked hooks g d =
     withHooks transaction_count_types (\<lambda>m. TransactionDelete_sqlExec g (d\<lparr>tdb_mutation := m\<rparr>)) (tdb_mutation d) hooks"

definition TransferCreate_hooked :: "'s hook option list \<Rightarrow> 's ent_client \<Rightarrow> transfer_create \<Rightarrow> ('s, ent_transfer) io" where
  "TransferCreate_hooked hooks cl c s =
     (let c' = TransferCreate_defaults cl (Now cl 0 s) c in
      withHooks transfer_node_types (\<lambda>m. TransferCreate_sqlSave cl (c'\<lparr>fcb_mutation := m\<rparr>)) (fcb_mutation c') hooks s)"

definition TransferUpdate_hooked :: "'s hook option list \<Rightarrow> 's ent_client \<Rightarrow> transfer_update \<Rightarrow> ('s, int) io" where
  "TransferUpdate_hooked hooks cl u =
     withHooks transfer_count_types (\<lambda>m. TransferUpdate_sqlSave cl (u\<lparr>fub_mutation := m\<rparr>)) (fub_mutation u) hooks"

definition TransferUpdateOne_hooked :: "'s hook option list \<Rightarrow> 's ent_graph \<Rightarrow> transfer_update_one \<Rightarrow> ('s, ent_transfer) io" where
  "TransferUpdateOne_hooked hooks g u =
     withHooks transfer_node_types (\<lambda>m. TransferUpdateOne_sqlSave g (u\<lparr>fuo_mutation := m\<rparr>)) (fuo_mutation u) hooks"

definition TransferDelete_hooked :: "'s hook option list \<Rightarrow> 's ent_graph \<Rightarrow> transfer_delete \<Rightarrow> ('s, int) io" where
  "TransferDelete_hooked hooks g d =
     withHooks transfer_count_types (\<lambda>m. TransferDelete_sqlExec g (d\<lparr>fdb_mutation := m\<rparr>)) (fdb_mutation d) hooks"

section \<open>Registration (\<^verbatim>\<open>ent/client.go\<close>)\<close>

text \<open>The hooks of a client, by entity. A Go client holds a pointer to them, so that clients made from the same
  configuration, a transaction's among them, see every later registration: here they are passed along.\<close>

record 's ent_hooks =
  hk_Account :: "'s hook option list"
  hk_Block :: "'s hook option list"
  hk_RestoreHistory :: "'s hook option list"
  hk_Transaction :: "'s hook option list"
  hk_Transfer :: "'s hook option list"

definition no_hooks :: "'s ent_hooks" where
  "no_hooks = \<lparr>hk_Account = [], hk_Block = [], hk_RestoreHistory = [], hk_Transaction = [], hk_Transfer = []\<rparr>"

definition AccountClient_Use :: "'s hook option list \<Rightarrow> 's ent_hooks \<Rightarrow> 's ent_hooks" where
  "AccountClient_Use hooks h = h\<lparr>hk_Account := hk_Account h @ hooks\<rparr>"

definition AccountClient_Hooks :: "'s ent_hooks \<Rightarrow> 's hook option list" where
  "AccountClient_Hooks h = hk_Account h"

definition BlockClient_Use :: "'s hook option list \<Rightarrow> 's ent_hooks \<Rightarrow> 's ent_hooks" where
  "BlockClient_Use hooks h = h\<lparr>hk_Block := hk_Block h @ hooks\<rparr>"

definition BlockClient_Hooks :: "'s ent_hooks \<Rightarrow> 's hook option list" where
  "BlockClient_Hooks h = hk_Block h"

definition RestoreHistoryClient_Use :: "'s hook option list \<Rightarrow> 's ent_hooks \<Rightarrow> 's ent_hooks" where
  "RestoreHistoryClient_Use hooks h = h\<lparr>hk_RestoreHistory := hk_RestoreHistory h @ hooks\<rparr>"

definition RestoreHistoryClient_Hooks :: "'s ent_hooks \<Rightarrow> 's hook option list" where
  "RestoreHistoryClient_Hooks h = hk_RestoreHistory h"

definition TransactionClient_Use :: "'s hook option list \<Rightarrow> 's ent_hooks \<Rightarrow> 's ent_hooks" where
  "TransactionClient_Use hooks h = h\<lparr>hk_Transaction := hk_Transaction h @ hooks\<rparr>"

definition TransactionClient_Hooks :: "'s ent_hooks \<Rightarrow> 's hook option list" where
  "TransactionClient_Hooks h = hk_Transaction h"

definition TransferClient_Use :: "'s hook option list \<Rightarrow> 's ent_hooks \<Rightarrow> 's ent_hooks" where
  "TransferClient_Use hooks h = h\<lparr>hk_Transfer := hk_Transfer h @ hooks\<rparr>"

definition TransferClient_Hooks :: "'s ent_hooks \<Rightarrow> 's hook option list" where
  "TransferClient_Hooks h = hk_Transfer h"

definition Client_Use :: "'s hook option list \<Rightarrow> 's ent_hooks \<Rightarrow> 's ent_hooks" where
  "Client_Use hooks h = TransferClient_Use hooks (TransactionClient_Use hooks (RestoreHistoryClient_Use hooks
     (BlockClient_Use hooks (AccountClient_Use hooks h))))"

text \<open>\<^verbatim>\<open>mutate\<close> of an entity client hands its hooks to the builder it makes.\<close>

definition to_node :: "('s, 'n) io \<Rightarrow> ('s, 'n + int) io" where
  "to_node f s = (case f s of (Inl e, s') \<Rightarrow> (Inl e, s') | (Inr r, s') \<Rightarrow> (Inr (Inl r), s'))"

definition to_count :: "('s, int) io \<Rightarrow> ('s, 'n + int) io" where
  "to_count f s = (case f s of (Inl e, s') \<Rightarrow> (Inl e, s') | (Inr r, s') \<Rightarrow> (Inr (Inr r), s'))"

definition AccountClient_mutate_hooked :: "'s ent_hooks \<Rightarrow> 's ent_graph \<Rightarrow> account_mutation \<Rightarrow> ('s, ent_account + int) io" where
  "AccountClient_mutate_hooked h g m =
     (case AccountMutation_Op m of
        OpCreate \<Rightarrow> to_node (AccountCreate_hooked (AccountClient_Hooks h) (eg_client g) \<lparr>acb_mutation = m, acb_conflict = []\<rparr>)
      | OpUpdate \<Rightarrow> to_count (AccountUpdate_hooked (AccountClient_Hooks h) (eg_client g) \<lparr>aub_mutation = m\<rparr>)
      | OpUpdateOne \<Rightarrow> to_node (AccountUpdateOne_hooked (AccountClient_Hooks h) g \<lparr>auo_fields = [], auo_mutation = m\<rparr>)
      | _ \<Rightarrow> to_count (AccountDelete_hooked (AccountClient_Hooks h) g \<lparr>adb_mutation = m\<rparr>))"

definition BlockClient_mutate_hooked :: "'s ent_hooks \<Rightarrow> 's ent_graph \<Rightarrow> block_mutation \<Rightarrow> ('s, ent_block + int) io" where
  "BlockClient_mutate_hooked h g m =
     (case BlockMutation_Op m of
        OpCreate \<Rightarrow> to_node (BlockCreate_hooked (BlockClient_Hooks h) (eg_client g) \<lparr>bcb_mutation = m, bcb_conflict = []\<rparr>)
      | OpUpdate \<Rightarrow> to_count (BlockUpdate_hooked (BlockClient_Hooks h) (eg_client g) \<lparr>bub_mutation = m\<rparr>)
      | OpUpdateOne \<Rightarrow> to_node (BlockUpdateOne_hooked (BlockClient_Hooks h) g \<lparr>buo_fields = [], buo_mutation = m\<rparr>)
      | _ \<Rightarrow> to_count (BlockDelete_hooked (BlockClient_Hooks h) g \<lparr>bdb_mutation = m\<rparr>))"

definition RestoreHistoryClient_mutate_hooked :: "'s ent_hooks \<Rightarrow> 's ent_graph \<Rightarrow> restorehistory_mutation \<Rightarrow> ('s, ent_restorehistory + int) io" where
  "RestoreHistoryClient_mutate_hooked h g m =
     (case RestoreHistoryMutation_Op m of
        OpCreate \<Rightarrow> to_node (RestoreHistoryCreate_hooked (RestoreHistoryClient_Hooks h) (eg_client g) \<lparr>hcb_mutation = m, hcb_conflict = []\<rparr>)
      | OpUpdate \<Rightarrow> to_count (RestoreHistoryUpdate_hooked (RestoreHistoryClient_Hooks h) (eg_client g) \<lparr>hub_mutation = m\<rparr>)
      | OpUpdateOne \<Rightarrow> to_node (RestoreHistoryUpdateOne_hooked (RestoreHistoryClient_Hooks h) g \<lparr>huo_fields = [], huo_mutation = m\<rparr>)
      | _ \<Rightarrow> to_count (RestoreHistoryDelete_hooked (RestoreHistoryClient_Hooks h) g \<lparr>hdb_mutation = m\<rparr>))"

definition TransactionClient_mutate_hooked :: "'s ent_hooks \<Rightarrow> 's ent_graph \<Rightarrow> transaction_mutation \<Rightarrow> ('s, ent_transaction + int) io" where
  "TransactionClient_mutate_hooked h g m =
     (case TransactionMutation_Op m of
        OpCreate \<Rightarrow> to_node (TransactionCreate_hooked (TransactionClient_Hooks h) (eg_client g) \<lparr>tcb_mutation = m, tcb_conflict = []\<rparr>)
      | OpUpdate \<Rightarrow> to_count (TransactionUpdate_hooked (TransactionClient_Hooks h) (eg_client g) \<lparr>tub_mutation = m\<rparr>)
      | OpUpdateOne \<Rightarrow> to_node (TransactionUpdateOne_hooked (TransactionClient_Hooks h) g \<lparr>tuo_fields = [], tuo_mutation = m\<rparr>)
      | _ \<Rightarrow> to_count (TransactionDelete_hooked (TransactionClient_Hooks h) g \<lparr>tdb_mutation = m\<rparr>))"

definition TransferClient_mutate_hooked :: "'s ent_hooks \<Rightarrow> 's ent_graph \<Rightarrow> transfer_mutation \<Rightarrow> ('s, ent_transfer + int) io" where
  "TransferClient_mutate_hooked h g m =
     (case TransferMutation_Op m of
        OpCreate \<Rightarrow> to_node (TransferCreate_hooked (TransferClient_Hooks h) (eg_client g) \<lparr>fcb_mutation = m, fcb_conflict = []\<rparr>)
      | OpUpdate \<Rightarrow> to_count (TransferUpdate_hooked (TransferClient_Hooks h) (eg_client g) \<lparr>fub_mutation = m\<rparr>)
      | OpUpdateOne \<Rightarrow> to_node (TransferUpdateOne_hooked (TransferClient_Hooks h) g \<lparr>fuo_fields = [], fuo_mutation = m\<rparr>)
      | _ \<Rightarrow> to_count (TransferDelete_hooked (TransferClient_Hooks h) g \<lparr>fdb_mutation = m\<rparr>))"

fun Client_Mutate_hooked :: "'s ent_hooks \<Rightarrow> 's ent_graph \<Rightarrow> any_mutation \<Rightarrow> ('s, any_node + int) io" where
  "Client_Mutate_hooked h g (MAccount m) = as_node NAccount (AccountClient_mutate_hooked h g m)"
| "Client_Mutate_hooked h g (MBlock m) = as_node NBlock (BlockClient_mutate_hooked h g m)"
| "Client_Mutate_hooked h g (MRestoreHistory m) = as_node NRestoreHistory (RestoreHistoryClient_mutate_hooked h g m)"
| "Client_Mutate_hooked h g (MTransaction m) = as_node NTransaction (TransactionClient_mutate_hooked h g m)"
| "Client_Mutate_hooked h g (MTransfer m) = as_node NTransfer (TransferClient_mutate_hooked h g m)"

section \<open>The combinators (\<^verbatim>\<open>ent/hook/hook.go\<close>)\<close>

text \<open>The adapters give a function on the mutations of one entity the interface of a mutator.\<close>

definition AccountFunc_Mutate :: "(account_mutation \<Rightarrow> ('s, (any_node + int) option) io) \<Rightarrow> 's mutator" where
  "AccountFunc_Mutate f m s = (case m of MAccount mv \<Rightarrow> f mv s | _ \<Rightarrow> (Inl (EMsg ''unexpected mutation type''), s))"

definition BlockFunc_Mutate :: "(block_mutation \<Rightarrow> ('s, (any_node + int) option) io) \<Rightarrow> 's mutator" where
  "BlockFunc_Mutate f m s = (case m of MBlock mv \<Rightarrow> f mv s | _ \<Rightarrow> (Inl (EMsg ''unexpected mutation type''), s))"

definition RestoreHistoryFunc_Mutate :: "(restorehistory_mutation \<Rightarrow> ('s, (any_node + int) option) io) \<Rightarrow> 's mutator" where
  "RestoreHistoryFunc_Mutate f m s = (case m of MRestoreHistory mv \<Rightarrow> f mv s | _ \<Rightarrow> (Inl (EMsg ''unexpected mutation type''), s))"

definition TransactionFunc_Mutate :: "(transaction_mutation \<Rightarrow> ('s, (any_node + int) option) io) \<Rightarrow> 's mutator" where
  "TransactionFunc_Mutate f m s = (case m of MTransaction mv \<Rightarrow> f mv s | _ \<Rightarrow> (Inl (EMsg ''unexpected mutation type''), s))"

definition TransferFunc_Mutate :: "(transfer_mutation \<Rightarrow> ('s, (any_node + int) option) io) \<Rightarrow> 's mutator" where
  "TransferFunc_Mutate f m s = (case m of MTransfer mv \<Rightarrow> f mv s | _ \<Rightarrow> (Inl (EMsg ''unexpected mutation type''), s))"

fun Mutation_Op :: "any_mutation \<Rightarrow> ent_op" where
  "Mutation_Op (MAccount m) = AccountMutation_Op m"
| "Mutation_Op (MBlock m) = BlockMutation_Op m"
| "Mutation_Op (MRestoreHistory m) = RestoreHistoryMutation_Op m"
| "Mutation_Op (MTransaction m) = TransactionMutation_Op m"
| "Mutation_Op (MTransfer m) = TransferMutation_Op m"

fun Mutation_Field :: "string \<Rightarrow> any_mutation \<Rightarrow> ent_value option" where
  "Mutation_Field name (MAccount m) = AccountMutation_Field name m"
| "Mutation_Field name (MBlock m) = BlockMutation_Field name m"
| "Mutation_Field name (MRestoreHistory m) = RestoreHistoryMutation_Field name m"
| "Mutation_Field name (MTransaction m) = TransactionMutation_Field name m"
| "Mutation_Field name (MTransfer m) = TransferMutation_Field name m"

fun Mutation_AddedField :: "string \<Rightarrow> any_mutation \<Rightarrow> ent_value option" where
  "Mutation_AddedField name (MAccount m) = AccountMutation_AddedField name m"
| "Mutation_AddedField name (MBlock m) = BlockMutation_AddedField name m"
| "Mutation_AddedField name (MRestoreHistory m) = RestoreHistoryMutation_AddedField name m"
| "Mutation_AddedField name (MTransaction m) = TransactionMutation_AddedField name m"
| "Mutation_AddedField name (MTransfer m) = TransferMutation_AddedField name m"

fun Mutation_FieldCleared :: "string \<Rightarrow> any_mutation \<Rightarrow> bool" where
  "Mutation_FieldCleared name (MAccount m) = AccountMutation_FieldCleared name m"
| "Mutation_FieldCleared name (MBlock m) = BlockMutation_FieldCleared name m"
| "Mutation_FieldCleared name (MRestoreHistory m) = RestoreHistoryMutation_FieldCleared name m"
| "Mutation_FieldCleared name (MTransaction m) = TransactionMutation_FieldCleared name m"
| "Mutation_FieldCleared name (MTransfer m) = TransferMutation_FieldCleared name m"

type_synonym condition = "any_mutation \<Rightarrow> bool"

definition hook_And :: "condition \<Rightarrow> condition \<Rightarrow> condition list \<Rightarrow> condition" where
  "hook_And first second rest m =
     (if \<not> first m \<or> \<not> second m then False else list_all (\<lambda>cond. cond m) rest)"

definition hook_Or :: "condition \<Rightarrow> condition \<Rightarrow> condition list \<Rightarrow> condition" where
  "hook_Or first second rest m =
     (if first m \<or> second m then True else list_ex (\<lambda>cond. cond m) rest)"

definition hook_Not :: "condition \<Rightarrow> condition" where
  "hook_Not cond m \<longleftrightarrow> \<not> cond m"

definition HasOp :: "(ent_op \<Rightarrow> 'o \<Rightarrow> bool) \<Rightarrow> 'o \<Rightarrow> condition" where
  "HasOp is_op op m = is_op (Mutation_Op m) op"

definition HasAddedFields :: "string \<Rightarrow> string list \<Rightarrow> condition" where
  "HasAddedFields f fs m = (if Mutation_AddedField f m = None then False
     else list_all (\<lambda>name. Mutation_AddedField name m \<noteq> None) fs)"

definition HasClearedFields :: "string \<Rightarrow> string list \<Rightarrow> condition" where
  "HasClearedFields f fs m = (if \<not> Mutation_FieldCleared f m then False
     else list_all (\<lambda>name. Mutation_FieldCleared name m) fs)"

definition HasFields :: "string \<Rightarrow> string list \<Rightarrow> condition" where
  "HasFields f fs m = (if Mutation_Field f m = None then False
     else list_all (\<lambda>name. Mutation_Field name m \<noteq> None) fs)"

definition hook_If :: "'s hook \<Rightarrow> condition \<Rightarrow> 's hook" where
  "hook_If hk cond nxt m s = (if cond m then hk nxt m s else nxt m s)"

definition hook_On :: "(ent_op \<Rightarrow> 'o \<Rightarrow> bool) \<Rightarrow> 's hook \<Rightarrow> 'o \<Rightarrow> 's hook" where
  "hook_On is_op hk op = hook_If hk (HasOp is_op op)"

definition hook_Unless :: "(ent_op \<Rightarrow> 'o \<Rightarrow> bool) \<Rightarrow> 's hook \<Rightarrow> 'o \<Rightarrow> 's hook" where
  "hook_Unless is_op hk op = hook_If hk (hook_Not (HasOp is_op op))"

definition FixedError :: "err \<Rightarrow> 's hook" where
  "FixedError e nxt m s = (Inl e, s)"

definition Reject :: "(ent_op \<Rightarrow> 'o \<Rightarrow> bool) \<Rightarrow> 'o \<Rightarrow> 's hook" where
  "Reject is_op op = (let hk = FixedError (EMsg ''operation is not allowed'') in hook_On is_op hk op)"

record 's chain =
  ch_hooks :: "'s hook list"

definition NewChain :: "'s hook list \<Rightarrow> 's chain" where
  "NewChain hooks = \<lparr>ch_hooks = hooks\<rparr>"

definition Chain_Hook :: "'s chain \<Rightarrow> 's hook" where
  "Chain_Hook c mutator = foldr (\<lambda>hk mut. hk mut) (ch_hooks c) mutator"

definition Chain_Append :: "'s hook list \<Rightarrow> 's chain \<Rightarrow> 's chain" where
  "Chain_Append hooks c = \<lparr>ch_hooks = ch_hooks c @ hooks\<rparr>"

definition Chain_Extend :: "'s chain \<Rightarrow> 's chain \<Rightarrow> 's chain" where
  "Chain_Extend chain c = Chain_Append (ch_hooks chain) c"

end
