(* ===== verification/Hook_Laws.thy ===== *)
theory Hook_Laws
  imports Ent_Hooks
begin

text \<open>
  What registered hooks do to a builder: without hooks it is the builder of the other theories, a chain is the
  list of its hooks, and a rejecting hook stands before everything registered after it. Proved once for
  \<open>withHooks\<close> over faithful types, then for the clients of the five entities.
\<close>

section \<open>One builder\<close>

definition faithful :: "('m, 'v) builder_types \<Rightarrow> bool" where
  "faithful t \<longleftrightarrow> (\<forall>m. bt_as_mutation t (bt_mutation t m) = Some m) \<and> (\<forall>v. bt_as_value t (bt_value t v) = Some v)"

lemmas type_defs = account_node_types_def account_count_types_def block_node_types_def block_count_types_def
  restorehistory_node_types_def restorehistory_count_types_def transaction_node_types_def
  transaction_count_types_def transfer_node_types_def transfer_count_types_def node_types_def count_types_def
  as_AccountMutation_def as_BlockMutation_def as_RestoreHistoryMutation_def as_TransactionMutation_def
  as_TransferMutation_def as_Account_def as_Block_def as_RestoreHistory_def as_Transaction_def as_Transfer_def

lemma faithful_types [simp]:
  "faithful account_node_types" "faithful account_count_types" "faithful block_node_types"
  "faithful block_count_types" "faithful restorehistory_node_types" "faithful restorehistory_count_types"
  "faithful transaction_node_types" "faithful transaction_count_types" "faithful transfer_node_types"
  "faithful transfer_count_types"
  by (simp_all add: faithful_def type_defs)

lemma mutation_types [simp]:
  "bt_mutation account_node_types = MAccount" "bt_mutation account_count_types = MAccount"
  "bt_mutation block_node_types = MBlock" "bt_mutation block_count_types = MBlock"
  "bt_mutation restorehistory_node_types = MRestoreHistory" "bt_mutation restorehistory_count_types = MRestoreHistory"
  "bt_mutation transaction_node_types = MTransaction" "bt_mutation transaction_count_types = MTransaction"
  "bt_mutation transfer_node_types = MTransfer" "bt_mutation transfer_count_types = MTransfer"
  by (simp_all add: type_defs)

lemma withHooks_none [simp]: "withHooks t exec m [] s = exec m s"
  by (simp add: withHooks_def)

lemma wrap_hooks_set: "wrap_hooks (map Some hs) mut = Inr (foldr (\<lambda>hk mut. hk mut) hs mut)"
  by (induction hs) simp_all

lemma wrap_hooks_append:
  "wrap_hooks (hs @ ks) mut = (case wrap_hooks ks mut of Inl e \<Rightarrow> Inl e | Inr mut' \<Rightarrow> wrap_hooks hs mut')"
  by (induction hs) (auto split: sum.split option.split)

text \<open>Going through the wrappers without hooks is running the builder.\<close>

lemma withHooks_wrapped:
  assumes "faithful t"
  shows "withHooks t exec m hooks s =
    (case wrap_hooks hooks (exec_mutator t exec) of
       Inl e \<Rightarrow> (Inl e, s)
     | Inr mut \<Rightarrow>
         (case mut (bt_mutation t m) s of
            (Inl e, s') \<Rightarrow> (Inl e, s')
          | (Inr None, s') \<Rightarrow> (Inl (EMsg ''unexpected node type''), s')
          | (Inr (Some v), s') \<Rightarrow>
              (case bt_as_value t v of None \<Rightarrow> (Inl (EMsg ''unexpected node type''), s') | Some nv \<Rightarrow> (Inr nv, s'))))"
  using assms by (auto simp: withHooks_def exec_mutator_def faithful_def split: prod.split sum.split)

lemma withHooks_chain:
  assumes "faithful t"
  shows "withHooks t exec m (hooks @ map Some hs) s = withHooks t exec m (hooks @ [Some (Chain_Hook (NewChain hs))]) s"
  by (simp add: withHooks_wrapped [OF assms] wrap_hooks_append wrap_hooks_set Chain_Hook_def NewChain_def)

lemma withHooks_reject:
  assumes "faithful t"
  shows "withHooks t exec m (Some (Reject is_op op) # map Some hs) s =
    (if is_op (Mutation_Op (bt_mutation t m)) op then (Inl (EMsg ''operation is not allowed''), s)
     else withHooks t exec m (map Some hs) s)"
  by (simp add: withHooks_wrapped [OF assms] wrap_hooks_set Reject_def hook_On_def hook_If_def HasOp_def FixedError_def)

section \<open>The clients\<close>

lemmas hooked_defs = AccountCreate_hooked_def AccountUpdate_hooked_def AccountUpdateOne_hooked_def
  AccountDelete_hooked_def BlockCreate_hooked_def BlockUpdate_hooked_def BlockUpdateOne_hooked_def
  BlockDelete_hooked_def RestoreHistoryCreate_hooked_def RestoreHistoryUpdate_hooked_def
  RestoreHistoryUpdateOne_hooked_def RestoreHistoryDelete_hooked_def TransactionCreate_hooked_def
  TransactionUpdate_hooked_def TransactionUpdateOne_hooked_def TransactionDelete_hooked_def
  TransferCreate_hooked_def TransferUpdate_hooked_def TransferUpdateOne_hooked_def TransferDelete_hooked_def

lemmas hooked_mutate_defs = AccountClient_mutate_hooked_def BlockClient_mutate_hooked_def
  RestoreHistoryClient_mutate_hooked_def TransactionClient_mutate_hooked_def TransferClient_mutate_hooked_def

lemmas use_defs = Client_Use_def AccountClient_Use_def BlockClient_Use_def RestoreHistoryClient_Use_def
  TransactionClient_Use_def TransferClient_Use_def AccountClient_Hooks_def BlockClient_Hooks_def
  RestoreHistoryClient_Hooks_def TransactionClient_Hooks_def TransferClient_Hooks_def no_hooks_def

lemmas plain_defs = AccountCreate_Save_def AccountUpdate_Save_def AccountUpdateOne_Save_def AccountDelete_Exec_def
  BlockCreate_Save_def BlockUpdate_Save_def BlockUpdateOne_Save_def BlockDelete_Exec_def
  RestoreHistoryCreate_Save_def RestoreHistoryUpdate_Save_def RestoreHistoryUpdateOne_Save_def
  RestoreHistoryDelete_Exec_def TransactionCreate_Save_def TransactionUpdate_Save_def
  TransactionUpdateOne_Save_def TransactionDelete_Exec_def TransferCreate_Save_def TransferUpdate_Save_def
  TransferUpdateOne_Save_def TransferDelete_Exec_def

lemmas op_defs = AccountMutation_Op_def BlockMutation_Op_def RestoreHistoryMutation_Op_def
  TransactionMutation_Op_def TransferMutation_Op_def

lemma defaults_op [simp]:
  "bm_op (bcb_mutation (BlockCreate_defaults cl now bc)) = bm_op (bcb_mutation bc)"
  "tm_op (tcb_mutation (TransactionCreate_defaults cl now tc)) = tm_op (tcb_mutation tc)"
  "fm_op (fcb_mutation (TransferCreate_defaults cl now fc)) = fm_op (fcb_mutation fc)"
  by (simp_all add: BlockCreate_defaults_def TransactionCreate_defaults_def TransferCreate_defaults_def
    BlockCreate_SetCreatedAt_def TransactionCreate_SetCreatedAt_def TransferCreate_SetCreatedAt_def
    BlockMutation_SetCreatedAt_def TransactionMutation_SetCreatedAt_def TransferMutation_SetCreatedAt_def
    TransactionCreate_SetSuccess_def TransactionMutation_SetSuccess_def Let_def
    split: option.split)

lemma no_hooks_create:
  "AccountCreate_hooked [] cl ac s = AccountCreate_Save cl ac s"
  "BlockCreate_hooked [] cl bc s = BlockCreate_Save cl bc s"
  "RestoreHistoryCreate_hooked [] cl hc s = RestoreHistoryCreate_Save cl hc s"
  "TransactionCreate_hooked [] cl tc s = TransactionCreate_Save cl tc s"
  "TransferCreate_hooked [] cl fc s = TransferCreate_Save cl fc s"
  by (simp_all add: hooked_defs plain_defs Let_def)

lemma no_hooks_others:
  "AccountUpdate_hooked [] cl au = AccountUpdate_Save cl au" "AccountUpdateOne_hooked [] g ao = AccountUpdateOne_Save g ao"
  "AccountDelete_hooked [] g ad = AccountDelete_Exec g ad"
  "BlockUpdate_hooked [] cl bu = BlockUpdate_Save cl bu" "BlockUpdateOne_hooked [] g bo = BlockUpdateOne_Save g bo"
  "BlockDelete_hooked [] g bd = BlockDelete_Exec g bd"
  "RestoreHistoryUpdate_hooked [] cl hu = RestoreHistoryUpdate_Save cl hu"
  "RestoreHistoryUpdateOne_hooked [] g ho = RestoreHistoryUpdateOne_Save g ho"
  "RestoreHistoryDelete_hooked [] g hx = RestoreHistoryDelete_Exec g hx"
  "TransactionUpdate_hooked [] cl tu = TransactionUpdate_Save cl tu"
  "TransactionUpdateOne_hooked [] g to = TransactionUpdateOne_Save g to"
  "TransactionDelete_hooked [] g td = TransactionDelete_Exec g td"
  "TransferUpdate_hooked [] cl fu = TransferUpdate_Save cl fu" "TransferUpdateOne_hooked [] g fo = TransferUpdateOne_Save g fo"
  "TransferDelete_hooked [] g fd = TransferDelete_Exec g fd"
  by (auto simp: hooked_defs plain_defs fun_eq_iff)

lemma clients_without_hooks:
  "AccountClient_mutate_hooked no_hooks g am s = AccountClient_mutate g am s"
  "BlockClient_mutate_hooked no_hooks g bm s = BlockClient_mutate g bm s"
  "RestoreHistoryClient_mutate_hooked no_hooks g hm s = RestoreHistoryClient_mutate g hm s"
  "TransactionClient_mutate_hooked no_hooks g tm s = TransactionClient_mutate g tm s"
  "TransferClient_mutate_hooked no_hooks g fm s = TransferClient_mutate g fm s"
  by (simp_all add: hooked_mutate_defs use_defs no_hooks_create no_hooks_others to_node_def to_count_def op_defs
    AccountClient_mutate_def BlockClient_mutate_def RestoreHistoryClient_mutate_def TransactionClient_mutate_def
    TransferClient_mutate_def split: ent_op.split)

lemma mutate_without_hooks: "Client_Mutate_hooked no_hooks g m s = Client_Mutate g m s"
  by (cases m) (simp_all add: as_node_def clients_without_hooks)

lemma mutate_chain:
  "Client_Mutate_hooked (Client_Use (map Some hs) h) g m s
     = Client_Mutate_hooked (Client_Use [Some (Chain_Hook (NewChain hs))] h) g m s"
  by (cases m) (simp_all add: as_node_def hooked_mutate_defs hooked_defs use_defs to_node_def to_count_def
    withHooks_chain Let_def split: ent_op.split)

lemma mutate_reject:
  "Client_Mutate_hooked (Client_Use (Some (Reject is_op op) # map Some hs) no_hooks) g m s =
    (if is_op (Mutation_Op m) op then (Inl (EMsg ''operation is not allowed''), s)
     else Client_Mutate_hooked (Client_Use (map Some hs) no_hooks) g m s)"
  by (cases m) (auto simp: as_node_def hooked_mutate_defs hooked_defs use_defs to_node_def to_count_def
    withHooks_reject Let_def op_defs split: ent_op.split)

lemma chain_append:
  "Chain_Hook (Chain_Append hs c) mut = Chain_Hook c (Chain_Hook (NewChain hs) mut)"
  "Chain_Hook (Chain_Extend d c) mut = Chain_Hook c (Chain_Hook d mut)"
  by (simp_all add: Chain_Hook_def Chain_Append_def Chain_Extend_def NewChain_def)

end
