(* ===== verification/Ent_Intercept.thy ===== *)
theory Ent_Intercept
  imports Ent_Query_Ops
begin

text \<open>
  Interceptors: the run of a query inside the interceptors of its client (\<^verbatim>\<open>withInterceptors\<close>, \<^verbatim>\<open>querierAll\<close> and
  \<^verbatim>\<open>querierCount\<close> in \<^verbatim>\<open>ent/ent.go\<close>, \<^verbatim>\<open>All\<close>, \<^verbatim>\<open>Count\<close> and \<^verbatim>\<open>prepareQuery\<close> in \<^verbatim>\<open>ent/*_query.go\<close>) and their
  registration (\<^verbatim>\<open>ent/client.go\<close>). A querier is a function of the query. A traverser changes the query it is
  given before it runs, so it returns the changed one, which stays a query of its entity. \<open>None\<close> is a nil
  answer, or an interceptor never set.
\<close>

section \<open>Queriers\<close>

datatype entity = IsAccount | IsBlock | IsRestoreHistory | IsTransaction | IsTransfer

datatype any_query = QAccount ent_query | QBlock ent_query | QRestoreHistory ent_query | QTransaction ent_query | QTransfer ent_query

datatype any_answer =
    AAccount "ent_account list"
  | ABlock "ent_block list"
  | ARestoreHistory "ent_restorehistory list"
  | ATransaction "ent_transaction list"
  | ATransfer "ent_transfer list"
  | ACount int

type_synonym 's querier = "any_query \<Rightarrow> ('s, any_answer option) io"

record 's interceptor =
  ic_Intercept :: "'s querier \<Rightarrow> 's querier"
  ic_Traverse :: "(entity \<Rightarrow> ent_query \<Rightarrow> ('s, ent_query) io) option"

text \<open>The type assertions of a querier: that of its query, and the injection of its answer.\<close>

definition querierAll :: "(any_query \<Rightarrow> ent_query option) \<Rightarrow> ('n list \<Rightarrow> any_answer)
    \<Rightarrow> (ent_query \<Rightarrow> ('s, 'n list) io) \<Rightarrow> 's querier" where
  "querierAll as_q mk all q s =
     (case as_q q of None \<Rightarrow> (Inl (EMsg ''unexpected query type''), s)
      | Some query \<Rightarrow> (case all query s of (Inl e, s') \<Rightarrow> (Inl e, s') | (Inr ns, s') \<Rightarrow> (Inr (Some (mk ns)), s')))"

definition querierCount :: "(any_query \<Rightarrow> ent_query option) \<Rightarrow> (ent_query \<Rightarrow> ('s, int) io) \<Rightarrow> 's querier" where
  "querierCount as_q count q s =
     (case as_q q of None \<Rightarrow> (Inl (EMsg ''unexpected query type''), s)
      | Some query \<Rightarrow> (case count query s of (Inl e, s') \<Rightarrow> (Inl e, s') | (Inr n, s') \<Rightarrow> (Inr (Some (ACount n)), s')))"

definition withInterceptors :: "(any_answer \<Rightarrow> 'v option) \<Rightarrow> any_query \<Rightarrow> 's querier \<Rightarrow> 's interceptor option list
    \<Rightarrow> ('s, 'v) io" where
  "withInterceptors as_v q qr inters s =
     (if None \<in> set inters then (Inl (EPanic ''nil pointer dereference''), s)
      else (case foldr ic_Intercept (map the inters) qr q s of
          (Inl e, s') \<Rightarrow> (Inl e, s')
        | (Inr rv, s') \<Rightarrow>
            (case Option.bind rv as_v of None \<Rightarrow> (Inl (EMsg ''unexpected type returned''), s')
             | Some v \<Rightarrow> (Inr v, s'))))"

definition as_count :: "any_answer \<Rightarrow> int option" where
  "as_count a = (case a of ACount n \<Rightarrow> Some n | _ \<Rightarrow> None)"

text \<open>The first loop of \<^verbatim>\<open>prepareQuery\<close>: the traversers among the interceptors, in their order.\<close>

fun traverse_all :: "'s interceptor option list \<Rightarrow> entity \<Rightarrow> ent_query \<Rightarrow> ('s, ent_query) io" where
  "traverse_all [] n q s = (Inr q, s)"
| "traverse_all (None # is) n q s =
     (Inl (EMsg ''ent: uninitialized interceptor (forgotten import ent/runtime?)''), s)"
| "traverse_all (Some ic # is) n q s =
     (case ic_Traverse ic of None \<Rightarrow> traverse_all is n q s
      | Some trv \<Rightarrow> (case trv n q s of (Inl e, s') \<Rightarrow> (Inl e, s') | (Inr q', s') \<Rightarrow> traverse_all is n q' s'))"

section \<open>\<^verbatim>\<open>AccountQuery\<close>\<close>

definition as_AccountQuery :: "any_query \<Rightarrow> ent_query option" where
  "as_AccountQuery q = (case q of QAccount y \<Rightarrow> Some y | _ \<Rightarrow> None)"

definition as_Accounts :: "any_answer \<Rightarrow> ent_account list option" where
  "as_Accounts a = (case a of AAccount y \<Rightarrow> Some y | _ \<Rightarrow> None)"

definition AccountQuery_prepare :: "'s interceptor option list \<Rightarrow> ent_query \<Rightarrow> ('s, ent_query) io" where
  "AccountQuery_prepare inters q s =
     (case traverse_all inters IsAccount q s of
        (Inl e, s') \<Rightarrow> (Inl e, s')
      | (Inr q', s') \<Rightarrow> (case AccountQuery_prepareQuery q' of Some e \<Rightarrow> (Inl e, s') | None \<Rightarrow> (Inr q', s')))"

definition AccountQuery_All_with :: "'s interceptor option list \<Rightarrow> 's ent_client \<Rightarrow> ent_query \<Rightarrow> ('s, ent_account list) io" where
  "AccountQuery_All_with inters cl q s =
     (case AccountQuery_prepare inters q s of
        (Inl e, s') \<Rightarrow> (Inl e, s')
      | (Inr q', s') \<Rightarrow> withInterceptors as_Accounts (QAccount q')
          (querierAll as_AccountQuery AAccount (AccountQuery_sqlAll cl)) inters s')"

definition AccountQuery_Count_with :: "'s interceptor option list \<Rightarrow> 's ent_graph \<Rightarrow> ent_query \<Rightarrow> ('s, int) io" where
  "AccountQuery_Count_with inters g q s =
     (case AccountQuery_prepare inters q s of
        (Inl e, s') \<Rightarrow> (Inl e, s')
      | (Inr q', s') \<Rightarrow> withInterceptors as_count (QAccount q')
          (querierCount as_AccountQuery (AccountQuery_sqlCount g)) inters s')"

section \<open>\<^verbatim>\<open>BlockQuery\<close>\<close>

definition as_BlockQuery :: "any_query \<Rightarrow> ent_query option" where
  "as_BlockQuery q = (case q of QBlock y \<Rightarrow> Some y | _ \<Rightarrow> None)"

definition as_Blocks :: "any_answer \<Rightarrow> ent_block list option" where
  "as_Blocks a = (case a of ABlock y \<Rightarrow> Some y | _ \<Rightarrow> None)"

definition BlockQuery_prepare :: "'s interceptor option list \<Rightarrow> ent_query \<Rightarrow> ('s, ent_query) io" where
  "BlockQuery_prepare inters q s =
     (case traverse_all inters IsBlock q s of
        (Inl e, s') \<Rightarrow> (Inl e, s')
      | (Inr q', s') \<Rightarrow> (case BlockQuery_prepareQuery q' of Some e \<Rightarrow> (Inl e, s') | None \<Rightarrow> (Inr q', s')))"

definition BlockQuery_All_with :: "'s interceptor option list \<Rightarrow> 's ent_client \<Rightarrow> ent_query \<Rightarrow> ('s, ent_block list) io" where
  "BlockQuery_All_with inters cl q s =
     (case BlockQuery_prepare inters q s of
        (Inl e, s') \<Rightarrow> (Inl e, s')
      | (Inr q', s') \<Rightarrow> withInterceptors as_Blocks (QBlock q')
          (querierAll as_BlockQuery ABlock (BlockQuery_sqlAll cl)) inters s')"

definition BlockQuery_Count_with :: "'s interceptor option list \<Rightarrow> 's ent_graph \<Rightarrow> ent_query \<Rightarrow> ('s, int) io" where
  "BlockQuery_Count_with inters g q s =
     (case BlockQuery_prepare inters q s of
        (Inl e, s') \<Rightarrow> (Inl e, s')
      | (Inr q', s') \<Rightarrow> withInterceptors as_count (QBlock q')
          (querierCount as_BlockQuery (BlockQuery_sqlCount g)) inters s')"

section \<open>\<^verbatim>\<open>RestoreHistoryQuery\<close>\<close>

definition as_RestoreHistoryQuery :: "any_query \<Rightarrow> ent_query option" where
  "as_RestoreHistoryQuery q = (case q of QRestoreHistory y \<Rightarrow> Some y | _ \<Rightarrow> None)"

definition as_RestoreHistorys :: "any_answer \<Rightarrow> ent_restorehistory list option" where
  "as_RestoreHistorys a = (case a of ARestoreHistory y \<Rightarrow> Some y | _ \<Rightarrow> None)"

definition RestoreHistoryQuery_prepare :: "'s interceptor option list \<Rightarrow> ent_query \<Rightarrow> ('s, ent_query) io" where
  "RestoreHistoryQuery_prepare inters q s =
     (case traverse_all inters IsRestoreHistory q s of
        (Inl e, s') \<Rightarrow> (Inl e, s')
      | (Inr q', s') \<Rightarrow> (case RestoreHistoryQuery_prepareQuery q' of Some e \<Rightarrow> (Inl e, s') | None \<Rightarrow> (Inr q', s')))"

definition RestoreHistoryQuery_All_with :: "'s interceptor option list \<Rightarrow> 's ent_client \<Rightarrow> ent_query \<Rightarrow> ('s, ent_restorehistory list) io" where
  "RestoreHistoryQuery_All_with inters cl q s =
     (case RestoreHistoryQuery_prepare inters q s of
        (Inl e, s') \<Rightarrow> (Inl e, s')
      | (Inr q', s') \<Rightarrow> withInterceptors as_RestoreHistorys (QRestoreHistory q')
          (querierAll as_RestoreHistoryQuery ARestoreHistory (RestoreHistoryQuery_sqlAll cl)) inters s')"

definition RestoreHistoryQuery_Count_with :: "'s interceptor option list \<Rightarrow> 's ent_graph \<Rightarrow> ent_query \<Rightarrow> ('s, int) io" where
  "RestoreHistoryQuery_Count_with inters g q s =
     (case RestoreHistoryQuery_prepare inters q s of
        (Inl e, s') \<Rightarrow> (Inl e, s')
      | (Inr q', s') \<Rightarrow> withInterceptors as_count (QRestoreHistory q')
          (querierCount as_RestoreHistoryQuery (RestoreHistoryQuery_sqlCount g)) inters s')"

section \<open>\<^verbatim>\<open>TransactionQuery\<close>\<close>

definition as_TransactionQuery :: "any_query \<Rightarrow> ent_query option" where
  "as_TransactionQuery q = (case q of QTransaction y \<Rightarrow> Some y | _ \<Rightarrow> None)"

definition as_Transactions :: "any_answer \<Rightarrow> ent_transaction list option" where
  "as_Transactions a = (case a of ATransaction y \<Rightarrow> Some y | _ \<Rightarrow> None)"

definition TransactionQuery_prepare :: "'s interceptor option list \<Rightarrow> ent_query \<Rightarrow> ('s, ent_query) io" where
  "TransactionQuery_prepare inters q s =
     (case traverse_all inters IsTransaction q s of
        (Inl e, s') \<Rightarrow> (Inl e, s')
      | (Inr q', s') \<Rightarrow> (case TransactionQuery_prepareQuery q' of Some e \<Rightarrow> (Inl e, s') | None \<Rightarrow> (Inr q', s')))"

definition TransactionQuery_All_with :: "'s interceptor option list \<Rightarrow> 's ent_client \<Rightarrow> ent_query \<Rightarrow> ('s, ent_transaction list) io" where
  "TransactionQuery_All_with inters cl q s =
     (case TransactionQuery_prepare inters q s of
        (Inl e, s') \<Rightarrow> (Inl e, s')
      | (Inr q', s') \<Rightarrow> withInterceptors as_Transactions (QTransaction q')
          (querierAll as_TransactionQuery ATransaction (TransactionQuery_sqlAll cl)) inters s')"

definition TransactionQuery_Count_with :: "'s interceptor option list \<Rightarrow> 's ent_graph \<Rightarrow> ent_query \<Rightarrow> ('s, int) io" where
  "TransactionQuery_Count_with inters g q s =
     (case TransactionQuery_prepare inters q s of
        (Inl e, s') \<Rightarrow> (Inl e, s')
      | (Inr q', s') \<Rightarrow> withInterceptors as_count (QTransaction q')
          (querierCount as_TransactionQuery (TransactionQuery_sqlCount g)) inters s')"

section \<open>\<^verbatim>\<open>TransferQuery\<close>\<close>

definition as_TransferQuery :: "any_query \<Rightarrow> ent_query option" where
  "as_TransferQuery q = (case q of QTransfer y \<Rightarrow> Some y | _ \<Rightarrow> None)"

definition as_Transfers :: "any_answer \<Rightarrow> ent_transfer list option" where
  "as_Transfers a = (case a of ATransfer y \<Rightarrow> Some y | _ \<Rightarrow> None)"

definition TransferQuery_prepare :: "'s interceptor option list \<Rightarrow> ent_query \<Rightarrow> ('s, ent_query) io" where
  "TransferQuery_prepare inters q s =
     (case traverse_all inters IsTransfer q s of
        (Inl e, s') \<Rightarrow> (Inl e, s')
      | (Inr q', s') \<Rightarrow> (case TransferQuery_prepareQuery q' of Some e \<Rightarrow> (Inl e, s') | None \<Rightarrow> (Inr q', s')))"

definition TransferQuery_All_with :: "'s interceptor option list \<Rightarrow> 's ent_client \<Rightarrow> ent_query \<Rightarrow> ('s, ent_transfer list) io" where
  "TransferQuery_All_with inters cl q s =
     (case TransferQuery_prepare inters q s of
        (Inl e, s') \<Rightarrow> (Inl e, s')
      | (Inr q', s') \<Rightarrow> withInterceptors as_Transfers (QTransfer q')
          (querierAll as_TransferQuery ATransfer (TransferQuery_sqlAll cl)) inters s')"

definition TransferQuery_Count_with :: "'s interceptor option list \<Rightarrow> 's ent_graph \<Rightarrow> ent_query \<Rightarrow> ('s, int) io" where
  "TransferQuery_Count_with inters g q s =
     (case TransferQuery_prepare inters q s of
        (Inl e, s') \<Rightarrow> (Inl e, s')
      | (Inr q', s') \<Rightarrow> withInterceptors as_count (QTransfer q')
          (querierCount as_TransferQuery (TransferQuery_sqlCount g)) inters s')"

section \<open>Registration (\<^verbatim>\<open>ent/client.go\<close>)\<close>

record 's ent_inters =
  in_Account :: "'s interceptor option list"
  in_Block :: "'s interceptor option list"
  in_RestoreHistory :: "'s interceptor option list"
  in_Transaction :: "'s interceptor option list"
  in_Transfer :: "'s interceptor option list"

definition AccountClient_Intercept :: "'s interceptor option list \<Rightarrow> 's ent_inters \<Rightarrow> 's ent_inters" where
  "AccountClient_Intercept is h = h\<lparr>in_Account := in_Account h @ is\<rparr>"

definition AccountClient_Interceptors :: "'s ent_inters \<Rightarrow> 's interceptor option list" where
  "AccountClient_Interceptors h = in_Account h"

definition BlockClient_Intercept :: "'s interceptor option list \<Rightarrow> 's ent_inters \<Rightarrow> 's ent_inters" where
  "BlockClient_Intercept is h = h\<lparr>in_Block := in_Block h @ is\<rparr>"

definition BlockClient_Interceptors :: "'s ent_inters \<Rightarrow> 's interceptor option list" where
  "BlockClient_Interceptors h = in_Block h"

definition RestoreHistoryClient_Intercept :: "'s interceptor option list \<Rightarrow> 's ent_inters \<Rightarrow> 's ent_inters" where
  "RestoreHistoryClient_Intercept is h = h\<lparr>in_RestoreHistory := in_RestoreHistory h @ is\<rparr>"

definition RestoreHistoryClient_Interceptors :: "'s ent_inters \<Rightarrow> 's interceptor option list" where
  "RestoreHistoryClient_Interceptors h = in_RestoreHistory h"

definition TransactionClient_Intercept :: "'s interceptor option list \<Rightarrow> 's ent_inters \<Rightarrow> 's ent_inters" where
  "TransactionClient_Intercept is h = h\<lparr>in_Transaction := in_Transaction h @ is\<rparr>"

definition TransactionClient_Interceptors :: "'s ent_inters \<Rightarrow> 's interceptor option list" where
  "TransactionClient_Interceptors h = in_Transaction h"

definition TransferClient_Intercept :: "'s interceptor option list \<Rightarrow> 's ent_inters \<Rightarrow> 's ent_inters" where
  "TransferClient_Intercept is h = h\<lparr>in_Transfer := in_Transfer h @ is\<rparr>"

definition TransferClient_Interceptors :: "'s ent_inters \<Rightarrow> 's interceptor option list" where
  "TransferClient_Interceptors h = in_Transfer h"

definition Client_Intercept :: "'s interceptor option list \<Rightarrow> 's ent_inters \<Rightarrow> 's ent_inters" where
  "Client_Intercept is h = TransferClient_Intercept is (TransactionClient_Intercept is
     (RestoreHistoryClient_Intercept is (BlockClient_Intercept is (AccountClient_Intercept is h))))"

section \<open>What interceptors do\<close>

text \<open>Without interceptors a query is the query of the other theories; with an interceptor that is given,
  the same holds once its traverser has changed the query and its wrapper passes on.\<close>

lemma withInterceptors_none: "withInterceptors as_v q qr [] s =
  (case qr q s of (Inl e, s') \<Rightarrow> (Inl e, s')
   | (Inr rv, s') \<Rightarrow> (case Option.bind rv as_v of None \<Rightarrow> (Inl (EMsg ''unexpected type returned''), s') | Some v \<Rightarrow> (Inr v, s')))"
  by (simp add: withInterceptors_def)

lemmas query_run_defs = AccountQuery_All_with_def AccountQuery_Count_with_def AccountQuery_prepare_def
  AccountQuery_prepareQuery_def AccountQuery_sqlAll_def AccountQuery_sqlCount_def AccountQuery_All_def AccountQuery_Count_def
  as_AccountQuery_def as_Accounts_def BlockQuery_All_with_def BlockQuery_Count_with_def BlockQuery_prepare_def
  BlockQuery_prepareQuery_def BlockQuery_sqlAll_def BlockQuery_sqlCount_def BlockQuery_All_def BlockQuery_Count_def
  as_BlockQuery_def as_Blocks_def RestoreHistoryQuery_All_with_def RestoreHistoryQuery_Count_with_def RestoreHistoryQuery_prepare_def
  RestoreHistoryQuery_prepareQuery_def RestoreHistoryQuery_sqlAll_def RestoreHistoryQuery_sqlCount_def RestoreHistoryQuery_All_def RestoreHistoryQuery_Count_def
  as_RestoreHistoryQuery_def as_RestoreHistorys_def TransactionQuery_All_with_def TransactionQuery_Count_with_def TransactionQuery_prepare_def
  TransactionQuery_prepareQuery_def TransactionQuery_sqlAll_def TransactionQuery_sqlCount_def TransactionQuery_All_def TransactionQuery_Count_def
  as_TransactionQuery_def as_Transactions_def TransferQuery_All_with_def TransferQuery_Count_with_def TransferQuery_prepare_def
  TransferQuery_prepareQuery_def TransferQuery_sqlAll_def TransferQuery_sqlCount_def TransferQuery_All_def TransferQuery_Count_def
  as_TransferQuery_def as_Transfers_def as_count_def

lemma queries_without_interceptors:
  "AccountQuery_All_with [] cl q s = AccountQuery_All cl q s" "AccountQuery_Count_with [] g q s = AccountQuery_Count g q s"
  "BlockQuery_All_with [] cl q s = BlockQuery_All cl q s" "BlockQuery_Count_with [] g q s = BlockQuery_Count g q s"
  "RestoreHistoryQuery_All_with [] cl q s = RestoreHistoryQuery_All cl q s" "RestoreHistoryQuery_Count_with [] g q s = RestoreHistoryQuery_Count g q s"
  "TransactionQuery_All_with [] cl q s = TransactionQuery_All cl q s" "TransactionQuery_Count_with [] g q s = TransactionQuery_Count g q s"
  "TransferQuery_All_with [] cl q s = TransferQuery_All cl q s" "TransferQuery_Count_with [] g q s = TransferQuery_Count g q s"
  by (auto simp: query_run_defs withInterceptors_none querierAll_def querierCount_def All_def Count_def
    split: option.split prod.split sum.split)

text \<open>A traverser that adds predicates to the queries it sees, with a wrapper that passes on.\<close>

definition filter_all :: "pred list \<Rightarrow> 's interceptor" where
  "filter_all ps = \<lparr>ic_Intercept = (\<lambda>qr. qr), ic_Traverse = Some (\<lambda>n q s. (Inr (Where ps q), s))\<rparr>"

lemma filter_all_simps:
  "withInterceptors as_v q qr (Some (filter_all ps) # is) s = withInterceptors as_v q qr is s"
  "traverse_all (Some (filter_all ps) # is) n qy s = traverse_all is n (Where ps qy) s"
  by (auto simp: filter_all_def withInterceptors_def)

lemma queries_filtered:
  "AccountQuery_All_with (Some (filter_all ps) # is) cl q s = AccountQuery_All_with is cl (Where ps q) s"
  "AccountQuery_Count_with (Some (filter_all ps) # is) g q s = AccountQuery_Count_with is g (Where ps q) s"
  "BlockQuery_All_with (Some (filter_all ps) # is) cl q s = BlockQuery_All_with is cl (Where ps q) s"
  "BlockQuery_Count_with (Some (filter_all ps) # is) g q s = BlockQuery_Count_with is g (Where ps q) s"
  "RestoreHistoryQuery_All_with (Some (filter_all ps) # is) cl q s = RestoreHistoryQuery_All_with is cl (Where ps q) s"
  "RestoreHistoryQuery_Count_with (Some (filter_all ps) # is) g q s = RestoreHistoryQuery_Count_with is g (Where ps q) s"
  "TransactionQuery_All_with (Some (filter_all ps) # is) cl q s = TransactionQuery_All_with is cl (Where ps q) s"
  "TransactionQuery_Count_with (Some (filter_all ps) # is) g q s = TransactionQuery_Count_with is g (Where ps q) s"
  "TransferQuery_All_with (Some (filter_all ps) # is) cl q s = TransferQuery_All_with is cl (Where ps q) s"
  "TransferQuery_Count_with (Some (filter_all ps) # is) g q s = TransferQuery_Count_with is g (Where ps q) s"
  by (auto simp: query_run_defs filter_all_simps simp del: traverse_all.simps split: prod.split sum.split option.split)

end
