(* ===== verification/Ent_Traverse.thy ===== *)
theory Ent_Traverse
  imports Ent_Query_Ops Ent_Where
begin

text \<open>
  Queries that start at an edge (the \<^verbatim>\<open>Query..\<close> methods of \<^verbatim>\<open>ent/client.go\<close>, \<^verbatim>\<open>ent/*_query.go\<close> and the entities):
  the nodes on the other side of an edge of one node, or of all the nodes of a query. Such a query carries a
  path; \<^verbatim>\<open>prepareQuery\<close> works it out before the query runs, and the query then selects from the nodes it leads to,
  each once. The path is worked out when the query is made here: a query changed afterwards is another one.
\<close>

section \<open>Paths\<close>

text \<open>From one node by its key (\<^verbatim>\<open>sqlgraph.Neighbors\<close>), or from the nodes of a selector (\<^verbatim>\<open>sqlgraph.SetNeighbors\<close>),
  which may itself start at an edge.\<close>

datatype node_path =
    NodePath graph_step ent_value
  | TablePath graph_step select_spec
  | ChainPath graph_step select_spec node_path

record path_query =
  pq_query :: ent_query
  pq_path :: "(err + node_path) option"

record 's path_calls =
  QueryPath :: "node_path \<Rightarrow> query_spec \<Rightarrow> 's \<Rightarrow> (sql_err + row list) \<times> 's"
  CountPath :: "node_path \<Rightarrow> query_spec \<Rightarrow> 's \<Rightarrow> (sql_err + int) \<times> 's"

definition plain_path :: "ent_query \<Rightarrow> path_query" where
  "plain_path q = \<lparr>pq_query = q, pq_path = None\<rparr>"

definition from_path :: "err + node_path \<Rightarrow> path_query" where
  "from_path p = \<lparr>pq_query = Query, pq_path = Some p\<rparr>"

text \<open>The end of \<^verbatim>\<open>prepareQuery\<close>, after the check of the selected fields.\<close>

definition prepare_path :: "'n ent_meta \<Rightarrow> path_query \<Rightarrow> err + node_path option" where
  "prepare_path m q =
     (case prepareQuery m (pq_query q) of
        Some e \<Rightarrow> Inl e
      | None \<Rightarrow> (case pq_path q of None \<Rightarrow> Inr None | Some (Inl e) \<Rightarrow> Inl e | Some (Inr p) \<Rightarrow> Inr (Some p)))"

text \<open>The path of a query chained on another: the other is prepared and its selector becomes the start.\<close>

definition chain_path :: "'n ent_meta \<Rightarrow> path_query \<Rightarrow> graph_step \<Rightarrow> err + node_path" where
  "chain_path m q step =
     (case prepare_path m q of
        Inl e \<Rightarrow> Inl e
      | Inr p \<Rightarrow>
          (case selector_err m (pq_query q) of
             Some e \<Rightarrow> Inl e
           | None \<Rightarrow>
               Inr (case p of None \<Rightarrow> TablePath step (sqlQuery m (pq_query q))
                    | Some p' \<Rightarrow> ChainPath step (sqlQuery m (pq_query q)) p')))"

section \<open>Running a query with a path\<close>

definition path_spec :: "'n ent_meta \<Rightarrow> ent_query \<Rightarrow> query_spec" where
  "path_spec m q = (querySpec m q)\<lparr>qs_Unique := (case qy_Unique q of None \<Rightarrow> True | Some u \<Rightarrow> u)\<rparr>"

definition path_sqlAll :: "'n ent_meta \<Rightarrow> 's ent_client \<Rightarrow> 's path_calls \<Rightarrow> ent_query \<Rightarrow> node_path option
    \<Rightarrow> ('s, 'n list) io" where
  "path_sqlAll m cl pc q p s =
     (case p of None \<Rightarrow> sqlAll m cl q s
      | Some p' \<Rightarrow>
          (case selector_err m q of Some e \<Rightarrow> (Inl e, s)
           | None \<Rightarrow>
             (case QueryPath pc p' (path_spec m q) s of
                (Inl e, s') \<Rightarrow> (Inl (EDriver e), s')
              | (Inr rows, s') \<Rightarrow> (assign_rows (em_Assign m) rows, s'))))"

definition path_All :: "'n ent_meta \<Rightarrow> 's ent_client \<Rightarrow> 's path_calls \<Rightarrow> path_query \<Rightarrow> ('s, 'n list) io" where
  "path_All m cl pc q s =
     (case prepare_path m q of Inl e \<Rightarrow> (Inl e, s) | Inr p \<Rightarrow> path_sqlAll m cl pc (pq_query q) p s)"

definition path_sqlCount :: "'n ent_meta \<Rightarrow> 's ent_graph \<Rightarrow> 's path_calls \<Rightarrow> ent_query \<Rightarrow> node_path option
    \<Rightarrow> ('s, int) io" where
  "path_sqlCount m g pc q p s =
     (case p of None \<Rightarrow> sqlCount m g q s
      | Some p' \<Rightarrow>
          (let sp = (path_spec m q)\<lparr>qs_Columns := qy_Fields q\<rparr>;
               sp' = (if qy_Fields q = [] then sp else sp\<lparr>qs_Unique := (qy_Unique q = Some True)\<rparr>) in
           case selector_err m q of Some e \<Rightarrow> (Inl e, s)
           | None \<Rightarrow>
             (case CountPath pc p' sp' s of (Inl e, s') \<Rightarrow> (Inl (EDriver e), s') | (Inr n, s') \<Rightarrow> (Inr n, s'))))"

definition path_Count :: "'n ent_meta \<Rightarrow> 's ent_graph \<Rightarrow> 's path_calls \<Rightarrow> path_query \<Rightarrow> ('s, int) io" where
  "path_Count m g pc q s =
     (case prepare_path m q of Inl e \<Rightarrow> (Inl e, s) | Inr p \<Rightarrow> path_sqlCount m g pc (pq_query q) p s)"

section \<open>The edges\<close>

text \<open>From a node: \<^verbatim>\<open>ent/client.go\<close>.\<close>

definition AccountClient_QueryTransfersTo :: "ent_account \<Rightarrow> path_query" where
  "AccountClient_QueryTransfersTo n = from_path (Inr (NodePath
     \<lparr>gst_From = (account_Table, account_FieldID), gst_To = Some (transfer_Table, transfer_FieldID), gst_Rel = O2M,
      gst_Inverse = False, gst_Table = account_TransfersToTable, gst_Column = account_TransfersToColumn\<rparr>
     (VString (ea_ID n))))"

definition AccountClient_QueryTransfersFrom :: "ent_account \<Rightarrow> path_query" where
  "AccountClient_QueryTransfersFrom n = from_path (Inr (NodePath
     \<lparr>gst_From = (account_Table, account_FieldID), gst_To = Some (transfer_Table, transfer_FieldID), gst_Rel = O2M,
      gst_Inverse = False, gst_Table = account_TransfersFromTable, gst_Column = account_TransfersFromColumn\<rparr>
     (VString (ea_ID n))))"

definition BlockClient_QueryTransactions :: "ent_block \<Rightarrow> path_query" where
  "BlockClient_QueryTransactions n = from_path (Inr (NodePath
     \<lparr>gst_From = (block_Table, block_FieldID), gst_To = Some (transaction_Table, transaction_FieldID), gst_Rel = O2M,
      gst_Inverse = False, gst_Table = block_TransactionsTable, gst_Column = block_TransactionsColumn\<rparr>
     (VInt (eb_ID n))))"

definition TransactionClient_QueryBlock :: "ent_transaction \<Rightarrow> path_query" where
  "TransactionClient_QueryBlock n = from_path (Inr (NodePath
     \<lparr>gst_From = (transaction_Table, transaction_FieldID), gst_To = Some (block_Table, block_FieldID), gst_Rel = M2O,
      gst_Inverse = True, gst_Table = transaction_BlockTable, gst_Column = transaction_BlockColumn\<rparr>
     (VInt (et_ID n))))"

text \<open>The entities ask their client.\<close>

definition Account_QueryTransfersTo :: "ent_account \<Rightarrow> path_query" where
  "Account_QueryTransfersTo n = AccountClient_QueryTransfersTo n"

definition Account_QueryTransfersFrom :: "ent_account \<Rightarrow> path_query" where
  "Account_QueryTransfersFrom n = AccountClient_QueryTransfersFrom n"

definition Block_QueryTransactions :: "ent_block \<Rightarrow> path_query" where
  "Block_QueryTransactions n = BlockClient_QueryTransactions n"

definition Transaction_QueryBlock :: "ent_transaction \<Rightarrow> path_query" where
  "Transaction_QueryBlock n = TransactionClient_QueryBlock n"

text \<open>From a query: \<^verbatim>\<open>ent/*_query.go\<close>.\<close>

definition AccountQuery_QueryTransfersTo :: "path_query \<Rightarrow> path_query" where
  "AccountQuery_QueryTransfersTo q = from_path (chain_path account_meta q
     \<lparr>gst_From = (account_Table, account_FieldID), gst_To = Some (transfer_Table, transfer_FieldID), gst_Rel = O2M,
      gst_Inverse = False, gst_Table = account_TransfersToTable, gst_Column = account_TransfersToColumn\<rparr>)"

definition AccountQuery_QueryTransfersFrom :: "path_query \<Rightarrow> path_query" where
  "AccountQuery_QueryTransfersFrom q = from_path (chain_path account_meta q
     \<lparr>gst_From = (account_Table, account_FieldID), gst_To = Some (transfer_Table, transfer_FieldID), gst_Rel = O2M,
      gst_Inverse = False, gst_Table = account_TransfersFromTable, gst_Column = account_TransfersFromColumn\<rparr>)"

definition BlockQuery_QueryTransactions :: "path_query \<Rightarrow> path_query" where
  "BlockQuery_QueryTransactions q = from_path (chain_path block_meta q
     \<lparr>gst_From = (block_Table, block_FieldID), gst_To = Some (transaction_Table, transaction_FieldID), gst_Rel = O2M,
      gst_Inverse = False, gst_Table = block_TransactionsTable, gst_Column = block_TransactionsColumn\<rparr>)"

definition TransactionQuery_QueryBlock :: "path_query \<Rightarrow> path_query" where
  "TransactionQuery_QueryBlock q = from_path (chain_path transaction_meta q
     \<lparr>gst_From = (transaction_Table, transaction_FieldID), gst_To = Some (block_Table, block_FieldID), gst_Rel = M2O,
      gst_Inverse = True, gst_Table = transaction_BlockTable, gst_Column = transaction_BlockColumn\<rparr>)"

lemmas node_query_defs = AccountClient_QueryTransfersTo_def AccountClient_QueryTransfersFrom_def
  BlockClient_QueryTransactions_def TransactionClient_QueryBlock_def Account_QueryTransfersTo_def
  Account_QueryTransfersFrom_def Block_QueryTransactions_def Transaction_QueryBlock_def

lemmas chain_query_defs = AccountQuery_QueryTransfersTo_def AccountQuery_QueryTransfersFrom_def
  BlockQuery_QueryTransactions_def TransactionQuery_QueryBlock_def

lemma plain_path_All: "path_All m cl pc (plain_path q) s = All m cl q s"
  by (simp add: path_All_def plain_path_def prepare_path_def path_sqlAll_def All_def split: option.split)

lemma plain_path_Count: "path_Count m g pc (plain_path q) s = Count m g q s"
  by (simp add: path_Count_def plain_path_def prepare_path_def path_sqlCount_def Count_def split: option.split)

end
