(* ===== verification/Graph_Driver.thy ===== *)
theory Graph_Driver
  imports Ent_Graph Repository_Laws Mem_Driver
begin

text \<open>
  What the remaining SQL calls do to the tables, as laws that extend those of \<open>sql_driver\<close>: a delete
  removes exactly the rows its predicates select and sets the references to them to NULL (the
  \<^verbatim>\<open>OnDelete: schema.SetNull\<close> of \<^verbatim>\<open>ent/migrate/schema.go\<close>), the update of one row changes this row and
  reads it back, a count and a selection of one column answer about the selected rows and change nothing.
  The database in memory, extended by these calls, keeps the laws.
\<close>

section \<open>Deleting rows\<close>

definition detach_value :: "sql_table \<Rightarrow> row set \<Rightarrow> sql_table \<Rightarrow> string \<Rightarrow> ent_value \<Rightarrow> ent_value" where
  "detach_value t H u c v =
     (if \<exists>fk \<in> set (st_ForeignKeys u). fk_Column fk = c \<and> fk_RefTable fk = st_Name t
           \<and> fk_OnDelete fk = SetNull \<and> v \<in> (\<lambda>q. col q (fk_RefColumn fk)) ` H
      then VNull else v)"

definition detach :: "sql_table \<Rightarrow> row set \<Rightarrow> sql_table \<Rightarrow> row \<Rightarrow> row" where
  "detach t H u r = map (\<lambda>(c, v). (c, detach_value t H u c v)) r"

definition db_delete :: "sql_table \<Rightarrow> row set \<Rightarrow> db \<Rightarrow> db" where
  "db_delete t H d = (\<lambda>n. case table_of n of None \<Rightarrow> d n
     | Some u \<Rightarrow> detach t H u ` (if n = st_Name t then d n - H else d n))"

definition delete_step :: "sql_table \<Rightarrow> delete_spec \<Rightarrow> db \<Rightarrow> sql_err + int \<Rightarrow> db \<Rightarrow> bool" where
  "delete_step t ds d res d' \<longleftrightarrow>
     (let hit = {r \<in> d (st_Name t). satisfies (ds_Predicate ds) r} in
      case res of Inr n \<Rightarrow> n = int (card hit) \<and> d' = db_delete t hit d | Inl e \<Rightarrow> d' = d)"

definition wf_delete :: "sql_table \<Rightarrow> delete_spec \<Rightarrow> bool" where
  "wf_delete t ds \<longleftrightarrow> ds_Table ds = st_Name t \<and> list_all (wf_pred t) (ds_Predicate ds)"

lemma col_detach: "col (detach t H u r) c = (if c \<in> fst ` set r then detach_value t H u c (col r c) else VNull)"
  unfolding detach_def by (subst col_map_entries) simp

lemma fst_detach [simp]: "map fst (detach t H u r) = map fst r"
  by (simp add: detach_def comp_def case_prod_unfold)

lemma detach_unreferenced:
  "list_all (\<lambda>fk. fk_RefTable fk \<noteq> st_Name t) (st_ForeignKeys u) \<Longrightarrow> detach t H u = (\<lambda>r. r)"
  by (rule ext) (induct_tac r, auto simp: detach_def detach_value_def list_all_iff)

lemma fk_tables:
  assumes "u \<in> set Tables" "fk \<in> set (st_ForeignKeys u)"
  shows "fk_Column fk \<noteq> st_PrimaryKey u"
    "k \<in> set (st_Columns u) \<Longrightarrow> sc_Name k = fk_Column fk \<Longrightarrow> sc_Nullable k"
  using assms by (auto elim!: Tables_cases simp: table_defs column_defs)

lemma detach_value_key: "u \<in> set Tables \<Longrightarrow> detach_value t H u (st_PrimaryKey u) v = v"
  using fk_tables(1) by (fastforce simp: detach_value_def)

lemma row_ok_detach:
  assumes "u \<in> set Tables" "row_ok u r"
  shows "row_ok u (detach t H u r)"
proof -
  have "column_ok c (col (detach t H u r) (sc_Name c))" if c: "c \<in> set (st_Columns u)" for c
  proof -
    have "column_ok c (col r (sc_Name c))" "sc_Name c \<in> fst ` set r"
      using assms(2) c row_ok_names [OF assms(2), of "sc_Name c"]
      by (auto simp: row_ok_def list_all_iff has_column_def list_ex_iff)
    then show ?thesis using fk_tables(2) [OF assms(1) _ c]
      by (auto simp: col_detach detach_value_def column_ok_def)
  qed
  then show ?thesis using assms(2) by (simp add: row_ok_def list_all_iff)
qed

lemma key_detach:
  "u \<in> set Tables \<Longrightarrow> row_ok u r \<Longrightarrow> col (detach t H u r) (st_PrimaryKey u) = col r (st_PrimaryKey u)"
  using row_ok_names [of u r "st_PrimaryKey u"] has_column_key [of u]
  by (simp add: col_detach detach_value_key)

lemma db_delete_ok:
  assumes "db_ok d"
  shows "db_ok (db_delete t H d)"
proof -
  have "table_ok (db_delete t H d) u" if u: "u \<in> set Tables" for u
  proof -
    let ?n = "st_Name u"
    define R where "R = (if ?n = st_Name t then d ?n - H else d ?n)"
    have tok: "table_ok d u" using db_okD [OF assms u] .
    then have R: "finite R" "\<forall>r \<in> R. row_ok u r" "inj_on (\<lambda>r. col r (st_PrimaryKey u)) R"
      by (auto simp: table_ok_def R_def intro: inj_on_subset)
    have "inj_on (\<lambda>r. col r (st_PrimaryKey u)) ((R - R) \<union> detach t H u ` R)"
      by (rule inj_on_replace [OF R(3)]) (use R(2) u in \<open>auto simp: key_detach\<close>)
    moreover have "db_delete t H d ?n = detach t H u ` R"
      by (simp add: db_delete_def table_of_known [OF u] R_def)
    ultimately show ?thesis using R u by (auto simp: table_ok_def row_ok_detach)
  qed
  then show ?thesis by (simp add: db_ok_def list_all_iff)
qed

lemma delete_step_ok: "delete_step t ds d res d' \<Longrightarrow> db_ok d \<Longrightarrow> db_ok d'"
  by (auto simp: delete_step_def Let_def db_delete_ok split: sum.splits)

text \<open>References to a deleted row are gone, whatever else is kept.\<close>

lemma detach_no_reference:
  assumes "u \<in> set Tables" "fk \<in> set (st_ForeignKeys u)" "fk_RefTable fk = st_Name t" "fk_OnDelete fk = SetNull"
    "q \<in> H" "col q (fk_RefColumn fk) \<noteq> VNull"
  shows "col (detach t H u r) (fk_Column fk) \<noteq> col q (fk_RefColumn fk)"
  using assms by (auto simp: col_detach detach_value_def)

section \<open>Updating one row\<close>

definition node_step :: "sql_table \<Rightarrow> node_update \<Rightarrow> db \<Rightarrow> sql_err + row \<Rightarrow> db \<Rightarrow> bool" where
  "node_step t nu d res d' \<longleftrightarrow>
     (let hit = {r \<in> d (st_Name t). col r (st_PrimaryKey t) = nu_ID nu}; us = nu_Spec nu in
      case res of
        Inr row \<Rightarrow> (\<exists>r. hit = {r} \<and> row = project (us_Columns us) (update_row us r))
          \<and> d' = d(st_Name t := (d (st_Name t) - hit) \<union> update_row us ` hit)
      | Inl (SqlNotFound m) \<Rightarrow> d' = d \<and> hit = {}
      | Inl e \<Rightarrow> d' = d)"

definition wf_node :: "sql_table \<Rightarrow> node_update \<Rightarrow> bool" where
  "wf_node t nu \<longleftrightarrow> wf_update t (nu_Spec nu) \<and> us_Predicate (nu_Spec nu) = []
     \<and> list_all (has_column t) (us_Columns (nu_Spec nu))"

lemma update_rows_ok:
  assumes "db_ok d" "t \<in> set Tables" "wf_update t us" "H \<subseteq> d (st_Name t)"
  shows "db_ok (d(st_Name t := (d (st_Name t) - H) \<union> update_row us ` H))"
proof (rule db_ok_upd [OF assms(1,2)])
  have tok: "table_ok d t" using assms by (simp add: db_okD)
  then have rok: "row_ok t r" if "r \<in> H" for r using that assms(4) by (auto simp: table_ok_def)
  show "inj_on (\<lambda>r. col r (st_PrimaryKey t)) ((d (st_Name t) - H) \<union> update_row us ` H)"
    by (rule inj_on_replace) (use tok rok assms in \<open>auto simp: table_ok_def key_update_row\<close>)
  show "finite ((d (st_Name t) - H) \<union> update_row us ` H)"
    "\<forall>r \<in> (d (st_Name t) - H) \<union> update_row us ` H. row_ok t r"
    using tok rok assms finite_subset [OF assms(4)] by (auto simp: table_ok_def row_ok_update_row)
qed

lemma node_step_ok:
  assumes "node_step t nu d res d'" "t \<in> set Tables" "wf_node t nu" "db_ok d"
  shows "db_ok d'"
proof (cases res)
  case (Inl e)
  then show ?thesis using assms by (cases e) (auto simp: node_step_def Let_def)
next
  case (Inr row)
  let ?H = "{r \<in> d (st_Name t). col r (st_PrimaryKey t) = nu_ID nu}"
  have "d' = d(st_Name t := (d (st_Name t) - ?H) \<union> update_row (nu_Spec nu) ` ?H)"
    using assms(1) Inr by (auto simp: node_step_def Let_def)
  moreover have "db_ok (d(st_Name t := (d (st_Name t) - ?H) \<union> update_row (nu_Spec nu) ` ?H))"
    using assms by (intro update_rows_ok) (auto simp: wf_node_def)
  ultimately show ?thesis by simp
qed

section \<open>Counts and columns\<close>

definition wf_count :: "sql_table \<Rightarrow> query_spec \<Rightarrow> bool" where
  "wf_count t q \<longleftrightarrow> qs_Table q = st_Name t \<and> qs_Columns q = [] \<and> list_all (wf_pred t) (qs_Predicate q)
     \<and> qs_Limit q = 0 \<and> qs_Offset q = 0 \<and> qs_Order q = [] \<and> \<not> qs_Unique q"

definition wf_select :: "ftype \<Rightarrow> sql_table \<Rightarrow> select_spec \<Rightarrow> bool" where
  "wf_select ty t sp \<longleftrightarrow> ss_Table sp = st_Name t
     \<and> (\<exists>k \<in> set (st_Columns t). ss_Columns sp = [sc_Name k] \<and> sc_Type k = ty \<and> \<not> sc_Nullable k)
     \<and> \<not> ss_Distinct sp \<and> ss_Fns sp = [] \<and> list_all (wf_pred t) (ss_Predicate sp)
     \<and> pred_option (\<lambda>l. 0 \<le> l) (ss_Limit sp) \<and> pred_option (\<lambda>k. 0 \<le> k) (ss_Offset sp)
     \<and> (case ss_Order sp of [] \<Rightarrow> True | [o1] \<Rightarrow> has_column t (order_column o1) | _ \<Rightarrow> False)"

definition opt_window :: "int option \<Rightarrow> int option \<Rightarrow> 'a list \<Rightarrow> 'a list" where
  "opt_window offset limit xs =
     (let ys = (case offset of None \<Rightarrow> xs | Some k \<Rightarrow> drop (nat k) xs) in
      case limit of None \<Rightarrow> ys | Some l \<Rightarrow> take (nat l) ys)"

definition select_answer :: "('k \<Rightarrow> ent_value) \<Rightarrow> select_spec \<Rightarrow> db \<Rightarrow> 'k list \<Rightarrow> bool" where
  "select_answer mk sp d ks \<longleftrightarrow>
     (\<exists>ms. distinct ms \<and> set ms = {r \<in> d (ss_Table sp). satisfies (ss_Predicate sp) r}
        \<and> ordered_by (ss_Order sp) ms
        \<and> map mk ks = map (\<lambda>r. col r (hd (ss_Columns sp))) (opt_window (ss_Offset sp) (ss_Limit sp) ms))"

section \<open>The laws\<close>

locale graph_driver = sql_driver "eg_client g" rows for g :: "'s ent_graph" and rows +
  assumes delete: "t \<in> set Tables \<Longrightarrow> wf_delete t ds \<Longrightarrow> db_ok (rows s)
      \<Longrightarrow> DeleteNodes g ds s = (n, s') \<Longrightarrow> delete_step t ds (rows s) n (rows s')"
    and node: "t \<in> set Tables \<Longrightarrow> wf_node t nu \<Longrightarrow> db_ok (rows s)
      \<Longrightarrow> UpdateNode g nu s = (row, s') \<Longrightarrow> node_step t nu (rows s) row (rows s')"
    and count: "t \<in> set Tables \<Longrightarrow> wf_count t q \<Longrightarrow> db_ok (rows s) \<Longrightarrow> CountNodes g q s = (n, s')
      \<Longrightarrow> rows s' = rows s \<and> (\<forall>k. n = Inr k \<longrightarrow>
        k = int (card {r \<in> rows s (st_Name t). satisfies (qs_Predicate q) r}))"
    and strings: "t \<in> set Tables \<Longrightarrow> wf_select TypeString t sp \<Longrightarrow> db_ok (rows s)
      \<Longrightarrow> SelectStrings g sp s = (xs, s')
      \<Longrightarrow> rows s' = rows s \<and> (\<forall>ks. xs = Inr ks \<longrightarrow> select_answer VString sp (rows s) ks)"
    and ints: "t \<in> set Tables \<Longrightarrow> wf_select TypeInt t sp \<Longrightarrow> db_ok (rows s)
      \<Longrightarrow> SelectInts g sp s = (ns, s')
      \<Longrightarrow> rows s' = rows s \<and> (\<forall>ks. ns = Inr ks \<longrightarrow> select_answer VInt sp (rows s) ks)"

locale graph_driver_up = graph_driver g rows + sql_driver_up "eg_client g" rows
  for g :: "'s ent_graph" and rows +
  assumes delete_up: "t \<in> set Tables \<Longrightarrow> wf_delete t ds \<Longrightarrow> db_ok (rows s)
      \<Longrightarrow> \<exists>n. fst (DeleteNodes g ds s) = Inr n"
    and node_up: "t \<in> set Tables \<Longrightarrow> wf_node t nu \<Longrightarrow> db_ok (rows s)
      \<Longrightarrow> (\<exists>r. fst (UpdateNode g nu s) = Inr r) \<or> (\<exists>m. fst (UpdateNode g nu s) = Inl (SqlNotFound m))"
    and count_up: "t \<in> set Tables \<Longrightarrow> wf_count t q \<Longrightarrow> db_ok (rows s) \<Longrightarrow> \<exists>n. fst (CountNodes g q s) = Inr n"
    and strings_up: "t \<in> set Tables \<Longrightarrow> wf_select TypeString t sp \<Longrightarrow> db_ok (rows s)
      \<Longrightarrow> \<exists>xs. fst (SelectStrings g sp s) = Inr xs"
    and ints_up: "t \<in> set Tables \<Longrightarrow> wf_select TypeInt t sp \<Longrightarrow> db_ok (rows s)
      \<Longrightarrow> \<exists>ns. fst (SelectInts g sp s) = Inr ns"

end
