(* ===== verification/Ent_Eager.thy ===== *)
theory Ent_Eager
  imports Ent_Query_Ops Ent_Where
begin

text \<open>
  Eager loading (\<^verbatim>\<open>With..\<close> and \<^verbatim>\<open>load..\<close> in \<^verbatim>\<open>ent/*_query.go\<close>, the \<^verbatim>\<open>Edges\<close> of the entities): after the nodes of
  a query were read, the nodes on the other side of an edge are read by one more query and handed to the
  nodes they belong to, by the foreign key they carry. The foreign-key columns are selected after those
  of the fields.
\<close>

section \<open>Loading one edge\<close>

definition All_fks :: "'n ent_meta \<Rightarrow> string list \<Rightarrow> 's ent_client \<Rightarrow> ent_query \<Rightarrow> ('s, 'n list) io" where
  "All_fks m fks cl q s =
     (case prepareQuery m q of Some e \<Rightarrow> (Inl e, s)
      | None \<Rightarrow>
        (case selector_err m q of Some e \<Rightarrow> (Inl e, s)
         | None \<Rightarrow>
           (case QueryNodes cl ((querySpec m q)\<lparr>qs_Columns := qs_Columns (querySpec m q) @ fks\<rparr>) s of
              (Inl e, s') \<Rightarrow> (Inl (EDriver e), s')
            | (Inr rows, s') \<Rightarrow> (assign_rows (em_Assign m) rows, s'))))"

text \<open>The loaded nodes by the key of the node they belong to, in the order they were read.\<close>

fun assign_neighbors :: "string \<Rightarrow> ('e \<Rightarrow> 'k option) \<Rightarrow> 'k list \<Rightarrow> 'e list \<Rightarrow> ('k \<Rightarrow> 'e list)
    \<Rightarrow> err + ('k \<Rightarrow> 'e list)" where
  "assign_neighbors name fk ks [] es = Inr es"
| "assign_neighbors name fk ks (n # ns) es =
     (case fk n of
        None \<Rightarrow> Inl (EMsg (''foreign-key '' @ name @ '' is nil for node''))
      | Some k \<Rightarrow>
          if List.member ks k then assign_neighbors name fk ks ns (es(k := es k @ [n]))
          else Inl (EMsg (''unexpected referenced foreign-key '' @ name)))"

definition load_edge :: "string \<Rightarrow> string \<Rightarrow> string list \<Rightarrow> 'e ent_meta \<Rightarrow> ('k \<Rightarrow> ent_value) \<Rightarrow> ('e \<Rightarrow> 'k option)
    \<Rightarrow> 's ent_client \<Rightarrow> ent_query \<Rightarrow> 'k list \<Rightarrow> ('s, 'k \<Rightarrow> 'e list) io" where
  "load_edge name column fks m mk fk cl query ks s =
     (case All_fks m fks cl (Where [FieldIn column (map mk ks)] query) s of
        (Inl e, s') \<Rightarrow> (Inl e, s')
      | (Inr ns, s') \<Rightarrow> (assign_neighbors name fk ks ns (\<lambda>k. []), s'))"

text \<open>The nodes are found by their key in a Go map, in which the last node of a key stays.\<close>

definition edge_of :: "'k list \<Rightarrow> ('k \<Rightarrow> 'e list) \<Rightarrow> nat \<Rightarrow> 'e list" where
  "edge_of ks es i = (if List.member (drop (Suc i) ks) (ks ! i) then [] else es (ks ! i))"

section \<open>Accounts with their transfers\<close>

record account_eager =
  ae_query :: ent_query
  ae_withTransfersTo :: "ent_query option"
  ae_withTransfersFrom :: "ent_query option"

record account_edges =
  ed_TransfersTo :: "ent_transfer list"
  ed_TransfersFrom :: "ent_transfer list"
  ed_loadedTypes :: "bool \<times> bool"

definition account_no_eager :: "ent_query \<Rightarrow> account_eager" where
  "account_no_eager q = \<lparr>ae_query = q, ae_withTransfersTo = None, ae_withTransfersFrom = None\<rparr>"

definition AccountQuery_WithTransfersTo :: "(ent_query \<Rightarrow> ent_query) list \<Rightarrow> account_eager \<Rightarrow> account_eager" where
  "AccountQuery_WithTransfersTo opts q = q\<lparr>ae_withTransfersTo := Some (fold (\<lambda>f. f) opts Query)\<rparr>"

definition AccountQuery_WithTransfersFrom :: "(ent_query \<Rightarrow> ent_query) list \<Rightarrow> account_eager \<Rightarrow> account_eager" where
  "AccountQuery_WithTransfersFrom opts q = q\<lparr>ae_withTransfersFrom := Some (fold (\<lambda>f. f) opts Query)\<rparr>"

definition AccountQuery_loadTransfersTo :: "'s ent_client \<Rightarrow> ent_query \<Rightarrow> ent_account list
    \<Rightarrow> ('s, string \<Rightarrow> ent_transfer list) io" where
  "AccountQuery_loadTransfersTo cl query nodes = load_edge ''to_address'' account_TransfersToColumn
     transfer_ForeignKeys transfer_meta VString ef_fk_to_address cl query (map ea_ID nodes)"

definition AccountQuery_loadTransfersFrom :: "'s ent_client \<Rightarrow> ent_query \<Rightarrow> ent_account list
    \<Rightarrow> ('s, string \<Rightarrow> ent_transfer list) io" where
  "AccountQuery_loadTransfersFrom cl query nodes = load_edge ''from_address'' account_TransfersFromColumn
     transfer_ForeignKeys transfer_meta VString ef_fk_from_address cl query (map ea_ID nodes)"

definition load_if :: "'q option \<Rightarrow> ('q \<Rightarrow> ('s, 'k \<Rightarrow> 'e list) io) \<Rightarrow> ('s, 'k \<Rightarrow> 'e list) io" where
  "load_if query load s = (case query of None \<Rightarrow> (Inr (\<lambda>k. []), s) | Some q \<Rightarrow> load q s)"

definition AccountQuery_AllEdges :: "'s ent_client \<Rightarrow> account_eager
    \<Rightarrow> ('s, (ent_account \<times> account_edges) list) io" where
  "AccountQuery_AllEdges cl q s =
     (case AccountQuery_All cl (ae_query q) s of
        (Inl e, s1) \<Rightarrow> (Inl e, s1)
      | (Inr nodes, s1) \<Rightarrow>
          if nodes = [] then (Inr [], s1)
          else (case load_if (ae_withTransfersTo q) (\<lambda>tq. AccountQuery_loadTransfersTo cl tq nodes) s1 of
              (Inl e, s2) \<Rightarrow> (Inl e, s2)
            | (Inr tos, s2) \<Rightarrow>
              (case load_if (ae_withTransfersFrom q) (\<lambda>tq. AccountQuery_loadTransfersFrom cl tq nodes) s2 of
                 (Inl e, s3) \<Rightarrow> (Inl e, s3)
               | (Inr froms, s3) \<Rightarrow>
                   (Inr (map (\<lambda>i. (nodes ! i,
                      \<lparr>ed_TransfersTo = edge_of (map ea_ID nodes) tos i,
                       ed_TransfersFrom = edge_of (map ea_ID nodes) froms i,
                       ed_loadedTypes = (ae_withTransfersTo q \<noteq> None, ae_withTransfersFrom q \<noteq> None)\<rparr>))
                      [0..<length nodes]), s3))))"

definition AccountEdges_TransfersToOrErr :: "account_edges \<Rightarrow> err + ent_transfer list" where
  "AccountEdges_TransfersToOrErr e = (if fst (ed_loadedTypes e) then Inr (ed_TransfersTo e)
     else Inl (EMsg ''ent: transfers_to edge was not loaded''))"

definition AccountEdges_TransfersFromOrErr :: "account_edges \<Rightarrow> err + ent_transfer list" where
  "AccountEdges_TransfersFromOrErr e = (if snd (ed_loadedTypes e) then Inr (ed_TransfersFrom e)
     else Inl (EMsg ''ent: transfers_from edge was not loaded''))"

section \<open>Blocks with their transactions\<close>

record block_eager =
  be_query :: ent_query
  be_withTransactions :: "ent_query option"

record block_edges =
  ed_Transactions :: "ent_transaction list"
  ed_loadedTransactions :: bool

definition block_no_eager :: "ent_query \<Rightarrow> block_eager" where
  "block_no_eager q = \<lparr>be_query = q, be_withTransactions = None\<rparr>"

definition BlockQuery_WithTransactions :: "(ent_query \<Rightarrow> ent_query) list \<Rightarrow> block_eager \<Rightarrow> block_eager" where
  "BlockQuery_WithTransactions opts q = q\<lparr>be_withTransactions := Some (fold (\<lambda>f. f) opts Query)\<rparr>"

definition BlockQuery_loadTransactions :: "'s ent_client \<Rightarrow> ent_query \<Rightarrow> ent_block list
    \<Rightarrow> ('s, int \<Rightarrow> ent_transaction list) io" where
  "BlockQuery_loadTransactions cl query nodes = load_edge ''block_transactions'' block_TransactionsColumn
     transaction_ForeignKeys transaction_meta VInt et_block_transactions cl query (map eb_ID nodes)"

definition BlockQuery_AllEdges :: "'s ent_client \<Rightarrow> block_eager \<Rightarrow> ('s, (ent_block \<times> block_edges) list) io" where
  "BlockQuery_AllEdges cl q s =
     (case BlockQuery_All cl (be_query q) s of
        (Inl e, s1) \<Rightarrow> (Inl e, s1)
      | (Inr nodes, s1) \<Rightarrow>
          if nodes = [] then (Inr [], s1)
          else (case load_if (be_withTransactions q) (\<lambda>tq. BlockQuery_loadTransactions cl tq nodes) s1 of
              (Inl e, s2) \<Rightarrow> (Inl e, s2)
            | (Inr txs, s2) \<Rightarrow>
                (Inr (map (\<lambda>i. (nodes ! i, \<lparr>ed_Transactions = edge_of (map eb_ID nodes) txs i,
                    ed_loadedTransactions = (be_withTransactions q \<noteq> None)\<rparr>)) [0..<length nodes]), s2)))"

definition BlockEdges_TransactionsOrErr :: "block_edges \<Rightarrow> err + ent_transaction list" where
  "BlockEdges_TransactionsOrErr e = (if ed_loadedTransactions e then Inr (ed_Transactions e)
     else Inl (EMsg ''ent: transactions edge was not loaded''))"

section \<open>Transactions with their block\<close>

record transaction_eager =
  te_query :: ent_query
  te_withBlock :: "ent_query option"

record transaction_edges =
  ed_Block :: "ent_block option"
  ed_loadedBlock :: bool

definition transaction_no_eager :: "ent_query \<Rightarrow> transaction_eager" where
  "transaction_no_eager q = \<lparr>te_query = q, te_withBlock = None\<rparr>"

definition TransactionQuery_WithBlock :: "(ent_query \<Rightarrow> ent_query) list \<Rightarrow> transaction_eager
    \<Rightarrow> transaction_eager" where
  "TransactionQuery_WithBlock opts q = q\<lparr>te_withBlock := Some (fold (\<lambda>f. f) opts Query)\<rparr>"

text \<open>A block that was not asked for fails the load; one that comes twice replaces the first.\<close>

fun assign_parents :: "int list \<Rightarrow> ent_block list \<Rightarrow> (int \<Rightarrow> ent_block option)
    \<Rightarrow> err + (int \<Rightarrow> ent_block option)" where
  "assign_parents ks [] bs = Inr bs"
| "assign_parents ks (n # ns) bs =
     (if List.member ks (eb_ID n) then assign_parents ks ns (bs(eb_ID n := Some n))
      else Inl (EMsg ''unexpected foreign-key block_transactions returned''))"

definition TransactionQuery_loadBlock :: "'s ent_client \<Rightarrow> ent_query \<Rightarrow> ent_transaction list
    \<Rightarrow> ('s, int \<Rightarrow> ent_block option) io" where
  "TransactionQuery_loadBlock cl query nodes s =
     (let ids = rev (remdups (rev (List.map_filter et_block_transactions nodes))) in
      if ids = [] then (Inr (\<lambda>k. None), s)
      else (case BlockQuery_All cl (Where [block_IDIn ids] query) s of
          (Inl e, s') \<Rightarrow> (Inl e, s')
        | (Inr ns, s') \<Rightarrow> (assign_parents ids ns (\<lambda>k. None), s')))"

definition TransactionQuery_AllEdges :: "'s ent_client \<Rightarrow> transaction_eager
    \<Rightarrow> ('s, (ent_transaction \<times> transaction_edges) list) io" where
  "TransactionQuery_AllEdges cl q s =
     (case All_fks transaction_meta (if te_withBlock q = None then [] else transaction_ForeignKeys) cl
         (te_query q) s of
        (Inl e, s1) \<Rightarrow> (Inl e, s1)
      | (Inr nodes, s1) \<Rightarrow>
          if nodes = [] then (Inr [], s1)
          else (case te_withBlock q of
              None \<Rightarrow> (Inr (map (\<lambda>n. (n, \<lparr>ed_Block = None, ed_loadedBlock = False\<rparr>)) nodes), s1)
            | Some bq \<Rightarrow>
                (case TransactionQuery_loadBlock cl bq nodes s1 of
                   (Inl e, s2) \<Rightarrow> (Inl e, s2)
                 | (Inr bs, s2) \<Rightarrow>
                     (Inr (map (\<lambda>n. (n, \<lparr>ed_Block = Option.bind (et_block_transactions n) bs,
                        ed_loadedBlock = True\<rparr>)) nodes), s2))))"

definition TransactionEdges_BlockOrErr :: "transaction_edges \<Rightarrow> err + ent_block" where
  "TransactionEdges_BlockOrErr e = (case ed_Block e of Some b \<Rightarrow> Inr b
     | None \<Rightarrow> if ed_loadedBlock e then Inl (ENotFound block_Label)
         else Inl (EMsg ''ent: block edge was not loaded''))"

text \<open>Without eager loading the queries are those of the entities.\<close>

lemma All_fks_none: "All_fks m [] cl q = All m cl q"
  by (rule ext) (simp add: All_fks_def All_def sqlAll_def split: option.split)

lemma AccountQuery_AllEdges_plain:
  "AccountQuery_All cl q s = (r, s') \<Longrightarrow> AccountQuery_AllEdges cl (account_no_eager q) s
     = ((case r of Inl e \<Rightarrow> Inl e | Inr ns \<Rightarrow> Inr (map (\<lambda>n. (n, \<lparr>ed_TransfersTo = [], ed_TransfersFrom = [],
         ed_loadedTypes = (False, False)\<rparr>)) ns)), s')"
  by (auto simp: AccountQuery_AllEdges_def account_no_eager_def load_if_def edge_of_def
    intro!: nth_equalityI split: sum.split)

end
