(* ===== verification/Client_Laws.thy ===== *)
theory Client_Laws
  imports Graph_Driver Ent_Clients Ent_Eager Readback "HOL-Library.Multiset"
begin

text \<open>
  What the operations of the generated client do to the tables, for every driver that keeps the laws of
  \<open>graph_driver\<close>: keys, counts and existence, deletes, one-row updates, upserts, and eager loading.
\<close>

section \<open>Reading transfers\<close>

definition row_transfer :: "row \<Rightarrow> ent_transfer" where
  "row_transfer r = (case em_Assign transfer_meta r of Inr e \<Rightarrow> e | Inl e \<Rightarrow> zero_transfer)"

lemma column_ok_stringE:
  "column_ok (nullable (column n TypeString)) v \<Longrightarrow> v = VNull \<or> (\<exists>x. v = VString x)"
  by (cases v) (auto simp: column_ok_def column_defs)

lemma transfer_columns: "transfer_Columns = map sc_Name (st_Columns TransfersTable)"
  by (simp add: transfer_Columns_def transfer_names table_defs column_defs)

lemma transfer_assign:
  assumes "row_ok TransfersTable r"
  shows "\<exists>e. em_Assign transfer_meta r = Inr e \<and> ef_fk_to_address e = None \<and> ef_fk_from_address e = None"
proof -
  have names: "map fst r = [''id'', ''hash'', ''func'', ''from_address'', ''to_address'', ''token'',
      ''amount'', ''denom'', ''created_at'']"
    and ok: "value_ok TypeInt (col r ''id'')" "value_ok TypeString (col r ''hash'')"
      "value_ok TypeString (col r ''func'')"
      "column_ok (nullable (column ''from_address'' TypeString)) (col r ''from_address'')"
      "column_ok (nullable (column ''to_address'' TypeString)) (col r ''to_address'')"
      "value_ok TypeString (col r ''token'')" "value_ok TypeFloat64 (col r ''amount'')"
      "value_ok TypeString (col r ''denom'')" "value_ok TypeTime (col r ''created_at'')"
    using assms by (simp_all add: row_ok_def table_defs column_defs column_ok_def)
  obtain v1 v2 v3 v4 v5 v6 v7 v8 v9 where r: "r = [(''id'', v1), (''hash'', v2), (''func'', v3),
      (''from_address'', v4), (''to_address'', v5), (''token'', v6), (''amount'', v7), (''denom'', v8),
      (''created_at'', v9)]"
    using names by (auto simp: map_eq_Cons_conv)
  obtain i h f t a n now where v: "v1 = VInt i" "v2 = VString h" "v3 = VString f" "v6 = VString t"
    "v7 = VFloat a" "v8 = VString n" "v9 = VTime now"
    using ok by (auto simp: r col_def value_ok_iff)
  have "v4 = VNull \<or> (\<exists>x. v4 = VString x)" "v5 = VNull \<or> (\<exists>x. v5 = VString x)"
    using ok(4,5) column_ok_stringE by (auto simp: r col_def)
  then show ?thesis
    by (auto simp: r v transfer_meta_def Transfer_scanValues_def Transfer_assignValues_def transfer_names
      zero_transfer_def)
qed

lemma reads_transfers:
  assumes "db_ok d"
  shows "reads_table transfer_meta TransfersTable row_transfer (d (st_Name TransfersTable))"
proof -
  have "em_Assign transfer_meta (project (em_Columns transfer_meta) r) = Inr (row_transfer r)"
    if "r \<in> d ''transfers''" for r
  proof -
    have ok: "row_ok TransfersTable r" using db_ok_row [OF assms Tables_members(5)] that by simp
    have "project (em_Columns transfer_meta) r = r"
      using project_all [OF Tables_members(5) ok] by (simp add: transfer_meta_def transfer_columns)
    then show ?thesis using transfer_assign [OF ok] by (auto simp: row_transfer_def)
  qed
  then show ?thesis by (simp add: reads_table_def) (simp add: transfer_meta_def transfer_names)
qed

section \<open>Queries by predicates\<close>

definition reads_keys :: "ftype \<Rightarrow> 'n ent_meta \<Rightarrow> sql_table \<Rightarrow> bool" where
  "reads_keys ty m t \<longleftrightarrow> t \<in> set Tables \<and> em_Table m = st_Name t \<and> fst (em_IDSpec m) = st_PrimaryKey t
     \<and> em_ValidColumn m (st_PrimaryKey t) \<and> list_all (has_column t) (em_Columns m)
     \<and> (\<exists>k \<in> set (st_Columns t). sc_Name k = st_PrimaryKey t \<and> sc_Type k = ty \<and> \<not> sc_Nullable k)"

lemma reads_keys_metas:
  "reads_keys TypeString account_meta AccountsTable" "reads_keys TypeInt block_meta BlocksTable"
  "reads_keys TypeInt restorehistory_meta RestoreHistoriesTable"
  "reads_keys TypeInt transaction_meta TransactionsTable" "reads_keys TypeInt transfer_meta TransfersTable"
  by (auto simp: reads_keys_def account_meta_def block_meta_def restorehistory_meta_def transaction_meta_def
    transfer_meta_def account_names block_names restorehistory_names transaction_names transfer_names
    account_Columns_def block_Columns_def restorehistory_Columns_def transaction_Columns_def transfer_Columns_def
    account_ValidColumn_def block_ValidColumn_def restorehistory_ValidColumn_def transaction_ValidColumn_def
    transfer_ValidColumn_def has_column_def Tables_def table_defs column_defs)

lemma where_plain:
  assumes "reads_keys ty m t" "list_all (wf_pred t) ps"
  shows "plain_query t m (Where ps Query)" "0 \<le> n \<Longrightarrow> plain_query t m (Limit n (Where ps Query))"
  using assms by (auto simp: plain_query_def wf_query_def querySpec_def Query_def Where_def Limit_def
    reads_keys_def selector_err_def List.map_filter_simps)

lemma where_simps [simp]:
  "qy_Fields (Where ps Query) = []" "qy_Offset (Where ps Query) = None" "qy_Limit (Where ps Query) = None"
  "qy_order (Where ps Query) = []" "qy_predicates (Where ps Query) = ps" "qy_Unique (Where ps Query) = None"
  by (simp_all add: Where_def Query_def)

lemma limit_simps [simp]:
  "qy_Fields (Limit n q) = qy_Fields q" "qy_Offset (Limit n q) = qy_Offset q" "qy_Limit (Limit n q) = Some n"
  "qy_order (Limit n q) = qy_order q" "qy_predicates (Limit n q) = qy_predicates q"
  "qy_Unique (Limit n q) = qy_Unique q"
  by (simp_all add: Limit_def)

lemma key_select_wf:
  assumes "reads_keys ty m t" "list_all (wf_pred t) (qy_predicates q)" "qy_order q = []" "qy_Offset q = None"
    "qy_Unique q = None" "qy_Fields q = []" "pred_option (\<lambda>l. 0 \<le> l) (qy_Limit q)"
  shows "wf_select ty t (sqlQuery m (q\<lparr>qy_Fields := qy_Fields q @ [fst (em_IDSpec m)]\<rparr>))"
proof -
  have "\<exists>k \<in> set (st_Columns t). [st_PrimaryKey t] = [sc_Name k] \<and> sc_Type k = ty \<and> \<not> sc_Nullable k"
    using assms(1) by (auto simp: reads_keys_def) metis
  moreover have "fst (em_IDSpec m) = st_PrimaryKey t" "em_Table m = st_Name t" using assms(1) by (auto simp: reads_keys_def)
  ultimately show ?thesis using assms(2-7) by (auto simp: wf_select_def sqlQuery_def split: option.splits)
qed

text \<open>A key selection answers with the keys of the selected rows, at most as many as the limit.\<close>

lemma IDs_run:
  assumes "reads_keys ty m t" "list_all (wf_pred t) (qy_predicates q)" "qy_order q = []" "qy_Offset q = None"
    "qy_Unique q = None" "qy_Fields q = []"
    "scan (sqlQuery m (q\<lparr>qy_Fields := [st_PrimaryKey t]\<rparr>)) s = (Inr ks, s')"
    "select_answer mk (sqlQuery m (q\<lparr>qy_Fields := [st_PrimaryKey t]\<rparr>)) d ks"
  shows "IDs m scan q s = (Inr ks, s')"
    "\<exists>ms. distinct ms \<and> set ms = {r \<in> d (st_Name t). satisfies (qy_predicates q) r}
      \<and> map mk ks = map (\<lambda>r. col r (st_PrimaryKey t)) (opt_window None (qy_Limit q) ms)"
proof -
  have key: "fst (em_IDSpec m) = st_PrimaryKey t" "em_ValidColumn m (st_PrimaryKey t)" "em_Table m = st_Name t"
    using assms(1) by (auto simp: reads_keys_def)
  let ?sp = "sqlQuery m (q\<lparr>qy_Fields := [st_PrimaryKey t]\<rparr>)"
  have sp: "?sp\<lparr>ss_Fns := []\<rparr> = ?sp" by (simp add: sqlQuery_def)
  show "IDs m scan q s = (Inr ks, s')"
    using assms(6,7) key by (simp add: IDs_def Select_def Select_Scan_def prepareQuery_def Select_sqlScan_def
      sp Let_def)
  have "ss_Table ?sp = st_Name t" "ss_Predicate ?sp = qy_predicates q" "ss_Order ?sp = []" "ss_Offset ?sp = None"
    "ss_Limit ?sp = qy_Limit q" "ss_Columns ?sp = [st_PrimaryKey t]"
    using assms(3,4) key by (auto simp: sqlQuery_def split: option.split)
  then show "\<exists>ms. distinct ms \<and> set ms = {r \<in> d (st_Name t). satisfies (qy_predicates q) r}
      \<and> map mk ks = map (\<lambda>r. col r (st_PrimaryKey t)) (opt_window None (qy_Limit q) ms)"
    using assms(8) unfolding select_answer_def by auto
qed

context graph_driver_up
begin

lemma IDs_ints:
  assumes "reads_keys TypeInt m t" "list_all (wf_pred t) (qy_predicates q)" "qy_order q = []" "qy_Offset q = None"
    "qy_Unique q = None" "qy_Fields q = []" "pred_option (\<lambda>l. 0 \<le> l) (qy_Limit q)" "db_ok (rows s)"
  shows "\<exists>ks s' ms. IDs m (SelectInts g) q s = (Inr ks, s') \<and> rows s' = rows s \<and> distinct ms
    \<and> set ms = {r \<in> rows s (st_Name t). satisfies (qy_predicates q) r}
    \<and> map VInt ks = map (\<lambda>r. col r (st_PrimaryKey t)) (opt_window None (qy_Limit q) ms)"
proof -
  let ?sp = "sqlQuery m (q\<lparr>qy_Fields := [st_PrimaryKey t]\<rparr>)"
  have t: "t \<in> set Tables" and wf: "wf_select TypeInt t ?sp"
    using assms key_select_wf [OF assms(1-7)] by (auto simp: reads_keys_def)
  obtain ks s' where S: "SelectInts g ?sp s = (Inr ks, s')" using ints_up [OF t wf assms(8)] by (metis prod.collapse)
  then show ?thesis using ints [OF t wf assms(8) S]
      IDs_run [OF assms(1-6), of "SelectInts g" s ks s' VInt "rows s"] by blast
qed

lemma IDs_strings:
  assumes "reads_keys TypeString m t" "list_all (wf_pred t) (qy_predicates q)" "qy_order q = []" "qy_Offset q = None"
    "qy_Unique q = None" "qy_Fields q = []" "pred_option (\<lambda>l. 0 \<le> l) (qy_Limit q)" "db_ok (rows s)"
  shows "\<exists>ks s' ms. IDs m (SelectStrings g) q s = (Inr ks, s') \<and> rows s' = rows s \<and> distinct ms
    \<and> set ms = {r \<in> rows s (st_Name t). satisfies (qy_predicates q) r}
    \<and> map VString ks = map (\<lambda>r. col r (st_PrimaryKey t)) (opt_window None (qy_Limit q) ms)"
proof -
  let ?sp = "sqlQuery m (q\<lparr>qy_Fields := [st_PrimaryKey t]\<rparr>)"
  have t: "t \<in> set Tables" and wf: "wf_select TypeString t ?sp"
    using assms key_select_wf [OF assms(1-7)] by (auto simp: reads_keys_def)
  obtain ks s' where S: "SelectStrings g ?sp s = (Inr ks, s')" using strings_up [OF t wf assms(8)] by (metis prod.collapse)
  then show ?thesis using strings [OF t wf assms(8) S]
      IDs_run [OF assms(1-6), of "SelectStrings g" s ks s' VString "rows s"] by blast
qed

lemma Count_run:
  assumes "reads_keys ty m t" "list_all (wf_pred t) ps" "db_ok (rows s)"
  shows "\<exists>s'. Count m g (Where ps Query) s = (Inr (int (card {r \<in> rows s (st_Name t). satisfies ps r})), s')
    \<and> rows s' = rows s"
proof -
  let ?q = "(querySpec m (Where ps Query))\<lparr>qs_Columns := []\<rparr>"
  have t: "t \<in> set Tables" and wf: "wf_count t ?q" and pre: "qs_Predicate ?q = ps"
    using assms by (auto simp: reads_keys_def wf_count_def querySpec_def)
  obtain n s' where C: "CountNodes g ?q s = (Inr n, s')" using count_up [OF t wf assms(3)] by (metis prod.collapse)
  then have "n = int (card {r \<in> rows s (st_Name t). satisfies ps r})" "rows s' = rows s"
    using count [OF t wf assms(3) C] unfolding pre by auto
  then show ?thesis using C
    by (simp add: Count_def sqlCount_def prepareQuery_def selector_err_def List.map_filter_simps Let_def)
qed

lemma All_run:
  assumes "reads_keys ty m t" "list_all (wf_pred t) ps" "db_ok (rows s)" "reads_table m t f (rows s (st_Name t))"
  shows "\<exists>ms s'. All m (eg_client g) (Where ps Query) s = (Inr (map f ms), s') \<and> rows s' = rows s \<and> distinct ms
    \<and> set ms = {r \<in> rows s (st_Name t). satisfies ps r}"
proof -
  note plain = where_plain(1) [OF assms(1,2)]
  obtain es s' where A: "All m (eg_client g) (Where ps Query) s = (Inr es, s')"
    using All_up [OF assms(3,4) plain] by blast
  have "qs_Offset (querySpec m (Where ps Query)) = 0" "qs_Limit (querySpec m (Where ps Query)) = 0"
    by (simp_all add: querySpec_def)
  then show ?thesis using A All_answer [OF assms(3,4) plain A] by (auto simp: window_def)
qed

text \<open>Keys, count, existence and the rows themselves tell the same.\<close>

lemma keys_of_rows:
  assumes "db_ok (rows s)" "t \<in> set Tables" "distinct ms" "set ms = {r \<in> rows s (st_Name t). P r}"
  shows "distinct (map (\<lambda>r. col r (st_PrimaryKey t)) ms)"
proof -
  have "inj_on (\<lambda>r. col r (st_PrimaryKey t)) (set ms)"
    using db_okD [OF assms(1,2)] assms(4) by (auto simp: table_ok_def intro: inj_on_subset)
  then show ?thesis using assms(3) by (simp add: distinct_map)
qed

lemma Exist_run: "IDs m scan (Limit 1 q) s = (Inr ks, s') \<Longrightarrow> Exist m scan q s = (Inr (ks \<noteq> []), s')"
  by (cases ks) (simp_all add: Exist_def FirstID_def)

lemma answers_agree_ints:
  assumes "reads_keys TypeInt m t" "list_all (wf_pred t) ps" "db_ok (rows s)"
    "reads_table m t f (rows s (st_Name t))"
  shows "\<exists>ms ks s1 s2 s3 s4. set ms = {r \<in> rows s (st_Name t). satisfies ps r}
    \<and> All m (eg_client g) (Where ps Query) s = (Inr (map f ms), s1)
    \<and> IDs m (SelectInts g) (Where ps Query) s = (Inr ks, s2)
    \<and> mset (map VInt ks) = mset (map (\<lambda>r. col r (st_PrimaryKey t)) ms)
    \<and> Count m g (Where ps Query) s = (Inr (int (length ms)), s3)
    \<and> Exist m (SelectInts g) (Where ps Query) s = (Inr (ms \<noteq> []), s4)
    \<and> rows s1 = rows s \<and> rows s2 = rows s \<and> rows s3 = rows s \<and> rows s4 = rows s"
proof -
  have t: "t \<in> set Tables" using assms(1) by (simp add: reads_keys_def)
  obtain ms s1 where A: "All m (eg_client g) (Where ps Query) s = (Inr (map f ms), s1)" "rows s1 = rows s"
    "distinct ms" "set ms = {r \<in> rows s (st_Name t). satisfies ps r}"
    using All_run [OF assms] by blast
  obtain ks s2 ns where I: "IDs m (SelectInts g) (Where ps Query) s = (Inr ks, s2)" "rows s2 = rows s" "distinct ns"
    "set ns = {r \<in> rows s (st_Name t). satisfies ps r}" "map VInt ks = map (\<lambda>r. col r (st_PrimaryKey t)) ns"
    using IDs_ints [of m t "Where ps Query" s] assms unfolding opt_window_def where_simps by fastforce
  have "mset ns = mset ms" using A I by (simp add: set_eq_iff_mset_eq_distinct [symmetric])
  then have keys: "mset (map VInt ks) = mset (map (\<lambda>r. col r (st_PrimaryKey t)) ms)" by (simp add: I(5))
  obtain s3 where C: "Count m g (Where ps Query) s = (Inr (int (length ms)), s3)" "rows s3 = rows s"
    using Count_run [OF assms(1-3)] A(3,4) by (metis distinct_card)
  obtain ls s4 qs where F: "IDs m (SelectInts g) (Limit 1 (Where ps Query)) s = (Inr ls, s4)" "rows s4 = rows s"
    "set qs = {r \<in> rows s (st_Name t). satisfies ps r}"
    "map VInt ls = map (\<lambda>r. col r (st_PrimaryKey t)) (take 1 qs)"
    using IDs_ints [of m t "Limit 1 (Where ps Query)" s] assms unfolding opt_window_def limit_simps where_simps
    by fastforce
  have "ls = [] \<longleftrightarrow> qs = []" using F(4) by (metis list.map_disc_iff take_eq_Nil zero_neq_one)
  also have "\<dots> \<longleftrightarrow> ms = []" using F(3) A(4) by (metis set_empty)
  finally have "Exist m (SelectInts g) (Where ps Query) s = (Inr (ms \<noteq> []), s4)"
    using Exist_run [OF F(1)] by simp
  then show ?thesis using A I C F(2) keys by blast
qed

end

section \<open>Deleting a block\<close>

text \<open>The transactions of a deleted block stay, without their block.\<close>

definition orphan_row :: "int \<Rightarrow> row \<Rightarrow> row" where
  "orphan_row h r = map (\<lambda>(c, v). (c, if c = ''block_transactions'' \<and> v = VInt h then VNull else v)) r"

definition db_without_block :: "int \<Rightarrow> db \<Rightarrow> db" where
  "db_without_block h d = d(''blocks'' := {r \<in> d ''blocks''. col r ''height'' \<noteq> VInt h},
     ''transactions'' := orphan_row h ` d ''transactions'')"

lemma fk_lists:
  "st_ForeignKeys AccountsTable = []" "st_ForeignKeys BlocksTable = []" "st_ForeignKeys RestoreHistoriesTable = []"
  "st_ForeignKeys TransactionsTable = [\<lparr>fk_Column = ''block_transactions'', fk_RefTable = ''blocks'',
     fk_RefColumn = ''height'', fk_OnDelete = SetNull\<rparr>]"
  "list_all (\<lambda>fk. fk_RefTable fk \<noteq> ''blocks'') (st_ForeignKeys TransfersTable)"
  by (simp_all add: table_defs)

lemma db_delete_block:
  assumes "H = {r \<in> d ''blocks''. col r ''height'' = VInt h}" "H \<noteq> {}"
  shows "db_delete BlocksTable H d = db_without_block h d"
proof
  fix n
  have tx: "detach BlocksTable H TransactionsTable = orphan_row h"
    using assms by (intro ext) (auto simp: detach_def detach_value_def orphan_row_def fk_lists)
  have other: "detach BlocksTable H u = (\<lambda>r. r)" if "u \<in> set Tables" "u \<noteq> TransactionsTable" for u
    using that by (intro detach_unreferenced) (auto simp: Tables_def fk_lists)
  show "db_delete BlocksTable H d n = db_without_block h d n"
  proof (cases "table_of n")
    case None
    then have "n \<noteq> ''blocks''" "n \<noteq> ''transactions''"
      using table_of_known [of BlocksTable] table_of_known [of TransactionsTable] by auto
    then show ?thesis by (simp add: db_delete_def db_without_block_def None)
  next
    case (Some u)
    then have u: "u \<in> set Tables" "st_Name u = n" using table_of_Some by blast+
    show ?thesis
    proof (cases "u = TransactionsTable")
      case True
      then have "n = ''transactions''" using u by simp
      then show ?thesis using Some True by (simp add: db_delete_def db_without_block_def tx)
    next
      case False
      then have "n \<noteq> ''transactions''"
        using u table_name_inj [OF u(1) Tables_members(4)] by auto
      moreover have "d ''blocks'' - H = {r \<in> d ''blocks''. col r ''height'' \<noteq> VInt h}" using assms(1) by auto
      ultimately show ?thesis by (simp add: db_delete_def db_without_block_def Some other [OF u(1) False])
    qed
  qed
qed

lemma has_block_without: "\<not> has_block (db_without_block h d) h"
  by (auto simp: has_block_def db_without_block_def)

lemma block_get_query: "Where [block_ID h] Query = Where [block_IDEQ h] Query"
  by (simp add: block_ID_def block_IDEQ_def)

context sql_driver_up
begin

lemma BlockClient_Get_absent:
  assumes "db_ok (rows s)" "\<not> has_block (rows s) h"
  shows "fst (BlockClient_Get cl h s) = Inl (ENotFound block_Label)"
proof -
  let ?q = "Where [block_IDEQ h] Query"
  obtain q s1 where Q: "Only block_meta cl ?q s = (q, s1)" by fastforce
  have "{x \<in> rows s (st_Name BlocksTable). satisfies (qy_predicates ?q) x} = {}"
    using assms(2) unfolding block_query_plain(3) by (auto simp: satisfies_def has_block_def)
  then have "q = Inl (ENotFound (em_Label block_meta)) \<or> (\<exists>e. q = Inl (EDriver e))"
    using Only_answer(3) [OF assms(1) reads_blocks [OF assms(1)] block_query_plain(1,2) Q] by blast
  moreover have "q \<noteq> Inl (EDriver e)" for e
    using Only_no_driver_err [OF assms(1) reads_blocks [OF assms(1)] block_query_plain(1)] Q by (metis fst_conv)
  ultimately show ?thesis
    using Q by (auto simp: BlockClient_Get_def BlockClient_Query_def BlockQuery_Only_def block_get_query block_meta_def)
qed

end

context graph_driver_up
begin

lemma BlockDeleteOne_run:
  assumes "db_ok (rows s)" "BlockDeleteOne_Exec g (BlockClient_DeleteOneID h) s = (res, s')"
  shows "if has_block (rows s) h then res = Inr () \<and> rows s' = db_without_block h (rows s)
    else res = Inl (ENotFound block_Label) \<and> rows s' = rows s"
proof -
  let ?ds = "\<lparr>ds_Table = block_Table, ds_IDSpec = (block_FieldID, TypeInt), ds_Predicate = [block_ID h]\<rparr>"
  let ?H = "{r \<in> rows s ''blocks''. col r ''height'' = VInt h}"
  have spec: "bm_predicates (bdb_mutation (BlockClient_DeleteOneID h)) = [block_ID h]"
    by (simp add: BlockClient_DeleteOneID_def BlockClient_Delete_def BlockDelete_Where_def BlockMutation_Where_def
      newBlockMutation_def Let_def)
  have wf: "wf_delete BlocksTable ?ds"
    by (simp add: wf_delete_def block_ID_def block_names has_column_def table_defs column_defs)
  obtain n s1 where D: "DeleteNodes g ?ds s = (Inr n, s1)"
    using delete_up [OF Tables_members(2) wf assms(1)] by (metis prod.collapse)
  have "delete_step BlocksTable ?ds (rows s) (Inr n) (rows s1)"
    by (rule delete [OF Tables_members(2) wf assms(1) D])
  moreover have "{r \<in> rows s (st_Name BlocksTable). satisfies (ds_Predicate ?ds) r} = ?H"
    by (auto simp: satisfies_def block_ID_def block_names)
  ultimately have n: "n = int (card ?H)" "rows s1 = db_delete BlocksTable ?H (rows s)"
    by (simp_all add: delete_step_def Let_def)
  have fin: "finite ?H" using db_okD [OF assms(1) Tables_members(2)] by (simp add: table_ok_def)
  have run: "res = (if n = 0 then Inl (ENotFound block_Label) else Inr ())" "s' = s1"
    using assms(2) D by (simp_all add: BlockDeleteOne_Exec_def BlockDelete_Exec_def BlockDelete_sqlExec_def spec
      split: if_splits)
  have hb: "has_block (rows s) h \<longleftrightarrow> ?H \<noteq> {}" by (auto simp: has_block_def)
  show ?thesis
  proof (cases "has_block (rows s) h")
    case True
    then have "n \<noteq> 0" using n(1) fin hb by simp
    then show ?thesis using True run n(2) db_delete_block [OF refl] hb by simp
  next
    case False
    then have "?H = {}" using hb by simp
    moreover have "db_delete BlocksTable {} (rows s) = rows s"
      by (rule ext) (auto simp: db_delete_def detach_def detach_value_def split: option.split)
    ultimately show ?thesis using False run n by (simp only: card.empty) simp
  qed
qed

end

end
