(* ===== verification/Client_Writes.thy ===== *)
theory Client_Writes
  imports Client_Laws
begin

text \<open>
  One-row updates of an account and upserts of a block through the generated client, over a lawful driver:
  what they answer, and what they do to the tables.
\<close>

section \<open>Adding to one account by its address\<close>

definition account_add :: "string \<Rightarrow> float64 \<Rightarrow> account_update_one" where
  "account_add a v = AccountUpdateOne_AddAmount v (fst (AccountClient_UpdateOneID a))"

definition account_add_spec :: "string \<Rightarrow> float64 \<Rightarrow> node_update" where
  "account_add_spec a v = \<lparr>nu_Spec = \<lparr>us_Table = ''accounts'', us_Columns = [''address'', ''token'', ''amount''],
     us_IDSpec = (''address'', TypeString), us_Predicate = [], us_Set = [],
     us_Add = [(''amount'', TypeFloat64, VFloat v)], us_Clear = [], us_Append = [], us_ClearEdges = [],
     us_AddEdges = []\<rparr>, nu_ID = VString a\<rparr>"

lemma account_add_wf: "wf_node AccountsTable (account_add_spec a v)"
  by (simp add: wf_node_def wf_update_def account_add_spec_def table_defs column_defs has_column_def
    plain_column_def)

lemma account_add_run:
  "AccountUpdateOne_Save g (account_add a v) = update_one account_meta g (account_add_spec a v)"
  by (rule ext) (simp add: account_add_def account_updates_defs account_client_defs account_mutation_defs
    newAccountMutation_def account_update_defs account_names account_Columns_def ids_of_def
    select_columns_def account_meta_def account_add_spec_def)

lemma account_meta_read:
  "em_Assign account_meta (project [''address'', ''token'', ''amount''] (account_row a t x))
    = Inr \<lparr>ea_ID = a, ea_Token = t, ea_Amount = x\<rparr>"
  using account_assign [of a t x] by (simp add: project_def account_row_def col_def)

context graph_driver_up
begin

lemma account_add_answer:
  assumes "db_ok (rows s)" "is_ledger (rows s) L" "AccountUpdateOne_Save g (account_add a v) s = (res, s')"
  shows "db_ok (rows s')
    \<and> (L a = None \<longrightarrow> res = Inl (ENotFound account_Label) \<and> rows s' = rows s)
    \<and> (\<forall>t x. L a = Some (t, x) \<longrightarrow> res = Inr \<lparr>ea_ID = a, ea_Token = t, ea_Amount = f64_add x v\<rparr>
        \<and> is_ledger (rows s') (L(a \<mapsto> (t, f64_add x v))) \<and> (\<forall>n. n \<noteq> ''accounts'' \<longrightarrow> rows s' n = rows s n))"
proof -
  let ?nu = "account_add_spec a v"
  let ?H = "{r \<in> rows s ''accounts''. col r ''address'' = VString a}"
  obtain row s1 where N: "UpdateNode g ?nu s = (row, s1)" by fastforce
  note law = node [OF Tables_members(1) account_add_wf assms(1) N]
  have up: "(\<exists>r. row = Inr r) \<or> (\<exists>m. row = Inl (SqlNotFound m))"
    using node_up [OF Tables_members(1) account_add_wf assms(1), of a v] N by simp
  have res: "res = (case row of Inl e \<Rightarrow> Inl (wrap_update_err account_Label e) | Inr r \<Rightarrow> em_Assign account_meta r)"
    "s' = s1"
    using assms(3) N by (auto simp: account_add_run update_one_def account_meta_def split: sum.splits)
  have ok: "db_ok (rows s')" using node_step_ok [OF law Tables_members(1) account_add_wf assms(1)] res by simp
  have nu: "nu_ID ?nu = VString a" "us_Columns (nu_Spec ?nu) = [''address'', ''token'', ''amount'']"
    "update_row (nu_Spec ?nu) = add_row [(''amount'', TypeFloat64, VFloat v)]"
    by (simp_all add: account_add_spec_def update_row_adds)
  note step = law [unfolded node_step_def nu Let_def table_names table_keys]
  show ?thesis
  proof (cases "L a")
    case None
    then have H: "?H = {}" using is_ledger_None [OF assms(1,2)] by auto
    have "(\<exists>m. row = Inl (SqlNotFound m)) \<and> rows s1 = rows s" using up step unfolding H by auto
    then show ?thesis using res None ok by (auto simp: wrap_update_err_def)
  next
    case (Some p)
    obtain t x where p: "p = (t, x)" by fastforce
    then have r: "account_row a t x \<in> rows s ''accounts''" using Some assms(2) by (simp add: is_ledger_def)
    have uniq: "q = account_row a t x" if "q \<in> rows s ''accounts''" "col q ''address'' = VString a" for q
      by (rule db_ok_key [OF assms(1) Tables_members(1)]) (use that r in simp_all)
    have "account_row a t x \<in> ?H" using r by simp
    then have H: "?H = {account_row a t x}" using uniq by blast
    have "row = Inr (project [''address'', ''token'', ''amount''] (account_row a t (f64_add x v)))"
      and s1: "rows s1 = (rows s)(''accounts'' := (rows s ''accounts'' - {account_row a t x})
        \<union> {account_row a t (f64_add x v)})"
      using up step unfolding H by (auto simp: add_account_row)
    then have "res = Inr \<lparr>ea_ID = a, ea_Token = t, ea_Amount = f64_add x v\<rparr>"
      by (simp add: res account_meta_read)
    moreover have "is_ledger (rows s1) (L(a \<mapsto> (t, f64_add x v)))"
      using assms(2) Some p account_row_key [OF assms(1)] unfolding is_ledger_def s1 by auto
    ultimately show ?thesis using Some p res ok s1 by simp
  qed
qed

end

section \<open>Upserting a block\<close>

definition block_upsert :: "go_time \<Rightarrow> block \<Rightarrow> block_create" where
  "block_upsert now b = BlockUpsertOne_UpdateNewValues
     (BlockCreate_OnConflictColumns [block_FieldID] (block_builder now b))"

definition block_upsert_spec :: "block \<Rightarrow> go_time \<Rightarrow> create_spec" where
  "block_upsert_spec b now = (block_spec b now)\<lparr>cs_OnConflict := [ConflictColumns [''height''],
     ResolveWithNewValues, IgnoreGiven [''height'', ''created_at'']]\<rparr>"

lemma block_upsert_parts:
  "snd (BlockCreate_createSpec (BlockCreate_defaults cl n (block_upsert now b))) = block_upsert_spec b now"
  "eb_ID (fst (BlockCreate_createSpec (BlockCreate_defaults cl n (block_upsert now b)))) = b_Height b"
  "BlockCreate_check cl (BlockCreate_defaults cl n (block_upsert now b)) =
     (if NotEmpty cl (b_Hash b) then None
      else Some (EValidation ''hash'' ''ent: validator failed for field''))"
  "bcb_conflict (block_upsert now b) \<noteq> []"
  by (simp_all add: block_upsert_def block_upsert_defs block_builder_def block_create_defs
    block_mutation_defs newBlockMutation_def block_upsert_spec_def block_spec_def NewCreateSpec_def block_names
    Let_def ids_of_def zero_block_def)

lemma block_upsert_excluded:
  "excluded_columns (block_upsert_spec b now) = [''hash'', ''time'', ''total_txs'', ''num_txs'']"
  by (simp add: excluded_columns_def block_upsert_spec_def block_spec_def insert_columns_def)

lemma block_upsert_wf: "wf_upsert BlocksTable (block_upsert_spec b now)"
  unfolding wf_upsert_def block_upsert_excluded
  by (simp add: block_upsert_spec_def block_spec_def wf_spec_def table_defs column_defs column_ok_def
    field_value_def has_column_def)

lemma block_upsert_row: "new_row BlocksTable (VInt (b_Height b)) (block_upsert_spec b now) = block_row b now"
  by (simp add: new_row_def block_upsert_spec_def block_spec_def table_defs column_defs field_value_def
    block_row_def)

lemma merge_block_row:
  "b_Height b0 = b_Height b \<Longrightarrow> merge_row [''hash'', ''time'', ''total_txs'', ''num_txs''] (block_row b now) (block_row b0 now0)
    = block_row b now0"
  by (simp add: merge_row_def block_row_def col_def)

lemma blocks_are_rows: "db_ok d \<Longrightarrow> r \<in> d ''blocks'' \<Longrightarrow> \<exists>b now. r = block_row b now"
  using db_ok_row [of d BlocksTable r] by simp (metis row_ok_blockE)

lemma block_upsert_rows:
  assumes "db_ok d" "upsert_step BlocksTable (block_upsert_spec b now) d (Inr v) d'"
  shows "v = Some (VInt (b_Height b))"
    "\<not> has_block d (b_Height b) \<Longrightarrow> d' = db_insert BlocksTable (block_row b now) d"
    "block_row b0 now0 \<in> d ''blocks'' \<Longrightarrow> b_Height b0 = b_Height b
      \<Longrightarrow> d' = d(''blocks'' := d ''blocks'' - {block_row b0 now0} \<union> {block_row b now0})"
proof -
  have key: "key_of (block_upsert_spec b now) v k \<longleftrightarrow> k = VInt (b_Height b) \<and> v = Some (VInt (b_Height b))" for k
    by (auto simp: key_of_def block_upsert_spec_def block_spec_def)
  have d': "d' = db_upsert BlocksTable [''hash'', ''time'', ''total_txs'', ''num_txs''] (block_row b now) d"
    and "v = Some (VInt (b_Height b))"
    using assms(2) by (auto simp: upsert_step_def key block_upsert_row block_upsert_excluded)
  then show "v = Some (VInt (b_Height b))" by blast
  let ?S = "{q \<in> d ''blocks''. col q ''height'' = VInt (b_Height b)}"
  note ups = d' [unfolded db_upsert_def Let_def table_names table_keys col_block_row]
  show "d' = db_insert BlocksTable (block_row b now) d" if new: "\<not> has_block d (b_Height b)"
  proof -
    have "?S = {}" using new by (auto simp: has_block_def)
    then show ?thesis unfolding ups by simp
  qed
  show "d' = d(''blocks'' := d ''blocks'' - {block_row b0 now0} \<union> {block_row b now0})"
    if r: "block_row b0 now0 \<in> d ''blocks''" and h: "b_Height b0 = b_Height b"
  proof -
    have uniq: "q = block_row b0 now0" if "q \<in> d ''blocks''" "col q ''height'' = VInt (b_Height b)" for q
      by (rule db_ok_key [OF assms(1) Tables_members(2)]) (use that r h in \<open>simp_all add: col_block_row\<close>)
    have "block_row b0 now0 \<in> ?S" using r h by (simp add: col_block_row)
    then have S: "?S = {block_row b0 now0}" using uniq by blast
    show ?thesis unfolding ups S by (simp add: merge_block_row [OF h])
  qed
qed

context sql_driver_up
begin

lemma block_upsert_answer:
  assumes "db_ok (rows s)" "BlockUpsertOne_Exec cl (block_upsert now b) s = (res, s')"
  shows "db_ok (rows s')"
    and "b_Hash b = [] \<Longrightarrow> (\<exists>e. res = Inl e) \<and> rows s' = rows s"
    and "b_Hash b \<noteq> [] \<Longrightarrow> res = Inr () \<and> (\<exists>v. upsert_step BlocksTable (block_upsert_spec b now) (rows s) (Inr v) (rows s'))"
proof -
  let ?B = "BlockCreate_defaults cl (Now cl 0 s) (block_upsert now b)"
  obtain nd where nd: "BlockCreate_createSpec ?B = (nd, block_upsert_spec b now)" "eb_ID nd = b_Height b"
    using block_upsert_parts(1,2) [of cl "Now cl 0 s" now b] by (metis prod.collapse)
  obtain v s1 where C: "CreateNode cl (block_upsert_spec b now) s = (Inr v, s1)"
    using upsert_up [OF Tables_members(2) block_upsert_wf assms(1)] by (metis prod.collapse)
  have step: "upsert_step BlocksTable (block_upsert_spec b now) (rows s) (Inr v) (rows s1)"
    by (rule upsert [OF Tables_members(2) block_upsert_wf assms(1) C])
  have ok1: "db_ok (rows s1)" by (rule upsert_keeps_ok [OF Tables_members(2) block_upsert_wf assms(1) C])
  have run: "(res, s') = drop_result (\<lambda>s. BlockCreate_sqlSave cl ?B s) s"
    using assms(2) block_upsert_parts(4) [of now b]
    by (simp add: BlockUpsertOne_Exec_def BlockCreate_Exec_def drop_result_def BlockCreate_Save_def)
  have "(\<exists>e. res = Inl e) \<and> s' = s" if "b_Hash b = []"
    using run that block_upsert_parts(3) [of cl "Now cl 0 s" now b]
    by (simp add: drop_result_def BlockCreate_sqlSave_def not_empty)
  moreover have "res = Inr () \<and> s' = s1" if "b_Hash b \<noteq> []"
    using run that block_upsert_parts(3) [of cl "Now cl 0 s" now b] C nd block_upsert_rows(1) [OF assms(1) step]
    by (simp add: drop_result_def BlockCreate_sqlSave_def not_empty)
  ultimately show "db_ok (rows s')" "b_Hash b = [] \<Longrightarrow> (\<exists>e. res = Inl e) \<and> rows s' = rows s"
    "b_Hash b \<noteq> [] \<Longrightarrow> res = Inr () \<and> (\<exists>v. upsert_step BlocksTable (block_upsert_spec b now) (rows s) (Inr v) (rows s'))"
    using assms(1) ok1 step by auto
qed

end

text \<open>\<^verbatim>\<open>Exec\<close> of an upsert without conflict options is refused; \<^verbatim>\<open>ExecX\<close> does not look, and inserts.\<close>

lemma upsert_exec_x_inserts:
  "BlockUpsertOne_Exec cl (BlockCreate_OnConflict [] c) s
    = (Inl (EMsg ''ent: missing options for BlockCreate.OnConflict''), s)"
  "BlockUpsertOne_ExecX cl (BlockCreate_OnConflict [] c) = must (BlockCreate_Exec cl (c\<lparr>bcb_conflict := []\<rparr>))"
  by (simp_all add: block_upsert_defs)

text \<open>\<^verbatim>\<open>FirstX\<close> panics with every error but \<^verbatim>\<open>NotFound\<close>, for which it answers nil.\<close>

lemma first_x_masks_not_found:
  "BlockQuery_First cl q s = (r, s') \<Longrightarrow> fst (BlockQuery_FirstX cl q s)
    = (case r of Inr b \<Rightarrow> Inr (Some b) | Inl e \<Rightarrow> if IsNotFound e then Inr None else Inl (EPanic (err_text e)))"
  by (simp add: block_query_defs query_op_defs BlockQuery_First_def mask_must_def split: sum.split)

end
