(* ===== verification/Client_Edges.thy ===== *)
theory Client_Edges
  imports Client_Writes
begin

text \<open>
  Eager loading over a lawful driver: the transactions of blocks come with the block they belong to, and
  the transfers of accounts never load, because the foreign key they are matched by has the name of a field
  and is scanned as the field.
\<close>

section \<open>Loading the rows of an edge\<close>

lemma or3_true: "or3 bs = Some True \<longleftrightarrow> Some True \<in> set bs"
  by (auto simp: or3_def)

lemma sat_FieldIn: "sat r (FieldIn c vs) \<longleftrightarrow> col r c \<noteq> VNull \<and> col r c \<in> set vs"
  by (auto simp: sat_def or3_true compare3_def split: if_splits intro: rev_image_eqI)

lemma assign_neighbors_known:
  "\<forall>n \<in> set ns. \<exists>k \<in> set ks. fk n = Some k
    \<Longrightarrow> assign_neighbors name fk ks ns es = Inr (\<lambda>k. es k @ filter (\<lambda>n. fk n = Some k) ns)"
  by (induction ns arbitrary: es) (auto simp: fun_eq_iff)

definition reads_edge :: "'n ent_meta \<Rightarrow> string list \<Rightarrow> sql_table \<Rightarrow> (row \<Rightarrow> 'n) \<Rightarrow> row set \<Rightarrow> bool" where
  "reads_edge m fks t f R \<longleftrightarrow> (\<exists>ty. reads_keys ty m t) \<and> list_all (has_column t) fks
     \<and> (\<forall>r \<in> R. em_Assign m (project (em_Columns m @ fks) r) = Inr (f r))"

context sql_driver_up
begin

lemma All_fks_run:
  assumes "reads_edge m fks t f (rows s (st_Name t))" "list_all (wf_pred t) ps" "db_ok (rows s)"
  shows "\<exists>ms s'. All_fks m fks cl (Where ps Query) s = (Inr (map f ms), s') \<and> rows s' = rows s
    \<and> distinct ms \<and> set ms = {r \<in> rows s (st_Name t). satisfies ps r}"
proof -
  let ?q = "(querySpec m (Where ps Query))\<lparr>qs_Columns := em_Columns m @ fks\<rparr>"
  obtain ty where keys: "reads_keys ty m t" using assms(1) by (auto simp: reads_edge_def)
  then have t: "t \<in> set Tables" by (simp add: reads_keys_def)
  have wf: "wf_query t ?q"
    using keys assms(1,2) by (simp add: wf_query_def querySpec_def reads_keys_def reads_edge_def)
  obtain rs s' where Q: "QueryNodes cl ?q s = (Inr rs, s')" using query_up [OF t wf assms(3)] by (metis prod.collapse)
  have tab: "qs_Table ?q = st_Name t" "qs_Predicate ?q = ps" "qs_Limit ?q = 0" "qs_Offset ?q = 0"
    "qs_Columns ?q = em_Columns m @ fks"
    using keys by (simp_all add: querySpec_def reads_keys_def)
  have law: "rows s' = rows s" "query_answer ?q (rows s) rs" using query [OF t wf assms(3) Q] by auto
  obtain ms where ms: "distinct ms" "set ms = {r \<in> rows s (st_Name t). satisfies ps r}"
    "rs = map (project (em_Columns m @ fks)) (window 0 0 ms)"
    using law(2) unfolding query_answer_def tab by blast
  have "assign_rows (em_Assign m) rs = Inr (map f ms)"
    unfolding ms(3) window_def Let_def
    by (simp, rule assign_rows_map) (use ms(2) assms(1) in \<open>auto simp: reads_edge_def\<close>)
  moreover have "querySpec m (Where ps Query)\<lparr>qs_Columns := qs_Columns (querySpec m (Where ps Query)) @ fks\<rparr> = ?q"
    by (simp add: querySpec_def)
  ultimately show ?thesis using Q law(1) ms(1,2)
    by (auto simp: All_fks_def prepareQuery_def selector_err_def List.map_filter_simps)
qed

lemma edge_rows:
  assumes "reads_edge m fks t f (rows s (st_Name t))" "db_ok (rows s)" "has_column t cn" "ks \<noteq> []"
    "\<forall>k. mk k \<noteq> VNull"
  shows "\<exists>ms s'. All_fks m fks cl (Where [FieldIn cn (map mk ks)] Query) s = (Inr (map f ms), s')
    \<and> rows s' = rows s \<and> distinct ms \<and> set ms = {r \<in> rows s (st_Name t). \<exists>k \<in> set ks. col r cn = mk k}"
proof -
  have wf: "list_all (wf_pred t) [FieldIn cn (map mk ks)]" using assms(3,4) by simp
  have "{r \<in> rows s (st_Name t). satisfies [FieldIn cn (map mk ks)] r}
      = {r \<in> rows s (st_Name t). \<exists>k \<in> set ks. col r cn = mk k}"
    using assms(5) by (simp add: satisfies_def sat_FieldIn image_iff) metis
  then show ?thesis using All_fks_run [OF assms(1) wf assms(2)] by metis
qed

lemma load_edge_run:
  assumes "reads_edge m fks t f (rows s (st_Name t))" "db_ok (rows s)" "has_column t cn" "ks \<noteq> []"
    "\<forall>k. mk k \<noteq> VNull" "inj mk"
    "\<And>r k. r \<in> rows s (st_Name t) \<Longrightarrow> col r cn = mk k \<Longrightarrow> fk (f r) = Some k"
  shows "\<exists>ms s'. load_edge name cn fks m mk fk cl Query ks s
      = (Inr (\<lambda>k. map f (filter (\<lambda>r. col r cn = mk k) ms)), s') \<and> rows s' = rows s
    \<and> distinct ms \<and> set ms = {r \<in> rows s (st_Name t). \<exists>k \<in> set ks. col r cn = mk k}"
proof -
  obtain ms s' where A: "All_fks m fks cl (Where [FieldIn cn (map mk ks)] Query) s = (Inr (map f ms), s')"
    "rows s' = rows s" "distinct ms" "set ms = {r \<in> rows s (st_Name t). \<exists>k \<in> set ks. col r cn = mk k}"
    using edge_rows [OF assms(1-5)] by blast
  have key: "fk (f r) = Some k \<longleftrightarrow> col r cn = mk k" if mem: "r \<in> set ms" for r k
  proof -
    obtain k' where "r \<in> rows s (st_Name t)" "col r cn = mk k'" using mem A(4) by auto
    then show ?thesis using assms(7) [of r k'] assms(7) [of r k] by auto
  qed
  have "\<forall>n \<in> set (map f ms). \<exists>k \<in> set ks. fk n = Some k" using A(4) key by auto
  then have "assign_neighbors name fk ks (map f ms) (\<lambda>k. []) = Inr (\<lambda>k. filter (\<lambda>n. fk n = Some k) (map f ms))"
    by (simp add: assign_neighbors_known)
  moreover have "filter (\<lambda>n. fk n = Some k) (map f ms) = map f (filter (\<lambda>r. col r cn = mk k) ms)" for k
    unfolding filter_map by (rule arg_cong [where f = "map f"], rule filter_cong) (use key in \<open>auto simp: comp_def\<close>)
  ultimately show ?thesis using A by (auto simp: load_edge_def)
qed

lemma load_edge_nil:
  assumes "reads_edge m fks t f (rows s (st_Name t))" "db_ok (rows s)" "has_column t cn" "ks \<noteq> []"
    "\<forall>k. mk k \<noteq> VNull" "\<And>r. r \<in> rows s (st_Name t) \<Longrightarrow> fk (f r) = None"
    "r0 \<in> rows s (st_Name t)" "col r0 cn = mk k0" "k0 \<in> set ks"
  shows "\<exists>s'. load_edge name cn fks m mk fk cl Query ks s
      = (Inl (EMsg (''foreign-key '' @ name @ '' is nil for node'')), s') \<and> rows s' = rows s"
proof -
  obtain ms s' where A: "All_fks m fks cl (Where [FieldIn cn (map mk ks)] Query) s = (Inr (map f ms), s')"
    "rows s' = rows s" "set ms = {r \<in> rows s (st_Name t). \<exists>k \<in> set ks. col r cn = mk k}"
    using edge_rows [OF assms(1-5)] by blast
  have "r0 \<in> set ms" using A(3) assms(7-9) by blast
  then obtain r rs where ms: "ms = r # rs" by (cases ms) auto
  then have "r \<in> rows s (st_Name t)" using A(3) by (metis (mono_tags, lifting) list.set_intros(1) mem_Collect_eq)
  then have "assign_neighbors name fk ks (map f ms) (\<lambda>k. [])
      = Inl (EMsg (''foreign-key '' @ name @ '' is nil for node''))" using assms(6) ms by simp
  then show ?thesis using A by (simp add: load_edge_def)
qed

end

section \<open>The transactions of blocks\<close>

definition edge_transaction :: "row \<Rightarrow> ent_transaction" where
  "edge_transaction r = (case em_Assign transaction_meta (project (transaction_Columns @ transaction_ForeignKeys) r) of
     Inr e \<Rightarrow> e | Inl e \<Rightarrow> zero_transaction)"

lemma edge_transaction_row:
  "em_Assign transaction_meta (project (transaction_Columns @ transaction_ForeignKeys) (transaction_row k now h tx))
    = Inr (edge_transaction (transaction_row k now h tx))"
  "et_block_transactions (edge_transaction (transaction_row k now h tx)) = Some h"
  "transaction_of_ent (edge_transaction (transaction_row k now h tx)) = tx"
  by (simp_all add: edge_transaction_def transaction_meta_def transaction_row_def transaction_Columns_def
    transaction_ForeignKeys_def project_def col_def Transaction_scanValues_def Transaction_assignValues_def
    transaction_names zero_transaction_def transaction_of_ent_def)

lemma col_transaction_block: "col (transaction_row k now h tx) ''block_transactions'' = VInt h"
  by (simp add: transaction_row_def col_def)

lemma reads_block_edge:
  assumes "tx_rows_ok d"
  shows "reads_edge transaction_meta transaction_ForeignKeys TransactionsTable edge_transaction (d (st_Name TransactionsTable))"
proof -
  have "em_Assign transaction_meta (project (em_Columns transaction_meta @ transaction_ForeignKeys) r)
      = Inr (edge_transaction r)" if mem: "r \<in> d ''transactions''" for r
  proof -
    obtain k now h tx where "r = transaction_row k now h tx" using assms mem by (auto simp: tx_rows_ok_def)
    then show ?thesis using edge_transaction_row(1) by (simp add: transaction_meta_def)
  qed
  moreover have "list_all (has_column TransactionsTable) transaction_ForeignKeys"
    by (simp add: transaction_ForeignKeys_def has_column_def table_defs column_defs)
  ultimately show ?thesis using reads_keys_metas(4) by (auto simp: reads_edge_def)
qed

lemma edge_of_distinct: "distinct ks \<Longrightarrow> i < length ks \<Longrightarrow> edge_of ks es i = es (ks ! i)"
  by (auto simp: edge_of_def in_set_conv_nth nth_eq_iff_index_eq)

lemma row_block_key: "db_ok d \<Longrightarrow> r \<in> d ''blocks'' \<Longrightarrow> col r ''height'' = VInt (eb_ID (row_block r))"
  using blocks_are_rows [of d r] by (auto simp: col_block_row row_block_def block_assign)

context sql_driver_up
begin

lemma loadTransactions_run:
  assumes "db_ok (rows s)" "tx_rows_ok (rows s)" "nodes \<noteq> []"
  shows "\<exists>ms s'. BlockQuery_loadTransactions cl Query nodes s
      = (Inr (\<lambda>h. map edge_transaction (filter (\<lambda>r. col r ''block_transactions'' = VInt h) ms)), s')
    \<and> rows s' = rows s \<and> distinct ms
    \<and> set ms = {r \<in> rows s ''transactions''. \<exists>h \<in> eb_ID ` set nodes. col r ''block_transactions'' = VInt h}"
proof -
  have fk: "et_block_transactions (edge_transaction r) = Some h"
    if mem: "r \<in> rows s (st_Name TransactionsTable)" and c: "col r ''block_transactions'' = VInt h" for r h
  proof -
    obtain k now h' tx where "r = transaction_row k now h' tx" using assms(2) mem by (auto simp: tx_rows_ok_def)
    then show ?thesis using c by (simp add: edge_transaction_row(2) col_transaction_block)
  qed
  have cn: "has_column TransactionsTable block_TransactionsColumn" "block_TransactionsColumn = ''block_transactions''"
    by (simp_all add: block_TransactionsColumn_def has_column_def table_defs column_defs)
  have inj: "inj VInt" by (simp add: inj_def)
  show ?thesis
    using load_edge_run [OF reads_block_edge [OF assms(2)] assms(1) cn(1) _ _ inj, of "map eb_ID nodes"
        et_block_transactions "''block_transactions''"] fk assms(3)
    unfolding cn(2) by (simp add: BlockQuery_loadTransactions_def cn(2))
qed

lemma nodes_run:
  assumes "reads_keys ty m t" "reads_table m t f (rows s (st_Name t))" "list_all (wf_pred t) ps" "db_ok (rows s)"
  shows "\<exists>ms s'. All m cl (Where ps Query) s = (Inr (map f ms), s') \<and> rows s' = rows s
    \<and> distinct ms \<and> set ms = {r \<in> rows s (st_Name t). satisfies ps r}"
proof -
  have "reads_edge m [] t f (rows s (st_Name t))" using assms(1,2) by (auto simp: reads_edge_def reads_table_def)
  from All_fks_run [OF this assms(3,4)] show ?thesis by (simp add: All_fks_none)
qed

lemma AllEdges_blocks:
  assumes "db_ok (rows s)" "tx_rows_ok (rows s)" "list_all (wf_pred BlocksTable) ps"
  shows "\<exists>bs s' ms. BlockQuery_AllEdges cl (BlockQuery_WithTransactions [] (block_no_eager (Where ps Query))) s
      = (Inr bs, s') \<and> rows s' = rows s \<and> distinct ms
    \<and> set ms = {r \<in> rows s ''blocks''. satisfies ps r} \<and> map fst bs = map row_block ms
    \<and> (\<forall>(n, e) \<in> set bs. ed_loadedTransactions e \<and> (\<exists>rs. distinct rs
        \<and> set rs = {r \<in> rows s ''transactions''. col r ''block_transactions'' = VInt (eb_ID n)}
        \<and> ed_Transactions e = map edge_transaction rs))"
proof -
  obtain ms s1 where A: "All block_meta cl (Where ps Query) s = (Inr (map row_block ms), s1)" "rows s1 = rows s"
    "distinct ms" "set ms = {r \<in> rows s ''blocks''. satisfies ps r}"
    using nodes_run [OF reads_keys_metas(2) reads_blocks [OF assms(1)] assms(3,1)] by auto
  let ?N = "map row_block ms"
  show ?thesis
  proof (cases "ms = []")
    case True
    then show ?thesis using A by (auto simp: BlockQuery_AllEdges_def BlockQuery_WithTransactions_def
      block_no_eager_def BlockQuery_All_def)
  next
    case False
    have ok1: "db_ok (rows s1)" "tx_rows_ok (rows s1)" using A(2) assms by simp_all
    obtain qs s2 where L: "BlockQuery_loadTransactions cl Query ?N s1
        = (Inr (\<lambda>h. map edge_transaction (filter (\<lambda>r. col r ''block_transactions'' = VInt h) qs)), s2)"
      "rows s2 = rows s1" "distinct qs"
      "set qs = {r \<in> rows s1 ''transactions''. \<exists>h \<in> eb_ID ` set ?N. col r ''block_transactions'' = VInt h}"
      using loadTransactions_run [OF ok1, of ?N] False by auto
    have "map VInt (map eb_ID ?N) = map (\<lambda>r. col r ''height'') ms"
      using A(4) row_block_key [OF assms(1)] by auto
    moreover have "distinct (map (\<lambda>r. col r ''height'') ms)"
      unfolding distinct_map
      by (intro conjI A(3) inj_onI, rule db_ok_key [OF assms(1) Tables_members(2)]) (use A(4) in simp_all)
    ultimately have dist: "distinct (map eb_ID ?N)" by (metis distinct_map)
    define bs where "bs = map (\<lambda>i. (?N ! i, \<lparr>ed_Transactions = edge_of (map eb_ID ?N)
        (\<lambda>h. map edge_transaction (filter (\<lambda>r. col r ''block_transactions'' = VInt h) qs)) i,
        ed_loadedTransactions = True\<rparr>)) [0..<length ms]"
    have run: "BlockQuery_AllEdges cl (BlockQuery_WithTransactions [] (block_no_eager (Where ps Query))) s = (Inr bs, s2)"
      using A(1) L(1) False by (simp add: BlockQuery_AllEdges_def BlockQuery_WithTransactions_def block_no_eager_def
        BlockQuery_All_def load_if_def bs_def)
    have fst: "map fst bs = ?N" by (intro nth_equalityI) (simp_all add: bs_def)
    have each: "ed_loadedTransactions e \<and> (\<exists>rs. distinct rs
        \<and> set rs = {r \<in> rows s ''transactions''. col r ''block_transactions'' = VInt (eb_ID n)}
        \<and> ed_Transactions e = map edge_transaction rs)" if ne: "(n, e) \<in> set bs" for n e
    proof -
      obtain i where i: "i < length ms" "n = ?N ! i" and e: "ed_loadedTransactions e"
        "ed_Transactions e = edge_of (map eb_ID ?N)
          (\<lambda>h. map edge_transaction (filter (\<lambda>r. col r ''block_transactions'' = VInt h) qs)) i"
        using ne by (auto simp: bs_def)
      let ?rs = "filter (\<lambda>r. col r ''block_transactions'' = VInt (eb_ID n)) qs"
      have "ed_Transactions e = map edge_transaction ?rs"
        using i e(2) edge_of_distinct [OF dist, of i] by simp
      moreover have "eb_ID n \<in> eb_ID ` set ?N" using i by simp
      then have sel: "set ?rs = {r \<in> rows s ''transactions''. col r ''block_transactions'' = VInt (eb_ID n)}"
        using L(4) A(2) by auto
      ultimately show ?thesis using L(3) e(1) by (intro conjI exI [of _ ?rs] sel) simp_all
    qed
    show ?thesis using run fst each A(2-4) L(2) by (intro exI [of _ bs] exI [of _ s2] exI [of _ ms]) auto
  qed
qed

end

section \<open>The transfers of accounts\<close>

definition edge_transfer :: "row \<Rightarrow> ent_transfer" where
  "edge_transfer r = (case em_Assign transfer_meta (project (transfer_Columns @ transfer_ForeignKeys) r) of
     Inr e \<Rightarrow> e | Inl e \<Rightarrow> zero_transfer)"

lemma edge_transfer_row:
  assumes "row_ok TransfersTable r"
  shows "em_Assign transfer_meta (project (transfer_Columns @ transfer_ForeignKeys) r) = Inr (edge_transfer r)
    \<and> ef_fk_to_address (edge_transfer r) = None \<and> ef_fk_from_address (edge_transfer r) = None"
proof -
  have ok: "value_ok TypeInt (col r ''id'')" "value_ok TypeString (col r ''hash'')"
      "value_ok TypeString (col r ''func'')"
      "column_ok (nullable (column ''from_address'' TypeString)) (col r ''from_address'')"
      "column_ok (nullable (column ''to_address'' TypeString)) (col r ''to_address'')"
      "value_ok TypeString (col r ''token'')" "value_ok TypeFloat64 (col r ''amount'')"
      "value_ok TypeString (col r ''denom'')" "value_ok TypeTime (col r ''created_at'')"
    using assms by (simp_all add: row_ok_def table_defs column_defs column_ok_def)
  obtain i h f t a n now where v: "col r ''id'' = VInt i" "col r ''hash'' = VString h" "col r ''func'' = VString f"
    "col r ''token'' = VString t" "col r ''amount'' = VFloat a" "col r ''denom'' = VString n"
    "col r ''created_at'' = VTime now"
    using ok by (auto simp: value_ok_iff)
  define v4 where "v4 = col r ''from_address''"
  define v5 where "v5 = col r ''to_address''"
  have "v4 = VNull \<or> (\<exists>x. v4 = VString x)" "v5 = VNull \<or> (\<exists>x. v5 = VString x)"
    using ok(4,5) column_ok_stringE by (simp_all add: v4_def v5_def)
  then have "\<exists>e. em_Assign transfer_meta [(''id'', VInt i), (''hash'', VString h), (''func'', VString f),
      (''from_address'', v4), (''to_address'', v5), (''token'', VString t), (''amount'', VFloat a),
      (''denom'', VString n), (''created_at'', VTime now), (''to_address'', v5), (''from_address'', v4)] = Inr e
    \<and> ef_fk_to_address e = None \<and> ef_fk_from_address e = None"
    by (auto simp: transfer_meta_def Transfer_scanValues_def Transfer_assignValues_def transfer_names
      zero_transfer_def)
  moreover have "project (transfer_Columns @ transfer_ForeignKeys) r = [(''id'', VInt i), (''hash'', VString h),
      (''func'', VString f), (''from_address'', v4), (''to_address'', v5), (''token'', VString t),
      (''amount'', VFloat a), (''denom'', VString n), (''created_at'', VTime now), (''to_address'', v5),
      (''from_address'', v4)]"
    by (simp add: project_def transfer_Columns_def transfer_ForeignKeys_def transfer_names v v4_def v5_def)
  ultimately show ?thesis by (auto simp: edge_transfer_def)
qed

lemma reads_transfer_edge:
  assumes "db_ok d"
  shows "reads_edge transfer_meta transfer_ForeignKeys TransfersTable edge_transfer (d (st_Name TransfersTable))"
proof -
  have "em_Assign transfer_meta (project (em_Columns transfer_meta @ transfer_ForeignKeys) r) = Inr (edge_transfer r)"
    if mem: "r \<in> d ''transfers''" for r
    using edge_transfer_row db_ok_row [OF assms Tables_members(5)] mem by (simp add: transfer_meta_def)
  moreover have "list_all (has_column TransfersTable) transfer_ForeignKeys"
    by (simp add: transfer_ForeignKeys_def has_column_def table_defs column_defs)
  ultimately show ?thesis using reads_keys_metas(5) by (auto simp: reads_edge_def)
qed

lemma row_account_key: "db_ok d \<Longrightarrow> r \<in> d ''accounts'' \<Longrightarrow> col r ''address'' = VString (ea_ID (row_account r))"
  using accounts_are_rows [of d r] by (auto simp: row_account_def)

context sql_driver_up
begin

lemma AllEdges_accounts_fails:
  assumes "db_ok (rows s)" "list_all (wf_pred AccountsTable) ps"
    "q \<in> rows s ''accounts''" "satisfies ps q" "r \<in> rows s ''transfers''"
    "col r ''to_address'' = col q ''address''"
  shows "\<exists>s'. AccountQuery_AllEdges cl (AccountQuery_WithTransfersTo [] (account_no_eager (Where ps Query))) s
      = (Inl (EMsg ''foreign-key to_address is nil for node''), s') \<and> rows s' = rows s"
proof -
  obtain ms s1 where A: "All account_meta cl (Where ps Query) s = (Inr (map row_account ms), s1)" "rows s1 = rows s"
    "set ms = {r \<in> rows s ''accounts''. satisfies ps r}"
    using nodes_run [OF reads_keys_metas(1) reads_accounts [OF assms(1)] assms(2,1)] by auto
  let ?N = "map row_account ms"
  have q: "q \<in> set ms" using A(3) assms(3,4) by blast
  then have ne: "map ea_ID ?N \<noteq> []" by auto
  have ok1: "db_ok (rows s1)" using A(2) assms(1) by simp
  have cn: "has_column TransfersTable account_TransfersToColumn" "account_TransfersToColumn = ''to_address''"
    by (simp_all add: account_TransfersToColumn_def has_column_def table_defs column_defs)
  have nil: "ef_fk_to_address (edge_transfer x) = None" if "x \<in> rows s1 (st_Name TransfersTable)" for x
    using edge_transfer_row db_ok_row [OF ok1 Tables_members(5) that] by blast
  have key: "col r ''to_address'' = VString (ea_ID (row_account q))"
    using assms(6) row_account_key [OF assms(1,3)] by simp
  obtain s2 where "load_edge ''to_address'' account_TransfersToColumn transfer_ForeignKeys transfer_meta VString
      ef_fk_to_address cl Query (map ea_ID ?N) s1
      = (Inl (EMsg (''foreign-key '' @ ''to_address'' @ '' is nil for node'')), s2)" "rows s2 = rows s1"
    using load_edge_nil [OF reads_transfer_edge [OF ok1] ok1 cn(1) ne, of VString ef_fk_to_address r
        "ea_ID (row_account q)" "''to_address''"] nil assms(5) key q A(2)
    unfolding cn(2) by auto
  then have "AccountQuery_loadTransfersTo cl Query ?N s1
      = (Inl (EMsg ''foreign-key to_address is nil for node''), s2)" "rows s2 = rows s"
    using A(2) by (simp_all add: AccountQuery_loadTransfersTo_def)
  then show ?thesis using A(1) ne
    by (auto simp: AccountQuery_AllEdges_def AccountQuery_WithTransfersTo_def account_no_eager_def
      AccountQuery_All_def load_if_def)
qed

end

end
