(* ===== verification/Mem_Graph.thy ===== *)
theory Mem_Graph
  imports Graph_Driver
begin

text \<open>The database in memory of \<open>Mem_Driver\<close> with the remaining calls. It keeps the laws of \<open>graph_driver_up\<close>.\<close>

definition mem_delete :: "delete_spec \<Rightarrow> mem \<Rightarrow> (sql_err + int) \<times> mem" where
  "mem_delete ds s =
     (case table_of (ds_Table ds) of None \<Rightarrow> (Inl (SqlOther ''no such table''), s)
      | Some t \<Rightarrow>
          (let hits = filter (satisfies (ds_Predicate ds)) (s (st_Name t)) in
           (Inr (int (length (remdups hits))),
            (\<lambda>n. case table_of n of None \<Rightarrow> s n
               | Some u \<Rightarrow> map (detach t (set hits) u)
                   (if n = st_Name t then filter (\<lambda>r. r \<notin> set hits) (s n) else s n)))))"

definition mem_node :: "node_update \<Rightarrow> mem \<Rightarrow> (sql_err + row) \<times> mem" where
  "mem_node nu s =
     (let us = nu_Spec nu; n = us_Table us in
      case table_of n of None \<Rightarrow> (Inl (SqlOther ''no such table''), s)
      | Some t \<Rightarrow>
          (case filter (\<lambda>r. col r (st_PrimaryKey t) = nu_ID nu) (s n) of
             [] \<Rightarrow> (Inl (SqlNotFound ''no such row''), s)
           | r # _ \<Rightarrow> (Inr (project (us_Columns us) (update_row us r)),
               s(n := map (\<lambda>q. if col q (st_PrimaryKey t) = nu_ID nu then update_row us q else q) (s n)))))"

definition mem_count :: "query_spec \<Rightarrow> mem \<Rightarrow> (sql_err + int) \<times> mem" where
  "mem_count q s = (Inr (int (length (remdups (filter (satisfies (qs_Predicate q)) (s (qs_Table q)))))), s)"

definition mem_selected :: "select_spec \<Rightarrow> mem \<Rightarrow> ent_value list" where
  "mem_selected sp s = map (\<lambda>r. col r (hd (ss_Columns sp))) (opt_window (ss_Offset sp) (ss_Limit sp)
     (order_rows (ss_Order sp) (remdups (filter (satisfies (ss_Predicate sp)) (s (ss_Table sp))))))"

fun as_string :: "ent_value \<Rightarrow> string" where
  "as_string (VString x) = x"
| "as_string v = []"

fun as_int :: "ent_value \<Rightarrow> int" where
  "as_int (VInt n) = n"
| "as_int v = 0"

definition mem_graph :: "mem ent_graph" where
  "mem_graph = \<lparr>eg_client = mem_client,
     SelectStrings = (\<lambda>sp s. (Inr (map as_string (mem_selected sp s)), s)),
     SelectInts = (\<lambda>sp s. (Inr (map as_int (mem_selected sp s)), s)),
     SelectFloats = (\<lambda>sp s. (Inl (SqlOther ''not supported''), s)),
     SelectBools = (\<lambda>sp s. (Inl (SqlOther ''not supported''), s)),
     UpdateNode = mem_node, DeleteNodes = mem_delete, CountNodes = mem_count, eg_Dialect = ''memory''\<rparr>"

lemma mem_graph_simps [simp]:
  "eg_client mem_graph = mem_client"
  "SelectStrings mem_graph sp s = (Inr (map as_string (mem_selected sp s)), s)"
  "SelectInts mem_graph sp s = (Inr (map as_int (mem_selected sp s)), s)"
  "UpdateNode mem_graph = mem_node" "DeleteNodes mem_graph = mem_delete" "CountNodes mem_graph = mem_count"
  by (simp_all add: mem_graph_def)

lemma mem_delete_step:
  assumes "t \<in> set Tables" "wf_delete t ds" "mem_delete ds s = (res, s')"
  shows "delete_step t ds (mem_rows s) res (mem_rows s') \<and> (\<exists>n. res = Inr n)"
proof -
  let ?h = "filter (satisfies (ds_Predicate ds)) (s (st_Name t))"
  let ?H = "{r \<in> mem_rows s (st_Name t). satisfies (ds_Predicate ds) r}"
  have H: "set ?h = ?H" by (auto simp: mem_rows_def)
  have tab: "table_of (ds_Table ds) = Some t" using assms by (simp add: wf_delete_def table_of_known)
  have res: "res = Inr (int (length (remdups ?h)))"
    and s': "s' = (\<lambda>n. case table_of n of None \<Rightarrow> s n | Some u \<Rightarrow> map (detach t (set ?h) u)
        (if n = st_Name t then filter (\<lambda>r. r \<notin> set ?h) (s n) else s n))"
    using assms(3) unfolding mem_delete_def tab by (simp_all add: Let_def)
  have "mem_rows s' = db_delete t ?H (mem_rows s)"
    unfolding s' H db_delete_def mem_rows_def by (rule ext) (auto split: option.split)
  moreover have "length (remdups ?h) = card ?H" using H by (metis length_remdups_card_conv)
  ultimately show ?thesis unfolding delete_step_def Let_def res by simp
qed

lemma mem_node_step:
  assumes "t \<in> set Tables" "wf_node t nu" "db_ok (mem_rows s)" "mem_node nu s = (res, s')"
  shows "node_step t nu (mem_rows s) res (mem_rows s')
    \<and> ((\<exists>r. res = Inr r) \<or> (\<exists>m. res = Inl (SqlNotFound m)))"
proof -
  let ?us = "nu_Spec nu" and ?n = "st_Name t"
  let ?P = "\<lambda>r. col r (st_PrimaryKey t) = nu_ID nu"
  let ?H = "{r \<in> mem_rows s ?n. ?P r}"
  have tab: "us_Table ?us = ?n" using assms(2) by (simp add: wf_node_def wf_update_def)
  show ?thesis
  proof (cases "filter ?P (s ?n)")
    case Nil
    then have "?H = {}" by (auto simp: mem_rows_def filter_empty_conv)
    moreover have "res = Inl (SqlNotFound ''no such row'')" "s' = s"
      using assms(4) Nil by (simp_all add: mem_node_def Let_def tab table_of_known [OF assms(1)])
    ultimately show ?thesis unfolding node_step_def Let_def by simp
  next
    case (Cons r rs)
    have r: "r \<in> ?H" using Cons by (auto simp: mem_rows_def filter_eq_Cons_iff)
    then have H: "?H = {r}" using db_ok_key [OF assms(3,1)] by auto
    have res: "res = Inr (project (us_Columns ?us) (update_row ?us r))"
      and s': "s' = s(?n := map (\<lambda>q. if ?P q then update_row ?us q else q) (s ?n))"
      using assms(4) Cons by (simp_all add: mem_node_def Let_def tab table_of_known [OF assms(1)])
    have "mem_rows s' = (mem_rows s)(?n := (mem_rows s ?n - ?H) \<union> update_row ?us ` ?H)"
      unfolding s' by (rule ext) (auto simp: mem_rows_def)
    then show ?thesis unfolding node_step_def Let_def res using H by simp
  qed
qed

lemma mem_select_answer:
  assumes "t \<in> set Tables" "wf_select ty t sp" "db_ok (mem_rows s)"
    "\<And>v. value_ok ty v \<Longrightarrow> mk (un v) = v"
  shows "select_answer mk sp (mem_rows s) (map un (mem_selected sp s))"
proof -
  let ?ms = "order_rows (ss_Order sp) (remdups (filter (satisfies (ss_Predicate sp)) (s (ss_Table sp))))"
  obtain k where k: "k \<in> set (st_Columns t)" "ss_Columns sp = [sc_Name k]" "sc_Type k = ty"
    "\<not> sc_Nullable k" "ss_Table sp = st_Name t"
    using assms(2) by (auto simp: wf_select_def)
  have set: "set ?ms = {r \<in> mem_rows s (ss_Table sp). satisfies (ss_Predicate sp) r}"
    by (auto simp: order_rows_perm mem_rows_def)
  have "mk (un (col r (sc_Name k))) = col r (sc_Name k)" if r: "r \<in> set ?ms" for r
  proof (rule assms(4))
    have "row_ok t r" using r set k(5) db_ok_row [OF assms(3,1)] by auto
    then show "value_ok ty (col r (sc_Name k))"
      using k by (auto simp: row_ok_def list_all_iff column_ok_def)
  qed
  moreover have "set (opt_window (ss_Offset sp) (ss_Limit sp) ?ms) \<subseteq> set ?ms"
    by (auto simp: opt_window_def Let_def dest: in_set_takeD in_set_dropD split: option.splits)
  ultimately have "map mk (map un (mem_selected sp s))
      = map (\<lambda>r. col r (hd (ss_Columns sp))) (opt_window (ss_Offset sp) (ss_Limit sp) ?ms)"
    unfolding mem_selected_def k(2) by auto
  moreover have "distinct ?ms" by (simp add: order_rows_perm)
  ultimately show ?thesis unfolding select_answer_def using set order_rows_ordered by blast
qed

lemma as_string_int:
  "value_ok TypeString v \<Longrightarrow> VString (as_string v) = v" "value_ok TypeInt v \<Longrightarrow> VInt (as_int v) = v"
  by (cases v; simp)+

interpretation memg: graph_driver_up mem_graph mem_rows
proof unfold_locales
  fix t ds n and s s' :: mem
  assume "t \<in> set Tables" "wf_delete t ds" "DeleteNodes mem_graph ds s = (n, s')"
  then show "delete_step t ds (mem_rows s) n (mem_rows s')" using mem_delete_step by simp
next
  fix t nu row and s s' :: mem
  assume "t \<in> set Tables" "wf_node t nu" "db_ok (mem_rows s)" "UpdateNode mem_graph nu s = (row, s')"
  then show "node_step t nu (mem_rows s) row (mem_rows s')" using mem_node_step by simp
next
  fix t q n and s s' :: mem
  assume "wf_count t q" "CountNodes mem_graph q s = (n, s')"
  moreover have "card {r \<in> mem_rows s (qs_Table q). satisfies (qs_Predicate q) r}
      = length (remdups (filter (satisfies (qs_Predicate q)) (s (qs_Table q))))"
    by (metis length_remdups_card_conv mem_rows_def set_filter)
  ultimately show "mem_rows s' = mem_rows s \<and> (\<forall>k. n = Inr k \<longrightarrow>
      k = int (card {r \<in> mem_rows s (st_Name t). satisfies (qs_Predicate q) r}))"
    by (auto simp: mem_count_def wf_count_def)
next
  fix t sp xs and s s' :: mem
  assume "t \<in> set Tables" "wf_select TypeString t sp" "db_ok (mem_rows s)" "SelectStrings mem_graph sp s = (xs, s')"
  then show "mem_rows s' = mem_rows s \<and> (\<forall>ks. xs = Inr ks \<longrightarrow> select_answer VString sp (mem_rows s) ks)"
    using mem_select_answer [of t TypeString sp s VString as_string] by (auto simp: as_string_int)
next
  fix t sp ns and s s' :: mem
  assume "t \<in> set Tables" "wf_select TypeInt t sp" "db_ok (mem_rows s)" "SelectInts mem_graph sp s = (ns, s')"
  then show "mem_rows s' = mem_rows s \<and> (\<forall>ks. ns = Inr ks \<longrightarrow> select_answer VInt sp (mem_rows s) ks)"
    using mem_select_answer [of t TypeInt sp s VInt as_int] by (auto simp: as_string_int)
next
  fix t ds and s :: mem
  assume "t \<in> set Tables" "wf_delete t ds"
  then show "\<exists>n. fst (DeleteNodes mem_graph ds s) = Inr n"
    using mem_delete_step [of t ds s] by (cases "mem_delete ds s") auto
next
  fix t nu and s :: mem
  assume "t \<in> set Tables" "wf_node t nu" "db_ok (mem_rows s)"
  then show "(\<exists>r. fst (UpdateNode mem_graph nu s) = Inr r) \<or> (\<exists>m. fst (UpdateNode mem_graph nu s) = Inl (SqlNotFound m))"
    using mem_node_step [of t nu s] by (cases "mem_node nu s") auto
qed (auto simp: mem_count_def mem.create mem.batch mem.upsert mem.update mem.query mem.not_empty
  mem.positive mem.create_up mem.upsert_up mem.batch_up mem.update_up mem.query_up)

end
