(* ===== verification/Path_Laws.thy ===== *)
theory Path_Laws
  imports Ent_Traverse Client_Edges Mem_Graph
begin

text \<open>
  Queries along edges over a lawful driver. \<open>reaches\<close> is what \<^verbatim>\<open>sqlgraph\<close> documents of a path: one of the rows on
  the other side of the edge, of one node or of the selected nodes. The locale \<open>path_driver\<close> says that a query
  with a path is the query on these rows alone; the database in memory runs it so.
\<close>

section \<open>The rows a path leads to\<close>

definition to_column :: "graph_step \<Rightarrow> string" where
  "to_column st = (case gst_To st of None \<Rightarrow> [] | Some (t, c) \<Rightarrow> c)"

definition along :: "db \<Rightarrow> graph_step \<Rightarrow> (row \<Rightarrow> bool) \<Rightarrow> row \<Rightarrow> bool" where
  "along d st P r \<longleftrightarrow> (\<exists>q \<in> d (fst (gst_From st)). P q \<and>
     (if gst_Inverse st then col q (gst_Column st) \<noteq> VNull \<and> col q (gst_Column st) = col r (to_column st)
      else col r (gst_Column st) \<noteq> VNull \<and> col r (gst_Column st) = col q (snd (gst_From st))))"

fun reaches :: "db \<Rightarrow> node_path \<Rightarrow> row \<Rightarrow> bool" where
  "reaches d (NodePath st v) r =
     (if gst_Inverse st then along d st (\<lambda>q. col q (snd (gst_From st)) = v) r
      else v \<noteq> VNull \<and> col r (gst_Column st) = v)"
| "reaches d (TablePath st sp) r = along d st (satisfies (ss_Predicate sp)) r"
| "reaches d (ChainPath st sp p) r = along d st (\<lambda>q. satisfies (ss_Predicate sp) q \<and> reaches d p q) r"

text \<open>The laws speak of starting sets without a window, whose rows do not depend on an order.\<close>

definition whole :: "select_spec \<Rightarrow> bool" where
  "whole sp \<longleftrightarrow> ss_Offset sp = None \<and> ss_Limit sp = None \<and> ss_Fns sp = []"

fun wf_path :: "node_path \<Rightarrow> bool" where
  "wf_path (NodePath st v) = True"
| "wf_path (TablePath st sp) = whole sp"
| "wf_path (ChainPath st sp p) = (whole sp \<and> wf_path p)"

definition restrict_rows :: "string \<Rightarrow> (row \<Rightarrow> bool) \<Rightarrow> db \<Rightarrow> db" where
  "restrict_rows n P d = d(n := {r \<in> d n. P r})"

locale path_driver = sql_driver_up cl rows for cl :: "'s ent_client" and rows +
  fixes pc :: "'s path_calls"
  assumes path_query: "t \<in> set Tables \<Longrightarrow> wf_query t q \<Longrightarrow> qs_Unique q \<Longrightarrow> wf_path p \<Longrightarrow> db_ok (rows s)
      \<Longrightarrow> \<exists>rs s'. QueryPath pc p q s = (Inr rs, s') \<and> rows s' = rows s
        \<and> query_answer q (restrict_rows (st_Name t) (reaches (rows s) p) (rows s)) rs"
begin

lemma path_run:
  assumes "reads_keys ty m t" "reads_table m t f (rows s (st_Name t))" "list_all (wf_pred t) ps" "db_ok (rows s)"
    "wf_path p"
  shows "\<exists>ms s'. path_All m cl pc \<lparr>pq_query = Where ps Query, pq_path = Some (Inr p)\<rparr> s = (Inr (map f ms), s')
    \<and> rows s' = rows s \<and> distinct ms
    \<and> set ms = {r \<in> rows s (st_Name t). reaches (rows s) p r \<and> satisfies ps r}"
proof -
  let ?q = "path_spec m (Where ps Query)"
  have t: "t \<in> set Tables" using assms(1) by (simp add: reads_keys_def)
  have wf: "wf_query t ?q" "qs_Unique ?q" "qs_Table ?q = st_Name t" "qs_Predicate ?q = ps" "qs_Limit ?q = 0"
    "qs_Offset ?q = 0" "qs_Columns ?q = em_Columns m"
    using assms(1,3) by (simp_all add: path_spec_def wf_query_def querySpec_def reads_keys_def)
  obtain rs s' where Q: "QueryPath pc p ?q s = (Inr rs, s')" "rows s' = rows s"
    "query_answer ?q (restrict_rows (st_Name t) (reaches (rows s) p) (rows s)) rs"
    using path_query [OF t wf(1,2) assms(5,4)] by blast
  obtain ms where ms: "distinct ms" "set ms = {r \<in> rows s (st_Name t). reaches (rows s) p r \<and> satisfies ps r}"
    "rs = map (project (em_Columns m)) (window 0 0 ms)"
    using Q(3) unfolding query_answer_def wf restrict_rows_def by auto
  have "assign_rows (em_Assign m) rs = Inr (map f ms)"
    unfolding ms(3) window_def Let_def
    by (simp, rule assign_rows_map) (use ms(2) assms(2) in \<open>auto simp: reads_table_def\<close>)
  then show ?thesis using Q(1,2) ms(1,2)
    by (auto simp: path_All_def prepare_path_def path_sqlAll_def prepareQuery_def selector_err_def List.map_filter_simps)
qed

end

section \<open>The edges of the schema\<close>

lemma Where_none: "Where [] Query = Query"
  by (simp add: Where_def)

context path_driver
begin

lemma from_path_run:
  assumes "reads_keys ty m t" "reads_table m t f (rows s (st_Name t))" "db_ok (rows s)" "wf_path p"
  shows "\<exists>ms s'. path_All m cl pc (from_path (Inr p)) s = (Inr (map f ms), s') \<and> rows s' = rows s \<and> distinct ms
    \<and> set ms = {r \<in> rows s (st_Name t). reaches (rows s) p r}"
  using path_run [OF assms(1,2) _ assms(3,4), of "[]"] by (simp add: from_path_def Where_none satisfies_def)

lemma node_run:
  assumes "reads_keys ty m t" "reads_table m t f (rows s (st_Name t))" "db_ok (rows s)" "\<not> gst_Inverse st" "v \<noteq> VNull"
  shows "\<exists>ms s'. path_All m cl pc (from_path (Inr (NodePath st v))) s = (Inr (map f ms), s') \<and> rows s' = rows s
    \<and> distinct ms \<and> set ms = {r \<in> rows s (st_Name t). col r (gst_Column st) = v}"
  using from_path_run [OF assms(1-3), of "NodePath st v"] assms(4,5) by simp

lemma transfers_to_run:
  assumes "db_ok (rows s)"
  shows "\<exists>ms s'. path_All transfer_meta cl pc (AccountClient_QueryTransfersTo n) s = (Inr (map row_transfer ms), s')
    \<and> rows s' = rows s \<and> distinct ms \<and> set ms = {r \<in> rows s ''transfers''. col r ''to_address'' = VString (ea_ID n)}"
  using node_run [OF reads_keys_metas(5) reads_transfers [OF assms] assms,
      of "\<lparr>gst_From = (account_Table, account_FieldID), gst_To = Some (transfer_Table, transfer_FieldID),
        gst_Rel = O2M, gst_Inverse = False, gst_Table = account_TransfersToTable,
        gst_Column = account_TransfersToColumn\<rparr>" "VString (ea_ID n)"]
  by (simp add: AccountClient_QueryTransfersTo_def account_TransfersToColumn_def)

lemma transfers_from_run:
  assumes "db_ok (rows s)"
  shows "\<exists>ms s'. path_All transfer_meta cl pc (AccountClient_QueryTransfersFrom n) s = (Inr (map row_transfer ms), s')
    \<and> rows s' = rows s \<and> distinct ms \<and> set ms = {r \<in> rows s ''transfers''. col r ''from_address'' = VString (ea_ID n)}"
  using node_run [OF reads_keys_metas(5) reads_transfers [OF assms] assms,
      of "\<lparr>gst_From = (account_Table, account_FieldID), gst_To = Some (transfer_Table, transfer_FieldID),
        gst_Rel = O2M, gst_Inverse = False, gst_Table = account_TransfersFromTable,
        gst_Column = account_TransfersFromColumn\<rparr>" "VString (ea_ID n)"]
  by (simp add: AccountClient_QueryTransfersFrom_def account_TransfersFromColumn_def)

lemma chain_from_where:
  "chain_path m (plain_path (Where ps Query)) st = Inr (TablePath st (sqlQuery m (Where ps Query)))"
  by (simp add: chain_path_def prepare_path_def plain_path_def prepareQuery_def selector_err_def
    List.map_filter_simps)

lemma whole_where: "whole (sqlQuery m (Where ps Query))" "ss_Predicate (sqlQuery m (Where ps Query)) = ps"
  by (simp_all add: whole_def sqlQuery_def)

lemma transfers_of_accounts_run:
  assumes "db_ok (rows s)"
  shows "\<exists>ms s'. path_All transfer_meta cl pc (AccountQuery_QueryTransfersTo (plain_path (Where ps Query))) s
      = (Inr (map row_transfer ms), s') \<and> rows s' = rows s \<and> distinct ms
    \<and> set ms = {r \<in> rows s ''transfers''. \<exists>q \<in> rows s ''accounts''. satisfies ps q
        \<and> col r ''to_address'' \<noteq> VNull \<and> col r ''to_address'' = col q ''address''}"
  using from_path_run [OF reads_keys_metas(5) reads_transfers [OF assms] assms,
      of "TablePath \<lparr>gst_From = (account_Table, account_FieldID), gst_To = Some (transfer_Table, transfer_FieldID),
        gst_Rel = O2M, gst_Inverse = False, gst_Table = account_TransfersToTable,
        gst_Column = account_TransfersToColumn\<rparr> (sqlQuery account_meta (Where ps Query))"]
  by (simp add: AccountQuery_QueryTransfersTo_def chain_from_where whole_where along_def
    account_TransfersToColumn_def account_names)

text \<open>From a block to its transactions and back.\<close>

lemma block_and_back_run:
  assumes "db_ok (rows s)" "b \<in> rows s ''blocks''"
  shows "\<exists>s'. path_All block_meta cl pc (TransactionQuery_QueryBlock (Block_QueryTransactions (row_block b))) s
      = (Inr (if \<exists>x \<in> rows s ''transactions''. col x ''block_transactions'' = VInt (eb_ID (row_block b))
          then [row_block b] else []), s') \<and> rows s' = rows s"
proof -
  let ?k = "VInt (eb_ID (row_block b))"
  let ?has = "\<exists>x \<in> rows s ''transactions''. col x ''block_transactions'' = ?k"
  let ?to = "\<lparr>gst_From = (block_Table, block_FieldID), gst_To = Some (transaction_Table, transaction_FieldID),
     gst_Rel = O2M, gst_Inverse = False, gst_Table = block_TransactionsTable, gst_Column = block_TransactionsColumn\<rparr>"
  let ?from_tx = "\<lparr>gst_From = (transaction_Table, transaction_FieldID), gst_To = Some (block_Table, block_FieldID),
     gst_Rel = M2O, gst_Inverse = True, gst_Table = transaction_BlockTable, gst_Column = transaction_BlockColumn\<rparr>"
  let ?p = "ChainPath ?from_tx (sqlQuery transaction_meta Query) (NodePath ?to ?k)"
  have key: "col b ''height'' = ?k" using row_block_key [OF assms] by simp
  have q: "TransactionQuery_QueryBlock (Block_QueryTransactions (row_block b)) = from_path (Inr ?p)"
    by (simp add: TransactionQuery_QueryBlock_def node_query_defs chain_path_def from_path_def prepare_path_def
      prepareQuery_def selector_err_def List.map_filter_simps Query_def)
  have wf: "wf_path ?p" using whole_where(1) [of transaction_meta "[]"] by (simp add: Where_none)
  obtain ms s' where M: "path_All block_meta cl pc (from_path (Inr ?p)) s = (Inr (map row_block ms), s')"
    "rows s' = rows s" "distinct ms" "set ms = {r \<in> rows s ''blocks''. reaches (rows s) ?p r}"
    using from_path_run [OF reads_keys_metas(2) reads_blocks [OF assms(1)] assms(1) wf] by auto
  have "reaches (rows s) ?p r \<longleftrightarrow> ?has \<and> r = b" if mem: "r \<in> rows s ''blocks''" for r
  proof -
    have "reaches (rows s) ?p r \<longleftrightarrow> ?has \<and> col r ''height'' = ?k"
      using whole_where(2) [of transaction_meta "[]"]
      by (auto simp: along_def Where_none satisfies_def to_column_def block_names transaction_names
        block_TransactionsColumn_def transaction_BlockColumn_def)
    moreover have "col r ''height'' = ?k \<longleftrightarrow> r = b" using db_ok_key [OF assms(1) Tables_members(2), of r b] mem assms(2) key by auto
    ultimately show ?thesis by blast
  qed
  then have "set ms = (if ?has then {b} else {})" using M(4) assms(2) by auto
  then have "ms = (if ?has then [b] else [])" using M(3) by (cases ms; cases "tl ms") (auto split: if_splits)
  then show ?thesis using M(1,2) q by auto
qed

end

section \<open>The database in memory\<close>

definition mem_reached :: "string \<Rightarrow> node_path \<Rightarrow> mem \<Rightarrow> mem" where
  "mem_reached n p s = s(n := filter (reaches (mem_rows s) p) (s n))"

definition mem_paths :: "mem path_calls" where
  "mem_paths = \<lparr>QueryPath = (\<lambda>p q s. (fst (mem_query q (mem_reached (qs_Table q) p s)), s)),
     CountPath = (\<lambda>p q s. (fst (mem_count q (mem_reached (qs_Table q) p s)), s))\<rparr>"

lemma mem_reached_rows: "mem_rows (mem_reached n p s) = restrict_rows n (reaches (mem_rows s) p) (mem_rows s)"
  by (rule ext) (auto simp: mem_rows_def mem_reached_def restrict_rows_def)

interpretation memp: path_driver mem_client mem_rows mem_paths
proof unfold_locales
  fix t q p and s :: mem
  assume "wf_query t q"
  then have n: "qs_Table q = st_Name t" by (simp add: wf_query_def)
  obtain r s' where M: "mem_query q (mem_reached (st_Name t) p s) = (r, s')" by (cases "mem_query q (mem_reached (st_Name t) p s)")
  then obtain rs where "r = Inr rs"
    "query_answer q (restrict_rows (st_Name t) (reaches (mem_rows s) p) (mem_rows s)) rs"
    using mem_query_answer [OF M] unfolding mem_reached_rows by blast
  then show "\<exists>rs s'. QueryPath mem_paths p q s = (Inr rs, s') \<and> mem_rows s' = mem_rows s
      \<and> query_answer q (restrict_rows (st_Name t) (reaches (mem_rows s) p) (mem_rows s)) rs"
    using M n by (simp add: mem_paths_def)
qed

end
