(* ===== verification/Ent_Print.thy ===== *)
theory Ent_Print
  imports Ent_Query_Ops Ent_Where Go_Strings
begin

text \<open>
  The rest of the queries and entities: order options (\<^verbatim>\<open>By..\<close> in \<^verbatim>\<open>ent/*/*.go\<close>), grouping (\<^verbatim>\<open>GroupBy\<close> in
  \<^verbatim>\<open>ent/*_query.go\<close>) with the aggregates of \<^verbatim>\<open>ent/ent.go\<close>, and the text of an entity (\<^verbatim>\<open>String\<close>). The order terms of
  the SQL library, its grouped selection and the formatting of floats, times and structs are parameters.
\<close>

section \<open>Order options\<close>

record ('o, 't) order_api =
  oa_OrderByField :: "string \<Rightarrow> 'o list \<Rightarrow> 't"
  oa_OrderByNeighborsCount :: "graph_step \<Rightarrow> 'o list \<Rightarrow> 't"
  oa_OrderByNeighborTerms :: "graph_step \<Rightarrow> 't list \<Rightarrow> 't"

definition account_ByID :: "('o, 't) order_api \<Rightarrow> 'o list \<Rightarrow> 't" where
  "account_ByID api opts = oa_OrderByField api account_FieldID opts"

definition account_ByToken :: "('o, 't) order_api \<Rightarrow> 'o list \<Rightarrow> 't" where
  "account_ByToken api opts = oa_OrderByField api account_FieldToken opts"

definition account_ByAmount :: "('o, 't) order_api \<Rightarrow> 'o list \<Rightarrow> 't" where
  "account_ByAmount api opts = oa_OrderByField api account_FieldAmount opts"

definition account_ByTransfersToCount :: "('o, 't) order_api \<Rightarrow> 'o list \<Rightarrow> 't" where
  "account_ByTransfersToCount api opts = oa_OrderByNeighborsCount api account_newTransfersToStep opts"

definition account_ByTransfersTo :: "('o, 't) order_api \<Rightarrow> 't \<Rightarrow> 't list \<Rightarrow> 't" where
  "account_ByTransfersTo api term terms = oa_OrderByNeighborTerms api account_newTransfersToStep (term # terms)"

definition account_ByTransfersFromCount :: "('o, 't) order_api \<Rightarrow> 'o list \<Rightarrow> 't" where
  "account_ByTransfersFromCount api opts = oa_OrderByNeighborsCount api account_newTransfersFromStep opts"

definition account_ByTransfersFrom :: "('o, 't) order_api \<Rightarrow> 't \<Rightarrow> 't list \<Rightarrow> 't" where
  "account_ByTransfersFrom api term terms = oa_OrderByNeighborTerms api account_newTransfersFromStep (term # terms)"

definition block_ByID :: "('o, 't) order_api \<Rightarrow> 'o list \<Rightarrow> 't" where
  "block_ByID api opts = oa_OrderByField api block_FieldID opts"

definition block_ByHash :: "('o, 't) order_api \<Rightarrow> 'o list \<Rightarrow> 't" where
  "block_ByHash api opts = oa_OrderByField api block_FieldHash opts"

definition block_ByTime :: "('o, 't) order_api \<Rightarrow> 'o list \<Rightarrow> 't" where
  "block_ByTime api opts = oa_OrderByField api block_FieldTime opts"

definition block_ByTotalTxs :: "('o, 't) order_api \<Rightarrow> 'o list \<Rightarrow> 't" where
  "block_ByTotalTxs api opts = oa_OrderByField api block_FieldTotalTxs opts"

definition block_ByNumTxs :: "('o, 't) order_api \<Rightarrow> 'o list \<Rightarrow> 't" where
  "block_ByNumTxs api opts = oa_OrderByField api block_FieldNumTxs opts"

definition block_ByCreatedAt :: "('o, 't) order_api \<Rightarrow> 'o list \<Rightarrow> 't" where
  "block_ByCreatedAt api opts = oa_OrderByField api block_FieldCreatedAt opts"

definition block_ByTransactionsCount :: "('o, 't) order_api \<Rightarrow> 'o list \<Rightarrow> 't" where
  "block_ByTransactionsCount api opts = oa_OrderByNeighborsCount api block_newTransactionsStep opts"

definition block_ByTransactions :: "('o, 't) order_api \<Rightarrow> 't \<Rightarrow> 't list \<Rightarrow> 't" where
  "block_ByTransactions api term terms = oa_OrderByNeighborTerms api block_newTransactionsStep (term # terms)"

definition restorehistory_ByID :: "('o, 't) order_api \<Rightarrow> 'o list \<Rightarrow> 't" where
  "restorehistory_ByID api opts = oa_OrderByField api restorehistory_FieldID opts"

definition restorehistory_ByRestoreRangeStart :: "('o, 't) order_api \<Rightarrow> 'o list \<Rightarrow> 't" where
  "restorehistory_ByRestoreRangeStart api opts = oa_OrderByField api restorehistory_FieldRestoreRangeStart opts"

definition restorehistory_ByRestoreRangeEnd :: "('o, 't) order_api \<Rightarrow> 'o list \<Rightarrow> 't" where
  "restorehistory_ByRestoreRangeEnd api opts = oa_OrderByField api restorehistory_FieldRestoreRangeEnd opts"

definition restorehistory_ByBeingBlock :: "('o, 't) order_api \<Rightarrow> 'o list \<Rightarrow> 't" where
  "restorehistory_ByBeingBlock api opts = oa_OrderByField api restorehistory_FieldBeingBlock opts"

definition transaction_ByID :: "('o, 't) order_api \<Rightarrow> 'o list \<Rightarrow> 't" where
  "transaction_ByID api opts = oa_OrderByField api transaction_FieldID opts"

definition transaction_ByIndex :: "('o, 't) order_api \<Rightarrow> 'o list \<Rightarrow> 't" where
  "transaction_ByIndex api opts = oa_OrderByField api transaction_FieldIndex opts"

definition transaction_ByHash :: "('o, 't) order_api \<Rightarrow> 'o list \<Rightarrow> 't" where
  "transaction_ByHash api opts = oa_OrderByField api transaction_FieldHash opts"

definition transaction_BySuccess :: "('o, 't) order_api \<Rightarrow> 'o list \<Rightarrow> 't" where
  "transaction_BySuccess api opts = oa_OrderByField api transaction_FieldSuccess opts"

definition transaction_ByBlockHeight :: "('o, 't) order_api \<Rightarrow> 'o list \<Rightarrow> 't" where
  "transaction_ByBlockHeight api opts = oa_OrderByField api transaction_FieldBlockHeight opts"

definition transaction_ByGasWanted :: "('o, 't) order_api \<Rightarrow> 'o list \<Rightarrow> 't" where
  "transaction_ByGasWanted api opts = oa_OrderByField api transaction_FieldGasWanted opts"

definition transaction_ByGasUsed :: "('o, 't) order_api \<Rightarrow> 'o list \<Rightarrow> 't" where
  "transaction_ByGasUsed api opts = oa_OrderByField api transaction_FieldGasUsed opts"

definition transaction_ByMemo :: "('o, 't) order_api \<Rightarrow> 'o list \<Rightarrow> 't" where
  "transaction_ByMemo api opts = oa_OrderByField api transaction_FieldMemo opts"

definition transaction_ByCreatedAt :: "('o, 't) order_api \<Rightarrow> 'o list \<Rightarrow> 't" where
  "transaction_ByCreatedAt api opts = oa_OrderByField api transaction_FieldCreatedAt opts"

definition transaction_ByBlockField :: "('o, 't) order_api \<Rightarrow> string \<Rightarrow> 'o list \<Rightarrow> 't" where
  "transaction_ByBlockField api field opts = oa_OrderByNeighborTerms api transaction_newBlockStep [oa_OrderByField api field opts]"

definition transfer_ByID :: "('o, 't) order_api \<Rightarrow> 'o list \<Rightarrow> 't" where
  "transfer_ByID api opts = oa_OrderByField api transfer_FieldID opts"

definition transfer_ByHash :: "('o, 't) order_api \<Rightarrow> 'o list \<Rightarrow> 't" where
  "transfer_ByHash api opts = oa_OrderByField api transfer_FieldHash opts"

definition transfer_ByFunc :: "('o, 't) order_api \<Rightarrow> 'o list \<Rightarrow> 't" where
  "transfer_ByFunc api opts = oa_OrderByField api transfer_FieldFunc opts"

definition transfer_ByFromAddress :: "('o, 't) order_api \<Rightarrow> 'o list \<Rightarrow> 't" where
  "transfer_ByFromAddress api opts = oa_OrderByField api transfer_FieldFromAddress opts"

definition transfer_ByToAddress :: "('o, 't) order_api \<Rightarrow> 'o list \<Rightarrow> 't" where
  "transfer_ByToAddress api opts = oa_OrderByField api transfer_FieldToAddress opts"

definition transfer_ByToken :: "('o, 't) order_api \<Rightarrow> 'o list \<Rightarrow> 't" where
  "transfer_ByToken api opts = oa_OrderByField api transfer_FieldToken opts"

definition transfer_ByAmount :: "('o, 't) order_api \<Rightarrow> 'o list \<Rightarrow> 't" where
  "transfer_ByAmount api opts = oa_OrderByField api transfer_FieldAmount opts"

definition transfer_ByDenom :: "('o, 't) order_api \<Rightarrow> 'o list \<Rightarrow> 't" where
  "transfer_ByDenom api opts = oa_OrderByField api transfer_FieldDenom opts"

definition transfer_ByCreatedAt :: "('o, 't) order_api \<Rightarrow> 'o list \<Rightarrow> 't" where
  "transfer_ByCreatedAt api opts = oa_OrderByField api transfer_FieldCreatedAt opts"

section \<open>Grouping\<close>

text \<open>An aggregate of a column the table does not have is an error of the selector (\<^verbatim>\<open>Max\<close>, \<^verbatim>\<open>Mean\<close>, \<^verbatim>\<open>Min\<close>, \<^verbatim>\<open>Sum\<close>);
  \<^verbatim>\<open>Count\<close> has no column.\<close>

fun aggregate_err :: "'n ent_meta \<Rightarrow> aggregate \<Rightarrow> err option" where
  "aggregate_err m AggCount = None"
| "aggregate_err m (AggMax c) = checkColumn m c"
| "aggregate_err m (AggMean c) = checkColumn m c"
| "aggregate_err m (AggMin c) = checkColumn m c"
| "aggregate_err m (AggSum c) = checkColumn m c"
| "aggregate_err m (AggAs fn name) = aggregate_err m fn"

record ent_group =
  gb_build :: ent_query
  gb_flds :: "string list"
  gb_fns :: "aggregate list"

type_synonym 's group_scan = "select_spec \<Rightarrow> string list \<Rightarrow> 's \<Rightarrow> (sql_err + row list) \<times> 's"

definition Query_GroupBy :: "string \<Rightarrow> string list \<Rightarrow> ent_query \<Rightarrow> ent_group" where
  "Query_GroupBy f fs q = \<lparr>gb_build = q\<lparr>qy_Fields := f # fs\<rparr>, gb_flds = f # fs, gb_fns = []\<rparr>"

definition GroupBy_Aggregate :: "aggregate list \<Rightarrow> ent_group \<Rightarrow> ent_group" where
  "GroupBy_Aggregate fns g = g\<lparr>gb_fns := gb_fns g @ fns\<rparr>"

definition GroupBy_sqlScan :: "'n ent_meta \<Rightarrow> 's group_scan \<Rightarrow> ent_group \<Rightarrow> ('s, row list) io" where
  "GroupBy_sqlScan m scan g s =
     (case selector_err m (gb_build g) of Some e \<Rightarrow> (Inl e, s)
      | None \<Rightarrow>
        (case List.map_filter (aggregate_err m) (gb_fns g) of
           e # _ \<Rightarrow> (Inl e, s)
         | [] \<Rightarrow>
           (case scan ((sqlQuery m (gb_build g))\<lparr>ss_Columns := gb_flds g, ss_Fns := gb_fns g\<rparr>) (gb_flds g) s of
              (Inl e, s') \<Rightarrow> (Inl (EDriver e), s')
            | (Inr rows, s') \<Rightarrow> (Inr rows, s'))))"

definition GroupBy_Scan :: "'n ent_meta \<Rightarrow> 's group_scan \<Rightarrow> ent_group \<Rightarrow> ('s, row list) io" where
  "GroupBy_Scan m scan g s =
     (case prepareQuery m (gb_build g) of Some e \<Rightarrow> (Inl e, s) | None \<Rightarrow> GroupBy_sqlScan m scan g s)"

definition AccountGroupBy_sqlScan :: "'s group_scan \<Rightarrow> ent_group \<Rightarrow> ('s, row list) io" where
  "AccountGroupBy_sqlScan = GroupBy_sqlScan account_meta"

definition BlockQuery_GroupBy :: "string \<Rightarrow> string list \<Rightarrow> ent_query \<Rightarrow> ent_group" where
  "BlockQuery_GroupBy = Query_GroupBy"

definition BlockGroupBy_Aggregate :: "aggregate list \<Rightarrow> ent_group \<Rightarrow> ent_group" where
  "BlockGroupBy_Aggregate = GroupBy_Aggregate"

definition BlockGroupBy_sqlScan :: "'s group_scan \<Rightarrow> ent_group \<Rightarrow> ('s, row list) io" where
  "BlockGroupBy_sqlScan = GroupBy_sqlScan block_meta"

definition BlockGroupBy_Scan :: "'s group_scan \<Rightarrow> ent_group \<Rightarrow> ('s, row list) io" where
  "BlockGroupBy_Scan = GroupBy_Scan block_meta"

definition RestoreHistoryQuery_GroupBy :: "string \<Rightarrow> string list \<Rightarrow> ent_query \<Rightarrow> ent_group" where
  "RestoreHistoryQuery_GroupBy = Query_GroupBy"

definition RestoreHistoryGroupBy_Aggregate :: "aggregate list \<Rightarrow> ent_group \<Rightarrow> ent_group" where
  "RestoreHistoryGroupBy_Aggregate = GroupBy_Aggregate"

definition RestoreHistoryGroupBy_sqlScan :: "'s group_scan \<Rightarrow> ent_group \<Rightarrow> ('s, row list) io" where
  "RestoreHistoryGroupBy_sqlScan = GroupBy_sqlScan restorehistory_meta"

definition RestoreHistoryGroupBy_Scan :: "'s group_scan \<Rightarrow> ent_group \<Rightarrow> ('s, row list) io" where
  "RestoreHistoryGroupBy_Scan = GroupBy_Scan restorehistory_meta"

definition TransactionQuery_GroupBy :: "string \<Rightarrow> string list \<Rightarrow> ent_query \<Rightarrow> ent_group" where
  "TransactionQuery_GroupBy = Query_GroupBy"

definition TransactionGroupBy_Aggregate :: "aggregate list \<Rightarrow> ent_group \<Rightarrow> ent_group" where
  "TransactionGroupBy_Aggregate = GroupBy_Aggregate"

definition TransactionGroupBy_sqlScan :: "'s group_scan \<Rightarrow> ent_group \<Rightarrow> ('s, row list) io" where
  "TransactionGroupBy_sqlScan = GroupBy_sqlScan transaction_meta"

definition TransactionGroupBy_Scan :: "'s group_scan \<Rightarrow> ent_group \<Rightarrow> ('s, row list) io" where
  "TransactionGroupBy_Scan = GroupBy_Scan transaction_meta"

definition TransferQuery_GroupBy :: "string \<Rightarrow> string list \<Rightarrow> ent_query \<Rightarrow> ent_group" where
  "TransferQuery_GroupBy = Query_GroupBy"

definition TransferGroupBy_Aggregate :: "aggregate list \<Rightarrow> ent_group \<Rightarrow> ent_group" where
  "TransferGroupBy_Aggregate = GroupBy_Aggregate"

definition TransferGroupBy_sqlScan :: "'s group_scan \<Rightarrow> ent_group \<Rightarrow> ('s, row list) io" where
  "TransferGroupBy_sqlScan = GroupBy_sqlScan transfer_meta"

definition TransferGroupBy_Scan :: "'s group_scan \<Rightarrow> ent_group \<Rightarrow> ('s, row list) io" where
  "TransferGroupBy_Scan = GroupBy_Scan transfer_meta"

section \<open>The text of an entity\<close>

definition show_bool :: "bool \<Rightarrow> string" where
  "show_bool b = (if b then ''true'' else ''false'')"

record printers =
  pr_float :: "float64 \<Rightarrow> string"
  pr_time :: "go_time \<Rightarrow> string"
  pr_gas_fee :: "schema_gas_fee \<Rightarrow> string"
  pr_messages :: "schema_message list \<Rightarrow> string"
  pr_response :: "schema_response \<Rightarrow> string"

definition Account_String :: "printers \<Rightarrow> ent_account \<Rightarrow> string" where
  "Account_String pr n =
    ''Account(id='' @ ea_ID n @ '', token='' @ ea_Token n @ '', amount='' @ pr_float pr (ea_Amount n)
      @ '')''"

definition Block_String :: "printers \<Rightarrow> ent_block \<Rightarrow> string" where
  "Block_String pr n =
    ''Block(id='' @ show_int (eb_ID n) @ '', hash='' @ eb_Hash n @ '', time='' @ pr_time pr (eb_Time n)
      @ '', total_txs='' @ show_int (eb_TotalTxs n) @ '', num_txs='' @ show_int (eb_NumTxs n)
      @ '', created_at='' @ pr_time pr (eb_CreatedAt n) @ '')''"

definition RestoreHistory_String :: "printers \<Rightarrow> ent_restorehistory \<Rightarrow> string" where
  "RestoreHistory_String pr n =
    ''RestoreHistory(id='' @ show_int (eh_ID n) @ '', restore_range_start=''
      @ show_int (eh_RestoreRangeStart n) @ '', restore_range_end='' @ show_int (eh_RestoreRangeEnd n)
      @ '', being_block='' @ show_int (eh_BeingBlock n) @ '')''"

definition Transaction_String :: "printers \<Rightarrow> ent_transaction \<Rightarrow> string" where
  "Transaction_String pr n =
    ''Transaction(id='' @ show_int (et_ID n) @ '', index='' @ show_int (et_Index n) @ '', hash=''
      @ et_Hash n @ '', success='' @ show_bool (et_Success n) @ '', block_height=''
      @ show_int (et_BlockHeight n) @ '', gas_wanted='' @ pr_float pr (et_GasWanted n) @ '', gas_used=''
      @ pr_float pr (et_GasUsed n) @ '', memo='' @ et_Memo n @ '', gas_fee=''
      @ pr_gas_fee pr (et_GasFee n) @ '', messages='' @ pr_messages pr (et_Messages n) @ '', response=''
      @ pr_response pr (et_Response n) @ '', created_at='' @ pr_time pr (et_CreatedAt n) @ '')''"

definition Transfer_String :: "printers \<Rightarrow> ent_transfer \<Rightarrow> string" where
  "Transfer_String pr n =
    ''Transfer(id='' @ show_int (ef_ID n) @ '', hash='' @ ef_Hash n @ '', func='' @ ef_Func n
      @ '', from_address='' @ ef_FromAddress n @ '', to_address='' @ ef_ToAddress n @ '', token=''
      @ ef_Token n @ '', amount='' @ pr_float pr (ef_Amount n) @ '', denom='' @ ef_Denom n
      @ '', created_at='' @ pr_time pr (ef_CreatedAt n) @ '')''"

lemma aggregate_err_iff: "aggregate_err m a = None \<longleftrightarrow> (case a of AggCount \<Rightarrow> True
    | AggMax c \<Rightarrow> em_ValidColumn m c | AggMean c \<Rightarrow> em_ValidColumn m c | AggMin c \<Rightarrow> em_ValidColumn m c
    | AggSum c \<Rightarrow> em_ValidColumn m c | AggAs fn name \<Rightarrow> aggregate_err m fn = None)"
  by (cases a) (auto simp: checkColumn_def)

text \<open>A group-by over known columns and aggregates reaches the database; one with an unknown aggregate does not.\<close>

lemma GroupBy_Scan_checked:
  assumes "prepareQuery m (gb_build g) = None" "selector_err m (gb_build g) = None"
    "List.map_filter (aggregate_err m) (gb_fns g) = e # es"
  shows "GroupBy_Scan m scan g s = (Inl e, s)"
  using assms by (simp add: GroupBy_Scan_def GroupBy_sqlScan_def)

end
