(* ===== verification/Ent_Schema.thy ===== *)
theory Ent_Schema
  imports Database Ent_Account Ent_Block Ent_RestoreHistory Ent_Transaction Ent_Transfer
begin

text \<open>
  The schema the client is generated from (\<^verbatim>\<open>ent/schema\<close>), as data: the fields of an entity with their validators
  and defaults, its edges and its indexes. \<open>table_of_schema\<close> is the table the code generator documents for such a
  declaration; \<^verbatim>\<open>ent/migrate/schema.go\<close>, modelled in \<open>Database\<close>, is what it wrote. \<^verbatim>\<open>ent/runtime.go\<close> binds the
  validators and defaults to the builders by the position of their fields.
\<close>

section \<open>Declarations\<close>

datatype validator = VNotEmpty | VPositive

text \<open>A default is a constant, a function called at each creation, or a time taken once when the program starts.\<close>

datatype field_default = DConst ent_value | DNow | DStart

record schema_field =
  sf_Name :: string
  sf_Type :: ftype
  sf_StorageKey :: "string option"
  sf_Optional :: bool
  sf_Immutable :: bool
  sf_Validators :: "validator list"
  sf_Default :: "field_default option"

record schema_edge =
  se_Name :: string
  se_Target :: string
  se_Column :: "string option"

record schema_index =
  si_Fields :: "string list"
  si_Unique :: bool

record entity_schema =
  es_Name :: string
  es_Fields :: "schema_field list"
  es_Edges :: "schema_edge list"
  es_Indexes :: "schema_index list"

definition field :: "string \<Rightarrow> ftype \<Rightarrow> schema_field" where
  "field name ty = \<lparr>sf_Name = name, sf_Type = ty, sf_StorageKey = None, sf_Optional = False, sf_Immutable = False,
     sf_Validators = [], sf_Default = None\<rparr>"

definition StorageKey :: "string \<Rightarrow> schema_field \<Rightarrow> schema_field" where
  "StorageKey k f = f\<lparr>sf_StorageKey := Some k\<rparr>"

definition Optional :: "schema_field \<Rightarrow> schema_field" where
  "Optional f = f\<lparr>sf_Optional := True\<rparr>"

definition Immutable :: "schema_field \<Rightarrow> schema_field" where
  "Immutable f = f\<lparr>sf_Immutable := True\<rparr>"

definition Validate :: "validator \<Rightarrow> schema_field \<Rightarrow> schema_field" where
  "Validate v f = f\<lparr>sf_Validators := sf_Validators f @ [v]\<rparr>"

definition Default :: "field_default \<Rightarrow> schema_field \<Rightarrow> schema_field" where
  "Default d f = f\<lparr>sf_Default := Some d\<rparr>"

lemmas field_defs = field_def StorageKey_def Optional_def Immutable_def Validate_def Default_def

definition Account_Fields :: "schema_field list" where
  "Account_Fields =
     [Validate VNotEmpty (StorageKey ''address'' (field ''id'' TypeString)),
      Validate VNotEmpty (field ''token'' TypeString),
      field ''amount'' TypeFloat64]"

definition Account_Edges :: "schema_edge list" where
  "Account_Edges =
     [\<lparr>se_Name = ''transfers_to'', se_Target = ''transfer'', se_Column = Some ''to_address''\<rparr>,
      \<lparr>se_Name = ''transfers_from'', se_Target = ''transfer'', se_Column = Some ''from_address''\<rparr>]"

definition Account_Indexes :: "schema_index list" where
  "Account_Indexes = [\<lparr>si_Fields = [''id'', ''token''], si_Unique = True\<rparr>]"

definition Block_Fields :: "schema_field list" where
  "Block_Fields =
     [StorageKey ''height'' (field ''id'' TypeInt),
      Validate VNotEmpty (field ''hash'' TypeString),
      field ''time'' TypeTime,
      field ''total_txs'' TypeInt,
      field ''num_txs'' TypeInt,
      Immutable (Default DNow (field ''created_at'' TypeTime))]"

definition Block_Edges :: "schema_edge list" where
  "Block_Edges = [\<lparr>se_Name = ''transactions'', se_Target = ''transaction'', se_Column = None\<rparr>]"

definition RestoreHistory_Fields :: "schema_field list" where
  "RestoreHistory_Fields =
     [field ''id'' TypeInt,
      field ''restore_range_start'' TypeInt,
      field ''restore_range_end'' TypeInt,
      field ''being_block'' TypeInt]"

definition Transaction_Fields :: "schema_field list" where
  "Transaction_Fields =
     [field ''index'' TypeInt,
      Validate VNotEmpty (field ''hash'' TypeString),
      Default (DConst (VBool False)) (field ''success'' TypeBool),
      field ''block_height'' TypeInt,
      field ''gas_wanted'' TypeFloat64,
      field ''gas_used'' TypeFloat64,
      Optional (field ''memo'' TypeString),
      Optional (field ''gas_fee'' TypeJSON),
      Optional (field ''messages'' TypeJSON),
      Optional (field ''response'' TypeJSON),
      Immutable (Default DStart (field ''created_at'' TypeTime))]"

text \<open>The edge \<^verbatim>\<open>block\<close> of a transaction is the inverse of the block's edge, so it declares nothing new.\<close>

definition Transaction_Edges :: "schema_edge list" where
  "Transaction_Edges = []"

definition Transfer_Fields :: "schema_field list" where
  "Transfer_Fields =
     [StorageKey ''id'' (field ''id'' TypeInt),
      Validate VNotEmpty (field ''hash'' TypeString),
      Validate VNotEmpty (field ''func'' TypeString),
      StorageKey ''from_address'' (Optional (field ''from_address'' TypeString)),
      Optional (field ''to_address'' TypeString),
      Validate VNotEmpty (field ''token'' TypeString),
      Validate VPositive (field ''amount'' TypeFloat64),
      Validate VNotEmpty (field ''denom'' TypeString),
      Immutable (Default DNow (field ''created_at'' TypeTime))]"

definition Transfer_Edges :: "schema_edge list" where
  "Transfer_Edges = []"

definition Transfer_Indexes :: "schema_index list" where
  "Transfer_Indexes = [\<lparr>si_Fields = [''from_address'', ''token''], si_Unique = False\<rparr>,
     \<lparr>si_Fields = [''to_address'', ''token''], si_Unique = False\<rparr>]"

definition schema_Account :: entity_schema where
  "schema_Account = \<lparr>es_Name = ''account'', es_Fields = Account_Fields, es_Edges = Account_Edges,
     es_Indexes = Account_Indexes\<rparr>"

definition schema_Block :: entity_schema where
  "schema_Block = \<lparr>es_Name = ''block'', es_Fields = Block_Fields, es_Edges = Block_Edges, es_Indexes = []\<rparr>"

definition schema_RestoreHistory :: entity_schema where
  "schema_RestoreHistory = \<lparr>es_Name = ''restore_history'', es_Fields = RestoreHistory_Fields, es_Edges = [],
     es_Indexes = []\<rparr>"

definition schema_Transaction :: entity_schema where
  "schema_Transaction = \<lparr>es_Name = ''transaction'', es_Fields = Transaction_Fields, es_Edges = Transaction_Edges,
     es_Indexes = []\<rparr>"

definition schema_Transfer :: entity_schema where
  "schema_Transfer = \<lparr>es_Name = ''transfer'', es_Fields = Transfer_Fields, es_Edges = Transfer_Edges,
     es_Indexes = Transfer_Indexes\<rparr>"

definition schemas :: "entity_schema list" where
  "schemas = [schema_Account, schema_Block, schema_RestoreHistory, schema_Transaction, schema_Transfer]"

section \<open>The table of a declaration\<close>

text \<open>An entity without an \<^verbatim>\<open>id\<close> field gets an integer one; integer ids count up; a field is a column under its
  storage key; an edge is a nullable column of the entity it leads to, named after the edge unless it is given a
  column, with a reference that is cleared when the row it refers to is deleted.\<close>

definition storage :: "schema_field \<Rightarrow> string" where
  "storage f = (case sf_StorageKey f of None \<Rightarrow> sf_Name f | Some k \<Rightarrow> k)"

definition all_fields :: "entity_schema \<Rightarrow> schema_field list" where
  "all_fields e = (if list_ex (\<lambda>f. sf_Name f = ''id'') (es_Fields e) then es_Fields e
     else field ''id'' TypeInt # es_Fields e)"

definition id_field :: "entity_schema \<Rightarrow> schema_field" where
  "id_field e = the (List.find (\<lambda>f. sf_Name f = ''id'') (all_fields e))"

definition field_column :: "schema_field \<Rightarrow> sql_column" where
  "field_column f = \<lparr>sc_Name = storage f, sc_Type = sf_Type f, sc_Nullable = sf_Optional f,
     sc_Increment = (sf_Name f = ''id'' \<and> sf_Type f = TypeInt),
     sc_Default = (case sf_Default f of Some (DConst v) \<Rightarrow> Some v | _ \<Rightarrow> None)\<rparr>"

definition edge_column :: "entity_schema \<Rightarrow> schema_edge \<Rightarrow> string" where
  "edge_column e ed = (case se_Column ed of Some c \<Rightarrow> c | None \<Rightarrow> es_Name e @ ''_'' @ se_Name ed)"

definition incoming :: "entity_schema list \<Rightarrow> entity_schema \<Rightarrow> (entity_schema \<times> schema_edge) list" where
  "incoming ss e = concat (map (\<lambda>s. map (Pair s) (filter (\<lambda>ed. se_Target ed = es_Name e) (es_Edges s))) ss)"

definition field_storage :: "entity_schema \<Rightarrow> string \<Rightarrow> string" where
  "field_storage e n = (case List.find (\<lambda>f. sf_Name f = n) (all_fields e) of None \<Rightarrow> n | Some f \<Rightarrow> storage f)"

definition table_of_schema :: "entity_schema list \<Rightarrow> (entity_schema \<Rightarrow> string) \<Rightarrow> entity_schema \<Rightarrow> sql_table" where
  "table_of_schema ss tname e =
     (let cols = map field_column (all_fields e); names = map sc_Name cols;
          new = filter (\<lambda>(s, ed). edge_column s ed \<notin> set names) (incoming ss e) in
      \<lparr>st_Name = tname e,
       st_Columns = cols @ map (\<lambda>(s, ed). nullable (column (edge_column s ed) (sf_Type (id_field s)))) new,
       st_PrimaryKey = storage (id_field e),
       st_ForeignKeys = map (\<lambda>(s, ed). \<lparr>fk_Column = edge_column s ed, fk_RefTable = tname s,
          fk_RefColumn = storage (id_field s), fk_OnDelete = SetNull\<rparr>) (incoming ss e),
       st_Indexes = map (\<lambda>i. \<lparr>ix_Unique = si_Unique i, ix_Columns = map (field_storage e) (si_Fields i)\<rparr>)
          (es_Indexes e)\<rparr>)"

text \<open>The names of the tables, as generated.\<close>

definition table_name :: "entity_schema \<Rightarrow> string" where
  "table_name e = (if es_Name e = ''account'' then account_Table else if es_Name e = ''block'' then block_Table
     else if es_Name e = ''restore_history'' then restorehistory_Table
     else if es_Name e = ''transaction'' then transaction_Table else transfer_Table)"

section \<open>The runtime (\<^verbatim>\<open>ent/runtime.go\<close>)\<close>

text \<open>What \<^verbatim>\<open>init\<close> stores in the variables of the entity packages: the entity and field a variable is named after,
  and the field it is read from.\<close>

definition validator_bindings :: "((string \<times> string) \<times> validator) list" where
  "validator_bindings =
     [((''account'', ''token''), sf_Validators (Account_Fields ! 1) ! 0),
      ((''account'', ''id''), sf_Validators (Account_Fields ! 0) ! 0),
      ((''block'', ''hash''), sf_Validators (Block_Fields ! 1) ! 0),
      ((''transaction'', ''hash''), sf_Validators (Transaction_Fields ! 1) ! 0),
      ((''transfer'', ''hash''), sf_Validators (Transfer_Fields ! 1) ! 0),
      ((''transfer'', ''func''), sf_Validators (Transfer_Fields ! 2) ! 0),
      ((''transfer'', ''token''), sf_Validators (Transfer_Fields ! 5) ! 0),
      ((''transfer'', ''amount''), sf_Validators (Transfer_Fields ! 6) ! 0),
      ((''transfer'', ''denom''), sf_Validators (Transfer_Fields ! 7) ! 0)]"

definition default_bindings :: "((string \<times> string) \<times> field_default option) list" where
  "default_bindings =
     [((''block'', ''created_at''), sf_Default (Block_Fields ! 5)),
      ((''transaction'', ''success''), sf_Default (Transaction_Fields ! 2)),
      ((''transaction'', ''created_at''), sf_Default (Transaction_Fields ! 10)),
      ((''transfer'', ''created_at''), sf_Default (Transfer_Fields ! 8))]"

text \<open>What the declarations ask for, by name.\<close>

definition declared_validators :: "((string \<times> string) \<times> validator) list" where
  "declared_validators = concat (map (\<lambda>e. concat (map (\<lambda>f. map (Pair (es_Name e, sf_Name f)) (sf_Validators f))
     (es_Fields e))) schemas)"

definition declared_defaults :: "((string \<times> string) \<times> field_default option) list" where
  "declared_defaults = concat (map (\<lambda>e. map (\<lambda>f. ((es_Name e, sf_Name f), sf_Default f))
     (filter (\<lambda>f. sf_Default f \<noteq> None) (es_Fields e))) schemas)"

lemmas schema_defs = schemas_def schema_Account_def schema_Block_def schema_RestoreHistory_def
  schema_Transaction_def schema_Transfer_def Account_Fields_def Account_Edges_def Account_Indexes_def
  Block_Fields_def Block_Edges_def RestoreHistory_Fields_def Transaction_Fields_def Transaction_Edges_def
  Transfer_Fields_def Transfer_Edges_def Transfer_Indexes_def

lemmas derived_defs = table_of_schema_def storage_def all_fields_def id_field_def field_column_def edge_column_def
  incoming_def field_storage_def table_name_def

lemma tables_of_schemas: "map (table_of_schema schemas table_name) schemas = Tables"
  by (simp add: schema_defs derived_defs field_defs Tables_def table_defs column_defs Let_def account_names block_names
    restorehistory_names transaction_names transfer_names)

lemma runtime_by_name:
  "set validator_bindings = set declared_validators" "set default_bindings = set declared_defaults"
  by (auto simp: validator_bindings_def default_bindings_def declared_validators_def declared_defaults_def
    schema_defs field_defs)

end
