(* ===== verification/Ent_Connect.thy ===== *)
theory Ent_Connect
  imports Ent_Clients Database Go_Strings
begin

text \<open>
  Opening the client, its configuration, its transactions (\<^verbatim>\<open>ent/client.go\<close>, \<^verbatim>\<open>ent/tx.go\<close>, the first and last
  functions of each mutation and entity), the creation of the schema (\<^verbatim>\<open>ent/migrate/migrate.go\<close>) and the
  repositories' constructors. The SQL library is the parameter \<open>sql_api\<close>: a connection is a value of type
  \<open>'d\<close>, a transaction of the database one of type \<open>'t\<close>. A \<^verbatim>\<open>txDriver\<close> is shared by pointer between a
  transaction, its clients and the mutations made in it: it lives in a list, and its pointer is its index.
\<close>

section \<open>Drivers and configuration\<close>

datatype 'd driver = NoDriver | Opaque 'd | TxDriver nat

record ('d, 't, 's) sql_api =
  sa_Dialects :: "string list"
  sa_Open :: "string \<Rightarrow> string \<Rightarrow> ('s, 'd) io"
  sa_Tx :: "'d \<Rightarrow> ('s, 't) io"
  sa_BeginTx :: "'d \<Rightarrow> ('s, 't) io"
  sa_Commit :: "'t \<Rightarrow> ('s, unit) io"
  sa_Rollback :: "'t \<Rightarrow> ('s, unit) io"
  sa_Close :: "'d \<Rightarrow> ('s, unit) io"
  sa_Dialect :: "'d \<Rightarrow> string"
  sa_Debug :: "'d driver \<Rightarrow> 'd"
  sa_WriteDriver :: "'d driver \<Rightarrow> 'd"
  sa_NewMigrate :: "'d driver \<Rightarrow> err option"
  sa_Create :: "'d driver \<Rightarrow> sql_table list \<Rightarrow> ('s, unit) io"
  sa_graph :: "'d \<Rightarrow> 's ent_graph"
  sa_tx_graph :: "'t \<Rightarrow> 's ent_graph"

text \<open>A commit hook wraps the committer it is given, a rollback hook the rollbacker.\<close>

type_synonym 's finisher = "('s, unit) io"
type_synonym 's finish_hook = "'s finisher \<Rightarrow> 's finisher"

record ('d, 't, 's) tx_driver =
  td_drv :: 'd
  td_tx :: 't
  td_onCommit :: "'s finish_hook list"
  td_onRollback :: "'s finish_hook list"

record 'd config =
  cf_driver :: "'d driver"
  cf_debug :: bool

type_synonym 'd client_option = "'d config \<Rightarrow> 'd config"

definition Debug_option :: "'d client_option" where
  "Debug_option c = c\<lparr>cf_debug := True\<rparr>"

definition Driver_option :: "'d driver \<Rightarrow> 'd client_option" where
  "Driver_option d c = c\<lparr>cf_driver := d\<rparr>"

definition config_options :: "('d, 't, 's) sql_api \<Rightarrow> 'd client_option list \<Rightarrow> 'd config \<Rightarrow> 'd config" where
  "config_options api opts c =
     (let c1 = fold (\<lambda>opt c. opt c) opts c in
      if cf_debug c1 then c1\<lparr>cf_driver := Opaque (sa_Debug api (cf_driver c1))\<rparr> else c1)"

definition newConfig :: "('d, 't, 's) sql_api \<Rightarrow> 'd client_option list \<Rightarrow> 'd config" where
  "newConfig api opts = config_options api opts \<lparr>cf_driver = NoDriver, cf_debug = False\<rparr>"

section \<open>Clients\<close>

text \<open>An entity client is its configuration, and so is the part of a mutation or an entity that reaches the
  database.\<close>

type_synonym 'd entity_client = "'d config"

record 'd migrate_schema =
  ms_drv :: "'d driver"

definition NewSchema :: "'d driver \<Rightarrow> 'd migrate_schema" where
  "NewSchema drv = \<lparr>ms_drv = drv\<rparr>"

record 'd client =
  cl_config :: "'d config"
  cl_Schema :: "'d migrate_schema"
  cl_Account :: "'d entity_client"
  cl_Block :: "'d entity_client"
  cl_RestoreHistory :: "'d entity_client"
  cl_Transaction :: "'d entity_client"
  cl_Transfer :: "'d entity_client"

definition NewAccountClient :: "'d config \<Rightarrow> 'd entity_client" where
  "NewAccountClient c = c"

definition NewBlockClient :: "'d config \<Rightarrow> 'd entity_client" where
  "NewBlockClient c = c"

definition NewRestoreHistoryClient :: "'d config \<Rightarrow> 'd entity_client" where
  "NewRestoreHistoryClient c = c"

definition NewTransactionClient :: "'d config \<Rightarrow> 'd entity_client" where
  "NewTransactionClient c = c"

definition NewTransferClient :: "'d config \<Rightarrow> 'd entity_client" where
  "NewTransferClient c = c"

definition Client_init :: "'d config \<Rightarrow> 'd client" where
  "Client_init c = \<lparr>cl_config = c, cl_Schema = NewSchema (cf_driver c), cl_Account = NewAccountClient c, cl_Block = NewBlockClient c, cl_RestoreHistory = NewRestoreHistoryClient c, cl_Transaction = NewTransactionClient c, cl_Transfer = NewTransferClient c\<rparr>"

definition NewClient :: "('d, 't, 's) sql_api \<Rightarrow> 'd client_option list \<Rightarrow> 'd client" where
  "NewClient api opts = Client_init (newConfig api opts)"

definition ent_Open :: "('d, 't, 's) sql_api \<Rightarrow> string \<Rightarrow> string \<Rightarrow> 'd client_option list \<Rightarrow> ('s, 'd client) io" where
  "ent_Open api driverName dataSourceName options s =
     (if driverName \<in> set (sa_Dialects api) then
        (case sa_Open api driverName dataSourceName s of
           (Inl e, s') \<Rightarrow> (Inl e, s')
         | (Inr drv, s') \<Rightarrow> (Inr (NewClient api (options @ [Driver_option (Opaque drv)])), s'))
      else (Inl (EMsg ''unsupported driver''), s))"

definition Client_Debug :: "('d, 't, 's) sql_api \<Rightarrow> 'd client \<Rightarrow> 'd client" where
  "Client_Debug api c =
     (if cf_debug (cl_config c) then c
      else Client_init ((cl_config c)\<lparr>cf_driver := Opaque (sa_Debug api (cf_driver (cl_config c)))\<rparr>))"

section \<open>The transactional driver (\<^verbatim>\<open>txDriver\<close>)\<close>

type_synonym ('d, 't, 's) tx_store = "('d, 't, 's) tx_driver list"

definition tx_at :: "('d, 't, 's) tx_store \<Rightarrow> 'd driver \<Rightarrow> ('d, 't, 's) tx_driver option" where
  "tx_at txs drv = (case drv of TxDriver i \<Rightarrow> if i < length txs then Some (txs ! i) else None | _ \<Rightarrow> None)"

definition newTx :: "('d, 't, 's) sql_api \<Rightarrow> 'd \<Rightarrow> ('s, ('d, 't, 's) tx_driver) io" where
  "newTx api drv s =
     (case sa_Tx api drv s of
        (Inl e, s') \<Rightarrow> (Inl e, s')
      | (Inr tx, s') \<Rightarrow> (Inr \<lparr>td_drv = drv, td_tx = tx, td_onCommit = [], td_onRollback = []\<rparr>, s'))"

text \<open>The calls a builder makes on its driver: a \<^verbatim>\<open>txDriver\<close> gives itself as the transaction, and its own commit,
  rollback and close do nothing. Statements go to the transaction of the database.\<close>

definition driver_Tx :: "nat \<Rightarrow> nat" where
  "driver_Tx i = i"

definition driver_Commit :: "nat \<Rightarrow> 's finisher" where
  "driver_Commit i s = (Inr (), s)"

definition driver_Rollback :: "nat \<Rightarrow> 's finisher" where
  "driver_Rollback i s = (Inr (), s)"

definition driver_Close :: "('d, 't, 's) sql_api \<Rightarrow> 'd driver \<Rightarrow> ('s, unit) io" where
  "driver_Close api drv s =
     (case drv of NoDriver \<Rightarrow> (Inl (EPanic ''nil pointer dereference''), s)
      | Opaque d \<Rightarrow> sa_Close api d s
      | TxDriver i \<Rightarrow> (Inr (), s))"

definition driver_Dialect :: "('d, 't, 's) sql_api \<Rightarrow> ('d, 't, 's) tx_store \<Rightarrow> 'd driver \<Rightarrow> string option" where
  "driver_Dialect api txs drv =
     (case drv of Opaque d \<Rightarrow> Some (sa_Dialect api d)
      | _ \<Rightarrow> map_option (\<lambda>td. sa_Dialect api (td_drv td)) (tx_at txs drv))"

definition driver_graph :: "('d, 't, 's) sql_api \<Rightarrow> ('d, 't, 's) tx_store \<Rightarrow> 'd driver \<Rightarrow> 's ent_graph option" where
  "driver_graph api txs drv =
     (case drv of Opaque d \<Rightarrow> Some (sa_graph api d)
      | _ \<Rightarrow> map_option (\<lambda>td. sa_tx_graph api (td_tx td)) (tx_at txs drv))"

definition Client_Close :: "('d, 't, 's) sql_api \<Rightarrow> 'd client \<Rightarrow> ('s, unit) io" where
  "Client_Close api c = driver_Close api (cf_driver (cl_config c))"

section \<open>Transactions\<close>

record 'd tx =
  tx_config :: "'d config"
  tx_Account :: "'d entity_client"
  tx_Block :: "'d entity_client"
  tx_RestoreHistory :: "'d entity_client"
  tx_Transaction :: "'d entity_client"
  tx_Transfer :: "'d entity_client"
  tx_client :: "'d client option"

definition tx_of :: "'d config \<Rightarrow> 'd tx" where
  "tx_of c = \<lparr>tx_config = c, tx_Account = NewAccountClient c, tx_Block = NewBlockClient c, tx_RestoreHistory = NewRestoreHistoryClient c, tx_Transaction = NewTransactionClient c, tx_Transfer = NewTransferClient c, tx_client = None\<rparr>"

definition ErrTxStarted :: err where
  "ErrTxStarted = EMsg ''ent: cannot start a transaction within a transaction''"

text \<open>\<^verbatim>\<open>Client.Tx\<close> and \<^verbatim>\<open>Client.BeginTx\<close>: the first asks whether the driver is a \<^verbatim>\<open>*txDriver\<close>.\<close>

definition Client_Tx :: "('d, 't, 's) sql_api \<Rightarrow> 'd client \<Rightarrow> ('d, 't, 's) tx_store \<Rightarrow> 's
    \<Rightarrow> (err + 'd tx) \<times> ('d, 't, 's) tx_store \<times> 's" where
  "Client_Tx api c txs s =
     (case cf_driver (cl_config c) of
        TxDriver i \<Rightarrow> (Inl ErrTxStarted, txs, s)
      | NoDriver \<Rightarrow> (Inl (EPanic ''nil pointer dereference''), txs, s)
      | Opaque d \<Rightarrow>
          (case newTx api d s of
             (Inl e, s') \<Rightarrow> (Inl (EWrap ''ent: starting a transaction'' e), txs, s')
           | (Inr td, s') \<Rightarrow>
               (Inr (tx_of ((cl_config c)\<lparr>cf_driver := TxDriver (length txs)\<rparr>)), txs @ [td], s')))"

definition Client_BeginTx :: "('d, 't, 's) sql_api \<Rightarrow> 'd client \<Rightarrow> ('d, 't, 's) tx_store \<Rightarrow> 's
    \<Rightarrow> (err + 'd tx) \<times> ('d, 't, 's) tx_store \<times> 's" where
  "Client_BeginTx api c txs s =
     (case cf_driver (cl_config c) of
        TxDriver i \<Rightarrow> (Inl (EMsg ''ent: cannot start a transaction within a transaction''), txs, s)
      | NoDriver \<Rightarrow> (Inl (EPanic ''nil pointer dereference''), txs, s)
      | Opaque d \<Rightarrow>
          (case sa_BeginTx api d s of
             (Inl e, s') \<Rightarrow> (Inl (EWrap ''ent: starting a transaction'' e), txs, s')
           | (Inr t, s') \<Rightarrow>
               (Inr (tx_of ((cl_config c)\<lparr>cf_driver := TxDriver (length txs)\<rparr>)),
                txs @ [\<lparr>td_drv = d, td_tx = t, td_onCommit = [], td_onRollback = []\<rparr>], s')))"

text \<open>\<^verbatim>\<open>Tx.Client\<close> makes the client at its first call and keeps it.\<close>

definition Tx_Client :: "'d tx \<Rightarrow> 'd client \<times> 'd tx" where
  "Tx_Client t = (case tx_client t of Some c \<Rightarrow> (c, t)
     | None \<Rightarrow> (let c = Client_init (tx_config t) in (c, t\<lparr>tx_client := Some c\<rparr>)))"

definition Tx_Commit :: "('d, 't, 's) sql_api \<Rightarrow> ('d, 't, 's) tx_store \<Rightarrow> 'd tx \<Rightarrow> ('s, unit) io" where
  "Tx_Commit api txs t s =
     (case tx_at txs (cf_driver (tx_config t)) of
        None \<Rightarrow> (Inl (EPanic ''interface conversion''), s)
      | Some td \<Rightarrow> foldr (\<lambda>hook fn. hook fn) (td_onCommit td) (sa_Commit api (td_tx td)) s)"

definition Tx_Rollback :: "('d, 't, 's) sql_api \<Rightarrow> ('d, 't, 's) tx_store \<Rightarrow> 'd tx \<Rightarrow> ('s, unit) io" where
  "Tx_Rollback api txs t s =
     (case tx_at txs (cf_driver (tx_config t)) of
        None \<Rightarrow> (Inl (EPanic ''interface conversion''), s)
      | Some td \<Rightarrow> foldr (\<lambda>hook fn. hook fn) (td_onRollback td) (sa_Rollback api (td_tx td)) s)"

text \<open>Adding a hook panics on a \<^verbatim>\<open>Tx\<close> whose driver is no \<^verbatim>\<open>txDriver\<close>.\<close>

definition change_tx :: "(('d, 't, 's) tx_driver \<Rightarrow> ('d, 't, 's) tx_driver) \<Rightarrow> 'd tx \<Rightarrow> ('d, 't, 's) tx_store
    \<Rightarrow> err + ('d, 't, 's) tx_store" where
  "change_tx f t txs =
     (case cf_driver (tx_config t) of
        TxDriver i \<Rightarrow> if i < length txs then Inr (txs[i := f (txs ! i)]) else Inl (EPanic ''interface conversion'')
      | _ \<Rightarrow> Inl (EPanic ''interface conversion''))"

definition Tx_OnCommit :: "'s finish_hook \<Rightarrow> 'd tx \<Rightarrow> ('d, 't, 's) tx_store \<Rightarrow> err + ('d, 't, 's) tx_store" where
  "Tx_OnCommit f = change_tx (\<lambda>td. td\<lparr>td_onCommit := td_onCommit td @ [f]\<rparr>)"

definition Tx_OnRollback :: "'s finish_hook \<Rightarrow> 'd tx \<Rightarrow> ('d, 't, 's) tx_store \<Rightarrow> err + ('d, 't, 's) tx_store" where
  "Tx_OnRollback f = change_tx (\<lambda>td. td\<lparr>td_onRollback := td_onRollback td @ [f]\<rparr>)"

section \<open>From mutations and entities back to clients\<close>

text \<open>\<^verbatim>\<open>Client\<close> and \<^verbatim>\<open>Tx\<close> of a mutation, \<^verbatim>\<open>Unwrap\<close> of an entity, by the configuration it carries.\<close>

definition AccountMutation_Client :: "'d config \<Rightarrow> 'd client" where
  "AccountMutation_Client c = Client_init c"

definition AccountMutation_Tx :: "'d config \<Rightarrow> err + 'd tx" where
  "AccountMutation_Tx c = (case cf_driver c of TxDriver i \<Rightarrow> Inr (tx_of c)
     | _ \<Rightarrow> Inl (EMsg ''ent: mutation is not running in a transaction''))"

definition Account_Unwrap :: "('d, 't, 's) tx_store \<Rightarrow> 'd config \<Rightarrow> err + 'd config" where
  "Account_Unwrap txs c = (case tx_at txs (cf_driver c) of
     None \<Rightarrow> Inl (EPanic ''ent: Account is not a transactional entity'')
   | Some td \<Rightarrow> Inr (c\<lparr>cf_driver := Opaque (td_drv td)\<rparr>))"

definition BlockMutation_Client :: "'d config \<Rightarrow> 'd client" where
  "BlockMutation_Client c = Client_init c"

definition BlockMutation_Tx :: "'d config \<Rightarrow> err + 'd tx" where
  "BlockMutation_Tx c = (case cf_driver c of TxDriver i \<Rightarrow> Inr (tx_of c)
     | _ \<Rightarrow> Inl (EMsg ''ent: mutation is not running in a transaction''))"

definition Block_Unwrap :: "('d, 't, 's) tx_store \<Rightarrow> 'd config \<Rightarrow> err + 'd config" where
  "Block_Unwrap txs c = (case tx_at txs (cf_driver c) of
     None \<Rightarrow> Inl (EPanic ''ent: Block is not a transactional entity'')
   | Some td \<Rightarrow> Inr (c\<lparr>cf_driver := Opaque (td_drv td)\<rparr>))"

definition RestoreHistoryMutation_Client :: "'d config \<Rightarrow> 'd client" where
  "RestoreHistoryMutation_Client c = Client_init c"

definition RestoreHistoryMutation_Tx :: "'d config \<Rightarrow> err + 'd tx" where
  "RestoreHistoryMutation_Tx c = (case cf_driver c of TxDriver i \<Rightarrow> Inr (tx_of c)
     | _ \<Rightarrow> Inl (EMsg ''ent: mutation is not running in a transaction''))"

definition RestoreHistory_Unwrap :: "('d, 't, 's) tx_store \<Rightarrow> 'd config \<Rightarrow> err + 'd config" where
  "RestoreHistory_Unwrap txs c = (case tx_at txs (cf_driver c) of
     None \<Rightarrow> Inl (EPanic ''ent: RestoreHistory is not a transactional entity'')
   | Some td \<Rightarrow> Inr (c\<lparr>cf_driver := Opaque (td_drv td)\<rparr>))"

definition TransactionMutation_Client :: "'d config \<Rightarrow> 'd client" where
  "TransactionMutation_Client c = Client_init c"

definition TransactionMutation_Tx :: "'d config \<Rightarrow> err + 'd tx" where
  "TransactionMutation_Tx c = (case cf_driver c of TxDriver i \<Rightarrow> Inr (tx_of c)
     | _ \<Rightarrow> Inl (EMsg ''ent: mutation is not running in a transaction''))"

definition Transaction_Unwrap :: "('d, 't, 's) tx_store \<Rightarrow> 'd config \<Rightarrow> err + 'd config" where
  "Transaction_Unwrap txs c = (case tx_at txs (cf_driver c) of
     None \<Rightarrow> Inl (EPanic ''ent: Transaction is not a transactional entity'')
   | Some td \<Rightarrow> Inr (c\<lparr>cf_driver := Opaque (td_drv td)\<rparr>))"

definition TransferMutation_Client :: "'d config \<Rightarrow> 'd client" where
  "TransferMutation_Client c = Client_init c"

definition TransferMutation_Tx :: "'d config \<Rightarrow> err + 'd tx" where
  "TransferMutation_Tx c = (case cf_driver c of TxDriver i \<Rightarrow> Inr (tx_of c)
     | _ \<Rightarrow> Inl (EMsg ''ent: mutation is not running in a transaction''))"

definition Transfer_Unwrap :: "('d, 't, 's) tx_store \<Rightarrow> 'd config \<Rightarrow> err + 'd config" where
  "Transfer_Unwrap txs c = (case tx_at txs (cf_driver c) of
     None \<Rightarrow> Inl (EPanic ''ent: Transfer is not a transactional entity'')
   | Some td \<Rightarrow> Inr (c\<lparr>cf_driver := Opaque (td_drv td)\<rparr>))"

section \<open>Clients in a context (\<^verbatim>\<open>ent/ent.go\<close>)\<close>

datatype ctx_key = ClientCtxKey | TxCtxKey | OtherKey string

datatype ('d, 'v) ctx_value = CtxClient "'d client" | CtxTx "'d tx" | CtxOther 'v

type_synonym ('d, 'v) ctx = "(ctx_key \<times> ('d, 'v) ctx_value) list"

definition NewContext :: "('d, 'v) ctx \<Rightarrow> 'd client \<Rightarrow> ('d, 'v) ctx" where
  "NewContext parent c = (ClientCtxKey, CtxClient c) # parent"

definition FromContext :: "('d, 'v) ctx \<Rightarrow> 'd client option" where
  "FromContext ctx = (case map_of ctx ClientCtxKey of Some (CtxClient c) \<Rightarrow> Some c | _ \<Rightarrow> None)"

definition NewTxContext :: "('d, 'v) ctx \<Rightarrow> 'd tx \<Rightarrow> ('d, 'v) ctx" where
  "NewTxContext parent t = (TxCtxKey, CtxTx t) # parent"

definition TxFromContext :: "('d, 'v) ctx \<Rightarrow> 'd tx option" where
  "TxFromContext ctx = (case map_of ctx TxCtxKey of Some (CtxTx t) \<Rightarrow> Some t | _ \<Rightarrow> None)"

section \<open>The schema and the repositories\<close>

definition migrate_Create :: "('d, 't, 's) sql_api \<Rightarrow> 'd migrate_schema \<Rightarrow> sql_table list \<Rightarrow> ('s, unit) io" where
  "migrate_Create api sc tables s =
     (case sa_NewMigrate api (ms_drv sc) of
        Some e \<Rightarrow> (Inl (EWrap ''ent/migrate'' e), s)
      | None \<Rightarrow> sa_Create api (ms_drv sc) tables s)"

definition Schema_Create :: "('d, 't, 's) sql_api \<Rightarrow> 'd migrate_schema \<Rightarrow> ('s, unit) io" where
  "Schema_Create api sc = migrate_Create api sc Tables"

definition Schema_WriteTo :: "('d, 't, 's) sql_api \<Rightarrow> 'd migrate_schema \<Rightarrow> ('s, unit) io" where
  "Schema_WriteTo api sc = migrate_Create api \<lparr>ms_drv = Opaque (sa_WriteDriver api (ms_drv sc))\<rparr> Tables"

record ent_config =
  ec_Host :: string
  ec_Port :: int
  ec_User :: string
  ec_Password :: string
  ec_Database :: string

definition dsn :: "ent_config \<Rightarrow> string" where
  "dsn c = ''host='' @ ec_Host c @ '' port='' @ show_int (ec_Port c) @ '' user='' @ ec_User c @ '' password=''
     @ ec_Password c @ '' dbname='' @ ec_Database c @ '' sslmode=disable''"

text \<open>A constructor panics on a client that cannot be opened; on a schema that cannot be created \<^verbatim>\<open>Fatalf\<close> ends the
  process. Both are the end of the program, and an \<open>EPanic\<close> here. The repositories are those of \<open>Repository\<close>
  over the driver of the client.\<close>

definition NewRepositoryEnt :: "('d, 't, 's) sql_api \<Rightarrow> ent_config \<Rightarrow> ('s, 'd client) io" where
  "NewRepositoryEnt api c s =
     (case ent_Open api ''postgres'' (dsn c) [] s of
        (Inl e, s') \<Rightarrow> (Inl (EPanic (''failed to connect to database: '' @ err_text e)), s')
      | (Inr client, s') \<Rightarrow>
          (case Schema_Create api (cl_Schema client) s' of
             (Inl e, s2) \<Rightarrow> (Inl (EPanic ''failed creating schema resources''), s2)
           | (Inr _, s2) \<Rightarrow> (Inr client, s2)))"

definition NewRepositoryBsEnt :: "('d, 't, 's) sql_api \<Rightarrow> ent_config \<Rightarrow> ('s, 'd client) io" where
  "NewRepositoryBsEnt api c s =
     (case ent_Open api ''postgres'' (dsn c) [] s of
        (Inl e, s') \<Rightarrow> (Inl (EPanic (''failed to connect to database: '' @ err_text e)), s')
      | (Inr client, s') \<Rightarrow>
          (case Schema_Create api (cl_Schema client) s' of
             (Inl e, s2) \<Rightarrow> (Inl (EPanic ''failed creating schema resources''), s2)
           | (Inr _, s2) \<Rightarrow> (Inr client, s2)))"

section \<open>Laws\<close>

lemmas entity_clients = NewAccountClient_def NewBlockClient_def NewRestoreHistoryClient_def NewTransactionClient_def NewTransferClient_def

lemma context_round_trip:
  "FromContext (NewContext ctx c) = Some c" "TxFromContext (NewTxContext ctx t) = Some t"
  "FromContext (NewTxContext ctx t) = FromContext ctx" "TxFromContext (NewContext ctx c) = TxFromContext ctx"
  by (simp_all add: FromContext_def NewContext_def TxFromContext_def NewTxContext_def)

lemma client_config [simp]: "cl_config (Client_init c) = c" "cl_Schema (Client_init c) = NewSchema (cf_driver c)"
  by (simp_all add: Client_init_def)

lemma tx_config_of [simp]: "tx_config (tx_of c) = c" "tx_client (tx_of c) = None"
  by (simp_all add: tx_of_def)

lemma Tx_Client_config: "tx_client t = None \<Longrightarrow> cl_config (fst (Tx_Client t)) = tx_config t"
  by (simp add: Tx_Client_def Let_def)

text \<open>A transaction that was started has a driver of its own at the end of the store.\<close>

lemma Client_Tx_started:
  assumes "Client_Tx api c txs s = (Inr t, txs', s')"
  obtains d td where "cf_driver (cl_config c) = Opaque d" "sa_Tx api d s = (Inr (td_tx td), s')" "td_drv td = d"
    "txs' = txs @ [td]" "t = tx_of ((cl_config c)\<lparr>cf_driver := TxDriver (length txs)\<rparr>)"
    "td_onCommit td = []" "td_onRollback td = []"
proof -
  obtain d tr where d: "cf_driver (cl_config c) = Opaque d" and r: "sa_Tx api d s = (Inr tr, s')"
    using assms by (auto simp: Client_Tx_def newTx_def split: driver.splits prod.splits sum.splits)
  let ?td = "\<lparr>td_drv = d, td_tx = tr, td_onCommit = [], td_onRollback = []\<rparr>"
  have "txs' = txs @ [?td]" "t = tx_of ((cl_config c)\<lparr>cf_driver := TxDriver (length txs)\<rparr>)"
    using assms d r by (simp_all add: Client_Tx_def newTx_def)
  then show thesis using d r by (intro that [of d ?td]) simp_all
qed

lemma inside_tx_refused:
  assumes "cf_driver (cl_config c) = TxDriver i"
  shows "Client_Tx api c txs s = (Inl ErrTxStarted, txs, s)" "Client_BeginTx api c txs s = (Inl ErrTxStarted, txs, s)"
  using assms by (simp_all add: Client_Tx_def Client_BeginTx_def ErrTxStarted_def)

text \<open>Hooks added one after the other, through any handle of the same transaction.\<close>

lemma OnCommit_at:
  assumes "Tx_OnCommit f t txs = Inr txs'" "cf_driver (tx_config u) = cf_driver (tx_config t)"
    "tx_at txs (cf_driver (tx_config t)) = Some td"
  shows "tx_at txs' (cf_driver (tx_config u)) = Some (td\<lparr>td_onCommit := td_onCommit td @ [f]\<rparr>)"
  using assms by (auto simp: Tx_OnCommit_def change_tx_def tx_at_def split: driver.splits if_splits)

lemma OnRollback_at:
  assumes "Tx_OnRollback f t txs = Inr txs'" "cf_driver (tx_config u) = cf_driver (tx_config t)"
    "tx_at txs (cf_driver (tx_config t)) = Some td"
  shows "tx_at txs' (cf_driver (tx_config u)) = Some (td\<lparr>td_onRollback := td_onRollback td @ [f]\<rparr>)"
  using assms by (auto simp: Tx_OnRollback_def change_tx_def tx_at_def split: driver.splits if_splits)

end
