(* ===== verification/Startup.thy ===== *)
theory Startup
  imports Ent_Connect Broker Rest
begin

text \<open>
  How the three programs start: the broker's connection and its \<^verbatim>\<open>Close\<close> (\<^verbatim>\<open>externals/msgbroker\<close>), the constructors
  of the services, the controllers and the \<^verbatim>\<open>main\<close> functions (\<^verbatim>\<open>cmd\<close>), and what the logger writes (\<^verbatim>\<open>lib/log\<close>).
  The AWS client, the web server and the formatting of \<^verbatim>\<open>fmt\<close> are parameters. \<^verbatim>\<open>Fatalf\<close> ends the process, as a
  panic does; both are an \<open>EPanic\<close>.
\<close>

section \<open>Connecting the broker\<close>

record localstack_config =
  lc_Endpoint :: string
  lc_Region :: string

record 's aws_connect =
  ac_LoadConfig :: "localstack_config \<Rightarrow> ('s, unit) io"
  ac_ListTopics :: "('s, unit) io"
  ac_ListQueues :: "('s, unit) io"

text \<open>The defaults are written into the caller's configuration, when there is one.\<close>

definition localstack_defaults :: "localstack_config option \<Rightarrow> localstack_config" where
  "localstack_defaults cfg =
     (let c = (case cfg of Some c \<Rightarrow> c
            | None \<Rightarrow> \<lparr>lc_Endpoint = ''http://localhost:4566'', lc_Region = ''us-east-1''\<rparr>);
          c1 = (if lc_Endpoint c = [] then c\<lparr>lc_Endpoint := ''http://localhost:4566''\<rparr> else c) in
      if lc_Region c1 = [] then c1\<lparr>lc_Region := ''us-east-1''\<rparr> else c1)"

definition testConnection :: "'s aws_connect \<Rightarrow> ('s, unit) io" where
  "testConnection ac s =
     (case ac_ListTopics ac s of
        (Inl e, s1) \<Rightarrow> (Inl (EWrap ''SNS service not accessible'' e), s1)
      | (Inr _, s1) \<Rightarrow>
          (case ac_ListQueues ac s1 of
             (Inl e, s2) \<Rightarrow> (Inl (EWrap ''SQS service not accessible'' e), s2)
           | (Inr _, s2) \<Rightarrow> (Inr (), s2)))"

text \<open>A broker runs with the context its constructor made; \<open>br_Canceled\<close> is the state of that context.\<close>

record 's broker_run =
  br_broker :: "'s msgbroker"
  br_config :: localstack_config
  br_Canceled :: bool

definition NewMsgBrokerLocalStack :: "'s aws_connect \<Rightarrow> localstack_config option \<Rightarrow> 's \<Rightarrow> err + 's broker_run" where
  "NewMsgBrokerLocalStack ac cfg s =
     (let c = localstack_defaults cfg in
      case ac_LoadConfig ac c s of
        (Inl e, s1) \<Rightarrow> Inl (EWrap ''failed to load AWS config'' e)
      | (Inr _, s1) \<Rightarrow>
          (case testConnection ac s1 of
             (Inl e, s2) \<Rightarrow> Inl (EWrap ''failed to connect to LocalStack'' e)
           | (Inr _, s2) \<Rightarrow> Inr \<lparr>br_broker = NewMsgBroker s2, br_config = c, br_Canceled = False\<rparr>))"

text \<open>\<^verbatim>\<open>Close\<close> cancels the context and waits for the pollers, for 30 seconds at most: it returns nil in both cases,
  and the flag says which of them is logged.\<close>

definition broker_Close :: "bool \<Rightarrow> 's broker_run \<Rightarrow> (err option \<times> string) \<times> 's broker_run" where
  "broker_Close stopped b =
     ((None, if stopped then ''All message pollers stopped successfully'' else ''Timeout waiting for pollers to stop''),
      b\<lparr>br_Canceled := True\<rparr>)"

section \<open>Constructing the services\<close>

record sync_config =
  sc_FetchEndpoint :: string
  sc_WebSocketEndpoint :: string
  sc_EntConfig :: ent_config
  sc_LocalStackConfig :: "localstack_config option"

record ('d, 'b) sync_parts =
  sp_repo :: "'d client"
  sp_repoBs :: "'d client"
  sp_fetchEndpoint :: string
  sp_websocketEndpoint :: string
  sp_localStack :: "'b broker_run"

definition or_default :: "string \<Rightarrow> string \<Rightarrow> string" where
  "or_default x d = (if x = [] then d else x)"

text \<open>The GraphQL client is made from the configured endpoint, before the default for it is worked out.\<close>

definition sync_NewService :: "('d, 't, 's) sql_api \<Rightarrow> 'b aws_connect \<Rightarrow> sync_config \<Rightarrow> 'b
    \<Rightarrow> ('s, ('d, 'b) sync_parts) io" where
  "sync_NewService api ac c b s =
     (case NewRepositoryEnt api (sc_EntConfig c) s of
        (Inl e, s1) \<Rightarrow> (Inl e, s1)
      | (Inr repo, s1) \<Rightarrow>
          (case NewRepositoryBsEnt api \<lparr>ec_Host = ec_Host (sc_EntConfig c), ec_Port = ec_Port (sc_EntConfig c),
               ec_User = ec_User (sc_EntConfig c), ec_Password = ec_Password (sc_EntConfig c),
               ec_Database = ec_Database (sc_EntConfig c)\<rparr> s1 of
             (Inl e, s2) \<Rightarrow> (Inl e, s2)
           | (Inr repoBs, s2) \<Rightarrow>
               (case NewMsgBrokerLocalStack ac (sc_LocalStackConfig c) b of
                  Inl e \<Rightarrow> (Inl (EPanic ''failed to create local stack''), s2)
                | Inr br \<Rightarrow>
                    (let fetchEndpoint = or_default (sc_FetchEndpoint c) ''https://indexer.onbloc.xyz/graphql/query'' in
                     (Inr \<lparr>sp_repo = repo, sp_repoBs = repoBs, sp_fetchEndpoint = sc_FetchEndpoint c,
                        sp_websocketEndpoint = or_default (sc_WebSocketEndpoint c)
                          ''wss://indexer.onbloc.xyz/graphql/query'', sp_localStack = br\<rparr>, s2)))))"

record ep_config =
  epc_EntConfig :: ent_config
  epc_LocalStackConfig :: "localstack_config option"

record ('d, 'b) ep_parts =
  epp_repo :: "'d client"
  epp_msgBroker :: "'b broker_run"

definition processor_NewService :: "('d, 't, 's) sql_api \<Rightarrow> 'b aws_connect \<Rightarrow> ep_config \<Rightarrow> 'b
    \<Rightarrow> ('s, ('d, 'b) ep_parts) io" where
  "processor_NewService api ac c b s =
     (case NewRepositoryEnt api (epc_EntConfig c) s of
        (Inl e, s1) \<Rightarrow> (Inl e, s1)
      | (Inr repo, s1) \<Rightarrow>
          (case NewMsgBrokerLocalStack ac (epc_LocalStackConfig c) b of
             Inl e \<Rightarrow> (Inl (EPanic ''Failed to create local stack message broker''), s1)
           | Inr br \<Rightarrow> (Inr \<lparr>epp_repo = repo, epp_msgBroker = br\<rparr>, s1)))"

section \<open>Controllers\<close>

definition local_postgres :: ent_config where
  "local_postgres = \<lparr>ec_Host = ''localhost'', ec_Port = 5432, ec_User = ''postgres'', ec_Password = ''postgres'',
     ec_Database = ''postgres''\<rparr>"

definition local_localstack :: localstack_config where
  "local_localstack = \<lparr>lc_Endpoint = ''http://localhost:4566'', lc_Region = ''us-east-1''\<rparr>"

definition sync_NewController :: "('d, 't, 's) sql_api \<Rightarrow> 'b aws_connect \<Rightarrow> 'b \<Rightarrow> ('s, ('d, 'b) sync_parts) io" where
  "sync_NewController api ac = sync_NewService api ac
     \<lparr>sc_FetchEndpoint = ''https://indexer.onbloc.xyz/graphql/query'',
      sc_WebSocketEndpoint = ''wss://indexer.onbloc.xyz/graphql/query'',
      sc_EntConfig = local_postgres, sc_LocalStackConfig = Some local_localstack\<rparr>"

definition processor_NewController :: "('d, 't, 's) sql_api \<Rightarrow> 'b aws_connect \<Rightarrow> 'b \<Rightarrow> ('s, ('d, 'b) ep_parts) io" where
  "processor_NewController api ac = processor_NewService api ac
     \<lparr>epc_EntConfig = local_postgres, epc_LocalStackConfig = Some local_localstack\<rparr>"

record 'd rest_parts =
  rp_repo :: "'d client"
  rp_listenHost :: string
  rp_listenPort :: int
  rp_cacheSize :: int

text \<open>\<open>cache\<close> says whether the cache of a size could be made.\<close>

definition rest_NewController :: "('d, 't, 's) sql_api \<Rightarrow> (int \<Rightarrow> bool) \<Rightarrow> ('s, 'd rest_parts) io" where
  "rest_NewController api cache s =
     (case NewRepositoryEnt api local_postgres s of
        (Inl e, s1) \<Rightarrow> (Inl e, s1)
      | (Inr repo, s1) \<Rightarrow>
          (let cacheSize = 100 * 1024 * 1024 in
           if cache cacheSize then
             (Inr \<lparr>rp_repo = repo, rp_listenHost = ''localhost'', rp_listenPort = 8080, rp_cacheSize = cacheSize\<rparr>, s1)
           else (Inl (EPanic ''Failed to create local cache''), s1)))"

text \<open>\<^verbatim>\<open>Run\<close> of the two background services starts goroutines and returns; that of the REST indexer returns only
  when its server stops, \<open>listen\<close> being the answer of the server for an address.\<close>

datatype goroutine = GoSubscribeAndPush | GoRestoreMissing | GoSubscribeAndHandle

definition sync_Run :: "goroutine list \<times> err option" where
  "sync_Run = ([GoSubscribeAndPush, GoRestoreMissing], None)"

definition processor_Run :: "goroutine list \<times> err option" where
  "processor_Run = ([GoSubscribeAndHandle], None)"

definition rest_Run :: "(string \<Rightarrow> err option) \<Rightarrow> 'd rest_parts \<Rightarrow> err option" where
  "rest_Run listen p =
     (case listen (rp_listenHost p @ '':'' @ show_int (rp_listenPort p)) of
        Some e \<Rightarrow> Some (logger_Errorf ''Failed to start HTTP server'' e) | None \<Rightarrow> None)"

section \<open>The programs\<close>

text \<open>\<^verbatim>\<open>main\<close> waits for the end of its context. A context of the program is the background context, which is never
  done, or one that ends with an error.\<close>

datatype main_ctx = Background | EndsWith err

datatype main_result = Waits "goroutine list" | Ends err

definition main_wait :: "main_ctx \<Rightarrow> goroutine list \<Rightarrow> main_result" where
  "main_wait ctx gs = (case ctx of Background \<Rightarrow> Waits gs
     | EndsWith e \<Rightarrow> Ends (EPanic (''application terminated with error: '' @ err_text e)))"

definition sync_main :: "('d, 't, 's) sql_api \<Rightarrow> 'b aws_connect \<Rightarrow> 'b \<Rightarrow> 's \<Rightarrow> main_result \<times> 's" where
  "sync_main api ac b s =
     (case sync_NewController api ac b s of (Inl e, s') \<Rightarrow> (Ends e, s')
      | (Inr _, s') \<Rightarrow> (main_wait Background (fst sync_Run), s'))"

definition processor_main :: "('d, 't, 's) sql_api \<Rightarrow> 'b aws_connect \<Rightarrow> 'b \<Rightarrow> 's \<Rightarrow> main_result \<times> 's" where
  "processor_main api ac b s =
     (case processor_NewController api ac b s of (Inl e, s') \<Rightarrow> (Ends e, s')
      | (Inr _, s') \<Rightarrow> (main_wait Background (fst processor_Run), s'))"

definition rest_main :: "('d, 't, 's) sql_api \<Rightarrow> (int \<Rightarrow> bool) \<Rightarrow> (string \<Rightarrow> err option) \<Rightarrow> 's \<Rightarrow> main_result \<times> 's" where
  "rest_main api cache listen s =
     (case rest_NewController api cache s of (Inl e, s') \<Rightarrow> (Ends e, s')
      | (Inr p, s') \<Rightarrow>
          (case rest_Run listen p of
             Some e \<Rightarrow> (Ends (EPanic ''Failed to run controller''), s')
           | None \<Rightarrow> (main_wait Background [], s')))"

section \<open>What the logger writes\<close>

text \<open>\<open>fmt_Sprintf\<close> is the formatting of \<^verbatim>\<open>fmt\<close>; a line goes to the standard output or the standard error.\<close>

datatype log_stream = StdOut | StdErr

record logger =
  lg_debugLogger :: log_stream
  lg_infoLogger :: log_stream
  lg_warnLogger :: log_stream
  lg_errorLogger :: log_stream
  lg_fatalLogger :: log_stream

definition NewLogger :: logger where
  "NewLogger = \<lparr>lg_debugLogger = StdOut, lg_infoLogger = StdOut, lg_warnLogger = StdOut, lg_errorLogger = StdErr,
     lg_fatalLogger = StdErr\<rparr>"

definition logWithCaller :: "(string \<Rightarrow> 'v list \<Rightarrow> string) \<Rightarrow> string \<Rightarrow> (string \<times> int) option \<Rightarrow> string
    \<Rightarrow> log_stream \<Rightarrow> string \<Rightarrow> 'v list \<Rightarrow> log_stream \<times> string" where
  "logWithCaller fmt_Sprintf timestamp caller level stream format args =
     (let (file, line) = (case caller of Some c \<Rightarrow> c | None \<Rightarrow> (''???'', 0));
          prefix = timestamp @ '' '' @ level @ '': '' @ file @ '':'' @ show_int line @ '': '' in
      (stream, fmt_Sprintf (prefix @ format) args))"

definition logWithCallerGlobal :: "(string \<Rightarrow> 'v list \<Rightarrow> string) \<Rightarrow> string \<Rightarrow> (string \<times> int) option \<Rightarrow> string
    \<Rightarrow> log_stream \<Rightarrow> string \<Rightarrow> 'v list \<Rightarrow> log_stream \<times> string" where
  "logWithCallerGlobal fmt_Sprintf timestamp caller level stream format args =
     (let (file, line) = (case caller of Some c \<Rightarrow> c | None \<Rightarrow> (''???'', 0));
          prefix = timestamp @ '' '' @ level @ '': '' @ file @ '':'' @ show_int line @ '': '' in
      (stream, fmt_Sprintf (prefix @ format) args))"

definition log_Debugf :: "logger \<Rightarrow> (string \<Rightarrow> 'v list \<Rightarrow> string) \<Rightarrow> string \<Rightarrow> (string \<times> int) option \<Rightarrow> string \<Rightarrow> 'v list
    \<Rightarrow> log_stream \<times> string" where
  "log_Debugf l f t c format args = logWithCaller f t c ''DEBUG'' (lg_debugLogger l) format args"

definition log_Infof :: "logger \<Rightarrow> (string \<Rightarrow> 'v list \<Rightarrow> string) \<Rightarrow> string \<Rightarrow> (string \<times> int) option \<Rightarrow> string \<Rightarrow> 'v list
    \<Rightarrow> log_stream \<times> string" where
  "log_Infof l f t c format args = logWithCaller f t c ''INFO'' (lg_infoLogger l) format args"

definition log_Warnf :: "logger \<Rightarrow> (string \<Rightarrow> 'v list \<Rightarrow> string) \<Rightarrow> string \<Rightarrow> (string \<times> int) option \<Rightarrow> string \<Rightarrow> 'v list
    \<Rightarrow> log_stream \<times> string" where
  "log_Warnf l f t c format args = logWithCaller f t c ''WARN'' (lg_warnLogger l) format args"

text \<open>\<^verbatim>\<open>Errorf\<close> formats its message and then passes the text as a format of its own.\<close>

definition log_Errorf :: "logger \<Rightarrow> (string \<Rightarrow> 'v list \<Rightarrow> string) \<Rightarrow> string \<Rightarrow> (string \<times> int) option \<Rightarrow> string \<Rightarrow> 'v list
    \<Rightarrow> err \<times> log_stream \<times> string" where
  "log_Errorf l f t c format args =
     (EMsg (f format args), logWithCaller f t c ''ERROR'' (lg_errorLogger l) (f format args) [])"

definition log_Fatalf :: "logger \<Rightarrow> (string \<Rightarrow> 'v list \<Rightarrow> string) \<Rightarrow> string \<Rightarrow> (string \<times> int) option \<Rightarrow> string \<Rightarrow> 'v list
    \<Rightarrow> err \<times> log_stream \<times> string" where
  "log_Fatalf l f t c format args =
     (EPanic ''exit status 1'', logWithCaller f t c ''FATAL'' (lg_fatalLogger l) format args)"

text \<open>The functions of the package, over a logger of its own.\<close>

definition defaultLogger :: logger where
  "defaultLogger = NewLogger"

definition default_Debugf :: "(string \<Rightarrow> 'v list \<Rightarrow> string) \<Rightarrow> string \<Rightarrow> (string \<times> int) option \<Rightarrow> string \<Rightarrow> 'v list
    \<Rightarrow> log_stream \<times> string" where
  "default_Debugf f t c format args = logWithCallerGlobal f t c ''DEBUG'' (lg_debugLogger defaultLogger) format args"

definition default_Infof :: "(string \<Rightarrow> 'v list \<Rightarrow> string) \<Rightarrow> string \<Rightarrow> (string \<times> int) option \<Rightarrow> string \<Rightarrow> 'v list
    \<Rightarrow> log_stream \<times> string" where
  "default_Infof f t c format args = logWithCallerGlobal f t c ''INFO'' (lg_infoLogger defaultLogger) format args"

definition default_Warnf :: "(string \<Rightarrow> 'v list \<Rightarrow> string) \<Rightarrow> string \<Rightarrow> (string \<times> int) option \<Rightarrow> string \<Rightarrow> 'v list
    \<Rightarrow> log_stream \<times> string" where
  "default_Warnf f t c format args = logWithCallerGlobal f t c ''WARN'' (lg_warnLogger defaultLogger) format args"

definition default_Errorf :: "(string \<Rightarrow> 'v list \<Rightarrow> string) \<Rightarrow> string \<Rightarrow> (string \<times> int) option \<Rightarrow> string \<Rightarrow> 'v list
    \<Rightarrow> err \<times> log_stream \<times> string" where
  "default_Errorf f t c format args =
     (EMsg (f format args), logWithCallerGlobal f t c ''ERROR'' (lg_errorLogger defaultLogger) (f format args) [])"

definition default_Fatalf :: "(string \<Rightarrow> 'v list \<Rightarrow> string) \<Rightarrow> string \<Rightarrow> (string \<times> int) option \<Rightarrow> string \<Rightarrow> 'v list
    \<Rightarrow> err \<times> log_stream \<times> string" where
  "default_Fatalf f t c format args =
     (EPanic ''exit status 1'', logWithCallerGlobal f t c ''FATAL'' (lg_fatalLogger defaultLogger) format args)"

section \<open>Laws\<close>

lemma localstack_defaults_set:
  "lc_Endpoint (localstack_defaults cfg) \<noteq> []" "lc_Region (localstack_defaults cfg) \<noteq> []"
  by (auto simp: localstack_defaults_def Let_def split: option.split)

lemma fetch_default_unused:
  "sync_NewService api ac c b s = (Inr p, s') \<Longrightarrow> sp_fetchEndpoint p = sc_FetchEndpoint c"
  by (auto simp: sync_NewService_def Let_def split: prod.splits sum.splits)

text \<open>A repository comes with its schema created, over the driver the data source was opened with.\<close>

lemma NewRepositoryEnt_opened:
  assumes "NewRepositoryEnt api c s = (Inr cl, s')"
  obtains d s1 where "sa_Open api ''postgres'' (dsn c) s = (Inr d, s1)"
    "migrate_Create api (NewSchema (Opaque d)) Tables s1 = (Inr (), s')"
    "cl = Client_init \<lparr>cf_driver = Opaque d, cf_debug = False\<rparr>"
proof -
  obtain s1 where O: "ent_Open api ''postgres'' (dsn c) [] s = (Inr cl, s1)" "Schema_Create api (cl_Schema cl) s1 = (Inr (), s')"
    using assms by (auto simp: NewRepositoryEnt_def split: prod.splits sum.splits)
  then obtain d where "sa_Open api ''postgres'' (dsn c) s = (Inr d, s1)" "cl = Client_init \<lparr>cf_driver = Opaque d, cf_debug = False\<rparr>"
    by (auto simp: ent_Open_def NewClient_def newConfig_def config_options_def Driver_option_def
      split: prod.splits sum.splits if_splits)
  then show thesis using O(2) by (intro that [of d s1]) (simp_all add: Schema_Create_def)
qed

lemma ent_config_copied:
  "\<lparr>ec_Host = ec_Host c, ec_Port = ec_Port c, ec_User = ec_User c, ec_Password = ec_Password c,
     ec_Database = ec_Database c\<rparr> = c"
  by simp

lemma bs_repository_same: "NewRepositoryBsEnt = NewRepositoryEnt"
  by (simp add: fun_eq_iff NewRepositoryBsEnt_def NewRepositoryEnt_def)

lemma sync_NewService_ok:
  "(\<exists>p. sync_NewService api ac c b s = (Inr p, s'))
    \<longleftrightarrow> (\<exists>r1 s1 r2 br. NewRepositoryEnt api (sc_EntConfig c) s = (Inr r1, s1)
        \<and> NewRepositoryEnt api (sc_EntConfig c) s1 = (Inr r2, s')
        \<and> NewMsgBrokerLocalStack ac (sc_LocalStackConfig c) b = Inr br)"
  unfolding sync_NewService_def bs_repository_same ent_config_copied by (auto simp: Let_def split: prod.splits sum.splits)

lemma default_logger_writes:
  "default_Debugf = log_Debugf NewLogger" "default_Infof = log_Infof NewLogger" "default_Warnf = log_Warnf NewLogger"
  "default_Errorf = log_Errorf NewLogger" "default_Fatalf = log_Fatalf NewLogger"
  by (simp_all add: fun_eq_iff defaultLogger_def logWithCaller_def logWithCallerGlobal_def log_Debugf_def
    log_Infof_def log_Warnf_def log_Errorf_def log_Fatalf_def default_Debugf_def default_Infof_def
    default_Warnf_def default_Errorf_def default_Fatalf_def)

end
