(* ===== verification/Generated.thy ===== *)
theory Generated
  imports Client_Edges Mem_Graph Demo
begin

text \<open>
  Properties of the generated client, for every driver that keeps the laws of \<open>sql_driver_up\<close> or
  \<open>graph_driver_up\<close>; the witnesses run it on the database in memory.
\<close>

section \<open>Inputs for the witnesses\<close>

definition demo_block_tx :: mem where
  "demo_block_tx = mem_empty(''blocks'' := [block_row demo_block 0],
     ''transactions'' := [transaction_row 1 0 7 (demo_tx ''t1'' [])])"

lemma demo_block_tx_ok: "db_ok (mem_rows demo_block_tx)" "has_block (mem_rows demo_block_tx) 7"
    "tx_rows_ok (mem_rows demo_block_tx)"
  by (auto simp: db_ok_def Tables_def table_ok_def mem_rows_def demo_block_tx_def mem_empty_def
    has_block_def block_row_def demo_block_def col_def row_ok_def table_defs column_defs column_ok_def
    transaction_row_def tx_rows_ok_def)

definition demo_transfer_row :: row where
  "demo_transfer_row = [(''id'', VInt 1), (''hash'', VString ''t1''), (''func'', VString ''Mint''),
     (''from_address'', VNull), (''to_address'', VString ''g1a''), (''token'', VString ''gno.land/r/foo''),
     (''amount'', VFloat (F64 10)), (''denom'', VString []), (''created_at'', VTime 0)]"

definition demo_transfer_store :: mem where
  "demo_transfer_store = mem_empty(''accounts'' := [account_row ''g1a'' ''gno.land/r/foo'' (F64 10)],
     ''transfers'' := [demo_transfer_row])"

lemma demo_transfer_store_ok: "db_ok (mem_rows demo_transfer_store)"
  by (simp add: db_ok_def Tables_def table_ok_def mem_rows_def demo_transfer_store_def mem_empty_def
    demo_transfer_row_def account_row_def col_def row_ok_def table_defs column_defs column_ok_def)

lemma demo_transfer_store_rows:
  "account_row ''g1a'' ''gno.land/r/foo'' (F64 10) \<in> mem_rows demo_transfer_store ''accounts''"
  "demo_transfer_row \<in> mem_rows demo_transfer_store ''transfers''"
  "col demo_transfer_row ''to_address'' = VString ''g1a''"
  "list_all (wf_pred AccountsTable) [account_ID ''g1a'']"
  "satisfies [account_ID ''g1a''] (account_row ''g1a'' ''gno.land/r/foo'' (F64 10))"
  by (simp_all add: mem_rows_def demo_transfer_store_def mem_empty_def demo_transfer_row_def col_def
    account_ID_def account_names has_column_def table_defs column_defs satisfies_def account_row_def)

section \<open>Reading\<close>

text \<open>
  C29. Type: rows of a well-formed database always scan into their entities. A query of accounts, blocks,
  restore histories or transfers over known columns, in any order and window, never ends in a scan error
  or an unexpected type.
\<close>

theorem entities_always_decode:
  assumes "sql_driver_up cl rows" "db_ok (rows s)"
    "plain_query AccountsTable account_meta qa" "plain_query BlocksTable block_meta qb"
    "plain_query RestoreHistoriesTable restorehistory_meta qh" "plain_query TransfersTable transfer_meta qf"
  shows "\<exists>as s1 bs s2 hs s3 fs s4. AccountQuery_All cl qa s = (Inr as, s1)
    \<and> BlockQuery_All cl qb s = (Inr bs, s2) \<and> RestoreHistoryQuery_All cl qh s = (Inr hs, s3)
    \<and> TransferQuery_All cl qf s = (Inr fs, s4)"
proof -
  note up = sql_driver_up.All_up [OF assms(1,2)]
  show ?thesis
    using up [OF reads_accounts [OF assms(2)] assms(3)] up [OF reads_blocks [OF assms(2)] assms(4)]
      up [OF reads_restore [OF assms(2)] assms(5)] up [OF reads_transfers [OF assms(2)] assms(6)]
    by (simp add: AccountQuery_All_def BlockQuery_All_def RestoreHistoryQuery_All_def TransferQuery_All_def)
qed

theorem entities_always_decode_witness:
  "\<exists>as s1 bs s2 hs s3 fs s4.
     AccountQuery_All mem_client (Where [] Query) demo_transfer_store = (Inr as, s1)
   \<and> BlockQuery_All mem_client (Where [] Query) demo_transfer_store = (Inr bs, s2)
   \<and> RestoreHistoryQuery_All mem_client (Where [] Query) demo_transfer_store = (Inr hs, s3)
   \<and> TransferQuery_All mem_client (Where [] Query) demo_transfer_store = (Inr fs, s4)"
  by (rule entities_always_decode [where rows = mem_rows and s = demo_transfer_store,
      OF mem.sql_driver_up_axioms demo_transfer_store_ok])
    (rule where_plain [OF reads_keys_metas(1)] where_plain [OF reads_keys_metas(2)]
      where_plain [OF reads_keys_metas(3)] where_plain [OF reads_keys_metas(5)]; simp)+

text \<open>
  C33. Equivalence: the four ways to ask about a set of blocks tell the same. For the same predicates
  \<^verbatim>\<open>IDs\<close> answers the keys of the rows \<^verbatim>\<open>All\<close> answers, \<^verbatim>\<open>Count\<close> their number and \<^verbatim>\<open>Exist\<close> whether there is one;
  none of them changes a table.
\<close>

theorem block_queries_agree:
  assumes "graph_driver_up g rows" "db_ok (rows s)" "list_all (wf_pred BlocksTable) ps"
  shows "\<exists>bs ids s1 s2 s3 s4. BlockQuery_All (eg_client g) (BlockQuery_Where ps BlockClient_Query) s = (Inr bs, s1)
    \<and> BlockQuery_IDs g (BlockQuery_Where ps BlockClient_Query) s = (Inr ids, s2)
    \<and> BlockQuery_Count g (BlockQuery_Where ps BlockClient_Query) s = (Inr (int (length bs)), s3)
    \<and> BlockQuery_Exist g (BlockQuery_Where ps BlockClient_Query) s = (Inr (bs \<noteq> []), s4)
    \<and> mset ids = mset (map eb_ID bs)
    \<and> rows s1 = rows s \<and> rows s2 = rows s \<and> rows s3 = rows s \<and> rows s4 = rows s"
proof -
  obtain ms ks s1 s2 s3 s4 where R: "set ms = {r \<in> rows s (st_Name BlocksTable). satisfies ps r}"
    "All block_meta (eg_client g) (Where ps Query) s = (Inr (map row_block ms), s1)"
    "IDs block_meta (SelectInts g) (Where ps Query) s = (Inr ks, s2)"
    "mset (map VInt ks) = mset (map (\<lambda>r. col r (st_PrimaryKey BlocksTable)) ms)"
    "Count block_meta g (Where ps Query) s = (Inr (int (length ms)), s3)"
    "Exist block_meta (SelectInts g) (Where ps Query) s = (Inr (ms \<noteq> []), s4)"
    "rows s1 = rows s" "rows s2 = rows s" "rows s3 = rows s" "rows s4 = rows s"
    using graph_driver_up.answers_agree_ints [OF assms(1) reads_keys_metas(2) assms(3,2) reads_blocks [OF assms(2)]]
    by blast
  have "map (\<lambda>r. col r ''height'') ms = map VInt (map eb_ID (map row_block ms))"
    using R(1) row_block_key [OF assms(2)] by simp
  then have "image_mset VInt (mset ks) = image_mset VInt (mset (map eb_ID (map row_block ms)))"
    using R(4) by (simp only: mset_map [symmetric] table_keys)
  then have "image_mset (inv VInt) (image_mset VInt (mset ks))
      = image_mset (inv VInt) (image_mset VInt (mset (map eb_ID (map row_block ms))))" by (rule arg_cong)
  moreover have "inv VInt \<circ> VInt = id" by (rule inv_o_cancel) (simp add: inj_def)
  ultimately have "mset ks = mset (map eb_ID (map row_block ms))" by (simp only: multiset.map_comp multiset.map_id)
  then show ?thesis using R(2,3,5-10)
    by (intro exI [of _ "map row_block ms"] exI [of _ ks] exI [of _ s1] exI [of _ s2] exI [of _ s3] exI [of _ s4])
      (simp add: BlockQuery_All_def block_query_defs BlockClient_Query_def)
qed

theorem block_queries_agree_witness:
  "\<exists>bs ids s1 s2 s3 s4.
     BlockQuery_All (eg_client mem_graph) (BlockQuery_Where [block_IDGT 3] BlockClient_Query) demo_block_tx = (Inr bs, s1)
   \<and> BlockQuery_IDs mem_graph (BlockQuery_Where [block_IDGT 3] BlockClient_Query) demo_block_tx = (Inr ids, s2)
   \<and> BlockQuery_Count mem_graph (BlockQuery_Where [block_IDGT 3] BlockClient_Query) demo_block_tx = (Inr (int (length bs)), s3)
   \<and> BlockQuery_Exist mem_graph (BlockQuery_Where [block_IDGT 3] BlockClient_Query) demo_block_tx = (Inr (bs \<noteq> []), s4)
   \<and> mset ids = mset (map eb_ID bs) \<and> mem_rows s1 = mem_rows demo_block_tx \<and> mem_rows s2 = mem_rows demo_block_tx
   \<and> mem_rows s3 = mem_rows demo_block_tx \<and> mem_rows s4 = mem_rows demo_block_tx"
  by (rule block_queries_agree [where rows = mem_rows and s = demo_block_tx,
      OF memg.graph_driver_up_axioms demo_block_tx_ok(1)])
    (simp add: block_IDGT_def block_names int_column_def table_defs column_defs)

text \<open>
  Functional: a query of blocks with their transactions reads every selected block once, each with
  exactly the stored transactions that refer to it, and changes nothing.
\<close>

lemma eager_transactions_complete:
  assumes "sql_driver_up cl rows" "db_ok (rows s)" "tx_rows_ok (rows s)" "list_all (wf_pred BlocksTable) ps"
  shows "\<exists>bs s' ms. BlockQuery_AllEdges cl (BlockQuery_WithTransactions [] (block_no_eager (Where ps Query))) s
      = (Inr bs, s') \<and> rows s' = rows s \<and> distinct ms
    \<and> set ms = {r \<in> rows s ''blocks''. satisfies ps r} \<and> map fst bs = map row_block ms
    \<and> (\<forall>(n, e) \<in> set bs. BlockEdges_TransactionsOrErr e = Inr (ed_Transactions e) \<and> (\<exists>rs. distinct rs
        \<and> set rs = {r \<in> rows s ''transactions''. col r ''block_transactions'' = VInt (eb_ID n)}
        \<and> map transaction_of_ent (ed_Transactions e) = map (\<lambda>r. transaction_of_ent (row_transaction r)) rs))"
proof -
  obtain bs s' ms where R: "BlockQuery_AllEdges cl (BlockQuery_WithTransactions [] (block_no_eager (Where ps Query))) s
      = (Inr bs, s')" "rows s' = rows s" "distinct ms" "set ms = {r \<in> rows s ''blocks''. satisfies ps r}"
    "map fst bs = map row_block ms" and each: "\<forall>(n, e) \<in> set bs. ed_loadedTransactions e \<and> (\<exists>rs. distinct rs
        \<and> set rs = {r \<in> rows s ''transactions''. col r ''block_transactions'' = VInt (eb_ID n)}
        \<and> ed_Transactions e = map edge_transaction rs)"
    using sql_driver_up.AllEdges_blocks [OF assms] by blast
  have same: "transaction_of_ent (edge_transaction r) = transaction_of_ent (row_transaction r)"
    if mem: "r \<in> rows s ''transactions''" for r
  proof -
    obtain k now h tx where "r = transaction_row k now h tx" using assms(3) mem by (auto simp: tx_rows_ok_def)
    then show ?thesis by (simp add: edge_transaction_row(3) transaction_of_row)
  qed
  have "\<forall>(n, e) \<in> set bs. BlockEdges_TransactionsOrErr e = Inr (ed_Transactions e) \<and> (\<exists>rs. distinct rs
        \<and> set rs = {r \<in> rows s ''transactions''. col r ''block_transactions'' = VInt (eb_ID n)}
        \<and> map transaction_of_ent (ed_Transactions e) = map (\<lambda>r. transaction_of_ent (row_transaction r)) rs)"
  proof (clarify)
    fix n e
    assume "(n, e) \<in> set bs"
    then obtain rs where e: "ed_loadedTransactions e" "distinct rs"
      "set rs = {r \<in> rows s ''transactions''. col r ''block_transactions'' = VInt (eb_ID n)}"
      "ed_Transactions e = map edge_transaction rs" using each by blast
    then have "map transaction_of_ent (ed_Transactions e) = map (\<lambda>r. transaction_of_ent (row_transaction r)) rs"
      using same by auto
    then show "BlockEdges_TransactionsOrErr e = Inr (ed_Transactions e) \<and> (\<exists>rs. distinct rs
        \<and> set rs = {r \<in> rows s ''transactions''. col r ''block_transactions'' = VInt (eb_ID n)}
        \<and> map transaction_of_ent (ed_Transactions e) = map (\<lambda>r. transaction_of_ent (row_transaction r)) rs)"
      using e by (auto simp: BlockEdges_TransactionsOrErr_def)
  qed
  then show ?thesis using R by blast
qed

text \<open>
  C28. Error: a query of accounts with their incoming transfers fails as soon as one of the selected accounts
  has one. The foreign key \<^verbatim>\<open>to_address\<close> the transfers are matched by has the name of a field of the
  transfer, so the scanned value goes to the field and the key stays nil.
\<close>

theorem eager_transfers_fail:
  assumes "sql_driver_up cl rows" "db_ok (rows s)" "list_all (wf_pred AccountsTable) ps"
    "q \<in> rows s ''accounts''" "satisfies ps q" "r \<in> rows s ''transfers''"
    "col r ''to_address'' = col q ''address''"
  shows "\<exists>s'. AccountQuery_AllEdges cl (AccountQuery_WithTransfersTo [] (account_no_eager (Where ps Query))) s
      = (Inl (EMsg ''foreign-key to_address is nil for node''), s') \<and> rows s' = rows s"
  by (rule sql_driver_up.AllEdges_accounts_fails [OF assms(1), of s ps q r, OF assms(2-7)])

theorem eager_transfers_fail_witness:
  "\<exists>s'. AccountQuery_AllEdges mem_client
      (AccountQuery_WithTransfersTo [] (account_no_eager (Where [account_ID ''g1a''] Query))) demo_transfer_store
    = (Inl (EMsg ''foreign-key to_address is nil for node''), s') \<and> mem_rows s' = mem_rows demo_transfer_store"
proof -
  have key: "col demo_transfer_row ''to_address'' = col (account_row ''g1a'' ''gno.land/r/foo'' (F64 10)) ''address''"
    by (simp only: demo_transfer_store_rows(3) col_account_row)
  show ?thesis
    by (rule eager_transfers_fail [where rows = mem_rows and s = demo_transfer_store,
      OF mem.sql_driver_up_axioms demo_transfer_store_ok demo_transfer_store_rows(4,1,5,2) key])
qed

section \<open>Writing\<close>

text \<open>
  C27. Safety: \<^verbatim>\<open>DeleteOneID\<close> of a block answers whether there was one, removes exactly that block, keeps its
  transactions without their block and touches nothing else; \<^verbatim>\<open>Get\<close> then does not find it. A height without
  a block is an error \<^verbatim>\<open>NotFound\<close> that changes nothing.
\<close>

theorem delete_block_orphans_transactions:
  assumes "graph_driver_up g rows" "db_ok (rows s)"
    "BlockDeleteOne_Exec g (BlockClient_DeleteOneID h) s = (res, s')"
  shows "res = (if has_block (rows s) h then Inr () else Inl (ENotFound block_Label))
    \<and> rows s' = (if has_block (rows s) h then (rows s)
         (''blocks'' := {r \<in> rows s ''blocks''. col r ''height'' \<noteq> VInt h},
          ''transactions'' := orphan_row h ` rows s ''transactions'') else rows s)
    \<and> db_ok (rows s') \<and> fst (BlockClient_Get (eg_client g) h s') = Inl (ENotFound block_Label)"
proof -
  note run = graph_driver_up.BlockDeleteOne_run [OF assms]
  have up: "sql_driver_up (eg_client g) rows" using assms(1) by (simp add: graph_driver_up_def)
  have ok: "db_ok (rows s')"
  proof (cases "has_block (rows s) h")
    case True
    then have "db_delete BlocksTable {r \<in> rows s ''blocks''. col r ''height'' = VInt h} (rows s)
        = db_without_block h (rows s)" by (intro db_delete_block) (auto simp: has_block_def)
    then show ?thesis using True run
        db_delete_ok [OF assms(2), of BlocksTable "{r \<in> rows s ''blocks''. col r ''height'' = VInt h}"] by simp
  qed (use run assms(2) in simp)
  have none: "\<not> has_block (rows s') h"
    using run has_block_without [of h "rows s"] by (cases "has_block (rows s) h") simp_all
  have get: "fst (BlockClient_Get (eg_client g) h s') = Inl (ENotFound block_Label)"
    by (rule sql_driver_up.BlockClient_Get_absent [OF up, of s' h, OF ok none])
  show ?thesis using run ok get by (simp add: db_without_block_def split: if_splits)
qed

theorem delete_block_orphans_transactions_witness:
  "\<exists>res s'. BlockDeleteOne_Exec mem_graph (BlockClient_DeleteOneID 7) demo_block_tx = (res, s') \<and> res = Inr ()
    \<and> mem_rows s' ''blocks'' = {r \<in> mem_rows demo_block_tx ''blocks''. col r ''height'' \<noteq> VInt 7}
    \<and> mem_rows s' ''transactions'' = orphan_row 7 ` mem_rows demo_block_tx ''transactions''
    \<and> fst (BlockClient_Get mem_client 7 s') = Inl (ENotFound block_Label)"
proof -
  obtain res s' where D: "BlockDeleteOne_Exec mem_graph (BlockClient_DeleteOneID 7) demo_block_tx = (res, s')"
    by fastforce
  show ?thesis
    using delete_block_orphans_transactions [OF memg.graph_driver_up_axioms, of demo_block_tx 7 res s',
      OF demo_block_tx_ok(1) D] demo_block_tx_ok(2) D by simp
qed

text \<open>
  Functional: adding to an account by its address through \<^verbatim>\<open>UpdateOneID\<close> answers with the account as it is
  then, and changes that balance alone; an address without an account is an error \<^verbatim>\<open>NotFound\<close> that changes
  nothing (where \<^verbatim>\<open>IncrementAccountBalance\<close> answers success).
\<close>

lemma update_one_adds_to_the_account:
  assumes "graph_driver_up g rows" "db_ok (rows s)" "is_ledger (rows s) L"
    "AccountUpdateOne_Save g (AccountUpdateOne_AddAmount v (fst (AccountClient_UpdateOneID a))) s = (res, s')"
  shows "db_ok (rows s')
    \<and> (L a = None \<longrightarrow> res = Inl (ENotFound account_Label) \<and> rows s' = rows s)
    \<and> (\<forall>t x. L a = Some (t, x) \<longrightarrow> res = Inr \<lparr>ea_ID = a, ea_Token = t, ea_Amount = f64_add x v\<rparr>
        \<and> is_ledger (rows s') (L(a \<mapsto> (t, f64_add x v))) \<and> (\<forall>n. n \<noteq> ''accounts'' \<longrightarrow> rows s' n = rows s n))"
  by (rule graph_driver_up.account_add_answer [OF assms(1), of s L a v res s', OF assms(2,3)])
    (simp add: account_add_def assms(4))



lemma set_field_cases:
  assumes "TransactionMutation_SetField name v m = Inr m'"
  shows "(\<exists>x. name = transaction_FieldIndex \<and> v = VInt x \<and> m' = TransactionMutation_SetIndex x m)
    \<or> (\<exists>x. name = transaction_FieldHash \<and> v = VString x \<and> m' = TransactionMutation_SetHash x m)
    \<or> (\<exists>x. name = transaction_FieldSuccess \<and> v = VBool x \<and> m' = TransactionMutation_SetSuccess x m)
    \<or> (\<exists>x. name = transaction_FieldBlockHeight \<and> v = VInt x \<and> m' = TransactionMutation_SetBlockHeight x m)
    \<or> (\<exists>x. name = transaction_FieldGasWanted \<and> v = VFloat x \<and> m' = TransactionMutation_SetGasWanted x m)
    \<or> (\<exists>x. name = transaction_FieldGasUsed \<and> v = VFloat x \<and> m' = TransactionMutation_SetGasUsed x m)
    \<or> (\<exists>x. name = transaction_FieldMemo \<and> v = VString x \<and> m' = TransactionMutation_SetMemo x m)
    \<or> (\<exists>x. name = transaction_FieldGasFee \<and> v = VGasFee x \<and> m' = TransactionMutation_SetGasFee x m)
    \<or> (\<exists>x. name = transaction_FieldMessages \<and> v = VMessages x \<and> m' = TransactionMutation_SetMessages x m)
    \<or> (\<exists>x. name = transaction_FieldResponse \<and> v = VResponse x \<and> m' = TransactionMutation_SetResponse x m)
    \<or> (\<exists>x. name = transaction_FieldCreatedAt \<and> v = VTime x \<and> m' = TransactionMutation_SetCreatedAt x m)"
  using assms unfolding TransactionMutation_SetField_def by (cases v) (auto split: if_splits)

lemma in_optional: "c \<in> set (if P then [a] else []) \<longleftrightarrow> P \<and> c = a"
  by auto

lemma fields_of_mutation: "set (TransactionMutation_Fields m) = {c. TransactionMutation_Field c m \<noteq> None}"
proof (rule set_eqI)
  fix c
  show "c \<in> set (TransactionMutation_Fields m) \<longleftrightarrow> c \<in> {c. TransactionMutation_Field c m \<noteq> None}"
    unfolding TransactionMutation_Fields_def TransactionMutation_Field_def transaction_names set_append Un_iff
      in_optional mem_Collect_eq
    by (simp add: transaction_mutation_defs)
qed

text \<open>
  Round trip: a field of a transaction set by its name is read back by its name, joins the fields the
  mutation reports, and leaves the other fields alone.
\<close>

lemma set_field_round_trip:
  assumes "TransactionMutation_SetField name v m = Inr m'"
  shows "TransactionMutation_Field name m' = Some v
    \<and> (\<forall>c. c \<noteq> name \<longrightarrow> TransactionMutation_Field c m' = TransactionMutation_Field c m)
    \<and> set (TransactionMutation_Fields m') = insert name (set (TransactionMutation_Fields m))"
proof -
  have "TransactionMutation_Field name m' = Some v
      \<and> (\<forall>c. c \<noteq> name \<longrightarrow> TransactionMutation_Field c m' = TransactionMutation_Field c m)"
    using set_field_cases [OF assms]
    by (elim disjE exE conjE) (simp_all add: TransactionMutation_Field_def transaction_mutation_defs transaction_names)
  then show ?thesis by (auto simp: fields_of_mutation)
qed

end
