(* ===== verification/Extensions.thy ===== *)
theory Extensions
  imports Hook_Laws Ent_Intercept Path_Laws Ent_Print Ent_Schema Startup Generated
begin

text \<open>
  Properties of the parts around the statements of the client: hooks, interceptors, transactions, queries along
  edges, the schema it is generated from, and the start of the programs.
\<close>

section \<open>Hooks and interceptors\<close>

text \<open>
  C37. A rejecting hook stands before the client: with \<^verbatim>\<open>Reject(op)\<close> registered first on all entities, a mutation of a
  rejected operation is refused with the database untouched and no later hook run, whatever entity it is of,
  and every other mutation does what it does without the hook.
\<close>

theorem reject_guards_the_client:
  "Client_Mutate_hooked (Client_Use (Some (Reject is_op op) # map Some hs) no_hooks) g m s =
    (if is_op (Mutation_Op m) op then (Inl (EMsg ''operation is not allowed''), s)
     else if hs = [] then Client_Mutate g m s
     else Client_Mutate_hooked (Client_Use [Some (Chain_Hook (NewChain hs))] no_hooks) g m s)"
proof (cases "hs = []")
  case True
  have "Client_Mutate_hooked (Client_Use [] no_hooks) g m s = Client_Mutate g m s"
    using mutate_without_hooks [of g m s] by (simp add: use_defs)
  then show ?thesis using True mutate_reject [of is_op op hs g m s] by simp
next
  case False
  then show ?thesis using mutate_reject [of is_op op hs g m s] mutate_chain [of hs no_hooks g m s] by simp
qed

definition no_inters :: "'s ent_inters" where
  "no_inters = \<lparr>in_Account = [], in_Block = [], in_RestoreHistory = [], in_Transaction = [], in_Transfer = []\<rparr>"

lemmas intercept_defs = Client_Intercept_def AccountClient_Intercept_def BlockClient_Intercept_def
  RestoreHistoryClient_Intercept_def TransactionClient_Intercept_def TransferClient_Intercept_def
  AccountClient_Interceptors_def BlockClient_Interceptors_def RestoreHistoryClient_Interceptors_def
  TransactionClient_Interceptors_def TransferClient_Interceptors_def no_inters_def

text \<open>
  C39. An interceptor whose traverser adds predicates and whose wrapper passes on, registered once on the client,
  is the same as asking every query with these predicates: \<^verbatim>\<open>All\<close> and \<^verbatim>\<open>Count\<close> of all five entities answer
  as the queries without interceptors do.
\<close>

theorem registered_filters_are_predicates:
  fixes ps :: "pred list"
  defines "h \<equiv> Client_Intercept [Some (filter_all ps)] no_inters"
  shows "AccountQuery_All_with (AccountClient_Interceptors h) cl q s = AccountQuery_All cl (Where ps q) s
    \<and> AccountQuery_Count_with (AccountClient_Interceptors h) g q s = AccountQuery_Count g (Where ps q) s
    \<and> BlockQuery_All_with (BlockClient_Interceptors h) cl q s = BlockQuery_All cl (Where ps q) s
    \<and> BlockQuery_Count_with (BlockClient_Interceptors h) g q s = BlockQuery_Count g (Where ps q) s
    \<and> RestoreHistoryQuery_All_with (RestoreHistoryClient_Interceptors h) cl q s = RestoreHistoryQuery_All cl (Where ps q) s
    \<and> RestoreHistoryQuery_Count_with (RestoreHistoryClient_Interceptors h) g q s = RestoreHistoryQuery_Count g (Where ps q) s
    \<and> TransactionQuery_All_with (TransactionClient_Interceptors h) cl q s = TransactionQuery_All cl (Where ps q) s
    \<and> TransactionQuery_Count_with (TransactionClient_Interceptors h) g q s = TransactionQuery_Count g (Where ps q) s
    \<and> TransferQuery_All_with (TransferClient_Interceptors h) cl q s = TransferQuery_All cl (Where ps q) s
    \<and> TransferQuery_Count_with (TransferClient_Interceptors h) g q s = TransferQuery_Count g (Where ps q) s"
  by (simp add: h_def intercept_defs queries_filtered queries_without_interceptors)

section \<open>Transactions\<close>

text \<open>Hooks added one after the other through any handle of a transaction.\<close>

fun on_commit_all :: "'s finish_hook list \<Rightarrow> 'd tx \<Rightarrow> ('d, 't, 's) tx_store \<Rightarrow> err + ('d, 't, 's) tx_store" where
  "on_commit_all [] t txs = Inr txs"
| "on_commit_all (f # fs) t txs = (case Tx_OnCommit f t txs of Inl e \<Rightarrow> Inl e | Inr txs' \<Rightarrow> on_commit_all fs t txs')"

lemma on_commit_all_at:
  "tx_at txs (cf_driver (tx_config t)) = Some td \<Longrightarrow> \<exists>txs'. on_commit_all fs t txs = Inr txs'
    \<and> tx_at txs' (cf_driver (tx_config t)) = Some (td\<lparr>td_onCommit := td_onCommit td @ fs\<rparr>)"
proof (induction fs arbitrary: txs td)
  case (Cons f fs)
  obtain txs1 where T: "Tx_OnCommit f t txs = Inr txs1"
    using Cons.prems by (auto simp: Tx_OnCommit_def change_tx_def tx_at_def split: driver.splits if_splits)
  then show ?case using Cons.IH [OF OnCommit_at [OF T refl Cons.prems]] by simp
qed simp

text \<open>
  C34. A transaction started by a client is sealed: the statements of its clients go to the transaction of the
  database, a client of it starts no further transaction and cannot close the connection, and its commit is
  the commit of the database wrapped in the hooks added to it, the first one outermost.
\<close>

theorem started_transaction_is_sealed:
  assumes "Client_Tx api c txs s = (Inr t, txs', s')"
  shows "\<exists>d tr. cf_driver (cl_config c) = Opaque d \<and> sa_Tx api d s = (Inr tr, s')
    \<and> driver_graph api txs' (cf_driver (cl_config (fst (Tx_Client t)))) = Some (sa_tx_graph api tr)
    \<and> Client_Tx api (fst (Tx_Client t)) txs' u = (Inl ErrTxStarted, txs', u)
    \<and> Client_BeginTx api (fst (Tx_Client t)) txs' u = (Inl ErrTxStarted, txs', u)
    \<and> Client_Close api (fst (Tx_Client t)) u = (Inr (), u)
    \<and> (\<exists>txs2. on_commit_all fs t txs' = Inr txs2
        \<and> Tx_Commit api txs2 t u = foldr (\<lambda>hook fn. hook fn) fs (sa_Commit api tr) u)"
proof -
  obtain d td where D: "cf_driver (cl_config c) = Opaque d" "sa_Tx api d s = (Inr (td_tx td), s')" "txs' = txs @ [td]"
    "t = tx_of ((cl_config c)\<lparr>cf_driver := TxDriver (length txs)\<rparr>)" "td_onCommit td = []"
    using Client_Tx_started [OF assms] by metis
  have at: "tx_at txs' (cf_driver (tx_config t)) = Some td" using D(3,4) by (simp add: tx_at_def)
  have drv: "cf_driver (cl_config (fst (Tx_Client t))) = TxDriver (length txs)"
    using D(4) by (simp add: Tx_Client_config)
  have graph: "driver_graph api txs' (cf_driver (cl_config (fst (Tx_Client t)))) = Some (sa_tx_graph api (td_tx td))"
    using D(3) by (simp add: drv driver_graph_def tx_at_def)
  obtain txs2 where C: "on_commit_all fs t txs' = Inr txs2"
    "tx_at txs2 (cf_driver (tx_config t)) = Some (td\<lparr>td_onCommit := td_onCommit td @ fs\<rparr>)"
    using on_commit_all_at [OF at, of fs] by blast
  have "Tx_Commit api txs2 t u = foldr (\<lambda>hook fn. hook fn) fs (sa_Commit api (td_tx td)) u"
    using C(2) D(5) by (simp add: Tx_Commit_def)
  then show ?thesis
    using D(1,2) graph C(1) inside_tx_refused [OF drv] by (auto simp: Client_Close_def driver_Close_def drv)
qed

text \<open>A SQL library in memory for the witnesses: connections and transactions are numbers, a commit succeeds.\<close>

definition demo_api :: "(nat, nat, mem) sql_api" where
  "demo_api = \<lparr>sa_Dialects = [''postgres''], sa_Open = (\<lambda>n d s. (Inr 0, s)), sa_Tx = (\<lambda>d s. (Inr 1, s)),
     sa_BeginTx = (\<lambda>d s. (Inr 1, s)), sa_Commit = (\<lambda>t s. (Inr (), s)), sa_Rollback = (\<lambda>t s. (Inr (), s)),
     sa_Close = (\<lambda>d s. (Inr (), s)), sa_Dialect = (\<lambda>d. ''postgres''), sa_Debug = (\<lambda>d. 2),
     sa_WriteDriver = (\<lambda>d. 3), sa_NewMigrate = (\<lambda>d. None), sa_Create = (\<lambda>d ts s. (Inr (), s)),
     sa_graph = (\<lambda>d. mem_graph), sa_tx_graph = (\<lambda>t. mem_graph)\<rparr>"

definition demo_sql_client :: "nat client" where
  "demo_sql_client = NewClient demo_api [Driver_option (Opaque 0)]"

lemma demo_sql_client_config: "cl_config demo_sql_client = \<lparr>cf_driver = Opaque 0, cf_debug = False\<rparr>"
  by (simp add: demo_sql_client_def NewClient_def newConfig_def config_options_def Driver_option_def)

theorem started_transaction_is_sealed_witness:
  "\<exists>t txs'. Client_Tx demo_api demo_sql_client [] mem_empty = (Inr t, txs', mem_empty)
    \<and> Client_Tx demo_api (fst (Tx_Client t)) txs' mem_empty = (Inl ErrTxStarted, txs', mem_empty)"
proof -
  obtain t txs' where T: "Client_Tx demo_api demo_sql_client [] mem_empty = (Inr t, txs', mem_empty)"
    by (simp add: Client_Tx_def demo_sql_client_config newTx_def demo_api_def)
  from started_transaction_is_sealed [OF T, of mem_empty "[]"] show ?thesis using T by blast
qed

text \<open>A debug client of a transaction is not refused: its driver is the logging one, and what it starts runs on the
  transaction already open, where a commit does nothing.\<close>

lemma debug_client_starts_inside:
  assumes "cf_driver (cl_config c) = TxDriver i" "\<not> cf_debug (cl_config c)"
  shows "Client_Tx api (Client_Debug api c) txs s =
    (case newTx api (sa_Debug api (TxDriver i)) s of
       (Inl e, s') \<Rightarrow> (Inl (EWrap ''ent: starting a transaction'' e), txs, s')
     | (Inr td, s') \<Rightarrow> (Inr (tx_of ((cl_config c)\<lparr>cf_driver := TxDriver (length txs)\<rparr>)), txs @ [td], s'))"
  using assms by (auto simp: Client_Tx_def Client_Debug_def split: prod.split sum.split)

section \<open>Edges\<close>

text \<open>
  C38. Along an edge and back: the blocks of the transactions of a block are that block, read unchanged and once,
  when a transaction refers to it, and none otherwise; the tables stay as they are.
\<close>

theorem block_and_back:
  assumes "path_driver cl rows pc" "db_ok (rows s)" "b \<in> rows s ''blocks''"
  shows "\<exists>s'. path_All block_meta cl pc (TransactionQuery_QueryBlock (Block_QueryTransactions (row_block b))) s
      = (Inr (if \<exists>x \<in> rows s ''transactions''. col x ''block_transactions'' = VInt (eb_ID (row_block b))
          then [row_block b] else []), s') \<and> rows s' = rows s"
  by (rule path_driver.block_and_back_run [OF assms(1), of s b, OF assms(2,3)])

theorem block_and_back_witness:
  "\<exists>s'. path_All block_meta mem_client mem_paths
      (TransactionQuery_QueryBlock (Block_QueryTransactions (row_block (block_row demo_block 0)))) demo_block_tx
      = (Inr (if \<exists>x \<in> mem_rows demo_block_tx ''transactions''.
            col x ''block_transactions'' = VInt (eb_ID (row_block (block_row demo_block 0)))
          then [row_block (block_row demo_block 0)] else []), s') \<and> mem_rows s' = mem_rows demo_block_tx"
  by (rule block_and_back [where rows = mem_rows and s = demo_block_tx, OF memp.path_driver_axioms demo_block_tx_ok(1)])
    (simp add: mem_rows_def demo_block_tx_def)

section \<open>The schema\<close>


section \<open>Starting\<close>




end
