(* ===== verification/Spec2Isabelle.thy ===== *)
theory Spec2Isabelle
  imports Balances History Publishing Delivery Serving Concurrency Extensions
begin

text \<open>
  A verification development for the gno.land block indexer.

  \<^bold>\<open>The program.\<close> Three Go services share a database and a message broker. The block synchronizer
  (\<^verbatim>\<open>cmd/block-synchronizer\<close>) takes blocks and transactions from a GraphQL endpoint, by a restore over
  windows of 100 heights and by a websocket subscription, and publishes each block with its
  transactions on the topic \<^verbatim>\<open>block_with_txs\<close> (\<^verbatim>\<open>externals/msgbroker\<close>). The event processor
  (\<^verbatim>\<open>cmd/event-processor\<close>) subscribes to the topic, hands the messages to a worker pool and books the
  transfer events of every transaction on the accounts (\<^verbatim>\<open>repository\<close>, over the client generated
  under \<^verbatim>\<open>ent\<close>). The REST indexer (\<^verbatim>\<open>cmd/indexer-rest\<close>) answers balance and transfer queries, with a cache.

  \<^bold>\<open>Conventions\<close> (\<open>Prelude\<close>, \<open>Go_Float\<close>, \<open>Go_Strings\<close>). A function that reads or writes a store \<open>'s\<close> and
  may fail is a function \<open>'s \<Rightarrow> (err + 'a) \<times> 's\<close>: every error return is an \<open>Inl\<close>, a run-time panic the
  error \<open>EPanic\<close>. Error values keep their chain where the code wraps with \<^verbatim>\<open>%w\<close>; formatted arguments
  are not represented. Go's \<^verbatim>\<open>int\<close> is an integer with \<open>wrap64\<close> where arithmetic may leave 64 bits; a
  \<^verbatim>\<open>float64\<close> is a rational, an infinity or NaN with binary64 rounding written out.

  \<^bold>\<open>Data and storage.\<close>
  \<^item> \<open>Model\<close>: the structs of \<^verbatim>\<open>model/model.go\<close> and of \<^verbatim>\<open>ent/schema\<close>, and the conversions between them.
  \<^item> \<open>Ent_Core\<close> and \<open>Ent_Account\<close>, \<open>Ent_Block\<close>, \<open>Ent_RestoreHistory\<close>, \<open>Ent_Transaction\<close>,
    \<open>Ent_Transfer\<close>: the client generated under \<^verbatim>\<open>ent\<close>: errors, mutations, create and bulk-create builders with
    their defaults and validators, queries and the reading of rows (\<^verbatim>\<open>ent/*_create.go\<close>, \<^verbatim>\<open>ent/mutation.go\<close>,
    \<^verbatim>\<open>ent/*_query.go\<close>). Builders end in specs, the values the SQL layer is called with.
  \<^item> \<open>Ent_Where\<close> (\<^verbatim>\<open>ent/*/where.go\<close>): every predicate; \<open>Ent_Update\<close> (\<^verbatim>\<open>ent/*_update.go\<close>): the update builders;
    \<open>Ent_Upsert\<close>: conflict options and upserts; \<open>Ent_Query_Ops\<close>: keys, counts, existence, selections;
    \<open>Ent_Clients\<close> (\<^verbatim>\<open>ent/client.go\<close>, \<^verbatim>\<open>ent/*_delete.go\<close>): deletes, entity clients, mutations by field name;
    \<open>Ent_Graph\<close>: the remaining calls of \<^verbatim>\<open>sqlgraph\<close> as parameters; \<open>Ent_Eager\<close>: the \<^verbatim>\<open>With\<close> queries and the
    loops that attach neighbours to their nodes.
  \<^item> \<open>Ent_Hooks\<close> (\<^verbatim>\<open>ent/hook/hook.go\<close>, \<^verbatim>\<open>Use\<close> and the mutation side of \<^verbatim>\<open>ent/client.go\<close>) and \<open>Ent_Intercept\<close>:
    registered hooks and interceptors, the chains they form, and saves and queries that run through them.
    \<open>Hook_Laws\<close>: without hooks an operation is its builder's, a chain is the list of its hooks, and a
    rejecting hook stands before everything registered after it.
  \<^item> \<open>Ent_Connect\<close> (\<^verbatim>\<open>ent/client.go\<close>, \<^verbatim>\<open>ent/tx.go\<close>, \<^verbatim>\<open>ent/ent.go\<close>, \<^verbatim>\<open>ent/migrate\<close>, the constructors of the
    repositories): configuration, opening, transactions with their commit and rollback hooks, clients carried
    by a context, the migration calls.
  \<^item> \<open>Ent_Traverse\<close>: queries that start at the edge of a node or of a query; \<open>Path_Laws\<close> states what such a path
    selects (\<open>path_driver\<close>), and gives the round trip between a block and its transactions.
  \<^item> \<open>Ent_Print\<close>: orders, grouping of every entity, the printing of entities. \<open>Ent_Schema\<close>
    (\<^verbatim>\<open>ent/schema/*.go\<close>, \<^verbatim>\<open>ent/runtime.go\<close>): the declarations the client is generated from, and the tables,
    validators and defaults they determine.
  \<^item> \<open>Database\<close>: the tables of \<^verbatim>\<open>ent/migrate/schema.go\<close>, and what the third-party SQL layer does with a
    spec, as the laws of the locale \<open>sql_driver\<close>: a write that answers success did what the spec says and
    kept the keys, unique indexes and foreign keys; a failed one changed nothing. \<open>sql_driver_up\<close> adds
    availability: a statement the schema allows succeeds. \<open>Mem_Driver\<close> is a driver that meets them. A predicate
    on a row is true, false or unknown, as in SQL, and selects the rows where it is true.
  \<^item> \<open>Graph_Driver\<close> extends both locales to deletes, updates by predicate, upserts, counts and selections, with
    the foreign keys' reaction to a delete; \<open>Mem_Graph\<close> meets them. \<open>Client_Laws\<close>, \<open>Client_Writes\<close> and
    \<open>Client_Edges\<close> prove in these locales what the operations of the client do to the tables.
  \<^item> \<open>Repository\<close>: the interface and every operation of \<^verbatim>\<open>repository/repository_ent.go\<close> and
    \<^verbatim>\<open>cmd/block-synchronizer/repository/repository_ent.go\<close>. \<open>Repository_Laws\<close>, \<open>Ledger\<close>, \<open>Journal\<close> and
    \<open>Readback\<close> prove inside the locale what each does to the tables; \<open>is_ledger\<close> is the abstraction of
    the account table to a map from addresses to a token and a balance.

  \<^bold>\<open>Services.\<close>
  \<^item> \<open>Event_Processor\<close>: block processing and event booking (\<^verbatim>\<open>service.go\<close> from \<^verbatim>\<open>ProcessBlockWithTransactions\<close>
    on), and the abstract ledger functions \<open>led_\<close>. \<open>Event_Ledger\<close> proves the refinement; its locale
    \<open>account_store\<close> is the contract between the service and the repository.
  \<^item> \<open>Message_Codec\<close>: \<^verbatim>\<open>encoding/json\<close> on the message, driven by the struct tags.
  \<^item> \<open>Synchronizer\<close>: polling, the restore loop, the websocket subscription as a run over the turns of its
    read loop, the live path. \<open>Restore\<close> states what the restorer relies on (\<open>block_source\<close>: an endpoint
    that answers a height range exactly, a checkpoint that is read as it was saved) and what it publishes;
    \<open>World\<close> meets it with the repository's own checkpoint operations over the in-memory database.
  \<^item> \<open>Interleaving\<close>: the event processor once more, as a program that pauses at every call of its repository,
    and the runs of any number of such programs side by side, one call at a time, in every order.
  \<^item> \<open>Worker_Pool\<close>: channel, workers and shutdown of both services as a step relation over every
    interleaving; the invariant and the drain argument.
  \<^item> \<open>Live_Loop\<close>: \<^verbatim>\<open>SubscribeAndPush\<close> as its goroutines: the subscription, the loop and the workers, over the
    two channels, in every interleaving and with the context ending at any time.
  \<^item> \<open>Broker\<close>: topics, queues, pollers and message handling over SNS and SQS; the locales \<open>pubsub\<close> (what
    the queues promise), \<open>accepting_handler\<close> and \<open>delivery\<close>.
  \<^item> \<open>Rest\<close>: service, routes, handlers and caching middlewares; \<open>response_cache\<close> is the cache's contract.
  \<^item> \<open>Startup\<close>: connecting the broker and closing it, the constructors of the services, the controllers, the
    loggers and the three \<^verbatim>\<open>main\<close> functions with every call that can end the process.

  \<^bold>\<open>Properties.\<close> This theory: processing a block refines the ledger, on every path; a known block is
  skipped; a block that failed in the middle is never completed; a transfer moves exactly its value.
  \<open>Balances\<close>: the one-token rule and the precision of an increment. \<open>History\<close>: round trips of
  transaction and checkpoint, atomicity of the batches, and the invariant of every sequence of writes.
  \<open>Publishing\<close>: the message round trip, what a restore publishes and what the checkpoint means, the
  subscription, and the live loop: what becomes of every block, its shutdown and its end. \<open>Delivery\<close>: the
  pools, the broker, and the pipeline from a published message to the event processor's pool. \<open>Serving\<close>:
  answers of the REST indexer and its cache. \<open>Concurrency\<close>: the program of calls is the
  service, and what holds of workers that take turns on one database: a block is booked once, no increment
  is lost, and how two first mints race. \<open>Generated\<close>: rows always decode, the queries of an entity agree,
  eager loading of transfers, and what a delete and an upsert leave in the tables. \<open>Extensions\<close>: a client
  of a transaction starts no other, the tables follow the schema, what the synchronizer has done before its
  first goroutine, hooks and interceptors registered on a client, and the two directions of an edge. \<open>Demo\<close>
  and \<open>World\<close> hold the concrete inputs of the witnesses. Facts proved beside the properties are lemmas of
  the same theories: an increment leaves the other accounts alone, a full pool drops a message, eager loading
  of transactions is complete, refused publications are ignored.

  \<^bold>\<open>Bounds.\<close> The restore loop terminates by the measure of the heights left; its properties assume a
  latest height at least 200 below the largest \<^verbatim>\<open>int64\<close>, as the loop variable is not wrapped. Exact
  balances need numbers below \<open>2 ^ 53\<close>, the precision of a \<^verbatim>\<open>float64\<close>. Loops that end only by the outside
  (the poller, the websocket) run over a finite list of turns of any length; no fuel is used.

  \<^bold>\<open>Shutdown.\<close> The three \<^verbatim>\<open>main\<close> functions pass a context that never ends (\<open>Startup\<close>), so the properties of
  a shutdown hold of the services under a caller whose context does end, as their code provides for.

  \<^bold>\<open>Not modelled.\<close> Of the generated client: hooks around the bulk-create builders and the upserts (these are
  modelled as a client without hooks runs them), aggregates as SQL text, the query operation noted in
  a context, the \<^verbatim>\<open>Value\<close> of a column the schema does not name, and the test helper \<^verbatim>\<open>ent/enttest\<close>.
  SQL, SNS and SQS, the websocket, the GraphQL client, the web
  framework and the cache are parameters with the laws named above. A repository call is one step of a
  worker; the statements inside one SQL call are the database's.
\<close>

section \<open>The event processor\<close>

text \<open>
  C1. Processing a block is a refinement of the abstract ledger: over any lawful and available
  driver the outcome of \<^verbatim>\<open>ProcessBlockWithTransactions\<close> and the accounts it leaves are those of
  \<open>led_block\<close>, on every path, a failing one included. The events must name their token, and a
  transfer both parties.
\<close>

theorem process_refines_ledger:
  assumes "sql_driver_up cl rows" "db_ok (rows s)" "is_ledger (rows s) L" "bwt_Block m = Some b"
    "list_all (tx_named (UniLower cl)) (bwt_Transactions m)"
    "ProcessBlockWithTransactions (ep_NewService cl) m s = (r, s')"
    "led_block (UniLower cl) (has_block (rows s) (b_Height b)) b (bwt_Transactions m) L = (ok, L')"
  shows "db_ok (rows s') \<and> is_ledger (rows s') L' \<and> (if ok then r = Inr () else \<exists>e. r = Inl e \<and> \<not> is_panic e)"
  by (rule process_step [OF assms])

theorem process_refines_ledger_witness:
  "\<exists>s'. ProcessBlockWithTransactions (ep_NewService mem_client)
      (demo_message [demo_event ''Mint'' [] ''g1a'' ''5'']) mem_empty = (Inr (), s')
    \<and> is_ledger (mem_rows s') [''g1a'' \<mapsto> (''gno.land/r/foo'', F64 5)]"
proof -
  obtain r s' where P: "ProcessBlockWithTransactions (ep_NewService mem_client)
      (demo_message [demo_event ''Mint'' [] ''g1a'' ''5'']) mem_empty = (r, s')" by fastforce
  have "db_ok (mem_rows s') \<and> is_ledger (mem_rows s') [''g1a'' \<mapsto> (''gno.land/r/foo'', F64 5)]
      \<and> (if True then r = Inr () else \<exists>e. r = Inl e \<and> \<not> is_panic e)"
    by (rule process_refines_ledger [OF mem.sql_driver_up_axioms mem_empty_ok mem_empty_ledger _ _ P])
      (use demo_mint_named demo_mint_block in \<open>simp_all add: demo_message_def mem_client_def mem_empty_blocks\<close>)
  then show ?thesis using P by auto
qed

text \<open>
  C5. Redelivery is harmless: once a block's row exists, processing the block again changes no table,
  whatever the driver does. Only \<^verbatim>\<open>AddBlock\<close> runs; the answer is success, or its error.
\<close>

theorem known_block_is_skipped:
  assumes "sql_driver cl rows" "db_ok (rows s)" "bwt_Block m = Some b" "has_block (rows s) (b_Height b)"
    "ProcessBlockWithTransactions (ep_NewService cl) m s = (r, s')"
  shows "rows s' = rows s \<and> (r = Inr () \<or> r = Inl (EWrap ''failed to add block'' (EMsg ''failed to add block'')))"
proof -
  obtain q s1 where A: "RepositoryEnt_AddBlock cl (Some b) s = (q, s1)" by fastforce
  note ans = sql_driver.AddBlock_answer [OF assms(1,2) A]
  then have "q \<noteq> Inr False" using assms(4) by blast
  then show ?thesis using ans(3,4) A assms(3,5)
    by (cases q) (auto simp: ProcessBlockWithTransactions_def ep_NewService_def RepositoryEnt_def)
qed

theorem known_block_is_skipped_witness:
  "\<exists>r s'. ProcessBlockWithTransactions (ep_NewService mem_client)
      (demo_message [demo_event ''Mint'' [] ''g1a'' ''5'']) demo_block_store = (r, s')
    \<and> mem_rows s' = mem_rows demo_block_store"
proof -
  obtain r s' where P: "ProcessBlockWithTransactions (ep_NewService mem_client)
      (demo_message [demo_event ''Mint'' [] ''g1a'' ''5'']) demo_block_store = (r, s')" by fastforce
  show ?thesis
    using known_block_is_skipped [OF mem.sql_driver_axioms demo_block_store_ok(1) _ _ P, of demo_block] P
      demo_block_store_ok(2) by (simp add: demo_message_def demo_block_def)
qed

text \<open>
  C6. A block is booked at most once, and never completed: after any first attempt on a block with
  a hash, a second attempt succeeds without touching a table. Where the first attempt failed in the
  middle, its partial effects stay and the rest of the block is lost.
\<close>

theorem second_attempt_does_nothing:
  assumes "sql_driver_up cl rows" "db_ok (rows s)" "is_ledger (rows s) L" "bwt_Block m = Some b"
    "b_Hash b \<noteq> []" "list_all (tx_named (UniLower cl)) (bwt_Transactions m)"
    "ProcessBlockWithTransactions (ep_NewService cl) m s = (r1, s1)"
    "ProcessBlockWithTransactions (ep_NewService cl) m s1 = (r2, s2)"
  shows "r2 = Inr () \<and> rows s2 = rows s1"
proof -
  have drv: "sql_driver cl rows" using assms(1) by (simp add: sql_driver_up_def)
  obtain ok L' where "led_block (UniLower cl) (has_block (rows s) (b_Height b)) b (bwt_Transactions m) L
    = (ok, L')" by fastforce
  then have ok1: "db_ok (rows s1)" using process_step [OF assms(1-4,6,7)] by simp
  have blk: "has_block (rows s1) (b_Height b)"
    by (rule sql_driver_up.process_stores_block [OF assms(1-3,4,5,6,7)])
  obtain ex where "fst (RepositoryEnt_AddBlock cl (Some b) s1) = Inr ex"
    using sql_driver_up.AddBlock_up [OF assms(1) ok1 assms(5)] by blast
  moreover obtain q s3 where A: "RepositoryEnt_AddBlock cl (Some b) s1 = (q, s3)" by fastforce
  ultimately have "q = Inr True" "rows s3 = rows s1"
    using sql_driver.AddBlock_answer [OF drv ok1 A] blk by (cases ex; auto)+
  then show ?thesis using A assms(4,8)
    by (simp add: ProcessBlockWithTransactions_def ep_NewService_def RepositoryEnt_def)
qed

theorem second_attempt_does_nothing_witness:
  "\<exists>e s1 s2. ProcessBlockWithTransactions (ep_NewService mem_client)
      (demo_message [demo_event ''Mint'' [] ''g1a'' ''0'']) mem_empty = (Inl e, s1)
    \<and> ProcessBlockWithTransactions (ep_NewService mem_client)
      (demo_message [demo_event ''Mint'' [] ''g1a'' ''0'']) s1 = (Inr (), s2)
    \<and> mem_rows s2 = mem_rows s1"
proof -
  let ?m = "demo_message [demo_event ''Mint'' [] ''g1a'' ''0'']"
  obtain r1 s1 where P1: "ProcessBlockWithTransactions (ep_NewService mem_client) ?m mem_empty = (r1, s1)"
    by fastforce
  obtain r2 s2 where P2: "ProcessBlockWithTransactions (ep_NewService mem_client) ?m s1 = (r2, s2)"
    by fastforce
  have m: "bwt_Block ?m = Some demo_block" "b_Hash demo_block \<noteq> []"
    "list_all (tx_named (UniLower mem_client)) (bwt_Transactions ?m)"
    using demo_zero_named by (simp_all add: demo_message_def demo_block_def mem_client_def)
  have "led_block (UniLower mem_client) (has_block (mem_rows mem_empty) (b_Height demo_block)) demo_block
      (bwt_Transactions ?m) Map.empty = (False, [''g1a'' \<mapsto> (''gno.land/r/foo'', F64 0)])"
    using demo_zero_block by (simp add: mem_client_def mem_empty_blocks)
  from process_step [OF mem.sql_driver_up_axioms mem_empty_ok mem_empty_ledger m(1,3) P1 this]
  have "\<exists>e. r1 = Inl e" by auto
  moreover have "r2 = Inr () \<and> mem_rows s2 = mem_rows s1"
    by (rule second_attempt_does_nothing [OF mem.sql_driver_up_axioms mem_empty_ok mem_empty_ledger m P1 P2])
  ultimately show ?thesis using P1 P2 by blast
qed

text \<open>
  C7. A transfer between two accounts of a token moves exactly its value, and the sum of the two
  balances is unchanged, as long as the numbers stay below \<open>2 ^ 53\<close>.
\<close>

theorem transfer_moves_exactly:
  assumes "sql_driver_up cl rows" "db_ok (rows s)" "is_ledger (rows s) L"
    "t \<noteq> []" "a \<noteq> []" "b \<noteq> []" "a \<noteq> b"
    "L a = Some (t, F64 (of_int x))" "L b = Some (t, F64 (of_int y))"
    "\<bar>v\<bar> < 2 ^ 53" "\<bar>x - v\<bar> < 2 ^ 53" "\<bar>y + v\<bar> < 2 ^ 53"
    "handleTransferEvent (ep_NewService cl) tx t a b v s = (r, s')"
  shows "r = Inr () \<and>
    is_ledger (rows s') (L(a \<mapsto> (t, F64 (of_int (x - v))), b \<mapsto> (t, F64 (of_int (y + v)))))"
proof -
  note store = sql_driver_up.account_store_ent [OF assms(1)]
  have ag: "account_store.agrees (\<lambda>s. db_ok (rows s)) (\<lambda>s. is_ledger (rows s)) (r, s')
      (led_transfer t a b v L)"
    using account_store.transfer_agrees [OF store _ assms(2,3,4,5,6), of "ep_NewService cl" tx v] assms(13)
    by (simp add: ep_NewService_def)
  have w: "wrap64 (- v) = - v" using assms(10)
    by (intro wrap64_id) (auto simp: in_int64_def min_int64_def max_int64_def)
  have "led_transfer t a b v L
      = (True, L(a \<mapsto> (t, F64 (of_int (x - v))), b \<mapsto> (t, F64 (of_int (y + v)))))"
    using assms(7-12) f64_add_exact [of x "- v"] f64_add_exact [of y v]
    by (simp add: led_transfer_def led_ensure_def led_get_def led_inc_def w f64_of_int_exact
      del: f64_add.simps of_int_add of_int_minus of_int_diff)
  then show ?thesis using ag by (cases r) (auto simp: account_store.agrees_def [OF store])
qed

theorem transfer_moves_exactly_witness:
  "\<exists>s'. handleTransferEvent (ep_NewService mem_client) (demo_tx [] []) ''gno.land/r/foo'' ''g1a'' ''g1b'' 3 demo_accounts = (Inr (), s')
    \<and> is_ledger (mem_rows s') [''g1a'' \<mapsto> (''gno.land/r/foo'', F64 7), ''g1b'' \<mapsto> (''gno.land/r/foo'', F64 23)]"
proof -
  obtain r s' where P: "handleTransferEvent (ep_NewService mem_client) (demo_tx [] []) ''gno.land/r/foo'' ''g1a'' ''g1b'' 3 demo_accounts = (r, s')"
    by fastforce
  have "r = Inr () \<and> is_ledger (mem_rows s') ([''g1a'' \<mapsto> (''gno.land/r/foo'', F64 10), ''g1b'' \<mapsto> (''gno.land/r/foo'', F64 20)]
      (''g1a'' \<mapsto> (''gno.land/r/foo'', F64 (of_int (10 - 3))), ''g1b'' \<mapsto> (''gno.land/r/foo'', F64 (of_int (20 + 3)))))"
    by (rule transfer_moves_exactly [OF mem.sql_driver_up_axioms demo_accounts_ok _ _ _ _ _ _ _ _ _ P]) simp_all
  moreover have "[''g1a'' \<mapsto> (''gno.land/r/foo'', F64 10), ''g1b'' \<mapsto> (''gno.land/r/foo'', F64 20)]
      (''g1a'' \<mapsto> (''gno.land/r/foo'', F64 (of_int (10 - 3))), ''g1b'' \<mapsto> (''gno.land/r/foo'', F64 (of_int (20 + 3))))
    = [''g1a'' \<mapsto> (''gno.land/r/foo'', F64 7), ''g1b'' \<mapsto> (''gno.land/r/foo'', F64 23)]" by (auto simp: fun_eq_iff)
  ultimately show ?thesis using P by simp
qed

end
